(* ===== verification/Prelude.thy ===== *)
theory Prelude
  imports Complex_Main
begin

section \<open>Shared vocabulary of the marketplace development\<close>

text \<open>
  What every component uses: the type synonyms for identifiers and time, the errors Postgres
  raises, database transactions with rollback, tables as lists of rows with the SQL statements
  the repositories issue, the JSON values that arrive at a gateway, and the generic list lemmas
  behind them. \<open>table_simps\<close> collects the facts on tables, \<open>message_simps\<close> those that evaluate
  a JSON message.
\<close>

named_theorems table_simps \<open>how the table statements act on rows\<close>
named_theorems message_simps \<open>evaluation of JSON messages\<close>

type_synonym uuid = string
type_synonym time = int

subsection \<open>Errors and transactions\<close>

text \<open>
  The SQLSTATE classes the code distinguishes or can meet: \<open>23505\<close>, \<open>23503\<close>, \<open>23514\<close>,
  \<open>22003\<close>, \<open>40P01\<close>, \<open>40001\<close>, \<open>22P02\<close>, \<open>22001\<close>, and TypeORM's \<open>EntityNotFoundError\<close>.
\<close>

datatype db_error =
    UniqueViolation
  | ForeignKeyViolation
  | CheckViolation
  | NumericOutOfRange
  | DeadlockDetected
  | SerializationFailure
  | InvalidText
  | StringTooLong
  | EntityNotFound

text \<open>
  Code inside a transaction maps the state to an error or to a value and the next state; the
  error carries no state, because the transaction is rolled back. \<open>transactional\<close> is the
  boundary: an error leaves the state it started from.
\<close>

type_synonym ('s, 'e, 'a) tx = "'s \<Rightarrow> 'e + ('a \<times> 's)"

definition transactional :: "('s, 'e, 'a) tx \<Rightarrow> 's \<Rightarrow> ('e + 'a) \<times> 's" where
  "transactional f s = (case f s of Inl e \<Rightarrow> (Inl e, s) | Inr (x, s') \<Rightarrow> (Inr x, s'))"

lemma transactional_Inl [simp]: "f s = Inl e \<Longrightarrow> transactional f s = (Inl e, s)"
  by (simp add: transactional_def)

lemma transactional_Inr [simp]: "f s = Inr (x, s') \<Longrightarrow> transactional f s = (Inr x, s')"
  by (simp add: transactional_def)

text \<open>A rolled back transaction changes nothing; a committed one ran its body to the end.\<close>

lemma transactional_cases:
  assumes "transactional f s = (r, t)"
  obtains (rollback) e where "f s = Inl e" "r = Inl e" "t = s"
    | (commit) x where "f s = Inr (x, t)" "r = Inr x"
  using assms by (auto simp: transactional_def split: sum.splits)

lemma transactional_invariant:
  assumes "I s" and "\<And>x t. f s = Inr (x, t) \<Longrightarrow> I t"
  shows "I (snd (transactional f s))"
  using assms by (auto simp: transactional_def split: sum.splits)

subsection \<open>Column types\<close>

text \<open>
  \<open>integer\<close> columns hold 32-bit signed values, and the domain \<open>uint\<close> positive ones;
  \<open>numeric(12,2)\<close> columns hold a number of cents with at most twelve digits, and the domain
  \<open>amount\<close> the non-negative ones. A value outside raises, it never wraps.
\<close>

definition int4 :: "int \<Rightarrow> bool" where
  "int4 n \<longleftrightarrow> - (2 ^ 31) \<le> n \<and> n < 2 ^ 31"

definition uint :: "int \<Rightarrow> bool" where
  "uint n \<longleftrightarrow> 0 < n \<and> n < 2 ^ 31"

definition numeric12_2 :: "int \<Rightarrow> bool" where
  "numeric12_2 c \<longleftrightarrow> \<bar>c\<bar> < 10 ^ 12"

definition amount :: "int \<Rightarrow> bool" where
  "amount c \<longleftrightarrow> 0 \<le> c \<and> c < 10 ^ 12"

lemma amount_numeric12_2: "amount c \<Longrightarrow> numeric12_2 c"
  by (simp add: amount_def numeric12_2_def)

subsection \<open>Tables as lists of rows\<close>

text \<open>
  \<open>UPDATE ... SET f WHERE p\<close>, and the number of rows it returns.
\<close>

definition update_where :: "('r \<Rightarrow> bool) \<Rightarrow> ('r \<Rightarrow> 'r) \<Rightarrow> 'r list \<Rightarrow> 'r list" where
  "update_where p f rs = map (\<lambda>r. if p r then f r else r) rs"

definition count_where :: "('r \<Rightarrow> bool) \<Rightarrow> 'r list \<Rightarrow> nat" where
  "count_where p rs = length (filter p rs)"

lemma update_where_Nil [simp, table_simps]: "update_where p f [] = []"
  by (simp add: update_where_def)

lemma update_where_Cons [simp, table_simps]:
  "update_where p f (r # rs) = (if p r then f r else r) # update_where p f rs"
  by (simp add: update_where_def)

lemma update_where_append [simp, table_simps]:
  "update_where p f (rs @ qs) = update_where p f rs @ update_where p f qs"
  by (simp add: update_where_def)

lemma count_where_Nil [simp, table_simps]: "count_where p [] = 0"
  by (simp add: count_where_def)

lemma count_where_Cons [simp, table_simps]:
  "count_where p (r # rs) = (if p r then Suc (count_where p rs) else count_where p rs)"
  by (simp add: count_where_def)

lemma count_where_append [simp, table_simps]:
  "count_where p (rs @ qs) = count_where p rs + count_where p qs"
  by (simp add: count_where_def)

lemma count_where_0 [table_simps]: "count_where p rs = 0 \<longleftrightarrow> (\<forall>r\<in>set rs. \<not> p r)"
  by (auto simp: count_where_def filter_empty_conv)

lemma count_where_pos [table_simps]: "0 < count_where p rs \<longleftrightarrow> (\<exists>r\<in>set rs. p r)"
  by (auto simp: count_where_def filter_empty_conv)

lemma update_where_id: "(\<And>r. r \<in> set rs \<Longrightarrow> p r \<Longrightarrow> f r = r) \<Longrightarrow> update_where p f rs = rs"
  by (induction rs) auto

lemma update_where_none: "(\<And>r. r \<in> set rs \<Longrightarrow> \<not> p r) \<Longrightarrow> update_where p f rs = rs"
  by (induction rs) auto

lemma in_update_where: "r \<in> set (update_where p f rs) \<longleftrightarrow> (\<exists>q\<in>set rs. r = (if p q then f q else q))"
  by (auto simp: update_where_def)

lemma update_where_all:
  assumes "\<And>q. q \<in> set rs \<Longrightarrow> P (if p q then f q else q)"
  shows "\<forall>r\<in>set (update_where p f rs). P r"
  using assms unfolding update_where_def set_map by fast

lemma map_update_where_key:
  "(\<And>r. g (f r) = g r) \<Longrightarrow> map g (update_where p f rs) = map g rs"
  by (induction rs) auto

lemma image_update_where_key:
  "(\<And>r. g (f r) = g r) \<Longrightarrow> g ` set (update_where p f rs) = g ` set rs"
  by (induction rs) auto

lemma length_update_where [simp]: "length (update_where p f rs) = length rs"
  by (simp add: update_where_def)

text \<open>\<open>findOne\<close>: the first row that satisfies the condition.\<close>

definition find_row :: "('r \<Rightarrow> bool) \<Rightarrow> 'r list \<Rightarrow> 'r option" where
  "find_row p rs = List.find p rs"

lemma find_row_Nil [simp, table_simps]: "find_row p [] = None"
  by (simp add: find_row_def)

lemma find_row_Cons [simp, table_simps]:
  "find_row p (r # rs) = (if p r then Some r else find_row p rs)"
  by (simp add: find_row_def)

lemma find_row_Some: "find_row p rs = Some r \<Longrightarrow> r \<in> set rs \<and> p r"
  by (induction rs) (auto split: if_splits)

lemma find_row_None: "find_row p rs = None \<longleftrightarrow> (\<forall>r\<in>set rs. \<not> p r)"
  by (induction rs) auto

lemma find_row_append:
  "find_row p (rs @ qs) = (case find_row p rs of None \<Rightarrow> find_row p qs | Some r \<Rightarrow> Some r)"
  by (induction rs) auto

lemma find_row_update_where:
  assumes "\<And>r. q (f r) = q r"
  shows "find_row q (update_where p f rs)
    = map_option (\<lambda>r. if p r then f r else r) (find_row q rs)"
  using assms by (induction rs) auto

text \<open>With a unique key, the row that is found is the only one with that key.\<close>

lemma find_row_unique:
  assumes "distinct (map k rs)" and "r \<in> set rs"
  shows "find_row (\<lambda>x. k x = k r) rs = Some r"
  using assms by (induction rs) (auto simp: image_iff)

lemma distinct_key_eq:
  assumes "distinct (map k rs)" and "r \<in> set rs" and "q \<in> set rs" and "k r = k q"
  shows "r = q"
  using assms by (auto simp: distinct_map dest: inj_onD)

lemma list_ex_key: "list_ex (\<lambda>r. k r = i) rs \<longleftrightarrow> i \<in> k ` set rs"
  by (auto simp: list_ex_iff)

lemma count_where_card:
  assumes "distinct (map k rs)"
  shows "count_where p rs = card (k ` {r \<in> set rs. p r})"
proof -
  have "distinct (map k (filter p rs))" using assms by (rule distinct_map_filter)
  from distinct_card [OF this] show ?thesis by (simp add: count_where_def)
qed

subsection \<open>JSON messages\<close>

datatype json =
    JNull
  | JBool bool
  | JNum rat
  | JStr string
  | JArr "json list"
  | JObj "(string \<times> json) list"

text \<open>
  Optional chaining \<open>v?.name\<close>: \<open>undefined\<close> (\<open>None\<close>) on \<open>undefined\<close>, on \<open>null\<close> and on every value
  without that property.
\<close>

fun jfield :: "json option \<Rightarrow> string \<Rightarrow> json option" where
  "jfield (Some (JObj kvs)) name = map_of kvs name"
| "jfield _ name = None"

fun jstring :: "json option \<Rightarrow> string option" where
  "jstring (Some (JStr s)) = Some s"
| "jstring _ = None"

text \<open>\<open>Number.isSafeInteger\<close>, and the integer it then holds.\<close>

definition max_safe_integer :: int where
  "max_safe_integer = 2 ^ 53 - 1"

fun safe_integer :: "json option \<Rightarrow> int option" where
  "safe_integer (Some (JNum r)) =
     (if of_int \<lfloor>r\<rfloor> = r \<and> \<bar>\<lfloor>r\<rfloor>\<bar> \<le> max_safe_integer then Some \<lfloor>r\<rfloor> else None)"
| "safe_integer _ = None"

declare jfield.simps [message_simps] jstring.simps [message_simps] safe_integer.simps [message_simps]

lemma safe_integer_of_int [simp, message_simps]:
  "safe_integer (Some (JNum (of_int n))) = (if \<bar>n\<bar> \<le> max_safe_integer then Some n else None)"
  by simp

lemma int4_safe: "int4 n \<Longrightarrow> \<bar>n\<bar> \<le> max_safe_integer"
  by (auto simp: int4_def max_safe_integer_def abs_le_iff)

subsection \<open>Replies of a message handler\<close>

text \<open>
  A RabbitMQ handler replies, returns \<open>new Nack(false)\<close> (the message is dead-lettered and the
  caller gets no answer), or lets an error escape (no answer either).
\<close>

datatype 'a rpc = RpcReply 'a | RpcNack | RpcThrow db_error

text \<open>
  A Kafka handler that throws \<open>KafkaRejectedMessageException\<close> rejects the message for good; any
  other error is retried by the consumer.
\<close>

datatype kafka_error = KafkaRejectedMessage | KafkaHandlerError db_error

text \<open>The HTTP exceptions of the controllers; \<open>ServerError\<close> is any error that becomes a 500.\<close>

datatype http_error =
    BadRequest | Unauthorized | Forbidden | NotFound | Conflict | TooManyRequests
  | ServiceUnavailable | InternalError | ServerError db_error

subsection \<open>Sums over lists\<close>

lemma sum_list_update_where:
  assumes "\<And>r. r \<in> set rs \<Longrightarrow> p r \<Longrightarrow> (g (f r) :: int) = g r"
  shows "sum_list (map g (update_where p f rs)) = sum_list (map g rs)"
  using assms by (induction rs) auto

lemma sum_list_filter_split:
  "(\<Sum>x\<leftarrow>xs. if p x then (g x :: int) else 0) = (\<Sum>x\<leftarrow>filter p xs. g x)"
  by (induction xs) auto

end
