(* ===== verification/Js_Number.thy ===== *)
theory Js_Number
  imports Prelude "HOL-Library.Log_Nat"
begin

section \<open>JavaScript numbers and decimal strings\<close>

text \<open>
  Money is a \<open>numeric(12,2)\<close> column; it reaches the program as a decimal string, is read by
  \<open>Number\<close> into an IEEE double, multiplied and added there, and written back by \<open>toFixed(2)\<close>.
  This theory models those operations: a double is a rational, \<open>to_double\<close> rounds to the
  nearest representable one (53 significant bits, gradual underflow, ties to even), and the
  arithmetic rounds the exact result. Overflow to infinity is out of scope: the values of this
  program stay below \<open>10\<^sup>2\<^sup>1\<close>, where \<open>toFixed\<close> also stays in positional notation. The lemmas bound
  the rounding error and show that \<open>toFixed(2)\<close> recovers the exact cents.
\<close>

subsection \<open>Rounding to a double\<close>

definition round_half_even :: "rat \<Rightarrow> int" where
  "round_half_even x =
     (let f = \<lfloor>x\<rfloor>; d = x - of_int f
      in if d < 1/2 then f else if 1/2 < d then f + 1 else if even f then f else f + 1)"

definition ulp_exp :: "rat \<Rightarrow> nat" where
  "ulp_exp x = nat (bitlen \<lfloor>\<bar>x\<bar> * 2 ^ 1074\<rfloor> - 53)"

definition ulp :: "rat \<Rightarrow> rat" where
  "ulp x = 2 ^ ulp_exp x / 2 ^ 1074"

definition to_double :: "rat \<Rightarrow> rat" where
  "to_double x = of_int (round_half_even (x / ulp x)) * ulp x"

definition js_add :: "rat \<Rightarrow> rat \<Rightarrow> rat" where
  "js_add x y = to_double (x + y)"

definition js_sub :: "rat \<Rightarrow> rat \<Rightarrow> rat" where
  "js_sub x y = to_double (x - y)"

definition js_mul :: "rat \<Rightarrow> rat \<Rightarrow> rat" where
  "js_mul x y = to_double (x * y)"

subsection \<open>Decimal strings\<close>

definition digit :: "char \<Rightarrow> bool" where
  "digit c \<longleftrightarrow> c \<in> set ''0123456789''"

definition digit_value :: "char \<Rightarrow> nat" where
  "digit_value c = of_char c - 48"

definition digit_char :: "nat \<Rightarrow> char" where
  "digit_char n = char_of (48 + n)"

definition digits_value :: "string \<Rightarrow> nat" where
  "digits_value s = foldl (\<lambda>n c. 10 * n + digit_value c) 0 s"

fun show_nat :: "nat \<Rightarrow> string" where
  "show_nat n = (if n < 10 then [digit_char n] else show_nat (n div 10) @ [digit_char (n mod 10)])"

declare show_nat.simps [simp del]

definition decimal_unsigned :: "string \<Rightarrow> rat option" where
  "decimal_unsigned s =
     (let i = takeWhile digit s; r = dropWhile digit s
      in if i = [] then None
         else case r of
           [] \<Rightarrow> Some (of_nat (digits_value i))
         | c # f \<Rightarrow>
             if c = CHR ''.'' \<and> f \<noteq> [] \<and> list_all digit f
             then Some (of_nat (digits_value i) + of_nat (digits_value f) / 10 ^ length f)
             else None)"

text \<open>
  The value of a plain decimal string, \<open>None\<close> where it is not one. \<open>Number\<close> rounds it; Postgres
  reads it exactly.
\<close>

definition decimal_value :: "string \<Rightarrow> rat option" where
  "decimal_value s =
     (case s of c # t \<Rightarrow> if c = CHR ''-'' then map_option uminus (decimal_unsigned t)
                        else decimal_unsigned s
      | [] \<Rightarrow> None)"

definition js_Number :: "string \<Rightarrow> rat option" where
  "js_Number s = map_option to_double (decimal_value s)"

text \<open>The regular expression \<open>/^\d{1,10}(\.\d{1,2})?$/\<close> of the account gateway.\<close>

definition amount_regex :: "string \<Rightarrow> bool" where
  "amount_regex s =
     (let i = takeWhile digit s; r = dropWhile digit s
      in 1 \<le> length i \<and> length i \<le> 10
         \<and> (case r of [] \<Rightarrow> True
            | c # f \<Rightarrow> c = CHR ''.'' \<and> 1 \<le> length f \<and> length f \<le> 2 \<and> list_all digit f))"

text \<open>
  \<open>toFixed(2)\<close> picks the integer \<open>n\<close> with \<open>n / 100\<close> nearest to the number, the larger on a tie, and
  prints it with two decimals. \<open>cents\<close> is that integer, \<open>fmt_cents\<close> the printing; it is also how
  Postgres prints a \<open>numeric(12,2)\<close>.
\<close>

definition cents :: "rat \<Rightarrow> int" where
  "cents x = (if x < 0 then - \<lfloor>100 * (- x) + 1/2\<rfloor> else \<lfloor>100 * x + 1/2\<rfloor>)"

definition fmt_nat_cents :: "nat \<Rightarrow> string" where
  "fmt_nat_cents n =
     show_nat (n div 100) @ [CHR ''.'', digit_char (n div 10 mod 10), digit_char (n mod 10)]"

definition fmt_cents :: "int \<Rightarrow> string" where
  "fmt_cents c = (if c < 0 then CHR ''-'' # fmt_nat_cents (nat (- c)) else fmt_nat_cents (nat c))"

definition toFixed2 :: "rat \<Rightarrow> string" where
  "toFixed2 x =
     (if x < 0 then CHR ''-'' # fmt_nat_cents (nat \<lfloor>100 * (- x) + 1/2\<rfloor>)
      else fmt_nat_cents (nat \<lfloor>100 * x + 1/2\<rfloor>))"

text \<open>The cents Postgres stores for a string written with two decimals.\<close>

definition pg_cents :: "string \<Rightarrow> int option" where
  "pg_cents s = map_option cents (decimal_value s)"

subsection \<open>Digits\<close>

lemma digit_code: "digit c \<longleftrightarrow> 48 \<le> (of_char c :: nat) \<and> of_char c \<le> (57 :: nat)"
proof -
  have "digit c \<longleftrightarrow> (of_char c :: nat) \<in> {48, 49, 50, 51, 52, 53, 54, 55, 56, 57}"
    by (cases c) (auto simp: digit_def of_char_def)
  moreover have "n \<in> {48, 49, 50, 51, 52, 53, 54, 55, 56, 57} \<longleftrightarrow> 48 \<le> n \<and> n \<le> 57" for n :: nat
    by (simp, arith)
  ultimately show ?thesis by blast
qed

lemma of_char_digit_char: "n < 10 \<Longrightarrow> of_char (digit_char n) = 48 + n"
  by (simp add: digit_char_def)

lemma digit_digit_char [simp]: "n < 10 \<Longrightarrow> digit (digit_char n)"
  by (simp add: digit_code of_char_digit_char)

lemma digit_value_digit_char [simp]: "n < 10 \<Longrightarrow> digit_value (digit_char n) = n"
  by (simp add: digit_value_def of_char_digit_char)

lemma not_digit_point [simp]: "\<not> digit (CHR ''.'')" and not_digit_minus [simp]: "\<not> digit (CHR ''-'')"
  by (simp_all add: digit_def)

lemma digits_value_Nil [simp]: "digits_value [] = 0"
  by (simp add: digits_value_def)

lemma digits_value_snoc [simp]: "digits_value (s @ [c]) = 10 * digits_value s + digit_value c"
  by (simp add: digits_value_def)

lemma digits_value_two: "digits_value [a, b] = 10 * digit_value a + digit_value b"
  by (simp add: digits_value_def)

lemma digit_value_less: "digit c \<Longrightarrow> digit_value c < 10"
  unfolding digit_code digit_value_def by (elim conjE) arith

lemma digits_value_less: "list_all digit s \<Longrightarrow> digits_value s < 10 ^ length s"
proof (induction s rule: rev_induct)
  case (snoc c s)
  then show ?case using digit_value_less [of c] by simp
qed simp

lemma show_nat_digits [simp]: "list_all digit (show_nat n)"
  by (induction n rule: show_nat.induct) (subst show_nat.simps, simp)

lemma show_nat_not_Nil [simp]: "show_nat n \<noteq> []"
  by (subst show_nat.simps) simp

lemma digits_value_show_nat [simp]: "digits_value (show_nat n) = n"
proof (induction n rule: show_nat.induct)
  case (1 n)
  show ?case
  proof (cases "n < 10")
    case True
    then show ?thesis by (subst show_nat.simps) (simp add: digits_value_def)
  next
    case False
    then show ?thesis using 1 by (subst show_nat.simps) simp
  qed
qed

lemma show_nat_inject: "show_nat m = show_nat n \<longleftrightarrow> m = n"
  by (metis digits_value_show_nat)

lemma length_show_nat: "0 < k \<Longrightarrow> n < 10 ^ k \<Longrightarrow> length (show_nat n) \<le> k"
proof (induction k arbitrary: n)
  case (Suc k)
  show ?case
  proof (cases "n < 10")
    case True
    then show ?thesis by (subst show_nat.simps) simp
  next
    case False
    then have "0 < k" using Suc.prems by (cases k) auto
    moreover have "n div 10 < 10 ^ k" using Suc.prems by (simp add: div_less_iff_less_mult mult.commute)
    ultimately have "length (show_nat (n div 10)) \<le> k" by (rule Suc.IH)
    then show ?thesis using False by (subst show_nat.simps) simp
  qed
qed simp

lemma takeWhile_digits_append:
  assumes "list_all digit s" and "\<not> digit c"
  shows "takeWhile digit (s @ c # t) = s" and "dropWhile digit (s @ c # t) = c # t"
  using assms by (induction s) auto

lemma takeWhile_digits:
  assumes "list_all digit s"
  shows "takeWhile digit s = s" and "dropWhile digit s = []"
  using assms by (induction s) auto

lemma show_nat_no_minus: "show_nat n \<noteq> CHR ''-'' # s"
proof
  assume a: "show_nat n = CHR ''-'' # s"
  have "list_all digit (show_nat n)" by simp
  then show False unfolding a by simp
qed

subsection \<open>Printing and reading cents\<close>

lemma decimal_unsigned_fmt [simp]:
  "decimal_unsigned (fmt_nat_cents n) = Some (of_nat n / 100)"
proof -
  let ?f = "[digit_char (n div 10 mod 10), digit_char (n mod 10)]"
  have eq: "fmt_nat_cents n = show_nat (n div 100) @ CHR ''.'' # ?f"
    by (simp add: fmt_nat_cents_def)
  have f: "digits_value ?f = n mod 100"
    using mod_mult2_eq [of n 10 10] by (simp add: digits_value_two)
  have "decimal_unsigned (fmt_nat_cents n)
    = Some (of_nat (n div 100) + of_nat (n mod 100) / 100)"
    unfolding decimal_unsigned_def Let_def eq
    by (subst takeWhile_digits_append takeWhile_digits_append(2), simp, simp)+ (simp add: f)
  moreover have "(of_nat (n div 100) + of_nat (n mod 100) / 100 :: rat) = of_nat n / 100"
  proof -
    have "(of_nat n :: rat) = of_nat (100 * (n div 100) + n mod 100)" by simp
    then show ?thesis by (simp only: of_nat_add of_nat_mult) simp
  qed
  ultimately show ?thesis by simp
qed

lemma fmt_nat_cents_no_minus: "fmt_nat_cents n \<noteq> CHR ''-'' # s"
proof
  assume "fmt_nat_cents n = CHR ''-'' # s"
  then obtain t where "show_nat (n div 100) = CHR ''-'' # t"
    by (cases "show_nat (n div 100)") (auto simp: fmt_nat_cents_def)
  then show False using show_nat_no_minus by blast
qed

lemma decimal_value_fmt_nat: "decimal_value (fmt_nat_cents n) = Some (of_nat n / 100)"
proof (cases "fmt_nat_cents n")
  case Nil
  then show ?thesis by (simp add: fmt_nat_cents_def)
next
  case (Cons c t)
  then have "c \<noteq> CHR ''-''" using fmt_nat_cents_no_minus [of n t] by blast
  then show ?thesis
    unfolding decimal_value_def Cons list.case using decimal_unsigned_fmt [of n] Cons by simp
qed

lemma decimal_value_fmt_cents [simp]: "decimal_value (fmt_cents c) = Some (of_int c / 100)"
proof (cases "c < 0")
  case True
  then show ?thesis by (simp add: fmt_cents_def decimal_value_def)
next
  case False
  then show ?thesis by (simp add: fmt_cents_def decimal_value_fmt_nat)
qed

lemma cents_exact [simp]: "cents (of_int c / 100) = c"
proof -
  have "\<lfloor>(of_int c :: rat) + 1/2\<rfloor> = c" for c
    by (rule floor_unique) simp_all
  from this [of c] this [of "- c"] show ?thesis by (simp add: cents_def)
qed

lemma pg_cents_fmt_cents [simp]: "pg_cents (fmt_cents c) = Some c"
  by (simp add: pg_cents_def)

lemma fmt_cents_inject [simp]: "fmt_cents a = fmt_cents b \<longleftrightarrow> a = b"
  by (metis pg_cents_fmt_cents option.inject)

lemma cents_nonneg: "0 \<le> x \<Longrightarrow> 0 \<le> cents x"
  by (simp add: cents_def)

lemma toFixed2_cents: "0 \<le> x \<Longrightarrow> toFixed2 x = fmt_cents (cents x)"
  by (simp add: toFixed2_def fmt_cents_def cents_def not_less)

lemma amount_regex_fmt_cents:
  assumes "amount c"
  shows "amount_regex (fmt_cents c)"
proof -
  let ?n = "nat c"
  let ?f = "[digit_char (?n div 10 mod 10), digit_char (?n mod 10)]"
  have eq: "fmt_cents c = show_nat (?n div 100) @ CHR ''.'' # ?f"
    using assms by (simp add: fmt_cents_def fmt_nat_cents_def amount_def)
  have "?n < 10 ^ 12" using assms by (auto simp: amount_def nat_less_iff)
  then have "?n div 100 < 10 ^ 10" by simp
  then have "length (show_nat (?n div 100)) \<le> 10" by (intro length_show_nat) simp_all
  moreover have "1 \<le> length (show_nat (?n div 100))"
    using show_nat_not_Nil [of "?n div 100"] by (cases "show_nat (?n div 100)") auto
  ultimately show ?thesis
    unfolding amount_regex_def Let_def eq
    by (subst takeWhile_digits_append takeWhile_digits_append(2), simp, simp)+ simp
qed

subsection \<open>The rounding error\<close>

definition dbl_eps :: rat where "dbl_eps = 1 / 2 ^ 53"
definition dbl_tiny :: rat where "dbl_tiny = 1 / 2 ^ 1075"

lemma dbl_tiny_bounds: "0 < dbl_tiny" "dbl_tiny \<le> 1 / 2 ^ 75"
proof -
  have "(2 :: rat) ^ 75 \<le> 2 ^ 1075" by (rule power_increasing) simp_all
  then show "dbl_tiny \<le> 1 / 2 ^ 75" unfolding dbl_tiny_def by (intro divide_left_mono) simp_all
qed (simp add: dbl_tiny_def)

lemma round_half_even_error: "\<bar>of_int (round_half_even x) - x\<bar> \<le> 1/2"
proof -
  define f where "f = \<lfloor>x\<rfloor>"
  have "of_int f \<le> x" "x < of_int f + 1" unfolding f_def by linarith+
  then show ?thesis
    unfolding round_half_even_def Let_def f_def [symmetric] by (auto simp: abs_le_iff)
qed

lemma ulp_pos [simp]: "0 < ulp x"
  by (simp add: ulp_def)

lemma ulp_nonneg [simp]: "0 \<le> ulp x" and ulp_nonzero [simp]: "ulp x \<noteq> 0"
  using ulp_pos [of x] by (simp_all only: less_imp_le less_imp_neq [symmetric] not_False_eq_True)

lemma ulp_le: "ulp x \<le> 2 * (\<bar>x\<bar> * dbl_eps) + 2 * dbl_tiny"
proof -
  define n where "n = \<lfloor>\<bar>x\<bar> * 2 ^ 1074\<rfloor>"
  have n: "of_int n \<le> \<bar>x\<bar> * 2 ^ 1074" "0 \<le> n" unfolding n_def by simp_all
  show ?thesis
  proof (cases "bitlen n \<le> 53")
    case True
    then have "ulp x = 1 / 2 ^ 1074" by (simp add: ulp_def ulp_exp_def n_def)
    also have "\<dots> = 2 * dbl_tiny" unfolding dbl_tiny_def power_Suc [of _ 1074, symmetric] by simp
    finally show ?thesis by (simp add: dbl_eps_def)
  next
    case False
    define k where "k = nat (bitlen n - 53)"
    have pos: "0 < n" using False n(2) by (cases "n = 0") auto
    have "2 ^ nat (bitlen n - 1) \<le> n" using bitlen_bounds [OF pos] by simp
    moreover have "nat (bitlen n - 1) = k + 52" using False by (simp add: k_def)
    ultimately have "(2 :: int) ^ k * 2 ^ 52 \<le> n" by (simp add: power_add)
    then have "(of_int (2 ^ k * 2 ^ 52) :: rat) \<le> of_int n" by (simp only: of_int_le_iff)
    with n(1) have "(2 :: rat) ^ k * 2 ^ 52 \<le> \<bar>x\<bar> * 2 ^ 1074" by simp
    then have "(2 :: rat) ^ k / 2 ^ 1074 \<le> \<bar>x\<bar> / 2 ^ 52"
      by (subst pos_divide_le_eq, simp) (simp only: times_divide_eq_left, subst pos_le_divide_eq, simp, simp)
    also have "\<dots> = 2 * (\<bar>x\<bar> * dbl_eps)" by (simp add: dbl_eps_def)
    finally show ?thesis using dbl_tiny_bounds by (simp add: ulp_def ulp_exp_def n_def k_def)
  qed
qed

lemma to_double_error: "\<bar>to_double x - x\<bar> \<le> \<bar>x\<bar> * dbl_eps + dbl_tiny"
proof -
  have "\<bar>to_double x - x\<bar> = \<bar>(of_int (round_half_even (x / ulp x)) - x / ulp x) * ulp x\<bar>"
    by (simp add: to_double_def left_diff_distrib)
  also have "\<dots> = \<bar>of_int (round_half_even (x / ulp x)) - x / ulp x\<bar> * ulp x"
    by (simp add: abs_mult)
  also have "\<dots> \<le> 1/2 * ulp x"
    by (intro mult_right_mono round_half_even_error) (simp add: less_imp_le)
  also have "\<dots> \<le> \<bar>x\<bar> * dbl_eps + dbl_tiny" using ulp_le [of x] by simp
  finally show ?thesis .
qed

lemma to_double_0 [simp]: "to_double 0 = 0"
  by (simp add: to_double_def round_half_even_def)

lemma to_double_nonneg: "0 \<le> x \<Longrightarrow> 0 \<le> to_double x"
proof -
  assume "0 \<le> x"
  then have "0 \<le> x / ulp x" by (simp add: zero_le_divide_iff)
  then have "0 \<le> \<lfloor>x / ulp x\<rfloor>" by simp
  then have "0 \<le> round_half_even (x / ulp x)" unfolding round_half_even_def Let_def by auto
  then show ?thesis by (simp add: to_double_def)
qed

subsection \<open>Money in doubles\<close>

lemma to_double_money:
  assumes "\<bar>y\<bar> \<le> 10 ^ 10 + 1"
  shows "\<bar>to_double y - y\<bar> \<le> 1 / 800000"
proof -
  have "\<bar>y\<bar> * dbl_eps \<le> (10 ^ 10 + 1) * dbl_eps"
    using assms by (intro mult_right_mono) (simp_all add: dbl_eps_def)
  also have "\<dots> + 1 / 2 ^ 75 \<le> 1 / 800000" by (simp add: dbl_eps_def)
  finally show ?thesis using to_double_error [of y] dbl_tiny_bounds by linarith
qed

lemma cents_near:
  assumes "\<bar>x - of_int c / 100\<bar> < 1 / 200"
  shows "cents x = c"
proof (cases "x < 0")
  case True
  have "\<lfloor>100 * (- x) + 1/2\<rfloor> = - c"
    by (rule floor_unique; unfold of_int_minus; use assms in linarith)
  then show ?thesis using True by (simp add: cents_def)
next
  case False
  have "\<lfloor>100 * x + 1/2\<rfloor> = c"
    by (rule floor_unique) (use assms in \<open>linarith+\<close>)
  then show ?thesis using False by (simp add: cents_def)
qed

text \<open>What Postgres stores for \<open>x.toFixed(2)\<close>, also where it prints \<open>-0.00\<close>.\<close>

lemma pg_cents_toFixed2 [simp]: "pg_cents (toFixed2 x) = Some (cents x)"
proof (cases "x < 0")
  case True
  then have n: "0 \<le> \<lfloor>100 * (- x) + 1/2\<rfloor>" by simp
  have "decimal_value (toFixed2 x) = Some (of_int (- \<lfloor>100 * (- x) + 1/2\<rfloor>) / 100)"
    using True n by (simp add: toFixed2_def decimal_value_def)
  then have "pg_cents (toFixed2 x) = Some (cents (of_int (- \<lfloor>100 * (- x) + 1/2\<rfloor>) / 100))"
    by (simp add: pg_cents_def)
  then show ?thesis unfolding cents_exact using True by (simp add: cents_def)
next
  case False
  then show ?thesis by (simp add: toFixed2_cents not_less)
qed

lemma cents_to_double [simp]:
  assumes "amount c"
  shows "cents (to_double (of_int c / 100)) = c"
proof (rule cents_near)
  have "(of_int c :: rat) \<le> of_int (10 ^ 12)" using assms
    by (subst of_int_le_iff) (simp add: amount_def)
  moreover have "(0 :: rat) \<le> of_int c" using assms by (simp add: amount_def)
  ultimately have "\<bar>of_int c / 100 :: rat\<bar> \<le> 10 ^ 10 + 1" by simp
  from to_double_money [OF this]
  show "\<bar>to_double (of_int c / 100) - of_int c / 100\<bar> < 1 / 200" by linarith
qed

lemma toFixed2_to_double [simp]:
  "amount c \<Longrightarrow> toFixed2 (to_double (of_int c / 100)) = fmt_cents c"
  by (simp add: toFixed2_cents to_double_nonneg amount_def)

lemma to_double_pos:
  assumes "0 < (c :: int)"
  shows "0 < to_double (of_int c / 100)"
proof -
  let ?x = "of_int c / 100 :: rat"
  have "1 / 100 \<le> ?x" using assms by simp
  moreover have "?x * dbl_eps \<le> ?x / 2" using assms by (simp add: dbl_eps_def)
  moreover have "dbl_tiny \<le> 1 / 1000" using dbl_tiny_bounds(2) by (rule order_trans) simp
  moreover have "\<bar>?x\<bar> = ?x" using assms by simp
  ultimately show ?thesis using to_double_error [of ?x] unfolding abs_le_iff by linarith
qed

text \<open>What a string that matches the regular expression denotes.\<close>

lemma amount_regex_cents:
  assumes "amount_regex s"
  obtains c where "amount c" and "decimal_value s = Some (of_int c / 100)"
proof -
  define i where "i = takeWhile digit s"
  define r where "r = dropWhile digit s"
  have i: "1 \<le> length i" "length i \<le> 10" "list_all digit i"
    using assms by (auto simp: amount_regex_def Let_def i_def list_all_iff dest: set_takeWhileD)
  have "(10 :: nat) ^ length i \<le> 10 ^ 10" using i(2) by (intro power_increasing) simp_all
  with digits_value_less [OF i(3)] have lt: "digits_value i < 10 ^ 10" by linarith
  have eq: "decimal_value s = decimal_unsigned s"
    using i(1) unfolding i_def by (cases s) (auto simp: decimal_value_def split: if_splits)
  show ?thesis
  proof (cases r)
    case Nil
    have "decimal_value s = Some (of_nat (digits_value i))"
      using i(1) Nil unfolding eq decimal_unsigned_def Let_def i_def [symmetric] r_def [symmetric] by auto
    then show ?thesis using lt by (intro that [of "100 * int (digits_value i)"]) (simp_all add: amount_def)
  next
    case (Cons p f)
    then have f: "p = CHR ''.''" "1 \<le> length f" "length f \<le> 2" "list_all digit f"
      using assms by (auto simp: amount_regex_def Let_def r_def)
    define k where "k = digits_value f * 10 ^ (2 - length f)"
    have "f \<noteq> []" "i \<noteq> []" using f(2) i(1) by auto
    then have v: "decimal_value s
      = Some (of_nat (digits_value i) + of_nat (digits_value f) / 10 ^ length f)"
      using Cons f unfolding eq decimal_unsigned_def Let_def i_def r_def by simp
    have "length f = 1 \<or> length f = 2" using f(2,3) by linarith
    then have k: "k < 100" "(of_nat (digits_value f) / 10 ^ length f :: rat) = of_nat k / 100"
      using digits_value_less [OF f(4)] by (auto simp: k_def)
    have "amount (100 * int (digits_value i) + int k)" using lt k(1) by (simp add: amount_def)
    then show ?thesis by (rule that) (simp add: v k(2) add_divide_distrib)
  qed
qed

lemma js_Number_regex:
  assumes "amount_regex s"
  obtains c where "amount c" and "pg_cents s = Some c"
    and "js_Number s = Some (to_double (of_int c / 100))"
    and "toFixed2 (to_double (of_int c / 100)) = fmt_cents c"
  using amount_regex_cents [OF assms]
  by (metis js_Number_def option.map(2) pg_cents_def cents_exact toFixed2_to_double)

lemma js_Number_fmt_cents [simp]: "js_Number (fmt_cents c) = Some (to_double (of_int c / 100))"
  by (simp add: js_Number_def)

text \<open>
  A price times a quantity, and the sum of such products: the error of each rounding stays below
  a few millionths as long as the exact total stays within the range of the column.
\<close>

lemma scaled_error:
  assumes "\<bar>x - y\<bar> \<le> k * (p * dbl_eps + dbl_tiny)" and "0 \<le> p" "0 \<le> q" "q \<le> 2 ^ 31"
    and "p * q \<le> 10 ^ 10" "0 \<le> k"
  shows "\<bar>x * q - y * q\<bar> \<le> k * (1 / 800000)"
proof -
  have "\<bar>x * q - y * q\<bar> = \<bar>x - y\<bar> * q" using assms(3) by (simp add: abs_mult flip: left_diff_distrib)
  also have "\<dots> \<le> k * (p * dbl_eps + dbl_tiny) * q" using assms by (intro mult_right_mono)
  also have "\<dots> = k * ((p * q) * dbl_eps + q * dbl_tiny)" by (simp add: algebra_simps)
  also have "\<dots> \<le> k * (10 ^ 10 * dbl_eps + 2 ^ 31 * (1 / 2 ^ 75))"
    using assms dbl_tiny_bounds by (intro mult_left_mono add_mono mult_right_mono mult_mono) (simp_all add: dbl_eps_def)
  also have "\<dots> \<le> k * (1 / 800000)"
    using assms(6) by (intro mult_left_mono) (simp_all add: dbl_eps_def)
  finally show ?thesis .
qed

lemma js_mul_price:
  assumes "0 \<le> p" "0 \<le> q" "q \<le> 2 ^ 31" "p * q \<le> 10 ^ 10"
  shows "\<bar>js_mul (to_double p) q - p * q\<bar> \<le> 1 / 140000"
proof -
  have "\<bar>to_double p - p\<bar> \<le> 1 * (p * dbl_eps + dbl_tiny)"
    using to_double_error [of p] assms(1) by simp
  from scaled_error [OF this assms] have 1: "\<bar>to_double p * q - p * q\<bar> \<le> 1 / 800000" by simp
  have "0 \<le> p * q" using assms by simp
  with 1 assms(4) have "\<bar>to_double p * q\<bar> \<le> 10 ^ 10 + 1" by linarith
  from to_double_money [OF this] 1 show ?thesis unfolding js_mul_def by linarith
qed

lemma js_mul_discount:
  assumes "0 \<le> d" "d \<le> p" "0 \<le> q" "q \<le> 2 ^ 31" "p * q \<le> 10 ^ 10"
  shows "\<bar>js_mul (js_sub (to_double p) (to_double d)) q - (p - d) * q\<bar> \<le> 1 / 140000"
proof -
  let ?s = "js_sub (to_double p) (to_double d)" and ?e = "p * dbl_eps + dbl_tiny"
  have p: "0 \<le> p" using assms by linarith
  have de: "d * dbl_eps \<le> p * dbl_eps" using assms by (intro mult_right_mono) (simp_all add: dbl_eps_def)
  have ep: "\<bar>to_double p - p\<bar> \<le> ?e" using to_double_error [of p] p by simp
  have "\<bar>to_double d - d\<bar> \<le> d * dbl_eps + dbl_tiny" using to_double_error [of d] assms(1) by simp
  with de have ed: "\<bar>to_double d - d\<bar> \<le> ?e" by linarith
  have "p * dbl_eps \<le> p * (1 / 2)" using p by (intro mult_left_mono) (simp_all add: dbl_eps_def)
  then have "\<bar>to_double p - to_double d\<bar> \<le> 2 * p + 2 * dbl_tiny" using ep ed assms(1,2) by linarith
  then have "\<bar>to_double p - to_double d\<bar> * dbl_eps \<le> (2 * p + 2 * dbl_tiny) * dbl_eps"
    by (intro mult_right_mono) (simp_all add: dbl_eps_def)
  also have "\<dots> \<le> 2 * (p * dbl_eps) + dbl_tiny"
    using mult_left_mono [of "2 * dbl_eps" 1 dbl_tiny] dbl_tiny_bounds(1)
    by (simp add: dbl_eps_def algebra_simps)
  finally have "\<bar>to_double p - to_double d\<bar> * dbl_eps + dbl_tiny \<le> 2 * ?e" by (simp add: distrib_left)
  with to_double_error have "\<bar>?s - (to_double p - to_double d)\<bar> \<le> 2 * ?e"
    unfolding js_sub_def by (rule order_trans)
  moreover have "\<bar>s - (p - d)\<bar> \<le> 4 * e"
    if "\<bar>s - (x - y)\<bar> \<le> 2 * e" "\<bar>x - p\<bar> \<le> e" "\<bar>y - d\<bar> \<le> e" for s x y e
    using that by linarith
  ultimately have "\<bar>?s - (p - d)\<bar> \<le> 4 * ?e" using ep ed by blast
  from scaled_error [OF this p assms(3-5)]
  have 1: "\<bar>?s * q - (p - d) * q\<bar> \<le> 4 * (1 / 800000)" by simp
  have "0 \<le> (p - d) * q" "(p - d) * q \<le> p * q" using assms by (simp_all add: mult_right_mono)
  with 1 assms(5) have "\<bar>?s * q\<bar> \<le> 10 ^ 10 + 1" by linarith
  from to_double_money [OF this] 1 show ?thesis unfolding js_mul_def by linarith
qed

lemma js_sum_error:
  assumes "list_all2 (\<lambda>a b. 0 \<le> b \<and> \<bar>a - b\<bar> \<le> 1 / 140000) as bs"
    and "\<bar>s - t\<bar> \<le> of_nat k / 115000" and "0 \<le> t" and "t + sum_list bs \<le> 10 ^ 10"
    and "k + length as \<le> 1000"
  shows "\<bar>foldl js_add s as - (t + sum_list bs)\<bar> \<le> of_nat (k + length as) / 115000"
  using assms
proof (induction as bs arbitrary: s t k rule: list_all2_induct)
  case (Cons a as b bs)
  have "0 \<le> sum_list bs" using Cons.hyps(2) by (intro sum_list_nonneg) (auto simp: list_all2_conv_all_nth in_set_conv_nth)
  then have t: "0 \<le> t + b" "t + b \<le> 10 ^ 10" using Cons.prems Cons.hyps(1) by auto
  have k: "(of_nat k :: rat) \<le> 1000" using Cons.prems(4) by simp
  have near: "\<bar>s + a - (t + b)\<bar> \<le> of_nat k / 115000 + 1 / 140000" using Cons.prems(1) Cons.hyps(1) by linarith
  with t k have "\<bar>s + a\<bar> \<le> 10 ^ 10 + 1" by linarith
  from to_double_money [OF this] near
  have "\<bar>js_add s a - (t + b)\<bar> \<le> of_nat k / 115000 + 1 / 115000"
    unfolding js_add_def by linarith
  then have "\<bar>js_add s a - (t + b)\<bar> \<le> of_nat (Suc k) / 115000" by (simp add: add_divide_distrib)
  then show ?case
    using Cons.IH [of "js_add s a" "t + b" "Suc k"] Cons.prems t by (simp add: add.assoc)
qed simp

end
