(* ===== verification/Contracts.thy ===== *)
theory Contracts
  imports Js_Number
begin

section \<open>The contracts between the services\<close>

text \<open>
  The packages \<open>contracts-core\<close> and \<open>messaging-contracts\<close>: the enumerations, the CloudEvents
  envelope, one constant per message contract with its topic, type and source, the data types of
  requests, responses and events, and how each is written as JSON when it leaves a service. A
  gateway reads the JSON again with its own checks, so that producer and consumer meet only in
  the JSON value.
\<close>

subsection \<open>Dates\<close>

text \<open>
  \<open>Date.prototype.toISOString\<close> on milliseconds since 1970, for the years 0 to 9999: the civil date
  from the day number, and fixed width fields.
\<close>

fun pad :: "nat \<Rightarrow> nat \<Rightarrow> string" where
  "pad 0 n = []"
| "pad (Suc w) n = pad w (n div 10) @ [digit_char (n mod 10)]"

definition civil_from_days :: "int \<Rightarrow> int \<times> int \<times> int" where
  "civil_from_days z0 =
     (let z = z0 + 719468;
          era = z div 146097;
          doe = z - era * 146097;
          yoe = (doe - doe div 1460 + doe div 36524 - doe div 146096) div 365;
          doy = doe - (365 * yoe + yoe div 4 - yoe div 100);
          mp = (5 * doy + 2) div 153;
          d = doy - (153 * mp + 2) div 5 + 1;
          m = (if mp < 10 then mp + 3 else mp - 9);
          y = yoe + era * 400 + (if m \<le> 2 then 1 else 0)
      in (y, m, d))"

definition toISOString :: "time \<Rightarrow> string" where
  "toISOString t =
     (let (y, m, d) = civil_from_days (t div 86400000); ms = t mod 86400000
      in pad 4 (nat y) @ ''-'' @ pad 2 (nat m) @ ''-'' @ pad 2 (nat d) @ ''T''
         @ pad 2 (nat (ms div 3600000)) @ '':'' @ pad 2 (nat (ms div 60000 mod 60)) @ '':''
         @ pad 2 (nat (ms div 1000 mod 60)) @ ''.'' @ pad 3 (nat (ms mod 1000)) @ ''Z'')"

subsection \<open>Enumerations\<close>

datatype CurrencyEnum = UAH | EUR | USD
datatype CountryCodeEnum = UA | US | PL | DE | GB
datatype LanguageEnum = Lang_en | Lang_ua

datatype OrderStatusEnum =
    OS_created | OS_pending_payment | OS_failed_payment | OS_paid | OS_confirmed | OS_preparing
  | OS_shipped | OS_delivered | OS_completed | OS_canceled | OS_refunded

fun currency_value :: "CurrencyEnum \<Rightarrow> string" where
  "currency_value UAH = ''UAH''"
| "currency_value EUR = ''EUR''"
| "currency_value USD = ''USD''"

fun language_value :: "LanguageEnum \<Rightarrow> string" where
  "language_value Lang_en = ''en''"
| "language_value Lang_ua = ''ua''"

fun country_code_value :: "CountryCodeEnum \<Rightarrow> string" where
  "country_code_value UA = ''UA''"
| "country_code_value US = ''US''"
| "country_code_value PL = ''PL''"
| "country_code_value DE = ''DE''"
| "country_code_value GB = ''GB''"

fun order_status_value :: "OrderStatusEnum \<Rightarrow> string" where
  "order_status_value OS_created = ''created''"
| "order_status_value OS_pending_payment = ''pending_payment''"
| "order_status_value OS_failed_payment = ''failed_payment''"
| "order_status_value OS_paid = ''paid''"
| "order_status_value OS_confirmed = ''confirmed''"
| "order_status_value OS_preparing = ''preparing''"
| "order_status_value OS_shipped = ''shipped''"
| "order_status_value OS_delivered = ''delivered''"
| "order_status_value OS_completed = ''completed''"
| "order_status_value OS_canceled = ''canceled''"
| "order_status_value OS_refunded = ''refunded''"

definition order_statuses :: "OrderStatusEnum list" where
  "order_statuses = [OS_created, OS_pending_payment, OS_failed_payment, OS_paid, OS_confirmed,
     OS_preparing, OS_shipped, OS_delivered, OS_completed, OS_canceled, OS_refunded]"

definition order_status_of :: "string \<Rightarrow> OrderStatusEnum option" where
  "order_status_of s = List.find (\<lambda>e. order_status_value e = s) order_statuses"

lemma order_status_of_value [simp]: "order_status_of (order_status_value e) = Some e"
  by (cases e) (simp_all add: order_status_of_def order_statuses_def)

datatype TopicEnum =
    Topic_SELLER_OFFER_COMMANDS | Topic_ACCOUNT_COMMANDS | Topic_IDENTITY_EVENTS
  | Topic_USER_EVENTS | Topic_ORDER_EVENTS

fun topic_value :: "TopicEnum \<Rightarrow> string" where
  "topic_value Topic_SELLER_OFFER_COMMANDS = ''seller-offer.commands''"
| "topic_value Topic_ACCOUNT_COMMANDS = ''account.commands''"
| "topic_value Topic_IDENTITY_EVENTS = ''identity.events''"
| "topic_value Topic_USER_EVENTS = ''user.events''"
| "topic_value Topic_ORDER_EVENTS = ''order.events''"

datatype SourceEnum =
  Source_ORDER | Source_ACCOUNT | Source_SELLER_OFFER | Source_IDENTITY | Source_USER

fun source_value :: "SourceEnum \<Rightarrow> string" where
  "source_value Source_ORDER = ''/order-service''"
| "source_value Source_ACCOUNT = ''/account-service''"
| "source_value Source_SELLER_OFFER = ''/seller-offer-service''"
| "source_value Source_IDENTITY = ''/identity-service''"
| "source_value Source_USER = ''/user-service''"

definition CLOUD_EVENT_CONTENT_TYPE :: string where
  "CLOUD_EVENT_CONTENT_TYPE = ''application/cloudevents+json''"

subsection \<open>The envelope and the contracts\<close>

record 'd cloud_event =
  ce_specversion :: string
  ce_id :: string
  ce_source :: string
  ce_type :: string
  ce_time :: string
  ce_datacontenttype :: string
  ce_subject :: "json option"
  ce_correlationid :: "json option"
  ce_data :: 'd

definition optional_field :: "string \<Rightarrow> json option \<Rightarrow> (string \<times> json) list" where
  "optional_field name v = (case v of None \<Rightarrow> [] | Some j \<Rightarrow> [(name, j)])"

definition cloud_event_json :: "('d \<Rightarrow> json) \<Rightarrow> 'd cloud_event \<Rightarrow> json" where
  "cloud_event_json enc e = JObj (
     [(''specversion'', JStr (ce_specversion e)), (''id'', JStr (ce_id e)),
      (''source'', JStr (ce_source e)), (''type'', JStr (ce_type e)), (''time'', JStr (ce_time e)),
      (''datacontenttype'', JStr (ce_datacontenttype e))]
     @ optional_field ''subject'' (ce_subject e)
     @ optional_field ''correlationid'' (ce_correlationid e)
     @ [(''data'', enc (ce_data e))])"

lemma cloud_event_json_fields [message_simps]:
  "jfield (Some (cloud_event_json enc e)) ''specversion'' = Some (JStr (ce_specversion e))"
  "jfield (Some (cloud_event_json enc e)) ''id'' = Some (JStr (ce_id e))"
  "jfield (Some (cloud_event_json enc e)) ''source'' = Some (JStr (ce_source e))"
  "jfield (Some (cloud_event_json enc e)) ''type'' = Some (JStr (ce_type e))"
  "jfield (Some (cloud_event_json enc e)) ''time'' = Some (JStr (ce_time e))"
  "jfield (Some (cloud_event_json enc e)) ''subject'' = ce_subject e"
  "jfield (Some (cloud_event_json enc e)) ''correlationid'' = ce_correlationid e"
  "jfield (Some (cloud_event_json enc e)) ''data'' = Some (enc (ce_data e))"
  by (simp_all add: cloud_event_json_def optional_field_def split: option.splits)

record message_contract =
  mc_topic :: TopicEnum
  mc_type :: string
  mc_source :: SourceEnum

record rpc_contract = message_contract +
  mc_response_type :: string
  mc_response_source :: SourceEnum

definition StockReserveRequest :: rpc_contract where
  "StockReserveRequest = \<lparr> mc_topic = Topic_SELLER_OFFER_COMMANDS, mc_type = ''seller-offer.stock.reserve'',
     mc_source = Source_ORDER, mc_response_type = ''seller-offer.stock.reserve.response'',
     mc_response_source = Source_SELLER_OFFER \<rparr>"

definition StockReleaseRequest :: rpc_contract where
  "StockReleaseRequest = \<lparr> mc_topic = Topic_SELLER_OFFER_COMMANDS, mc_type = ''seller-offer.stock.release'',
     mc_source = Source_ORDER, mc_response_type = ''seller-offer.stock.release.response'',
     mc_response_source = Source_SELLER_OFFER \<rparr>"

definition AccountCustomerChargeRequest :: rpc_contract where
  "AccountCustomerChargeRequest = \<lparr> mc_topic = Topic_ACCOUNT_COMMANDS, mc_type = ''account.customer.charge'',
     mc_source = Source_ORDER, mc_response_type = ''account.customer.charge.response'',
     mc_response_source = Source_ACCOUNT \<rparr>"

definition AccountCustomerRefundRequest :: rpc_contract where
  "AccountCustomerRefundRequest = \<lparr> mc_topic = Topic_ACCOUNT_COMMANDS, mc_type = ''account.customer.refund'',
     mc_source = Source_ORDER, mc_response_type = ''account.customer.refund.response'',
     mc_response_source = Source_ACCOUNT \<rparr>"

definition IdentityRegisteredEvent :: message_contract where
  "IdentityRegisteredEvent = \<lparr> mc_topic = Topic_IDENTITY_EVENTS, mc_type = ''identity.registered'',
     mc_source = Source_IDENTITY \<rparr>"

definition UserCreatedEvent :: message_contract where
  "UserCreatedEvent = \<lparr> mc_topic = Topic_USER_EVENTS, mc_type = ''user.created'', mc_source = Source_USER \<rparr>"

definition OrderCreatedEvent :: message_contract where
  "OrderCreatedEvent = \<lparr> mc_topic = Topic_ORDER_EVENTS, mc_type = ''order.created'', mc_source = Source_ORDER \<rparr>"

definition OrderFailedEvent :: message_contract where
  "OrderFailedEvent = \<lparr> mc_topic = Topic_ORDER_EVENTS, mc_type = ''order.failed'', mc_source = Source_ORDER \<rparr>"

definition OrderPaidEvent :: message_contract where
  "OrderPaidEvent = \<lparr> mc_topic = Topic_ORDER_EVENTS, mc_type = ''order.paid'', mc_source = Source_ORDER \<rparr>"

lemmas contract_defs [message_simps] =
  StockReserveRequest_def StockReleaseRequest_def AccountCustomerChargeRequest_def
  AccountCustomerRefundRequest_def IdentityRegisteredEvent_def UserCreatedEvent_def
  OrderCreatedEvent_def OrderFailedEvent_def OrderPaidEvent_def

subsection \<open>Requests and responses\<close>

record stock_item =
  it_offerId :: int
  it_quantity :: int

record rejected_item = stock_item +
  it_available :: int

record stock_reserve_data =
  srd_items :: "stock_item list"

datatype stock_reject_reason = insufficient_stock | offer_not_found

datatype stock_reserve_response =
    StockReserved
  | StockRejected stock_reject_reason "rejected_item list"

record stock_release_data =
  sld_orderPublicId :: uuid

datatype stock_release_response = StockReleased nat

record customer_charge_data =
  mv_customerId :: int
  mv_amount :: string

record customer_refund_data = customer_charge_data +
  mv_chargeId :: uuid

datatype charge_reject_reason = insufficient_amount | customer_not_found

datatype charge_response =
    ChargeSuccess
  | ChargeRejected charge_reject_reason string

datatype refund_response = Refunded | NotCharged

definition stock_item_json :: "stock_item \<Rightarrow> json" where
  "stock_item_json it =
     JObj [(''offerId'', JNum (of_int (it_offerId it))), (''quantity'', JNum (of_int (it_quantity it)))]"

definition stock_reserve_data_json :: "stock_reserve_data \<Rightarrow> json" where
  "stock_reserve_data_json d = JObj [(''items'', JArr (map stock_item_json (srd_items d)))]"

definition stock_release_data_json :: "stock_release_data \<Rightarrow> json" where
  "stock_release_data_json d = JObj [(''orderPublicId'', JStr (sld_orderPublicId d))]"

definition customer_charge_data_json :: "customer_charge_data \<Rightarrow> json" where
  "customer_charge_data_json d =
     JObj [(''customerId'', JNum (of_int (mv_customerId d))), (''amount'', JStr (mv_amount d))]"

definition customer_refund_data_json :: "customer_refund_data \<Rightarrow> json" where
  "customer_refund_data_json d =
     JObj [(''customerId'', JNum (of_int (mv_customerId d))), (''amount'', JStr (mv_amount d)),
           (''chargeId'', JStr (mv_chargeId d))]"

subsection \<open>Events\<close>

record identity_registered_data =
  ird_identityId :: int
  ird_identityPublicId :: uuid
  ird_email :: "string option"
  ird_phoneNumber :: "string option"
  ird_role :: string
  ird_createdAt :: string

record user_created_data =
  ucd_userId :: int
  ucd_userPublicId :: uuid
  ucd_identityId :: int
  ucd_identityPublicId :: uuid
  ucd_email :: "string option"
  ucd_phoneNumber :: "string option"
  ucd_firstName :: "string option"
  ucd_lastName :: "string option"
  ucd_language :: LanguageEnum
  ucd_createdAt :: string

record order_created_data =
  ocd_orderId :: int
  ocd_orderPublicId :: uuid
  ocd_userId :: int
  ocd_totalAmount :: string
  ocd_discountAmount :: string
  ocd_currency :: CurrencyEnum
  ocd_createdAt :: string

datatype order_fail_reason = reason_insufficient_stock | reason_payment_rejected | reason_error

fun fail_reason_value :: "order_fail_reason \<Rightarrow> string" where
  "fail_reason_value reason_insufficient_stock = ''insufficient_stock''"
| "fail_reason_value reason_payment_rejected = ''payment_rejected''"
| "fail_reason_value reason_error = ''error''"

record order_failed_data =
  ofd_orderId :: int
  ofd_orderPublicId :: uuid
  ofd_userId :: int
  ofd_status :: OrderStatusEnum
  ofd_reason :: order_fail_reason
  ofd_failedAt :: string

record order_paid_line =
  opl_offerId :: int
  opl_quantity :: int
  opl_unitPrice :: string
  opl_unitDiscountPrice :: "string option"

record order_paid_data =
  opd_orderId :: int
  opd_orderPublicId :: uuid
  opd_userId :: int
  opd_totalAmount :: string
  opd_discountAmount :: string
  opd_currency :: CurrencyEnum
  opd_lines :: "order_paid_line list"
  opd_paidAt :: string

definition jnullable :: "string option \<Rightarrow> json" where
  "jnullable v = (case v of None \<Rightarrow> JNull | Some s \<Rightarrow> JStr s)"

definition identity_registered_json :: "identity_registered_data \<Rightarrow> json" where
  "identity_registered_json d = JObj
     [(''identityId'', JNum (of_int (ird_identityId d))),
      (''identityPublicId'', JStr (ird_identityPublicId d)),
      (''email'', jnullable (ird_email d)), (''phoneNumber'', jnullable (ird_phoneNumber d)),
      (''role'', JStr (ird_role d)), (''createdAt'', JStr (ird_createdAt d))]"

definition user_created_json :: "user_created_data \<Rightarrow> json" where
  "user_created_json d = JObj
     [(''userId'', JNum (of_int (ucd_userId d))), (''userPublicId'', JStr (ucd_userPublicId d)),
      (''identityId'', JNum (of_int (ucd_identityId d))),
      (''identityPublicId'', JStr (ucd_identityPublicId d)),
      (''email'', jnullable (ucd_email d)), (''phoneNumber'', jnullable (ucd_phoneNumber d)),
      (''firstName'', jnullable (ucd_firstName d)), (''lastName'', jnullable (ucd_lastName d)),
      (''language'', JStr (language_value (ucd_language d))), (''createdAt'', JStr (ucd_createdAt d))]"

definition order_created_json :: "order_created_data \<Rightarrow> json" where
  "order_created_json d = JObj
     [(''orderId'', JNum (of_int (ocd_orderId d))), (''orderPublicId'', JStr (ocd_orderPublicId d)),
      (''userId'', JNum (of_int (ocd_userId d))), (''totalAmount'', JStr (ocd_totalAmount d)),
      (''discountAmount'', JStr (ocd_discountAmount d)),
      (''currency'', JStr (currency_value (ocd_currency d))), (''createdAt'', JStr (ocd_createdAt d))]"

definition order_failed_json :: "order_failed_data \<Rightarrow> json" where
  "order_failed_json d = JObj
     [(''orderId'', JNum (of_int (ofd_orderId d))), (''orderPublicId'', JStr (ofd_orderPublicId d)),
      (''userId'', JNum (of_int (ofd_userId d))), (''status'', JStr (order_status_value (ofd_status d))),
      (''reason'', JStr (fail_reason_value (ofd_reason d))), (''failedAt'', JStr (ofd_failedAt d))]"

definition order_paid_line_json :: "order_paid_line \<Rightarrow> json" where
  "order_paid_line_json l = JObj
     [(''offerId'', JNum (of_int (opl_offerId l))), (''quantity'', JNum (of_int (opl_quantity l))),
      (''unitPrice'', JStr (opl_unitPrice l)),
      (''unitDiscountPrice'', jnullable (opl_unitDiscountPrice l))]"

definition order_paid_json :: "order_paid_data \<Rightarrow> json" where
  "order_paid_json d = JObj
     [(''orderId'', JNum (of_int (opd_orderId d))), (''orderPublicId'', JStr (opd_orderPublicId d)),
      (''userId'', JNum (of_int (opd_userId d))), (''totalAmount'', JStr (opd_totalAmount d)),
      (''discountAmount'', JStr (opd_discountAmount d)),
      (''currency'', JStr (currency_value (opd_currency d))),
      (''lines'', JArr (map order_paid_line_json (opd_lines d))), (''paidAt'', JStr (opd_paidAt d))]"

lemmas data_json_defs [message_simps] =
  stock_item_json_def stock_reserve_data_json_def stock_release_data_json_def
  customer_charge_data_json_def customer_refund_data_json_def identity_registered_json_def
  user_created_json_def order_created_json_def order_failed_json_def order_paid_json_def

subsection \<open>Patterns\<close>

text \<open>The patterns \<open>^\+[1-9][0-9]{7,14}$\<close> and \<open>^[0-9]{4,15}$\<close>, and \<open>\S\<close> against a blank name.\<close>

definition e164 :: "string \<Rightarrow> bool" where
  "e164 s = (case s of p # d # ds \<Rightarrow> p = CHR ''+'' \<and> digit d \<and> d \<noteq> CHR ''0''
     \<and> list_all digit ds \<and> 7 \<le> length ds \<and> length ds \<le> 14 | _ \<Rightarrow> False)"

definition national_number :: "string \<Rightarrow> bool" where
  "national_number s \<longleftrightarrow> list_all digit s \<and> 4 \<le> length s \<and> length s \<le> 15"

definition has_nonspace :: "string \<Rightarrow> bool" where
  "has_nonspace s \<longleftrightarrow> list_ex (\<lambda>c. c \<notin> set [CHR '' '', CHR 0x09, CHR 0x0A, CHR 0x0B, CHR 0x0C, CHR 0x0D, CHR 0xA0]) s"

end
