(* ===== verification/Outbox.thy ===== *)
theory Outbox
  imports Contracts "HOL-Library.Char_ord" "HOL-Library.List_Lexorder" "HOL-Library.Product_Lexorder"
begin

section \<open>Transactional outboxes and their relays\<close>

text \<open>
  Identity, user and order write their events into an outbox table in the transaction that causes
  them; order also writes the workflows to start. A relay claims the oldest unpublished rows, hands
  them to Kafka (or Temporal) one by one, stops at the first failure, and marks what was accepted.
  The four relays share their text, so the loop is defined once, over the accessors of the row, and
  each service is an instance. The locale \<open>outbox_relay\<close> states what a relay needs of its rows and
  of the broker; it is interpreted on the Kafka and on the Temporal instance.
\<close>

subsection \<open>Rows\<close>

record event_outbox_create =
  ob_id :: uuid
  ob_topic :: TopicEnum
  ob_aggregateType :: string
  ob_aggregateId :: string
  ob_type :: string
  ob_payload :: json

record event_outbox = event_outbox_create +
  ob_createdAt :: time
  ob_publishedAt :: "time option"
  ob_attempts :: int
  ob_lastError :: "string option"

type_synonym OrderOutbox = event_outbox
type_synonym IdentityOutbox = event_outbox
type_synonym UserOutbox = event_outbox

record workflow_outbox_create =
  wo_workflowId :: string
  wo_workflowType :: string
  wo_taskQueue :: string
  wo_input :: json

record OrderWorkflowOutbox = workflow_outbox_create +
  wo_createdAt :: time
  wo_startedAt :: "time option"
  wo_attempts :: int
  wo_lastError :: "string option"

subsection \<open>The repository statements\<close>

text \<open>
  The insert, the claim of the oldest rows (\<open>ORDER BY createdAt, id LIMIT n FOR UPDATE SKIP LOCKED\<close>),
  the two updates and the delete of the retention job. No other relay holds a lock: each process
  runs one relay per outbox, and a locked row would only be skipped.
\<close>

definition claim_rows ::
  "('r \<Rightarrow> time option) \<Rightarrow> ('r \<Rightarrow> time) \<Rightarrow> ('r \<Rightarrow> string) \<Rightarrow> nat \<Rightarrow> 'r list \<Rightarrow> 'r list" where
  "claim_rows done created key limit rows =
     take limit (sort_key (\<lambda>r. (created r, key r)) (filter (\<lambda>r. done r = None) rows))"

definition event_insert :: "time \<Rightarrow> event_outbox_create \<Rightarrow> event_outbox list \<Rightarrow> db_error + event_outbox list" where
  "event_insert now input rows =
     (if list_ex (\<lambda>r. ob_id r = ob_id input) rows then Inl UniqueViolation
      else Inr (rows @ [event_outbox_create.extend input
             \<lparr>ob_createdAt = now, ob_publishedAt = None, ob_attempts = 0, ob_lastError = None\<rparr>]))"

text \<open>The CHECK constraints of the row.\<close>

definition event_check :: "event_outbox \<Rightarrow> bool" where
  "event_check r \<longleftrightarrow> 0 \<le> ob_attempts r
     \<and> (case ob_publishedAt r of None \<Rightarrow> True | Some t \<Rightarrow> ob_createdAt r \<le> t)"

definition mark_event :: "time \<Rightarrow> event_outbox \<Rightarrow> event_outbox" where
  "mark_event now r = r\<lparr>ob_publishedAt := Some now\<rparr>"

definition fail_event :: "string \<Rightarrow> event_outbox \<Rightarrow> event_outbox" where
  "fail_event msg r = r\<lparr>ob_attempts := ob_attempts r + 1, ob_lastError := Some msg\<rparr>"

definition OrderOutboxRepository_create :: "time \<Rightarrow> event_outbox_create \<Rightarrow> OrderOutbox list \<Rightarrow> db_error + OrderOutbox list" where
  "OrderOutboxRepository_create now input rows = event_insert now input rows"

definition OrderOutboxRepository_claimUnpublished :: "nat \<Rightarrow> OrderOutbox list \<Rightarrow> OrderOutbox list" where
  "OrderOutboxRepository_claimUnpublished limit rows = claim_rows ob_publishedAt ob_createdAt ob_id limit rows"

definition OrderOutboxRepository_markPublished :: "time \<Rightarrow> uuid list \<Rightarrow> OrderOutbox list \<Rightarrow> OrderOutbox list" where
  "OrderOutboxRepository_markPublished now ids rows = update_where (\<lambda>r. ob_id r \<in> set ids) (mark_event now) rows"

definition OrderOutboxRepository_recordFailure :: "uuid \<Rightarrow> string \<Rightarrow> OrderOutbox list \<Rightarrow> OrderOutbox list" where
  "OrderOutboxRepository_recordFailure i msg rows = update_where (\<lambda>r. ob_id r = i) (fail_event msg) rows"

definition OrderOutboxRepository_deletePublishedBefore :: "time \<Rightarrow> OrderOutbox list \<Rightarrow> nat \<times> OrderOutbox list" where
  "OrderOutboxRepository_deletePublishedBefore before rows =
     (let old = (\<lambda>r. case ob_publishedAt r of None \<Rightarrow> False | Some t \<Rightarrow> t < before)
      in (count_where old rows, filter (\<lambda>r. \<not> old r) rows))"

definition IdentityOutboxRepository_create :: "time \<Rightarrow> event_outbox_create \<Rightarrow> IdentityOutbox list \<Rightarrow> db_error + IdentityOutbox list" where
  "IdentityOutboxRepository_create now input rows = event_insert now input rows"

definition IdentityOutboxRepository_claimUnpublished :: "nat \<Rightarrow> IdentityOutbox list \<Rightarrow> IdentityOutbox list" where
  "IdentityOutboxRepository_claimUnpublished limit rows = claim_rows ob_publishedAt ob_createdAt ob_id limit rows"

definition IdentityOutboxRepository_markPublished :: "time \<Rightarrow> uuid list \<Rightarrow> IdentityOutbox list \<Rightarrow> IdentityOutbox list" where
  "IdentityOutboxRepository_markPublished now ids rows = update_where (\<lambda>r. ob_id r \<in> set ids) (mark_event now) rows"

definition IdentityOutboxRepository_recordFailure :: "uuid \<Rightarrow> string \<Rightarrow> IdentityOutbox list \<Rightarrow> IdentityOutbox list" where
  "IdentityOutboxRepository_recordFailure i msg rows = update_where (\<lambda>r. ob_id r = i) (fail_event msg) rows"

definition IdentityOutboxRepository_deletePublishedBefore :: "time \<Rightarrow> IdentityOutbox list \<Rightarrow> nat \<times> IdentityOutbox list" where
  "IdentityOutboxRepository_deletePublishedBefore before rows =
     (let old = (\<lambda>r. case ob_publishedAt r of None \<Rightarrow> False | Some t \<Rightarrow> t < before)
      in (count_where old rows, filter (\<lambda>r. \<not> old r) rows))"

definition UserOutboxRepository_create :: "time \<Rightarrow> event_outbox_create \<Rightarrow> UserOutbox list \<Rightarrow> db_error + UserOutbox list" where
  "UserOutboxRepository_create now input rows = event_insert now input rows"

definition UserOutboxRepository_claimUnpublished :: "nat \<Rightarrow> UserOutbox list \<Rightarrow> UserOutbox list" where
  "UserOutboxRepository_claimUnpublished limit rows = claim_rows ob_publishedAt ob_createdAt ob_id limit rows"

definition UserOutboxRepository_markPublished :: "time \<Rightarrow> uuid list \<Rightarrow> UserOutbox list \<Rightarrow> UserOutbox list" where
  "UserOutboxRepository_markPublished now ids rows = update_where (\<lambda>r. ob_id r \<in> set ids) (mark_event now) rows"

definition UserOutboxRepository_recordFailure :: "uuid \<Rightarrow> string \<Rightarrow> UserOutbox list \<Rightarrow> UserOutbox list" where
  "UserOutboxRepository_recordFailure i msg rows = update_where (\<lambda>r. ob_id r = i) (fail_event msg) rows"

definition UserOutboxRepository_deletePublishedBefore :: "time \<Rightarrow> UserOutbox list \<Rightarrow> nat \<times> UserOutbox list" where
  "UserOutboxRepository_deletePublishedBefore before rows =
     (let old = (\<lambda>r. case ob_publishedAt r of None \<Rightarrow> False | Some t \<Rightarrow> t < before)
      in (count_where old rows, filter (\<lambda>r. \<not> old r) rows))"

definition OrderWorkflowOutboxRepository_create ::
  "time \<Rightarrow> workflow_outbox_create \<Rightarrow> OrderWorkflowOutbox list \<Rightarrow> db_error + OrderWorkflowOutbox list" where
  "OrderWorkflowOutboxRepository_create now input rows =
     (if list_ex (\<lambda>r. wo_workflowId r = wo_workflowId input) rows then Inl UniqueViolation
      else Inr (rows @ [workflow_outbox_create.extend input
             \<lparr>wo_createdAt = now, wo_startedAt = None, wo_attempts = 0, wo_lastError = None\<rparr>]))"

definition OrderWorkflowOutboxRepository_claimUnstarted :: "nat \<Rightarrow> OrderWorkflowOutbox list \<Rightarrow> OrderWorkflowOutbox list" where
  "OrderWorkflowOutboxRepository_claimUnstarted limit rows = claim_rows wo_startedAt wo_createdAt wo_workflowId limit rows"

definition workflow_check :: "OrderWorkflowOutbox \<Rightarrow> bool" where
  "workflow_check r \<longleftrightarrow> 0 \<le> wo_attempts r
     \<and> (case wo_startedAt r of None \<Rightarrow> True | Some t \<Rightarrow> wo_createdAt r \<le> t)"

definition mark_workflow :: "time \<Rightarrow> OrderWorkflowOutbox \<Rightarrow> OrderWorkflowOutbox" where
  "mark_workflow now r = r\<lparr>wo_startedAt := Some now\<rparr>"

definition fail_workflow :: "string \<Rightarrow> OrderWorkflowOutbox \<Rightarrow> OrderWorkflowOutbox" where
  "fail_workflow msg r = r\<lparr>wo_attempts := wo_attempts r + 1, wo_lastError := Some msg\<rparr>"

definition OrderWorkflowOutboxRepository_markStarted :: "time \<Rightarrow> string list \<Rightarrow> OrderWorkflowOutbox list \<Rightarrow> OrderWorkflowOutbox list" where
  "OrderWorkflowOutboxRepository_markStarted now ids rows = update_where (\<lambda>r. wo_workflowId r \<in> set ids) (mark_workflow now) rows"

definition OrderWorkflowOutboxRepository_recordFailure :: "string \<Rightarrow> string \<Rightarrow> OrderWorkflowOutbox list \<Rightarrow> OrderWorkflowOutbox list" where
  "OrderWorkflowOutboxRepository_recordFailure i msg rows = update_where (\<lambda>r. wo_workflowId r = i) (fail_workflow msg) rows"

definition OrderWorkflowOutboxRepository_deleteStartedBefore :: "time \<Rightarrow> OrderWorkflowOutbox list \<Rightarrow> nat \<times> OrderWorkflowOutbox list" where
  "OrderWorkflowOutboxRepository_deleteStartedBefore before rows =
     (let old = (\<lambda>r. case wo_startedAt r of None \<Rightarrow> False | Some t \<Rightarrow> t < before)
      in (count_where old rows, filter (\<lambda>r. \<not> old r) rows))"

subsection \<open>The relay loop\<close>

text \<open>
  \<open>send\<close> stands for the broker: it answers \<open>None\<close> when it accepted the message, or the error message,
  and may change its state in both cases (an error can come after the broker stored the message).
  The loop returns the keys accepted, the failure that ended it, and the broker.
\<close>

fun relay_loop ::
  "('r \<Rightarrow> string) \<Rightarrow> ('r \<Rightarrow> 'm) \<Rightarrow> ('m \<Rightarrow> 'b \<Rightarrow> string option \<times> 'b) \<Rightarrow> 'r list \<Rightarrow> 'b
    \<Rightarrow> string list \<times> (string \<times> string) option \<times> 'b" where
  "relay_loop key emit send [] b = ([], None, b)"
| "relay_loop key emit send (r # rs) b =
     (case send (emit r) b of
        (Some msg, b') \<Rightarrow> ([], Some (key r, msg), b')
      | (None, b') \<Rightarrow>
          (case relay_loop key emit send rs b' of (ids, failure, b'') \<Rightarrow> (key r # ids, failure, b'')))"

text \<open>
  The transaction around the loop. \<open>lost\<close> says that it does not commit (the connection drops, the
  process dies): the rows then stay as they were, while the broker keeps what it received. A
  violated CHECK of an updated row rolls back as well. The repository statements are parameters.
\<close>

definition relay_batch ::
  "(nat \<Rightarrow> 'r list \<Rightarrow> 'r list) \<Rightarrow> (string \<Rightarrow> string \<Rightarrow> 'r list \<Rightarrow> 'r list) \<Rightarrow> (string list \<Rightarrow> 'r list \<Rightarrow> 'r list)
    \<Rightarrow> ('r \<Rightarrow> bool) \<Rightarrow> ('r \<Rightarrow> string) \<Rightarrow> ('r \<Rightarrow> 'm) \<Rightarrow> ('m \<Rightarrow> 'b \<Rightarrow> string option \<times> 'b) \<Rightarrow> nat \<Rightarrow> bool
    \<Rightarrow> 'r list \<Rightarrow> 'b \<Rightarrow> 'r list \<times> 'b" where
  "relay_batch claim recordFailure markDone check key emit send limit lost rows b =
     (case relay_loop key emit send (claim limit rows) b of
        (ids, failure, b') \<Rightarrow>
          (let rows1 = (case failure of None \<Rightarrow> rows | Some (i, msg) \<Rightarrow> recordFailure i msg rows);
               rows2 = (if ids = [] then rows1 else markDone ids rows1)
           in if lost \<or> \<not> list_all check rows2 then (rows, b') else (rows2, b')))"

subsection \<open>Kafka\<close>

datatype send_outcome = Acked | FailedUnwritten string | FailedWritten string

record 'm kafka =
  kf_log :: "'m list"
  kf_outcomes :: "send_outcome list"

text \<open>
  \<open>kafka_send\<close>: what the cluster may do with a produce request, as a script of outcomes (acknowledged
  when the script is exhausted). It stands for the Kafka client library.
\<close>

definition kafka_send :: "'m \<Rightarrow> 'm kafka \<Rightarrow> string option \<times> 'm kafka" where
  "kafka_send m b =
     (case kf_outcomes b of
        [] \<Rightarrow> (None, b\<lparr>kf_log := kf_log b @ [m]\<rparr>)
      | Acked # os \<Rightarrow> (None, \<lparr>kf_log = kf_log b @ [m], kf_outcomes = os\<rparr>)
      | FailedUnwritten e # os \<Rightarrow> (Some e, b\<lparr>kf_outcomes := os\<rparr>)
      | FailedWritten e # os \<Rightarrow> (Some e, \<lparr>kf_log = kf_log b @ [m], kf_outcomes = os\<rparr>))"

record kafka_message =
  km_topic :: string
  km_key :: "json option"
  km_value :: json
  km_headers :: "(string \<times> string) list"

definition event_message :: "string \<Rightarrow> json cloud_event \<Rightarrow> kafka_message" where
  "event_message topic message =
     \<lparr>km_topic = topic, km_key = ce_subject message, km_value = cloud_event_json id message,
      km_headers = [(''content-type'', CLOUD_EVENT_CONTENT_TYPE), (''ce_type'', ce_type message)]\<rparr>"

definition KafkaProducerService_publish ::
  "string \<Rightarrow> json cloud_event \<Rightarrow> kafka_message kafka \<Rightarrow> string option \<times> kafka_message kafka" where
  "KafkaProducerService_publish topic message b = kafka_send (event_message topic message) b"

definition event_cloud_event :: "SourceEnum \<Rightarrow> event_outbox \<Rightarrow> json cloud_event" where
  "event_cloud_event src row =
     \<lparr>ce_specversion = ''1.0'', ce_id = ob_id row, ce_source = source_value src, ce_type = ob_type row,
      ce_time = toISOString (ob_createdAt row), ce_datacontenttype = ''application/json'',
      ce_subject = Some (JStr (ob_aggregateId row)), ce_correlationid = Some (JStr (ob_aggregateId row)),
      ce_data = ob_payload row\<rparr>"

definition OrderOutboxRelayService_toCloudEvent :: "OrderOutbox \<Rightarrow> json cloud_event" where
  "OrderOutboxRelayService_toCloudEvent row = event_cloud_event Source_ORDER row"

definition IdentityOutboxRelayService_toCloudEvent :: "IdentityOutbox \<Rightarrow> json cloud_event" where
  "IdentityOutboxRelayService_toCloudEvent row = event_cloud_event Source_IDENTITY row"

definition UserOutboxRelayService_toCloudEvent :: "UserOutbox \<Rightarrow> json cloud_event" where
  "UserOutboxRelayService_toCloudEvent row = event_cloud_event Source_USER row"

definition relay_batch_size :: nat where "relay_batch_size = 100"

text \<open>Publishing a row: the topic and the event it becomes.\<close>

definition publish_pair :: "string \<times> json cloud_event \<Rightarrow> kafka_message kafka \<Rightarrow> string option \<times> kafka_message kafka" where
  "publish_pair p b = KafkaProducerService_publish (fst p) (snd p) b"

definition OrderOutboxRelayService_relayBatch ::
  "bool \<Rightarrow> time \<Rightarrow> OrderOutbox list \<Rightarrow> kafka_message kafka \<Rightarrow> OrderOutbox list \<times> kafka_message kafka" where
  "OrderOutboxRelayService_relayBatch lost now rows b =
     relay_batch OrderOutboxRepository_claimUnpublished OrderOutboxRepository_recordFailure
       (OrderOutboxRepository_markPublished now) event_check ob_id
       (\<lambda>r. (topic_value (ob_topic r), OrderOutboxRelayService_toCloudEvent r)) publish_pair
       relay_batch_size lost rows b"

definition IdentityOutboxRelayService_relayBatch ::
  "bool \<Rightarrow> time \<Rightarrow> IdentityOutbox list \<Rightarrow> kafka_message kafka \<Rightarrow> IdentityOutbox list \<times> kafka_message kafka" where
  "IdentityOutboxRelayService_relayBatch lost now rows b =
     relay_batch IdentityOutboxRepository_claimUnpublished IdentityOutboxRepository_recordFailure
       (IdentityOutboxRepository_markPublished now) event_check ob_id
       (\<lambda>r. (topic_value (ob_topic r), IdentityOutboxRelayService_toCloudEvent r)) publish_pair
       relay_batch_size lost rows b"

definition UserOutboxRelayService_relayBatch ::
  "bool \<Rightarrow> time \<Rightarrow> UserOutbox list \<Rightarrow> kafka_message kafka \<Rightarrow> UserOutbox list \<times> kafka_message kafka" where
  "UserOutboxRelayService_relayBatch lost now rows b =
     relay_batch UserOutboxRepository_claimUnpublished UserOutboxRepository_recordFailure
       (UserOutboxRepository_markPublished now) event_check ob_id
       (\<lambda>r. (topic_value (ob_topic r), UserOutboxRelayService_toCloudEvent r)) publish_pair
       relay_batch_size lost rows b"

text \<open>
  \<open>relay()\<close>: the flag \<open>relaying\<close> lets a tick pass while a batch runs; an error of the batch is logged
  and swallowed, and the flag is always reset.
\<close>

definition relay_tick :: "('r list \<Rightarrow> 'b \<Rightarrow> 'r list \<times> 'b) \<Rightarrow> bool \<times> 'r list \<times> 'b \<Rightarrow> bool \<times> 'r list \<times> 'b" where
  "relay_tick batch s =
     (case s of (relaying, rows, b) \<Rightarrow>
        if relaying then s else (case batch rows b of (rows', b') \<Rightarrow> (False, rows', b')))"

definition OrderOutboxRelayService_relay ::
  "bool \<Rightarrow> time \<Rightarrow> bool \<times> OrderOutbox list \<times> kafka_message kafka \<Rightarrow> bool \<times> OrderOutbox list \<times> kafka_message kafka" where
  "OrderOutboxRelayService_relay lost now = relay_tick (OrderOutboxRelayService_relayBatch lost now)"

definition IdentityOutboxRelayService_relay ::
  "bool \<Rightarrow> time \<Rightarrow> bool \<times> IdentityOutbox list \<times> kafka_message kafka \<Rightarrow> bool \<times> IdentityOutbox list \<times> kafka_message kafka" where
  "IdentityOutboxRelayService_relay lost now = relay_tick (IdentityOutboxRelayService_relayBatch lost now)"

definition UserOutboxRelayService_relay ::
  "bool \<Rightarrow> time \<Rightarrow> bool \<times> UserOutbox list \<times> kafka_message kafka \<Rightarrow> bool \<times> UserOutbox list \<times> kafka_message kafka" where
  "UserOutboxRelayService_relay lost now = relay_tick (UserOutboxRelayService_relayBatch lost now)"

text \<open>\<open>subDays(new Date(), 7)\<close> in milliseconds of a calendar without daylight saving time.\<close>

definition retention_start :: "time \<Rightarrow> time" where
  "retention_start now = now - 7 * 86400000"

definition OrderOutboxRelayService_deletePublished :: "time \<Rightarrow> OrderOutbox list \<Rightarrow> OrderOutbox list" where
  "OrderOutboxRelayService_deletePublished now rows =
     snd (OrderOutboxRepository_deletePublishedBefore (retention_start now) rows)"

definition IdentityOutboxRelayService_deletePublished :: "time \<Rightarrow> IdentityOutbox list \<Rightarrow> IdentityOutbox list" where
  "IdentityOutboxRelayService_deletePublished now rows =
     snd (IdentityOutboxRepository_deletePublishedBefore (retention_start now) rows)"

definition UserOutboxRelayService_deletePublished :: "time \<Rightarrow> UserOutbox list \<Rightarrow> UserOutbox list" where
  "UserOutboxRelayService_deletePublished now rows =
     snd (UserOutboxRepository_deletePublishedBefore (retention_start now) rows)"

subsection \<open>Temporal\<close>

text \<open>
  The Temporal server, as far as its documentation of a start request goes: an execution is open until it
  completes or fails, and a closed one is kept for the retention period of the namespace. The conflict
  policy of the request decides when an execution of the same workflow id is open, its reuse policy when
  the kept ones are all closed. \<open>tp_started\<close> remembers every request that began an execution, and
  \<open>tp_outcomes\<close> scripts what happens to the calls: one can fail before or after the server acted.
\<close>

datatype conflict_policy = Conflict_FAIL | Conflict_USE_EXISTING | Conflict_TERMINATE_EXISTING

datatype reuse_policy = Reuse_ALLOW_DUPLICATE | Reuse_ALLOW_DUPLICATE_FAILED_ONLY | Reuse_REJECT_DUPLICATE

datatype execution_status = Execution_running | Execution_completed | Execution_failed

record start_request =
  sq_workflowType :: string
  sq_taskQueue :: string
  sq_workflowId :: string
  sq_conflictPolicy :: conflict_policy
  sq_reusePolicy :: reuse_policy
  sq_args :: "json list"

record execution =
  ex_request :: start_request
  ex_status :: execution_status

record temporal =
  tp_executions :: "execution list"
  tp_started :: "start_request list"
  tp_outcomes :: "send_outcome list"

datatype temporal_error = WorkflowExecutionAlreadyStartedError | TemporalError string

definition temporal_close :: "string \<Rightarrow> execution_status \<Rightarrow> temporal \<Rightarrow> temporal" where
  "temporal_close i st t = t\<lparr>tp_executions := update_where
     (\<lambda>e. sq_workflowId (ex_request e) = i \<and> ex_status e = Execution_running) (\<lambda>e. e\<lparr>ex_status := st\<rparr>) (tp_executions t)\<rparr>"

definition temporal_begin :: "start_request \<Rightarrow> temporal \<Rightarrow> temporal" where
  "temporal_begin q t = t\<lparr>tp_executions := tp_executions t @ [\<lparr>ex_request = q, ex_status = Execution_running\<rparr>],
     tp_started := tp_started t @ [q]\<rparr>"

definition temporal_execute :: "start_request \<Rightarrow> temporal \<Rightarrow> (temporal_error + unit) \<times> temporal" where
  "temporal_execute q t =
     (let same = filter (\<lambda>e. sq_workflowId (ex_request e) = sq_workflowId q) (tp_executions t)
      in if list_ex (\<lambda>e. ex_status e = Execution_running) same
         then (case sq_conflictPolicy q of
                 Conflict_FAIL \<Rightarrow> (Inl WorkflowExecutionAlreadyStartedError, t)
               | Conflict_USE_EXISTING \<Rightarrow> (Inr (), t)
               | Conflict_TERMINATE_EXISTING \<Rightarrow>
                   (Inr (), temporal_begin q (temporal_close (sq_workflowId q) Execution_failed t)))
         else if same = [] \<or> sq_reusePolicy q = Reuse_ALLOW_DUPLICATE
            \<or> sq_reusePolicy q = Reuse_ALLOW_DUPLICATE_FAILED_ONLY \<and> ex_status (last same) = Execution_failed
         then (Inr (), temporal_begin q t)
         else (Inl WorkflowExecutionAlreadyStartedError, t))"

definition temporal_start :: "start_request \<Rightarrow> temporal \<Rightarrow> (temporal_error + unit) \<times> temporal" where
  "temporal_start q t =
     (case tp_outcomes t of
        [] \<Rightarrow> temporal_execute q t
      | Acked # os \<Rightarrow> temporal_execute q (t\<lparr>tp_outcomes := os\<rparr>)
      | FailedUnwritten e # os \<Rightarrow> (Inl (TemporalError e), t\<lparr>tp_outcomes := os\<rparr>)
      | FailedWritten e # os \<Rightarrow> (Inl (TemporalError e), snd (temporal_execute q (t\<lparr>tp_outcomes := os\<rparr>))))"

text \<open>The request of \<open>start\<close>, and its \<open>catch\<close>: an execution that is there already is as good as a new one.\<close>

definition to_start :: "workflow_outbox_create \<Rightarrow> start_request" where
  "to_start row = \<lparr>sq_workflowType = wo_workflowType row, sq_taskQueue = wo_taskQueue row, sq_workflowId = wo_workflowId row,
     sq_conflictPolicy = Conflict_USE_EXISTING, sq_reusePolicy = Reuse_REJECT_DUPLICATE, sq_args = [wo_input row]\<rparr>"

definition OrderWorkflowOutboxRelayService_start :: "workflow_outbox_create \<Rightarrow> temporal \<Rightarrow> string option \<times> temporal" where
  "OrderWorkflowOutboxRelayService_start row t =
     (case temporal_start (to_start row) t of
        (Inr u, t') \<Rightarrow> (None, t')
      | (Inl WorkflowExecutionAlreadyStartedError, t') \<Rightarrow> (None, t')
      | (Inl (TemporalError msg), t') \<Rightarrow> (Some msg, t'))"

definition OrderWorkflowOutboxRelayService_relayBatch ::
  "bool \<Rightarrow> time \<Rightarrow> OrderWorkflowOutbox list \<Rightarrow> temporal \<Rightarrow> OrderWorkflowOutbox list \<times> temporal" where
  "OrderWorkflowOutboxRelayService_relayBatch lost now rows t =
     relay_batch OrderWorkflowOutboxRepository_claimUnstarted OrderWorkflowOutboxRepository_recordFailure
       (OrderWorkflowOutboxRepository_markStarted now) workflow_check wo_workflowId
       workflow_outbox_create.truncate OrderWorkflowOutboxRelayService_start
       relay_batch_size lost rows t"

definition OrderWorkflowOutboxRelayService_relay ::
  "bool \<Rightarrow> time \<Rightarrow> bool \<times> OrderWorkflowOutbox list \<times> temporal \<Rightarrow> bool \<times> OrderWorkflowOutbox list \<times> temporal" where
  "OrderWorkflowOutboxRelayService_relay lost now = relay_tick (OrderWorkflowOutboxRelayService_relayBatch lost now)"

definition OrderWorkflowOutboxRelayService_deleteStarted :: "time \<Rightarrow> OrderWorkflowOutbox list \<Rightarrow> OrderWorkflowOutbox list" where
  "OrderWorkflowOutboxRelayService_deleteStarted now rows =
     snd (OrderWorkflowOutboxRepository_deleteStartedBefore (retention_start now) rows)"

subsection \<open>What a relay needs, and what it then gives\<close>

text \<open>
  \<open>view\<close> is what of a row never changes: the message it becomes. The repository laws say which rows a
  claim returns and what the updates touch; the broker laws say that an accepted message is there
  and stays there.
\<close>

locale outbox_repository =
  fixes claim :: "nat \<Rightarrow> 'r list \<Rightarrow> 'r list"
    and recordFailure :: "string \<Rightarrow> string \<Rightarrow> 'r list \<Rightarrow> 'r list"
    and markDone :: "string list \<Rightarrow> 'r list \<Rightarrow> 'r list"
    and pending :: "'r \<Rightarrow> bool"
    and key :: "'r \<Rightarrow> string"
    and emit :: "'r \<Rightarrow> 'm"
  assumes claim_pending: "r \<in> set (claim n rows) \<Longrightarrow> r \<in> set rows \<and> pending r"
    and claim_distinct: "distinct (map key rows) \<Longrightarrow> distinct (map key (claim n rows))"
    and claim_length: "length (claim n rows) = min n (count_where pending rows)"
    and fail_view: "map (\<lambda>r. (key r, emit r, pending r)) (recordFailure i msg rows)
      = map (\<lambda>r. (key r, emit r, pending r)) rows"
    and mark_view: "map (\<lambda>r. (key r, emit r, pending r)) (markDone ids rows)
      = map (\<lambda>r. (key r, emit r, pending r \<and> key r \<notin> set ids)) rows"

locale outbox_relay = outbox_repository claim recordFailure markDone pending key emit
  for claim :: "nat \<Rightarrow> 'r list \<Rightarrow> 'r list"
    and recordFailure :: "string \<Rightarrow> string \<Rightarrow> 'r list \<Rightarrow> 'r list"
    and markDone :: "string list \<Rightarrow> 'r list \<Rightarrow> 'r list"
    and pending :: "'r \<Rightarrow> bool" and key :: "'r \<Rightarrow> string" and emit :: "'r \<Rightarrow> 'm" +
  fixes send :: "'m \<Rightarrow> 'b \<Rightarrow> string option \<times> 'b"
    and has :: "'b \<Rightarrow> 'm \<Rightarrow> bool"
  assumes send_accepted: "send m b = (None, b') \<Longrightarrow> has b' m"
    and send_keeps: "send m b = (a, b') \<Longrightarrow> has b m' \<Longrightarrow> has b' m'"
begin

lemma loop_keeps: "relay_loop key emit send rs b = (ids, failure, b') \<Longrightarrow> has b m \<Longrightarrow> has b' m"
  by (induction rs arbitrary: b ids) (auto split: prod.splits option.splits dest: send_keeps)

text \<open>The accepted rows are a prefix of the claim, and the broker has all of them.\<close>

lemma loop_prefix:
  assumes "relay_loop key emit send rs b = (ids, failure, b')"
  shows "ids = map key (take (length ids) rs)"
    and "\<forall>r\<in>set (take (length ids) rs). has b' (emit r)"
    and "failure = None \<longleftrightarrow> length ids = length rs"
  using assms
proof (induction rs arbitrary: b ids)
  case (Cons r rs)
  { case 1 then show ?case using Cons.IH(1) by (auto split: prod.splits option.splits)
  next
    case 2
    then show ?case
      using Cons.IH(2) loop_keeps send_accepted by (auto split: prod.splits option.splits)
  next
    case 3 then show ?case using Cons.IH(3) by (auto split: prod.splits option.splits) }
qed auto

definition delivered :: "'r list \<Rightarrow> 'b \<Rightarrow> bool" where
  "delivered rows b \<longleftrightarrow> (\<forall>r\<in>set rows. \<not> pending r \<longrightarrow> has b (emit r))"

lemma delivered_view:
  "delivered rows b \<longleftrightarrow> (\<forall>(k, m, p)\<in>set (map (\<lambda>r. (key r, emit r, pending r)) rows). \<not> p \<longrightarrow> has b m)"
  by (auto simp: delivered_def)

lemma batch_cases:
  assumes "relay_batch claim recordFailure markDone check key emit send limit lost rows b = (rows', b')"
  obtains ids failure where "relay_loop key emit send (claim limit rows) b = (ids, failure, b')"
    "map (\<lambda>r. (key r, emit r, pending r)) rows' = map (\<lambda>r. (key r, emit r, pending r \<and> key r \<notin> set ids)) rows
      \<or> rows' = rows \<and> (lost \<or> (\<exists>rows''. \<not> list_all check rows''))"
proof -
  obtain ids failure b1 where loop: "relay_loop key emit send (claim limit rows) b = (ids, failure, b1)"
    by (metis prod_cases3)
  let ?rows1 = "case failure of None \<Rightarrow> rows | Some (i, msg) \<Rightarrow> recordFailure i msg rows"
  let ?rows2 = "if ids = [] then ?rows1 else markDone ids ?rows1"
  have 1: "map (\<lambda>r. (key r, emit r, pending r)) ?rows1 = map (\<lambda>r. (key r, emit r, pending r)) rows"
    by (auto simp: fail_view split: option.split)
  have "map (\<lambda>r. (key r, emit r, pending r \<and> key r \<notin> set ids)) ?rows1
      = map (\<lambda>r. (key r, emit r, pending r \<and> key r \<notin> set ids)) rows"
    using arg_cong [OF 1, of "map (\<lambda>(k, m, p). (k, m, p \<and> k \<notin> set ids))"] by (simp add: comp_def)
  with 1 have 2: "map (\<lambda>r. (key r, emit r, pending r)) ?rows2
      = map (\<lambda>r. (key r, emit r, pending r \<and> key r \<notin> set ids)) rows"
    by (auto simp: mark_view)
  have "b1 = b'" "rows' = ?rows2 \<or> rows' = rows \<and> (lost \<or> \<not> list_all check ?rows2)"
    using assms by (auto simp: relay_batch_def loop Let_def split: if_splits)
  with loop 2 show thesis using that [of ids failure] by blast
qed

text \<open>Nothing is marked that the broker does not have, whatever fails and whatever is lost.\<close>

lemma batch_delivered:
  assumes batch: "relay_batch claim recordFailure markDone check key emit send limit lost rows b = (rows', b')"
    and inv: "delivered rows b" and keys: "distinct (map key rows)"
  shows "delivered rows' b'"
proof -
  from batch obtain ids failure where loop: "relay_loop key emit send (claim limit rows) b = (ids, failure, b')"
    and rows': "map (\<lambda>r. (key r, emit r, pending r)) rows' = map (\<lambda>r. (key r, emit r, pending r \<and> key r \<notin> set ids)) rows
      \<or> rows' = rows"
    by (rule batch_cases) blast
  have old: "delivered rows b'" using inv loop_keeps [OF loop] by (auto simp: delivered_def)
  have "has b' (emit r)" if "r \<in> set rows" "key r \<in> set ids" for r
  proof -
    from that(2) obtain q where q: "q \<in> set (take (length ids) (claim limit rows))" "key q = key r"
      using loop_prefix(1) [OF loop] by (metis imageE list.set_map)
    then have "q \<in> set rows" using claim_pending by (meson in_set_takeD)
    then have "q = r" using distinct_key_eq [OF keys _ that(1)] q(2) by blast
    then show ?thesis using loop_prefix(2) [OF loop] q(1) by blast
  qed
  then have all: "\<forall>(k, m, p)\<in>set (map (\<lambda>r. (key r, emit r, pending r \<and> key r \<notin> set ids)) rows). \<not> p \<longrightarrow> has b' m"
    using old by (auto simp: delivered_def)
  from rows' show ?thesis
  proof
    assume eq: "map (\<lambda>r. (key r, emit r, pending r)) rows' = map (\<lambda>r. (key r, emit r, pending r \<and> key r \<notin> set ids)) rows"
    show ?thesis unfolding delivered_view eq by (rule all)
  qed (simp add: old)
qed

text \<open>With a broker that accepts everything, a committed batch clears as many rows as it may.\<close>

text \<open>
  The accounting of a relay: every message of the history \<open>h\<close> is with the broker or waits in a row.
  The batch keeps it, and so do the insertion of a new row and the deletion of finished ones.
\<close>

definition accounted :: "'m list \<Rightarrow> 'r list \<Rightarrow> 'b \<Rightarrow> bool" where
  "accounted h rows b \<longleftrightarrow> distinct (map key rows) \<and> delivered rows b
     \<and> (\<forall>m\<in>set h. has b m \<or> (\<exists>r\<in>set rows. pending r \<and> emit r = m))"

lemma batch_view:
  assumes "relay_batch claim recordFailure markDone check key emit send limit lost rows b = (rows', b')"
  shows "map key rows' = map key rows" and "map emit rows' = map emit rows"
proof -
  from assms obtain ids where v: "map (\<lambda>r. (key r, emit r, pending r)) rows'
      = map (\<lambda>r. (key r, emit r, pending r \<and> key r \<notin> set ids)) rows \<or> rows' = rows"
    by (rule batch_cases) blast
  have m: "map k xs = map k ys \<and> map e xs = map e ys"
    if "map (\<lambda>r. (k r, e r, p r)) xs = map (\<lambda>r. (k r, e r, q r)) ys" for k :: "'r \<Rightarrow> string" and e :: "'r \<Rightarrow> 'm" and p q xs ys
    using arg_cong [OF that, of "map fst"] arg_cong [OF that, of "map (\<lambda>x. fst (snd x))"] by (simp add: comp_def)
  from v have "map key rows' = map key rows \<and> map emit rows' = map emit rows"
  proof
    assume "map (\<lambda>r. (key r, emit r, pending r)) rows'
      = map (\<lambda>r. (key r, emit r, pending r \<and> key r \<notin> set ids)) rows"
    then show ?thesis by (rule m)
  qed simp
  then show "map key rows' = map key rows" "map emit rows' = map emit rows" by simp_all
qed

lemma batch_accounted:
  assumes batch: "relay_batch claim recordFailure markDone check key emit send limit lost rows b = (rows', b')"
    and acc: "accounted h rows b"
  shows "accounted h rows' b'"
proof -
  have keys: "distinct (map key rows)" and del: "delivered rows b" using acc by (simp_all add: accounted_def)
  have del': "delivered rows' b'" by (rule batch_delivered [OF batch del keys])
  obtain ids failure where loop: "relay_loop key emit send (claim limit rows) b = (ids, failure, b')"
    by (rule batch_cases [OF batch])
  have "has b' m \<or> (\<exists>r\<in>set rows'. pending r \<and> emit r = m)" if "m \<in> set h" for m
  proof (cases "has b m")
    case True
    then show ?thesis using loop_keeps [OF loop] by blast
  next
    case False
    then have "m \<in> set (map emit rows')" using acc that by (auto simp: accounted_def batch_view(2) [OF batch])
    then obtain r' where "r' \<in> set rows'" "emit r' = m" by auto
    then show ?thesis using del' by (auto simp: delivered_def)
  qed
  then show ?thesis using keys del' by (simp add: accounted_def batch_view(1) [OF batch])
qed

lemma insert_accounted:
  "accounted h rows b \<Longrightarrow> key r \<notin> key ` set rows \<Longrightarrow> pending r \<Longrightarrow> accounted (h @ [emit r]) (rows @ [r]) b"
  by (auto simp: accounted_def delivered_def)

lemma filter_accounted:
  "accounted h rows b \<Longrightarrow> (\<And>r. \<not> p r \<Longrightarrow> \<not> pending r) \<Longrightarrow> accounted h (filter p rows) b"
  by (fastforce simp: accounted_def delivered_def distinct_map_filter)

lemma loop_accepts:
  assumes "\<And>m b. fst (send m b) = None" and "relay_loop key emit send rs b = (ids, failure, b')"
  shows "failure = None"
  using assms(2)
proof (induction rs arbitrary: b ids)
  case (Cons r rs)
  have "fst (send (emit r) b) = None" by (rule assms(1))
  then show ?case using Cons by (auto split: prod.splits option.splits)
qed simp

lemma batch_progress:
  assumes batch: "relay_batch claim recordFailure markDone check key emit send limit False rows b = (rows', b')"
    and check: "\<And>rows. list_all check rows"
    and accepts: "\<And>m b. fst (send m b) = None" and keys: "distinct (map key rows)"
  shows "count_where pending rows' = count_where pending rows - limit"
proof -
  from batch obtain ids failure where loop: "relay_loop key emit send (claim limit rows) b = (ids, failure, b')"
    and rows': "map (\<lambda>r. (key r, emit r, pending r)) rows' = map (\<lambda>r. (key r, emit r, pending r \<and> key r \<notin> set ids)) rows"
    by (rule batch_cases) (use check in auto)
  have ids: "ids = map key (claim limit rows)"
    using loop_prefix(1,3) [OF loop] loop_accepts [OF accepts loop] by simp
  have "count_where pending rows' = count_where (\<lambda>(k, m, p). p) (map (\<lambda>r. (key r, emit r, pending r)) rows')"
    by (simp add: count_where_def filter_map comp_def)
  also have "\<dots> = count_where (\<lambda>r. pending r \<and> key r \<notin> set ids) rows"
    unfolding rows' by (simp add: count_where_def filter_map comp_def)
  also have "\<dots> = card (key ` {r \<in> set rows. pending r} - set ids)"
    unfolding count_where_card [OF keys] using distinct_key_eq [OF keys] ids claim_pending
    by (intro arg_cong [where f = card]) auto
  also have "\<dots> = card (key ` {r \<in> set rows. pending r}) - card (set ids)"
    using ids claim_pending by (intro card_Diff_subset) auto
  also have "\<dots> = count_where pending rows - min limit (count_where pending rows)"
    using claim_length [of limit rows] distinct_card [OF claim_distinct [OF keys, of limit]]
    by (simp add: ids count_where_card [OF keys])
  finally show ?thesis by simp
qed

end

text \<open>The three event outboxes are one instance of the repository laws, the workflow outbox another.\<close>

lemma claim_rows_facts:
  shows "r \<in> set (claim_rows dn created key n rows) \<Longrightarrow> r \<in> set rows \<and> dn r = None"
    and "distinct (map key rows) \<Longrightarrow> distinct (map key (claim_rows dn created key n rows))"
    and "length (claim_rows dn created key n rows) = min n (count_where (\<lambda>r. dn r = None) rows)"
proof -
  show "r \<in> set (claim_rows dn created key n rows) \<Longrightarrow> r \<in> set rows \<and> dn r = None"
    by (auto simp: claim_rows_def dest: in_set_takeD)
  show "length (claim_rows dn created key n rows) = min n (count_where (\<lambda>r. dn r = None) rows)"
    by (simp add: claim_rows_def count_where_def min.commute)
  assume "distinct (map key rows)"
  then show "distinct (map key (claim_rows dn created key n rows))"
    unfolding claim_rows_def take_map [symmetric]
    by (intro distinct_take) (auto simp: distinct_map inj_on_subset)
qed

lemma update_where_view:
  assumes "\<And>r. v (f r) = v r"
  shows "map v (update_where p f rows) = map v rows"
  using assms by (rule map_update_where_key)

lemma mark_event_simps [simp]:
  "ob_id (mark_event now r) = ob_id r" "ob_publishedAt (mark_event now r) = Some now"
  "ob_topic (mark_event now r) = ob_topic r" "event_cloud_event src (mark_event now r) = event_cloud_event src r"
  by (simp_all add: mark_event_def event_cloud_event_def)

lemma fail_event_simps [simp]:
  "ob_id (fail_event msg r) = ob_id r" "ob_publishedAt (fail_event msg r) = ob_publishedAt r"
  "ob_topic (fail_event msg r) = ob_topic r" "event_cloud_event src (fail_event msg r) = event_cloud_event src r"
  by (simp_all add: fail_event_def event_cloud_event_def)

lemma mark_workflow_simps [simp]:
  "wo_workflowId (mark_workflow now r) = wo_workflowId r" "wo_startedAt (mark_workflow now r) = Some now"
  "workflow_outbox_create.truncate (mark_workflow now r) = workflow_outbox_create.truncate r"
  by (simp_all add: mark_workflow_def workflow_outbox_create.truncate_def)

lemma fail_workflow_simps [simp]:
  "wo_workflowId (fail_workflow msg r) = wo_workflowId r" "wo_startedAt (fail_workflow msg r) = wo_startedAt r"
  "workflow_outbox_create.truncate (fail_workflow msg r) = workflow_outbox_create.truncate r"
  by (simp_all add: fail_workflow_def workflow_outbox_create.truncate_def)

lemma mark_where_view:
  assumes "\<And>r. key (f r) = key r" "\<And>r. emit (f r) = emit r" "\<And>r. dn (f r) = Some now"
  shows "map (\<lambda>r. (key r, emit r, dn r = None)) (update_where (\<lambda>r. key r \<in> set ids) f rows)
    = map (\<lambda>r. (key r, emit r, dn r = None \<and> key r \<notin> set ids)) rows"
  using assms by (induction rows) auto

definition in_log :: "kafka_message kafka \<Rightarrow> string \<times> json cloud_event \<Rightarrow> bool" where
  "in_log b m \<longleftrightarrow> event_message (fst m) (snd m) \<in> set (kf_log b)"

lemma publish_accepted: "publish_pair m b = (None, b') \<Longrightarrow> in_log b' m"
  by (auto simp: publish_pair_def KafkaProducerService_publish_def kafka_send_def in_log_def
      split: list.splits send_outcome.splits)

lemma publish_keeps: "publish_pair m b = (a, b') \<Longrightarrow> in_log b m' \<Longrightarrow> in_log b' m'"
  by (auto simp: publish_pair_def KafkaProducerService_publish_def kafka_send_def in_log_def
      split: list.splits send_outcome.splits)

interpretation order_relay: outbox_relay OrderOutboxRepository_claimUnpublished OrderOutboxRepository_recordFailure
  "OrderOutboxRepository_markPublished now" "\<lambda>r. ob_publishedAt r = None" ob_id
  "\<lambda>r. (topic_value (ob_topic r), OrderOutboxRelayService_toCloudEvent r)" publish_pair in_log
  for now
  unfolding OrderOutboxRepository_claimUnpublished_def OrderOutboxRepository_recordFailure_def
    OrderOutboxRepository_markPublished_def OrderOutboxRelayService_toCloudEvent_def
  by unfold_locales
    (simp_all add: claim_rows_facts update_where_view mark_where_view publish_accepted publish_keeps)

interpretation identity_relay: outbox_relay IdentityOutboxRepository_claimUnpublished IdentityOutboxRepository_recordFailure
  "IdentityOutboxRepository_markPublished now" "\<lambda>r. ob_publishedAt r = None" ob_id
  "\<lambda>r. (topic_value (ob_topic r), IdentityOutboxRelayService_toCloudEvent r)" publish_pair in_log
  for now
  unfolding IdentityOutboxRepository_claimUnpublished_def IdentityOutboxRepository_recordFailure_def
    IdentityOutboxRepository_markPublished_def IdentityOutboxRelayService_toCloudEvent_def
  by unfold_locales
    (simp_all add: claim_rows_facts update_where_view mark_where_view publish_accepted publish_keeps)

interpretation user_relay: outbox_relay UserOutboxRepository_claimUnpublished UserOutboxRepository_recordFailure
  "UserOutboxRepository_markPublished now" "\<lambda>r. ob_publishedAt r = None" ob_id
  "\<lambda>r. (topic_value (ob_topic r), UserOutboxRelayService_toCloudEvent r)" publish_pair in_log
  for now
  unfolding UserOutboxRepository_claimUnpublished_def UserOutboxRepository_recordFailure_def
    UserOutboxRepository_markPublished_def UserOutboxRelayService_toCloudEvent_def
  by unfold_locales
    (simp_all add: claim_rows_facts update_where_view mark_where_view publish_accepted publish_keeps)

text \<open>An execution of the id is kept, or was begun at some time.\<close>

definition retained :: "temporal \<Rightarrow> string \<Rightarrow> bool" where
  "retained t i \<longleftrightarrow> (\<exists>e\<in>set (tp_executions t). sq_workflowId (ex_request e) = i)"

definition starts :: "temporal \<Rightarrow> string \<Rightarrow> nat" where
  "starts t i = count_list (map sq_workflowId (tp_started t)) i"

definition started :: "temporal \<Rightarrow> workflow_outbox_create \<Rightarrow> bool" where
  "started t w \<longleftrightarrow> retained t (wo_workflowId w) \<or> 0 < starts t (wo_workflowId w)"

lemma retained_image: "retained t i \<longleftrightarrow> i \<in> (\<lambda>e. sq_workflowId (ex_request e)) ` set (tp_executions t)"
  by (auto simp: retained_def image_iff)

lemma distinct_count_le: "(\<And>i. count_list xs i \<le> 1) \<Longrightarrow> distinct xs"
proof (induction xs)
  case (Cons x xs)
  have "count_list xs x = 0" using Cons.prems [of x] by simp
  moreover have "count_list xs i \<le> 1" for i using Cons.prems [of i] by (simp split: if_splits)
  ultimately show ?case using Cons.IH by (simp add: count_list_0_iff)
qed simp

lemma starts_pos: "0 < starts t i \<longleftrightarrow> i \<in> sq_workflowId ` set (tp_started t)"
  using count_list_0_iff [of "map sq_workflowId (tp_started t)" i] by (auto simp: starts_def)

lemma to_start_id [simp]: "sq_workflowId (to_start w) = wo_workflowId w"
  by (simp add: to_start_def)

text \<open>A call of \<open>start\<close> begins an execution only if none of the id is kept, and reports success only if one is kept then.\<close>

lemma start_effect:
  assumes "OrderWorkflowOutboxRelayService_start w t = (a, t')"
  shows "tp_executions t' = tp_executions t \<and> tp_started t' = tp_started t \<and> (a = None \<longrightarrow> retained t (wo_workflowId w))
    \<or> \<not> retained t (wo_workflowId w) \<and> tp_started t' = tp_started t @ [to_start w]
      \<and> tp_executions t' = tp_executions t @ [\<lparr>ex_request = to_start w, ex_status = Execution_running\<rparr>]"
proof -
  have exec: "tp_executions u' = tp_executions u \<and> tp_started u' = tp_started u \<and> retained u (wo_workflowId w)
      \<or> \<not> retained u (wo_workflowId w) \<and> tp_started u' = tp_started u @ [to_start w]
        \<and> tp_executions u' = tp_executions u @ [\<lparr>ex_request = to_start w, ex_status = Execution_running\<rparr>]"
    if "temporal_execute (to_start w) u = (r, u')" for r u u'
    using that
    by (auto simp: temporal_execute_def temporal_begin_def to_start_def retained_def Let_def list_ex_iff filter_empty_conv
        split: if_splits)
  note defs = OrderWorkflowOutboxRelayService_start_def temporal_start_def
  from assms show ?thesis
    using exec [of t] exec [of "t\<lparr>tp_outcomes := tl (tp_outcomes t)\<rparr>"]
    by (auto simp: defs retained_def split: list.splits send_outcome.splits prod.splits sum.splits temporal_error.splits)
      (metis prod.collapse)+
qed

lemma start_accepted: "OrderWorkflowOutboxRelayService_start w t = (None, t') \<Longrightarrow> started t' w"
  using start_effect [of w t None t'] by (auto simp: started_def retained_def)

lemma start_keeps: "OrderWorkflowOutboxRelayService_start w t = (a, t') \<Longrightarrow> started t v \<Longrightarrow> started t' v"
  using start_effect [of w t a t'] by (auto simp: started_def retained_def starts_def)

interpretation workflow_relay: outbox_relay OrderWorkflowOutboxRepository_claimUnstarted
  OrderWorkflowOutboxRepository_recordFailure "OrderWorkflowOutboxRepository_markStarted now"
  "\<lambda>r. wo_startedAt r = None" wo_workflowId workflow_outbox_create.truncate
  OrderWorkflowOutboxRelayService_start started
  for now
  unfolding OrderWorkflowOutboxRepository_claimUnstarted_def OrderWorkflowOutboxRepository_recordFailure_def
    OrderWorkflowOutboxRepository_markStarted_def
  by unfold_locales
    (simp_all add: claim_rows_facts update_where_view mark_where_view start_accepted start_keeps)

subsection \<open>No event is lost, and each is published in order\<close>

text \<open>
  The life of the order outbox: rows are inserted, the relay ticks (and may lose its transaction),
  the retention job deletes. The first component remembers every event that was ever inserted.
\<close>

definition order_event :: "OrderOutbox \<Rightarrow> string \<times> json cloud_event" where
  "order_event r = (topic_value (ob_topic r), OrderOutboxRelayService_toCloudEvent r)"

type_synonym outbox_life = "(string \<times> json cloud_event) list \<times> OrderOutbox list \<times> kafka_message kafka"

inductive order_outbox_step :: "outbox_life \<Rightarrow> outbox_life \<Rightarrow> bool" where
  insert: "OrderOutboxRepository_create now input rows = Inr rows' \<Longrightarrow>
    order_outbox_step (h, rows, b) (h @ [order_event (last rows')], rows', b)"
| relay: "OrderOutboxRelayService_relay lost now (False, rows, b) = (flag, rows', b') \<Longrightarrow>
    order_outbox_step (h, rows, b) (h, rows', b')"
| cleanup: "order_outbox_step (h, rows, b) (h, OrderOutboxRelayService_deletePublished now rows, b)"

lemma order_outbox_step_inv:
  "order_outbox_step s t \<Longrightarrow> order_relay.accounted (fst s) (fst (snd s)) (snd (snd s))
    \<Longrightarrow> order_relay.accounted (fst t) (fst (snd t)) (snd (snd t))"
proof (induction rule: order_outbox_step.induct)
  case (insert now input rows rows' h b)
  then obtain r where "rows' = rows @ [r]" "ob_id r \<notin> ob_id ` set rows" "ob_publishedAt r = None"
    by (auto simp: OrderOutboxRepository_create_def event_insert_def list_ex_key event_outbox_create.defs
        split: if_splits)
  with insert(2) show ?case using order_relay.insert_accounted by (auto simp: order_event_def)
next
  case (relay lost now rows b flag rows' b' h)
  then have "OrderOutboxRelayService_relayBatch lost now rows b = (rows', b')"
    by (auto simp: OrderOutboxRelayService_relay_def relay_tick_def split: prod.splits)
  then show ?case
    using relay(2) order_relay.batch_accounted unfolding OrderOutboxRelayService_relayBatch_def by simp
next
  case (cleanup h rows b now)
  then show ?case
    by (auto simp: OrderOutboxRelayService_deletePublished_def OrderOutboxRepository_deletePublishedBefore_def
        Let_def intro!: order_relay.filter_accounted)
qed

text \<open>
  C11. The order outbox delivers at least once: whatever fails, is lost or is cleaned up, every event
  ever written is in the Kafka log or still waits in an unpublished row.
\<close>

theorem order_outbox_at_least_once:
  assumes "order_outbox_step\<^sup>*\<^sup>* ([], [], b) (h, rows, b')" and "m \<in> set h"
  shows "in_log b' m \<or> (\<exists>r\<in>set rows. ob_publishedAt r = None \<and> order_event r = m)"
proof -
  have "order_relay.accounted (fst t) (fst (snd t)) (snd (snd t))" if "order_outbox_step\<^sup>*\<^sup>* ([], [], b) t" for t
    using that
  proof (induction rule: rtranclp_induct)
    case base
    then show ?case by (simp add: order_relay.accounted_def order_relay.delivered_def)
  qed (rule order_outbox_step_inv)
  from this [OF assms(1)] assms(2) show ?thesis by (auto simp: order_relay.accounted_def order_event_def)
qed

definition demo_event :: event_outbox_create where
  "demo_event = \<lparr>ob_id = ''e1'', ob_topic = Topic_ORDER_EVENTS, ob_aggregateType = ''Order'',
     ob_aggregateId = ''order'', ob_type = ''order.created'', ob_payload = JObj []\<rparr>"

definition demo_row :: OrderOutbox where
  "demo_row = \<lparr>ob_id = ''e1'', ob_topic = Topic_ORDER_EVENTS, ob_aggregateType = ''Order'',
     ob_aggregateId = ''order'', ob_type = ''order.created'', ob_payload = JObj [], ob_createdAt = 1,
     ob_publishedAt = None, ob_attempts = 0, ob_lastError = None\<rparr>"

lemma demo_insert: "OrderOutboxRepository_create 1 demo_event [] = Inr [demo_row]"
  by (simp add: OrderOutboxRepository_create_def event_insert_def demo_event_def demo_row_def event_outbox_create.defs)

theorem order_outbox_at_least_once_witness:
  "in_log \<lparr>kf_log = [], kf_outcomes = []\<rparr> (order_event demo_row)
    \<or> (\<exists>r\<in>set [demo_row]. ob_publishedAt r = None \<and> order_event r = order_event demo_row)"
  by (rule order_outbox_at_least_once [of "\<lparr>kf_log = [], kf_outcomes = []\<rparr>" "[order_event demo_row]"])
    (use order_outbox_step.insert [OF demo_insert, of "[]"] in \<open>auto intro: r_into_rtranclp\<close>)

lemma relay_loop_log:
  assumes "relay_loop key emit publish_pair rs b = (ids, failure, b')"
  shows "\<exists>n. length ids \<le> n \<and> n \<le> Suc (length ids)
    \<and> kf_log b' = kf_log b @ map (\<lambda>r. event_message (fst (emit r)) (snd (emit r))) (take n rs)"
  using assms
proof (induction rs arbitrary: b ids)
  case (Cons r rs)
  obtain a b1 where s: "publish_pair (emit r) b = (a, b1)" by (cases "publish_pair (emit r) b")
  let ?m = "event_message (fst (emit r)) (snd (emit r))"
  show ?case
  proof (cases a)
    case None
    then have b1: "kf_log b1 = kf_log b @ [?m]" using s
      by (auto simp: publish_pair_def KafkaProducerService_publish_def kafka_send_def split: list.splits send_outcome.splits)
    obtain ids1 where ids: "ids = key r # ids1" "relay_loop key emit publish_pair rs b1 = (ids1, failure, b')"
      using Cons.prems s None by (auto split: prod.splits)
    from Cons.IH [OF ids(2)] obtain n where "length ids1 \<le> n" "n \<le> Suc (length ids1)"
      "kf_log b' = kf_log b1 @ map (\<lambda>r. event_message (fst (emit r)) (snd (emit r))) (take n rs)" by blast
    then show ?thesis using ids(1) b1 by (intro exI [of _ "Suc n"]) simp
  next
    case (Some msg)
    then have "ids = []" "b' = b1" using Cons.prems s by auto
    moreover have "kf_log b1 = kf_log b \<or> kf_log b1 = kf_log b @ [?m]" using s
      by (auto simp: publish_pair_def KafkaProducerService_publish_def kafka_send_def split: list.splits send_outcome.splits)
    ultimately show ?thesis
      by (elim disjE) (rule exI [of _ 0], simp, rule exI [of _ 1], simp)
  qed
qed auto

text \<open>
  A batch publishes in order: what the log gains is a prefix of the claimed rows, oldest first
  by creation time and then by id, at most a hundred of them, and only rows that were not yet published.
\<close>

theorem order_relay_in_order:
  assumes "OrderOutboxRelayService_relayBatch lost now rows b = (rows', b')"
  shows "\<exists>qs. kf_log b' = kf_log b @ map (\<lambda>r. event_message (fst (order_event r)) (snd (order_event r))) qs
    \<and> sorted (map (\<lambda>r. (ob_createdAt r, ob_id r)) qs) \<and> length qs \<le> 100
    \<and> set qs \<subseteq> {r \<in> set rows. ob_publishedAt r = None}"
proof -
  let ?claim = "OrderOutboxRepository_claimUnpublished relay_batch_size rows"
  obtain ids failure where
    "relay_loop ob_id (\<lambda>r. (topic_value (ob_topic r), OrderOutboxRelayService_toCloudEvent r))
      publish_pair ?claim b = (ids, failure, b')"
    by (rule order_relay.batch_cases [OF assms [unfolded OrderOutboxRelayService_relayBatch_def]])
  from relay_loop_log [OF this] obtain n where
    log: "kf_log b' = kf_log b @ map (\<lambda>r. event_message (fst (order_event r)) (snd (order_event r))) (take n ?claim)"
    by (auto simp: order_event_def)
  have "sorted (map (\<lambda>r. (ob_createdAt r, ob_id r)) ?claim)"
    unfolding OrderOutboxRepository_claimUnpublished_def claim_rows_def take_map [symmetric]
    by (intro sorted_wrt_take sorted_sort_key)
  then have "sorted (map (\<lambda>r. (ob_createdAt r, ob_id r)) (take n ?claim))"
    by (simp add: sorted_wrt_take flip: take_map)
  moreover have "length ?claim \<le> 100"
    by (simp add: OrderOutboxRepository_claimUnpublished_def claim_rows_facts relay_batch_size_def)
  moreover have "set (take n ?claim) \<subseteq> {r \<in> set rows. ob_publishedAt r = None}"
    using order_relay.claim_pending by (blast dest: in_set_takeD)
  ultimately show ?thesis using log by (intro exI [of _ "take n ?claim"]) simp
qed

theorem order_relay_in_order_witness:
  "\<exists>qs. kf_log (snd (OrderOutboxRelayService_relayBatch False 5 [demo_row] \<lparr>kf_log = [], kf_outcomes = []\<rparr>))
      = map (\<lambda>r. event_message (fst (order_event r)) (snd (order_event r))) qs
    \<and> set qs \<subseteq> {demo_row}"
  using order_relay_in_order [of False 5 "[demo_row]" "\<lparr>kf_log = [], kf_outcomes = []\<rparr>"]
  by (metis (no_types, lifting) append_Nil kafka.select_convs(1) list.set(1,2) mem_Collect_eq subset_iff surjective_pairing)

subsection \<open>Each workflow is started once\<close>

text \<open>
  The life of the workflow outbox: the rows inserted so far, the rows, the server, and the ids it
  forgot too early. A workflow id is made from the public id of its order, so it is inserted once.
  The server closes executions and drops closed ones at the end of their retention; when the row of a dropped execution
  is still waiting, because the relay could not commit for as long as that, its id was forgotten too early.
\<close>

type_synonym workflow_life = "workflow_outbox_create list \<times> OrderWorkflowOutbox list \<times> temporal \<times> string list"

definition waiting :: "OrderWorkflowOutbox list \<Rightarrow> string \<Rightarrow> bool" where
  "waiting rows i \<longleftrightarrow> list_ex (\<lambda>r. wo_workflowId r = i \<and> wo_startedAt r = None) rows"

inductive workflow_outbox_step :: "workflow_life \<Rightarrow> workflow_life \<Rightarrow> bool" where
  insert: "OrderWorkflowOutboxRepository_create now input rows = Inr rows' \<Longrightarrow> wo_workflowId input \<notin> wo_workflowId ` set h \<Longrightarrow>
    workflow_outbox_step (h, rows, t, f) (h @ [input], rows', t, f)"
| relay: "OrderWorkflowOutboxRelayService_relay lost now (False, rows, t) = (flag, rows', t') \<Longrightarrow>
    workflow_outbox_step (h, rows, t, f) (h, rows', t', f)"
| cleanup: "workflow_outbox_step (h, rows, t, f) (h, OrderWorkflowOutboxRelayService_deleteStarted now rows, t, f)"
| closed: "workflow_outbox_step (h, rows, t, f) (h, rows, temporal_close i st t, f)"
| expired: "tp_executions t = es @ e # es' \<Longrightarrow> ex_status e \<noteq> Execution_running \<Longrightarrow> i = sq_workflowId (ex_request e) \<Longrightarrow>
    workflow_outbox_step (h, rows, t, f) (h, rows, t\<lparr>tp_executions := es @ es'\<rparr>, if waiting rows i then f @ [i] else f)"

text \<open>What a batch does to one id: it is started again only when nothing of it is kept, and only if its row was claimed.\<close>

definition kept_starts :: "temporal \<Rightarrow> string \<Rightarrow> nat \<Rightarrow> bool" where
  "kept_starts t i n \<longleftrightarrow> starts t i \<le> n + (if retained t i then 1 else 0)"

lemma start_counts:
  assumes "OrderWorkflowOutboxRelayService_start w t = (a, t')"
  shows "kept_starts t i n \<Longrightarrow> kept_starts t' i n" and "i \<noteq> wo_workflowId w \<Longrightarrow> starts t' i = starts t i"
    and "(retained t i \<longrightarrow> 0 < starts t i) \<Longrightarrow> retained t' i \<longrightarrow> 0 < starts t' i"
    and "set (tp_started t') \<subseteq> insert (to_start w) (set (tp_started t))"
proof -
  from start_effect [OF assms]
  have k: "retained t' i = retained t i \<and> starts t' i = starts t i \<and> tp_started t' = tp_started t
    \<or> \<not> retained t (wo_workflowId w) \<and> retained t' i = (retained t i \<or> wo_workflowId w = i)
      \<and> starts t' i = starts t i + (if wo_workflowId w = i then 1 else 0) \<and> tp_started t' = tp_started t @ [to_start w]"
    by (elim disjE conjE) (simp_all add: retained_def starts_def disj_commute)
  show "kept_starts t i n \<Longrightarrow> kept_starts t' i n" using k by (auto simp: kept_starts_def split: if_splits)
  show "i \<noteq> wo_workflowId w \<Longrightarrow> starts t' i = starts t i" using k by auto
  show "(retained t i \<longrightarrow> 0 < starts t i) \<Longrightarrow> retained t' i \<longrightarrow> 0 < starts t' i" using k by auto
  show "set (tp_started t') \<subseteq> insert (to_start w) (set (tp_started t))" using k by auto
qed

lemma loop_counts:
  assumes "relay_loop wo_workflowId workflow_outbox_create.truncate OrderWorkflowOutboxRelayService_start rs t = (ids, failure, t')"
  shows "(kept_starts t i n \<longrightarrow> kept_starts t' i n)
    \<and> (i \<notin> wo_workflowId ` set rs \<longrightarrow> starts t' i = starts t i)
    \<and> ((retained t i \<longrightarrow> 0 < starts t i) \<longrightarrow> retained t' i \<longrightarrow> 0 < starts t' i)
    \<and> set (tp_started t') \<subseteq> set (tp_started t) \<union> (\<lambda>r. to_start (workflow_outbox_create.truncate r)) ` set rs"
  using assms
proof (induction rs arbitrary: t ids)
  case (Cons r rs)
  let ?w = "workflow_outbox_create.truncate r"
  obtain a t1 where st: "OrderWorkflowOutboxRelayService_start ?w t = (a, t1)" by fastforce
  have w: "wo_workflowId ?w = wo_workflowId r" by (simp add: workflow_outbox_create.truncate_def)
  note step = start_counts [OF st]
  show ?case
  proof (cases a)
    case None
    then obtain ids1 where "relay_loop wo_workflowId workflow_outbox_create.truncate OrderWorkflowOutboxRelayService_start rs t1
        = (ids1, failure, t')"
      using Cons.prems st by (auto split: prod.splits)
    from Cons.IH [OF this] step(1,3,4) step(2) [of i] show ?thesis unfolding w by auto
  next
    case (Some msg)
    then have "t' = t1" using Cons.prems st by simp
    with step(1,3,4) step(2) [of i] show ?thesis unfolding w by auto
  qed
qed simp

definition workflow_inv :: "workflow_life \<Rightarrow> bool" where
  "workflow_inv s \<longleftrightarrow> (case s of (h, rows, t, f) \<Rightarrow>
     workflow_relay.accounted h rows t \<and> distinct (map wo_workflowId h)
     \<and> workflow_outbox_create.truncate ` set rows \<subseteq> set h \<and> set (tp_started t) \<subseteq> to_start ` set h
     \<and> (\<forall>i. retained t i \<longrightarrow> 0 < starts t i) \<and> (\<forall>i. starts t i \<le> Suc (count_list f i))
     \<and> (\<forall>i. waiting rows i \<longrightarrow> kept_starts t i (count_list f i)))"

lemma waiting_batch:
  assumes "map (\<lambda>r. (wo_workflowId r, e r, wo_startedAt r = None)) rows'
      = map (\<lambda>r. (wo_workflowId r, e r, wo_startedAt r = None \<and> wo_workflowId r \<notin> set ids)) rows \<or> rows' = rows"
    and "waiting rows' i"
  shows "waiting rows i"
  using assms(1)
proof
  assume v: "map (\<lambda>r. (wo_workflowId r, e r, wo_startedAt r = None)) rows'
      = map (\<lambda>r. (wo_workflowId r, e r, wo_startedAt r = None \<and> wo_workflowId r \<notin> set ids)) rows"
  obtain r where r: "r \<in> set rows'" "wo_workflowId r = i" "wo_startedAt r = None"
    using assms(2) by (auto simp: waiting_def list_ex_iff)
  then have "(i, e r, True) \<in> set (map (\<lambda>r. (wo_workflowId r, e r, wo_startedAt r = None)) rows')" by force
  then show ?thesis unfolding v by (auto simp: waiting_def list_ex_iff)
qed (use assms(2) in simp)

lemma workflow_step_inv: "workflow_outbox_step s u \<Longrightarrow> workflow_inv s \<Longrightarrow> workflow_inv u"
proof (induction rule: workflow_outbox_step.induct)
  case (insert now input rows rows' h t f)
  then obtain r where r: "rows' = rows @ [r]" "wo_workflowId r \<notin> wo_workflowId ` set rows" "wo_startedAt r = None"
    "workflow_outbox_create.truncate r = input"
    by (auto simp: OrderWorkflowOutboxRepository_create_def list_ex_key workflow_outbox_create.defs split: if_splits)
  have id: "wo_workflowId r = wo_workflowId input" using r(4) by (auto simp: workflow_outbox_create.truncate_def)
  have "workflow_relay.accounted (h @ [input]) rows' t"
    using workflow_relay.insert_accounted [of h rows t r] insert(3) r by (simp add: workflow_inv_def)
  moreover have "starts t (wo_workflowId input) = 0"
    using insert(2,3) starts_pos [of t "wo_workflowId input"] by (fastforce simp: workflow_inv_def)
  ultimately show ?case using insert(2,3) r id
    by (auto simp: workflow_inv_def waiting_def kept_starts_def)
next
  case (relay lost now rows t flag rows' t' h f)
  then have "OrderWorkflowOutboxRelayService_relayBatch lost now rows t = (rows', t')"
    by (auto simp: OrderWorkflowOutboxRelayService_relay_def relay_tick_def split: prod.splits)
  note batch = this [unfolded OrderWorkflowOutboxRelayService_relayBatch_def]
  obtain ids failure where
    loop: "relay_loop wo_workflowId workflow_outbox_create.truncate OrderWorkflowOutboxRelayService_start
        (OrderWorkflowOutboxRepository_claimUnstarted relay_batch_size rows) t = (ids, failure, t')"
    and view: "map (\<lambda>r. (wo_workflowId r, workflow_outbox_create.truncate r, wo_startedAt r = None)) rows'
        = map (\<lambda>r. (wo_workflowId r, workflow_outbox_create.truncate r, wo_startedAt r = None \<and> wo_workflowId r \<notin> set ids)) rows
      \<or> rows' = rows"
    by (rule workflow_relay.batch_cases [OF batch]) blast
  let ?claim = "OrderWorkflowOutboxRepository_claimUnstarted relay_batch_size rows"
  have claim: "set ?claim \<subseteq> {r \<in> set rows. wo_startedAt r = None}" using workflow_relay.claim_pending by blast
  note inv = relay(2) [unfolded workflow_inv_def, simplified]
  have counts: "starts t' i \<le> Suc (count_list f i)" for i
  proof (cases "i \<in> wo_workflowId ` set ?claim")
    case True
    with claim have "waiting rows i" by (auto simp: waiting_def list_ex_iff)
    then have "kept_starts t i (count_list f i)" using inv by blast
    with loop_counts [OF loop, of i "count_list f i"] show ?thesis by (auto simp: kept_starts_def split: if_splits)
  next
    case False
    then show ?thesis using loop_counts [OF loop, of i 0] inv by simp
  qed
  have "kept_starts t' i (count_list f i)" if "waiting rows' i" for i
    using waiting_batch [OF view that] inv loop_counts [OF loop, of i "count_list f i"] by blast
  moreover have "set (tp_started t') \<subseteq> to_start ` set h"
  proof -
    have "workflow_outbox_create.truncate ` set ?claim \<subseteq> set h" "set (tp_started t) \<subseteq> to_start ` set h"
      using claim inv by auto
    with loop_counts [OF loop, of undefined 0, THEN conjunct2, THEN conjunct2, THEN conjunct2] show ?thesis
      by (fastforce simp: subset_iff)
  qed
  moreover have "retained t' i \<longrightarrow> 0 < starts t' i" for i using loop_counts [OF loop, of i 0] inv by blast
  moreover have "workflow_outbox_create.truncate ` set rows' = workflow_outbox_create.truncate ` set rows"
    using arg_cong [OF workflow_relay.batch_view(2) [OF batch], of set] by simp
  ultimately show ?case
    using workflow_relay.batch_accounted [OF batch] inv counts by (simp add: workflow_inv_def)
next
  case (cleanup h rows t f now)
  then show ?case
    by (auto simp: workflow_inv_def OrderWorkflowOutboxRelayService_deleteStarted_def waiting_def list_ex_iff
        OrderWorkflowOutboxRepository_deleteStartedBefore_def Let_def intro!: workflow_relay.filter_accounted)
next
  case (closed h rows t f i st)
  have ret: "retained (temporal_close i st t) = retained t" and sts: "starts (temporal_close i st t) = starts t"
    and st: "tp_started (temporal_close i st t) = tp_started t"
    by (simp_all add: retained_image temporal_close_def starts_def fun_eq_iff image_update_where_key)
  have "started (temporal_close i st t) = started t" by (simp add: started_def fun_eq_iff ret sts)
  with closed ret sts st show ?case
    by (simp add: workflow_inv_def kept_starts_def workflow_relay.accounted_def workflow_relay.delivered_def)
next
  case (expired t es e es' i h rows f)
  let ?t = "t\<lparr>tp_executions := es @ es'\<rparr>"
  have sts: "starts ?t = starts t" "tp_started ?t = tp_started t" by (simp_all add: starts_def fun_eq_iff)
  have ret: "retained ?t k \<Longrightarrow> retained t k" "k \<noteq> i \<Longrightarrow> retained ?t k = retained t k" for k
    using expired(1,3) by (auto simp: retained_def)
  have "\<forall>k. retained t k \<longrightarrow> 0 < starts t k" using expired(4) by (simp add: workflow_inv_def)
  with ret(1) have "started ?t = started t" by (auto simp: started_def fun_eq_iff sts)
  with expired(4) have "workflow_relay.accounted h rows ?t"
    by (simp add: workflow_inv_def workflow_relay.accounted_def workflow_relay.delivered_def)
  moreover have "kept_starts ?t k (count_list (if waiting rows i then f @ [i] else f) k)" if "waiting rows k" for k
  proof (cases "k = i")
    case True
    with that expired(4) show ?thesis by (simp add: workflow_inv_def kept_starts_def sts le_SucI)
  next
    case False
    with that expired(4) have "kept_starts t k (count_list f k)" by (simp add: workflow_inv_def)
    with False ret(2) [OF False] show ?thesis by (auto simp: kept_starts_def sts split: if_splits)
  qed
  ultimately show ?case using expired(4) ret(1) by (auto simp: workflow_inv_def sts le_SucI)
qed

text \<open>
  C24. A placed order's workflow is started once: a row whose workflow is waiting stays, one that is marked
  was started, with the type, the queue and the input of its row, and nothing is started that no row asked for.
  However often the relay retries, loses its transaction or loses an answer, an id is started a second time only if the server
  forgot its closed execution while the row was still waiting; without such a loss every id is started at most once.
\<close>

theorem workflow_started_once:
  assumes "workflow_outbox_step\<^sup>*\<^sup>* ([], [], \<lparr>tp_executions = [], tp_started = [], tp_outcomes = os\<rparr>, []) (h, rows, t, f)"
  shows "(\<forall>w\<in>set h. to_start w \<in> set (tp_started t) \<or> waiting rows (wo_workflowId w))
    \<and> (\<forall>r\<in>set rows. wo_startedAt r \<noteq> None \<longrightarrow> to_start (workflow_outbox_create.truncate r) \<in> set (tp_started t))
    \<and> set (tp_started t) \<subseteq> to_start ` set h
    \<and> (\<forall>i. count_list (map sq_workflowId (tp_started t)) i \<le> Suc (count_list f i))
    \<and> (f = [] \<longrightarrow> distinct (map sq_workflowId (tp_started t)))"
proof -
  have "workflow_inv s" if "workflow_outbox_step\<^sup>*\<^sup>* ([], [], \<lparr>tp_executions = [], tp_started = [], tp_outcomes = os\<rparr>, []) s" for s
    using that
  proof (induction rule: rtranclp_induct)
    case base
    then show ?case
      by (simp add: workflow_inv_def workflow_relay.accounted_def workflow_relay.delivered_def retained_def waiting_def starts_def)
  qed (rule workflow_step_inv)
  note inv = this [OF assms, unfolded workflow_inv_def, simplified]
  have asked: "to_start w \<in> set (tp_started t)" if "w \<in> set h" "started t w" for w
  proof -
    have "0 < starts t (wo_workflowId w)" using that(2) inv by (auto simp: started_def)
    then obtain q where q: "q \<in> set (tp_started t)" "sq_workflowId q = wo_workflowId w" by (auto simp: starts_pos)
    with inv obtain v where v: "v \<in> set h" "q = to_start v" by blast
    with q(2) that(1) inv have "v = w" using distinct_key_eq [of wo_workflowId h v w] by simp
    with q(1) v(2) show ?thesis by simp
  qed
  have "to_start w \<in> set (tp_started t) \<or> waiting rows (wo_workflowId w)" if "w \<in> set h" for w
    using inv that asked [OF that]
    by (fastforce simp: workflow_relay.accounted_def waiting_def list_ex_iff workflow_outbox_create.truncate_def)
  moreover have "to_start (workflow_outbox_create.truncate r) \<in> set (tp_started t)" if "r \<in> set rows" "wo_startedAt r \<noteq> None" for r
    using inv that by (intro asked) (auto simp: workflow_relay.accounted_def workflow_relay.delivered_def)
  moreover have "distinct (map sq_workflowId (tp_started t))" if "f = []"
  proof -
    have "count_list (map sq_workflowId (tp_started t)) i \<le> 1" for i
      using inv that by (auto simp: starts_def)
    then show ?thesis by (simp add: distinct_count_le)
  qed
  ultimately show ?thesis using inv by (auto simp: starts_def)
qed

text \<open>
  The relay starts the workflow but loses its transaction; the workflow completes, and the relay tries the
  row again: the server refuses a duplicate, which \<open>start\<close> takes for success.
\<close>

definition demo_workflow :: workflow_outbox_create where
  "demo_workflow = \<lparr>wo_workflowId = ''order-place-1'', wo_workflowType = ''orderPlaceWorkflow'',
     wo_taskQueue = ''order-place'', wo_input = JObj []\<rparr>"

definition demo_workflow_row :: "time option \<Rightarrow> OrderWorkflowOutbox" where
  "demo_workflow_row s = workflow_outbox_create.extend demo_workflow
     \<lparr>wo_createdAt = 1, wo_startedAt = s, wo_attempts = 0, wo_lastError = None\<rparr>"

definition demo_executions :: "execution_status \<Rightarrow> temporal" where
  "demo_executions st = \<lparr>tp_executions = [\<lparr>ex_request = to_start demo_workflow, ex_status = st\<rparr>],
     tp_started = [to_start demo_workflow], tp_outcomes = []\<rparr>"

lemmas demo_start_defs = OrderWorkflowOutboxRelayService_relay_def relay_tick_def OrderWorkflowOutboxRelayService_relayBatch_def
  relay_batch_def OrderWorkflowOutboxRepository_claimUnstarted_def claim_rows_def relay_batch_size_def
  OrderWorkflowOutboxRelayService_start_def temporal_start_def temporal_execute_def temporal_begin_def to_start_def
  OrderWorkflowOutboxRepository_markStarted_def mark_workflow_def workflow_check_def
  demo_workflow_row_def demo_executions_def demo_workflow_def workflow_outbox_create.defs

lemma demo_start_lost:
  "OrderWorkflowOutboxRelayService_relay True 5 (False, [demo_workflow_row None], \<lparr>tp_executions = [], tp_started = [], tp_outcomes = []\<rparr>)
    = (False, [demo_workflow_row None], demo_executions Execution_running)"
  by (simp add: demo_start_defs Let_def)

lemma demo_start_again:
  "OrderWorkflowOutboxRelayService_relay False 6 (False, [demo_workflow_row None], demo_executions Execution_completed)
    = (False, [demo_workflow_row (Some 6)], demo_executions Execution_completed)"
  by (simp add: demo_start_defs Let_def)

lemma demo_workflow_closes:
  "temporal_close ''order-place-1'' Execution_completed (demo_executions Execution_running) = demo_executions Execution_completed"
  by (simp add: temporal_close_def demo_executions_def demo_workflow_def to_start_def)

lemma demo_workflow_life:
  "workflow_outbox_step\<^sup>*\<^sup>* ([], [], \<lparr>tp_executions = [], tp_started = [], tp_outcomes = []\<rparr>, [])
    ([demo_workflow], [demo_workflow_row (Some 6)], demo_executions Execution_completed, [])"
proof -
  let ?t = "\<lparr>tp_executions = [], tp_started = [], tp_outcomes = []\<rparr>"
  have "OrderWorkflowOutboxRepository_create 1 demo_workflow [] = Inr [demo_workflow_row None]"
    by (simp add: OrderWorkflowOutboxRepository_create_def demo_workflow_row_def)
  from workflow_outbox_step.insert [OF this, of "[]" ?t "[]"]
  have 1: "workflow_outbox_step ([], [], ?t, []) ([demo_workflow], [demo_workflow_row None], ?t, [])" by simp
  have 2: "workflow_outbox_step ([demo_workflow], [demo_workflow_row None], demo_executions Execution_running, [])
      ([demo_workflow], [demo_workflow_row None], demo_executions Execution_completed, [])"
    using workflow_outbox_step.closed [of _ _ "demo_executions Execution_running" _ "''order-place-1''" Execution_completed]
    by (simp add: demo_workflow_closes)
  note relays = workflow_outbox_step.relay [OF demo_start_lost, of "[demo_workflow]" "[]"]
    workflow_outbox_step.relay [OF demo_start_again, of "[demo_workflow]" "[]"]
  from r_into_rtranclp [of workflow_outbox_step, OF 1] relays(1) 2 relays(2) show ?thesis
    by (blast intro: rtranclp.rtrancl_into_rtrancl)
qed

theorem workflow_started_once_witness:
  "\<exists>h rows t. workflow_outbox_step\<^sup>*\<^sup>* ([], [], \<lparr>tp_executions = [], tp_started = [], tp_outcomes = []\<rparr>, []) (h, rows, t, [])
    \<and> rows = [demo_workflow_row (Some 6)] \<and> to_start demo_workflow \<in> set (tp_started t)
    \<and> distinct (map sq_workflowId (tp_started t))"
proof -
  have row: "workflow_outbox_create.truncate (demo_workflow_row (Some 6)) = demo_workflow" "wo_startedAt (demo_workflow_row (Some 6)) = Some 6"
    by (simp_all add: demo_workflow_row_def demo_workflow_def workflow_outbox_create.defs)
  from workflow_started_once [OF demo_workflow_life] demo_workflow_life row show ?thesis by auto
qed

end
