(* ===== verification/Seller_Offer.thy ===== *)
theory Seller_Offer
  imports Contracts
begin

section \<open>The seller offer service\<close>

text \<open>
  Stock of the sellers' offers (\<open>src/src/seller-offer\<close>): the tables \<open>SellerOffer\<close> and
  \<open>StockReservation\<close>, the repository statements that hold and release stock, the two command
  handlers and the RabbitMQ gateway. The invariant says that the counter \<open>reservedQuantity\<close> is
  the sum of the active reservations and never exceeds the stock on hand.
\<close>

subsection \<open>Tables\<close>

record SellerOffer =
  so_id :: int
  so_publicId :: uuid
  so_sellerId :: int
  so_variantId :: int
  so_sellerSku :: string
  so_price :: int
  so_currency :: CurrencyEnum
  so_discountPrice :: "int option"
  so_onHandQuantity :: int
  so_reservedQuantity :: int
  so_createdAt :: time
  so_updatedAt :: time
  so_deletedAt :: "time option"

datatype StockReservationStatusEnum = RESERVED | CONFIRMED | FULFILLED | RELEASED

record StockReservation =
  sr_orderPublicId :: uuid
  sr_offerId :: int
  sr_quantity :: int
  sr_status :: StockReservationStatusEnum
  sr_createdAt :: time
  sr_updatedAt :: time

record seller_db =
  sd_offers :: "SellerOffer list"
  sd_reservations :: "StockReservation list"

text \<open>The CHECK constraints of \<open>SellerOffer\<close>, evaluated on every row an UPDATE writes.\<close>

definition SellerOffer_check :: "SellerOffer \<Rightarrow> bool" where
  "SellerOffer_check ofr \<longleftrightarrow>
     list_ex (\<lambda>c. c \<noteq> CHR '' '') (so_sellerSku ofr)
     \<and> (case so_discountPrice ofr of None \<Rightarrow> True | Some d \<Rightarrow> d \<le> so_price ofr)
     \<and> 0 \<le> so_onHandQuantity ofr
     \<and> 0 \<le> so_reservedQuantity ofr \<and> so_reservedQuantity ofr \<le> so_onHandQuantity ofr
     \<and> (case so_deletedAt ofr of None \<Rightarrow> True | Some t \<Rightarrow> so_createdAt ofr \<le> t)"

subsection \<open>Repositories\<close>

definition live_offer :: "int \<Rightarrow> SellerOffer \<Rightarrow> bool" where
  "live_offer i ofr \<longleftrightarrow> so_id ofr = i \<and> so_deletedAt ofr = None"

text \<open>
  \<open>findBy({ id: In(ids) })\<close>: the soft-deleted rows are excluded, and an id that is no 32-bit integer
  is refused by the server.
\<close>

definition SellerOfferRepository_findByIds :: "int list \<Rightarrow> seller_db \<Rightarrow> db_error + SellerOffer list" where
  "SellerOfferRepository_findByIds ids db =
     (if list_all int4 ids
      then Inr (filter (\<lambda>ofr. so_id ofr \<in> set ids \<and> so_deletedAt ofr = None) (sd_offers db))
      else Inl NumericOutOfRange)"

definition SellerOfferService_findByIds :: "int list \<Rightarrow> seller_db \<Rightarrow> db_error + SellerOffer list" where
  "SellerOfferService_findByIds ids db = SellerOfferRepository_findByIds ids db"

record stock_reservation_create =
  rc_orderPublicId :: uuid
  rc_offerId :: int
  rc_quantity :: int

record stock_reservation_outcome =
  oc_offerId :: int
  oc_inserted :: nat
  oc_held :: nat

definition reservation_key :: "uuid \<Rightarrow> int \<Rightarrow> StockReservation \<Rightarrow> bool" where
  "reservation_key order offer r \<longleftrightarrow> sr_orderPublicId r = order \<and> sr_offerId r = offer"

definition can_hold :: "int \<Rightarrow> int \<Rightarrow> SellerOffer \<Rightarrow> bool" where
  "can_hold i q ofr \<longleftrightarrow> live_offer i ofr \<and> q \<le> so_onHandQuantity ofr - so_reservedQuantity ofr"

definition hold :: "time \<Rightarrow> int \<Rightarrow> SellerOffer \<Rightarrow> SellerOffer" where
  "hold now q ofr = ofr\<lparr>so_reservedQuantity := so_reservedQuantity ofr + q, so_updatedAt := now\<rparr>"

text \<open>
  One iteration: the statement \<open>WITH inserted AS (INSERT ... ON CONFLICT DO NOTHING), held AS
  (UPDATE ...)\<close>. Conversion of the parameters, the CHECK of the new row, the primary key, the
  foreign key and the CHECK of the updated offer, in the order Postgres applies them.
\<close>

definition reserve_statement ::
  "time \<Rightarrow> stock_reservation_create \<Rightarrow> (seller_db, db_error, stock_reservation_outcome) tx" where
  "reserve_statement now rc db =
     (let oid = rc_orderPublicId rc; i = rc_offerId rc; q = rc_quantity rc
      in if \<not> int4 i \<or> \<not> int4 q then Inl NumericOutOfRange
         else if \<not> 0 < q then Inl CheckViolation
         else if list_ex (reservation_key oid i) (sd_reservations db)
         then Inr (\<lparr>oc_offerId = i, oc_inserted = 0, oc_held = 0\<rparr>, db)
         else if \<not> list_ex (\<lambda>ofr. so_id ofr = i) (sd_offers db) then Inl ForeignKeyViolation
         else if list_ex (\<lambda>ofr. can_hold i q ofr \<and> \<not> SellerOffer_check (hold now q ofr)) (sd_offers db)
         then Inl CheckViolation
         else Inr (\<lparr>oc_offerId = i, oc_inserted = 1,
                    oc_held = count_where (can_hold i q) (sd_offers db)\<rparr>,
                   db\<lparr>sd_offers := update_where (can_hold i q) (hold now q) (sd_offers db),
                      sd_reservations := sd_reservations db @
                        [\<lparr>sr_orderPublicId = oid, sr_offerId = i, sr_quantity = q,
                          sr_status = RESERVED, sr_createdAt = now, sr_updatedAt = now\<rparr>]\<rparr>))"

fun reserve_loop ::
  "time \<Rightarrow> stock_reservation_create list \<Rightarrow> (seller_db, db_error, stock_reservation_outcome list) tx" where
  "reserve_loop now [] db = Inr ([], db)"
| "reserve_loop now (rc # rcs) db =
     (case reserve_statement now rc db of
        Inl e \<Rightarrow> Inl e
      | Inr (oc, db') \<Rightarrow>
          (case reserve_loop now rcs db' of
             Inl e \<Rightarrow> Inl e
           | Inr (ocs, db'') \<Rightarrow> Inr (oc # ocs, db'')))"

definition StockReservationRepository_reserve ::
  "time \<Rightarrow> stock_reservation_create list \<Rightarrow> (seller_db, db_error, stock_reservation_outcome list) tx" where
  "StockReservationRepository_reserve now rcs db = reserve_loop now (sort_key rc_offerId rcs) db"

definition releasable :: "uuid \<Rightarrow> StockReservation \<Rightarrow> bool" where
  "releasable order r \<longleftrightarrow> sr_orderPublicId r = order \<and> sr_status r \<in> {RESERVED, CONFIRMED}"

definition released_quantity :: "StockReservation list \<Rightarrow> SellerOffer \<Rightarrow> int option" where
  "released_quantity rel ofr = map_option sr_quantity (find_row (\<lambda>r. sr_offerId r = so_id ofr) rel)"

definition unhold :: "time \<Rightarrow> StockReservation list \<Rightarrow> SellerOffer \<Rightarrow> SellerOffer" where
  "unhold now rel ofr =
     ofr\<lparr>so_reservedQuantity := so_reservedQuantity ofr - the (released_quantity rel ofr),
       so_updatedAt := now\<rparr>"

definition StockReservationRepository_release :: "time \<Rightarrow> uuid \<Rightarrow> (seller_db, db_error, nat) tx" where
  "StockReservationRepository_release now order db =
     (let rel = filter (releasable order) (sd_reservations db);
          hit = (\<lambda>ofr. released_quantity rel ofr \<noteq> None)
      in if list_ex (\<lambda>ofr. hit ofr \<and> \<not> SellerOffer_check (unhold now rel ofr)) (sd_offers db)
         then Inl CheckViolation
         else Inr (count_where hit (sd_offers db),
                   db\<lparr>sd_reservations := update_where (releasable order)
                        (\<lambda>r. r\<lparr>sr_status := RELEASED, sr_updatedAt := now\<rparr>) (sd_reservations db),
                      sd_offers := update_where hit (unhold now rel) (sd_offers db)\<rparr>))"

subsection \<open>Command handlers\<close>

datatype reserve_error =
    StockReservationRejected stock_reject_reason "rejected_item list"
  | ReserveDbError db_error

definition with_available :: "int \<Rightarrow> stock_item \<Rightarrow> rejected_item" where
  "with_available a it =
     \<lparr>it_offerId = it_offerId it, it_quantity = it_quantity it, it_available = a\<rparr>"

definition failed_outcome :: "stock_reservation_outcome \<Rightarrow> bool" where
  "failed_outcome oc \<longleftrightarrow> 0 < oc_inserted oc \<and> oc_held oc = 0"

text \<open>\<open>new Map(offers.map(...)).get(id) ?? 0\<close>: a later entry of the list overwrites an earlier one.\<close>

definition stock_by_id :: "SellerOffer list \<Rightarrow> int \<Rightarrow> int" where
  "stock_by_id os i =
     (case find_row (\<lambda>ofr. so_id ofr = i) (rev os) of
        None \<Rightarrow> 0
      | Some ofr \<Rightarrow> so_onHandQuantity ofr - so_reservedQuantity ofr)"

definition SellerOfferStockReserveCommandHandler_execute ::
  "time \<Rightarrow> uuid \<Rightarrow> stock_reserve_data \<Rightarrow> (seller_db, reserve_error, unit) tx" where
  "SellerOfferStockReserveCommandHandler_execute now order data db =
     (let items = srd_items data
      in case SellerOfferRepository_findByIds (map it_offerId items) db of
        Inl e \<Rightarrow> Inl (ReserveDbError e)
      | Inr offers \<Rightarrow>
          (let missing = filter (\<lambda>it. it_offerId it \<notin> set (map so_id offers)) items
           in if missing \<noteq> []
              then Inl (StockReservationRejected offer_not_found (map (with_available 0) missing))
              else case StockReservationRepository_reserve now
                     (map (\<lambda>it. \<lparr>rc_orderPublicId = order, rc_offerId = it_offerId it,
                                  rc_quantity = it_quantity it\<rparr>) items) db of
                Inl e \<Rightarrow> Inl (ReserveDbError e)
              | Inr (outcomes, db') \<Rightarrow>
                  (let failedIds = map oc_offerId (filter failed_outcome outcomes)
                   in if failedIds = [] then Inr ((), db')
                      else Inl (StockReservationRejected insufficient_stock
                             (map (\<lambda>it. with_available (stock_by_id offers (it_offerId it)) it)
                                (filter (\<lambda>it. it_offerId it \<in> set failedIds) items))))))"

definition SellerOfferStockReleaseCommandHandler_execute ::
  "time \<Rightarrow> stock_release_data \<Rightarrow> (seller_db, db_error, nat) tx" where
  "SellerOfferStockReleaseCommandHandler_execute now data db =
     StockReservationRepository_release now (sld_orderPublicId data) db"

subsection \<open>Gateway\<close>

definition valid_item :: "json \<Rightarrow> stock_item option" where
  "valid_item j =
     (case (safe_integer (jfield (Some j) ''offerId''), safe_integer (jfield (Some j) ''quantity'')) of
        (Some i, Some q) \<Rightarrow>
          if 0 < i \<and> 0 < q then Some \<lparr>it_offerId = i, it_quantity = q\<rparr> else None
      | _ \<Rightarrow> None)"

text \<open>The type guard: \<open>Some\<close> of the items where it answers true.\<close>

fun SellerOfferGateway_isValidItems :: "json option \<Rightarrow> stock_item list option" where
  "SellerOfferGateway_isValidItems (Some (JArr js)) = (if js = [] then None else those (map valid_item js))"
| "SellerOfferGateway_isValidItems _ = None"

text \<open>The uuid and the clock of a response, both drawn when it is built.\<close>

record reply_env =
  re_randomUUID :: uuid
  re_now :: time

definition SellerOfferGateway_toResponse ::
  "reply_env \<Rightarrow> json \<Rightarrow> stock_reserve_response \<Rightarrow> stock_reserve_response cloud_event" where
  "SellerOfferGateway_toResponse env request data =
     \<lparr>ce_specversion = ''1.0'', ce_id = re_randomUUID env,
      ce_source = source_value (mc_response_source StockReserveRequest),
      ce_type = mc_response_type StockReserveRequest,
      ce_time = toISOString (re_now env), ce_datacontenttype = ''application/json'',
      ce_subject = jfield (Some request) ''subject'',
      ce_correlationid = jfield (Some request) ''id'', ce_data = data\<rparr>"

definition SellerOfferGateway_toReleaseResponse ::
  "reply_env \<Rightarrow> json \<Rightarrow> stock_release_response \<Rightarrow> stock_release_response cloud_event" where
  "SellerOfferGateway_toReleaseResponse env request data =
     \<lparr>ce_specversion = ''1.0'', ce_id = re_randomUUID env,
      ce_source = source_value (mc_response_source StockReleaseRequest),
      ce_type = mc_response_type StockReleaseRequest,
      ce_time = toISOString (re_now env), ce_datacontenttype = ''application/json'',
      ce_subject = jfield (Some request) ''subject'',
      ce_correlationid = jfield (Some request) ''id'', ce_data = data\<rparr>"

definition SellerOfferGateway_handleStockReserve ::
  "(string \<Rightarrow> bool) \<Rightarrow> reply_env \<Rightarrow> time \<Rightarrow> json \<Rightarrow> seller_db
    \<Rightarrow> stock_reserve_response cloud_event rpc \<times> seller_db" where
  "SellerOfferGateway_handleStockReserve isUUID env now msg db =
     (if jstring (jfield (Some msg) ''specversion'') \<noteq> Some ''1.0''
         \<or> jstring (jfield (Some msg) ''type'') \<noteq> Some (mc_type StockReserveRequest)
      then (RpcNack, db)
      else case (jstring (jfield (Some msg) ''subject''),
                 SellerOfferGateway_isValidItems (jfield (jfield (Some msg) ''data'') ''items'')) of
        (Some subject, Some items) \<Rightarrow>
          if \<not> isUUID subject then (RpcNack, db)
          else (case transactional
                  (SellerOfferStockReserveCommandHandler_execute now subject \<lparr>srd_items = items\<rparr>) db of
            (Inr _, db') \<Rightarrow> (RpcReply (SellerOfferGateway_toResponse env msg StockReserved), db')
          | (Inl (StockReservationRejected reason rejected), db') \<Rightarrow>
              (RpcReply (SellerOfferGateway_toResponse env msg (StockRejected reason rejected)), db')
          | (Inl (ReserveDbError e), db') \<Rightarrow> (RpcThrow e, db'))
      | _ \<Rightarrow> (RpcNack, db))"

definition SellerOfferGateway_handleStockRelease ::
  "(string \<Rightarrow> bool) \<Rightarrow> reply_env \<Rightarrow> time \<Rightarrow> json \<Rightarrow> seller_db
    \<Rightarrow> stock_release_response cloud_event rpc \<times> seller_db" where
  "SellerOfferGateway_handleStockRelease isUUID env now msg db =
     (if jstring (jfield (Some msg) ''specversion'') \<noteq> Some ''1.0''
         \<or> jstring (jfield (Some msg) ''type'') \<noteq> Some (mc_type StockReleaseRequest)
      then (RpcNack, db)
      else case jstring (jfield (jfield (Some msg) ''data'') ''orderPublicId'') of
        None \<Rightarrow> (RpcNack, db)
      | Some order \<Rightarrow>
          if \<not> isUUID order then (RpcNack, db)
          else (case transactional
                  (SellerOfferStockReleaseCommandHandler_execute now \<lparr>sld_orderPublicId = order\<rparr>) db of
            (Inr n, db') \<Rightarrow> (RpcReply (SellerOfferGateway_toReleaseResponse env msg (StockReleased n)), db')
          | (Inl e, db') \<Rightarrow> (RpcThrow e, db')))"

subsection \<open>The stock invariant\<close>

definition active :: "StockReservation \<Rightarrow> bool" where
  "active r \<longleftrightarrow> sr_status r \<in> {RESERVED, CONFIRMED}"

definition active_quantity :: "int \<Rightarrow> StockReservation list \<Rightarrow> int" where
  "active_quantity i rs = (\<Sum>r\<leftarrow>rs. if sr_offerId r = i \<and> active r then sr_quantity r else 0)"

definition reservation_pk :: "StockReservation \<Rightarrow> uuid \<times> int" where
  "reservation_pk r = (sr_orderPublicId r, sr_offerId r)"

definition stock_inv :: "seller_db \<Rightarrow> bool" where
  "stock_inv db \<longleftrightarrow>
     distinct (map so_id (sd_offers db)) \<and> distinct (map reservation_pk (sd_reservations db))
     \<and> (\<forall>r\<in>set (sd_reservations db). 0 < sr_quantity r \<and> sr_offerId r \<in> so_id ` set (sd_offers db))
     \<and> (\<forall>ofr\<in>set (sd_offers db). SellerOffer_check ofr
          \<and> so_reservedQuantity ofr = active_quantity (so_id ofr) (sd_reservations db))"

lemma active_quantity_Nil [simp]: "active_quantity i [] = 0"
  by (simp add: active_quantity_def)

lemma active_quantity_Cons [simp]:
  "active_quantity i (r # rs)
    = (if sr_offerId r = i \<and> active r then sr_quantity r else 0) + active_quantity i rs"
  by (simp add: active_quantity_def)

lemma active_quantity_append [simp]:
  "active_quantity i (rs @ qs) = active_quantity i rs + active_quantity i qs"
  by (simp add: active_quantity_def)

lemma active_quantity_nonneg:
  "(\<And>r. r \<in> set rs \<Longrightarrow> 0 < sr_quantity r) \<Longrightarrow> 0 \<le> active_quantity i rs"
  unfolding active_quantity_def by (rule sum_list_nonneg) (auto simp: less_imp_le)

lemma reservation_key_pk: "reservation_key oid i r \<longleftrightarrow> reservation_pk r = (oid, i)"
  by (simp add: reservation_key_def reservation_pk_def)

lemma hold_simps [simp]:
  "so_id (hold now q ofr) = so_id ofr" "so_deletedAt (hold now q ofr) = so_deletedAt ofr"
  "so_onHandQuantity (hold now q ofr) = so_onHandQuantity ofr"
  "so_reservedQuantity (hold now q ofr) = so_reservedQuantity ofr + q"
  by (simp_all add: hold_def)

lemma unhold_simps [simp]:
  "so_id (unhold now rel ofr) = so_id ofr" "so_deletedAt (unhold now rel ofr) = so_deletedAt ofr"
  "so_onHandQuantity (unhold now rel ofr) = so_onHandQuantity ofr"
  "so_reservedQuantity (unhold now rel ofr) = so_reservedQuantity ofr - the (released_quantity rel ofr)"
  by (simp_all add: unhold_def)

text \<open>A hold that the guard allows satisfies every CHECK, and so does giving back what is held.\<close>

lemma check_hold:
  "SellerOffer_check ofr \<Longrightarrow> can_hold i q ofr \<Longrightarrow> 0 < q \<Longrightarrow> SellerOffer_check (hold now q ofr)"
  by (auto simp: SellerOffer_check_def can_hold_def hold_def split: option.splits)

lemma check_unhold:
  assumes "SellerOffer_check ofr" and "released_quantity rel ofr = Some q" and "0 \<le> q"
    and "q \<le> so_reservedQuantity ofr"
  shows "SellerOffer_check (unhold now rel ofr)"
  using assms by (auto simp: SellerOffer_check_def unhold_def split: option.splits)

subsection \<open>Reserving\<close>

text \<open>
  What one statement does on a consistent table: nothing when the reservation exists, otherwise it
  inserts the row and, when the offer has the stock, holds it.
\<close>

definition new_reservation :: "time \<Rightarrow> stock_reservation_create \<Rightarrow> StockReservation" where
  "new_reservation now rc =
     \<lparr>sr_orderPublicId = rc_orderPublicId rc, sr_offerId = rc_offerId rc,
      sr_quantity = rc_quantity rc, sr_status = RESERVED, sr_createdAt = now, sr_updatedAt = now\<rparr>"

lemma new_reservation_simps [simp]:
  "sr_offerId (new_reservation now rc) = rc_offerId rc"
  "sr_quantity (new_reservation now rc) = rc_quantity rc"
  "sr_status (new_reservation now rc) = RESERVED"
  "reservation_pk (new_reservation now rc) = (rc_orderPublicId rc, rc_offerId rc)"
  "sr_orderPublicId (new_reservation now rc) = rc_orderPublicId rc"
  by (simp_all add: new_reservation_def reservation_pk_def)

definition take_stock :: "time \<Rightarrow> stock_reservation_create \<Rightarrow> seller_db \<Rightarrow> seller_db" where
  "take_stock now rc db =
     db\<lparr>sd_offers := update_where (can_hold (rc_offerId rc) (rc_quantity rc)) (hold now (rc_quantity rc)) (sd_offers db),
        sd_reservations := sd_reservations db @ [new_reservation now rc]\<rparr>"

definition known :: "stock_reservation_create \<Rightarrow> seller_db \<Rightarrow> bool" where
  "known rc db \<longleftrightarrow> list_ex (reservation_key (rc_orderPublicId rc) (rc_offerId rc)) (sd_reservations db)"

lemma list_ex_id [simp]: "list_ex (\<lambda>ofr. so_id ofr = i) os \<longleftrightarrow> i \<in> so_id ` set os"
  by (rule list_ex_key)

lemma reserve_statement_cases:
  assumes "reserve_statement now rc db = Inr (oc, db')"
  obtains (known) "known rc db" "db' = db" "\<not> failed_outcome oc" "oc_offerId oc = rc_offerId rc"
    | (taken) "\<not> known rc db" "0 < rc_quantity rc" "db' = take_stock now rc db"
        "rc_offerId rc \<in> so_id ` set (sd_offers db)" "oc_offerId oc = rc_offerId rc"
        "failed_outcome oc \<longleftrightarrow> \<not> list_ex (can_hold (rc_offerId rc) (rc_quantity rc)) (sd_offers db)"
proof -
  have cw: "count_where p xs = 0 \<longleftrightarrow> \<not> list_ex p xs" for p and xs :: "SellerOffer list"
    by (auto simp: count_where_0 list_ex_iff)
  show thesis
  proof (cases "known rc db")
    case True
    then show thesis using assms
      by (intro that(1)) (auto simp: reserve_statement_def Let_def known_def failed_outcome_def split: if_splits)
  next
    case False
    then show thesis using assms
      by (intro that(2))
        (auto simp: reserve_statement_def Let_def known_def failed_outcome_def take_stock_def
          new_reservation_def cw split: if_splits)
  qed
qed

lemma take_stock_simps [simp]:
  "map so_id (sd_offers (take_stock now rc db)) = map so_id (sd_offers db)"
  "sd_reservations (take_stock now rc db) = sd_reservations db @ [new_reservation now rc]"
  by (simp_all add: take_stock_def map_update_where_key)

lemma take_stock_ids [simp]: "so_id ` set (sd_offers (take_stock now rc db)) = so_id ` set (sd_offers db)"
  using arg_cong [OF take_stock_simps(1), where f = set] by (simp only: set_map)

lemma take_stock_inv:
  assumes inv: "stock_inv db" and new: "\<not> known rc db" and q: "0 < rc_quantity rc"
    and fk: "rc_offerId rc \<in> so_id ` set (sd_offers db)"
    and can: "list_ex (can_hold (rc_offerId rc) (rc_quantity rc)) (sd_offers db)"
  shows "stock_inv (take_stock now rc db)"
proof -
  let ?i = "rc_offerId rc" and ?q = "rc_quantity rc" and ?rs = "sd_reservations db"
  have ids: "distinct (map so_id (sd_offers db))" and pks: "distinct (map reservation_pk ?rs)"
    using inv by (simp_all add: stock_inv_def)
  from can obtain o1 where o1: "o1 \<in> set (sd_offers db)" "can_hold ?i ?q o1" by (auto simp: list_ex_iff)
  have only: "can_hold ?i ?q ofr \<longleftrightarrow> so_id ofr = ?i" if "ofr \<in> set (sd_offers db)" for ofr
    using o1 that distinct_key_eq [OF ids o1(1) that] by (auto simp: can_hold_def live_offer_def)
  have "(rc_orderPublicId rc, ?i) \<notin> reservation_pk ` set ?rs"
    using new by (auto simp: known_def list_ex_iff reservation_key_pk)
  then have "distinct (map reservation_pk (sd_reservations (take_stock now rc db)))"
    using pks by simp
  moreover have "SellerOffer_check ofr
      \<and> so_reservedQuantity ofr = active_quantity (so_id ofr) (sd_reservations (take_stock now rc db))"
    if "ofr \<in> set (sd_offers (take_stock now rc db))" for ofr
  proof -
    from that obtain o2 where o2: "o2 \<in> set (sd_offers db)"
      "ofr = (if can_hold ?i ?q o2 then hold now ?q o2 else o2)"
      by (auto simp: take_stock_def in_update_where)
    from o2(1) inv have "SellerOffer_check o2" "so_reservedQuantity o2 = active_quantity (so_id o2) ?rs"
      by (simp_all add: stock_inv_def)
    then show ?thesis using o2 only [OF o2(1)] q by (auto simp: check_hold active_def)
  qed
  moreover have "distinct (map so_id (sd_offers (take_stock now rc db)))" using ids by simp
  moreover have "\<forall>r\<in>set (sd_reservations (take_stock now rc db)).
      0 < sr_quantity r \<and> sr_offerId r \<in> so_id ` set (sd_offers (take_stock now rc db))"
    using inv q fk by (auto simp: stock_inv_def simp del: take_stock_simps(1))
  ultimately show ?thesis unfolding stock_inv_def by blast
qed

lemma reserve_statement_inv:
  assumes "reserve_statement now rc db = Inr (oc, db')" and "\<not> failed_outcome oc" and "stock_inv db"
  shows "stock_inv db'"
  using assms by (elim reserve_statement_cases) (auto intro: take_stock_inv)

lemma reserve_loop_inv:
  "reserve_loop now rcs db = Inr (ocs, db') \<Longrightarrow> filter failed_outcome ocs = [] \<Longrightarrow> stock_inv db
    \<Longrightarrow> stock_inv db'"
proof (induction rcs arbitrary: db ocs)
  case (Cons rc rcs)
  then obtain oc db1 ocs1 where "reserve_statement now rc db = Inr (oc, db1)"
    "reserve_loop now rcs db1 = Inr (ocs1, db')" "\<not> failed_outcome oc" "filter failed_outcome ocs1 = []"
    by (auto split: sum.splits prod.splits if_splits)
  then show ?case using Cons.IH Cons.prems(3) reserve_statement_inv by blast
qed simp

lemma reserve_execute_Inr:
  assumes "SellerOfferStockReserveCommandHandler_execute now order data db = Inr (u, db')"
  obtains offers ocs where
    "SellerOfferRepository_findByIds (map it_offerId (srd_items data)) db = Inr offers"
    "\<forall>it\<in>set (srd_items data). it_offerId it \<in> so_id ` set offers"
    "StockReservationRepository_reserve now
       (map (\<lambda>it. \<lparr>rc_orderPublicId = order, rc_offerId = it_offerId it, rc_quantity = it_quantity it\<rparr>)
          (srd_items data)) db = Inr (ocs, db')"
    "filter failed_outcome ocs = []"
  using assms
  by (auto simp: SellerOfferStockReserveCommandHandler_execute_def Let_def filter_empty_conv
      split: sum.splits if_splits prod.splits)

lemma reserve_execute_inv:
  assumes "SellerOfferStockReserveCommandHandler_execute now order data db = Inr (u, db')" "stock_inv db"
  shows "stock_inv db'"
  using assms by (elim reserve_execute_Inr)
    (auto simp: StockReservationRepository_reserve_def intro: reserve_loop_inv)

text \<open>
  The items of a rejected request are exactly those whose offer has too little stock left, when the
  request names each offer once.
\<close>

definition short :: "stock_reservation_create \<Rightarrow> seller_db \<Rightarrow> bool" where
  "short rc db \<longleftrightarrow>
     \<not> known rc db \<and> \<not> list_ex (can_hold (rc_offerId rc) (rc_quantity rc)) (sd_offers db)"

definition admissible :: "stock_reservation_create \<Rightarrow> seller_db \<Rightarrow> bool" where
  "admissible rc db \<longleftrightarrow> int4 (rc_offerId rc) \<and> int4 (rc_quantity rc) \<and> 0 < rc_quantity rc
     \<and> rc_offerId rc \<in> so_id ` set (sd_offers db)"

lemma known_take_stock:
  "known rc' (take_stock now rc db) \<longleftrightarrow> known rc' db
    \<or> (rc_orderPublicId rc' = rc_orderPublicId rc \<and> rc_offerId rc' = rc_offerId rc)"
  by (auto simp: known_def reservation_key_def)

lemma can_hold_update_other:
  "i \<noteq> j \<Longrightarrow> list_ex (can_hold i q) (update_where (can_hold j p) (hold now p) os) \<longleftrightarrow> list_ex (can_hold i q) os"
  by (induction os) (auto simp: can_hold_def live_offer_def)

lemma short_take_stock:
  "rc_offerId rc \<noteq> rc_offerId rc' \<Longrightarrow> short rc' (take_stock now rc db) \<longleftrightarrow> short rc' db"
  by (auto simp: short_def known_def take_stock_def can_hold_update_other reservation_key_def)

lemma reserve_statement_outcome:
  assumes "admissible rc db" and "\<forall>ofr\<in>set (sd_offers db). SellerOffer_check ofr"
  obtains oc db' where "reserve_statement now rc db = Inr (oc, db')"
    "oc_offerId oc = rc_offerId rc" "failed_outcome oc \<longleftrightarrow> short rc db"
    "db' = db \<or> db' = take_stock now rc db"
proof (cases "known rc db")
  case True
  then show thesis using assms
    by (intro that [of "\<lparr>oc_offerId = rc_offerId rc, oc_inserted = 0, oc_held = 0\<rparr>" db])
      (auto simp: reserve_statement_def Let_def known_def admissible_def failed_outcome_def short_def)
next
  case False
  let ?c = "can_hold (rc_offerId rc) (rc_quantity rc)"
  have "\<not> list_ex (\<lambda>ofr. ?c ofr \<and> \<not> SellerOffer_check (hold now (rc_quantity rc) ofr)) (sd_offers db)"
    using assms by (auto simp: list_ex_iff admissible_def check_hold)
  then show thesis using assms False
    by (intro that [of "\<lparr>oc_offerId = rc_offerId rc, oc_inserted = 1,
            oc_held = count_where ?c (sd_offers db)\<rparr>" "take_stock now rc db"])
      (auto simp: reserve_statement_def Let_def known_def admissible_def failed_outcome_def short_def
        take_stock_def new_reservation_def count_where_0 list_ex_iff)
qed

lemma take_stock_check:
  "\<forall>ofr\<in>set (sd_offers db). SellerOffer_check ofr \<Longrightarrow> 0 < rc_quantity rc
    \<Longrightarrow> \<forall>ofr\<in>set (sd_offers (take_stock now rc db)). SellerOffer_check ofr"
  by (auto simp: take_stock_def in_update_where check_hold)

lemma reserve_loop_outcomes:
  assumes "distinct (map rc_offerId rcs)" and "\<forall>rc\<in>set rcs. admissible rc db"
    and "\<forall>ofr\<in>set (sd_offers db). SellerOffer_check ofr"
  shows "\<exists>ocs db'. reserve_loop now rcs db = Inr (ocs, db')
    \<and> map (\<lambda>oc. (oc_offerId oc, failed_outcome oc)) ocs = map (\<lambda>rc. (rc_offerId rc, short rc db)) rcs"
  using assms
proof (induction rcs arbitrary: db)
  case (Cons rc rcs)
  obtain oc db1 where step: "reserve_statement now rc db = Inr (oc, db1)"
    "oc_offerId oc = rc_offerId rc" "failed_outcome oc \<longleftrightarrow> short rc db"
    "db1 = db \<or> db1 = take_stock now rc db"
    using reserve_statement_outcome [of rc db now] Cons.prems by auto
  have "\<forall>rc'\<in>set rcs. admissible rc' db1"
    using Cons.prems(2) step(4) by (auto simp: admissible_def simp del: take_stock_simps(1))
  moreover have "\<forall>ofr\<in>set (sd_offers db1). SellerOffer_check ofr"
    using Cons.prems(2,3) step(4) take_stock_check [of db rc now] by (auto simp: admissible_def)
  ultimately obtain ocs db2 where rest: "reserve_loop now rcs db1 = Inr (ocs, db2)"
    "map (\<lambda>oc. (oc_offerId oc, failed_outcome oc)) ocs = map (\<lambda>rc. (rc_offerId rc, short rc db1)) rcs"
    using Cons.IH [of db1] Cons.prems(1) by auto
  have "map (\<lambda>rc. (rc_offerId rc, short rc db1)) rcs = map (\<lambda>rc. (rc_offerId rc, short rc db)) rcs"
    using step(4) Cons.prems(1) by (auto simp: short_take_stock image_iff)
  then show ?case using step rest by simp
qed simp

definition item_create :: "uuid \<Rightarrow> stock_item \<Rightarrow> stock_reservation_create" where
  "item_create order it =
     \<lparr>rc_orderPublicId = order, rc_offerId = it_offerId it, rc_quantity = it_quantity it\<rparr>"

lemma item_create_simps [simp]:
  "rc_orderPublicId (item_create order it) = order" "rc_offerId (item_create order it) = it_offerId it"
  "rc_quantity (item_create order it) = it_quantity it"
  by (simp_all add: item_create_def)

text \<open>The requests the gateway lets through and Postgres can store, for offers that are on sale.\<close>

definition orderable :: "stock_item list \<Rightarrow> seller_db \<Rightarrow> bool" where
  "orderable items db \<longleftrightarrow> distinct (map it_offerId items)
     \<and> (\<forall>it\<in>set items. int4 (it_offerId it) \<and> int4 (it_quantity it) \<and> 0 < it_quantity it
          \<and> list_ex (live_offer (it_offerId it)) (sd_offers db))"

lemma map_item_create:
  "map (\<lambda>it. \<lparr>rc_orderPublicId = order, rc_offerId = it_offerId it, rc_quantity = it_quantity it\<rparr>) items
    = map (item_create order) items"
  by (simp add: item_create_def)

definition live_offers :: "stock_item list \<Rightarrow> seller_db \<Rightarrow> SellerOffer list" where
  "live_offers items db =
     filter (\<lambda>ofr. so_id ofr \<in> it_offerId ` set items \<and> so_deletedAt ofr = None) (sd_offers db)"

lemma findByIds_orderable:
  "orderable items db \<Longrightarrow>
    SellerOfferRepository_findByIds (map it_offerId items) db = Inr (live_offers items db)"
  by (auto simp: SellerOfferRepository_findByIds_def orderable_def list_all_iff live_offers_def)

lemma live_offers_ids:
  assumes "orderable items db" and "it \<in> set items"
  shows "it_offerId it \<in> so_id ` set (live_offers items db)"
proof -
  obtain ofr where "ofr \<in> set (sd_offers db)" "live_offer (it_offerId it) ofr"
    using assms by (auto simp: orderable_def list_ex_iff)
  then have "ofr \<in> set (live_offers items db)" "so_id ofr = it_offerId it"
    using assms(2) by (auto simp: live_offers_def live_offer_def)
  then show ?thesis by (metis imageI)
qed

lemma filter_missing_empty:
  "\<forall>it\<in>set items. it_offerId it \<in> so_id ` set offers
    \<Longrightarrow> filter (\<lambda>it. it_offerId it \<notin> set (map so_id offers)) items = []"
  by (auto simp: filter_empty_conv)

lemma reserve_execute_outcome:
  assumes inv: "stock_inv db" and ok: "orderable items db"
  shows "if list_ex (\<lambda>it. short (item_create order it) db) items
    then SellerOfferStockReserveCommandHandler_execute now order \<lparr>srd_items = items\<rparr> db
      = Inl (StockReservationRejected insufficient_stock
          (map (\<lambda>it. with_available (stock_by_id (live_offers items db) (it_offerId it)) it)
             (filter (\<lambda>it. short (item_create order it) db) items)))
    else \<exists>db'. SellerOfferStockReserveCommandHandler_execute now order \<lparr>srd_items = items\<rparr> db = Inr ((), db')"
proof -
  let ?rcs = "sort_key rc_offerId (map (item_create order) items)"
  have "map rc_offerId (map (item_create order) items) = map it_offerId items" by simp
  then have "distinct (map rc_offerId ?rcs)"
    using ok unfolding orderable_def by (metis distinct_map distinct_sort set_sort)
  moreover have "\<forall>rc\<in>set ?rcs. admissible rc db"
    using ok live_offers_ids [OF ok] by (fastforce simp: orderable_def admissible_def live_offers_def)
  moreover have "\<forall>ofr\<in>set (sd_offers db). SellerOffer_check ofr" using inv by (simp add: stock_inv_def)
  ultimately obtain ocs db' where loop: "reserve_loop now ?rcs db = Inr (ocs, db')"
    and out: "map (\<lambda>oc. (oc_offerId oc, failed_outcome oc)) ocs = map (\<lambda>rc. (rc_offerId rc, short rc db)) ?rcs"
    using reserve_loop_outcomes by blast
  have "(i, True) \<in> set (map (\<lambda>oc. (oc_offerId oc, failed_outcome oc)) ocs)
    \<longleftrightarrow> (\<exists>it\<in>set items. it_offerId it = i \<and> short (item_create order it) db)" for i
    unfolding out by (auto simp: image_iff)
  then have failed: "i \<in> set (map oc_offerId (filter failed_outcome ocs))
    \<longleftrightarrow> (\<exists>it\<in>set items. it_offerId it = i \<and> short (item_create order it) db)" for i
    by (auto simp: image_iff)
  have "inj_on it_offerId (set items)" using ok by (simp add: orderable_def distinct_map)
  then have sel: "filter (\<lambda>it. it_offerId it \<in> set (map oc_offerId (filter failed_outcome ocs))) items
    = filter (\<lambda>it. short (item_create order it) db) items"
    unfolding failed by (intro filter_cong) (auto dest: inj_onD)
  have "map oc_offerId (filter failed_outcome ocs) = []
    \<longleftrightarrow> (\<forall>i. i \<notin> set (map oc_offerId (filter failed_outcome ocs)))" by (metis ex_in_conv set_empty)
  then have empty: "map oc_offerId (filter failed_outcome ocs) = []
    \<longleftrightarrow> \<not> list_ex (\<lambda>it. short (item_create order it) db) items"
    unfolding failed by (auto simp: list_ex_iff)
  have live: "\<forall>it\<in>set items. it_offerId it \<in> so_id ` set (live_offers items db)"
    using live_offers_ids [OF ok] by blast
  show ?thesis
    unfolding SellerOfferStockReserveCommandHandler_execute_def Let_def stock_reserve_data.simps
      findByIds_orderable [OF ok] sum.case filter_missing_empty [OF live] map_item_create
      StockReservationRepository_reserve_def loop prod.case sel empty by simp
qed

text \<open>After a successful run every requested reservation exists, so a redelivery changes nothing.\<close>

lemma known_mono: "reserve_statement now rc db = Inr (oc, db') \<Longrightarrow> known rc' db \<Longrightarrow> known rc' db'"
  by (elim reserve_statement_cases) (auto simp: known_take_stock)

lemma reserve_loop_known_mono: "reserve_loop now rcs db = Inr (ocs, db') \<Longrightarrow> known rc db \<Longrightarrow> known rc db'"
  by (induction rcs arbitrary: db ocs) (auto split: sum.splits prod.splits dest: known_mono)

lemma reserve_statement_known: "reserve_statement now rc db = Inr (oc, db') \<Longrightarrow> known rc db'"
  by (elim reserve_statement_cases) (auto simp: known_take_stock)

definition storable :: "stock_reservation_create \<Rightarrow> bool" where
  "storable rc \<longleftrightarrow> int4 (rc_offerId rc) \<and> int4 (rc_quantity rc) \<and> 0 < rc_quantity rc"

lemma reserve_statement_storable: "reserve_statement now rc db = Inr r \<Longrightarrow> storable rc"
  by (auto simp: reserve_statement_def storable_def Let_def split: if_splits)

lemma reserve_loop_known:
  "reserve_loop now rcs db = Inr (ocs, db') \<Longrightarrow> \<forall>rc\<in>set rcs. known rc db' \<and> storable rc"
proof (induction rcs arbitrary: db ocs)
  case (Cons rc rcs)
  then obtain oc db1 ocs1 where "reserve_statement now rc db = Inr (oc, db1)"
    "reserve_loop now rcs db1 = Inr (ocs1, db')"
    by (auto split: sum.splits prod.splits)
  then show ?case
    using Cons.IH reserve_statement_known reserve_statement_storable reserve_loop_known_mono by auto
qed simp

lemma reserve_loop_noop:
  "\<forall>rc\<in>set rcs. known rc db \<and> storable rc
    \<Longrightarrow> \<exists>ocs. reserve_loop now rcs db = Inr (ocs, db) \<and> filter failed_outcome ocs = []"
  by (induction rcs)
    (auto simp: reserve_statement_def Let_def known_def storable_def failed_outcome_def split: sum.splits)

lemma reserve_execute_known:
  assumes "SellerOfferStockReserveCommandHandler_execute now order data db = Inr (u, db')"
    and "it \<in> set (srd_items data)"
  shows "known (item_create order it) db'"
proof -
  from assms(1) obtain ocs where
    "reserve_loop now (sort_key rc_offerId (map (item_create order) (srd_items data))) db = Inr (ocs, db')"
    by (elim reserve_execute_Inr) (auto simp: StockReservationRepository_reserve_def map_item_create)
  from reserve_loop_known [OF this] show ?thesis using assms(2) by simp
qed

definition offer_sale :: "SellerOffer \<Rightarrow> int \<times> time option \<times> int" where
  "offer_sale ofr = (so_id ofr, so_deletedAt ofr, so_onHandQuantity ofr)"

lemma reserve_statement_sale:
  "reserve_statement now rc db = Inr (oc, db') \<Longrightarrow>
    map offer_sale (sd_offers db') = map offer_sale (sd_offers db)"
  by (elim reserve_statement_cases) (auto simp: take_stock_def offer_sale_def map_update_where_key)

lemma reserve_loop_sale:
  "reserve_loop now rcs db = Inr (ocs, db') \<Longrightarrow> map offer_sale (sd_offers db') = map offer_sale (sd_offers db)"
  by (induction rcs arbitrary: db ocs) (auto split: sum.splits prod.splits dest: reserve_statement_sale)

lemma live_listed:
  assumes "map offer_sale os = map offer_sale os'"
  shows "list_ex (live_offer i) os \<longleftrightarrow> list_ex (live_offer i) os'"
proof -
  have "list_ex (live_offer i) xs \<longleftrightarrow> list_ex (\<lambda>(j, d, h). j = i \<and> d = None) (map offer_sale xs)" for xs
    by (induction xs) (auto simp: offer_sale_def live_offer_def)
  then show ?thesis using assms by simp
qed

lemma findByIds_live:
  assumes "SellerOfferRepository_findByIds ids db = Inr offers"
  shows "i \<in> so_id ` set offers \<longleftrightarrow> i \<in> set ids \<and> list_ex (live_offer i) (sd_offers db)"
  using assms by (fastforce simp: SellerOfferRepository_findByIds_def list_ex_iff live_offer_def split: if_splits)

lemma reserve_execute_again:
  assumes "SellerOfferStockReserveCommandHandler_execute now order data db = Inr (u, db')"
  shows "SellerOfferStockReserveCommandHandler_execute now' order data db' = Inr ((), db')"
proof -
  let ?items = "srd_items data" and ?rcs = "map (item_create order) (srd_items data)"
  from assms obtain offers ocs where
    f: "SellerOfferRepository_findByIds (map it_offerId ?items) db = Inr offers"
    and live: "\<forall>it\<in>set ?items. it_offerId it \<in> so_id ` set offers"
    and loop: "reserve_loop now (sort_key rc_offerId ?rcs) db = Inr (ocs, db')"
    by (elim reserve_execute_Inr) (auto simp: StockReservationRepository_reserve_def map_item_create)
  obtain offers' where f': "SellerOfferRepository_findByIds (map it_offerId ?items) db' = Inr offers'"
    using f by (auto simp: SellerOfferRepository_findByIds_def split: if_splits)
  have "\<forall>it\<in>set ?items. it_offerId it \<in> so_id ` set offers'"
    using live unfolding findByIds_live [OF f] findByIds_live [OF f']
    using live_listed [OF reserve_loop_sale [OF loop]] by blast
  then have "filter (\<lambda>it. it_offerId it \<notin> set (map so_id offers')) ?items = []"
    by (rule filter_missing_empty)
  moreover obtain ocs' where "reserve_loop now' (sort_key rc_offerId ?rcs) db' = Inr (ocs', db')"
    "filter failed_outcome ocs' = []"
    using reserve_loop_noop [OF reserve_loop_known [OF loop]] by blast
  ultimately show ?thesis
    by (simp add: SellerOfferStockReserveCommandHandler_execute_def Let_def f' map_item_create
        StockReservationRepository_reserve_def)
qed

subsection \<open>Releasing\<close>

definition mark_released :: "time \<Rightarrow> uuid \<Rightarrow> StockReservation list \<Rightarrow> StockReservation list" where
  "mark_released now order rs =
     update_where (releasable order) (\<lambda>r. r\<lparr>sr_status := RELEASED, sr_updatedAt := now\<rparr>) rs"

lemma mark_released_pk [simp]: "map reservation_pk (mark_released now order rs) = map reservation_pk rs"
  by (simp add: mark_released_def map_update_where_key reservation_pk_def)

lemma released_quantity_sum:
  assumes "distinct (map reservation_pk rs)"
  shows "active_quantity (so_id ofr) (mark_released now order rs)
    = active_quantity (so_id ofr) rs
      - (case released_quantity (filter (releasable order) rs) ofr of None \<Rightarrow> 0 | Some q \<Rightarrow> q)"
  using assms
proof (induction rs)
  case (Cons r rs)
  show ?case
  proof (cases "releasable order r \<and> sr_offerId r = so_id ofr")
    case True
    have "\<not> (releasable order r' \<and> sr_offerId r' = so_id ofr)" if "r' \<in> set rs" for r'
    proof -
      have "reservation_pk r \<notin> reservation_pk ` set rs" using Cons.prems by simp
      then have "reservation_pk r \<noteq> reservation_pk r'" using that by (metis imageI)
      then show ?thesis using True by (auto simp: releasable_def reservation_pk_def)
    qed
    then have "released_quantity (filter (releasable order) rs) ofr = None"
      by (auto simp: released_quantity_def find_row_None)
    moreover have "active r" using True by (simp add: releasable_def active_def)
    moreover have "\<not> active (r\<lparr>sr_status := RELEASED, sr_updatedAt := now\<rparr>)" by (simp add: active_def)
    ultimately show ?thesis using Cons True by (simp add: mark_released_def released_quantity_def)
  next
    case False
    then show ?thesis
      using Cons by (auto simp: mark_released_def released_quantity_def active_def releasable_def)
  qed
qed (simp add: mark_released_def released_quantity_def)

lemma released_quantity_le:
  assumes "stock_inv db" and "released_quantity (filter (releasable order) (sd_reservations db)) ofr = Some q"
    and "ofr \<in> set (sd_offers db)"
  shows "0 \<le> q" and "q \<le> so_reservedQuantity ofr"
proof -
  let ?rs = "sd_reservations db"
  have pos: "\<And>r. r \<in> set ?rs \<Longrightarrow> 0 < sr_quantity r" and pks: "distinct (map reservation_pk ?rs)"
    and res: "so_reservedQuantity ofr = active_quantity (so_id ofr) ?rs"
    using assms(1,3) by (simp_all add: stock_inv_def)
  show "0 \<le> q" using assms(2) pos by (fastforce simp: released_quantity_def dest: find_row_Some)
  have "0 \<le> active_quantity (so_id ofr) (mark_released 0 order ?rs)"
    using pos by (intro active_quantity_nonneg) (auto simp: mark_released_def in_update_where)
  then show "q \<le> so_reservedQuantity ofr"
    using released_quantity_sum [OF pks, of ofr 0 order] assms(2) res by simp
qed

text \<open>On a consistent table the release statement cannot violate a constraint.\<close>

lemma release_succeeds:
  assumes inv: "stock_inv db"
  obtains n db' where "StockReservationRepository_release now order db = Inr (n, db')"
    and "stock_inv db'" and "sd_reservations db' = mark_released now order (sd_reservations db)"
    and "map offer_sale (sd_offers db') = map offer_sale (sd_offers db)"
proof -
  let ?rs = "sd_reservations db" and ?rel = "filter (releasable order) (sd_reservations db)"
  let ?hit = "\<lambda>ofr. released_quantity ?rel ofr \<noteq> None"
  let ?os = "update_where ?hit (unhold now ?rel) (sd_offers db)"
  let ?db = "db\<lparr>sd_reservations := mark_released now order ?rs, sd_offers := ?os\<rparr>"
  have pks: "distinct (map reservation_pk ?rs)" using inv by (simp add: stock_inv_def)
  have chk: "SellerOffer_check (unhold now ?rel ofr)" if "ofr \<in> set (sd_offers db)" "?hit ofr" for ofr
    using that inv released_quantity_le [OF inv] by (auto simp: stock_inv_def intro: check_unhold)
  have "SellerOffer_check ofr \<and> so_reservedQuantity ofr = active_quantity (so_id ofr) (mark_released now order ?rs)"
    if "ofr \<in> set ?os" for ofr
  proof -
    from that obtain o2 where o2: "o2 \<in> set (sd_offers db)" "ofr = (if ?hit o2 then unhold now ?rel o2 else o2)"
      by (auto simp: in_update_where)
    then have "SellerOffer_check o2" "so_reservedQuantity o2 = active_quantity (so_id o2) ?rs"
      using inv by (simp_all add: stock_inv_def)
    then show ?thesis
      using o2 chk [OF o2(1)] released_quantity_sum [OF pks, of o2 now order] by (auto split: option.splits)
  qed
  moreover have ids: "map so_id ?os = map so_id (sd_offers db)" by (simp add: map_update_where_key)
  moreover have "so_id ` set ?os = so_id ` set (sd_offers db)"
    using arg_cong [OF ids, of set] by (simp only: set_map)
  moreover have "\<forall>r\<in>set (mark_released now order ?rs). 0 < sr_quantity r \<and> sr_offerId r \<in> so_id ` set (sd_offers db)"
    using inv by (auto simp: stock_inv_def mark_released_def in_update_where)
  ultimately have "stock_inv ?db" using inv by (simp add: stock_inv_def)
  moreover have "\<not> list_ex (\<lambda>ofr. ?hit ofr \<and> \<not> SellerOffer_check (unhold now ?rel ofr)) (sd_offers db)"
    using chk unfolding list_ex_iff by blast
  then have "StockReservationRepository_release now order db = Inr (count_where ?hit (sd_offers db), ?db)"
    by (simp add: StockReservationRepository_release_def Let_def mark_released_def del: not_None_eq)
  moreover have "map offer_sale ?os = map offer_sale (sd_offers db)"
    by (simp add: map_update_where_key offer_sale_def)
  ultimately show thesis using that [of "count_where ?hit (sd_offers db)" ?db] by simp
qed

lemma release_none:
  assumes "\<forall>r\<in>set (sd_reservations db). \<not> releasable order r"
  shows "StockReservationRepository_release now order db = Inr (0, db)"
proof -
  have "filter (releasable order) (sd_reservations db) = []" using assms by (simp add: filter_empty_conv)
  then show ?thesis
    using assms by (simp add: StockReservationRepository_release_def released_quantity_def update_where_none
        count_where_def filter_empty_conv list_ex_iff)
qed

lemma mark_released_none: "r \<in> set (mark_released now order rs) \<Longrightarrow> \<not> releasable order r"
proof -
  assume "r \<in> set (mark_released now order rs)"
  then obtain q where q: "r = (if releasable order q then q\<lparr>sr_status := RELEASED, sr_updatedAt := now\<rparr> else q)"
    unfolding mark_released_def in_update_where by blast
  show ?thesis unfolding q by (simp add: releasable_def)
qed

subsection \<open>The gateway\<close>

text \<open>
  A request is accepted when the envelope and the data pass the checks; the rest of the handler is
  then the transaction and the translation of its result.
\<close>

definition accepts_reserve :: "(string \<Rightarrow> bool) \<Rightarrow> json \<Rightarrow> (uuid \<times> stock_item list) option" where
  "accepts_reserve isUUID msg =
     (if jstring (jfield (Some msg) ''specversion'') = Some ''1.0''
         \<and> jstring (jfield (Some msg) ''type'') = Some (mc_type StockReserveRequest)
      then case (jstring (jfield (Some msg) ''subject''),
                 SellerOfferGateway_isValidItems (jfield (jfield (Some msg) ''data'') ''items'')) of
          (Some subject, Some items) \<Rightarrow> if isUUID subject then Some (subject, items) else None
        | _ \<Rightarrow> None
      else None)"

definition accepts_release :: "(string \<Rightarrow> bool) \<Rightarrow> json \<Rightarrow> uuid option" where
  "accepts_release isUUID msg =
     (if jstring (jfield (Some msg) ''specversion'') = Some ''1.0''
         \<and> jstring (jfield (Some msg) ''type'') = Some (mc_type StockReleaseRequest)
      then case jstring (jfield (jfield (Some msg) ''data'') ''orderPublicId'') of
          Some order \<Rightarrow> if isUUID order then Some order else None
        | None \<Rightarrow> None
      else None)"

lemma accepts_reserveD:
  assumes "accepts_reserve isUUID msg = Some (order, items)"
  shows "jstring (jfield (Some msg) ''specversion'') = Some ''1.0''"
    and "jstring (jfield (Some msg) ''type'') = Some (mc_type StockReserveRequest)"
    and "jstring (jfield (Some msg) ''subject'') = Some order"
    and "SellerOfferGateway_isValidItems (jfield (jfield (Some msg) ''data'') ''items'') = Some items"
    and "isUUID order"
  using assms unfolding accepts_reserve_def by (simp_all split: option.splits if_splits)

lemma handleStockReserve_rejected:
  "accepts_reserve isUUID msg = None \<Longrightarrow>
    SellerOfferGateway_handleStockReserve isUUID env now msg db = (RpcNack, db)"
  by (auto simp: SellerOfferGateway_handleStockReserve_def accepts_reserve_def split: option.splits if_splits)

lemma handleStockReserve_accepted:
  assumes "accepts_reserve isUUID msg = Some (order, items)"
  shows "SellerOfferGateway_handleStockReserve isUUID env now msg db =
    (case SellerOfferStockReserveCommandHandler_execute now order \<lparr>srd_items = items\<rparr> db of
       Inr (_, db') \<Rightarrow> (RpcReply (SellerOfferGateway_toResponse env msg StockReserved), db')
     | Inl (StockReservationRejected reason rejected) \<Rightarrow>
         (RpcReply (SellerOfferGateway_toResponse env msg (StockRejected reason rejected)), db)
     | Inl (ReserveDbError e) \<Rightarrow> (RpcThrow e, db))"
proof -
  note [simp] = accepts_reserveD [OF assms]
  show ?thesis
    by (cases "SellerOfferStockReserveCommandHandler_execute now order \<lparr>srd_items = items\<rparr> db")
      (auto simp: SellerOfferGateway_handleStockReserve_def transactional_def split: reserve_error.splits)
qed

lemma handleStockRelease_rejected:
  "accepts_release isUUID msg = None \<Longrightarrow>
    SellerOfferGateway_handleStockRelease isUUID env now msg db = (RpcNack, db)"
  by (auto simp: SellerOfferGateway_handleStockRelease_def accepts_release_def split: option.splits if_splits)

lemma handleStockRelease_accepted:
  assumes "accepts_release isUUID msg = Some order"
  shows "SellerOfferGateway_handleStockRelease isUUID env now msg db =
    (case StockReservationRepository_release now order db of
       Inr (n, db') \<Rightarrow> (RpcReply (SellerOfferGateway_toReleaseResponse env msg (StockReleased n)), db')
     | Inl e \<Rightarrow> (RpcThrow e, db))"
  using assms
  by (auto simp: SellerOfferGateway_handleStockRelease_def accepts_release_def transactional_def
      SellerOfferStockReleaseCommandHandler_execute_def split: option.splits if_splits sum.splits)

text \<open>Every message, accepted or not, in any order: the steps of the service.\<close>

inductive stock_step :: "(string \<Rightarrow> bool) \<Rightarrow> seller_db \<Rightarrow> seller_db \<Rightarrow> bool" for isUUID where
  reserve: "SellerOfferGateway_handleStockReserve isUUID env now msg db = (reply, db') \<Longrightarrow> stock_step isUUID db db'"
| release: "SellerOfferGateway_handleStockRelease isUUID env now msg db = (reply', db') \<Longrightarrow> stock_step isUUID db db'"

lemma handleStockReserve_inv:
  assumes "stock_inv db"
  shows "stock_inv (snd (SellerOfferGateway_handleStockReserve isUUID env now msg db))"
proof (cases "accepts_reserve isUUID msg")
  case (Some r)
  then obtain order items where r: "accepts_reserve isUUID msg = Some (order, items)" by (cases r) simp
  show ?thesis unfolding handleStockReserve_accepted [OF r]
    using assms reserve_execute_inv [of now order "\<lparr>srd_items = items\<rparr>" db]
    by (auto split: sum.split reserve_error.split)
qed (simp add: handleStockReserve_rejected assms)

lemma handleStockRelease_inv:
  assumes "stock_inv db"
  shows "stock_inv (snd (SellerOfferGateway_handleStockRelease isUUID env now msg db))"
proof (cases "accepts_release isUUID msg")
  case (Some order)
  obtain n db' where "StockReservationRepository_release now order db = Inr (n, db')" "stock_inv db'"
    by (rule release_succeeds [OF assms])
  then show ?thesis using Some by (simp add: handleStockRelease_accepted)
qed (simp add: handleStockRelease_rejected assms)

lemma stock_step_inv: "stock_step isUUID db db' \<Longrightarrow> stock_inv db \<Longrightarrow> stock_inv db'"
  by (induction rule: stock_step.induct)
    (metis handleStockReserve_inv snd_conv, metis handleStockRelease_inv snd_conv)

subsection \<open>What the service guarantees\<close>

text \<open>A small table for the witnesses: one offer with ten pieces, three of them held by another order.\<close>

definition demo_offer :: "int \<Rightarrow> int \<Rightarrow> int \<Rightarrow> SellerOffer" where
  "demo_offer i onHand reserved =
     \<lparr>so_id = i, so_publicId = ''offer'', so_sellerId = 1, so_variantId = i, so_sellerSku = ''SKU'',
      so_price = 1000, so_currency = UAH, so_discountPrice = None, so_onHandQuantity = onHand,
      so_reservedQuantity = reserved, so_createdAt = 0, so_updatedAt = 0, so_deletedAt = None\<rparr>"

definition demo_stock :: seller_db where
  "demo_stock =
     \<lparr>sd_offers = [demo_offer 1 10 3, demo_offer 2 5 0],
      sd_reservations =
        [\<lparr>sr_orderPublicId = ''other'', sr_offerId = 1, sr_quantity = 3, sr_status = RESERVED,
          sr_createdAt = 0, sr_updatedAt = 0\<rparr>]\<rparr>"

definition demo_items :: "stock_item list" where
  "demo_items = [\<lparr>it_offerId = 2, it_quantity = 2\<rparr>, \<lparr>it_offerId = 1, it_quantity = 7\<rparr>]"

definition demo_env :: reply_env where
  "demo_env = \<lparr>re_randomUUID = ''reply'', re_now = 0\<rparr>"

lemmas demo_stock_defs = demo_stock_def demo_offer_def demo_items_def

lemma demo_stock_inv: "stock_inv demo_stock"
  by (simp add: stock_inv_def demo_stock_defs SellerOffer_check_def reservation_pk_def active_def)

text \<open>
  C6. Whatever messages arrive, in whatever order, well formed or not: the reserved quantity of
  every offer stays the sum of its active reservations, between zero and the stock on hand.
\<close>

theorem stock_reachable_inv:
  assumes "(stock_step isUUID)\<^sup>*\<^sup>* db db'" and "stock_inv db"
  shows "stock_inv db'"
  using assms by (induction rule: rtranclp_induct) (auto dest: stock_step_inv)

lemma stock_reachable_inv_witness:
  "stock_inv (snd (SellerOfferGateway_handleStockReserve (\<lambda>_. True) demo_env 0 JNull demo_stock))"
proof (rule stock_reachable_inv [of "\<lambda>_. True" demo_stock])
  show "(stock_step (\<lambda>_. True))\<^sup>*\<^sup>* demo_stock
    (snd (SellerOfferGateway_handleStockReserve (\<lambda>_. True) demo_env 0 JNull demo_stock))"
    by (rule r_into_rtranclp) (metis stock_step.reserve surjective_pairing)
qed (rule demo_stock_inv)

text \<open>
  A reservation is all or nothing: unless the reply says \<open>reserved\<close>, the tables are as before,
  whatever the message and whichever branch rejected it.
\<close>

theorem stock_reserve_atomic:
  assumes "SellerOfferGateway_handleStockReserve isUUID env now msg db = (reply, db')"
    and "\<forall>ev. reply = RpcReply ev \<longrightarrow> ce_data ev \<noteq> StockReserved"
  shows "db' = db"
proof (cases "accepts_reserve isUUID msg")
  case (Some r)
  then obtain order items where "accepts_reserve isUUID msg = Some (order, items)" by (cases r) simp
  from handleStockReserve_accepted [OF this] assms show ?thesis
    by (auto simp: SellerOfferGateway_toResponse_def split: sum.splits reserve_error.splits)
qed (use assms in \<open>simp add: handleStockReserve_rejected\<close>)

theorem stock_reserve_atomic_witness:
  "SellerOfferGateway_handleStockReserve (\<lambda>_. True) demo_env 0 JNull demo_stock = (RpcNack, demo_stock)"
proof -
  have "SellerOfferGateway_handleStockReserve (\<lambda>_. True) demo_env 0 JNull demo_stock
    = (RpcNack, snd (SellerOfferGateway_handleStockReserve (\<lambda>_. True) demo_env 0 JNull demo_stock))"
    by (simp add: SellerOfferGateway_handleStockReserve_def)
  with stock_reserve_atomic [OF this] show ?thesis by simp
qed

text \<open>
  C19. A request for distinct offers on sale succeeds exactly when every offer has enough stock left
  or is already reserved for the order; otherwise the rejection lists exactly the items that fall
  short, with what is available of each.
\<close>

theorem stock_reserve_decision:
  assumes "stock_inv db" and "orderable items db"
  shows "if list_ex (\<lambda>it. short (item_create order it) db) items
    then SellerOfferStockReserveCommandHandler_execute now order \<lparr>srd_items = items\<rparr> db
      = Inl (StockReservationRejected insufficient_stock
          (map (\<lambda>it. with_available (stock_by_id (live_offers items db) (it_offerId it)) it)
             (filter (\<lambda>it. short (item_create order it) db) items)))
    else \<exists>db'. SellerOfferStockReserveCommandHandler_execute now order \<lparr>srd_items = items\<rparr> db = Inr ((), db')
      \<and> (\<forall>it\<in>set items. known (item_create order it) db')"
  using reserve_execute_outcome [OF assms, of order now] reserve_execute_known [of now order "\<lparr>srd_items = items\<rparr>" db]
  by (auto split: if_splits)

lemma demo_orderable: "orderable demo_items demo_stock"
  by (simp add: orderable_def demo_stock_defs int4_def live_offer_def)

theorem stock_reserve_decision_witness:
  "\<exists>db'. SellerOfferStockReserveCommandHandler_execute 5 ''mine'' \<lparr>srd_items = demo_items\<rparr> demo_stock = Inr ((), db')"
proof -
  have "\<not> list_ex (\<lambda>it. short (item_create ''mine'' it) demo_stock) demo_items"
    by (simp add: short_def demo_stock_defs can_hold_def live_offer_def)
  then show ?thesis
    using stock_reserve_decision [OF demo_stock_inv demo_orderable, of "''mine''" 5] by auto
qed

text \<open>
  Redelivery of a reservation that succeeded, at any later time, replies \<open>reserved\<close> again and
  holds nothing twice.
\<close>

theorem stock_reserve_idempotent:
  assumes "SellerOfferGateway_handleStockReserve isUUID env now msg db = (RpcReply ev, db')"
    and "ce_data ev = StockReserved"
  shows "SellerOfferGateway_handleStockReserve isUUID env' now' msg db'
    = (RpcReply (SellerOfferGateway_toResponse env' msg StockReserved), db')"
proof (cases "accepts_reserve isUUID msg")
  case (Some r)
  then obtain order items where r: "accepts_reserve isUUID msg = Some (order, items)" by (cases r) simp
  from handleStockReserve_accepted [OF r] assms obtain u where
    "SellerOfferStockReserveCommandHandler_execute now order \<lparr>srd_items = items\<rparr> db = Inr (u, db')"
    by (auto simp: SellerOfferGateway_toResponse_def split: sum.splits reserve_error.splits)
  from reserve_execute_again [OF this, of now'] show ?thesis
    by (simp add: handleStockReserve_accepted [OF r])
qed (use assms in \<open>simp add: handleStockReserve_rejected\<close>)

text \<open>
  A release of a consistent table always answers \<open>released\<close>: afterwards no reservation of the
  order is active, those of other orders are untouched, and a second release changes nothing.
\<close>

theorem stock_release_frees:
  assumes "stock_inv db" and "accepts_release isUUID msg = Some order"
  shows "\<exists>n db'.
      SellerOfferGateway_handleStockRelease isUUID env now msg db
        = (RpcReply (SellerOfferGateway_toReleaseResponse env msg (StockReleased n)), db')
      \<and> (\<forall>r\<in>set (sd_reservations db'). sr_orderPublicId r = order \<longrightarrow> \<not> active r)
      \<and> filter (\<lambda>r. sr_orderPublicId r \<noteq> order) (sd_reservations db')
        = filter (\<lambda>r. sr_orderPublicId r \<noteq> order) (sd_reservations db)
      \<and> SellerOfferGateway_handleStockRelease isUUID env' now' msg db'
        = (RpcReply (SellerOfferGateway_toReleaseResponse env' msg (StockReleased 0)), db')"
proof -
  obtain n db' where rel: "StockReservationRepository_release now order db = Inr (n, db')"
    and rs: "sd_reservations db' = mark_released now order (sd_reservations db)"
    by (rule release_succeeds [OF assms(1)])
  have none: "\<forall>r\<in>set (sd_reservations db'). \<not> releasable order r"
    unfolding rs using mark_released_none by blast
  have "filter (\<lambda>r. sr_orderPublicId r \<noteq> order) (mark_released now order qs)
      = filter (\<lambda>r. sr_orderPublicId r \<noteq> order) qs" for qs
    by (induction qs) (auto simp: mark_released_def releasable_def)
  with rel rs none show ?thesis
    by (intro exI [of _ n] exI [of _ db'])
      (auto simp: handleStockRelease_accepted [OF assms(2)] release_none releasable_def active_def)
qed

definition demo_release :: json where
  "demo_release = JObj [(''specversion'', JStr ''1.0''), (''type'', JStr ''seller-offer.stock.release''),
     (''data'', JObj [(''orderPublicId'', JStr ''other'')])]"

lemma demo_release_accepted: "accepts_release (\<lambda>_. True) demo_release = Some ''other''"
  by (simp add: demo_release_def accepts_release_def StockReleaseRequest_def)

theorem stock_release_frees_witness:
  "\<exists>n db'. SellerOfferGateway_handleStockRelease (\<lambda>_. True) demo_env 1 demo_release demo_stock
     = (RpcReply (SellerOfferGateway_toReleaseResponse demo_env demo_release (StockReleased n)), db')
   \<and> (\<forall>r\<in>set (sd_reservations db'). sr_orderPublicId r = ''other'' \<longrightarrow> \<not> active r)"
  using stock_release_frees [OF demo_stock_inv demo_release_accepted, of demo_env 1 demo_env 2] by blast

definition demo_reserve :: json where
  "demo_reserve = JObj [(''specversion'', JStr ''1.0''), (''type'', JStr ''seller-offer.stock.reserve''),
     (''subject'', JStr ''mine''),
     (''data'', JObj [(''items'', JArr [JObj [(''offerId'', JNum 2), (''quantity'', JNum 2)]])])]"

lemma demo_reserve_accepted:
  "accepts_reserve (\<lambda>_. True) demo_reserve = Some (''mine'', [\<lparr>it_offerId = 2, it_quantity = 2\<rparr>])"
  by (simp add: demo_reserve_def accepts_reserve_def StockReserveRequest_def valid_item_def max_safe_integer_def)

lemma demo_reserve_reply:
  "\<exists>db'. SellerOfferGateway_handleStockReserve (\<lambda>_. True) demo_env 0 demo_reserve demo_stock
    = (RpcReply (SellerOfferGateway_toResponse demo_env demo_reserve StockReserved), db')"
proof -
  let ?items = "[\<lparr>it_offerId = 2, it_quantity = 2\<rparr>]"
  have "orderable ?items demo_stock"
    by (simp add: orderable_def demo_stock_defs int4_def live_offer_def)
  moreover have "\<not> list_ex (\<lambda>it. short (item_create ''mine'' it) demo_stock) ?items"
    by (simp add: short_def demo_stock_defs can_hold_def live_offer_def)
  ultimately obtain db' where
    "SellerOfferStockReserveCommandHandler_execute 0 ''mine'' \<lparr>srd_items = ?items\<rparr> demo_stock = Inr ((), db')"
    using reserve_execute_outcome [OF demo_stock_inv, of ?items "''mine''" 0] by auto
  then show ?thesis by (simp add: handleStockReserve_accepted [OF demo_reserve_accepted])
qed

theorem stock_reserve_idempotent_witness:
  "\<exists>db'. SellerOfferGateway_handleStockReserve (\<lambda>_. True) demo_env 9 demo_reserve db'
    = (RpcReply (SellerOfferGateway_toResponse demo_env demo_reserve StockReserved), db')"
  using demo_reserve_reply stock_reserve_idempotent [where isUUID = "\<lambda>_. True" and env = demo_env
      and now = 0 and msg = demo_reserve and db = demo_stock]
  by (fastforce simp: SellerOfferGateway_toResponse_def)

definition stock_levels :: "seller_db \<Rightarrow> (int \<times> int \<times> int) list" where
  "stock_levels db = map (\<lambda>ofr. (so_id ofr, so_onHandQuantity ofr, so_reservedQuantity ofr)) (sd_offers db)"

lemma stock_levels_inv:
  assumes "stock_inv db"
  shows "stock_levels db = map (\<lambda>(i, d, h). (i, h, active_quantity i (sd_reservations db))) (map offer_sale (sd_offers db))"
  using assms by (auto simp: stock_levels_def stock_inv_def offer_sale_def)

lemma reserve_loop_reservations:
  "reserve_loop now rcs db = Inr (ocs, db') \<Longrightarrow> \<forall>rc\<in>set rcs. rc_orderPublicId rc = order \<Longrightarrow>
    \<exists>new. sd_reservations db' = sd_reservations db @ new \<and> (\<forall>r\<in>set new. releasable order r)"
proof (induction rcs arbitrary: db ocs)
  case (Cons rc rcs)
  then obtain oc db1 ocs1 where 1: "reserve_statement now rc db = Inr (oc, db1)"
    and "reserve_loop now rcs db1 = Inr (ocs1, db')"
    by (auto split: sum.splits prod.splits)
  then obtain new where 2: "sd_reservations db' = sd_reservations db1 @ new" "\<forall>r\<in>set new. releasable order r"
    using Cons.IH [of db1 ocs1] Cons.prems(2) by auto
  from 1 show ?case
  proof (cases rule: reserve_statement_cases)
    case taken
    then show ?thesis using 2 Cons.prems(2)
      by (intro exI [of _ "new_reservation now rc # new"]) (simp add: releasable_def)
  qed (use 2 in blast)
qed simp

lemma active_quantity_released:
  "\<forall>r\<in>set rs. releasable order r \<Longrightarrow> active_quantity i (mark_released now order rs) = 0"
  by (induction rs) (auto simp: mark_released_def active_def)

lemma release_restores:
  assumes inv: "stock_inv db" and fresh: "\<forall>r\<in>set (sd_reservations db). sr_orderPublicId r \<noteq> order"
    and res: "SellerOfferStockReserveCommandHandler_execute now order data db = Inr ((), db1)"
    and rel: "StockReservationRepository_release now' order db1 = Inr (n, db2)"
  shows "stock_levels db2 = stock_levels db"
proof -
  from res obtain ocs where
    loop: "reserve_loop now (sort_key rc_offerId (map (item_create order) (srd_items data))) db = Inr (ocs, db1)"
    by (elim reserve_execute_Inr) (auto simp: StockReservationRepository_reserve_def map_item_create)
  from reserve_loop_reservations [OF this, of order] obtain new where
    new: "sd_reservations db1 = sd_reservations db @ new" "\<forall>r\<in>set new. releasable order r" by auto
  have inv1: "stock_inv db1" using reserve_execute_inv [OF res inv] .
  obtain m db' where "StockReservationRepository_release now' order db1 = Inr (m, db')" "stock_inv db'"
    "sd_reservations db' = mark_released now' order (sd_reservations db1)"
    "map offer_sale (sd_offers db') = map offer_sale (sd_offers db1)"
    by (rule release_succeeds [OF inv1])
  with rel have db2: "stock_inv db2" "sd_reservations db2 = mark_released now' order (sd_reservations db1)"
    "map offer_sale (sd_offers db2) = map offer_sale (sd_offers db1)" by simp_all
  have "mark_released now' order (sd_reservations db) = sd_reservations db"
    unfolding mark_released_def using fresh by (intro update_where_none) (auto simp: releasable_def)
  then have "active_quantity i (sd_reservations db2) = active_quantity i (sd_reservations db)" for i
    unfolding db2 new(1) using active_quantity_released [OF new(2), of i now'] by (simp add: mark_released_def)
  then show ?thesis
    unfolding stock_levels_inv [OF inv] stock_levels_inv [OF db2(1)] db2(3) reserve_loop_sale [OF loop] by simp
qed

text \<open>
  Release undoes a reservation: for an order that had none, reserving and then releasing leaves
  the stock on hand and the reserved quantity of every offer as they were.
\<close>

theorem stock_release_undoes_reserve:
  assumes inv: "stock_inv db" and fresh: "\<forall>r\<in>set (sd_reservations db). sr_orderPublicId r \<noteq> order"
    and res: "SellerOfferStockReserveCommandHandler_execute now order data db = Inr ((), db1)"
    and rel: "StockReservationRepository_release now' order db1 = Inr (n, db2)"
  shows "stock_levels db2 = stock_levels db"
  using assms by (rule release_restores)

theorem stock_release_undoes_reserve_witness:
  "\<exists>db1 n db2. SellerOfferStockReserveCommandHandler_execute 5 ''mine'' \<lparr>srd_items = demo_items\<rparr> demo_stock = Inr ((), db1)
     \<and> StockReservationRepository_release 6 ''mine'' db1 = Inr (n, db2) \<and> stock_levels db2 = stock_levels demo_stock"
proof -
  have "\<not> list_ex (\<lambda>it. short (item_create ''mine'' it) demo_stock) demo_items"
    by (simp add: short_def demo_stock_defs can_hold_def live_offer_def)
  then obtain db1 where
    1: "SellerOfferStockReserveCommandHandler_execute 5 ''mine'' \<lparr>srd_items = demo_items\<rparr> demo_stock = Inr ((), db1)"
    using reserve_execute_outcome [OF demo_stock_inv demo_orderable, of "''mine''" 5] by auto
  obtain n db2 where 2: "StockReservationRepository_release 6 ''mine'' db1 = Inr (n, db2)"
    by (rule release_succeeds [OF reserve_execute_inv [OF 1 demo_stock_inv]])
  have "\<forall>r\<in>set (sd_reservations demo_stock). sr_orderPublicId r \<noteq> ''mine''" by (simp add: demo_stock_def)
  from stock_release_undoes_reserve [OF demo_stock_inv this 1 2] 1 2 show ?thesis by blast
qed

end
