(* ===== verification/Order_Core.thy ===== *)
theory Order_Core
  imports Outbox Seller_Offer
begin

section \<open>Placing an order\<close>

text \<open>
  The order service up to the start of its workflow (\<open>src/src/order\<close>): its tables and repositories,
  the messages it builds, the command handler that prices and stores an order together with its
  event and its workflow, and the two activities that end it. Prices are read and multiplied as
  doubles; the lemmas show that the stored totals are nevertheless exact.
\<close>

subsection \<open>Tables\<close>

record RecipientPhone =
  ph_countryCode :: CountryCodeEnum
  ph_rawNumber :: string
  ph_fullNumber :: string
  ph_nationalNumber :: string

record RecipientAddress =
  ad_addressLine :: string
  ad_city :: string
  ad_building :: "string option"

record order_recipient_create =
  rp_fullName :: string
  rp_phone :: RecipientPhone
  rp_address :: RecipientAddress

record OrderRecipient = order_recipient_create +
  rp_id :: int
  rp_createdAt :: time
  rp_updatedAt :: time
  rp_deletedAt :: "time option"

record Order =
  or_id :: int
  or_publicId :: uuid
  or_userId :: int
  or_orderRecipientId :: int
  or_idempotencyKey :: "uuid option"
  or_ownerIdentityPublicId :: "uuid option"
  or_status :: OrderStatusEnum
  or_totalAmount :: int
  or_discountAmount :: int
  or_currency :: CurrencyEnum
  or_createdAt :: time
  or_updatedAt :: time
  or_deletedAt :: "time option"

record OrderLine =
  ol_orderId :: int
  ol_offerId :: int
  ol_quantity :: int
  ol_unitPrice :: int
  ol_unitDiscountPrice :: "int option"
  ol_createdAt :: time
  ol_updatedAt :: time
  ol_deletedAt :: "time option"

record OrderBuyer =
  by_identityPublicId :: uuid
  by_userId :: int
  by_createdAt :: time

record order_db =
  odb_orders :: "Order list"
  odb_lines :: "OrderLine list"
  odb_recipients :: "OrderRecipient list"
  odb_buyers :: "OrderBuyer list"
  odb_outbox :: "OrderOutbox list"
  odb_workflows :: "OrderWorkflowOutbox list"

text \<open>What the database, the clock and \<open>randomUUID\<close> supply to a request.\<close>

record order_env =
  oe_now :: time
  oe_orderId :: int
  oe_publicId :: uuid
  oe_recipientId :: int
  oe_outboxId :: uuid

subsection \<open>The input\<close>

record order_create_input =
  in_recipient :: order_recipient_create
  in_items :: "stock_item list"
  in_currency :: CurrencyEnum

definition OrderCreateRecipientInput_valid :: "order_recipient_create \<Rightarrow> bool" where
  "OrderCreateRecipientInput_valid r \<longleftrightarrow>
     length (rp_fullName r) \<le> 201 \<and> has_nonspace (rp_fullName r)
     \<and> length (ph_rawNumber (rp_phone r)) \<le> 32
     \<and> length (ph_fullNumber (rp_phone r)) \<le> 16 \<and> e164 (ph_fullNumber (rp_phone r))
     \<and> length (ph_nationalNumber (rp_phone r)) \<le> 15 \<and> national_number (ph_nationalNumber (rp_phone r))
     \<and> length (ad_addressLine (rp_address r)) \<le> 255 \<and> length (ad_city (rp_address r)) \<le> 100
     \<and> (case ad_building (rp_address r) of None \<Rightarrow> True | Some b \<Rightarrow> length b \<le> 32)"

definition OrderCreateItemInput_valid :: "stock_item \<Rightarrow> bool" where
  "OrderCreateItemInput_valid it \<longleftrightarrow> 0 < it_offerId it \<and> 1 \<le> it_quantity it"

definition OrderCreateInput_valid :: "order_create_input \<Rightarrow> bool" where
  "OrderCreateInput_valid i \<longleftrightarrow> OrderCreateRecipientInput_valid (in_recipient i)
     \<and> in_items i \<noteq> [] \<and> list_all OrderCreateItemInput_valid (in_items i)"

subsection \<open>Repositories\<close>

definition OrderBuyerRepository_createIfAbsent ::
  "time \<Rightarrow> uuid \<Rightarrow> int \<Rightarrow> (order_db, db_error, bool) tx" where
  "OrderBuyerRepository_createIfAbsent now identityPublicId userId db =
     (if \<not> int4 userId then Inl NumericOutOfRange
      else if list_ex (\<lambda>b. by_identityPublicId b = identityPublicId \<or> by_userId b = userId) (odb_buyers db)
      then Inr (False, db)
      else Inr (True, db\<lparr>odb_buyers := odb_buyers db @
             [\<lparr>by_identityPublicId = identityPublicId, by_userId = userId, by_createdAt = now\<rparr>]\<rparr>))"

definition OrderBuyerRepository_findByIdentityPublicId :: "uuid \<Rightarrow> order_db \<Rightarrow> OrderBuyer option" where
  "OrderBuyerRepository_findByIdentityPublicId i db = find_row (\<lambda>b. by_identityPublicId b = i) (odb_buyers db)"

definition OrderBuyerRegisterCommandHandler_execute :: "time \<Rightarrow> uuid \<Rightarrow> int \<Rightarrow> (order_db, db_error, bool) tx" where
  "OrderBuyerRegisterCommandHandler_execute now identityPublicId userId db =
     OrderBuyerRepository_createIfAbsent now identityPublicId userId db"

text \<open>The widths of the columns and the CHECK constraints of \<open>OrderRecipient\<close>.\<close>

definition OrderRecipient_fits :: "order_recipient_create \<Rightarrow> bool" where
  "OrderRecipient_fits r \<longleftrightarrow>
     length (rp_fullName r) \<le> 201
     \<and> length (ph_rawNumber (rp_phone r)) \<le> 32 \<and> length (ph_fullNumber (rp_phone r)) \<le> 16
     \<and> length (ph_nationalNumber (rp_phone r)) \<le> 15
     \<and> length (ad_addressLine (rp_address r)) \<le> 255 \<and> length (ad_city (rp_address r)) \<le> 100
     \<and> (case ad_building (rp_address r) of None \<Rightarrow> True | Some b \<Rightarrow> length b \<le> 32)"

definition OrderRecipient_check :: "order_recipient_create \<Rightarrow> bool" where
  "OrderRecipient_check r \<longleftrightarrow>
     list_ex (\<lambda>c. c \<noteq> CHR '' '') (rp_fullName r)
     \<and> e164 (ph_fullNumber (rp_phone r)) \<and> national_number (ph_nationalNumber (rp_phone r))"

definition OrderRecipientRepository_create ::
  "order_env \<Rightarrow> order_recipient_create \<Rightarrow> (order_db, db_error, OrderRecipient) tx" where
  "OrderRecipientRepository_create env input db =
     (if \<not> OrderRecipient_fits input then Inl StringTooLong
      else if \<not> OrderRecipient_check input then Inl CheckViolation
      else (let r = order_recipient_create.extend input
                  \<lparr>rp_id = oe_recipientId env, rp_createdAt = oe_now env, rp_updatedAt = oe_now env, rp_deletedAt = None\<rparr>
            in Inr (r, db\<lparr>odb_recipients := odb_recipients db @ [r]\<rparr>)))"

record order_create =
  oc_userId :: int
  oc_ownerIdentityPublicId :: "uuid option"
  oc_orderRecipientId :: int
  oc_totalAmount :: string
  oc_discountAmount :: string
  oc_currency :: CurrencyEnum
  oc_status :: OrderStatusEnum
  oc_idempotencyKey :: "uuid option"

text \<open>
  The insert into \<open>Order\<close>: the domains \<open>amount\<close> and \<open>uint\<close>, and the unique key of a buyer's
  idempotency keys, in which NULLs are distinct. The foreign key to the recipient cannot fail: the
  handler inserts the recipient just before, in the same transaction.
\<close>

definition OrderRepository_create :: "order_env \<Rightarrow> order_create \<Rightarrow> (order_db, db_error, Order) tx" where
  "OrderRepository_create env input db =
     (case (pg_cents (oc_totalAmount input), pg_cents (oc_discountAmount input)) of
        (Some tot, Some disc) \<Rightarrow>
          if \<not> int4 (oc_userId input) \<or> \<not> numeric12_2 tot \<or> \<not> numeric12_2 disc then Inl NumericOutOfRange
          else if \<not> uint (oc_userId input) \<or> \<not> amount tot \<or> \<not> amount disc then Inl CheckViolation
          else if oc_idempotencyKey input \<noteq> None \<and> list_ex (\<lambda>r. or_userId r = oc_userId input
                    \<and> or_idempotencyKey r = oc_idempotencyKey input) (odb_orders db)
          then Inl UniqueViolation
          else (let r = \<lparr>or_id = oe_orderId env, or_publicId = oe_publicId env, or_userId = oc_userId input,
                    or_orderRecipientId = oc_orderRecipientId input, or_idempotencyKey = oc_idempotencyKey input,
                    or_ownerIdentityPublicId = oc_ownerIdentityPublicId input, or_status = oc_status input,
                    or_totalAmount = tot, or_discountAmount = disc, or_currency = oc_currency input,
                    or_createdAt = oe_now env, or_updatedAt = oe_now env, or_deletedAt = None\<rparr>
                in Inr (r, db\<lparr>odb_orders := odb_orders db @ [r]\<rparr>))
      | _ \<Rightarrow> Inl InvalidText)"

definition OrderRepository_findByIdempotencyKey :: "int \<Rightarrow> uuid \<Rightarrow> order_db \<Rightarrow> Order option" where
  "OrderRepository_findByIdempotencyKey userId key db =
     find_row (\<lambda>r. or_userId r = userId \<and> or_idempotencyKey r = Some key \<and> or_deletedAt r = None) (odb_orders db)"

text \<open>\<open>findOneOrFail\<close> with its lines; soft-deleted rows are invisible.\<close>

definition order_lines :: "int \<Rightarrow> order_db \<Rightarrow> OrderLine list" where
  "order_lines i db = filter (\<lambda>l. ol_orderId l = i \<and> ol_deletedAt l = None) (odb_lines db)"

definition OrderRepository_findByIdOrFail :: "int \<Rightarrow> order_db \<Rightarrow> db_error + (Order \<times> OrderLine list)" where
  "OrderRepository_findByIdOrFail i db =
     (if \<not> int4 i then Inl NumericOutOfRange
      else case find_row (\<lambda>r. or_id r = i \<and> or_deletedAt r = None) (odb_orders db) of
        None \<Rightarrow> Inl EntityNotFound
      | Some r \<Rightarrow> Inr (r, order_lines i db))"

definition set_status :: "time \<Rightarrow> OrderStatusEnum \<Rightarrow> Order \<Rightarrow> Order" where
  "set_status now st r = r\<lparr>or_status := st, or_updatedAt := now\<rparr>"

definition OrderRepository_updateStatusById ::
  "time \<Rightarrow> int \<Rightarrow> OrderStatusEnum \<Rightarrow> (order_db, db_error, Order \<times> OrderLine list) tx" where
  "OrderRepository_updateStatusById now i st db =
     (let db' = db\<lparr>odb_orders := update_where (\<lambda>r. or_id r = i) (set_status now st) (odb_orders db)\<rparr>
      in case OrderRepository_findByIdOrFail i db' of Inl e \<Rightarrow> Inl e | Inr r \<Rightarrow> Inr (r, db'))"

definition pending_order :: "int \<Rightarrow> Order \<Rightarrow> bool" where
  "pending_order i r \<longleftrightarrow> or_id r = i \<and> or_status r = OS_pending_payment"

definition OrderRepository_updatePendingStatusById ::
  "time \<Rightarrow> int \<Rightarrow> OrderStatusEnum \<Rightarrow> (order_db, db_error, (Order \<times> OrderLine list) option) tx" where
  "OrderRepository_updatePendingStatusById now i st db =
     (if \<not> int4 i then Inl NumericOutOfRange
      else (let db' = db\<lparr>odb_orders := update_where (pending_order i) (set_status now st) (odb_orders db)\<rparr>
            in if 0 < count_where (pending_order i) (odb_orders db)
               then (case OrderRepository_findByIdOrFail i db' of
                       Inl e \<Rightarrow> Inl e | Inr r \<Rightarrow> Inr (Some r, db'))
               else Inr (None, db')))"

record order_line_create =
  lc_orderId :: int
  lc_offerId :: int
  lc_quantity :: int
  lc_unitPrice :: int
  lc_unitDiscountPrice :: "int option"

definition OrderLine_row :: "time \<Rightarrow> order_line_create \<Rightarrow> OrderLine" where
  "OrderLine_row now l =
     \<lparr>ol_orderId = lc_orderId l, ol_offerId = lc_offerId l, ol_quantity = lc_quantity l,
      ol_unitPrice = lc_unitPrice l, ol_unitDiscountPrice = lc_unitDiscountPrice l,
      ol_createdAt = now, ol_updatedAt = now, ol_deletedAt = None\<rparr>"

definition OrderLine_check :: "order_line_create \<Rightarrow> bool" where
  "OrderLine_check l \<longleftrightarrow> uint (lc_orderId l) \<and> uint (lc_offerId l) \<and> uint (lc_quantity l)
     \<and> (case lc_unitDiscountPrice l of None \<Rightarrow> True | Some d \<Rightarrow> d \<le> lc_unitPrice l)"

text \<open>One insert of all lines: every row's columns and CHECKs, then the primary key (order, offer).\<close>

definition OrderLineRepository_create :: "time \<Rightarrow> order_line_create list \<Rightarrow> (order_db, db_error, OrderLine list) tx" where
  "OrderLineRepository_create now input db =
     (let key = (\<lambda>l. (lc_orderId l, lc_offerId l))
      in if \<not> list_all (\<lambda>l. int4 (lc_orderId l) \<and> int4 (lc_offerId l) \<and> int4 (lc_quantity l)) input
         then Inl NumericOutOfRange
         else if \<not> list_all OrderLine_check input then Inl CheckViolation
         else if \<not> distinct (map key input)
                 \<or> list_ex (\<lambda>l. (ol_orderId l, ol_offerId l) \<in> set (map key input)) (odb_lines db)
         then Inl UniqueViolation
         else (let rows = map (OrderLine_row now) input
               in Inr (rows, db\<lparr>odb_lines := odb_lines db @ rows\<rparr>)))"

subsection \<open>Messages\<close>

definition toOrderCreatedOutbox :: "uuid \<Rightarrow> Order \<Rightarrow> event_outbox_create" where
  "toOrderCreatedOutbox newId r =
     \<lparr>ob_id = newId, ob_topic = mc_topic OrderCreatedEvent, ob_aggregateType = ''Order'',
      ob_aggregateId = or_publicId r, ob_type = mc_type OrderCreatedEvent,
      ob_payload = order_created_json
        \<lparr>ocd_orderId = or_id r, ocd_orderPublicId = or_publicId r, ocd_userId = or_userId r,
         ocd_totalAmount = fmt_cents (or_totalAmount r), ocd_discountAmount = fmt_cents (or_discountAmount r),
         ocd_currency = or_currency r, ocd_createdAt = toISOString (or_createdAt r)\<rparr>\<rparr>"

record order_failure =
  fl_status :: OrderStatusEnum
  fl_reason :: order_fail_reason

definition toOrderFailedOutbox :: "uuid \<Rightarrow> Order \<Rightarrow> order_failure \<Rightarrow> event_outbox_create" where
  "toOrderFailedOutbox newId r failure =
     \<lparr>ob_id = newId, ob_topic = mc_topic OrderFailedEvent, ob_aggregateType = ''Order'',
      ob_aggregateId = or_publicId r, ob_type = mc_type OrderFailedEvent,
      ob_payload = order_failed_json
        \<lparr>ofd_orderId = or_id r, ofd_orderPublicId = or_publicId r, ofd_userId = or_userId r,
         ofd_status = fl_status failure, ofd_reason = fl_reason failure,
         ofd_failedAt = toISOString (or_updatedAt r)\<rparr>\<rparr>"

definition toOrderPaidOutbox :: "uuid \<Rightarrow> Order \<Rightarrow> OrderLine list \<Rightarrow> event_outbox_create" where
  "toOrderPaidOutbox newId r ls =
     \<lparr>ob_id = newId, ob_topic = mc_topic OrderPaidEvent, ob_aggregateType = ''Order'',
      ob_aggregateId = or_publicId r, ob_type = mc_type OrderPaidEvent,
      ob_payload = order_paid_json
        \<lparr>opd_orderId = or_id r, opd_orderPublicId = or_publicId r, opd_userId = or_userId r,
         opd_totalAmount = fmt_cents (or_totalAmount r), opd_discountAmount = fmt_cents (or_discountAmount r),
         opd_currency = or_currency r,
         opd_lines = map (\<lambda>l. \<lparr>opl_offerId = ol_offerId l, opl_quantity = ol_quantity l,
           opl_unitPrice = fmt_cents (ol_unitPrice l),
           opl_unitDiscountPrice = map_option fmt_cents (ol_unitDiscountPrice l)\<rparr>) ls,
         opd_paidAt = toISOString (or_updatedAt r)\<rparr>\<rparr>"

record order_place_workflow_input =
  wi_orderId :: int
  wi_orderPublicId :: uuid
  wi_userId :: int
  wi_totalAmount :: string
  wi_items :: "stock_item list"

definition workflow_input_json :: "order_place_workflow_input \<Rightarrow> json" where
  "workflow_input_json w = JObj
     [(''orderId'', JNum (of_int (wi_orderId w))), (''orderPublicId'', JStr (wi_orderPublicId w)),
      (''userId'', JNum (of_int (wi_userId w))), (''totalAmount'', JStr (wi_totalAmount w)),
      (''items'', JArr (map stock_item_json (wi_items w)))]"

definition workflow_input :: "Order \<Rightarrow> stock_item list \<Rightarrow> order_place_workflow_input" where
  "workflow_input r items =
     \<lparr>wi_orderId = or_id r, wi_orderPublicId = or_publicId r, wi_userId = or_userId r,
      wi_totalAmount = fmt_cents (or_totalAmount r), wi_items = items\<rparr>"

definition toOrderPlaceWorkflowOutbox :: "Order \<Rightarrow> stock_item list \<Rightarrow> workflow_outbox_create" where
  "toOrderPlaceWorkflowOutbox r items =
     \<lparr>wo_workflowId = ''order-place-'' @ or_publicId r, wo_workflowType = ''orderPlaceWorkflow'',
      wo_taskQueue = ''order-place'', wo_input = workflow_input_json (workflow_input r items)\<rparr>"

subsection \<open>The command handler\<close>

record priced_order_line =
  pl_offerId :: int
  pl_quantity :: int
  pl_unitPrice :: int
  pl_unitDiscountPrice :: "int option"
  pl_amount :: rat
  pl_discount :: rat

text \<open>\<open>Number(offer.price)\<close> of the decimal string of the column.\<close>

definition money_number :: "int \<Rightarrow> rat" where
  "money_number c = (case js_Number (fmt_cents c) of None \<Rightarrow> 0 | Some x \<Rightarrow> x)"

definition OrderPlaceCommandHandler_toPriceItemOrFail ::
  "SellerOffer list \<Rightarrow> stock_item \<Rightarrow> http_error + priced_order_line" where
  "OrderPlaceCommandHandler_toPriceItemOrFail offers it =
     (case find_row (\<lambda>ofr. so_id ofr = it_offerId it) (rev offers) of
        None \<Rightarrow> Inl NotFound
      | Some ofr \<Rightarrow>
          (let price = money_number (so_price ofr);
               discountPrice = (case so_discountPrice ofr of None \<Rightarrow> price | Some d \<Rightarrow> money_number d)
           in Inr \<lparr>pl_offerId = it_offerId it, pl_quantity = it_quantity it, pl_unitPrice = so_price ofr,
                   pl_unitDiscountPrice = so_discountPrice ofr,
                   pl_amount = js_mul discountPrice (of_int (it_quantity it)),
                   pl_discount = js_mul (js_sub price discountPrice) (of_int (it_quantity it))\<rparr>))"

fun price_items :: "SellerOffer list \<Rightarrow> stock_item list \<Rightarrow> http_error + priced_order_line list" where
  "price_items offers [] = Inr []"
| "price_items offers (it # its) =
     (case OrderPlaceCommandHandler_toPriceItemOrFail offers it of
        Inl e \<Rightarrow> Inl e
      | Inr p \<Rightarrow> (case price_items offers its of Inl e \<Rightarrow> Inl e | Inr ps \<Rightarrow> Inr (p # ps)))"

definition OrderPlaceCommandHandler_createRecipient ::
  "order_env \<Rightarrow> order_recipient_create \<Rightarrow> (order_db, db_error, OrderRecipient) tx" where
  "OrderPlaceCommandHandler_createRecipient env r db = OrderRecipientRepository_create env r db"

definition OrderPlaceCommandHandler_createOrder ::
  "order_env \<Rightarrow> OrderBuyer \<Rightarrow> int \<Rightarrow> priced_order_line list \<Rightarrow> CurrencyEnum \<Rightarrow> uuid option
    \<Rightarrow> (order_db, db_error, Order) tx" where
  "OrderPlaceCommandHandler_createOrder env buyer recipientId items currency key db =
     (let totalAmount = foldl js_add 0 (map pl_amount items);
          discountAmount = foldl js_add 0 (map pl_discount items)
      in OrderRepository_create env
           \<lparr>oc_userId = by_userId buyer, oc_ownerIdentityPublicId = Some (by_identityPublicId buyer),
            oc_orderRecipientId = recipientId, oc_totalAmount = toFixed2 totalAmount,
            oc_discountAmount = toFixed2 discountAmount, oc_currency = currency,
            oc_status = OS_pending_payment, oc_idempotencyKey = key\<rparr> db)"

definition OrderPlaceCommandHandler_createItems ::
  "order_env \<Rightarrow> priced_order_line list \<Rightarrow> int \<Rightarrow> (order_db, db_error, OrderLine list) tx" where
  "OrderPlaceCommandHandler_createItems env items orderId db =
     OrderLineRepository_create (oe_now env)
       (map (\<lambda>p. \<lparr>lc_orderId = orderId, lc_offerId = pl_offerId p, lc_quantity = pl_quantity p,
                  lc_unitPrice = pl_unitPrice p, lc_unitDiscountPrice = pl_unitDiscountPrice p\<rparr>) items) db"

text \<open>Writing the event and the workflow of the order, both in its transaction.\<close>

definition write_outboxes :: "order_env \<Rightarrow> Order \<Rightarrow> stock_item list \<Rightarrow> (order_db, db_error, unit) tx" where
  "write_outboxes env r items db =
     (case OrderOutboxRepository_create (oe_now env) (toOrderCreatedOutbox (oe_outboxId env) r) (odb_outbox db) of
        Inl e \<Rightarrow> Inl e
      | Inr out \<Rightarrow>
          (case OrderWorkflowOutboxRepository_create (oe_now env) (toOrderPlaceWorkflowOutbox r items) (odb_workflows db) of
             Inl e \<Rightarrow> Inl e
           | Inr wfs \<Rightarrow> Inr ((), db\<lparr>odb_outbox := out, odb_workflows := wfs\<rparr>)))"

definition place_new ::
  "order_env \<Rightarrow> seller_db \<Rightarrow> order_create_input \<Rightarrow> OrderBuyer \<Rightarrow> uuid option \<Rightarrow> (order_db, http_error, Order) tx" where
  "place_new env sdb input buyer key db =
     (case SellerOfferService_findByIds (map it_offerId (in_items input)) sdb of
        Inl e \<Rightarrow> Inl (ServerError e)
      | Inr offers \<Rightarrow>
          (case OrderPlaceCommandHandler_createRecipient env (in_recipient input) db of
             Inl e \<Rightarrow> Inl (ServerError e)
           | Inr (recipient, db1) \<Rightarrow>
               (case price_items offers (in_items input) of
                  Inl e \<Rightarrow> Inl e
                | Inr priced \<Rightarrow>
                    (case OrderPlaceCommandHandler_createOrder env buyer (rp_id recipient) priced (in_currency input) key db1 of
                       Inl e \<Rightarrow> Inl (ServerError e)
                     | Inr (r, db2) \<Rightarrow>
                         (case OrderPlaceCommandHandler_createItems env priced (or_id r) db2 of
                            Inl e \<Rightarrow> Inl (ServerError e)
                          | Inr (_, db3) \<Rightarrow>
                              (case write_outboxes env r (in_items input) db3 of
                                 Inl e \<Rightarrow> Inl (ServerError e)
                               | Inr (_, db4) \<Rightarrow> Inr (r, db4)))))))"

definition OrderPlaceCommandHandler_createPending ::
  "order_env \<Rightarrow> seller_db \<Rightarrow> order_create_input \<Rightarrow> OrderBuyer \<Rightarrow> uuid option \<Rightarrow> (order_db, http_error, Order) tx" where
  "OrderPlaceCommandHandler_createPending env sdb input buyer key db =
     (case Option.bind key (\<lambda>k. OrderRepository_findByIdempotencyKey (by_userId buyer) k db) of
        Some placed \<Rightarrow> Inr (placed, db)
      | None \<Rightarrow> place_new env sdb input buyer key db)"

definition OrderPlaceCommandHandler_execute ::
  "order_env \<Rightarrow> seller_db \<Rightarrow> order_create_input \<Rightarrow> uuid \<Rightarrow> uuid option \<Rightarrow> order_db \<Rightarrow> (http_error + Order) \<times> order_db" where
  "OrderPlaceCommandHandler_execute env sdb input identityPublicId key db =
     (case OrderBuyerRepository_findByIdentityPublicId identityPublicId db of
        None \<Rightarrow> (Inl Conflict, db)
      | Some buyer \<Rightarrow> transactional (OrderPlaceCommandHandler_createPending env sdb input buyer key) db)"

subsection \<open>Ending an order\<close>

text \<open>
  The activities \<open>markPaid\<close> and \<open>markFailed\<close>: the conditional update and the event, in one transaction.
\<close>

definition record_event :: "time \<Rightarrow> event_outbox_create \<Rightarrow> (order_db, db_error, unit) tx" where
  "record_event now input db =
     (case OrderOutboxRepository_create now input (odb_outbox db) of
        Inl e \<Rightarrow> Inl e | Inr out \<Rightarrow> Inr ((), db\<lparr>odb_outbox := out\<rparr>))"

definition OrderPlaceActivity_markPaid :: "order_env \<Rightarrow> int \<Rightarrow> (order_db, db_error, unit) tx" where
  "OrderPlaceActivity_markPaid env orderId db =
     (case OrderRepository_updatePendingStatusById (oe_now env) orderId OS_paid db of
        Inl e \<Rightarrow> Inl e
      | Inr (None, db') \<Rightarrow> Inr ((), db')
      | Inr (Some (r, ls), db') \<Rightarrow> record_event (oe_now env) (toOrderPaidOutbox (oe_outboxId env) r ls) db')"

definition OrderPlaceActivity_markFailed :: "order_env \<Rightarrow> int \<Rightarrow> order_failure \<Rightarrow> (order_db, db_error, unit) tx" where
  "OrderPlaceActivity_markFailed env orderId failure db =
     (case OrderRepository_updatePendingStatusById (oe_now env) orderId (fl_status failure) db of
        Inl e \<Rightarrow> Inl e
      | Inr (None, db') \<Rightarrow> Inr ((), db')
      | Inr (Some (r, ls), db') \<Rightarrow> record_event (oe_now env) (toOrderFailedOutbox (oe_outboxId env) r failure) db')"

subsection \<open>Totals\<close>

definition line_unit :: "int \<Rightarrow> int option \<Rightarrow> int" where
  "line_unit price disc = (case disc of None \<Rightarrow> price | Some d \<Rightarrow> d)"

definition priced_offer :: "SellerOffer \<Rightarrow> bool" where
  "priced_offer ofr \<longleftrightarrow> amount (so_price ofr)
     \<and> (case so_discountPrice ofr of None \<Rightarrow> True | Some d \<Rightarrow> amount d \<and> d \<le> so_price ofr)"

definition well_priced :: "priced_order_line \<Rightarrow> bool" where
  "well_priced p \<longleftrightarrow>
     (let u = line_unit (pl_unitPrice p) (pl_unitDiscountPrice p)
      in 0 \<le> u \<and> u \<le> pl_unitPrice p
         \<and> pl_amount p = js_mul (to_double (of_int u / 100)) (of_int (pl_quantity p))
         \<and> pl_discount p = js_mul (js_sub (to_double (of_int (pl_unitPrice p) / 100)) (to_double (of_int u / 100)))
             (of_int (pl_quantity p)))"

lemma toPriceItem_well_priced:
  assumes "OrderPlaceCommandHandler_toPriceItemOrFail offers it = Inr p" and "\<forall>ofr\<in>set offers. priced_offer ofr"
  shows "well_priced p" and "pl_offerId p = it_offerId it" and "pl_quantity p = it_quantity it"
proof -
  from assms(1) obtain ofr where ofr: "find_row (\<lambda>ofr. so_id ofr = it_offerId it) (rev offers) = Some ofr"
    by (auto simp: OrderPlaceCommandHandler_toPriceItemOrFail_def split: option.splits)
  then have "priced_offer ofr" using assms(2) find_row_Some [OF ofr] by simp
  then show "well_priced p" "pl_offerId p = it_offerId it" "pl_quantity p = it_quantity it"
    using assms(1) ofr
    by (auto simp: OrderPlaceCommandHandler_toPriceItemOrFail_def Let_def well_priced_def priced_offer_def
        line_unit_def money_number_def amount_def split: option.splits)
qed

lemma price_items_well_priced:
  "price_items offers items = Inr ps \<Longrightarrow> \<forall>ofr\<in>set offers. priced_offer ofr \<Longrightarrow>
    list_all well_priced ps \<and> map (\<lambda>p. (pl_offerId p, pl_quantity p)) ps = map (\<lambda>it. (it_offerId it, it_quantity it)) items"
proof (induction items arbitrary: ps)
  case (Cons it items)
  then obtain p qs where "OrderPlaceCommandHandler_toPriceItemOrFail offers it = Inr p"
    "price_items offers items = Inr qs" "ps = p # qs"
    by (auto split: sum.splits)
  then show ?case using Cons toPriceItem_well_priced [of offers it p] by auto
qed simp

lemma price_items_ids:
  "price_items offers items = Inr ps \<Longrightarrow>
    map (\<lambda>p. (i, pl_offerId p, pl_quantity p)) ps = map (\<lambda>it. (i, it_offerId it, it_quantity it)) items"
  by (induction items arbitrary: ps)
    (auto simp: OrderPlaceCommandHandler_toPriceItemOrFail_def Let_def split: sum.splits option.splits)

lemma line_errors:
  assumes "well_priced p" and "0 < pl_quantity p" and "pl_quantity p \<le> 2 ^ 31"
    and "pl_unitPrice p * pl_quantity p \<le> 10 ^ 12"
  shows "\<bar>pl_amount p - of_int (line_unit (pl_unitPrice p) (pl_unitDiscountPrice p) * pl_quantity p) / 100\<bar> \<le> 1 / 140000"
    and "\<bar>pl_discount p - of_int ((pl_unitPrice p - line_unit (pl_unitPrice p) (pl_unitDiscountPrice p)) * pl_quantity p) / 100\<bar> \<le> 1 / 140000"
proof -
  let ?u = "line_unit (pl_unitPrice p) (pl_unitDiscountPrice p)" and ?q = "of_int (pl_quantity p) :: rat"
  have u: "0 \<le> ?u" "?u \<le> pl_unitPrice p" using assms(1) by (simp_all add: well_priced_def Let_def)
  have q: "0 \<le> ?q" "?q \<le> 2 ^ 31"
    using assms(2,3) of_int_le_iff [of "pl_quantity p" "2 ^ 31", where ?'a = rat] by simp_all
  have "?u * pl_quantity p \<le> pl_unitPrice p * pl_quantity p" using u assms(2) by (simp add: mult_right_mono)
  then have uq: "?u * pl_quantity p \<le> 10 ^ 12" using assms(4) by linarith
  have conv: "of_int a / 100 * ?q \<le> 10 ^ 10" if "a * pl_quantity p \<le> 10 ^ 12" for a
  proof -
    have "(of_int (a * pl_quantity p) :: rat) \<le> of_int (10 ^ 12)" using that by (simp only: of_int_le_iff)
    then show ?thesis by simp
  qed
  have "\<bar>js_mul (to_double (of_int ?u / 100)) ?q - of_int ?u / 100 * ?q\<bar> \<le> 1 / 140000"
    using u q conv [OF uq] by (intro js_mul_price) simp_all
  then show "\<bar>pl_amount p - of_int (?u * pl_quantity p) / 100\<bar> \<le> 1 / 140000"
    using assms(1) by (simp add: well_priced_def Let_def)
  have "\<bar>js_mul (js_sub (to_double (of_int (pl_unitPrice p) / 100)) (to_double (of_int ?u / 100))) ?q
      - (of_int (pl_unitPrice p) / 100 - of_int ?u / 100) * ?q\<bar> \<le> 1 / 140000"
    using u q conv [OF assms(4)] by (intro js_mul_discount) (simp_all add: divide_right_mono)
  moreover have "(of_int (pl_unitPrice p) / 100 - of_int ?u / 100) * ?q = of_int ((pl_unitPrice p - ?u) * pl_quantity p) / 100"
    by (simp add: left_diff_distrib diff_divide_distrib)
  ultimately show "\<bar>pl_discount p - of_int ((pl_unitPrice p - ?u) * pl_quantity p) / 100\<bar> \<le> 1 / 140000"
    using assms(1) by (simp only: well_priced_def Let_def)
qed

lemma cents_of_sum:
  assumes "\<forall>p\<in>set ps. 0 \<le> g p \<and> \<bar>f p - of_int (g p) / 100\<bar> \<le> 1 / 140000"
    and "(\<Sum>p\<leftarrow>ps. g p) \<le> 10 ^ 12" and "length ps \<le> 500"
  shows "cents (foldl js_add 0 (map f ps)) = (\<Sum>p\<leftarrow>ps. g p)"
proof (rule cents_near)
  let ?bs = "map (\<lambda>p. of_int (g p) / 100 :: rat) ps"
  have sum: "sum_list ?bs = of_int (\<Sum>p\<leftarrow>ps. g p) / 100" by (induction ps) (simp_all add: add_divide_distrib)
  have "(of_int (\<Sum>p\<leftarrow>ps. g p) :: rat) \<le> of_int (10 ^ 12)" using assms(2) by (simp only: of_int_le_iff)
  then have "0 + sum_list ?bs \<le> 10 ^ 10" unfolding sum by simp
  moreover have "list_all2 (\<lambda>a b. 0 \<le> b \<and> \<bar>a - b\<bar> \<le> 1 / 140000) (map f ps) ?bs"
    using assms(1) by (auto simp: list_all2_conv_all_nth)
  ultimately have "\<bar>foldl js_add 0 (map f ps) - (0 + sum_list ?bs)\<bar> \<le> of_nat (0 + length (map f ps)) / 115000"
    using assms(3) by (intro js_sum_error) simp_all
  moreover have "(of_nat (length ps) :: rat) \<le> 500" using assms(3) by simp
  ultimately show "\<bar>foldl js_add 0 (map f ps) - of_int (\<Sum>p\<leftarrow>ps. g p) / 100\<bar> < 1 / 200"
    unfolding sum by simp
qed

subsection \<open>What placing an order writes\<close>

definition line_create :: "int \<Rightarrow> priced_order_line \<Rightarrow> order_line_create" where
  "line_create orderId p =
     \<lparr>lc_orderId = orderId, lc_offerId = pl_offerId p, lc_quantity = pl_quantity p,
      lc_unitPrice = pl_unitPrice p, lc_unitDiscountPrice = pl_unitDiscountPrice p\<rparr>"

lemma createOrder_Inr:
  assumes "OrderPlaceCommandHandler_createOrder env buyer rid ps cur key db = Inr (r, db')"
  shows "db' = db\<lparr>odb_orders := odb_orders db @ [r]\<rparr>" and "or_id r = oe_orderId env"
    and "or_publicId r = oe_publicId env" and "or_userId r = by_userId buyer"
    and "or_status r = OS_pending_payment" and "or_idempotencyKey r = key" and "or_deletedAt r = None"
    and "or_totalAmount r = cents (foldl js_add 0 (map pl_amount ps))"
    and "or_discountAmount r = cents (foldl js_add 0 (map pl_discount ps))"
    and "amount (or_totalAmount r)" and "uint (or_userId r)" and "or_currency r = cur"
    and "or_ownerIdentityPublicId r = Some (by_identityPublicId buyer)"
  using assms
  by (auto simp: OrderPlaceCommandHandler_createOrder_def OrderRepository_create_def Let_def split: if_splits)

lemma createOrder_recipient:
  "OrderPlaceCommandHandler_createOrder env buyer rid ps cur key db = Inr (r, db') \<Longrightarrow> or_orderRecipientId r = rid"
  by (auto simp: OrderPlaceCommandHandler_createOrder_def OrderRepository_create_def Let_def split: if_splits)

lemma createItems_Inr:
  assumes "OrderPlaceCommandHandler_createItems env ps orderId db = Inr (ls, db')"
  shows "db' = db\<lparr>odb_lines := odb_lines db @ map (\<lambda>p. OrderLine_row (oe_now env) (line_create orderId p)) ps\<rparr>"
    and "distinct (map pl_offerId ps)" and "\<forall>p\<in>set ps. OrderLine_check (line_create orderId p)"
proof -
  have "map (\<lambda>p. \<lparr>lc_orderId = orderId, lc_offerId = pl_offerId p, lc_quantity = pl_quantity p,
      lc_unitPrice = pl_unitPrice p, lc_unitDiscountPrice = pl_unitDiscountPrice p\<rparr>) ps = map (line_create orderId) ps"
    by (simp add: line_create_def)
  note ci = assms [unfolded OrderPlaceCommandHandler_createItems_def this OrderLineRepository_create_def Let_def]
  then show "db' = db\<lparr>odb_lines := odb_lines db @ map (\<lambda>p. OrderLine_row (oe_now env) (line_create orderId p)) ps\<rparr>"
    "\<forall>p\<in>set ps. OrderLine_check (line_create orderId p)"
    by (auto simp: list_all_iff comp_def split: if_splits)
  have "distinct (map (\<lambda>l. (lc_orderId l, lc_offerId l)) (map (line_create orderId) ps))"
    using ci by (auto split: if_splits)
  then show "distinct (map pl_offerId ps)" by (auto simp: distinct_map inj_on_def line_create_def)
qed

lemma write_outboxes_Inr:
  assumes "write_outboxes env r items db = Inr (u, db')"
  obtains e w where "db' = db\<lparr>odb_outbox := odb_outbox db @ [e], odb_workflows := odb_workflows db @ [w]\<rparr>"
    and "event_outbox_create.truncate e = toOrderCreatedOutbox (oe_outboxId env) r" and "ob_publishedAt e = None"
    and "workflow_outbox_create.truncate w = toOrderPlaceWorkflowOutbox r items" and "wo_startedAt w = None"
  using assms
  by (auto simp: write_outboxes_def OrderOutboxRepository_create_def event_insert_def OrderWorkflowOutboxRepository_create_def
      event_outbox_create.defs workflow_outbox_create.defs split: sum.splits if_splits)

lemma createRecipient_Inr:
  "OrderPlaceCommandHandler_createRecipient env i db = Inr (rc, db') \<Longrightarrow>
    db' = db\<lparr>odb_recipients := odb_recipients db @ [rc]\<rparr>"
  by (auto simp: OrderPlaceCommandHandler_createRecipient_def OrderRecipientRepository_create_def Let_def split: if_splits)

lemma place_new_Inr:
  assumes "place_new env sdb input buyer key db = Inr (r, db')"
  obtains offers rc ps e w where
    "SellerOfferService_findByIds (map it_offerId (in_items input)) sdb = Inr offers"
    "price_items offers (in_items input) = Inr ps"
    "OrderPlaceCommandHandler_createOrder env buyer (rp_id rc) ps (in_currency input) key
       (db\<lparr>odb_recipients := odb_recipients db @ [rc]\<rparr>) = Inr (r, db\<lparr>odb_recipients := odb_recipients db @ [rc], odb_orders := odb_orders db @ [r]\<rparr>)"
    "distinct (map pl_offerId ps)" "\<forall>p\<in>set ps. OrderLine_check (line_create (or_id r) p)"
    "db' = db\<lparr>odb_recipients := odb_recipients db @ [rc], odb_orders := odb_orders db @ [r],
       odb_lines := odb_lines db @ map (\<lambda>p. OrderLine_row (oe_now env) (line_create (or_id r) p)) ps,
       odb_outbox := odb_outbox db @ [e], odb_workflows := odb_workflows db @ [w]\<rparr>"
    "event_outbox_create.truncate e = toOrderCreatedOutbox (oe_outboxId env) r" "ob_publishedAt e = None"
    "workflow_outbox_create.truncate w = toOrderPlaceWorkflowOutbox r (in_items input)" "wo_startedAt w = None"
proof -
  from assms obtain offers rc db1 ps db2 ls db3 u where
    f: "SellerOfferService_findByIds (map it_offerId (in_items input)) sdb = Inr offers"
    and rc: "OrderPlaceCommandHandler_createRecipient env (in_recipient input) db = Inr (rc, db1)"
    and ps: "price_items offers (in_items input) = Inr ps"
    and co: "OrderPlaceCommandHandler_createOrder env buyer (rp_id rc) ps (in_currency input) key db1 = Inr (r, db2)"
    and ci: "OrderPlaceCommandHandler_createItems env ps (or_id r) db2 = Inr (ls, db3)"
    and wo: "write_outboxes env r (in_items input) db3 = Inr (u, db')"
    by (auto simp: place_new_def split: sum.splits)
  from wo obtain e w where ew: "db' = db3\<lparr>odb_outbox := odb_outbox db3 @ [e], odb_workflows := odb_workflows db3 @ [w]\<rparr>"
    "event_outbox_create.truncate e = toOrderCreatedOutbox (oe_outboxId env) r" "ob_publishedAt e = None"
    "workflow_outbox_create.truncate w = toOrderPlaceWorkflowOutbox r (in_items input)" "wo_startedAt w = None"
    by (rule write_outboxes_Inr)
  show thesis
    using f ps co createRecipient_Inr [OF rc] createOrder_Inr(1) [OF co] createItems_Inr [OF ci] ew
    by (intro that [where offers = offers and ps = ps and rc = rc and e = e and w = w]) simp_all
qed

subsection \<open>What the order service guarantees\<close>

text \<open>The lines of a new order in the tables after it was placed.\<close>

definition lines_total :: "OrderLine list \<Rightarrow> int" where
  "lines_total ls = (\<Sum>l\<leftarrow>ls. line_unit (ol_unitPrice l) (ol_unitDiscountPrice l) * ol_quantity l)"

definition lines_discount :: "OrderLine list \<Rightarrow> int" where
  "lines_discount ls =
     (\<Sum>l\<leftarrow>ls. (ol_unitPrice l - line_unit (ol_unitPrice l) (ol_unitDiscountPrice l)) * ol_quantity l)"

definition lines_gross :: "OrderLine list \<Rightarrow> int" where
  "lines_gross ls = (\<Sum>l\<leftarrow>ls. ol_unitPrice l * ol_quantity l)"

lemma sum_list_member_le:
  assumes "\<And>y. y \<in> set xs \<Longrightarrow> (0 :: int) \<le> f y" and "x \<in> set xs"
  shows "f x \<le> (\<Sum>y\<leftarrow>xs. f y)"
  using assms
proof (induction xs)
  case (Cons z zs)
  have "0 \<le> (\<Sum>y\<leftarrow>zs. f y)" using Cons.prems(1) by (intro sum_list_nonneg) auto
  then show ?case using Cons by (cases "x = z") (auto intro: order_trans)
qed simp

lemma OrderLine_row_simps [simp]:
  "ol_orderId (OrderLine_row now (line_create i p)) = i" "ol_offerId (OrderLine_row now (line_create i p)) = pl_offerId p"
  "ol_quantity (OrderLine_row now (line_create i p)) = pl_quantity p"
  "ol_unitPrice (OrderLine_row now (line_create i p)) = pl_unitPrice p"
  "ol_unitDiscountPrice (OrderLine_row now (line_create i p)) = pl_unitDiscountPrice p"
  "ol_deletedAt (OrderLine_row now (line_create i p)) = None"
  by (simp_all add: OrderLine_row_def line_create_def)

lemma totals_exact:
  assumes wp: "list_all well_priced ps" and chk: "\<forall>p\<in>set ps. OrderLine_check (line_create i p)"
    and gross: "(\<Sum>p\<leftarrow>ps. pl_unitPrice p * pl_quantity p) \<le> 10 ^ 12" and len: "length ps \<le> 500"
  shows "cents (foldl js_add 0 (map pl_amount ps)) = (\<Sum>p\<leftarrow>ps. line_unit (pl_unitPrice p) (pl_unitDiscountPrice p) * pl_quantity p)"
    and "cents (foldl js_add 0 (map pl_discount ps)) = (\<Sum>p\<leftarrow>ps. (pl_unitPrice p - line_unit (pl_unitPrice p) (pl_unitDiscountPrice p)) * pl_quantity p)"
proof -
  let ?u = "\<lambda>p. line_unit (pl_unitPrice p) (pl_unitDiscountPrice p)"
  have u: "0 \<le> ?u p" "?u p \<le> pl_unitPrice p" if "p \<in> set ps" for p
    using wp that by (auto simp: list_all_iff well_priced_def Let_def)
  have q: "0 < pl_quantity p" "pl_quantity p \<le> 2 ^ 31" if "p \<in> set ps" for p
    using chk that by (auto simp: OrderLine_check_def line_create_def uint_def)
  have nn: "0 \<le> pl_unitPrice p * pl_quantity p" if "p \<in> set ps" for p using u [OF that] q [OF that] by simp
  have g: "pl_unitPrice p * pl_quantity p \<le> 10 ^ 12" if "p \<in> set ps" for p
    using sum_list_member_le [of ps "\<lambda>p. pl_unitPrice p * pl_quantity p", OF nn that] gross by linarith
  have err: "well_priced p" if "p \<in> set ps" for p using wp that by (simp add: list_all_iff)
  have le: "?u p * pl_quantity p \<le> pl_unitPrice p * pl_quantity p" "0 \<le> ?u p * pl_quantity p" if "p \<in> set ps" for p
    using u [OF that] q [OF that] by (simp_all add: mult_right_mono)
  have "(\<Sum>p\<leftarrow>ps. ?u p * pl_quantity p) \<le> (\<Sum>p\<leftarrow>ps. pl_unitPrice p * pl_quantity p)"
    "(\<Sum>p\<leftarrow>ps. (pl_unitPrice p - ?u p) * pl_quantity p) \<le> (\<Sum>p\<leftarrow>ps. pl_unitPrice p * pl_quantity p)"
    using le by (auto intro!: sum_list_mono simp: left_diff_distrib)
  with gross have "(\<Sum>p\<leftarrow>ps. ?u p * pl_quantity p) \<le> 10 ^ 12"
    "(\<Sum>p\<leftarrow>ps. (pl_unitPrice p - ?u p) * pl_quantity p) \<le> 10 ^ 12" by linarith+
  then show "cents (foldl js_add 0 (map pl_amount ps)) = (\<Sum>p\<leftarrow>ps. ?u p * pl_quantity p)"
    "cents (foldl js_add 0 (map pl_discount ps)) = (\<Sum>p\<leftarrow>ps. (pl_unitPrice p - ?u p) * pl_quantity p)"
    using line_errors [OF err q g] le u q len by (intro cents_of_sum; force simp: left_diff_distrib)+
qed

text \<open>
  C12. The stored totals are exact although they are computed in doubles: for an order of at most
  500 lines and at most ten billion before discounts, the total is the sum of the discounted unit
  prices times the quantities of its lines, to the cent, and the discount what is missing to the full
  prices.
\<close>

theorem order_totals_exact:
  assumes place: "place_new env sdb input buyer key db = Inr (r, db')"
    and prices: "\<forall>ofr\<in>set (sd_offers sdb). priced_offer ofr"
    and fresh: "\<forall>l\<in>set (odb_lines db). ol_orderId l \<noteq> oe_orderId env"
    and gross: "lines_gross (order_lines (or_id r) db') \<le> 10 ^ 12" and len: "length (in_items input) \<le> 500"
  shows "or_totalAmount r = lines_total (order_lines (or_id r) db')
    \<and> or_discountAmount r = lines_discount (order_lines (or_id r) db')"
proof -
  from place obtain offers rc ps e w where
    f: "SellerOfferService_findByIds (map it_offerId (in_items input)) sdb = Inr offers"
    and ps: "price_items offers (in_items input) = Inr ps"
    and co: "OrderPlaceCommandHandler_createOrder env buyer (rp_id rc) ps (in_currency input) key
       (db\<lparr>odb_recipients := odb_recipients db @ [rc]\<rparr>) = Inr (r, db\<lparr>odb_recipients := odb_recipients db @ [rc], odb_orders := odb_orders db @ [r]\<rparr>)"
    and chk: "\<forall>p\<in>set ps. OrderLine_check (line_create (or_id r) p)"
    and db': "db' = db\<lparr>odb_recipients := odb_recipients db @ [rc], odb_orders := odb_orders db @ [r],
       odb_lines := odb_lines db @ map (\<lambda>p. OrderLine_row (oe_now env) (line_create (or_id r) p)) ps,
       odb_outbox := odb_outbox db @ [e], odb_workflows := odb_workflows db @ [w]\<rparr>"
    by (rule place_new_Inr)
  have "set offers \<subseteq> set (sd_offers sdb)"
    using f by (auto simp: SellerOfferService_findByIds_def SellerOfferRepository_findByIds_def split: if_splits)
  with prices have "\<forall>ofr\<in>set offers. priced_offer ofr" by blast
  with ps have wp: "list_all well_priced ps" and "map (\<lambda>p. (pl_offerId p, pl_quantity p)) ps = map (\<lambda>it. (it_offerId it, it_quantity it)) (in_items input)"
    using price_items_well_priced by blast+
  then have "length ps = length (in_items input)" by (metis length_map)
  have lines: "order_lines (or_id r) db' = map (\<lambda>p. OrderLine_row (oe_now env) (line_create (or_id r) p)) ps"
    using fresh createOrder_Inr(2) [OF co] by (auto simp: order_lines_def db' filter_empty_conv comp_def intro!: filter_True)
  have "(\<Sum>p\<leftarrow>ps. pl_unitPrice p * pl_quantity p) \<le> 10 ^ 12"
    using gross by (simp add: lines lines_gross_def comp_def)
  from totals_exact [OF wp chk this] show ?thesis
    using len \<open>length ps = length (in_items input)\<close> createOrder_Inr(8,9) [OF co]
    by (simp add: lines lines_total_def lines_discount_def comp_def)
qed

subsection \<open>When placing an order succeeds\<close>

definition find_offer :: "SellerOffer list \<Rightarrow> int \<Rightarrow> SellerOffer option" where
  "find_offer offers i = find_row (\<lambda>ofr. so_id ofr = i) (rev offers)"

definition items_gross :: "SellerOffer list \<Rightarrow> stock_item list \<Rightarrow> int" where
  "items_gross offers items =
     (\<Sum>it\<leftarrow>items. case find_offer offers (it_offerId it) of None \<Rightarrow> 0 | Some ofr \<Rightarrow> so_price ofr * it_quantity it)"

definition items_net :: "SellerOffer list \<Rightarrow> stock_item list \<Rightarrow> int" where
  "items_net offers items =
     (\<Sum>it\<leftarrow>items. case find_offer offers (it_offerId it) of None \<Rightarrow> 0
        | Some ofr \<Rightarrow> line_unit (so_price ofr) (so_discountPrice ofr) * it_quantity it)"

lemma price_items_defined:
  assumes "\<forall>it\<in>set items. find_offer offers (it_offerId it) \<noteq> None"
  shows "\<exists>ps. price_items offers items = Inr ps
    \<and> map pl_offerId ps = map it_offerId items \<and> map pl_quantity ps = map it_quantity items
    \<and> (\<Sum>p\<leftarrow>ps. pl_unitPrice p * pl_quantity p) = items_gross offers items
    \<and> (\<Sum>p\<leftarrow>ps. line_unit (pl_unitPrice p) (pl_unitDiscountPrice p) * pl_quantity p) = items_net offers items"
  using assms
proof (induction items)
  case (Cons it items)
  then obtain ps where "price_items offers items = Inr ps
    \<and> map pl_offerId ps = map it_offerId items \<and> map pl_quantity ps = map it_quantity items
    \<and> (\<Sum>p\<leftarrow>ps. pl_unitPrice p * pl_quantity p) = items_gross offers items
    \<and> (\<Sum>p\<leftarrow>ps. line_unit (pl_unitPrice p) (pl_unitDiscountPrice p) * pl_quantity p) = items_net offers items"
    by auto
  moreover obtain ofr where "find_offer offers (it_offerId it) = Some ofr" using Cons.prems by auto
  ultimately show ?case
    by (auto simp: OrderPlaceCommandHandler_toPriceItemOrFail_def Let_def items_gross_def items_net_def find_offer_def)
qed (simp add: items_gross_def items_net_def)

lemma valid_recipient_fits:
  assumes "OrderCreateRecipientInput_valid r"
  shows "OrderRecipient_fits r" and "OrderRecipient_check r"
  using assms
  by (auto simp: OrderCreateRecipientInput_valid_def OrderRecipient_fits_def OrderRecipient_check_def
      has_nonspace_def list_ex_iff)

text \<open>
  A request the order service can serve: valid, each offer named once and on sale, quantities the
  column can hold, at most ten billion before discounts and at most 500 lines.
\<close>

definition placeable :: "order_create_input \<Rightarrow> seller_db \<Rightarrow> bool" where
  "placeable input sdb \<longleftrightarrow> OrderCreateInput_valid input \<and> orderable (in_items input) sdb
     \<and> (\<forall>ofr\<in>set (sd_offers sdb). priced_offer ofr)
     \<and> items_gross (live_offers (in_items input) sdb) (in_items input) < 10 ^ 12
     \<and> length (in_items input) \<le> 500"

text \<open>Identifiers the database and \<open>randomUUID\<close> have not handed out before.\<close>

definition fresh_env :: "order_env \<Rightarrow> order_db \<Rightarrow> bool" where
  "fresh_env env db \<longleftrightarrow> uint (oe_orderId env)
     \<and> (\<forall>r\<in>set (odb_orders db). or_id r \<noteq> oe_orderId env \<and> or_publicId r \<noteq> oe_publicId env)
     \<and> (\<forall>l\<in>set (odb_lines db). ol_orderId l \<noteq> oe_orderId env)
     \<and> (\<forall>e\<in>set (odb_outbox db). ob_id e \<noteq> oe_outboxId env)
     \<and> (\<forall>w\<in>set (odb_workflows db). wo_workflowId w \<noteq> ''order-place-'' @ oe_publicId env)"

lemma find_offer_live:
  assumes "orderable items sdb" and "it \<in> set items"
  shows "find_offer (live_offers items sdb) (it_offerId it) \<noteq> None"
  using live_offers_ids [OF assms] by (auto simp: find_offer_def find_row_None)

lemma lines_check:
  assumes "list_all well_priced ps" and "\<forall>p\<in>set ps. uint (pl_offerId p) \<and> uint (pl_quantity p)" and "uint i"
  shows "\<forall>p\<in>set ps. OrderLine_check (line_create i p)"
  using assms by (auto simp: list_all_iff line_create_def OrderLine_check_def well_priced_def Let_def line_unit_def
      split: option.splits)

lemma totals_amount:
  assumes wp: "list_all well_priced ps" and rngs: "\<forall>p\<in>set ps. uint (pl_offerId p) \<and> uint (pl_quantity p)"
    and i: "uint i" and gross: "(\<Sum>p\<leftarrow>ps. pl_unitPrice p * pl_quantity p) < 10 ^ 12" and len: "length ps \<le> 500"
  shows "cents (foldl js_add 0 (map pl_amount ps)) = (\<Sum>p\<leftarrow>ps. line_unit (pl_unitPrice p) (pl_unitDiscountPrice p) * pl_quantity p)"
    and "amount (cents (foldl js_add 0 (map pl_amount ps)))" and "amount (cents (foldl js_add 0 (map pl_discount ps)))"
proof -
  let ?u = "\<lambda>p. line_unit (pl_unitPrice p) (pl_unitDiscountPrice p)"
  note te = totals_exact [OF wp lines_check [OF wp rngs i] less_imp_le [OF gross] len]
  have "0 \<le> ?u p * pl_quantity p" "0 \<le> (pl_unitPrice p - ?u p) * pl_quantity p" if "p \<in> set ps" for p
    using that wp rngs by (auto simp: list_all_iff well_priced_def Let_def uint_def)
  then have "0 \<le> (\<Sum>p\<leftarrow>ps. ?u p * pl_quantity p)" "0 \<le> (\<Sum>p\<leftarrow>ps. (pl_unitPrice p - ?u p) * pl_quantity p)"
    by (auto intro!: sum_list_nonneg)
  moreover have "(\<Sum>p\<leftarrow>ps. ?u p * pl_quantity p) + (\<Sum>p\<leftarrow>ps. (pl_unitPrice p - ?u p) * pl_quantity p)
      = (\<Sum>p\<leftarrow>ps. pl_unitPrice p * pl_quantity p)"
    by (induction ps) (simp_all add: left_diff_distrib)
  ultimately show "amount (cents (foldl js_add 0 (map pl_amount ps)))" "amount (cents (foldl js_add 0 (map pl_discount ps)))"
    using gross te by (simp_all add: amount_def)
qed (rule totals_exact(1) [OF wp lines_check [OF wp rngs i] less_imp_le [OF gross] len])

lemma createItems_succeeds:
  assumes wp: "list_all well_priced ps" and ids: "distinct (map pl_offerId ps)"
    and ok: "\<forall>p\<in>set ps. uint (pl_offerId p) \<and> uint (pl_quantity p)" and i: "uint i"
    and fresh: "\<forall>l\<in>set (odb_lines db). ol_orderId l \<noteq> i"
  shows "\<exists>ls db'. OrderPlaceCommandHandler_createItems env ps i db = Inr (ls, db')
    \<and> odb_outbox db' = odb_outbox db \<and> odb_workflows db' = odb_workflows db"
proof -
  let ?in = "map (line_create i) ps"
  have m: "map (\<lambda>p. \<lparr>lc_orderId = i, lc_offerId = pl_offerId p, lc_quantity = pl_quantity p,
      lc_unitPrice = pl_unitPrice p, lc_unitDiscountPrice = pl_unitDiscountPrice p\<rparr>) ps = ?in"
    by (simp add: line_create_def)
  have u4: "uint n \<Longrightarrow> int4 n" for n by (simp add: uint_def int4_def)
  have "list_all (\<lambda>l. int4 (lc_orderId l) \<and> int4 (lc_offerId l) \<and> int4 (lc_quantity l)) ?in"
    using ok i by (auto simp: list_all_iff line_create_def u4)
  moreover have "list_all OrderLine_check ?in" using lines_check [OF wp ok i] by (auto simp: list_all_iff)
  moreover have "distinct (map (\<lambda>l. (lc_orderId l, lc_offerId l)) ?in)"
    using ids by (auto simp: distinct_map inj_on_def line_create_def)
  moreover have "\<not> list_ex (\<lambda>l. (ol_orderId l, ol_offerId l) \<in> set (map (\<lambda>l. (lc_orderId l, lc_offerId l)) ?in)) (odb_lines db)"
    using fresh by (auto simp: list_ex_iff line_create_def)
  ultimately show ?thesis
    unfolding OrderPlaceCommandHandler_createItems_def m OrderLineRepository_create_def Let_def by simp
qed

lemma place_new_succeeds:
  assumes ok: "placeable input sdb" and env: "fresh_env env db" and u: "uint (by_userId buyer)"
    and key: "\<forall>r\<in>set (odb_orders db). or_userId r = by_userId buyer \<longrightarrow> key = None \<or> or_idempotencyKey r \<noteq> key"
  shows "\<exists>r db'. place_new env sdb input buyer key db = Inr (r, db')
    \<and> or_totalAmount r = items_net (live_offers (in_items input) sdb) (in_items input)"
proof -
  let ?items = "in_items input" and ?offers = "live_offers (in_items input) sdb"
  have oi: "orderable ?items sdb" and vi: "list_all OrderCreateItemInput_valid ?items"
    and rv: "OrderCreateRecipientInput_valid (in_recipient input)" and gross: "items_gross ?offers ?items < 10 ^ 12"
    using ok by (simp_all add: placeable_def OrderCreateInput_valid_def)
  from price_items_defined [of ?items ?offers] find_offer_live [OF oi] obtain ps where
    ps: "price_items ?offers ?items = Inr ps" and ids: "map pl_offerId ps = map it_offerId ?items"
    and qs: "map pl_quantity ps = map it_quantity ?items"
    and g: "(\<Sum>p\<leftarrow>ps. pl_unitPrice p * pl_quantity p) = items_gross ?offers ?items"
    and n: "(\<Sum>p\<leftarrow>ps. line_unit (pl_unitPrice p) (pl_unitDiscountPrice p) * pl_quantity p) = items_net ?offers ?items"
    by blast
  have "\<forall>ofr\<in>set ?offers. priced_offer ofr" using ok by (auto simp: placeable_def live_offers_def)
  then have wp: "list_all well_priced ps" using price_items_well_priced [OF ps] by blast
  have rng: "uint i" if "i \<in> set (map pl_offerId ps) \<union> set (map pl_quantity ps)" for i
    using that oi vi unfolding ids qs
    by (auto simp: orderable_def list_all_iff OrderCreateItemInput_valid_def uint_def int4_def)
  then have rngs: "\<forall>p\<in>set ps. uint (pl_offerId p) \<and> uint (pl_quantity p)" by auto
  have dist: "distinct (map pl_offerId ps)" using oi by (simp add: ids orderable_def)
  have i: "uint (oe_orderId env)" using env by (simp add: fresh_env_def)
  have len: "length ps \<le> 500" using ok arg_cong [OF ids, of length] by (simp add: placeable_def)
  have "(\<Sum>p\<leftarrow>ps. pl_unitPrice p * pl_quantity p) < 10 ^ 12" using g gross by simp
  note te = totals_amount [OF wp rngs i this len]
  define rc where "rc = order_recipient_create.extend (in_recipient input)
    \<lparr>rp_id = oe_recipientId env, rp_createdAt = oe_now env, rp_updatedAt = oe_now env, rp_deletedAt = None\<rparr>"
  let ?db1 = "db\<lparr>odb_recipients := odb_recipients db @ [rc]\<rparr>"
  have 1: "OrderPlaceCommandHandler_createRecipient env (in_recipient input) db = Inr (rc, ?db1)"
    using valid_recipient_fits [OF rv]
    by (simp add: OrderPlaceCommandHandler_createRecipient_def OrderRecipientRepository_create_def rc_def Let_def)
  have u4: "int4 (by_userId buyer)" using u by (simp add: uint_def int4_def)
  have nk: "\<not> (key \<noteq> None \<and> list_ex (\<lambda>r. or_userId r = by_userId buyer \<and> or_idempotencyKey r = key) (odb_orders ?db1))"
    using key by (auto simp: list_ex_iff)
  obtain r db2 where 2: "OrderPlaceCommandHandler_createOrder env buyer (rp_id rc) ps (in_currency input) key ?db1 = Inr (r, db2)"
    using te(2,3) u u4 nk by (auto simp: OrderPlaceCommandHandler_createOrder_def OrderRepository_create_def Let_def amount_numeric12_2)
  note r = createOrder_Inr [OF 2]
  have "\<exists>ls db3. OrderPlaceCommandHandler_createItems env ps (or_id r) db2 = Inr (ls, db3)
    \<and> odb_outbox db3 = odb_outbox db2 \<and> odb_workflows db3 = odb_workflows db2"
    using env rngs by (intro createItems_succeeds [OF wp dist]) (auto simp: r(1,2) fresh_env_def)
  then obtain ls db3 where 3: "OrderPlaceCommandHandler_createItems env ps (or_id r) db2 = Inr (ls, db3)"
    "odb_outbox db3 = odb_outbox db2" "odb_workflows db3 = odb_workflows db2" by blast
  have "\<not> list_ex (\<lambda>e. ob_id e = oe_outboxId env) (odb_outbox db)"
    "\<not> list_ex (\<lambda>w. wo_workflowId w = ''order-place-'' @ oe_publicId env) (odb_workflows db)"
    using env by (auto simp: fresh_env_def list_ex_iff)
  then obtain db4 where 4: "write_outboxes env r ?items db3 = Inr ((), db4)"
    using 3(2,3) by (auto simp: write_outboxes_def OrderOutboxRepository_create_def event_insert_def r(1,3)
        OrderWorkflowOutboxRepository_create_def toOrderCreatedOutbox_def toOrderPlaceWorkflowOutbox_def)
  have "place_new env sdb input buyer key db = Inr (r, db4)"
    unfolding place_new_def SellerOfferService_findByIds_def findByIds_orderable [OF oi] by (simp add: 1 ps 2 3(1) 4)
  then show ?thesis using r(8) te(1) n by auto
qed

definition demo_order_env :: order_env where
  "demo_order_env = \<lparr>oe_now = 7, oe_orderId = 1, oe_publicId = ''mine'', oe_recipientId = 1, oe_outboxId = ''e1''\<rparr>"

definition demo_buyer :: OrderBuyer where
  "demo_buyer = \<lparr>by_identityPublicId = ''identity'', by_userId = 4, by_createdAt = 0\<rparr>"

definition demo_orders :: order_db where
  "demo_orders = \<lparr>odb_orders = [], odb_lines = [], odb_recipients = [], odb_buyers = [demo_buyer],
     odb_outbox = [], odb_workflows = []\<rparr>"

definition demo_input :: order_create_input where
  "demo_input = \<lparr>in_recipient = \<lparr>rp_fullName = ''A B'',
       rp_phone = \<lparr>ph_countryCode = UA, ph_rawNumber = ''0441234567'', ph_fullNumber = ''+380441234567'',
                   ph_nationalNumber = ''0441234567''\<rparr>,
       rp_address = \<lparr>ad_addressLine = ''Main st'', ad_city = ''Kyiv'', ad_building = None\<rparr>\<rparr>,
     in_items = demo_items, in_currency = UAH\<rparr>"

lemma demo_placeable: "placeable demo_input demo_stock"
  unfolding placeable_def
proof (intro conjI)
  show "OrderCreateInput_valid demo_input"
    by (simp add: OrderCreateInput_valid_def OrderCreateRecipientInput_valid_def OrderCreateItemInput_valid_def
        demo_input_def demo_items_def has_nonspace_def e164_def national_number_def digit_def)
  show "orderable (in_items demo_input) demo_stock" using demo_orderable by (simp add: demo_input_def)
  show "items_gross (live_offers (in_items demo_input) demo_stock) (in_items demo_input) < 10 ^ 12"
    by (simp add: items_gross_def find_offer_def live_offers_def demo_input_def demo_stock_defs)
qed (simp_all add: demo_input_def demo_stock_defs priced_offer_def amount_def)

lemma demo_place:
  obtains r db' where "place_new demo_order_env demo_stock demo_input demo_buyer (Some ''key'') demo_orders = Inr (r, db')"
    "OrderPlaceCommandHandler_execute demo_order_env demo_stock demo_input ''identity'' (Some ''key'') demo_orders = (Inr r, db')"
proof -
  have "fresh_env demo_order_env demo_orders" "uint (by_userId demo_buyer)"
    by (simp_all add: fresh_env_def demo_order_env_def demo_orders_def uint_def demo_buyer_def)
  with place_new_succeeds [OF demo_placeable, of demo_order_env demo_orders demo_buyer "Some ''key''"]
  obtain r db' where 1: "place_new demo_order_env demo_stock demo_input demo_buyer (Some ''key'') demo_orders = Inr (r, db')"
    by (auto simp: demo_orders_def)
  moreover have "OrderPlaceCommandHandler_execute demo_order_env demo_stock demo_input ''identity'' (Some ''key'') demo_orders = (Inr r, db')"
    using 1 by (simp add: OrderPlaceCommandHandler_execute_def OrderBuyerRepository_findByIdentityPublicId_def
        OrderPlaceCommandHandler_createPending_def OrderRepository_findByIdempotencyKey_def demo_orders_def demo_buyer_def
        transactional_def)
  ultimately show thesis by (rule that)
qed

theorem order_totals_exact_witness:
  "\<exists>r db'. place_new demo_order_env demo_stock demo_input demo_buyer (Some ''key'') demo_orders = Inr (r, db')
    \<and> or_totalAmount r = lines_total (order_lines (or_id r) db')"
proof -
  obtain r db' where p: "place_new demo_order_env demo_stock demo_input demo_buyer (Some ''key'') demo_orders = Inr (r, db')"
    by (rule demo_place)
  from p obtain offers rc ps e w where
    f: "SellerOfferService_findByIds (map it_offerId (in_items demo_input)) demo_stock = Inr offers"
    and ps: "price_items offers (in_items demo_input) = Inr ps"
    and db': "db' = demo_orders\<lparr>odb_recipients := odb_recipients demo_orders @ [rc], odb_orders := odb_orders demo_orders @ [r],
       odb_lines := odb_lines demo_orders @ map (\<lambda>p. OrderLine_row (oe_now demo_order_env) (line_create (or_id r) p)) ps,
       odb_outbox := odb_outbox demo_orders @ [e], odb_workflows := odb_workflows demo_orders @ [w]\<rparr>"
    by (rule place_new_Inr)
  have "offers = sd_offers demo_stock"
    using f by (simp add: SellerOfferService_findByIds_def SellerOfferRepository_findByIds_def demo_input_def demo_stock_defs int4_def)
  then have "(\<Sum>p\<leftarrow>ps. pl_unitPrice p * pl_quantity p) = items_gross (sd_offers demo_stock) demo_items"
    using price_items_defined [of "in_items demo_input" offers] ps
    by (auto simp: find_offer_def demo_input_def demo_stock_defs)
  then have "lines_gross (order_lines (or_id r) db') \<le> 10 ^ 12"
    by (simp add: lines_gross_def order_lines_def db' demo_orders_def comp_def items_gross_def find_offer_def demo_stock_defs)
  from order_totals_exact [OF p _ _ this] p show ?thesis
    by (auto simp: demo_input_def demo_stock_defs demo_orders_def priced_offer_def amount_def)
qed

text \<open>
  C21. Every outcome of placing an order: a caller who is not a registered buyer gets a conflict; a used
  idempotency key returns exactly the buyer's order of that key; both change nothing. Otherwise an error
  changes nothing, and a success writes one pending order of the buyer, owned by the caller, one line per item, the
  recipient, one unpublished \<open>order.created\<close> event and one workflow to start.
\<close>

theorem order_place_effects:
  assumes "OrderPlaceCommandHandler_execute env sdb input identityPublicId key db = (res, db')"
  shows "case OrderBuyerRepository_findByIdentityPublicId identityPublicId db of
      None \<Rightarrow> res = Inl Conflict \<and> db' = db
    | Some buyer \<Rightarrow>
        (case Option.bind key (\<lambda>k. OrderRepository_findByIdempotencyKey (by_userId buyer) k db) of
           Some placed \<Rightarrow> res = Inr placed \<and> db' = db
         | None \<Rightarrow>
             (case res of
                Inl _ \<Rightarrow> db' = db
              | Inr r \<Rightarrow> or_userId r = by_userId buyer \<and> or_ownerIdentityPublicId r = Some identityPublicId
                  \<and> or_status r = OS_pending_payment \<and> or_idempotencyKey r = key \<and> or_deletedAt r = None
                  \<and> (\<exists>rc ls e w. db' = db\<lparr>odb_recipients := odb_recipients db @ [rc], odb_orders := odb_orders db @ [r],
                        odb_lines := odb_lines db @ ls, odb_outbox := odb_outbox db @ [e],
                        odb_workflows := odb_workflows db @ [w]\<rparr>
                      \<and> or_orderRecipientId r = rp_id rc
                      \<and> map (\<lambda>l. (ol_orderId l, ol_offerId l, ol_quantity l)) ls
                        = map (\<lambda>it. (or_id r, it_offerId it, it_quantity it)) (in_items input)
                      \<and> ob_publishedAt e = None
                      \<and> event_outbox_create.truncate e = toOrderCreatedOutbox (oe_outboxId env) r
                      \<and> wo_startedAt w = None
                      \<and> workflow_outbox_create.truncate w = toOrderPlaceWorkflowOutbox r (in_items input))))"
proof (cases "OrderBuyerRepository_findByIdentityPublicId identityPublicId db")
  case None
  then show ?thesis using assms by (simp add: OrderPlaceCommandHandler_execute_def)
next
  case (Some buyer)
  note b = this
  have bi: "by_identityPublicId buyer = identityPublicId"
    using b find_row_Some unfolding OrderBuyerRepository_findByIdentityPublicId_def by fastforce
  have tr: "transactional (OrderPlaceCommandHandler_createPending env sdb input buyer key) db = (res, db')"
    using assms b by (simp add: OrderPlaceCommandHandler_execute_def)
  show ?thesis
  proof (cases "Option.bind key (\<lambda>k. OrderRepository_findByIdempotencyKey (by_userId buyer) k db)")
    case (Some placed)
    then show ?thesis using tr b by (simp add: OrderPlaceCommandHandler_createPending_def transactional_def)
  next
    case None
    show ?thesis
    proof (cases res)
      case (Inl e)
      then show ?thesis using tr b None by (auto elim: transactional_cases)
    next
      case (Inr r)
      then have "place_new env sdb input buyer key db = Inr (r, db')"
        using tr None by (auto simp: OrderPlaceCommandHandler_createPending_def elim: transactional_cases)
      then obtain offers rc ps e w where ps: "price_items offers (in_items input) = Inr ps"
        and co: "OrderPlaceCommandHandler_createOrder env buyer (rp_id rc) ps (in_currency input) key
           (db\<lparr>odb_recipients := odb_recipients db @ [rc]\<rparr>) = Inr (r, db\<lparr>odb_recipients := odb_recipients db @ [rc], odb_orders := odb_orders db @ [r]\<rparr>)"
        and db': "db' = db\<lparr>odb_recipients := odb_recipients db @ [rc], odb_orders := odb_orders db @ [r],
           odb_lines := odb_lines db @ map (\<lambda>p. OrderLine_row (oe_now env) (line_create (or_id r) p)) ps,
           odb_outbox := odb_outbox db @ [e], odb_workflows := odb_workflows db @ [w]\<rparr>"
        and e: "event_outbox_create.truncate e = toOrderCreatedOutbox (oe_outboxId env) r" "ob_publishedAt e = None"
        and w: "workflow_outbox_create.truncate w = toOrderPlaceWorkflowOutbox r (in_items input)" "wo_startedAt w = None"
        by (rule place_new_Inr)
      let ?ls = "map (\<lambda>p. OrderLine_row (oe_now env) (line_create (or_id r) p)) ps"
      have ids: "map (\<lambda>l. (ol_orderId l, ol_offerId l, ol_quantity l)) ?ls
          = map (\<lambda>it. (or_id r, it_offerId it, it_quantity it)) (in_items input)"
        using price_items_ids [OF ps] by (simp add: comp_def)
      have "\<exists>rc ls e w. db' = db\<lparr>odb_recipients := odb_recipients db @ [rc], odb_orders := odb_orders db @ [r],
            odb_lines := odb_lines db @ ls, odb_outbox := odb_outbox db @ [e], odb_workflows := odb_workflows db @ [w]\<rparr>
          \<and> or_orderRecipientId r = rp_id rc
          \<and> map (\<lambda>l. (ol_orderId l, ol_offerId l, ol_quantity l)) ls
            = map (\<lambda>it. (or_id r, it_offerId it, it_quantity it)) (in_items input)
          \<and> ob_publishedAt e = None \<and> event_outbox_create.truncate e = toOrderCreatedOutbox (oe_outboxId env) r
          \<and> wo_startedAt w = None \<and> workflow_outbox_create.truncate w = toOrderPlaceWorkflowOutbox r (in_items input)"
        using createOrder_recipient [OF co] ids e w db'
        by (intro exI [of _ rc] exI [of _ ?ls] exI [of _ e] exI [of _ w] conjI)
      then show ?thesis using Inr None b bi createOrder_Inr(4,5,6,7,13) [OF co] by simp
    qed
  qed
qed

theorem order_place_effects_witness:
  "\<exists>r db'. OrderPlaceCommandHandler_execute demo_order_env demo_stock demo_input ''identity'' (Some ''key'') demo_orders = (Inr r, db')
    \<and> odb_orders db' = [r] \<and> or_status r = OS_pending_payment
    \<and> OrderPlaceCommandHandler_execute demo_order_env demo_stock demo_input ''identity'' (Some ''key'') db' = (Inr r, db')"
proof -
  obtain r db' where p: "OrderPlaceCommandHandler_execute demo_order_env demo_stock demo_input ''identity'' (Some ''key'') demo_orders = (Inr r, db')"
    by (rule demo_place)
  have key: "OrderRepository_findByIdempotencyKey i k demo_orders = None" for i k
    by (simp add: OrderRepository_findByIdempotencyKey_def demo_orders_def)
  have buyer: "OrderBuyerRepository_findByIdentityPublicId ''identity'' demo_orders = Some demo_buyer"
    by (simp add: OrderBuyerRepository_findByIdentityPublicId_def demo_orders_def demo_buyer_def)
  from order_place_effects [OF p] have r: "odb_orders db' = [r]" "odb_buyers db' = [demo_buyer]" "or_status r = OS_pending_payment"
    "or_userId r = by_userId demo_buyer" "or_idempotencyKey r = Some ''key''" "or_deletedAt r = None"
    by (auto simp: buyer key) (auto simp: demo_orders_def)
  obtain res db'' where again: "OrderPlaceCommandHandler_execute demo_order_env demo_stock demo_input ''identity'' (Some ''key'') db' = (res, db'')"
    by fastforce
  have "OrderBuyerRepository_findByIdentityPublicId ''identity'' db' = Some demo_buyer"
    using r(2) by (simp add: OrderBuyerRepository_findByIdentityPublicId_def) (simp add: demo_buyer_def)
  moreover have "OrderRepository_findByIdempotencyKey (by_userId demo_buyer) ''key'' db' = Some r"
    using r by (simp add: OrderRepository_findByIdempotencyKey_def)
  ultimately have "res = Inr r \<and> db'' = db'" using order_place_effects [OF again] by simp
  with p again r show ?thesis by blast
qed

text \<open>
  A request the service can serve is placed: for a registered buyer, offers on sale named once
  and an unused key, \<open>execute\<close> returns a pending order whose total is the sum of the discounted prices.
\<close>

theorem order_placed:
  assumes "placeable input sdb" and "fresh_env env db" and "uint (by_userId buyer)"
    and "OrderBuyerRepository_findByIdentityPublicId identityPublicId db = Some buyer"
    and "\<forall>r\<in>set (odb_orders db). or_userId r = by_userId buyer \<longrightarrow> key = None \<or> or_idempotencyKey r \<noteq> key"
  shows "\<exists>r db'. OrderPlaceCommandHandler_execute env sdb input identityPublicId key db = (Inr r, db')
    \<and> or_status r = OS_pending_payment \<and> or_userId r = by_userId buyer
    \<and> or_totalAmount r = items_net (live_offers (in_items input) sdb) (in_items input)"
proof -
  obtain r db' where p: "place_new env sdb input buyer key db = Inr (r, db')"
    and tot: "or_totalAmount r = items_net (live_offers (in_items input) sdb) (in_items input)"
    using place_new_succeeds [OF assms(1-3,5)] by blast
  from p obtain rc ps where
    co: "OrderPlaceCommandHandler_createOrder env buyer (rp_id rc) ps (in_currency input) key
       (db\<lparr>odb_recipients := odb_recipients db @ [rc]\<rparr>) = Inr (r, db\<lparr>odb_recipients := odb_recipients db @ [rc], odb_orders := odb_orders db @ [r]\<rparr>)"
    by (rule place_new_Inr)
  have "Option.bind key (\<lambda>k. OrderRepository_findByIdempotencyKey (by_userId buyer) k db) = None"
    using assms(5) by (cases key) (auto simp: OrderRepository_findByIdempotencyKey_def find_row_None)
  then have "OrderPlaceCommandHandler_execute env sdb input identityPublicId key db = (Inr r, db')"
    using p assms(4) by (simp add: OrderPlaceCommandHandler_execute_def OrderPlaceCommandHandler_createPending_def transactional_def)
  then show ?thesis using tot createOrder_Inr(4,5) [OF co] by blast
qed

theorem order_placed_witness:
  "\<exists>r db'. OrderPlaceCommandHandler_execute demo_order_env demo_stock demo_input ''identity'' None demo_orders = (Inr r, db')
    \<and> or_totalAmount r = 9000"
proof -
  have "fresh_env demo_order_env demo_orders" "uint (by_userId demo_buyer)"
    "OrderBuyerRepository_findByIdentityPublicId ''identity'' demo_orders = Some demo_buyer"
    by (simp_all add: fresh_env_def demo_order_env_def demo_orders_def uint_def demo_buyer_def
        OrderBuyerRepository_findByIdentityPublicId_def)
  from order_placed [OF demo_placeable this, of None] show ?thesis
    by (auto simp: items_net_def find_offer_def line_unit_def live_offers_def demo_input_def demo_stock_defs)
qed

text \<open>
  C22. The idempotency key works: repeating a request that succeeded with the same key, at any later
  time and even with another body, returns the same order and changes nothing.
\<close>

theorem order_place_idempotent:
  assumes "OrderPlaceCommandHandler_execute env sdb input identityPublicId (Some key) db = (Inr r, db')"
  shows "OrderPlaceCommandHandler_execute env' sdb' input' identityPublicId (Some key) db' = (Inr r, db')"
proof -
  from assms obtain buyer where b: "OrderBuyerRepository_findByIdentityPublicId identityPublicId db = Some buyer"
    and cp: "OrderPlaceCommandHandler_createPending env sdb input buyer (Some key) db = Inr (r, db')"
    by (auto simp: OrderPlaceCommandHandler_execute_def split: option.splits elim: transactional_cases)
  have "OrderRepository_findByIdempotencyKey (by_userId buyer) key db' = Some r \<and> odb_buyers db' = odb_buyers db"
  proof (cases "OrderRepository_findByIdempotencyKey (by_userId buyer) key db")
    case (Some placed)
    then show ?thesis using cp by (simp add: OrderPlaceCommandHandler_createPending_def)
  next
    case None
    then have "place_new env sdb input buyer (Some key) db = Inr (r, db')"
      using cp by (simp add: OrderPlaceCommandHandler_createPending_def)
    then obtain rc ps e w where
      co: "OrderPlaceCommandHandler_createOrder env buyer (rp_id rc) ps (in_currency input) (Some key)
         (db\<lparr>odb_recipients := odb_recipients db @ [rc]\<rparr>) = Inr (r, db\<lparr>odb_recipients := odb_recipients db @ [rc], odb_orders := odb_orders db @ [r]\<rparr>)"
      and db': "db' = db\<lparr>odb_recipients := odb_recipients db @ [rc], odb_orders := odb_orders db @ [r],
         odb_lines := odb_lines db @ map (\<lambda>p. OrderLine_row (oe_now env) (line_create (or_id r) p)) ps,
         odb_outbox := odb_outbox db @ [e], odb_workflows := odb_workflows db @ [w]\<rparr>"
      by (rule place_new_Inr)
    then show ?thesis using None createOrder_Inr(4,6,7) [OF co]
      by (simp add: OrderRepository_findByIdempotencyKey_def find_row_append)
  qed
  then show ?thesis using b
    by (simp add: OrderPlaceCommandHandler_execute_def OrderPlaceCommandHandler_createPending_def
        OrderBuyerRepository_findByIdentityPublicId_def transactional_def)
qed

theorem order_place_idempotent_witness:
  "\<exists>r db'. OrderPlaceCommandHandler_execute demo_order_env demo_stock demo_input ''identity'' (Some ''key'') demo_orders = (Inr r, db')
    \<and> OrderPlaceCommandHandler_execute demo_order_env demo_stock demo_input ''identity'' (Some ''key'') db' = (Inr r, db')"
proof -
  obtain r db' where p: "OrderPlaceCommandHandler_execute demo_order_env demo_stock demo_input ''identity'' (Some ''key'') demo_orders = (Inr r, db')"
    by (rule demo_place)
  from order_place_idempotent [OF this] p show ?thesis by blast
qed

subsection \<open>Ending an order once\<close>

text \<open>
  The two ways to end an order, as one operation: \<open>None\<close> is \<open>markPaid\<close>, \<open>Some\<close> a failure is \<open>markFailed\<close>.
\<close>

definition end_order :: "order_env \<Rightarrow> int \<Rightarrow> order_failure option \<Rightarrow> (order_db, db_error, unit) tx" where
  "end_order env i res db =
     (case res of None \<Rightarrow> OrderPlaceActivity_markPaid env i db | Some f \<Rightarrow> OrderPlaceActivity_markFailed env i f db)"

definition end_status :: "order_failure option \<Rightarrow> OrderStatusEnum" where
  "end_status res = (case res of None \<Rightarrow> OS_paid | Some f \<Rightarrow> fl_status f)"

definition end_type :: "order_failure option \<Rightarrow> string" where
  "end_type res = mc_type (case res of None \<Rightarrow> OrderPaidEvent | Some f \<Rightarrow> OrderFailedEvent)"

lemma end_order_not_pending:
  assumes "\<forall>r\<in>set (odb_orders db). \<not> pending_order i r" and "int4 i"
  shows "end_order env i res db = Inr ((), db)"
proof -
  have "update_where (pending_order i) f (odb_orders db) = odb_orders db" for f
    using assms(1) by (intro update_where_none) blast
  moreover have "count_where (pending_order i) (odb_orders db) = 0" using assms(1) by (simp add: count_where_0)
  ultimately show ?thesis using assms(2)
    by (auto simp: end_order_def OrderPlaceActivity_markPaid_def OrderPlaceActivity_markFailed_def
        OrderRepository_updatePendingStatusById_def Let_def split: option.splits)
qed

lemma end_order_Inr:
  assumes "end_order env i res db = Inr (u, db')"
  shows "odb_orders db' = update_where (pending_order i) (set_status (oe_now env) (end_status res)) (odb_orders db)"
    and "int4 i" and "odb_lines db' = odb_lines db"
    and "if \<exists>r\<in>set (odb_orders db). pending_order i r
      then \<exists>e. odb_outbox db' = odb_outbox db @ [e] \<and> ob_type e = end_type res \<and> ob_publishedAt e = None
      else odb_outbox db' = odb_outbox db"
  using assms
  by (auto simp: end_order_def end_status_def end_type_def OrderPlaceActivity_markPaid_def OrderPlaceActivity_markFailed_def
      OrderRepository_updatePendingStatusById_def record_event_def OrderOutboxRepository_create_def event_insert_def
      toOrderPaidOutbox_def toOrderFailedOutbox_def event_outbox_create.defs Let_def count_where_pos
      split: option.splits if_splits sum.splits)

text \<open>
  C23. An order ends once: ending a pending order sets its status and writes one event of the matching
  type; after that, whatever outcome is reported and however often, nothing changes any more.
\<close>

theorem order_ends_once:
  assumes "end_order env i res db = Inr (u, db')" and "end_status res \<noteq> OS_pending_payment"
  shows "(\<forall>r'\<in>set (odb_orders db'). or_id r' = i \<longrightarrow> or_status r' \<noteq> OS_pending_payment)
    \<and> (if \<exists>r\<in>set (odb_orders db). pending_order i r
       then \<exists>e. odb_outbox db' = odb_outbox db @ [e] \<and> ob_type e = end_type res \<and> ob_publishedAt e = None
       else odb_outbox db' = odb_outbox db)
    \<and> end_order env' i res' db' = Inr ((), db')"
proof -
  have "\<not> pending_order i (if pending_order i q then set_status now (end_status res) q else q)" for now q
    using assms(2) by (simp add: pending_order_def set_status_def)
  then have done': "\<forall>r\<in>set (odb_orders db'). \<not> pending_order i r"
    unfolding end_order_Inr(1) [OF assms(1)] by (rule update_where_all)
  then have "\<forall>r'\<in>set (odb_orders db'). or_id r' = i \<longrightarrow> or_status r' \<noteq> OS_pending_payment"
    by (simp add: pending_order_def)
  then show ?thesis
    using end_order_not_pending [OF done' end_order_Inr(2) [OF assms(1)]] end_order_Inr(4) [OF assms(1)]
    by (intro conjI)
qed

theorem order_ends_once_witness:
  "\<exists>r db' db''. OrderPlaceCommandHandler_execute demo_order_env demo_stock demo_input ''identity'' (Some ''key'') demo_orders = (Inr r, db')
    \<and> end_order (demo_order_env\<lparr>oe_outboxId := ''e2''\<rparr>) 1 None db' = Inr ((), db'')
    \<and> end_order demo_order_env 1 (Some \<lparr>fl_status = OS_canceled, fl_reason = reason_error\<rparr>) db'' = Inr ((), db'')"
proof -
  obtain r db' where p: "place_new demo_order_env demo_stock demo_input demo_buyer (Some ''key'') demo_orders = Inr (r, db')"
    "OrderPlaceCommandHandler_execute demo_order_env demo_stock demo_input ''identity'' (Some ''key'') demo_orders = (Inr r, db')"
    by (rule demo_place)
  from p(1) obtain rc ps e w where
    co: "OrderPlaceCommandHandler_createOrder demo_order_env demo_buyer (rp_id rc) ps (in_currency demo_input) (Some ''key'')
       (demo_orders\<lparr>odb_recipients := odb_recipients demo_orders @ [rc]\<rparr>)
       = Inr (r, demo_orders\<lparr>odb_recipients := odb_recipients demo_orders @ [rc], odb_orders := odb_orders demo_orders @ [r]\<rparr>)"
    and db': "db' = demo_orders\<lparr>odb_recipients := odb_recipients demo_orders @ [rc], odb_orders := odb_orders demo_orders @ [r],
       odb_lines := odb_lines demo_orders @ map (\<lambda>p. OrderLine_row (oe_now demo_order_env) (line_create (or_id r) p)) ps,
       odb_outbox := odb_outbox demo_orders @ [e], odb_workflows := odb_workflows demo_orders @ [w]\<rparr>"
    and e: "event_outbox_create.truncate e = toOrderCreatedOutbox (oe_outboxId demo_order_env) r"
    by (rule place_new_Inr)
  have "ob_id e = ''e1''" using e by (simp add: event_outbox_create.defs toOrderCreatedOutbox_def demo_order_env_def)
  then obtain db'' where m: "end_order (demo_order_env\<lparr>oe_outboxId := ''e2''\<rparr>) 1 None db' = Inr ((), db'')"
    using createOrder_Inr(2,5,7) [OF co]
    by (auto simp: db' demo_orders_def end_order_def OrderPlaceActivity_markPaid_def OrderRepository_updatePendingStatusById_def
        OrderRepository_findByIdOrFail_def record_event_def OrderOutboxRepository_create_def event_insert_def
        toOrderPaidOutbox_def pending_order_def set_status_def int4_def demo_order_env_def Let_def)
  from order_ends_once [OF m, of demo_order_env] p(2) m show ?thesis by (auto simp: end_status_def)
qed

end
