(* ===== verification/Account.thy ===== *)
theory Account
  imports Contracts
begin

section \<open>The account service\<close>

text \<open>
  Customers' balances (\<open>src/src/account\<close>): the tables \<open>Account\<close>, \<open>Transaction\<close> and
  \<open>AccountInbox\<close>, the repositories, the inbox that makes a message take effect once, the charge and
  refund handlers and both gateways. The invariant ties every balance to the sum of the ledger;
  the last part follows the deliveries of one order's charge and refund in any interleaving.
\<close>

subsection \<open>Tables\<close>

record Account =
  ac_customerId :: int
  ac_balance :: int
  ac_createdAt :: time
  ac_updatedAt :: time

datatype TransactionStatusEnum = TS_PENDING | TS_FAILED | TS_SUCCESS
datatype TransactionTypeEnum = TT_DEPOSIT | TT_PAYMENT | TT_WITHDRAWAL | TT_REFUND

record Transaction =
  tr_id :: int
  tr_publicId :: uuid
  tr_customerId :: int
  tr_amount :: int
  tr_status :: TransactionStatusEnum
  tr_type :: TransactionTypeEnum
  tr_createdAt :: time
  tr_updatedAt :: time
  tr_deletedAt :: "time option"

datatype AccountInboxConsumerEnum = CUSTOMER_CHARGE | CUSTOMER_REFUND

record AccountInbox =
  ai_consumer :: AccountInboxConsumerEnum
  ai_messageId :: uuid
  ai_createdAt :: time
  ai_updatedAt :: time
  ai_deletedAt :: "time option"

record account_db =
  ad_accounts :: "Account list"
  ad_transactions :: "Transaction list"
  ad_inbox :: "AccountInbox list"

text \<open>What the database and the clock supply to a request.\<close>

record account_env =
  ae_now :: time
  ae_txId :: int
  ae_txPublicId :: uuid

subsection \<open>Repositories\<close>

definition customer :: "int \<Rightarrow> Account \<Rightarrow> bool" where
  "customer k a \<longleftrightarrow> ac_customerId a = k"

definition set_balance :: "time \<Rightarrow> (int \<Rightarrow> int) \<Rightarrow> Account \<Rightarrow> Account" where
  "set_balance now f a = a\<lparr>ac_balance := f (ac_balance a), ac_updatedAt := now\<rparr>"

definition can_debit :: "int \<Rightarrow> int \<Rightarrow> Account \<Rightarrow> bool" where
  "can_debit k c a \<longleftrightarrow> customer k a \<and> c \<le> ac_balance a"

definition AccountRepository_debit :: "account_env \<Rightarrow> int \<Rightarrow> string \<Rightarrow> (account_db, db_error, bool) tx" where
  "AccountRepository_debit env k amt db =
     (case pg_cents amt of
        None \<Rightarrow> Inl InvalidText
      | Some c \<Rightarrow>
          if \<not> int4 k
             \<or> list_ex (\<lambda>a. can_debit k c a \<and> \<not> numeric12_2 (ac_balance a - c)) (ad_accounts db)
          then Inl NumericOutOfRange
          else Inr (0 < count_where (can_debit k c) (ad_accounts db),
                    db\<lparr>ad_accounts := update_where (can_debit k c)
                         (set_balance (ae_now env) (\<lambda>b. b - c)) (ad_accounts db)\<rparr>))"

definition AccountRepository_credit :: "account_env \<Rightarrow> int \<Rightarrow> string \<Rightarrow> (account_db, db_error, unit) tx" where
  "AccountRepository_credit env k amt db =
     (case pg_cents amt of
        None \<Rightarrow> Inl InvalidText
      | Some c \<Rightarrow>
          if \<not> int4 k \<or> \<not> numeric12_2 c
             \<or> list_ex (\<lambda>a. customer k a \<and> \<not> numeric12_2 (ac_balance a + c)) (ad_accounts db)
          then Inl NumericOutOfRange
          else if list_ex (customer k) (ad_accounts db)
          then Inr ((), db\<lparr>ad_accounts := update_where (customer k)
                            (set_balance (ae_now env) (\<lambda>b. b + c)) (ad_accounts db)\<rparr>)
          else Inr ((), db\<lparr>ad_accounts := ad_accounts db @
                 [\<lparr>ac_customerId = k, ac_balance = c, ac_createdAt = ae_now env, ac_updatedAt = ae_now env\<rparr>]\<rparr>))"

definition AccountRepository_createIfAbsent :: "account_env \<Rightarrow> int \<Rightarrow> (account_db, db_error, bool) tx" where
  "AccountRepository_createIfAbsent env k db =
     (if \<not> int4 k then Inl NumericOutOfRange
      else if list_ex (customer k) (ad_accounts db) then Inr (False, db)
      else Inr (True, db\<lparr>ad_accounts := ad_accounts db @
             [\<lparr>ac_customerId = k, ac_balance = 0, ac_createdAt = ae_now env, ac_updatedAt = ae_now env\<rparr>]\<rparr>))"

text \<open>\<open>Number(account.balance)\<close>, or \<open>null\<close>.\<close>

definition AccountRepository_findBalance :: "int \<Rightarrow> account_db \<Rightarrow> rat option" where
  "AccountRepository_findBalance k db =
     (case find_row (customer k) (ad_accounts db) of
        None \<Rightarrow> None
      | Some a \<Rightarrow> js_Number (fmt_cents (ac_balance a)))"

record transaction_create =
  tc_customerId :: int
  tc_amount :: string
  tc_type :: TransactionTypeEnum
  tc_status :: TransactionStatusEnum

text \<open>
  The insert into \<open>Transaction\<close>: the domains \<open>uint\<close> and \<open>amount\<close> of the columns, then the foreign key.
\<close>

definition AccountRepository_create :: "account_env \<Rightarrow> transaction_create \<Rightarrow> (account_db, db_error, Transaction) tx" where
  "AccountRepository_create env input db =
     (case pg_cents (tc_amount input) of
        None \<Rightarrow> Inl InvalidText
      | Some c \<Rightarrow>
          if \<not> int4 (tc_customerId input) \<or> \<not> numeric12_2 c then Inl NumericOutOfRange
          else if \<not> uint (tc_customerId input) \<or> \<not> amount c then Inl CheckViolation
          else if \<not> list_ex (customer (tc_customerId input)) (ad_accounts db) then Inl ForeignKeyViolation
          else (let t = \<lparr>tr_id = ae_txId env, tr_publicId = ae_txPublicId env,
                         tr_customerId = tc_customerId input, tr_amount = c,
                         tr_status = tc_status input, tr_type = tc_type input,
                         tr_createdAt = ae_now env, tr_updatedAt = ae_now env, tr_deletedAt = None\<rparr>
                in Inr (t, db\<lparr>ad_transactions := ad_transactions db @ [t]\<rparr>)))"

definition inbox_key :: "AccountInboxConsumerEnum \<Rightarrow> uuid \<Rightarrow> AccountInbox \<Rightarrow> bool" where
  "inbox_key consumer mid r \<longleftrightarrow> ai_consumer r = consumer \<and> ai_messageId r = mid"

definition AccountInboxRepository_createIfAbsent ::
  "account_env \<Rightarrow> AccountInboxConsumerEnum \<Rightarrow> uuid \<Rightarrow> account_db \<Rightarrow> bool \<times> account_db" where
  "AccountInboxRepository_createIfAbsent env consumer mid db =
     (if list_ex (inbox_key consumer mid) (ad_inbox db) then (False, db)
      else (True, db\<lparr>ad_inbox := ad_inbox db @
              [\<lparr>ai_consumer = consumer, ai_messageId = mid, ai_createdAt = ae_now env,
                ai_updatedAt = ae_now env, ai_deletedAt = None\<rparr>]\<rparr>))"

subsection \<open>The inbox\<close>

text \<open>
  \<open>processOnce\<close> runs the effect in the transaction that records the message, so an error of the
  effect also forgets the message. The result is what the effect returned, \<open>None\<close> when it was skipped.
\<close>

definition AccountInboxService_processOnce ::
  "account_env \<Rightarrow> AccountInboxConsumerEnum \<Rightarrow> uuid \<Rightarrow> (account_db, 'e, 'a) tx \<Rightarrow> (account_db, 'e, 'a option) tx" where
  "AccountInboxService_processOnce env consumer mid effect db =
     (case AccountInboxRepository_createIfAbsent env consumer mid db of
        (False, db') \<Rightarrow> Inr (None, db')
      | (True, db') \<Rightarrow>
          (case effect db' of Inl e \<Rightarrow> Inl e | Inr (x, db'') \<Rightarrow> Inr (Some x, db'')))"

definition AccountInboxService_markProcessed ::
  "account_env \<Rightarrow> AccountInboxConsumerEnum \<Rightarrow> uuid \<Rightarrow> account_db \<Rightarrow> bool \<times> account_db" where
  "AccountInboxService_markProcessed env consumer mid db =
     AccountInboxRepository_createIfAbsent env consumer mid db"

subsection \<open>Command handlers\<close>

definition AccountCreateCommandHandler_execute :: "account_env \<Rightarrow> int \<Rightarrow> (account_db, db_error, bool) tx" where
  "AccountCreateCommandHandler_execute env k db = AccountRepository_createIfAbsent env k db"

datatype charge_error =
    AccountCustomerChargeRejected charge_reject_reason rat rat
  | ChargeDbError db_error

text \<open>\<open>Number(amount)\<close> and \<open>Number(amount).toFixed(2)\<close>; \<open>NaN\<close> where the string is no number.\<close>

definition amount_number :: "string \<Rightarrow> rat" where
  "amount_number s = (case js_Number s of None \<Rightarrow> 0 | Some x \<Rightarrow> x)"

definition amount_fixed :: "string \<Rightarrow> string" where
  "amount_fixed s = (case js_Number s of None \<Rightarrow> ''NaN'' | Some x \<Rightarrow> toFixed2 x)"

definition AccountCustomerChargeCommandHandler_execute ::
  "account_env \<Rightarrow> customer_charge_data \<Rightarrow> (account_db, charge_error, unit) tx" where
  "AccountCustomerChargeCommandHandler_execute env data db =
     (case AccountRepository_debit env (mv_customerId data) (amount_fixed (mv_amount data)) db of
        Inl e \<Rightarrow> Inl (ChargeDbError e)
      | Inr (False, db') \<Rightarrow>
          (case AccountRepository_findBalance (mv_customerId data) db' of
             None \<Rightarrow> Inl (AccountCustomerChargeRejected customer_not_found 0 0)
           | Some balance \<Rightarrow>
               Inl (AccountCustomerChargeRejected insufficient_amount (amount_number (mv_amount data)) balance))
      | Inr (True, db') \<Rightarrow>
          (case AccountRepository_create env
                  \<lparr>tc_customerId = mv_customerId data, tc_amount = amount_fixed (mv_amount data),
                   tc_type = TT_PAYMENT, tc_status = TS_SUCCESS\<rparr> db' of
             Inl e \<Rightarrow> Inl (ChargeDbError e)
           | Inr (_, db'') \<Rightarrow> Inr ((), db'')))"

definition AccountCustomerRefundCommandHandler_execute ::
  "account_env \<Rightarrow> customer_refund_data \<Rightarrow> (account_db, db_error, bool) tx" where
  "AccountCustomerRefundCommandHandler_execute env data db =
     (case AccountInboxService_markProcessed env CUSTOMER_CHARGE (mv_chargeId data) db of
        (True, db') \<Rightarrow> Inr (False, db')
      | (False, db') \<Rightarrow>
          (case AccountRepository_credit env (mv_customerId data) (amount_fixed (mv_amount data)) db' of
             Inl e \<Rightarrow> Inl e
           | Inr (_, db1) \<Rightarrow>
               (case AccountRepository_create env
                       \<lparr>tc_customerId = mv_customerId data, tc_amount = amount_fixed (mv_amount data),
                        tc_type = TT_REFUND, tc_status = TS_SUCCESS\<rparr> db1 of
                  Inl e \<Rightarrow> Inl e
                | Inr (_, db2) \<Rightarrow> Inr (True, db2))))"

subsection \<open>Gateways\<close>

text \<open>The guard on the movement, with the customer and the amount it lets through.\<close>

definition AccountGateway_isValidMovement :: "json option \<Rightarrow> (int \<times> string) option" where
  "AccountGateway_isValidMovement data =
     (case (safe_integer (jfield data ''customerId''), jstring (jfield data ''amount'')) of
        (Some k, Some amt) \<Rightarrow>
          if 0 < k \<and> amount_regex amt \<and> 0 < amount_number amt then Some (k, amt) else None
      | _ \<Rightarrow> None)"

record account_reply_env = account_env +
  are_randomUUID :: uuid

definition AccountGateway_toResponse ::
  "account_reply_env \<Rightarrow> json \<Rightarrow> charge_response \<Rightarrow> charge_response cloud_event" where
  "AccountGateway_toResponse env request data =
     \<lparr>ce_specversion = ''1.0'', ce_id = are_randomUUID env,
      ce_source = source_value (mc_response_source AccountCustomerChargeRequest),
      ce_type = mc_response_type AccountCustomerChargeRequest,
      ce_time = toISOString (ae_now env), ce_datacontenttype = ''application/json'',
      ce_subject = jfield (Some request) ''subject'',
      ce_correlationid = jfield (Some request) ''id'', ce_data = data\<rparr>"

definition AccountGateway_toRefundResponse ::
  "account_reply_env \<Rightarrow> json \<Rightarrow> refund_response \<Rightarrow> refund_response cloud_event" where
  "AccountGateway_toRefundResponse env request data =
     \<lparr>ce_specversion = ''1.0'', ce_id = are_randomUUID env,
      ce_source = source_value (mc_response_source AccountCustomerRefundRequest),
      ce_type = mc_response_type AccountCustomerRefundRequest,
      ce_time = toISOString (ae_now env), ce_datacontenttype = ''application/json'',
      ce_subject = jfield (Some request) ''subject'',
      ce_correlationid = jfield (Some request) ''id'', ce_data = data\<rparr>"

definition charge_guard :: "(string \<Rightarrow> bool) \<Rightarrow> json \<Rightarrow> (uuid \<times> customer_charge_data) option" where
  "charge_guard isUUID msg =
     (if jstring (jfield (Some msg) ''specversion'') = Some ''1.0''
         \<and> jstring (jfield (Some msg) ''type'') = Some (mc_type AccountCustomerChargeRequest)
      then case (jstring (jfield (Some msg) ''id''), jstring (jfield (Some msg) ''subject''),
                 AccountGateway_isValidMovement (jfield (Some msg) ''data'')) of
          (Some mid, Some subject, Some (k, amt)) \<Rightarrow>
            if isUUID mid \<and> isUUID subject then Some (mid, \<lparr>mv_customerId = k, mv_amount = amt\<rparr>) else None
        | _ \<Rightarrow> None
      else None)"

definition refund_guard :: "(string \<Rightarrow> bool) \<Rightarrow> json \<Rightarrow> (uuid \<times> customer_refund_data) option" where
  "refund_guard isUUID msg =
     (if jstring (jfield (Some msg) ''specversion'') = Some ''1.0''
         \<and> jstring (jfield (Some msg) ''type'') = Some (mc_type AccountCustomerRefundRequest)
      then case (jstring (jfield (Some msg) ''id''),
                 jstring (jfield (jfield (Some msg) ''data'') ''chargeId''),
                 AccountGateway_isValidMovement (jfield (Some msg) ''data'')) of
          (Some mid, Some cid, Some (k, amt)) \<Rightarrow>
            if isUUID mid \<and> isUUID cid
            then Some (mid, \<lparr>mv_customerId = k, mv_amount = amt, mv_chargeId = cid\<rparr>) else None
        | _ \<Rightarrow> None
      else None)"

definition AccountGateway_handleCustomerCharge ::
  "(string \<Rightarrow> bool) \<Rightarrow> account_reply_env \<Rightarrow> json \<Rightarrow> account_db \<Rightarrow> charge_response cloud_event rpc \<times> account_db" where
  "AccountGateway_handleCustomerCharge isUUID env msg db =
     (case charge_guard isUUID msg of
        None \<Rightarrow> (RpcNack, db)
      | Some (mid, data) \<Rightarrow>
          (case transactional
                  (AccountInboxService_processOnce (account_env.truncate env) CUSTOMER_CHARGE mid
                     (AccountCustomerChargeCommandHandler_execute (account_env.truncate env) data)) db of
             (Inr _, db') \<Rightarrow> (RpcReply (AccountGateway_toResponse env msg ChargeSuccess), db')
           | (Inl (AccountCustomerChargeRejected reason _ balance), db') \<Rightarrow>
               (RpcReply (AccountGateway_toResponse env msg (ChargeRejected reason (toFixed2 balance))), db')
           | (Inl (ChargeDbError e), db') \<Rightarrow> (RpcThrow e, db')))"

definition AccountGateway_handleCustomerRefund ::
  "(string \<Rightarrow> bool) \<Rightarrow> account_reply_env \<Rightarrow> json \<Rightarrow> account_db \<Rightarrow> refund_response cloud_event rpc \<times> account_db" where
  "AccountGateway_handleCustomerRefund isUUID env msg db =
     (case refund_guard isUUID msg of
        None \<Rightarrow> (RpcNack, db)
      | Some (mid, data) \<Rightarrow>
          (case transactional
                  (AccountInboxService_processOnce (account_env.truncate env) CUSTOMER_REFUND mid
                     (AccountCustomerRefundCommandHandler_execute (account_env.truncate env) data)) db of
             (Inr applied, db') \<Rightarrow>
               (let refunded = (case applied of None \<Rightarrow> True | Some r \<Rightarrow> r)
                in (RpcReply (AccountGateway_toRefundResponse env msg (if refunded then Refunded else NotCharged)), db'))
           | (Inl e, db') \<Rightarrow> (RpcThrow e, db')))"

text \<open>
  The consumer of \<open>user.created\<close>: other types are skipped, a malformed event is rejected for good.
  \<open>zUuid\<close> is the schema's uuid check.
\<close>

definition account_userCreatedEventSchema :: "(string \<Rightarrow> bool) \<Rightarrow> json \<Rightarrow> (int \<times> uuid) option" where
  "account_userCreatedEventSchema zUuid event =
     (if jstring (jfield (Some event) ''specversion'') = Some ''1.0''
         \<and> jstring (jfield (Some event) ''type'') = Some (mc_type UserCreatedEvent)
      then case (jstring (jfield (Some event) ''id''),
                 safe_integer (jfield (jfield (Some event) ''data'') ''userId''),
                 jstring (jfield (jfield (Some event) ''data'') ''userPublicId'')) of
          (Some eid, Some userId, Some userPublicId) \<Rightarrow>
            if zUuid eid \<and> 0 < userId \<and> zUuid userPublicId then Some (userId, userPublicId) else None
        | _ \<Rightarrow> None
      else None)"

definition AccountUserEventsGateway_handle ::
  "(string \<Rightarrow> bool) \<Rightarrow> account_env \<Rightarrow> json \<Rightarrow> (account_db, kafka_error, unit) tx" where
  "AccountUserEventsGateway_handle zUuid env event db =
     (if jstring (jfield (Some event) ''type'') \<noteq> Some (mc_type UserCreatedEvent) then Inr ((), db)
      else case account_userCreatedEventSchema zUuid event of
        None \<Rightarrow> Inl KafkaRejectedMessage
      | Some (userId, _) \<Rightarrow>
          (case AccountCreateCommandHandler_execute env userId db of
             Inl e \<Rightarrow> Inl (KafkaHandlerError e)
           | Inr (_, db') \<Rightarrow> Inr ((), db')))"

subsection \<open>The ledger invariant\<close>

text \<open>The sign of a transaction, as the migration that introduced the balances sums them.\<close>

definition signed_amount :: "Transaction \<Rightarrow> int" where
  "signed_amount t = (if tr_type t \<in> {TT_DEPOSIT, TT_REFUND} then tr_amount t else - tr_amount t)"

definition ledger_sum :: "int \<Rightarrow> Transaction list \<Rightarrow> int" where
  "ledger_sum k ts =
     (\<Sum>t\<leftarrow>ts. if tr_customerId t = k \<and> tr_status t = TS_SUCCESS \<and> tr_deletedAt t = None
             then signed_amount t else 0)"

definition inbox_pk :: "AccountInbox \<Rightarrow> AccountInboxConsumerEnum \<times> uuid" where
  "inbox_pk r = (ai_consumer r, ai_messageId r)"

definition account_inv :: "account_db \<Rightarrow> bool" where
  "account_inv db \<longleftrightarrow>
     distinct (map ac_customerId (ad_accounts db)) \<and> distinct (map inbox_pk (ad_inbox db))
     \<and> (\<forall>a\<in>set (ad_accounts db). 0 \<le> ac_balance a \<and> numeric12_2 (ac_balance a)
          \<and> ac_balance a = ledger_sum (ac_customerId a) (ad_transactions db))
     \<and> (\<forall>t\<in>set (ad_transactions db). amount (tr_amount t) \<and> tr_customerId t \<in> ac_customerId ` set (ad_accounts db))"

lemma ledger_sum_Nil [simp]: "ledger_sum k [] = 0"
  by (simp add: ledger_sum_def)

lemma ledger_sum_append [simp]: "ledger_sum k (ts @ us) = ledger_sum k ts + ledger_sum k us"
  by (simp add: ledger_sum_def)

lemma ledger_sum_single [simp]:
  "ledger_sum k [t] = (if tr_customerId t = k \<and> tr_status t = TS_SUCCESS \<and> tr_deletedAt t = None
     then signed_amount t else 0)"
  by (simp add: ledger_sum_def)

lemma ledger_sum_other: "(\<And>t. t \<in> set ts \<Longrightarrow> tr_customerId t \<noteq> k) \<Longrightarrow> ledger_sum k ts = 0"
  by (induction ts) (auto simp: ledger_sum_def)

lemma set_balance_simps [simp]:
  "ac_customerId (set_balance now f a) = ac_customerId a" "ac_balance (set_balance now f a) = f (ac_balance a)"
  by (simp_all add: set_balance_def)

lemma list_ex_customer [simp]: "list_ex (customer k) as \<longleftrightarrow> k \<in> ac_customerId ` set as"
  by (auto simp: list_ex_iff customer_def)

definition balance :: "int \<Rightarrow> account_db \<Rightarrow> int option" where
  "balance k db = map_option ac_balance (find_row (customer k) (ad_accounts db))"

lemma balance_None: "balance k db = None \<longleftrightarrow> k \<notin> ac_customerId ` set (ad_accounts db)"
  by (auto simp: balance_def find_row_None customer_def)

lemma balance_member:
  assumes "distinct (map ac_customerId (ad_accounts db))" and "a \<in> set (ad_accounts db)"
  shows "balance (ac_customerId a) db = Some (ac_balance a)"
  using find_row_unique [OF assms] by (simp add: balance_def customer_def [abs_def])

lemma balance_Some:
  assumes "balance k db = Some b"
  obtains a where "a \<in> set (ad_accounts db)" "ac_customerId a = k" "ac_balance a = b"
  using assms by (auto simp: balance_def customer_def dest: find_row_Some)

text \<open>
  One movement on a consistent ledger: a balance changes by \<open>d\<close> and a transaction of that value is
  recorded.
\<close>

definition move :: "account_env \<Rightarrow> int \<Rightarrow> int \<Rightarrow> TransactionTypeEnum \<Rightarrow> int \<Rightarrow> account_db \<Rightarrow> account_db" where
  "move env k d ty c db =
     db\<lparr>ad_accounts := update_where (customer k) (set_balance (ae_now env) (\<lambda>b. b + d)) (ad_accounts db),
        ad_transactions := ad_transactions db @
          [\<lparr>tr_id = ae_txId env, tr_publicId = ae_txPublicId env, tr_customerId = k, tr_amount = c,
            tr_status = TS_SUCCESS, tr_type = ty, tr_createdAt = ae_now env, tr_updatedAt = ae_now env,
            tr_deletedAt = None\<rparr>]\<rparr>"

lemma move_simps [simp]:
  "map ac_customerId (ad_accounts (move env k d ty c db)) = map ac_customerId (ad_accounts db)"
  "ad_inbox (move env k d ty c db) = ad_inbox db"
  by (simp_all add: move_def map_update_where_key)

lemma move_ids [simp]:
  "ac_customerId ` set (ad_accounts (move env k d ty c db)) = ac_customerId ` set (ad_accounts db)"
  using arg_cong [OF move_simps(1), of set] by (simp only: set_map)

lemma find_row_customer_update:
  "find_row (customer j) (update_where (customer k) (set_balance now f) as)
    = map_option (\<lambda>a. if customer k a then set_balance now f a else a) (find_row (customer j) as)"
  by (rule find_row_update_where) (simp add: customer_def)

lemma balance_move [simp]:
  "balance j (move env k d ty c db) = (if j = k then map_option (\<lambda>b. b + d) (balance k db) else balance j db)"
proof (cases "find_row (customer j) (ad_accounts db)")
  case None
  then show ?thesis by (auto simp: balance_def move_def find_row_customer_update)
next
  case (Some a)
  with find_row_Some [OF Some] show ?thesis
    by (auto simp: balance_def move_def find_row_customer_update customer_def)
qed

lemma move_inv:
  assumes inv: "account_inv db" and b: "balance k db = Some b" and "0 \<le> b + d" "numeric12_2 (b + d)"
    and d: "d = (if ty \<in> {TT_DEPOSIT, TT_REFUND} then c else - c)" and "amount c"
  shows "account_inv (move env k d ty c db)"
proof -
  have ids: "distinct (map ac_customerId (ad_accounts db))" using inv by (simp add: account_inv_def)
  have k: "k \<in> ac_customerId ` set (ad_accounts db)" using b balance_None [of k db] by simp
  have "0 \<le> ac_balance a \<and> numeric12_2 (ac_balance a)
      \<and> ac_balance a = ledger_sum (ac_customerId a) (ad_transactions (move env k d ty c db))"
    if mem: "a \<in> set (ad_accounts (move env k d ty c db))" for a
  proof -
    from mem obtain a0 where a0: "a0 \<in> set (ad_accounts db)"
      "a = (if customer k a0 then set_balance (ae_now env) (\<lambda>b. b + d) a0 else a0)"
      by (auto simp: move_def in_update_where)
    have "ac_balance a0 = b" if "customer k a0"
      using balance_member [OF ids a0(1)] b that by (simp add: customer_def)
    moreover have "0 \<le> ac_balance a0 \<and> numeric12_2 (ac_balance a0)
      \<and> ac_balance a0 = ledger_sum (ac_customerId a0) (ad_transactions db)"
      using inv a0(1) unfolding account_inv_def by blast
    ultimately show ?thesis using a0(2) assms(3,4) d
      by (auto simp: move_def signed_amount_def customer_def)
  qed
  moreover have "\<forall>t\<in>set (ad_transactions (move env k d ty c db)).
      amount (tr_amount t) \<and> tr_customerId t \<in> ac_customerId ` set (ad_accounts (move env k d ty c db))"
    using inv k assms(6) unfolding move_ids by (auto simp: account_inv_def move_def)
  moreover have "distinct (map ac_customerId (ad_accounts (move env k d ty c db)))"
    "distinct (map inbox_pk (ad_inbox (move env k d ty c db)))"
    using inv by (simp_all add: account_inv_def)
  ultimately show ?thesis unfolding account_inv_def by blast
qed

subsection \<open>Charging and refunding\<close>

definition processed :: "AccountInboxConsumerEnum \<Rightarrow> uuid \<Rightarrow> account_db \<Rightarrow> bool" where
  "processed consumer mid db \<longleftrightarrow> list_ex (inbox_key consumer mid) (ad_inbox db)"

definition remember :: "account_env \<Rightarrow> AccountInboxConsumerEnum \<Rightarrow> uuid \<Rightarrow> account_db \<Rightarrow> account_db" where
  "remember env consumer mid db =
     db\<lparr>ad_inbox := ad_inbox db @
          [\<lparr>ai_consumer = consumer, ai_messageId = mid, ai_createdAt = ae_now env,
            ai_updatedAt = ae_now env, ai_deletedAt = None\<rparr>]\<rparr>"

lemma inbox_createIfAbsent:
  "AccountInboxRepository_createIfAbsent env consumer mid db =
    (if processed consumer mid db then (False, db) else (True, remember env consumer mid db))"
  by (simp add: AccountInboxRepository_createIfAbsent_def processed_def remember_def)

lemma processOnce_eq:
  "AccountInboxService_processOnce env consumer mid effect db =
    (if processed consumer mid db then Inr (None, db)
     else case effect (remember env consumer mid db) of
       Inl e \<Rightarrow> Inl e | Inr (x, db') \<Rightarrow> Inr (Some x, db'))"
  by (simp add: AccountInboxService_processOnce_def inbox_createIfAbsent)

lemma remember_simps [simp]:
  "ad_accounts (remember env consumer mid db) = ad_accounts db"
  "ad_transactions (remember env consumer mid db) = ad_transactions db"
  "balance k (remember env consumer mid db) = balance k db"
  "processed consumer' mid' (remember env consumer mid db) \<longleftrightarrow>
     processed consumer' mid' db \<or> (consumer' = consumer \<and> mid' = mid)"
  by (auto simp: remember_def balance_def processed_def inbox_key_def)

lemma processed_move [simp]: "processed consumer mid (move env k d ty c db) \<longleftrightarrow> processed consumer mid db"
  by (simp add: processed_def)

lemma remember_inv: "account_inv db \<Longrightarrow> \<not> processed consumer mid db \<Longrightarrow> account_inv (remember env consumer mid db)"
  by (auto simp: account_inv_def remember_def processed_def list_ex_iff inbox_key_def inbox_pk_def)

lemma update_can_debit:
  assumes "\<And>a. a \<in> set as \<Longrightarrow> customer k a \<Longrightarrow> c \<le> ac_balance a"
  shows "update_where (can_debit k c) f as = update_where (customer k) f as"
  using assms by (induction as) (auto simp: can_debit_def)

lemma account_balance_bounds:
  "account_inv db \<Longrightarrow> balance k db = Some b \<Longrightarrow> 0 \<le> b \<and> numeric12_2 b"
  by (elim balance_Some) (auto simp: account_inv_def)

text \<open>
  The charge handler on a valid amount, by cases of the balance. The double that \<open>Number\<close> yields
  never changes the amount.
\<close>

definition valid_amount :: "string \<Rightarrow> int \<Rightarrow> bool" where
  "valid_amount amt c \<longleftrightarrow> amount_regex amt \<and> pg_cents amt = Some c \<and> amount c \<and> 0 < c"

lemma valid_amount_fixed:
  assumes "valid_amount amt c"
  shows "amount_fixed amt = fmt_cents c" and "amount_number amt = to_double (of_int c / 100)"
proof -
  obtain c' where c': "pg_cents amt = Some c'" "js_Number amt = Some (to_double (of_int c' / 100))"
    "toFixed2 (to_double (of_int c' / 100)) = fmt_cents c'"
    using assms js_Number_regex [of amt] by (auto simp: valid_amount_def)
  then show "amount_fixed amt = fmt_cents c" "amount_number amt = to_double (of_int c / 100)"
    using assms by (simp_all add: valid_amount_def amount_fixed_def amount_number_def)
qed

lemma valid_movement:
  assumes "AccountGateway_isValidMovement data = Some (k, amt)"
  obtains c where "valid_amount amt c" "0 < k"
proof -
  have amt: "amount_regex amt" "0 < amount_number amt" "0 < k"
    using assms by (auto simp: AccountGateway_isValidMovement_def split: option.splits if_splits)
  obtain c where c: "amount c" "pg_cents amt = Some c" "js_Number amt = Some (to_double (of_int c / 100))"
    using js_Number_regex [OF amt(1)] by blast
  have "0 < c"
  proof (rule ccontr)
    assume "\<not> 0 < c"
    then have "c = 0" using c(1) by (simp add: amount_def)
    then show False using amt(2) c(3) by (simp add: amount_number_def)
  qed
  then show thesis using that [of c] amt c by (simp add: valid_amount_def)
qed

definition add_balance :: "account_env \<Rightarrow> int \<Rightarrow> int \<Rightarrow> account_db \<Rightarrow> account_db" where
  "add_balance env k d db =
     db\<lparr>ad_accounts := update_where (customer k) (set_balance (ae_now env) (\<lambda>b. b + d)) (ad_accounts db)\<rparr>"

lemma add_balance_ids [simp]:
  "ac_customerId ` set (ad_accounts (add_balance env k d db)) = ac_customerId ` set (ad_accounts db)"
  by (simp add: add_balance_def image_update_where_key)

lemma debit_valid:
  assumes inv: "account_inv db" and k: "int4 k" and c: "0 < c" "amount c"
  shows "AccountRepository_debit env k (fmt_cents c) db =
    (case balance k db of
       None \<Rightarrow> Inr (False, db)
     | Some b \<Rightarrow> if c \<le> b then Inr (True, add_balance env k (- c) db) else Inr (False, db))"
proof -
  have ids: "distinct (map ac_customerId (ad_accounts db))" using inv by (simp add: account_inv_def)
  have bal: "balance k db = Some (ac_balance a)" if "a \<in> set (ad_accounts db)" "customer k a" for a
    using balance_member [OF ids that(1)] that(2) by (simp add: customer_def)
  have range: "\<not> list_ex (\<lambda>a. can_debit k c a \<and> \<not> numeric12_2 (ac_balance a - c)) (ad_accounts db)"
    using inv c by (auto simp: list_ex_iff account_inv_def can_debit_def numeric12_2_def amount_def)
  note deb = AccountRepository_debit_def range k
  show ?thesis
  proof (cases "\<exists>b. balance k db = Some b \<and> c \<le> b")
    case True
    then obtain b where b: "balance k db = Some b" "c \<le> b" by blast
    have "update_where (can_debit k c) f (ad_accounts db) = update_where (customer k) f (ad_accounts db)" for f
      using bal b by (intro update_can_debit) auto
    moreover have "\<exists>a\<in>set (ad_accounts db). can_debit k c a"
      using b by (elim balance_Some) (auto simp: can_debit_def customer_def)
    ultimately show ?thesis using deb b by (simp add: count_where_pos add_balance_def)
  next
    case False
    then have "\<not> can_debit k c a" if "a \<in> set (ad_accounts db)" for a
      using bal [OF that] by (auto simp: can_debit_def)
    then show ?thesis using deb False
      by (auto simp: update_where_none count_where_0 count_where_pos split: option.splits)
  qed
qed

lemma create_valid:
  assumes "int4 k" "0 < k" "amount c" and "k \<in> ac_customerId ` set (ad_accounts db)"
  shows "\<exists>t. AccountRepository_create env
      \<lparr>tc_customerId = k, tc_amount = fmt_cents c, tc_type = ty, tc_status = TS_SUCCESS\<rparr> (add_balance env k d db)
    = Inr (t, move env k d ty c db)"
  using assms by (simp add: AccountRepository_create_def Let_def amount_numeric12_2 uint_def int4_def
      move_def add_balance_def [symmetric]) (simp add: add_balance_def)

lemma charge_execute:
  assumes inv: "account_inv db" and amt: "valid_amount (mv_amount data) c"
    and k: "int4 (mv_customerId data)" "0 < mv_customerId data"
  shows "AccountCustomerChargeCommandHandler_execute env data db =
    (case balance (mv_customerId data) db of
       None \<Rightarrow> Inl (AccountCustomerChargeRejected customer_not_found 0 0)
     | Some b \<Rightarrow>
         if c \<le> b then Inr ((), move env (mv_customerId data) (- c) TT_PAYMENT c db)
         else Inl (AccountCustomerChargeRejected insufficient_amount (to_double (of_int c / 100)) (to_double (of_int b / 100))))"
proof -
  let ?k = "mv_customerId data"
  have c: "0 < c" "amount c" using amt by (simp_all add: valid_amount_def)
  have find: "AccountRepository_findBalance ?k db = map_option (\<lambda>b. to_double (of_int b / 100)) (balance ?k db)"
    by (simp add: AccountRepository_findBalance_def balance_def split: option.splits)
  show ?thesis
  proof (cases "balance ?k db")
    case (Some b)
    then have "?k \<in> ac_customerId ` set (ad_accounts db)" using balance_None [of ?k db] by auto
    with create_valid [OF k c(2) this, of env TT_PAYMENT "- c"] Some find show ?thesis
      by (auto simp: AccountCustomerChargeCommandHandler_execute_def valid_amount_fixed [OF amt] debit_valid [OF inv k(1) c])
  qed (simp add: AccountCustomerChargeCommandHandler_execute_def valid_amount_fixed [OF amt]
      debit_valid [OF inv k(1) c] find)
qed

lemma charge_out_of_range:
  assumes "valid_amount (mv_amount data) c" and "\<not> int4 (mv_customerId data)"
  shows "AccountCustomerChargeCommandHandler_execute env data db = Inl (ChargeDbError NumericOutOfRange)"
  using assms by (simp add: AccountCustomerChargeCommandHandler_execute_def AccountRepository_debit_def valid_amount_fixed)

text \<open>The refund handler: it fences a charge that never happened, and otherwise credits the customer.\<close>

lemma refund_execute_fence:
  "\<not> processed CUSTOMER_CHARGE (mv_chargeId data) db \<Longrightarrow>
    AccountCustomerRefundCommandHandler_execute env data db
      = Inr (False, remember env CUSTOMER_CHARGE (mv_chargeId data) db)"
  by (simp add: AccountCustomerRefundCommandHandler_execute_def AccountInboxService_markProcessed_def inbox_createIfAbsent)

lemma credit_existing:
  assumes inv: "account_inv db" and k: "int4 k" and c: "amount c" and b: "balance k db = Some b"
    and r: "numeric12_2 (b + c)"
  shows "AccountRepository_credit env k (fmt_cents c) db = Inr ((), add_balance env k c db)"
proof -
  have ids: "distinct (map ac_customerId (ad_accounts db))" using inv by (simp add: account_inv_def)
  have "ac_balance a = b" if "a \<in> set (ad_accounts db)" "customer k a" for a
    using balance_member [OF ids that(1)] that(2) b by (simp add: customer_def)
  then have "\<not> list_ex (\<lambda>a. customer k a \<and> \<not> numeric12_2 (ac_balance a + c)) (ad_accounts db)"
    using r by (auto simp: list_ex_iff)
  moreover have "k \<in> ac_customerId ` set (ad_accounts db)" using b balance_None [of k db] by auto
  ultimately show ?thesis using k c
    by (simp add: AccountRepository_credit_def amount_numeric12_2 add_balance_def)
qed

lemma refund_execute_credit:
  assumes inv: "account_inv db" and amt: "valid_amount (mv_amount data) c"
    and k: "int4 (mv_customerId data)" "0 < mv_customerId data"
    and p: "processed CUSTOMER_CHARGE (mv_chargeId data) db"
    and b: "balance (mv_customerId data) db = Some b" and r: "numeric12_2 (b + c)"
  shows "AccountCustomerRefundCommandHandler_execute env data db
    = Inr (True, move env (mv_customerId data) c TT_REFUND c db)"
proof -
  let ?k = "mv_customerId data"
  have c: "amount c" using amt by (simp add: valid_amount_def)
  have "?k \<in> ac_customerId ` set (ad_accounts db)" using b balance_None [of ?k db] by auto
  with create_valid [OF k c this, of env TT_REFUND c] show ?thesis
    by (auto simp: AccountCustomerRefundCommandHandler_execute_def AccountInboxService_markProcessed_def
        inbox_createIfAbsent p valid_amount_fixed [OF amt] credit_existing [OF inv k(1) c b r])
qed

definition open_account :: "account_env \<Rightarrow> int \<Rightarrow> account_db \<Rightarrow> account_db" where
  "open_account env k db = db\<lparr>ad_accounts := ad_accounts db @
     [\<lparr>ac_customerId = k, ac_balance = 0, ac_createdAt = ae_now env, ac_updatedAt = ae_now env\<rparr>]\<rparr>"

lemma open_account_inv:
  assumes inv: "account_inv db" and new: "k \<notin> ac_customerId ` set (ad_accounts db)"
  shows "account_inv (open_account env k db)"
proof -
  have "ledger_sum k (ad_transactions db) = 0"
    using inv new by (intro ledger_sum_other) (auto simp: account_inv_def)
  then show ?thesis using inv new by (auto simp: account_inv_def open_account_def numeric12_2_def)
qed

lemma open_account_balance:
  "k \<notin> ac_customerId ` set (ad_accounts db) \<Longrightarrow> balance k (open_account env k db) = Some 0"
proof -
  assume "k \<notin> ac_customerId ` set (ad_accounts db)"
  then have "find_row (customer k) (ad_accounts db) = None" using balance_None [of k db] by (simp add: balance_def)
  then show ?thesis by (simp add: open_account_def balance_def find_row_append customer_def)
qed

lemma credit_absent:
  assumes "k \<notin> ac_customerId ` set (ad_accounts db)" and "int4 k" and "amount c"
  shows "AccountRepository_credit env k (fmt_cents c) db = Inr ((), add_balance env k c (open_account env k db))"
proof -
  have none: "\<And>a. a \<in> set (ad_accounts db) \<Longrightarrow> \<not> customer k a" using assms(1) by (auto simp: customer_def)
  then have "\<not> list_ex (\<lambda>a. customer k a \<and> \<not> numeric12_2 (ac_balance a + c)) (ad_accounts db)"
    by (auto simp: list_ex_iff)
  then show ?thesis using assms none
    by (simp add: AccountRepository_credit_def amount_numeric12_2 add_balance_def open_account_def
        update_where_none set_balance_def) (simp add: customer_def)
qed

lemma refund_execute_open:
  assumes amt: "valid_amount (mv_amount data) c" and k: "int4 (mv_customerId data)" "0 < mv_customerId data"
    and p: "processed CUSTOMER_CHARGE (mv_chargeId data) db"
    and new: "mv_customerId data \<notin> ac_customerId ` set (ad_accounts db)"
  shows "AccountCustomerRefundCommandHandler_execute env data db
    = Inr (True, move env (mv_customerId data) c TT_REFUND c (open_account env (mv_customerId data) db))"
proof -
  let ?k = "mv_customerId data"
  have c: "amount c" using amt by (simp add: valid_amount_def)
  have "?k \<in> ac_customerId ` set (ad_accounts (open_account env ?k db))" by (simp add: open_account_def)
  with create_valid [OF k c this, of env TT_REFUND c] show ?thesis
    by (auto simp: AccountCustomerRefundCommandHandler_execute_def AccountInboxService_markProcessed_def
        inbox_createIfAbsent p valid_amount_fixed [OF amt] credit_absent [OF new k(1) c])
qed

lemma refund_execute_overflow:
  assumes amt: "valid_amount (mv_amount data) c"
    and p: "processed CUSTOMER_CHARGE (mv_chargeId data) db"
    and b: "\<not> int4 (mv_customerId data) \<or> (\<exists>b. balance (mv_customerId data) db = Some b \<and> \<not> numeric12_2 (b + c))"
  shows "AccountCustomerRefundCommandHandler_execute env data db = Inl NumericOutOfRange"
proof -
  have "list_ex (\<lambda>a. customer k a \<and> \<not> numeric12_2 (ac_balance a + c)) (ad_accounts db)"
    if "balance k db = Some b" "\<not> numeric12_2 (b + c)" for k b
    using that by (elim balance_Some) (auto simp: list_ex_iff customer_def)
  then show ?thesis using b
    by (auto simp: AccountCustomerRefundCommandHandler_execute_def AccountInboxService_markProcessed_def
        inbox_createIfAbsent p valid_amount_fixed [OF amt] AccountRepository_credit_def)
qed

lemma refund_execute_inv:
  assumes inv: "account_inv db" and amt: "valid_amount (mv_amount data) c" and k: "0 < mv_customerId data"
    and ex: "AccountCustomerRefundCommandHandler_execute env data db = Inr (r, db')"
  shows "account_inv db'"
proof (cases "processed CUSTOMER_CHARGE (mv_chargeId data) db")
  case False
  then show ?thesis using ex remember_inv [OF inv False, of env] by (auto simp: refund_execute_fence)
next
  case p: True
  let ?k = "mv_customerId data"
  have c: "amount c" "0 < c" using amt by (simp_all add: valid_amount_def)
  have ov: "\<not> (\<not> int4 ?k \<or> (\<exists>b. balance ?k db = Some b \<and> \<not> numeric12_2 (b + c)))"
    using refund_execute_overflow [OF amt p, of env] ex by fastforce
  then have int4: "int4 ?k" by blast
  show ?thesis
  proof (cases "balance ?k db")
    case None
    then have new: "?k \<notin> ac_customerId ` set (ad_accounts db)" by (simp add: balance_None)
    from refund_execute_open [OF amt int4 k p new] ex
    have db': "db' = move env ?k c TT_REFUND c (open_account env ?k db)" by simp
    show ?thesis unfolding db'
      by (rule move_inv [OF open_account_inv [OF inv new] open_account_balance [OF new]])
        (use c in \<open>simp_all add: amount_numeric12_2\<close>)
  next
    case (Some b)
    then have r: "numeric12_2 (b + c)" using ov by blast
    from refund_execute_credit [OF inv amt int4 k p Some r] ex
    have db': "db' = move env ?k c TT_REFUND c db" by simp
    show ?thesis unfolding db'
      by (rule move_inv [OF inv Some _ r]) (use c account_balance_bounds [OF inv Some] in simp_all)
  qed
qed

lemma charge_execute_inv:
  assumes inv: "account_inv db" and amt: "valid_amount (mv_amount data) c" and k: "0 < mv_customerId data"
    and ex: "AccountCustomerChargeCommandHandler_execute env data db = Inr (u, db')"
  shows "account_inv db'"
proof -
  let ?k = "mv_customerId data"
  have c: "0 < c" "amount c" using amt by (simp_all add: valid_amount_def)
  have "int4 ?k" using charge_out_of_range [OF amt, of env db] ex by fastforce
  then obtain b where b: "balance ?k db = Some b" "c \<le> b" "db' = move env ?k (- c) TT_PAYMENT c db"
    using charge_execute [OF inv amt _ k, of env] ex by (auto split: option.splits if_splits)
  show ?thesis
    unfolding b(3) by (rule move_inv [OF inv b(1)])
      (use b(2) c account_balance_bounds [OF inv b(1)] in \<open>simp_all add: numeric12_2_def\<close>)
qed

subsection \<open>The gateways\<close>

lemma charge_guard_valid:
  assumes "charge_guard isUUID msg = Some (mid, data)"
  obtains c where "valid_amount (mv_amount data) c" "0 < mv_customerId data"
proof -
  from assms obtain k amt where "AccountGateway_isValidMovement (jfield (Some msg) ''data'') = Some (k, amt)"
    "data = \<lparr>mv_customerId = k, mv_amount = amt\<rparr>"
    by (auto simp: charge_guard_def split: if_splits option.splits)
  then show thesis using valid_movement [of "jfield (Some msg) ''data''" k amt] that by auto
qed

lemma refund_guard_valid:
  assumes "refund_guard isUUID msg = Some (mid, data)"
  obtains c where "valid_amount (mv_amount data) c" "0 < mv_customerId data"
proof -
  from assms obtain k amt cid where "AccountGateway_isValidMovement (jfield (Some msg) ''data'') = Some (k, amt)"
    "data = \<lparr>mv_customerId = k, mv_amount = amt, mv_chargeId = cid\<rparr>"
    by (auto simp: refund_guard_def split: if_splits option.splits)
  then show thesis using valid_movement [of "jfield (Some msg) ''data''" k amt] that by auto
qed

lemma handleCustomerCharge_eq:
  assumes "charge_guard isUUID msg = Some (mid, data)"
  shows "AccountGateway_handleCustomerCharge isUUID env msg db =
    (if processed CUSTOMER_CHARGE mid db
     then (RpcReply (AccountGateway_toResponse env msg ChargeSuccess), db)
     else case AccountCustomerChargeCommandHandler_execute (account_env.truncate env) data
                 (remember (account_env.truncate env) CUSTOMER_CHARGE mid db) of
       Inr (_, db') \<Rightarrow> (RpcReply (AccountGateway_toResponse env msg ChargeSuccess), db')
     | Inl (AccountCustomerChargeRejected reason _ b) \<Rightarrow>
         (RpcReply (AccountGateway_toResponse env msg (ChargeRejected reason (toFixed2 b))), db)
     | Inl (ChargeDbError e) \<Rightarrow> (RpcThrow e, db))"
  by (simp add: AccountGateway_handleCustomerCharge_def assms transactional_def processOnce_eq
      split: sum.split charge_error.split)

lemma handleCustomerRefund_eq:
  assumes "refund_guard isUUID msg = Some (mid, data)"
  shows "AccountGateway_handleCustomerRefund isUUID env msg db =
    (if processed CUSTOMER_REFUND mid db
     then (RpcReply (AccountGateway_toRefundResponse env msg Refunded), db)
     else case AccountCustomerRefundCommandHandler_execute (account_env.truncate env) data
                 (remember (account_env.truncate env) CUSTOMER_REFUND mid db) of
       Inr (r, db') \<Rightarrow> (RpcReply (AccountGateway_toRefundResponse env msg (if r then Refunded else NotCharged)), db')
     | Inl e \<Rightarrow> (RpcThrow e, db))"
  by (simp add: AccountGateway_handleCustomerRefund_def assms transactional_def processOnce_eq split: sum.split)

lemma handleCustomerCharge_inv:
  assumes inv: "account_inv db"
  shows "account_inv (snd (AccountGateway_handleCustomerCharge isUUID env msg db))"
proof (cases "charge_guard isUUID msg")
  case None
  then show ?thesis using inv by (simp add: AccountGateway_handleCustomerCharge_def)
next
  case (Some p)
  then obtain mid data where g: "charge_guard isUUID msg = Some (mid, data)" by (cases p) simp
  obtain c where c: "valid_amount (mv_amount data) c" "0 < mv_customerId data" by (rule charge_guard_valid [OF g])
  show ?thesis
  proof (cases "processed CUSTOMER_CHARGE mid db")
    case False
    from charge_execute_inv [OF remember_inv [OF inv False] c] show ?thesis
      using inv False by (auto simp: handleCustomerCharge_eq [OF g] split: sum.splits charge_error.splits)
  qed (simp add: handleCustomerCharge_eq [OF g] inv)
qed

lemma handleCustomerRefund_inv:
  assumes inv: "account_inv db"
  shows "account_inv (snd (AccountGateway_handleCustomerRefund isUUID env msg db))"
proof (cases "refund_guard isUUID msg")
  case None
  then show ?thesis using inv by (simp add: AccountGateway_handleCustomerRefund_def)
next
  case (Some p)
  then obtain mid data where g: "refund_guard isUUID msg = Some (mid, data)" by (cases p) simp
  obtain c where c: "valid_amount (mv_amount data) c" "0 < mv_customerId data" by (rule refund_guard_valid [OF g])
  show ?thesis
  proof (cases "processed CUSTOMER_REFUND mid db")
    case False
    from refund_execute_inv [OF remember_inv [OF inv False] c] show ?thesis
      using inv False by (auto simp: handleCustomerRefund_eq [OF g] split: sum.splits)
  qed (simp add: handleCustomerRefund_eq [OF g] inv)
qed

lemma user_event_inv:
  assumes "account_inv db" and "AccountUserEventsGateway_handle zUuid env event db = Inr (u, db')"
  shows "account_inv db'"
  using assms open_account_inv [of db _ env]
  by (auto simp: AccountUserEventsGateway_handle_def AccountCreateCommandHandler_execute_def
      AccountRepository_createIfAbsent_def open_account_def split: if_splits option.splits sum.splits)

text \<open>Every message to the service, in any order.\<close>

inductive account_step :: "(string \<Rightarrow> bool) \<Rightarrow> account_db \<Rightarrow> account_db \<Rightarrow> bool" for isUUID where
  charge: "AccountGateway_handleCustomerCharge isUUID env msg db = (reply, db') \<Longrightarrow> account_step isUUID db db'"
| refund: "AccountGateway_handleCustomerRefund isUUID env msg db = (reply', db') \<Longrightarrow> account_step isUUID db db'"
| user_created: "transactional (AccountUserEventsGateway_handle zUuid uenv event) db = (r, db') \<Longrightarrow> account_step isUUID db db'"

lemma account_step_inv: "account_step isUUID db db' \<Longrightarrow> account_inv db \<Longrightarrow> account_inv db'"
proof (induction rule: account_step.induct)
  case (user_created zUuid uenv event db r db')
  then show ?case using user_event_inv by (metis transactional_invariant snd_conv)
qed (metis handleCustomerCharge_inv handleCustomerRefund_inv snd_conv)+

subsection \<open>One order's charge and refund\<close>

text \<open>
  The messages of one order: a charge and a refund that names it, for the same customer and amount.
  The broker may deliver each of them any number of times and in any order.
\<close>

datatype delivery = DeliverCharge account_reply_env | DeliverRefund account_reply_env

fun deliver :: "(string \<Rightarrow> bool) \<Rightarrow> json \<Rightarrow> json \<Rightarrow> delivery list \<Rightarrow> account_db \<Rightarrow> account_db" where
  "deliver isUUID cmsg rmsg [] db = db"
| "deliver isUUID cmsg rmsg (DeliverCharge env # ds) db =
     deliver isUUID cmsg rmsg ds (snd (AccountGateway_handleCustomerCharge isUUID env cmsg db))"
| "deliver isUUID cmsg rmsg (DeliverRefund env # ds) db =
     deliver isUUID cmsg rmsg ds (snd (AccountGateway_handleCustomerRefund isUUID env rmsg db))"

definition order_messages ::
  "(string \<Rightarrow> bool) \<Rightarrow> json \<Rightarrow> json \<Rightarrow> uuid \<Rightarrow> uuid \<Rightarrow> int \<Rightarrow> int \<Rightarrow> bool" where
  "order_messages isUUID cmsg rmsg cid rid k c \<longleftrightarrow> int4 k \<and>
     (\<exists>amt. charge_guard isUUID cmsg = Some (cid, \<lparr>mv_customerId = k, mv_amount = amt\<rparr>)
       \<and> refund_guard isUUID rmsg = Some (rid, \<lparr>mv_customerId = k, mv_amount = amt, mv_chargeId = cid\<rparr>)
       \<and> pg_cents amt = Some c)"

text \<open>The state of an order's payment is read off the inbox, and the balance follows it.\<close>

definition settlement :: "uuid \<Rightarrow> uuid \<Rightarrow> int \<Rightarrow> int \<Rightarrow> int \<Rightarrow> account_db \<Rightarrow> bool" where
  "settlement cid rid k c b db \<longleftrightarrow> account_inv db \<and> numeric12_2 b
     \<and> (processed CUSTOMER_REFUND rid db \<longrightarrow> processed CUSTOMER_CHARGE cid db)
     \<and> balance k db = Some (if processed CUSTOMER_CHARGE cid db \<and> \<not> processed CUSTOMER_REFUND rid db then b - c else b)"

lemma order_messages_valid:
  assumes "order_messages isUUID cmsg rmsg cid rid k c"
  obtains amt where "valid_amount amt c" "0 < k" "int4 k"
    "charge_guard isUUID cmsg = Some (cid, \<lparr>mv_customerId = k, mv_amount = amt\<rparr>)"
    "refund_guard isUUID rmsg = Some (rid, \<lparr>mv_customerId = k, mv_amount = amt, mv_chargeId = cid\<rparr>)"
proof -
  from assms obtain amt where amt: "charge_guard isUUID cmsg = Some (cid, \<lparr>mv_customerId = k, mv_amount = amt\<rparr>)"
    "refund_guard isUUID rmsg = Some (rid, \<lparr>mv_customerId = k, mv_amount = amt, mv_chargeId = cid\<rparr>)"
    "pg_cents amt = Some c" "int4 k" by (auto simp: order_messages_def)
  obtain c' where "valid_amount amt c'" "0 < k" using charge_guard_valid [OF amt(1)] by auto
  moreover have "c' = c" using calculation(1) amt(3) by (simp add: valid_amount_def)
  ultimately show thesis using that amt by blast
qed

lemma settlement_charge:
  assumes "settlement cid rid k c b db" and "order_messages isUUID cmsg rmsg cid rid k c"
  shows "settlement cid rid k c b (snd (AccountGateway_handleCustomerCharge isUUID env cmsg db))"
proof -
  obtain amt where amt: "valid_amount amt c" "0 < k" "int4 k"
    and g: "charge_guard isUUID cmsg = Some (cid, \<lparr>mv_customerId = k, mv_amount = amt\<rparr>)"
    by (rule order_messages_valid [OF assms(2)])
  have inv: "account_inv db" using assms(1) by (simp add: settlement_def)
  show ?thesis
  proof (cases "processed CUSTOMER_CHARGE cid db")
    case False
    let ?env = "account_env.truncate env" and ?data = "\<lparr>mv_customerId = k, mv_amount = amt\<rparr>"
    have ex: "AccountCustomerChargeCommandHandler_execute ?env ?data (remember ?env CUSTOMER_CHARGE cid db)
      = (if c \<le> b then Inr ((), move ?env k (- c) TT_PAYMENT c (remember ?env CUSTOMER_CHARGE cid db))
         else Inl (AccountCustomerChargeRejected insufficient_amount (to_double (of_int c / 100)) (to_double (of_int b / 100))))"
      using charge_execute [OF remember_inv [OF inv False], of ?data c] amt False assms(1)
      by (simp add: settlement_def)
    from handleCustomerCharge_inv [OF inv, of isUUID env cmsg] show ?thesis
      using False assms(1) unfolding settlement_def by (simp add: handleCustomerCharge_eq [OF g] ex)
  qed (simp add: handleCustomerCharge_eq [OF g] assms(1))
qed

lemma settlement_refund:
  assumes "settlement cid rid k c b db" and "order_messages isUUID cmsg rmsg cid rid k c"
  shows "settlement cid rid k c b (snd (AccountGateway_handleCustomerRefund isUUID env rmsg db))
    \<and> processed CUSTOMER_REFUND rid (snd (AccountGateway_handleCustomerRefund isUUID env rmsg db))"
proof -
  obtain amt where amt: "valid_amount amt c" "0 < k" "int4 k"
    and g: "refund_guard isUUID rmsg = Some (rid, \<lparr>mv_customerId = k, mv_amount = amt, mv_chargeId = cid\<rparr>)"
    by (rule order_messages_valid [OF assms(2)])
  have inv: "account_inv db" using assms(1) by (simp add: settlement_def)
  show ?thesis
  proof (cases "processed CUSTOMER_REFUND rid db")
    case False
    let ?env = "account_env.truncate env"
    let ?data = "\<lparr>mv_customerId = k, mv_amount = amt, mv_chargeId = cid\<rparr>" and ?db = "remember ?env CUSTOMER_REFUND rid db"
    have inv': "account_inv (snd (AccountGateway_handleCustomerRefund isUUID env rmsg db))"
      by (rule handleCustomerRefund_inv [OF inv])
    show ?thesis
    proof (cases "processed CUSTOMER_CHARGE cid db")
      case True
      then have b: "balance k ?db = Some (b - c)" using False assms(1) by (simp add: settlement_def)
      have "account_inv ?db" by (rule remember_inv [OF inv False])
      then have "AccountCustomerRefundCommandHandler_execute ?env ?data ?db = Inr (True, move ?env k c TT_REFUND c ?db)"
        using refund_execute_credit [of ?db ?data c "b - c" ?env] amt b True assms(1)
        by (simp add: settlement_def)
      then show ?thesis using inv' False True assms(1)
        by (simp add: handleCustomerRefund_eq [OF g] settlement_def)
    next
      case uncharged: False
      then show ?thesis using inv' False assms(1)
        by (simp add: handleCustomerRefund_eq [OF g] refund_execute_fence settlement_def)
    qed
  qed (simp add: handleCustomerRefund_eq [OF g] assms(1))
qed

lemma settlement_processed:
  assumes "settlement cid rid k c b db" and "order_messages isUUID cmsg rmsg cid rid k c"
  shows "processed CUSTOMER_REFUND rid db
    \<Longrightarrow> processed CUSTOMER_REFUND rid (snd (AccountGateway_handleCustomerCharge isUUID env cmsg db))"
proof -
  assume r: "processed CUSTOMER_REFUND rid db"
  then have "processed CUSTOMER_CHARGE cid db" using assms(1) by (simp add: settlement_def)
  moreover obtain amt where "charge_guard isUUID cmsg = Some (cid, \<lparr>mv_customerId = k, mv_amount = amt\<rparr>)"
    by (rule order_messages_valid [OF assms(2)])
  ultimately show ?thesis using r by (simp add: handleCustomerCharge_eq)
qed

definition is_refund :: "delivery \<Rightarrow> bool" where
  "is_refund d = (case d of DeliverRefund _ \<Rightarrow> True | DeliverCharge _ \<Rightarrow> False)"

lemma deliver_settlement:
  assumes "settlement cid rid k c b db" and "order_messages isUUID cmsg rmsg cid rid k c"
  shows "settlement cid rid k c b (deliver isUUID cmsg rmsg ds db)
    \<and> (processed CUSTOMER_REFUND rid db \<or> list_ex is_refund ds
        \<longrightarrow> processed CUSTOMER_REFUND rid (deliver isUUID cmsg rmsg ds db))"
  using assms(1)
proof (induction ds arbitrary: db)
  case (Cons d ds)
  show ?case
  proof (cases d)
    case (DeliverCharge env)
    with Cons.IH [OF settlement_charge [OF Cons.prems assms(2), of env]]
      settlement_processed [OF Cons.prems assms(2), of env]
    show ?thesis by (auto simp: is_refund_def)
  next
    case (DeliverRefund env)
    with Cons.IH settlement_refund [OF Cons.prems assms(2), of env]
    show ?thesis by (auto simp: is_refund_def)
  qed
qed simp

subsection \<open>What the service guarantees\<close>

definition demo_account_env :: account_reply_env where
  "demo_account_env = \<lparr>ae_now = 0, ae_txId = 1, ae_txPublicId = ''tx'', are_randomUUID = ''reply''\<rparr>"

definition demo_ledger :: account_db where
  "demo_ledger =
     \<lparr>ad_accounts = [\<lparr>ac_customerId = 7, ac_balance = 10000, ac_createdAt = 0, ac_updatedAt = 0\<rparr>],
      ad_transactions =
        [\<lparr>tr_id = 1, tr_publicId = ''t'', tr_customerId = 7, tr_amount = 10000, tr_status = TS_SUCCESS,
          tr_type = TT_DEPOSIT, tr_createdAt = 0, tr_updatedAt = 0, tr_deletedAt = None\<rparr>],
      ad_inbox = []\<rparr>"

lemma demo_ledger_inv: "account_inv demo_ledger"
  by (simp add: account_inv_def demo_ledger_def ledger_sum_def signed_amount_def numeric12_2_def amount_def)

definition demo_charge :: json where
  "demo_charge = cloud_event_json customer_charge_data_json
     \<lparr>ce_specversion = ''1.0'', ce_id = ''order'', ce_source = ''/order-service'', ce_type = ''account.customer.charge'',
      ce_time = ''now'', ce_datacontenttype = ''application/json'', ce_subject = Some (JStr ''order''),
      ce_correlationid = None, ce_data = \<lparr>mv_customerId = 7, mv_amount = fmt_cents 2550\<rparr>\<rparr>"

definition demo_refund :: json where
  "demo_refund = cloud_event_json customer_refund_data_json
     \<lparr>ce_specversion = ''1.0'', ce_id = ''order'', ce_source = ''/order-service'', ce_type = ''account.customer.refund'',
      ce_time = ''now'', ce_datacontenttype = ''application/json'', ce_subject = Some (JStr ''order''),
      ce_correlationid = None, ce_data = \<lparr>mv_customerId = 7, mv_amount = fmt_cents 2550, mv_chargeId = ''order''\<rparr>\<rparr>"

lemma isValidMovement_json:
  assumes "0 < k" "int4 k" "amount c" "0 < c"
  shows "AccountGateway_isValidMovement
      (Some (JObj ((''customerId'', JNum (of_int k)) # (''amount'', JStr (fmt_cents c)) # rest))) = Some (k, fmt_cents c)"
  using assms int4_safe [OF assms(2)] amount_regex_fmt_cents [OF assms(3)] to_double_pos [OF assms(4)]
  by (simp add: AccountGateway_isValidMovement_def amount_number_def)

lemma demo_charge_guard:
  "charge_guard (\<lambda>_. True) demo_charge = Some (''order'', \<lparr>mv_customerId = 7, mv_amount = fmt_cents 2550\<rparr>)"
  using isValidMovement_json [of 7 2550 "[]"]
  by (simp add: charge_guard_def demo_charge_def message_simps int4_def amount_def del: safe_integer.simps)

lemma demo_refund_guard:
  "refund_guard (\<lambda>_. True) demo_refund
    = Some (''order'', \<lparr>mv_customerId = 7, mv_amount = fmt_cents 2550, mv_chargeId = ''order''\<rparr>)"
  using isValidMovement_json [of 7 2550 "[(''chargeId'', JStr ''order'')]"]
  by (simp add: refund_guard_def demo_refund_def message_simps int4_def amount_def del: safe_integer.simps)

text \<open>
  C5. Whatever arrives at the service, in whatever order: every balance equals the sum of the
  customer's successful transactions, and none is negative.
\<close>

theorem account_reachable_inv:
  assumes "(account_step isUUID)\<^sup>*\<^sup>* db db'" and "account_inv db"
  shows "account_inv db'"
  using assms by (induction rule: rtranclp_induct) (auto dest: account_step_inv)

theorem account_reachable_inv_witness:
  "account_inv (snd (AccountGateway_handleCustomerCharge (\<lambda>_. True) demo_account_env demo_charge demo_ledger))"
proof (rule account_reachable_inv [of "\<lambda>_. True" demo_ledger])
  show "(account_step (\<lambda>_. True))\<^sup>*\<^sup>* demo_ledger
    (snd (AccountGateway_handleCustomerCharge (\<lambda>_. True) demo_account_env demo_charge demo_ledger))"
    by (rule r_into_rtranclp) (metis account_step.charge surjective_pairing)
qed (rule demo_ledger_inv)

text \<open>
  C20. A charge message with a valid envelope, for a customer id the column can hold, is decided
  by the balance alone: it takes exactly the stated amount and records one payment when the balance
  covers it; otherwise it reports the exact balance, or that there is no account, and changes
  nothing, not even the inbox.
\<close>

theorem account_charge_decision:
  assumes inv: "account_inv db" and g: "charge_guard isUUID msg = Some (mid, data)"
    and new: "\<not> processed CUSTOMER_CHARGE mid db" and k: "int4 (mv_customerId data)"
    and c: "pg_cents (mv_amount data) = Some c"
  shows "AccountGateway_handleCustomerCharge isUUID env msg db =
    (case balance (mv_customerId data) db of
       None \<Rightarrow> (RpcReply (AccountGateway_toResponse env msg (ChargeRejected customer_not_found ''0.00'')), db)
     | Some b \<Rightarrow>
         if c \<le> b
         then (RpcReply (AccountGateway_toResponse env msg ChargeSuccess),
               move (account_env.truncate env) (mv_customerId data) (- c) TT_PAYMENT c
                 (remember (account_env.truncate env) CUSTOMER_CHARGE mid db))
         else (RpcReply (AccountGateway_toResponse env msg (ChargeRejected insufficient_amount (fmt_cents b))), db))"
proof -
  obtain c' where c': "valid_amount (mv_amount data) c'" "0 < mv_customerId data" by (rule charge_guard_valid [OF g])
  then have valid: "valid_amount (mv_amount data) c" using c by (simp add: valid_amount_def)
  have "fmt_nat_cents 0 = ''0.00''" by code_simp
  then have zero: "toFixed2 0 = ''0.00''" by (simp add: toFixed2_def)
  have fixed: "toFixed2 (to_double (of_int b / 100)) = fmt_cents b" if "balance (mv_customerId data) db = Some b" for b
    using account_balance_bounds [OF inv that] by (intro toFixed2_to_double) (auto simp: amount_def numeric12_2_def)
  show ?thesis
    using charge_execute [OF remember_inv [OF inv new] valid k c'(2), of "account_env.truncate env"] new
    by (auto simp: handleCustomerCharge_eq [OF g] zero fixed split: option.split)
qed

theorem account_charge_decision_witness:
  "fst (AccountGateway_handleCustomerCharge (\<lambda>_. True) demo_account_env demo_charge demo_ledger)
    = RpcReply (AccountGateway_toResponse demo_account_env demo_charge ChargeSuccess)"
  using account_charge_decision [OF demo_ledger_inv demo_charge_guard, of 2550 demo_account_env]
  by (simp add: processed_def demo_ledger_def balance_def customer_def int4_def)

text \<open>
  A charge takes effect once: redelivering a charge that was answered \<open>success\<close> answers
  \<open>success\<close> again and moves no money.
\<close>

theorem account_charge_idempotent:
  assumes "AccountGateway_handleCustomerCharge isUUID env msg db = (RpcReply ev, db')"
    and "ce_data ev = ChargeSuccess" and "account_inv db"
  shows "AccountGateway_handleCustomerCharge isUUID env' msg db'
    = (RpcReply (AccountGateway_toResponse env' msg ChargeSuccess), db')"
proof (cases "charge_guard isUUID msg")
  case (Some p)
  then obtain mid data where g: "charge_guard isUUID msg = Some (mid, data)" by (cases p) simp
  have "processed CUSTOMER_CHARGE mid db'"
  proof (cases "processed CUSTOMER_CHARGE mid db")
    case False
    obtain c where c: "valid_amount (mv_amount data) c" "0 < mv_customerId data" by (rule charge_guard_valid [OF g])
    from assms(1,2) False obtain u where
      ex: "AccountCustomerChargeCommandHandler_execute (account_env.truncate env) data
        (remember (account_env.truncate env) CUSTOMER_CHARGE mid db) = Inr (u, db')"
      by (auto simp: handleCustomerCharge_eq [OF g] AccountGateway_toResponse_def split: sum.splits charge_error.splits)
    then have "int4 (mv_customerId data)" using charge_out_of_range [OF c(1)] by fastforce
    with ex show ?thesis
      using charge_execute [OF remember_inv [OF assms(3) False] c(1) _ c(2), of "account_env.truncate env"]
      by (auto split: option.splits if_splits)
  qed (use assms(1) in \<open>auto simp: handleCustomerCharge_eq [OF g]\<close>)
  then show ?thesis by (simp add: handleCustomerCharge_eq [OF g])
qed (use assms(1) in \<open>simp add: AccountGateway_handleCustomerCharge_def\<close>)

theorem account_charge_idempotent_witness:
  "\<exists>db'. AccountGateway_handleCustomerCharge (\<lambda>_. True) demo_account_env demo_charge db'
    = (RpcReply (AccountGateway_toResponse demo_account_env demo_charge ChargeSuccess), db')"
proof -
  obtain db' where "AccountGateway_handleCustomerCharge (\<lambda>_. True) demo_account_env demo_charge demo_ledger
    = (RpcReply (AccountGateway_toResponse demo_account_env demo_charge ChargeSuccess), db')"
    using charge_execute [OF remember_inv [OF demo_ledger_inv], where data = "\<lparr>mv_customerId = 7, mv_amount = fmt_cents 2550\<rparr>"
        and c = 2550]
    by (simp add: handleCustomerCharge_eq [OF demo_charge_guard] processed_def demo_ledger_def balance_def customer_def
        int4_def valid_amount_def amount_def amount_regex_fmt_cents)
  from account_charge_idempotent [OF this _ demo_ledger_inv] show ?thesis
    by (auto simp: AccountGateway_toResponse_def)
qed

text \<open>
  C7. The charge and the refund of one order, delivered any number of times in any order: the
  customer's balance is the original one or the original less the amount, and once a refund has
  been delivered it is and stays the original one, also when the charge arrives after it.
\<close>

theorem account_order_settles:
  assumes inv: "account_inv db" and msgs: "order_messages isUUID cmsg rmsg cid rid k c"
    and new: "\<not> processed CUSTOMER_CHARGE cid db" "\<not> processed CUSTOMER_REFUND rid db"
    and b: "balance k db = Some b"
  shows "balance k (deliver isUUID cmsg rmsg ds db) \<in> {Some b, Some (b - c)}
    \<and> (list_ex is_refund ds \<longrightarrow> balance k (deliver isUUID cmsg rmsg ds db) = Some b)"
proof -
  have "settlement cid rid k c b db"
    using inv new b account_balance_bounds [OF inv b] by (simp add: settlement_def)
  from deliver_settlement [OF this msgs, of ds] show ?thesis by (auto simp: settlement_def)
qed

theorem account_order_settles_witness:
  "balance 7 (deliver (\<lambda>_. True) demo_charge demo_refund
     [DeliverCharge demo_account_env, DeliverRefund demo_account_env, DeliverCharge demo_account_env] demo_ledger) = Some 10000"
proof -
  have "order_messages (\<lambda>_. True) demo_charge demo_refund ''order'' ''order'' 7 2550"
    by (simp add: order_messages_def demo_charge_guard demo_refund_guard int4_def)
  then show ?thesis
    using account_order_settles [OF demo_ledger_inv, where ds = "[DeliverCharge demo_account_env,
        DeliverRefund demo_account_env, DeliverCharge demo_account_env]"]
    by (simp add: processed_def demo_ledger_def balance_def customer_def is_refund_def)
qed

text \<open>
  A refund of a charge that never arrived is answered \<open>not_charged\<close> and moves no money, and it
  fences the charge: a charge delivered afterwards moves none either. A redelivery of the same
  refund is answered \<open>refunded\<close>, although nothing was refunded: the flag of the handler starts as
  true and a skipped effect does not set it.
\<close>

theorem account_fenced_refund:
  assumes g: "refund_guard isUUID rmsg = Some (rid, data)"
    and new: "\<not> processed CUSTOMER_REFUND rid db" "\<not> processed CUSTOMER_CHARGE (mv_chargeId data) db"
  shows "\<exists>db'. AccountGateway_handleCustomerRefund isUUID env rmsg db
      = (RpcReply (AccountGateway_toRefundResponse env rmsg NotCharged), db')
    \<and> ad_accounts db' = ad_accounts db \<and> ad_transactions db' = ad_transactions db
    \<and> processed CUSTOMER_CHARGE (mv_chargeId data) db'
    \<and> AccountGateway_handleCustomerRefund isUUID env' rmsg db'
      = (RpcReply (AccountGateway_toRefundResponse env' rmsg Refunded), db')"
  using new by (simp add: handleCustomerRefund_eq [OF g] refund_execute_fence)

theorem account_fenced_refund_witness:
  "fst (AccountGateway_handleCustomerRefund (\<lambda>_. True) demo_account_env demo_refund demo_ledger)
    = RpcReply (AccountGateway_toRefundResponse demo_account_env demo_refund NotCharged)"
  using account_fenced_refund [OF demo_refund_guard, of demo_ledger demo_account_env demo_account_env]
  by (auto simp: processed_def demo_ledger_def)

end
