(* ===== verification/Order_Workflow.thy ===== *)
theory Order_Workflow
  imports Order_Core Account
begin

section \<open>The workflow of an order\<close>

text \<open>
  The Temporal workflow that reserves the stock of an order, charges its buyer and marks the order
  paid, or compensates and marks it failed (\<open>src/src/order/workflow\<close>, \<open>src/src/order/activity\<close>). The
  requests travel as JSON through RabbitMQ to the gateways of \<open>Seller_Offer\<close> and \<open>Account\<close>. A script
  decides what the network does: whether an attempt is handled, whether its answer arrives in time,
  and which of the requests sent before are handled (again) in between. Temporal retries an activity;
  the two activities with a schedule-to-close timeout give up after finitely many attempts, the others
  never do, so that a workflow whose script ends inside one of them is still running (\<open>None\<close>).
\<close>

subsection \<open>Requests\<close>

definition toStockReserveRequest :: "time \<Rightarrow> uuid \<Rightarrow> stock_item list \<Rightarrow> stock_reserve_data cloud_event" where
  "toStockReserveRequest now i items =
     \<lparr>ce_specversion = ''1.0'', ce_id = i, ce_source = source_value (mc_source StockReserveRequest),
      ce_type = mc_type StockReserveRequest, ce_time = toISOString now, ce_datacontenttype = ''application/json'',
      ce_subject = Some (JStr i), ce_correlationid = Some (JStr i), ce_data = \<lparr>srd_items = items\<rparr>\<rparr>"

definition toStockReleaseRequest :: "time \<Rightarrow> uuid \<Rightarrow> stock_release_data cloud_event" where
  "toStockReleaseRequest now i =
     \<lparr>ce_specversion = ''1.0'', ce_id = i, ce_source = source_value (mc_source StockReleaseRequest),
      ce_type = mc_type StockReleaseRequest, ce_time = toISOString now, ce_datacontenttype = ''application/json'',
      ce_subject = Some (JStr i), ce_correlationid = Some (JStr i), ce_data = \<lparr>sld_orderPublicId = i\<rparr>\<rparr>"

definition toAccountCustomerChargeRequest :: "time \<Rightarrow> uuid \<Rightarrow> int \<Rightarrow> string \<Rightarrow> customer_charge_data cloud_event" where
  "toAccountCustomerChargeRequest now i customerId amt =
     \<lparr>ce_specversion = ''1.0'', ce_id = i, ce_source = source_value (mc_source AccountCustomerChargeRequest),
      ce_type = mc_type AccountCustomerChargeRequest, ce_time = toISOString now, ce_datacontenttype = ''application/json'',
      ce_subject = Some (JStr i), ce_correlationid = Some (JStr i),
      ce_data = \<lparr>mv_customerId = customerId, mv_amount = amt\<rparr>\<rparr>"

definition toAccountCustomerRefundRequest :: "time \<Rightarrow> uuid \<Rightarrow> int \<Rightarrow> string \<Rightarrow> customer_refund_data cloud_event" where
  "toAccountCustomerRefundRequest now i customerId amt =
     \<lparr>ce_specversion = ''1.0'', ce_id = i, ce_source = source_value (mc_source AccountCustomerRefundRequest),
      ce_type = mc_type AccountCustomerRefundRequest, ce_time = toISOString now, ce_datacontenttype = ''application/json'',
      ce_subject = Some (JStr i), ce_correlationid = Some (JStr i),
      ce_data = \<lparr>mv_customerId = customerId, mv_amount = amt, mv_chargeId = i\<rparr>\<rparr>"

subsection \<open>The world and the network\<close>

datatype request = RqReserve | RqRelease | RqCharge | RqRefund

record world =
  wl_seller :: seller_db
  wl_account :: account_db
  wl_order :: order_db
  wl_sent :: "request list"

text \<open>The clocks, uuids and ids that one delivery of a request meets.\<close>

record message_env =
  me_sent :: time
  me_now :: time
  me_reply :: reply_env
  me_account :: account_reply_env

text \<open>
  What happens to an attempt: the answer arrives, or the five seconds pass, with the request handled
  or not. \<open>at_redelivered\<close> are requests of this order that reach their service just before: delayed
  ones, or ones that the broker delivers again.
\<close>

datatype rpc_outcome = Answered | TimedOut bool

record attempt =
  at_redelivered :: "(request \<times> message_env) list"
  at_outcome :: rpc_outcome
  at_message :: message_env
  at_order :: order_env

text \<open>The message of this order that a request stands for, handled by the service it is bound to.\<close>

definition handle_reserve ::
  "(string \<Rightarrow> bool) \<Rightarrow> order_place_workflow_input \<Rightarrow> message_env \<Rightarrow> world \<Rightarrow> stock_reserve_response cloud_event rpc \<times> world" where
  "handle_reserve isUUID input e w =
     (case SellerOfferGateway_handleStockReserve isUUID (me_reply e) (me_now e)
             (cloud_event_json stock_reserve_data_json (toStockReserveRequest (me_sent e) (wi_orderPublicId input) (wi_items input)))
             (wl_seller w) of
        (reply, db) \<Rightarrow> (reply, w\<lparr>wl_seller := db\<rparr>))"

definition handle_release ::
  "(string \<Rightarrow> bool) \<Rightarrow> order_place_workflow_input \<Rightarrow> message_env \<Rightarrow> world \<Rightarrow> stock_release_response cloud_event rpc \<times> world" where
  "handle_release isUUID input e w =
     (case SellerOfferGateway_handleStockRelease isUUID (me_reply e) (me_now e)
             (cloud_event_json stock_release_data_json (toStockReleaseRequest (me_sent e) (wi_orderPublicId input)))
             (wl_seller w) of
        (reply, db) \<Rightarrow> (reply, w\<lparr>wl_seller := db\<rparr>))"

definition handle_charge ::
  "(string \<Rightarrow> bool) \<Rightarrow> order_place_workflow_input \<Rightarrow> message_env \<Rightarrow> world \<Rightarrow> charge_response cloud_event rpc \<times> world" where
  "handle_charge isUUID input e w =
     (case AccountGateway_handleCustomerCharge isUUID (me_account e)
             (cloud_event_json customer_charge_data_json
                (toAccountCustomerChargeRequest (me_sent e) (wi_orderPublicId input) (wi_userId input) (wi_totalAmount input)))
             (wl_account w) of
        (reply, db) \<Rightarrow> (reply, w\<lparr>wl_account := db\<rparr>))"

definition handle_refund ::
  "(string \<Rightarrow> bool) \<Rightarrow> order_place_workflow_input \<Rightarrow> message_env \<Rightarrow> world \<Rightarrow> refund_response cloud_event rpc \<times> world" where
  "handle_refund isUUID input e w =
     (case AccountGateway_handleCustomerRefund isUUID (me_account e)
             (cloud_event_json customer_refund_data_json
                (toAccountCustomerRefundRequest (me_sent e) (wi_orderPublicId input) (wi_userId input) (wi_totalAmount input)))
             (wl_account w) of
        (reply, db) \<Rightarrow> (reply, w\<lparr>wl_account := db\<rparr>))"

fun redeliver_one :: "(string \<Rightarrow> bool) \<Rightarrow> order_place_workflow_input \<Rightarrow> request \<times> message_env \<Rightarrow> world \<Rightarrow> world" where
  "redeliver_one isUUID input (RqReserve, e) w = snd (handle_reserve isUUID input e w)"
| "redeliver_one isUUID input (RqRelease, e) w = snd (handle_release isUUID input e w)"
| "redeliver_one isUUID input (RqCharge, e) w = snd (handle_charge isUUID input e w)"
| "redeliver_one isUUID input (RqRefund, e) w = snd (handle_refund isUUID input e w)"

definition redeliver :: "(string \<Rightarrow> bool) \<Rightarrow> order_place_workflow_input \<Rightarrow> attempt \<Rightarrow> world \<Rightarrow> world" where
  "redeliver isUUID input a w =
     fold (redeliver_one isUUID input) (filter (\<lambda>d. fst d \<in> set (wl_sent w)) (at_redelivered a)) w"

text \<open>\<open>amqpConnection.request\<close>: the answer, or \<open>None\<close> for the timeout error.\<close>

definition amqp_request ::
  "request \<Rightarrow> attempt \<Rightarrow> (message_env \<Rightarrow> world \<Rightarrow> 'r rpc \<times> world) \<Rightarrow> world \<Rightarrow> 'r option \<times> world" where
  "amqp_request rq a handle w =
     (let w1 = w\<lparr>wl_sent := rq # wl_sent w\<rparr>
      in case at_outcome a of
           TimedOut False \<Rightarrow> (None, w1)
         | TimedOut True \<Rightarrow> (None, snd (handle (at_message a) w1))
         | Answered \<Rightarrow>
             (case handle (at_message a) w1 of
                (RpcReply r, w2) \<Rightarrow> (Some r, w2)
              | (_, w2) \<Rightarrow> (None, w2)))"

subsection \<open>Activities\<close>

datatype OrderPlaceFailureTypeEnum = INSUFFICIENT_STOCK | PAYMENT_REJECTED

datatype activity_error = NonRetryable OrderPlaceFailureTypeEnum | Retryable

type_synonym activity = "attempt \<Rightarrow> world \<Rightarrow> (activity_error + unit) \<times> world"

definition OrderPlaceActivity_reserveStock :: "(string \<Rightarrow> bool) \<Rightarrow> order_place_workflow_input \<Rightarrow> activity" where
  "OrderPlaceActivity_reserveStock isUUID input a w =
     (case amqp_request RqReserve a (handle_reserve isUUID input) w of
        (None, w') \<Rightarrow> (Inl Retryable, w')
      | (Some response, w') \<Rightarrow>
          (case ce_data response of
             StockRejected _ _ \<Rightarrow> (Inl (NonRetryable INSUFFICIENT_STOCK), w')
           | StockReserved \<Rightarrow> (Inr (), w')))"

definition OrderPlaceActivity_releaseStock :: "(string \<Rightarrow> bool) \<Rightarrow> order_place_workflow_input \<Rightarrow> activity" where
  "OrderPlaceActivity_releaseStock isUUID input a w =
     (case amqp_request RqRelease a (handle_release isUUID input) w of
        (None, w') \<Rightarrow> (Inl Retryable, w')
      | (Some _, w') \<Rightarrow> (Inr (), w'))"

definition OrderPlaceActivity_chargeCustomer :: "(string \<Rightarrow> bool) \<Rightarrow> order_place_workflow_input \<Rightarrow> activity" where
  "OrderPlaceActivity_chargeCustomer isUUID input a w =
     (case amqp_request RqCharge a (handle_charge isUUID input) w of
        (None, w') \<Rightarrow> (Inl Retryable, w')
      | (Some response, w') \<Rightarrow>
          (case ce_data response of
             ChargeRejected _ _ \<Rightarrow> (Inl (NonRetryable PAYMENT_REJECTED), w')
           | ChargeSuccess \<Rightarrow> (Inr (), w')))"

definition OrderPlaceActivity_refundCustomer :: "(string \<Rightarrow> bool) \<Rightarrow> order_place_workflow_input \<Rightarrow> activity" where
  "OrderPlaceActivity_refundCustomer isUUID input a w =
     (case amqp_request RqRefund a (handle_refund isUUID input) w of
        (None, w') \<Rightarrow> (Inl Retryable, w')
      | (Some _, w') \<Rightarrow> (Inr (), w'))"

text \<open>An attempt at a database activity: it may fail to run, or commit without Temporal learning of it.\<close>

definition database_attempt :: "(order_env \<Rightarrow> (order_db, db_error, unit) tx) \<Rightarrow> activity" where
  "database_attempt body a w =
     (case at_outcome a of
        TimedOut False \<Rightarrow> (Inl Retryable, w)
      | TimedOut True \<Rightarrow> (Inl Retryable, w\<lparr>wl_order := snd (transactional (body (at_order a)) (wl_order w))\<rparr>)
      | Answered \<Rightarrow>
          (case transactional (body (at_order a)) (wl_order w) of
             (Inl _, db) \<Rightarrow> (Inl Retryable, w\<lparr>wl_order := db\<rparr>)
           | (Inr _, db) \<Rightarrow> (Inr (), w\<lparr>wl_order := db\<rparr>)))"

text \<open>
  Temporal's retries. \<open>run_bounded\<close> ends with the type of a non-retryable failure, or with \<open>None\<close> when
  the schedule-to-close timeout (or a cancellation) comes first; \<open>run_forever\<close> has no such limit.
\<close>

fun run_bounded ::
  "(string \<Rightarrow> bool) \<Rightarrow> order_place_workflow_input \<Rightarrow> activity \<Rightarrow> attempt list \<Rightarrow> world
    \<Rightarrow> (OrderPlaceFailureTypeEnum option + unit) \<times> world" where
  "run_bounded isUUID input act [] w = (Inl None, w)"
| "run_bounded isUUID input act (a # as) w =
     (case act a (redeliver isUUID input a w) of
        (Inr _, w') \<Rightarrow> (Inr (), w')
      | (Inl (NonRetryable t), w') \<Rightarrow> (Inl (Some t), w')
      | (Inl Retryable, w') \<Rightarrow> run_bounded isUUID input act as w')"

fun run_forever ::
  "(string \<Rightarrow> bool) \<Rightarrow> order_place_workflow_input \<Rightarrow> activity \<Rightarrow> attempt list \<Rightarrow> world \<Rightarrow> world option" where
  "run_forever isUUID input act [] w = None"
| "run_forever isUUID input act (a # as) w =
     (case act a (redeliver isUUID input a w) of
        (Inr _, w') \<Rightarrow> Some w'
      | (Inl _, w') \<Rightarrow> run_forever isUUID input act as w')"

subsection \<open>The workflow\<close>

definition toFailure :: "OrderPlaceFailureTypeEnum option \<Rightarrow> order_failure" where
  "toFailure failureType =
     (if failureType = Some INSUFFICIENT_STOCK then \<lparr>fl_status = OS_canceled, fl_reason = reason_insufficient_stock\<rparr>
      else if failureType = Some PAYMENT_REJECTED then \<lparr>fl_status = OS_failed_payment, fl_reason = reason_payment_rejected\<rparr>
      else \<lparr>fl_status = OS_canceled, fl_reason = reason_error\<rparr>)"

record script =
  sc_reserve :: "attempt list"
  sc_charge :: "attempt list"
  sc_refund :: "attempt list"
  sc_release :: "attempt list"
  sc_mark :: "attempt list"

datatype workflow_result = Returned OrderStatusEnum | Thrown

definition compensate ::
  "(string \<Rightarrow> bool) \<Rightarrow> order_place_workflow_input \<Rightarrow> script \<Rightarrow> bool \<Rightarrow> OrderPlaceFailureTypeEnum option \<Rightarrow> world
    \<Rightarrow> (workflow_result \<times> world) option" where
  "compensate isUUID input sc isChargeSent failureType w =
     (case (if isChargeSent \<and> failureType \<noteq> Some PAYMENT_REJECTED
            then run_forever isUUID input (OrderPlaceActivity_refundCustomer isUUID input) (sc_refund sc) w
            else Some w) of
        None \<Rightarrow> None
      | Some w1 \<Rightarrow>
          (case (if failureType \<noteq> Some INSUFFICIENT_STOCK
                 then run_forever isUUID input (OrderPlaceActivity_releaseStock isUUID input) (sc_release sc) w1
                 else Some w1) of
             None \<Rightarrow> None
           | Some w2 \<Rightarrow>
               (case run_forever isUUID input
                       (database_attempt (\<lambda>env. OrderPlaceActivity_markFailed env (wi_orderId input) (toFailure failureType)))
                       (sc_mark sc) w2 of
                  None \<Rightarrow> None
                | Some w3 \<Rightarrow>
                    Some (if failureType = None then Thrown else Returned (fl_status (toFailure failureType)), w3))))"

definition orderPlaceWorkflow ::
  "(string \<Rightarrow> bool) \<Rightarrow> order_place_workflow_input \<Rightarrow> script \<Rightarrow> world \<Rightarrow> (workflow_result \<times> world) option" where
  "orderPlaceWorkflow isUUID input sc w =
     (case run_bounded isUUID input (OrderPlaceActivity_reserveStock isUUID input) (sc_reserve sc) w of
        (Inl failureType, w1) \<Rightarrow> compensate isUUID input sc False failureType w1
      | (Inr _, w1) \<Rightarrow>
          (case run_bounded isUUID input (OrderPlaceActivity_chargeCustomer isUUID input) (sc_charge sc) w1 of
             (Inl failureType, w2) \<Rightarrow> compensate isUUID input sc True failureType w2
           | (Inr _, w2) \<Rightarrow>
               (case run_forever isUUID input
                       (database_attempt (\<lambda>env. OrderPlaceActivity_markPaid env (wi_orderId input))) (sc_mark sc) w2 of
                  None \<Rightarrow> None
                | Some w3 \<Rightarrow> Some (Returned OS_paid, w3))))"

subsection \<open>The requests pass the gateways\<close>

definition valid_workflow_input :: "(string \<Rightarrow> bool) \<Rightarrow> order_place_workflow_input \<Rightarrow> int \<Rightarrow> bool" where
  "valid_workflow_input isUUID input c \<longleftrightarrow>
     isUUID (wi_orderPublicId input) \<and> wi_items input \<noteq> []
     \<and> (\<forall>it\<in>set (wi_items input). 0 < it_offerId it \<and> it_offerId it \<le> max_safe_integer
          \<and> 0 < it_quantity it \<and> it_quantity it \<le> max_safe_integer)
     \<and> wi_totalAmount input = fmt_cents c \<and> amount c \<and> 0 < c \<and> 0 < wi_userId input \<and> int4 (wi_userId input)"

lemma valid_item_json:
  "0 < it_offerId it \<Longrightarrow> it_offerId it \<le> max_safe_integer \<Longrightarrow> 0 < it_quantity it \<Longrightarrow> it_quantity it \<le> max_safe_integer
    \<Longrightarrow> valid_item (stock_item_json it) = Some it"
  by (simp add: valid_item_def stock_item_json_def del: safe_integer.simps)

lemma those_map_Some: "(\<And>x. x \<in> set xs \<Longrightarrow> f x = Some (g x)) \<Longrightarrow> those (map f xs) = Some (map g xs)"
  by (induction xs) auto

lemma valid_items_json:
  assumes "valid_workflow_input isUUID input c"
  shows "SellerOfferGateway_isValidItems (Some (JArr (map stock_item_json (wi_items input)))) = Some (wi_items input)"
proof -
  have "those (map (\<lambda>it. valid_item (stock_item_json it)) (wi_items input)) = Some (map (\<lambda>it. it) (wi_items input))"
    using assms by (intro those_map_Some valid_item_json) (auto simp: valid_workflow_input_def)
  then show ?thesis using assms by (simp add: valid_workflow_input_def comp_def)
qed

lemma reserve_request_accepted:
  assumes "valid_workflow_input isUUID input c"
  shows "accepts_reserve isUUID (cloud_event_json stock_reserve_data_json
      (toStockReserveRequest now (wi_orderPublicId input) (wi_items input))) = Some (wi_orderPublicId input, wi_items input)"
  using assms valid_items_json [OF assms]
  by (simp add: accepts_reserve_def cloud_event_json_fields toStockReserveRequest_def stock_reserve_data_json_def
      valid_workflow_input_def)

lemma release_request_accepted:
  "isUUID i \<Longrightarrow> accepts_release isUUID (cloud_event_json stock_release_data_json (toStockReleaseRequest now i)) = Some i"
  by (simp add: accepts_release_def cloud_event_json_fields toStockReleaseRequest_def stock_release_data_json_def)

lemma payment_requests_accepted:
  assumes "valid_workflow_input isUUID input c"
  shows "order_messages isUUID
    (cloud_event_json customer_charge_data_json
      (toAccountCustomerChargeRequest t1 (wi_orderPublicId input) (wi_userId input) (wi_totalAmount input)))
    (cloud_event_json customer_refund_data_json
      (toAccountCustomerRefundRequest t2 (wi_orderPublicId input) (wi_userId input) (wi_totalAmount input)))
    (wi_orderPublicId input) (wi_orderPublicId input) (wi_userId input) c"
proof -
  have "AccountGateway_isValidMovement (Some (customer_charge_data_json \<lparr>mv_customerId = wi_userId input, mv_amount = fmt_cents c\<rparr>))
      = Some (wi_userId input, fmt_cents c)"
    "AccountGateway_isValidMovement (Some (customer_refund_data_json
        \<lparr>mv_customerId = wi_userId input, mv_amount = fmt_cents c, mv_chargeId = wi_orderPublicId input\<rparr>))
      = Some (wi_userId input, fmt_cents c)"
    using assms by (auto simp: isValidMovement_json valid_workflow_input_def customer_charge_data_json_def customer_refund_data_json_def)
  then show ?thesis using assms
    by (simp add: order_messages_def charge_guard_def refund_guard_def cloud_event_json_fields valid_workflow_input_def
        toAccountCustomerChargeRequest_def toAccountCustomerRefundRequest_def)
      (simp add: customer_refund_data_json_def)
qed

subsection \<open>Operations that take effect once\<close>

text \<open>
  What the workflow relies on when it repeats a request or an activity: an operation that succeeded
  once succeeds again and changes nothing, whatever clock and ids it meets. \<open>reached s0\<close> are the states
  that repetitions from \<open>s0\<close> can lead to, \<open>settled s0\<close> those in which it took effect.
\<close>

locale repeatable =
  fixes op :: "'e \<Rightarrow> 's \<Rightarrow> 'x + (unit \<times> 's)"
  assumes again: "op env s = Inr ((), s') \<Longrightarrow> op env' s' = Inr ((), s')"
begin

definition settled :: "'s \<Rightarrow> 's \<Rightarrow> bool" where
  "settled s0 s \<longleftrightarrow> (\<exists>env. op env s0 = Inr ((), s))"

definition reached :: "'s \<Rightarrow> 's \<Rightarrow> bool" where
  "reached s0 s \<longleftrightarrow> s = s0 \<or> settled s0 s"

lemma reached_refl: "reached s0 s0"
  by (simp add: reached_def)

lemma settled_fixed: "settled s0 s \<Longrightarrow> op env s = Inr ((), s)"
  by (auto simp: settled_def dest: again)

lemma reached_success: "reached s0 s \<Longrightarrow> op env s = Inr ((), s') \<Longrightarrow> settled s0 s'"
  unfolding reached_def using settled_fixed [of s0 s env] by (auto simp: settled_def)

lemma reached_failure: "reached s0 s \<Longrightarrow> op env s = Inl e \<Longrightarrow> s = s0"
  unfolding reached_def using settled_fixed [of s0 s env] by auto

end

lemma end_order_again: "end_order env i res db = Inr ((), db') \<Longrightarrow> end_status res \<noteq> OS_pending_payment
  \<Longrightarrow> end_order env' i res db' = Inr ((), db')"
proof -
  assume e: "end_order env i res db = Inr ((), db')" and p: "end_status res \<noteq> OS_pending_payment"
  have "\<not> pending_order i (if pending_order i q then set_status now (end_status res) q else q)" for now q
    using p by (simp add: pending_order_def set_status_def)
  then have "\<forall>r\<in>set (odb_orders db'). \<not> pending_order i r"
    unfolding end_order_Inr(1) [OF e] by (rule update_where_all)
  then show ?thesis by (rule end_order_not_pending) (rule end_order_Inr(2) [OF e])
qed

interpretation stock_hold: repeatable "\<lambda>now. SellerOfferStockReserveCommandHandler_execute now order data"
  for order data
  by unfold_locales (rule reserve_execute_again)

text \<open>The final statuses of the workflow; \<open>None\<close> is the paid order.\<close>

definition workflow_end :: "(OrderPlaceFailureTypeEnum option) option \<Rightarrow> order_env \<Rightarrow> int \<Rightarrow> (order_db, db_error, unit) tx" where
  "workflow_end ft env i db = end_order env i (map_option toFailure ft) db"

lemma workflow_end_status: "end_status (map_option toFailure ft) \<noteq> OS_pending_payment"
  by (auto simp: end_status_def toFailure_def split: option.splits)

interpretation order_end: repeatable "\<lambda>env. workflow_end ft env i" for ft i
  by unfold_locales (simp add: workflow_end_def end_order_again [OF _ workflow_end_status])

lemma workflow_end_simps:
  "workflow_end None env i db = OrderPlaceActivity_markPaid env i db"
  "workflow_end (Some t) env i db = OrderPlaceActivity_markFailed env i (toFailure t) db"
  by (simp_all add: workflow_end_def end_order_def)

subsection \<open>Retries\<close>

text \<open>
  An activity under retry: \<open>inv\<close> holds between attempts, \<open>post\<close> after success, \<open>gaveup\<close> after a failure that
  is not retried. Redelivered requests keep \<open>inv\<close> as long as the attempt is \<open>allowed\<close>.
\<close>

locale retried =
  fixes isUUID :: "string \<Rightarrow> bool" and input :: order_place_workflow_input and act :: activity
    and allowed :: "attempt \<Rightarrow> bool" and inv :: "world \<Rightarrow> bool" and post :: "world \<Rightarrow> bool"
    and gaveup :: "OrderPlaceFailureTypeEnum \<Rightarrow> world \<Rightarrow> bool"
  assumes redelivered: "inv w \<Longrightarrow> allowed a \<Longrightarrow> (rq, e) \<in> set (at_redelivered a) \<Longrightarrow> rq \<in> set (wl_sent w)
      \<Longrightarrow> inv (redeliver_one isUUID input (rq, e) w)"
    and retry: "inv w \<Longrightarrow> act a w = (Inl Retryable, w') \<Longrightarrow> inv w'"
    and success: "inv w \<Longrightarrow> act a w = (Inr u, w') \<Longrightarrow> post w'"
    and failure: "inv w \<Longrightarrow> act a w = (Inl (NonRetryable t), w') \<Longrightarrow> gaveup t w'"
begin

lemma redeliver_one_sent: "wl_sent (redeliver_one isUUID input d w) = wl_sent w"
  by (cases "(isUUID, input, d, w)" rule: redeliver_one.cases)
    (simp_all add: handle_reserve_def handle_release_def handle_charge_def handle_refund_def split: prod.split)

lemma fold_redelivered:
  "inv w \<Longrightarrow> allowed a \<Longrightarrow> set ds \<subseteq> set (at_redelivered a) \<Longrightarrow> \<forall>d\<in>set ds. fst d \<in> set (wl_sent w)
    \<Longrightarrow> inv (fold (redeliver_one isUUID input) ds w)"
proof (induction ds arbitrary: w)
  case (Cons d ds)
  obtain rq e where d: "d = (rq, e)" by (cases d)
  with Cons.prems have "inv (redeliver_one isUUID input d w)" using redelivered [of w a rq e] by auto
  then show ?case using Cons.IH [of "redeliver_one isUUID input d w"] Cons.prems by (simp add: redeliver_one_sent)
qed simp

lemma redeliver_inv: "inv w \<Longrightarrow> allowed a \<Longrightarrow> inv (redeliver isUUID input a w)"
  unfolding redeliver_def by (rule fold_redelivered) auto

lemma bounded:
  "run_bounded isUUID input act as w = (r, w') \<Longrightarrow> inv w \<Longrightarrow> list_all allowed as \<Longrightarrow>
    (case r of Inr _ \<Rightarrow> post w' | Inl None \<Rightarrow> inv w' | Inl (Some t) \<Rightarrow> gaveup t w')"
proof (induction as arbitrary: w)
  case (Cons a as)
  obtain r1 w1 where act: "act a (redeliver isUUID input a w) = (r1, w1)" by fastforce
  have i: "inv (redeliver isUUID input a w)" using Cons.prems(2,3) by (simp add: redeliver_inv)
  show ?case
  proof (cases r1)
    case (Inl e)
    then show ?thesis using act i Cons.IH [of w1] Cons.prems retry [OF i] failure [OF i]
      by (cases e) auto
  qed (use act i Cons.prems success [OF i] in auto)
qed auto

lemma forever:
  assumes "\<And>a w t w'. inv w \<Longrightarrow> act a w \<noteq> (Inl (NonRetryable t), w')"
  shows "run_forever isUUID input act as w = Some w' \<Longrightarrow> inv w \<Longrightarrow> list_all allowed as \<Longrightarrow> post w'"
proof (induction as arbitrary: w)
  case (Cons a as)
  obtain r1 w1 where act: "act a (redeliver isUUID input a w) = (r1, w1)" by fastforce
  have i: "inv (redeliver isUUID input a w)" using Cons.prems(2,3) by (simp add: redeliver_inv)
  show ?case
  proof (cases r1)
    case (Inl e)
    then show ?thesis using act i Cons.IH [of w1] Cons.prems retry [OF i] assms [OF i]
      by (cases e) auto
  qed (use act i Cons.prems success [OF i] in auto)
qed simp

end

subsection \<open>What one delivery does\<close>

lemma charge_outcome:
  assumes "settlement cid rid k c b db" and "order_messages isUUID cmsg rmsg cid rid k c"
  shows "AccountGateway_handleCustomerCharge isUUID env cmsg db =
    (if processed CUSTOMER_CHARGE cid db then (RpcReply (AccountGateway_toResponse env cmsg ChargeSuccess), db)
     else if c \<le> b
     then (RpcReply (AccountGateway_toResponse env cmsg ChargeSuccess),
           move (account_env.truncate env) k (- c) TT_PAYMENT c (remember (account_env.truncate env) CUSTOMER_CHARGE cid db))
     else (RpcReply (AccountGateway_toResponse env cmsg (ChargeRejected insufficient_amount (toFixed2 (to_double (of_int b / 100))))), db))"
proof -
  obtain amt where amt: "valid_amount amt c" "0 < k" "int4 k"
    and g: "charge_guard isUUID cmsg = Some (cid, \<lparr>mv_customerId = k, mv_amount = amt\<rparr>)"
    by (rule order_messages_valid [OF assms(2)])
  have inv: "account_inv db" using assms(1) by (simp add: settlement_def)
  show ?thesis
  proof (cases "processed CUSTOMER_CHARGE cid db")
    case False
    then show ?thesis using charge_execute [OF remember_inv [OF inv False], of "\<lparr>mv_customerId = k, mv_amount = amt\<rparr>" c] amt assms(1)
      by (simp add: handleCustomerCharge_eq [OF g] settlement_def)
  qed (simp add: handleCustomerCharge_eq [OF g])
qed

lemma charge_keeps_refund:
  assumes "settlement cid rid k c b db" and "order_messages isUUID cmsg rmsg cid rid k c"
  shows "processed CUSTOMER_REFUND i (snd (AccountGateway_handleCustomerCharge isUUID env cmsg db)) \<longleftrightarrow> processed CUSTOMER_REFUND i db"
  by (simp add: charge_outcome [OF assms])

lemma refund_answers:
  assumes "settlement cid rid k c b db" and "order_messages isUUID cmsg rmsg cid rid k c"
  obtains r where "fst (AccountGateway_handleCustomerRefund isUUID env rmsg db) = RpcReply r"
proof -
  obtain amt where amt: "valid_amount amt c" "0 < k" "int4 k"
    and g: "refund_guard isUUID rmsg = Some (rid, \<lparr>mv_customerId = k, mv_amount = amt, mv_chargeId = cid\<rparr>)"
    by (rule order_messages_valid [OF assms(2)])
  have inv: "account_inv db" using assms(1) by (simp add: settlement_def)
  show thesis
  proof (cases "processed CUSTOMER_REFUND rid db \<or> \<not> processed CUSTOMER_CHARGE cid db")
    case True
    then show thesis
      using that [of "if processed CUSTOMER_REFUND rid db then AccountGateway_toRefundResponse env rmsg Refunded
          else AccountGateway_toRefundResponse env rmsg NotCharged"]
      by (auto simp: handleCustomerRefund_eq [OF g] refund_execute_fence)
  next
    case False
    let ?db = "remember (account_env.truncate env) CUSTOMER_REFUND rid db"
    have "account_inv ?db" using False by (intro remember_inv [OF inv]) simp
    then show thesis
      using that False amt assms(1) refund_execute_credit [of ?db "\<lparr>mv_customerId = k, mv_amount = amt, mv_chargeId = cid\<rparr>" c "b - c"]
      by (simp add: handleCustomerRefund_eq [OF g] settlement_def)
  qed
qed

definition clear_stock :: "uuid \<Rightarrow> seller_db \<Rightarrow> seller_db \<Rightarrow> bool" where
  "clear_stock order s0 s \<longleftrightarrow> stock_inv s \<and> stock_levels s = stock_levels s0
     \<and> (\<forall>r\<in>set (sd_reservations s). \<not> releasable order r)"

definition order_data :: "order_place_workflow_input \<Rightarrow> stock_reserve_data" where
  "order_data input = \<lparr>srd_items = wi_items input\<rparr>"

definition unheld :: "uuid \<Rightarrow> seller_db \<Rightarrow> bool" where
  "unheld order s \<longleftrightarrow> stock_inv s \<and> (\<forall>r\<in>set (sd_reservations s). sr_orderPublicId r \<noteq> order)"

lemma unheld_clear: "unheld order s \<Longrightarrow> clear_stock order s s"
  by (auto simp: unheld_def clear_stock_def releasable_def)

lemma release_from_held:
  assumes "unheld order s0" and "stock_hold.reached order data s0 s \<or> clear_stock order s0 s"
  shows "\<exists>n s'. StockReservationRepository_release now order s = Inr (n, s') \<and> clear_stock order s0 s'"
proof (cases "clear_stock order s0 s")
  case True
  then show ?thesis using release_none [of s order now] by (auto simp: clear_stock_def)
next
  case False
  then have "s \<noteq> s0" using unheld_clear [OF assms(1)] by blast
  with False assms(2) obtain t where held: "SellerOfferStockReserveCommandHandler_execute t order data s0 = Inr ((), s)"
    by (auto simp: stock_hold.reached_def stock_hold.settled_def)
  have inv: "stock_inv s0" using assms(1) by (simp add: unheld_def)
  obtain n s' where rel: "StockReservationRepository_release now order s = Inr (n, s')" and "stock_inv s'"
    and rs: "sd_reservations s' = mark_released now order (sd_reservations s)"
    by (rule release_succeeds [OF reserve_execute_inv [OF held inv]])
  moreover have "stock_levels s' = stock_levels s0"
    using assms(1) by (intro release_restores [OF inv _ held rel]) (simp add: unheld_def)
  moreover have "\<forall>r\<in>set (sd_reservations s'). \<not> releasable order r" unfolding rs using mark_released_none by blast
  ultimately show ?thesis by (auto simp: clear_stock_def)
qed

definition run_ctx :: "(string \<Rightarrow> bool) \<Rightarrow> order_place_workflow_input \<Rightarrow> int \<Rightarrow> int \<Rightarrow> world \<Rightarrow> bool" where
  "run_ctx isUUID input c b w0 \<longleftrightarrow> valid_workflow_input isUUID input c
     \<and> unheld (wi_orderPublicId input) (wl_seller w0)
     \<and> settlement (wi_orderPublicId input) (wi_orderPublicId input) (wi_userId input) c b (wl_account w0)
     \<and> \<not> processed CUSTOMER_CHARGE (wi_orderPublicId input) (wl_account w0)"

abbreviation order_settlement :: "order_place_workflow_input \<Rightarrow> int \<Rightarrow> int \<Rightarrow> account_db \<Rightarrow> bool" where
  "order_settlement input c b db \<equiv>
     settlement (wi_orderPublicId input) (wi_orderPublicId input) (wi_userId input) c b db"

abbreviation charge_done :: "order_place_workflow_input \<Rightarrow> account_db \<Rightarrow> bool" where
  "charge_done input db \<equiv> processed CUSTOMER_CHARGE (wi_orderPublicId input) db"

abbreviation refund_done :: "order_place_workflow_input \<Rightarrow> account_db \<Rightarrow> bool" where
  "refund_done input db \<equiv> processed CUSTOMER_REFUND (wi_orderPublicId input) db"

abbreviation stock_reached :: "order_place_workflow_input \<Rightarrow> seller_db \<Rightarrow> seller_db \<Rightarrow> bool" where
  "stock_reached input s0 s \<equiv> stock_hold.reached (wi_orderPublicId input) (order_data input) s0 s"

abbreviation stock_settled :: "order_place_workflow_input \<Rightarrow> seller_db \<Rightarrow> seller_db \<Rightarrow> bool" where
  "stock_settled input s0 s \<equiv> stock_hold.settled (wi_orderPublicId input) (order_data input) s0 s"

lemma reserve_effect:
  assumes "valid_workflow_input isUUID input c" and "stock_reached input s0 (wl_seller w)"
    and "handle_reserve isUUID input e w = (reply, w')"
  shows "\<exists>s. w' = w\<lparr>wl_seller := s\<rparr> \<and> stock_reached input s0 s
    \<and> (\<forall>ev. reply = RpcReply ev \<and> ce_data ev = StockReserved \<longrightarrow> stock_settled input s0 s)
    \<and> (\<forall>ev r its. reply = RpcReply ev \<and> ce_data ev = StockRejected r its \<longrightarrow> s = s0)
    \<and> (stock_settled input s0 (wl_seller w) \<longrightarrow> s = wl_seller w)"
proof (cases "SellerOfferStockReserveCommandHandler_execute (me_now e) (wi_orderPublicId input) (order_data input) (wl_seller w)")
  case (Inl err)
  note s0 = stock_hold.reached_failure [OF assms(2) Inl]
  from assms(3) Inl show ?thesis
    by (intro exI [of _ "wl_seller w"])
      (auto simp: handle_reserve_def handleStockReserve_accepted [OF reserve_request_accepted [OF assms(1)]] order_data_def
        SellerOfferGateway_toResponse_def stock_hold.reached_refl s0 split: reserve_error.splits)
next
  case (Inr p)
  then obtain s where ex: "SellerOfferStockReserveCommandHandler_execute (me_now e) (wi_orderPublicId input) (order_data input) (wl_seller w)
    = Inr ((), s)" by (cases p) simp
  have "stock_settled input s0 s" by (rule stock_hold.reached_success [OF assms(2) ex])
  moreover have "s = wl_seller w" if "stock_settled input s0 (wl_seller w)"
    using stock_hold.settled_fixed [OF that, of "me_now e"] ex by simp
  moreover have "reply = RpcReply (SellerOfferGateway_toResponse (me_reply e) (cloud_event_json stock_reserve_data_json
      (toStockReserveRequest (me_sent e) (wi_orderPublicId input) (wi_items input))) StockReserved)" "w' = w\<lparr>wl_seller := s\<rparr>"
    using assms(3) ex by (simp_all add: handle_reserve_def order_data_def
        handleStockReserve_accepted [OF reserve_request_accepted [OF assms(1)]])
  ultimately show ?thesis by (intro exI [of _ s]) (simp add: SellerOfferGateway_toResponse_def stock_hold.reached_def)
qed

lemma release_effect:
  assumes "isUUID (wi_orderPublicId input)" and "unheld (wi_orderPublicId input) s0"
    and "stock_reached input s0 (wl_seller w) \<or> clear_stock (wi_orderPublicId input) s0 (wl_seller w)"
    and "handle_release isUUID input e w = (reply, w')"
  shows "\<exists>s r. w' = w\<lparr>wl_seller := s\<rparr> \<and> clear_stock (wi_orderPublicId input) s0 s \<and> reply = RpcReply r"
proof -
  obtain n s where rel: "StockReservationRepository_release (me_now e) (wi_orderPublicId input) (wl_seller w) = Inr (n, s)"
    and clr: "clear_stock (wi_orderPublicId input) s0 s"
    using release_from_held [OF assms(2,3), of "me_now e"] by blast
  have "handle_release isUUID input e w = (RpcReply (SellerOfferGateway_toReleaseResponse (me_reply e)
      (cloud_event_json stock_release_data_json (toStockReleaseRequest (me_sent e) (wi_orderPublicId input))) (StockReleased n)),
      w\<lparr>wl_seller := s\<rparr>)"
    using rel by (simp add: handle_release_def handleStockRelease_accepted [OF release_request_accepted [of isUUID, OF assms(1)]])
  with assms(4) clr show ?thesis by (intro exI [of _ s]) auto
qed

lemma charge_effect:
  assumes "valid_workflow_input isUUID input c" and "order_settlement input c b (wl_account w)"
    and "handle_charge isUUID input e w = (reply, w')"
  shows "\<exists>a ev. w' = w\<lparr>wl_account := a\<rparr> \<and> reply = RpcReply ev \<and> order_settlement input c b a
    \<and> (refund_done input a \<longleftrightarrow> refund_done input (wl_account w))
    \<and> (ce_data ev = ChargeSuccess \<longrightarrow> charge_done input a)
    \<and> (\<forall>r t. ce_data ev = ChargeRejected r t \<longrightarrow> \<not> charge_done input a \<and> b < c)
    \<and> (charge_done input (wl_account w) \<longrightarrow> charge_done input a)
    \<and> (b < c \<and> \<not> charge_done input (wl_account w) \<longrightarrow> \<not> charge_done input a)"
proof -
  note om = payment_requests_accepted [OF assms(1), of "me_sent e" 0]
  let ?h = "AccountGateway_handleCustomerCharge isUUID (me_account e)
     (cloud_event_json customer_charge_data_json
       (toAccountCustomerChargeRequest (me_sent e) (wi_orderPublicId input) (wi_userId input) (wi_totalAmount input))) (wl_account w)"
  have w': "w' = w\<lparr>wl_account := snd ?h\<rparr>" "reply = fst ?h" using assms(3) by (auto simp: handle_charge_def split: prod.splits)
  have "\<exists>ev. reply = RpcReply ev \<and> (ce_data ev = ChargeSuccess \<longrightarrow> charge_done input (snd ?h))
      \<and> (\<forall>r t. ce_data ev = ChargeRejected r t \<longrightarrow> \<not> charge_done input (snd ?h) \<and> b < c)"
    unfolding w'(2) charge_outcome [OF assms(2) om] by (auto simp: AccountGateway_toResponse_def)
  moreover have "(charge_done input (wl_account w) \<longrightarrow> charge_done input (snd ?h))
      \<and> (b < c \<and> \<not> charge_done input (wl_account w) \<longrightarrow> \<not> charge_done input (snd ?h))"
    unfolding charge_outcome [OF assms(2) om] by auto
  ultimately show ?thesis
    using w'(1) settlement_charge [OF assms(2) om, of "me_account e"] charge_keeps_refund [OF assms(2) om] by blast
qed

lemma refund_effect:
  assumes "valid_workflow_input isUUID input c" and "order_settlement input c b (wl_account w)"
    and "handle_refund isUUID input e w = (reply, w')"
  shows "\<exists>a r. w' = w\<lparr>wl_account := a\<rparr> \<and> order_settlement input c b a \<and> refund_done input a \<and> reply = RpcReply r"
proof -
  note om = payment_requests_accepted [OF assms(1), of 0 "me_sent e"]
  obtain r where "reply = RpcReply r"
    using refund_answers [OF assms(2) om, of "me_account e"] assms(3) by (auto simp: handle_refund_def split: prod.splits)
  then show ?thesis
    using settlement_refund [OF assms(2) om, of "me_account e"] assms(3)
    by (auto simp: handle_refund_def split: prod.splits)
qed

lemma amqp_cases:
  assumes "amqp_request rq a handle w = (res, w')"
  obtains (unhandled) "res = None" "w' = w\<lparr>wl_sent := rq # wl_sent w\<rparr>"
    | (unanswered) reply where "res = None" "handle (at_message a) (w\<lparr>wl_sent := rq # wl_sent w\<rparr>) = (reply, w')"
    | (answered) r where "res = Some r" "handle (at_message a) (w\<lparr>wl_sent := rq # wl_sent w\<rparr>) = (RpcReply r, w')"
proof (cases "at_outcome a")
  case Answered
  obtain reply w2 where "handle (at_message a) (w\<lparr>wl_sent := rq # wl_sent w\<rparr>) = (reply, w2)" by fastforce
  then show thesis using assms Answered that(2,3)
    by (cases reply) (auto simp: amqp_request_def Let_def)
next
  case (TimedOut h)
  then show thesis using assms that(1,2) by (cases h) (auto simp: amqp_request_def Let_def prod_eq_iff)
qed

subsection \<open>The phases of the workflow\<close>

text \<open>
  What holds between the attempts of each activity. \<open>late\<close> says whether a reservation request may still
  be handled while the workflow compensates: only without such late requests the stock is known to be
  back afterwards.
\<close>

definition reserving ::
  "(string \<Rightarrow> bool) \<Rightarrow> order_place_workflow_input \<Rightarrow> int \<Rightarrow> int \<Rightarrow> world \<Rightarrow> world \<Rightarrow> bool" where
  "reserving isUUID input c b w0 w \<longleftrightarrow> run_ctx isUUID input c b w0
     \<and> wl_account w = wl_account w0 \<and> wl_order w = wl_order w0 \<and> set (wl_sent w) \<subseteq> {RqReserve}
     \<and> stock_reached input (wl_seller w0) (wl_seller w)"

definition reserved ::
  "(string \<Rightarrow> bool) \<Rightarrow> order_place_workflow_input \<Rightarrow> int \<Rightarrow> int \<Rightarrow> world \<Rightarrow> world \<Rightarrow> bool" where
  "reserved isUUID input c b w0 w \<longleftrightarrow> reserving isUUID input c b w0 w
     \<and> stock_settled input (wl_seller w0) (wl_seller w)"

definition charging ::
  "(string \<Rightarrow> bool) \<Rightarrow> order_place_workflow_input \<Rightarrow> int \<Rightarrow> int \<Rightarrow> world \<Rightarrow> world \<Rightarrow> bool" where
  "charging isUUID input c b w0 w \<longleftrightarrow> run_ctx isUUID input c b w0 \<and> wl_order w = wl_order w0
     \<and> set (wl_sent w) \<subseteq> {RqReserve, RqCharge} \<and> stock_settled input (wl_seller w0) (wl_seller w)
     \<and> order_settlement input c b (wl_account w) \<and> \<not> refund_done input (wl_account w)"

definition refunding ::
  "(string \<Rightarrow> bool) \<Rightarrow> order_place_workflow_input \<Rightarrow> int \<Rightarrow> int \<Rightarrow> world \<Rightarrow> world \<Rightarrow> bool" where
  "refunding isUUID input c b w0 w \<longleftrightarrow> run_ctx isUUID input c b w0 \<and> wl_order w = wl_order w0
     \<and> stock_settled input (wl_seller w0) (wl_seller w) \<and> RqRelease \<notin> set (wl_sent w)
     \<and> order_settlement input c b (wl_account w)"

text \<open>The buyer has the money back, and no request on its way can change that.\<close>

definition money_back :: "order_place_workflow_input \<Rightarrow> int \<Rightarrow> int \<Rightarrow> world \<Rightarrow> bool" where
  "money_back input c b w \<longleftrightarrow> order_settlement input c b (wl_account w)
     \<and> (refund_done input (wl_account w)
        \<or> (\<not> charge_done input (wl_account w) \<and> RqRefund \<notin> set (wl_sent w) \<and> (RqCharge \<in> set (wl_sent w) \<longrightarrow> b < c)))"

definition releasing ::
  "(string \<Rightarrow> bool) \<Rightarrow> order_place_workflow_input \<Rightarrow> int \<Rightarrow> int \<Rightarrow> bool \<Rightarrow> world \<Rightarrow> world \<Rightarrow> bool" where
  "releasing isUUID input c b late w0 w \<longleftrightarrow> run_ctx isUUID input c b w0 \<and> wl_order w = wl_order w0
     \<and> money_back input c b w \<and> stock_inv (wl_seller w)
     \<and> (late \<or> stock_reached input (wl_seller w0) (wl_seller w)
          \<or> clear_stock (wi_orderPublicId input) (wl_seller w0) (wl_seller w))"

definition failing ::
  "(string \<Rightarrow> bool) \<Rightarrow> order_place_workflow_input \<Rightarrow> int \<Rightarrow> int \<Rightarrow> bool \<Rightarrow> OrderPlaceFailureTypeEnum option
    \<Rightarrow> world \<Rightarrow> world \<Rightarrow> bool" where
  "failing isUUID input c b late ft w0 w \<longleftrightarrow> run_ctx isUUID input c b w0
     \<and> order_end.reached (Some ft) (wi_orderId input) (wl_order w0) (wl_order w)
     \<and> money_back input c b w \<and> (late \<or> clear_stock (wi_orderPublicId input) (wl_seller w0) (wl_seller w))"

definition failed ::
  "(string \<Rightarrow> bool) \<Rightarrow> order_place_workflow_input \<Rightarrow> int \<Rightarrow> int \<Rightarrow> bool \<Rightarrow> OrderPlaceFailureTypeEnum option
    \<Rightarrow> world \<Rightarrow> world \<Rightarrow> bool" where
  "failed isUUID input c b late ft w0 w \<longleftrightarrow> failing isUUID input c b late ft w0 w
     \<and> order_end.settled (Some ft) (wi_orderId input) (wl_order w0) (wl_order w)"

definition paying ::
  "(string \<Rightarrow> bool) \<Rightarrow> order_place_workflow_input \<Rightarrow> int \<Rightarrow> int \<Rightarrow> world \<Rightarrow> world \<Rightarrow> bool" where
  "paying isUUID input c b w0 w \<longleftrightarrow> charging isUUID input c b w0 (w\<lparr>wl_order := wl_order w0\<rparr>)
     \<and> charge_done input (wl_account w)
     \<and> order_end.reached None (wi_orderId input) (wl_order w0) (wl_order w)"

definition paid ::
  "(string \<Rightarrow> bool) \<Rightarrow> order_place_workflow_input \<Rightarrow> int \<Rightarrow> int \<Rightarrow> world \<Rightarrow> world \<Rightarrow> bool" where
  "paid isUUID input c b w0 w \<longleftrightarrow> paying isUUID input c b w0 w
     \<and> order_end.settled None (wi_orderId input) (wl_order w0) (wl_order w)"

definition no_late_reserve :: "attempt \<Rightarrow> bool" where
  "no_late_reserve a \<longleftrightarrow> RqReserve \<notin> fst ` set (at_redelivered a)"

lemmas phase_defs = reserving_def reserved_def charging_def refunding_def money_back_def releasing_def
  failing_def failed_def paying_def paid_def no_late_reserve_def

lemma run_ctxD:
  assumes "run_ctx isUUID input c b w0"
  shows "valid_workflow_input isUUID input c" and "isUUID (wi_orderPublicId input)"
    and "unheld (wi_orderPublicId input) (wl_seller w0)" and "order_settlement input c b (wl_account w0)"
    and "\<not> charge_done input (wl_account w0)" and "\<not> refund_done input (wl_account w0)"
  using assms by (auto simp: run_ctx_def valid_workflow_input_def settlement_def)

text \<open>A redelivered request keeps the three facts that the phases are made of.\<close>

lemma redelivered_reserve:
  assumes "valid_workflow_input isUUID input c" and "stock_reached input s0 (wl_seller w)"
  shows "\<exists>s. redeliver_one isUUID input (RqReserve, e) w = w\<lparr>wl_seller := s\<rparr> \<and> stock_reached input s0 s
    \<and> (stock_settled input s0 (wl_seller w) \<longrightarrow> s = wl_seller w)"
  using reserve_effect [OF assms, of e] by (cases "handle_reserve isUUID input e w") auto

lemma redelivered_release:
  assumes "isUUID (wi_orderPublicId input)" and "unheld (wi_orderPublicId input) s0"
    and "stock_reached input s0 (wl_seller w) \<or> clear_stock (wi_orderPublicId input) s0 (wl_seller w)"
  shows "\<exists>s. redeliver_one isUUID input (RqRelease, e) w = w\<lparr>wl_seller := s\<rparr> \<and> clear_stock (wi_orderPublicId input) s0 s"
  using release_effect [of isUUID input, OF assms, of e] by (cases "handle_release isUUID input e w") auto

lemma stock_redelivered:
  assumes "rq \<in> {RqReserve, RqRelease}"
  shows "redeliver_one isUUID input (rq, e) w = w\<lparr>wl_seller := wl_seller (redeliver_one isUUID input (rq, e) w)\<rparr>"
  using assms by (auto simp: handle_reserve_def handle_release_def split: prod.splits)

lemma redelivered_charge:
  assumes "valid_workflow_input isUUID input c" and "order_settlement input c b (wl_account w)"
  shows "\<exists>a. redeliver_one isUUID input (RqCharge, e) w = w\<lparr>wl_account := a\<rparr> \<and> order_settlement input c b a
    \<and> (refund_done input a \<longleftrightarrow> refund_done input (wl_account w))
    \<and> (charge_done input (wl_account w) \<longrightarrow> charge_done input a)
    \<and> (b < c \<and> \<not> charge_done input (wl_account w) \<longrightarrow> \<not> charge_done input a)"
  using charge_effect [OF assms, of e] by (cases "handle_charge isUUID input e w") auto

lemma redelivered_refund:
  assumes "valid_workflow_input isUUID input c" and "order_settlement input c b (wl_account w)"
  shows "\<exists>a. redeliver_one isUUID input (RqRefund, e) w = w\<lparr>wl_account := a\<rparr> \<and> order_settlement input c b a
    \<and> refund_done input a"
  using refund_effect [OF assms, of e] by (cases "handle_refund isUUID input e w") auto

lemma redelivered_money_back:
  assumes "valid_workflow_input isUUID input c" and "money_back input c b w" and "rq \<in> set (wl_sent w)"
  shows "money_back input c b (redeliver_one isUUID input (rq, e) w)"
proof -
  have st: "order_settlement input c b (wl_account w)" using assms(2) by (simp add: money_back_def)
  show ?thesis
  proof (cases rq)
    case RqCharge
    obtain a where "redeliver_one isUUID input (RqCharge, e) w = w\<lparr>wl_account := a\<rparr>" "order_settlement input c b a"
      "refund_done input a \<longleftrightarrow> refund_done input (wl_account w)"
      "b < c \<and> \<not> charge_done input (wl_account w) \<longrightarrow> \<not> charge_done input a"
      using redelivered_charge [OF assms(1) st, of e] by blast
    then show ?thesis using assms(2,3) RqCharge unfolding money_back_def by auto
  next
    case RqRefund
    then show ?thesis using redelivered_refund [OF assms(1) st, of e] unfolding money_back_def by auto
  next
    case RqReserve
    then show ?thesis using assms(2) stock_redelivered [of rq isUUID input e w] unfolding money_back_def by (metis insertI1 world.select_convs(2,4) world.surjective world.update_convs(1))
  next
    case RqRelease
    then show ?thesis using assms(2) stock_redelivered [of rq isUUID input e w] unfolding money_back_def by (metis insertI1 insertI2 world.select_convs(2,4) world.surjective world.update_convs(1))
  qed
qed

text \<open>Requests to the stock service leave the account alone, and the other way round.\<close>

lemma redelivered_stock_frame:
  "rq \<in> {RqReserve, RqRelease} \<Longrightarrow> wl_account (redeliver_one isUUID input (rq, e) w) = wl_account w"
  "rq \<in> {RqCharge, RqRefund} \<Longrightarrow> wl_seller (redeliver_one isUUID input (rq, e) w) = wl_seller w"
  "wl_order (redeliver_one isUUID input (rq, e) w) = wl_order w"
  "wl_sent (redeliver_one isUUID input (rq, e) w) = wl_sent w"
  by (cases rq; simp add: handle_reserve_def handle_release_def handle_charge_def handle_refund_def split: prod.split)+

lemma handle_frame:
  "handle_reserve isUUID input e w = (r1, w') \<Longrightarrow> wl_account w' = wl_account w \<and> wl_order w' = wl_order w \<and> wl_sent w' = wl_sent w"
  "handle_release isUUID input e w = (r2, w') \<Longrightarrow> wl_account w' = wl_account w \<and> wl_order w' = wl_order w \<and> wl_sent w' = wl_sent w"
  "handle_charge isUUID input e w = (r3, w') \<Longrightarrow> wl_seller w' = wl_seller w \<and> wl_order w' = wl_order w \<and> wl_sent w' = wl_sent w"
  "handle_refund isUUID input e w = (r4, w') \<Longrightarrow> wl_seller w' = wl_seller w \<and> wl_order w' = wl_order w \<and> wl_sent w' = wl_sent w"
  by (auto simp: handle_reserve_def handle_release_def handle_charge_def handle_refund_def split: prod.splits)

text \<open>Every request leaves the stock consistent, and on consistent stock a release is answered, whatever is held.\<close>

lemma handled_stock_inv:
  "stock_inv (wl_seller w) \<Longrightarrow> stock_inv (wl_seller (snd (handle_reserve isUUID input e w)))"
  "stock_inv (wl_seller w) \<Longrightarrow> stock_inv (wl_seller (snd (handle_release isUUID input e w)))"
  using handleStockReserve_inv [of "wl_seller w"] handleStockRelease_inv [of "wl_seller w"]
  by (auto simp: handle_reserve_def handle_release_def split: prod.split) (metis snd_conv)+

lemma redelivered_stock_inv:
  "stock_inv (wl_seller w) \<Longrightarrow> stock_inv (wl_seller (redeliver_one isUUID input (rq, e) w))"
  by (cases rq) (simp_all add: handled_stock_inv redelivered_stock_frame(2) [of rq isUUID input e w, symmetric]
      handle_charge_def handle_refund_def split: prod.split)

lemma release_answered:
  assumes "isUUID (wi_orderPublicId input)" and "stock_inv (wl_seller w)"
  obtains q where "fst (handle_release isUUID input e w) = RpcReply q"
proof -
  obtain n s where "StockReservationRepository_release (me_now e) (wi_orderPublicId input) (wl_seller w) = Inr (n, s)"
    by (rule release_succeeds [OF assms(2)])
  then show thesis using that
    by (simp add: handle_release_def handleStockRelease_accepted [OF release_request_accepted [of isUUID, OF assms(1)]])
qed

lemma stock_reached_inv: "stock_reached input s0 s \<Longrightarrow> stock_inv s0 \<Longrightarrow> stock_inv s"
  by (auto simp: stock_hold.reached_def stock_hold.settled_def dest: reserve_execute_inv)

subsubsection \<open>Reserving\<close>

lemma reserving_redelivered:
  assumes "reserving isUUID input c b w0 w" and "rq \<in> set (wl_sent w)"
  shows "reserving isUUID input c b w0 (redeliver_one isUUID input (rq, e) w)"
proof -
  have rq: "rq = RqReserve" and "stock_reached input (wl_seller w0) (wl_seller w)" "run_ctx isUUID input c b w0"
    using assms by (auto simp: reserving_def)
  with redelivered_reserve [OF run_ctxD(1) [OF this(3)] this(2), of e] assms(1) show ?thesis
    by (auto simp: reserving_def)
qed

lemma reserveStock_outcome:
  assumes "reserving isUUID input c b w0 w" and "OrderPlaceActivity_reserveStock isUUID input a w = (r, w')"
  shows "reserving isUUID input c b w0 w' \<and> (r = Inr () \<longrightarrow> stock_settled input (wl_seller w0) (wl_seller w'))
    \<and> (\<forall>t. r = Inl (NonRetryable t) \<longrightarrow> t = INSUFFICIENT_STOCK \<and> wl_seller w' = wl_seller w0)"
proof -
  let ?w = "w\<lparr>wl_sent := RqReserve # wl_sent w\<rparr>"
  obtain res where req: "amqp_request RqReserve a (handle_reserve isUUID input) w = (res, w')"
    and r: "r = (case res of None \<Rightarrow> Inl Retryable | Some ev \<Rightarrow>
        (case ce_data ev of StockRejected _ _ \<Rightarrow> Inl (NonRetryable INSUFFICIENT_STOCK) | StockReserved \<Rightarrow> Inr ()))"
    using assms(2) by (auto simp: OrderPlaceActivity_reserveStock_def split: prod.splits option.splits stock_reserve_response.splits)
  have ctx: "run_ctx isUUID input c b w0" and reach: "stock_reached input (wl_seller w0) (wl_seller ?w)"
    and sent: "reserving isUUID input c b w0 ?w"
    using assms(1) by (auto simp: reserving_def)
  note eff = reserve_effect [OF run_ctxD(1) [OF ctx] reach]
  from req show ?thesis
  proof (cases rule: amqp_cases)
    case unhandled
    then show ?thesis using sent r by simp
  next
    case (unanswered reply)
    with eff [OF unanswered(2)] sent r show ?thesis by (auto simp: reserving_def)
  next
    case (answered ev)
    with eff [OF answered(2)] sent r show ?thesis by (auto simp: reserving_def split: stock_reserve_response.splits)
  qed
qed

interpretation reserve_phase: retried isUUID input "OrderPlaceActivity_reserveStock isUUID input" "\<lambda>_. True"
  "reserving isUUID input c b w0" "reserved isUUID input c b w0"
  "\<lambda>t w. t = INSUFFICIENT_STOCK \<and> reserving isUUID input c b w0 w \<and> wl_seller w = wl_seller w0"
  for isUUID input c b w0
  by unfold_locales (auto simp: reserved_def dest: reserving_redelivered reserveStock_outcome)

subsubsection \<open>Charging\<close>

lemma charging_redelivered:
  assumes "charging isUUID input c b w0 w" and "rq \<in> set (wl_sent w)"
  shows "charging isUUID input c b w0 (redeliver_one isUUID input (rq, e) w)
    \<and> (charge_done input (wl_account w) \<longrightarrow> charge_done input (wl_account (redeliver_one isUUID input (rq, e) w)))"
proof -
  have ctx: "run_ctx isUUID input c b w0" and st: "order_settlement input c b (wl_account w)"
    and hold: "stock_settled input (wl_seller w0) (wl_seller w)" and rq: "rq \<in> {RqReserve, RqCharge}"
    using assms by (auto simp: charging_def)
  from hold have "stock_reached input (wl_seller w0) (wl_seller w)" by (simp add: stock_hold.reached_def)
  from redelivered_reserve [OF run_ctxD(1) [OF ctx] this, of e] redelivered_charge [OF run_ctxD(1) [OF ctx] st, of e]
  show ?thesis using rq assms(1) hold by (auto simp: charging_def)
qed

lemma chargeCustomer_outcome:
  assumes "charging isUUID input c b w0 w" and "OrderPlaceActivity_chargeCustomer isUUID input a w = (r, w')"
  shows "charging isUUID input c b w0 w' \<and> (r = Inr () \<longrightarrow> charge_done input (wl_account w'))
    \<and> (\<forall>t. r = Inl (NonRetryable t) \<longrightarrow> t = PAYMENT_REJECTED \<and> \<not> charge_done input (wl_account w') \<and> b < c)"
proof -
  let ?w = "w\<lparr>wl_sent := RqCharge # wl_sent w\<rparr>"
  obtain res where req: "amqp_request RqCharge a (handle_charge isUUID input) w = (res, w')"
    and r: "r = (case res of None \<Rightarrow> Inl Retryable | Some ev \<Rightarrow>
        (case ce_data ev of ChargeRejected _ _ \<Rightarrow> Inl (NonRetryable PAYMENT_REJECTED) | ChargeSuccess \<Rightarrow> Inr ()))"
    using assms(2) by (auto simp: OrderPlaceActivity_chargeCustomer_def split: prod.splits option.splits charge_response.splits)
  have ctx: "run_ctx isUUID input c b w0" and st: "order_settlement input c b (wl_account ?w)"
    and sent: "charging isUUID input c b w0 ?w"
    using assms(1) by (auto simp: charging_def)
  note eff = charge_effect [OF run_ctxD(1) [OF ctx] st]
  from req show ?thesis
  proof (cases rule: amqp_cases)
    case unhandled
    then show ?thesis using sent r by simp
  next
    case (unanswered reply)
    with eff [OF unanswered(2)] sent r show ?thesis by (auto simp: charging_def)
  next
    case (answered ev)
    with eff [OF answered(2)] sent r show ?thesis by (auto simp: charging_def split: charge_response.splits)
  qed
qed

interpretation charge_phase: retried isUUID input "OrderPlaceActivity_chargeCustomer isUUID input" "\<lambda>_. True"
  "charging isUUID input c b w0" "\<lambda>w. charging isUUID input c b w0 w \<and> charge_done input (wl_account w)"
  "\<lambda>t w. t = PAYMENT_REJECTED \<and> charging isUUID input c b w0 w \<and> \<not> charge_done input (wl_account w) \<and> b < c"
  for isUUID input c b w0
  by unfold_locales (auto dest: charging_redelivered chargeCustomer_outcome)

subsubsection \<open>Refunding\<close>

lemma refunding_redelivered:
  assumes "refunding isUUID input c b w0 w" and "rq \<in> set (wl_sent w)"
  shows "refunding isUUID input c b w0 (redeliver_one isUUID input (rq, e) w)"
proof -
  have ctx: "run_ctx isUUID input c b w0" and st: "order_settlement input c b (wl_account w)"
    and hold: "stock_settled input (wl_seller w0) (wl_seller w)" and rq: "rq \<in> {RqReserve, RqCharge, RqRefund}"
    using assms by (cases rq; auto simp: refunding_def)+
  from hold have "stock_reached input (wl_seller w0) (wl_seller w)" by (simp add: stock_hold.reached_def)
  from redelivered_reserve [OF run_ctxD(1) [OF ctx] this, of e] redelivered_charge [OF run_ctxD(1) [OF ctx] st, of e]
    redelivered_refund [OF run_ctxD(1) [OF ctx] st, of e]
  show ?thesis using rq assms(1) hold by (auto simp: refunding_def)
qed

lemma refundCustomer_outcome:
  assumes "refunding isUUID input c b w0 w" and "OrderPlaceActivity_refundCustomer isUUID input a w = (r, w')"
  shows "refunding isUUID input c b w0 w' \<and> (r = Inr () \<longrightarrow> refund_done input (wl_account w'))
    \<and> (\<forall>t. r \<noteq> Inl (NonRetryable t)) \<and> (at_outcome a = Answered \<longrightarrow> r = Inr ())"
proof -
  let ?w = "w\<lparr>wl_sent := RqRefund # wl_sent w\<rparr>"
  obtain res where req: "amqp_request RqRefund a (handle_refund isUUID input) w = (res, w')"
    and r: "r = (case res of None \<Rightarrow> Inl Retryable | Some ev \<Rightarrow> Inr ())"
    using assms(2) by (auto simp: OrderPlaceActivity_refundCustomer_def split: prod.splits option.splits)
  have ctx: "run_ctx isUUID input c b w0" and st: "order_settlement input c b (wl_account ?w)"
    and sent: "refunding isUUID input c b w0 ?w"
    using assms(1) by (auto simp: refunding_def)
  note eff = refund_effect [OF run_ctxD(1) [OF ctx] st]
  have "at_outcome a = Answered \<Longrightarrow> res \<noteq> None"
    using eff [of "at_message a"] req by (auto simp: amqp_request_def Let_def split: prod.splits rpc.splits)
  with req show ?thesis
  proof (cases rule: amqp_cases)
    case unhandled
    then show ?thesis using sent r \<open>at_outcome a = Answered \<Longrightarrow> res \<noteq> None\<close> by auto
  next
    case (unanswered reply)
    with eff [OF unanswered(2)] sent r \<open>at_outcome a = Answered \<Longrightarrow> res \<noteq> None\<close> show ?thesis by (auto simp: refunding_def)
  next
    case (answered ev)
    with eff [OF answered(2)] sent r show ?thesis by (auto simp: refunding_def)
  qed
qed

interpretation refund_phase: retried isUUID input "OrderPlaceActivity_refundCustomer isUUID input" "\<lambda>_. True"
  "refunding isUUID input c b w0" "\<lambda>w. refunding isUUID input c b w0 w \<and> refund_done input (wl_account w)" "\<lambda>t w. False"
  for isUUID input c b w0
  by unfold_locales (auto dest: refunding_redelivered refundCustomer_outcome)

subsubsection \<open>Releasing\<close>

lemma releasing_redelivered:
  assumes "releasing isUUID input c b late w0 w" and "late \<or> rq \<noteq> RqReserve" and "rq \<in> set (wl_sent w)"
  shows "releasing isUUID input c b late w0 (redeliver_one isUUID input (rq, e) w)"
proof -
  have ctx: "run_ctx isUUID input c b w0" using assms(1) by (simp add: releasing_def)
  have mb: "money_back input c b (redeliver_one isUUID input (rq, e) w)"
    using assms by (intro redelivered_money_back [OF run_ctxD(1) [OF ctx]]) (auto simp: releasing_def)
  have "late \<or> stock_reached input (wl_seller w0) (wl_seller (redeliver_one isUUID input (rq, e) w))
      \<or> clear_stock (wi_orderPublicId input) (wl_seller w0) (wl_seller (redeliver_one isUUID input (rq, e) w))"
  proof (cases "late \<or> rq \<in> {RqCharge, RqRefund}")
    case True
    then show ?thesis using assms(1) redelivered_stock_frame(2) [of rq isUUID input e w] by (auto simp: releasing_def)
  next
    case False
    then have "rq = RqRelease" using assms(2) by (cases rq) auto
    moreover have "stock_reached input (wl_seller w0) (wl_seller w)
        \<or> clear_stock (wi_orderPublicId input) (wl_seller w0) (wl_seller w)"
      using assms(1) False by (auto simp: releasing_def)
    from redelivered_release [of isUUID input, OF run_ctxD(2,3) [OF ctx] this, of e]
    have "clear_stock (wi_orderPublicId input) (wl_seller w0) (wl_seller (redeliver_one isUUID input (RqRelease, e) w))" by auto
    ultimately show ?thesis by simp
  qed
  then show ?thesis using ctx mb assms(1) redelivered_stock_frame(3) [of isUUID input rq e w] redelivered_stock_inv
    by (simp add: releasing_def)
qed

lemma releaseStock_outcome:
  assumes "releasing isUUID input c b late w0 w" and "OrderPlaceActivity_releaseStock isUUID input a w = (r, w')"
  shows "releasing isUUID input c b late w0 w' \<and> (\<forall>t. r \<noteq> Inl (NonRetryable t))
    \<and> (r = Inr () \<longrightarrow> late \<or> clear_stock (wi_orderPublicId input) (wl_seller w0) (wl_seller w'))
    \<and> (at_outcome a = Answered \<longrightarrow> r = Inr ())"
proof -
  let ?w = "w\<lparr>wl_sent := RqRelease # wl_sent w\<rparr>"
  obtain res where req: "amqp_request RqRelease a (handle_release isUUID input) w = (res, w')"
    and r: "r = (case res of None \<Rightarrow> Inl Retryable | Some ev \<Rightarrow> Inr ())"
    using assms(2) by (auto simp: OrderPlaceActivity_releaseStock_def split: prod.splits option.splits)
  have ctx: "run_ctx isUUID input c b w0" and sent: "releasing isUUID input c b late w0 ?w"
    using assms(1) by (auto simp: releasing_def money_back_def)
  have eff: "\<exists>s q. w2 = ?w\<lparr>wl_seller := s\<rparr> \<and> clear_stock (wi_orderPublicId input) (wl_seller w0) s \<and> reply = RpcReply q"
    if "handle_release isUUID input e ?w = (reply, w2)" "\<not> late" for e reply w2
    using sent that release_effect [of isUUID input "wl_seller w0" ?w e reply w2] run_ctxD(2,3) [OF ctx]
    by (auto simp: releasing_def)
  have frame: "releasing isUUID input c b late w0 w2" if "handle_release isUUID input e ?w = (reply, w2)" for e reply w2
    using sent handle_frame(2) [OF that] eff [OF that] handled_stock_inv(2) [of ?w isUUID input e] that
    by (auto simp: releasing_def money_back_def)
  have "stock_inv (wl_seller ?w)" using sent by (simp add: releasing_def)
  then obtain q where "fst (handle_release isUUID input (at_message a) ?w) = RpcReply q"
    using release_answered [of isUUID input ?w "at_message a"] run_ctxD(2) [OF ctx] by blast
  then have "at_outcome a = Answered \<Longrightarrow> res \<noteq> None"
    using req by (auto simp: amqp_request_def Let_def split: prod.splits rpc.splits)
  moreover from req have "releasing isUUID input c b late w0 w'
      \<and> (res \<noteq> None \<longrightarrow> late \<or> clear_stock (wi_orderPublicId input) (wl_seller w0) (wl_seller w'))"
  proof (cases rule: amqp_cases)
    case (answered q)
    then show ?thesis using frame [OF answered(2)] eff [OF answered(2)] by (cases late) auto
  qed (use sent frame in auto)
  ultimately show ?thesis using r by (auto split: option.splits)
qed

interpretation release_phase: retried isUUID input "OrderPlaceActivity_releaseStock isUUID input"
  "\<lambda>a. late \<or> no_late_reserve a" "releasing isUUID input c b late w0"
  "\<lambda>w. releasing isUUID input c b late w0 w \<and> (late \<or> clear_stock (wi_orderPublicId input) (wl_seller w0) (wl_seller w))"
  "\<lambda>t w. False"
  for isUUID input c b late w0
proof
  fix w a rq e
  assume w: "releasing isUUID input c b late w0 w" "late \<or> no_late_reserve a" "(rq, e) \<in> set (at_redelivered a)"
    "rq \<in> set (wl_sent w)"
  from w(2,3) have "late \<or> rq \<noteq> RqReserve" by (force simp: no_late_reserve_def)
  with w show "releasing isUUID input c b late w0 (redeliver_one isUUID input (rq, e) w)" by (intro releasing_redelivered)
qed (auto dest: releaseStock_outcome)

subsubsection \<open>Ending the order\<close>

lemma database_attempt_outcome:
  assumes "order_end.reached ft i db0 (wl_order w)" and "database_attempt (\<lambda>env. workflow_end ft env i) a w = (r, w')"
  shows "\<exists>db. w' = w\<lparr>wl_order := db\<rparr> \<and> order_end.reached ft i db0 db \<and> (r = Inr () \<longrightarrow> order_end.settled ft i db0 db)
    \<and> (\<forall>t. r \<noteq> Inl (NonRetryable t))"
proof -
  have step: "order_end.reached ft i db0 (snd (transactional (workflow_end ft env i) (wl_order w)))
      \<and> (fst (transactional (workflow_end ft env i) (wl_order w)) = Inr ()
          \<longrightarrow> order_end.settled ft i db0 (snd (transactional (workflow_end ft env i) (wl_order w))))" for env
    using order_end.reached_success [OF assms(1), of env] assms(1)
    by (auto simp: transactional_def order_end.reached_def split: sum.splits)
  show ?thesis
  proof (cases "at_outcome a")
    case Answered
    obtain q db where tr: "transactional (workflow_end ft (at_order a) i) (wl_order w) = (q, db)" by fastforce
    with step [of "at_order a"] Answered assms(2) show ?thesis
      by (intro exI [of _ db]) (auto simp: database_attempt_def split: sum.splits)
  next
    case (TimedOut h)
    show ?thesis
    proof (cases h)
      case True
      with TimedOut assms(2) step [of "at_order a"] show ?thesis
        by (intro exI [of _ "snd (transactional (workflow_end ft (at_order a) i) (wl_order w))"])
          (auto simp: database_attempt_def)
    next
      case False
      with TimedOut assms show ?thesis by (intro exI [of _ "wl_order w"]) (auto simp: database_attempt_def)
    qed
  qed
qed

lemma paying_redelivered:
  assumes "paying isUUID input c b w0 w" and "rq \<in> set (wl_sent w)"
  shows "paying isUUID input c b w0 (redeliver_one isUUID input (rq, e) w)"
proof -
  let ?v = "w\<lparr>wl_order := wl_order w0\<rparr>"
  have v: "(redeliver_one isUUID input (rq, e) w)\<lparr>wl_order := wl_order w0\<rparr> = redeliver_one isUUID input (rq, e) ?v"
    by (cases rq) (simp_all add: handle_reserve_def handle_release_def handle_charge_def handle_refund_def split: prod.splits)
  have "charging isUUID input c b w0 (redeliver_one isUUID input (rq, e) ?v)
    \<and> (charge_done input (wl_account ?v) \<longrightarrow> charge_done input (wl_account (redeliver_one isUUID input (rq, e) ?v)))"
    using assms by (intro charging_redelivered) (simp_all add: paying_def)
  moreover have "wl_account (redeliver_one isUUID input (rq, e) w) = wl_account (redeliver_one isUUID input (rq, e) ?v)"
    using arg_cong [OF v, of wl_account] by simp
  ultimately show ?thesis using assms(1) redelivered_stock_frame(3) [of isUUID input rq e w] by (simp add: paying_def v)
qed

interpretation paid_phase: retried isUUID input
  "database_attempt (\<lambda>env. workflow_end None env (wi_orderId input))" "\<lambda>_. True"
  "paying isUUID input c b w0" "paid isUUID input c b w0" "\<lambda>t w. False"
  for isUUID input c b w0
proof
  fix w a r w'
  assume w: "paying isUUID input c b w0 w"
  then have "order_end.reached None (wi_orderId input) (wl_order w0) (wl_order w)" by (simp add: paying_def)
  note out = database_attempt_outcome [OF this]
  show "paying isUUID input c b w0 w'"
    if "database_attempt (\<lambda>env. workflow_end None env (wi_orderId input)) a w = (Inl Retryable, w')"
    using out [OF that] w by (auto simp: paying_def)
  show "paid isUUID input c b w0 w'"
    if "database_attempt (\<lambda>env. workflow_end None env (wi_orderId input)) a w = (Inr u, w')" for u
    using out [OF that] w by (auto simp: paying_def paid_def)
  show False if "database_attempt (\<lambda>env. workflow_end None env (wi_orderId input)) a w = (Inl (NonRetryable t), w')" for t
    using out [OF that] by auto
qed (auto dest: paying_redelivered)

lemma failing_redelivered:
  assumes "failing isUUID input c b late ft w0 w" and "late \<or> rq \<noteq> RqReserve" and "rq \<in> set (wl_sent w)"
  shows "failing isUUID input c b late ft w0 (redeliver_one isUUID input (rq, e) w)"
proof -
  have ctx: "run_ctx isUUID input c b w0" using assms(1) by (simp add: failing_def)
  have mb: "money_back input c b (redeliver_one isUUID input (rq, e) w)"
    using assms by (intro redelivered_money_back [OF run_ctxD(1) [OF ctx]]) (auto simp: failing_def)
  have "late \<or> clear_stock (wi_orderPublicId input) (wl_seller w0) (wl_seller (redeliver_one isUUID input (rq, e) w))"
  proof (cases "late \<or> rq \<in> {RqCharge, RqRefund}")
    case True
    then show ?thesis using assms(1) redelivered_stock_frame(2) [of rq isUUID input e w] by (auto simp: failing_def)
  next
    case False
    then have "rq = RqRelease" using assms(2) by (cases rq) auto
    moreover have "stock_reached input (wl_seller w0) (wl_seller w)
        \<or> clear_stock (wi_orderPublicId input) (wl_seller w0) (wl_seller w)"
      using assms(1) False by (auto simp: failing_def)
    from redelivered_release [of isUUID input, OF run_ctxD(2,3) [OF ctx] this, of e]
    have "clear_stock (wi_orderPublicId input) (wl_seller w0) (wl_seller (redeliver_one isUUID input (RqRelease, e) w))" by auto
    ultimately show ?thesis by simp
  qed
  then show ?thesis using ctx mb assms(1) redelivered_stock_frame(3) [of isUUID input rq e w] by (simp add: failing_def)
qed

interpretation failed_phase: retried isUUID input
  "database_attempt (\<lambda>env. workflow_end (Some ft) env (wi_orderId input))" "\<lambda>a. late \<or> no_late_reserve a"
  "failing isUUID input c b late ft w0" "failed isUUID input c b late ft w0" "\<lambda>t w. False"
  for isUUID input c b late ft w0
proof
  fix w a rq e
  assume w: "failing isUUID input c b late ft w0 w" "late \<or> no_late_reserve a" "(rq, e) \<in> set (at_redelivered a)"
    "rq \<in> set (wl_sent w)"
  from w(2,3) have "late \<or> rq \<noteq> RqReserve" by (force simp: no_late_reserve_def)
  with w show "failing isUUID input c b late ft w0 (redeliver_one isUUID input (rq, e) w)" by (intro failing_redelivered)
next
  fix w a r w'
  assume w: "failing isUUID input c b late ft w0 w"
  then have "order_end.reached (Some ft) (wi_orderId input) (wl_order w0) (wl_order w)" by (simp add: failing_def)
  note out = database_attempt_outcome [OF this]
  show "failing isUUID input c b late ft w0 w'"
    if "database_attempt (\<lambda>env. workflow_end (Some ft) env (wi_orderId input)) a w = (Inl Retryable, w')"
    using out [OF that] w by (auto simp: failing_def money_back_def)
  show "failed isUUID input c b late ft w0 w'"
    if "database_attempt (\<lambda>env. workflow_end (Some ft) env (wi_orderId input)) a w = (Inr u, w')" for u
    using out [OF that] w by (auto simp: failing_def failed_def money_back_def)
  show False if "database_attempt (\<lambda>env. workflow_end (Some ft) env (wi_orderId input)) a w = (Inl (NonRetryable t), w')" for t
    using out [OF that] by auto
qed

subsection \<open>The whole run\<close>

lemma run_ctx_start: "run_ctx isUUID input c b w0 \<Longrightarrow> wl_sent w0 = [] \<Longrightarrow> reserving isUUID input c b w0 w0"
  by (simp add: reserving_def stock_hold.reached_refl)

lemma reserved_charging: "reserved isUUID input c b w0 w \<Longrightarrow> charging isUUID input c b w0 w"
  using run_ctxD by (fastforce simp: reserved_def reserving_def charging_def)

lemma reserving_releasing: "reserving isUUID input c b w0 w \<Longrightarrow> releasing isUUID input c b late w0 w"
  using run_ctxD run_ctxD(3) stock_reached_inv
  by (fastforce simp: reserving_def releasing_def money_back_def unheld_def)

lemma charging_refunding: "charging isUUID input c b w0 w \<Longrightarrow> refunding isUUID input c b w0 w"
  by (auto simp: charging_def refunding_def)

lemma refunded_releasing:
  "refunding isUUID input c b w0 w \<Longrightarrow> refund_done input (wl_account w) \<Longrightarrow> releasing isUUID input c b late w0 w"
  using run_ctxD(3) stock_reached_inv
  by (fastforce simp: refunding_def releasing_def money_back_def stock_hold.reached_def unheld_def)

lemma rejected_releasing:
  "charging isUUID input c b w0 w \<Longrightarrow> \<not> charge_done input (wl_account w) \<Longrightarrow> b < c \<Longrightarrow> releasing isUUID input c b late w0 w"
  using run_ctxD(3) stock_reached_inv
  by (fastforce simp: charging_def releasing_def money_back_def stock_hold.reached_def unheld_def)

lemma released_failing:
  "releasing isUUID input c b late w0 w \<Longrightarrow> late \<or> clear_stock (wi_orderPublicId input) (wl_seller w0) (wl_seller w)
    \<Longrightarrow> failing isUUID input c b late ft w0 w"
  by (simp add: releasing_def failing_def order_end.reached_refl)

lemma untouched_clear:
  "reserving isUUID input c b w0 w \<Longrightarrow> wl_seller w = wl_seller w0
    \<Longrightarrow> clear_stock (wi_orderPublicId input) (wl_seller w0) (wl_seller w)"
  using run_ctxD(3) by (auto simp: reserving_def intro: unheld_clear)

lemma charged_paying:
  "charging isUUID input c b w0 w \<Longrightarrow> charge_done input (wl_account w) \<Longrightarrow> paying isUUID input c b w0 w"
  by (simp add: charging_def paying_def order_end.reached_refl)

definition only_late :: "bool \<Rightarrow> script \<Rightarrow> bool" where
  "only_late late sc \<longleftrightarrow> list_all (\<lambda>a. late \<or> no_late_reserve a) (sc_release sc @ sc_mark sc)"

lemma database_not_NonRetryable: "database_attempt body a w \<noteq> (Inl (NonRetryable t), w')"
  by (auto simp: database_attempt_def split: rpc_outcome.splits bool.splits prod.splits sum.splits)

lemma release_not_NonRetryable: "OrderPlaceActivity_releaseStock isUUID input a w \<noteq> (Inl (NonRetryable t), w')"
  by (auto simp: OrderPlaceActivity_releaseStock_def split: prod.splits option.splits)

lemma refund_not_NonRetryable: "OrderPlaceActivity_refundCustomer isUUID input a w \<noteq> (Inl (NonRetryable t), w')"
  by (auto simp: OrderPlaceActivity_refundCustomer_def split: prod.splits option.splits)

text \<open>
  Compensation, from every state in which the workflow starts it: the charge is refunded unless it was
  rejected or never sent, the stock released unless the reservation was rejected.
\<close>

definition to_compensate ::
  "(string \<Rightarrow> bool) \<Rightarrow> order_place_workflow_input \<Rightarrow> int \<Rightarrow> int \<Rightarrow> world \<Rightarrow> bool \<Rightarrow> OrderPlaceFailureTypeEnum option
    \<Rightarrow> world \<Rightarrow> bool" where
  "to_compensate isUUID input c b w0 isChargeSent ft w \<longleftrightarrow>
     (if isChargeSent
      then charging isUUID input c b w0 w
        \<and> (ft = None \<or> ft = Some PAYMENT_REJECTED \<and> \<not> charge_done input (wl_account w) \<and> b < c)
      else reserving isUUID input c b w0 w
        \<and> (ft = None \<or> ft = Some INSUFFICIENT_STOCK \<and> wl_seller w = wl_seller w0))"

lemma compensate_refunded:
  assumes "to_compensate isUUID input c b w0 isChargeSent ft w"
    and "(if isChargeSent \<and> ft \<noteq> Some PAYMENT_REJECTED
          then run_forever isUUID input (OrderPlaceActivity_refundCustomer isUUID input) as w else Some w) = Some w1"
  shows "releasing isUUID input c b late w0 w1
    \<and> (ft = Some INSUFFICIENT_STOCK \<longrightarrow> clear_stock (wi_orderPublicId input) (wl_seller w0) (wl_seller w1))"
proof (cases "isChargeSent \<and> ft \<noteq> Some PAYMENT_REJECTED")
  case True
  then have "ft = None" "charging isUUID input c b w0 w" using assms(1) by (auto simp: to_compensate_def)
  moreover have "refunding isUUID input c b w0 w1 \<and> refund_done input (wl_account w1)"
    using assms(2) True charging_refunding [OF calculation(2)] refund_phase.forever [OF refund_not_NonRetryable]
    by (simp add: list_all_iff)
  ultimately show ?thesis by (simp add: refunded_releasing)
next
  case False
  then show ?thesis
    using assms rejected_releasing reserving_releasing untouched_clear by (auto simp: to_compensate_def split: if_splits)
qed

lemma compensate_outcome:
  assumes start: "to_compensate isUUID input c b w0 isChargeSent ft w" and late: "only_late late sc"
    and run: "compensate isUUID input sc isChargeSent ft w = Some (res, w')"
  shows "failed isUUID input c b late ft w0 w'
    \<and> res = (if ft = None then Thrown else Returned (fl_status (toFailure ft)))"
proof -
  let ?release = "run_forever isUUID input (OrderPlaceActivity_releaseStock isUUID input) (sc_release sc)"
  from run obtain w1 w2 where
    1: "(if isChargeSent \<and> ft \<noteq> Some PAYMENT_REJECTED
          then run_forever isUUID input (OrderPlaceActivity_refundCustomer isUUID input) (sc_refund sc) w else Some w) = Some w1"
    and 2: "(if ft \<noteq> Some INSUFFICIENT_STOCK then ?release w1 else Some w1) = Some w2"
    and 3: "run_forever isUUID input (database_attempt (\<lambda>env. workflow_end (Some ft) env (wi_orderId input))) (sc_mark sc) w2 = Some w'"
    and res: "res = (if ft = None then Thrown else Returned (fl_status (toFailure ft)))"
    unfolding compensate_def workflow_end_simps [symmetric] by (auto split: option.splits)
  have w1: "releasing isUUID input c b late w0 w1"
    "ft = Some INSUFFICIENT_STOCK \<Longrightarrow> clear_stock (wi_orderPublicId input) (wl_seller w0) (wl_seller w1)"
    using compensate_refunded [OF start 1] by blast+
  have "releasing isUUID input c b late w0 w2
      \<and> (late \<or> clear_stock (wi_orderPublicId input) (wl_seller w0) (wl_seller w2))"
  proof (cases "ft = Some INSUFFICIENT_STOCK")
    case False
    with 2 late w1(1) show ?thesis
      using release_phase.forever [OF release_not_NonRetryable, of isUUID input "sc_release sc" w1 w2] by (simp add: only_late_def)
  qed (use 2 w1 in simp)
  then have "failing isUUID input c b late ft w0 w2" by (simp add: released_failing)
  with 3 late have "failed isUUID input c b late ft w0 w'"
    using failed_phase.forever [OF database_not_NonRetryable] by (simp add: only_late_def)
  with res show ?thesis by simp
qed

lemma workflow_outcome:
  assumes ctx: "run_ctx isUUID input c b w" and sent: "wl_sent w = []" and late: "only_late late sc"
    and run: "orderPlaceWorkflow isUUID input sc w = Some (res, w')"
  shows "res = Returned OS_paid \<and> paid isUUID input c b w w'
    \<or> (\<exists>ft. failed isUUID input c b late ft w w' \<and> res = (if ft = None then Thrown else Returned (fl_status (toFailure ft))))"
proof -
  obtain r1 w1 where 1: "run_bounded isUUID input (OrderPlaceActivity_reserveStock isUUID input) (sc_reserve sc) w = (r1, w1)" by fastforce
  note r1 = reserve_phase.bounded [OF 1 run_ctx_start [OF ctx sent]]
  show ?thesis
  proof (cases r1)
    case (Inl ft)
    then have "to_compensate isUUID input c b w False ft w1"
      using r1 by (cases ft) (simp_all add: to_compensate_def list_all_iff)
    from compensate_outcome [OF this late] run 1 Inl show ?thesis by (auto simp: orderPlaceWorkflow_def)
  next
    case (Inr u)
    then have ch: "charging isUUID input c b w w1" using r1 by (simp add: reserved_charging list_all_iff)
    obtain r2 w2 where 2: "run_bounded isUUID input (OrderPlaceActivity_chargeCustomer isUUID input) (sc_charge sc) w1 = (r2, w2)" by fastforce
    note r2 = charge_phase.bounded [OF 2 ch]
    show ?thesis
    proof (cases r2)
      case (Inl ft)
      then have "to_compensate isUUID input c b w True ft w2"
        using r2 by (cases ft) (simp_all add: to_compensate_def list_all_iff)
      from compensate_outcome [OF this late] run 1 2 Inr Inl show ?thesis by (auto simp: orderPlaceWorkflow_def)
    next
      case r2': (Inr v)
      then have py: "paying isUUID input c b w w2" using r2 by (simp add: charged_paying list_all_iff)
      from run 1 2 Inr r2' have "run_forever isUUID input (database_attempt (\<lambda>env. workflow_end None env (wi_orderId input))) (sc_mark sc) w2 = Some w'"
        and "res = Returned OS_paid"
        unfolding orderPlaceWorkflow_def workflow_end_simps [symmetric] by (auto split: option.splits)
      then show ?thesis using paid_phase.forever [OF database_not_NonRetryable _ py] by (simp add: list_all_iff)
    qed
  qed
qed

end
