(* ===== verification/Order_Saga.thy ===== *)
theory Order_Saga
  imports Order_Workflow
begin

section \<open>What an order's workflow guarantees\<close>

text \<open>
  The properties of the workflow of \<open>Order_Workflow\<close> together with the services it talks to: a paid
  order was reserved and charged exactly once; every other end leaves the buyer's balance as it was
  and, unless a reservation request is handled after its release, the stock too; the workflow returns
  once the network lets one attempt of each activity through; and the two situations in which it does
  not do what it is meant to do: an order of total zero, and a reservation that arrives too late.
\<close>

subsection \<open>When the workflow returns\<close>

context retried
begin

lemma forever_returns:
  assumes "\<And>a w. inv w \<Longrightarrow> good a \<Longrightarrow> fst (act a w) = Inr ()" and "\<And>a w t w'. inv w \<Longrightarrow> act a w \<noteq> (Inl (NonRetryable t), w')"
  shows "inv w \<Longrightarrow> list_all allowed as \<Longrightarrow> list_ex good as \<Longrightarrow> \<exists>w'. run_forever isUUID input act as w = Some w'"
proof (induction as arbitrary: w)
  case (Cons a as)
  obtain r1 w1 where act: "act a (redeliver isUUID input a w) = (r1, w1)" by fastforce
  have i: "inv (redeliver isUUID input a w)" using Cons.prems by (simp add: redeliver_inv)
  show ?case
  proof (cases r1)
    case (Inl e)
    moreover have "\<not> good a" using assms(1) [OF i, of a] act Inl by auto
    moreover have "inv w1" using retry [OF i, of a w1] assms(2) [OF i, of a _ w1] act Inl by (cases e) auto
    ultimately show ?thesis using act Cons by simp
  qed (use act in simp)
qed simp

end

text \<open>The order can be ended: it exists, and the event has an id that is not in use.\<close>

definition endable :: "int \<Rightarrow> order_db \<Rightarrow> order_env \<Rightarrow> bool" where
  "endable i db env \<longleftrightarrow> int4 i \<and> list_ex (\<lambda>r. or_id r = i \<and> or_deletedAt r = None) (odb_orders db)
     \<and> (\<forall>e\<in>set (odb_outbox db). ob_id e \<noteq> oe_outboxId env)"

lemma end_order_succeeds:
  assumes "endable i db env"
  shows "\<exists>db'. end_order env i res db = Inr ((), db')"
proof -
  let ?os = "update_where (pending_order i) (set_status (oe_now env) (end_status res)) (odb_orders db)"
  obtain r0 where r0: "r0 \<in> set (odb_orders db)" "or_id r0 = i" "or_deletedAt r0 = None"
    using assms by (auto simp: endable_def list_ex_iff)
  let ?r = "if pending_order i r0 then set_status (oe_now env) (end_status res) r0 else r0"
  have "?r \<in> set ?os" "or_id ?r = i" "or_deletedAt ?r = None"
    using r0 by (auto simp: update_where_def set_status_def)
  then have "find_row (\<lambda>r. or_id r = i \<and> or_deletedAt r = None) ?os \<noteq> None" unfolding find_row_None by blast
  then obtain r where "find_row (\<lambda>r. or_id r = i \<and> or_deletedAt r = None) ?os = Some r" by blast
  moreover have "\<not> list_ex (\<lambda>e. ob_id e = oe_outboxId env) (odb_outbox db)"
    using assms by (auto simp: endable_def list_ex_iff)
  ultimately show ?thesis using assms
    by (cases res) (auto simp: endable_def end_order_def end_status_def OrderPlaceActivity_markPaid_def OrderPlaceActivity_markFailed_def
        OrderRepository_updatePendingStatusById_def OrderRepository_findByIdOrFail_def record_event_def Let_def
        OrderOutboxRepository_create_def event_insert_def toOrderPaidOutbox_def toOrderFailedOutbox_def)
qed

lemma database_answers:
  assumes "order_end.reached ft i db0 (wl_order w)" and "at_outcome a = Answered" and "endable i db0 (at_order a)"
  shows "fst (database_attempt (\<lambda>env. workflow_end ft env i) a w) = Inr ()"
proof -
  obtain db where db: "workflow_end ft (at_order a) i db0 = Inr ((), db)"
    using end_order_succeeds [OF assms(3)] by (auto simp: workflow_end_def)
  have "\<exists>db. workflow_end ft (at_order a) i (wl_order w) = Inr ((), db)"
    using assms(1) db order_end.settled_fixed by (auto simp: order_end.reached_def)
  then show ?thesis using assms(2) by (auto simp: database_attempt_def)
qed

definition answered :: "attempt \<Rightarrow> bool" where
  "answered a \<longleftrightarrow> at_outcome a = Answered"

definition commits :: "int \<Rightarrow> order_db \<Rightarrow> attempt \<Rightarrow> bool" where
  "commits i db a \<longleftrightarrow> answered a \<and> endable i db (at_order a)"

definition network_recovers :: "order_place_workflow_input \<Rightarrow> script \<Rightarrow> world \<Rightarrow> bool" where
  "network_recovers input sc w \<longleftrightarrow> list_ex answered (sc_refund sc) \<and> list_ex answered (sc_release sc)
     \<and> list_ex (commits (wi_orderId input) (wl_order w)) (sc_mark sc)"

lemma compensate_returns:
  assumes start: "to_compensate isUUID input c b w0 isChargeSent ft w"
    and ok: "network_recovers input sc w0"
  shows "\<exists>p. compensate isUUID input sc isChargeSent ft w = Some p"
proof -
  let ?refund = "run_forever isUUID input (OrderPlaceActivity_refundCustomer isUUID input) (sc_refund sc)"
  let ?release = "run_forever isUUID input (OrderPlaceActivity_releaseStock isUUID input) (sc_release sc)"
  let ?mark = "run_forever isUUID input (database_attempt (\<lambda>env. workflow_end (Some ft) env (wi_orderId input))) (sc_mark sc)"
  have "\<exists>w1. (if isChargeSent \<and> ft \<noteq> Some PAYMENT_REJECTED then ?refund w else Some w) = Some w1"
  proof (cases "isChargeSent \<and> ft \<noteq> Some PAYMENT_REJECTED")
    case True
    then have "refunding isUUID input c b w0 w" using start by (auto simp: to_compensate_def charging_refunding)
    from refund_phase.forever_returns [OF _ refund_not_NonRetryable this, of answered "sc_refund sc"]
    show ?thesis using True ok refundCustomer_outcome by (fastforce simp: network_recovers_def answered_def list_all_iff prod_eq_iff)
  qed auto
  then obtain w1 where 1: "(if isChargeSent \<and> ft \<noteq> Some PAYMENT_REJECTED then ?refund w else Some w) = Some w1" by blast
  have rel: "releasing isUUID input c b True w0 w1"
    using compensate_refunded [OF start 1] by blast
  have "\<exists>w2. (if ft \<noteq> Some INSUFFICIENT_STOCK then ?release w1 else Some w1) = Some w2"
  proof (cases "ft = Some INSUFFICIENT_STOCK")
    case False
    from release_phase.forever_returns [OF _ release_not_NonRetryable rel, of answered "sc_release sc"]
    show ?thesis using False ok releaseStock_outcome
      by (fastforce simp: network_recovers_def answered_def list_all_iff prod_eq_iff)
  qed simp
  then obtain w2 where 2: "(if ft \<noteq> Some INSUFFICIENT_STOCK then ?release w1 else Some w1) = Some w2" by blast
  have "failing isUUID input c b True ft w0 w2"
  proof (cases "ft = Some INSUFFICIENT_STOCK")
    case False
    with 2 show ?thesis
      using release_phase.forever [OF release_not_NonRetryable _ rel, of "sc_release sc" w2]
      by (simp add: list_all_iff released_failing)
  qed (use 2 rel in \<open>simp add: released_failing\<close>)
  moreover have "fst (database_attempt (\<lambda>env. workflow_end (Some ft) env (wi_orderId input)) a v) = Inr ()"
    if "failing isUUID input c b True ft w0 v" "commits (wi_orderId input) (wl_order w0) a" for a v
    using that by (intro database_answers) (auto simp: failing_def commits_def answered_def)
  ultimately obtain w3 where "?mark w2 = Some w3"
    using failed_phase.forever_returns [OF _ database_not_NonRetryable, of isUUID input c b True ft w0
        "commits (wi_orderId input) (wl_order w0)" w2 "sc_mark sc"] ok
    by (auto simp: network_recovers_def list_all_iff)
  then show ?thesis using 1 2 unfolding compensate_def workflow_end_simps [symmetric] by auto
qed

lemma workflow_returns:
  assumes ctx: "run_ctx isUUID input c b w" and sent: "wl_sent w = []" and ok: "network_recovers input sc w"
  shows "\<exists>p. orderPlaceWorkflow isUUID input sc w = Some p"
proof -
  obtain r1 w1 where 1: "run_bounded isUUID input (OrderPlaceActivity_reserveStock isUUID input) (sc_reserve sc) w = (r1, w1)" by fastforce
  note r1 = reserve_phase.bounded [OF 1 run_ctx_start [OF ctx sent]]
  show ?thesis
  proof (cases r1)
    case (Inl ft)
    then have "to_compensate isUUID input c b w False ft w1"
      using r1 by (cases ft) (simp_all add: to_compensate_def list_all_iff)
    from compensate_returns [OF this ok] 1 Inl show ?thesis by (simp add: orderPlaceWorkflow_def)
  next
    case (Inr u)
    then have ch: "charging isUUID input c b w w1" using r1 by (simp add: reserved_charging list_all_iff)
    obtain r2 w2 where 2: "run_bounded isUUID input (OrderPlaceActivity_chargeCustomer isUUID input) (sc_charge sc) w1 = (r2, w2)" by fastforce
    note r2 = charge_phase.bounded [OF 2 ch]
    show ?thesis
    proof (cases r2)
      case (Inl ft)
      then have "to_compensate isUUID input c b w True ft w2"
        using r2 by (cases ft) (simp_all add: to_compensate_def list_all_iff)
      from compensate_returns [OF this ok] 1 2 Inr Inl show ?thesis by (simp add: orderPlaceWorkflow_def)
    next
      case r2': (Inr v)
      then have py: "paying isUUID input c b w w2" using r2 by (simp add: charged_paying list_all_iff)
      moreover have "fst (database_attempt (\<lambda>env. workflow_end None env (wi_orderId input)) a v) = Inr ()"
        if "paying isUUID input c b w v" "commits (wi_orderId input) (wl_order w) a" for a v
        using that by (intro database_answers) (auto simp: paying_def commits_def answered_def)
      ultimately obtain w3 where "run_forever isUUID input (database_attempt (\<lambda>env. workflow_end None env (wi_orderId input))) (sc_mark sc) w2 = Some w3"
        using paid_phase.forever_returns [OF _ database_not_NonRetryable, of isUUID input c b w
            "commits (wi_orderId input) (wl_order w)" w2 "sc_mark sc"] ok
        by (auto simp: network_recovers_def list_all_iff)
      then show ?thesis using 1 2 Inr r2' unfolding orderPlaceWorkflow_def workflow_end_simps [symmetric] by simp
    qed
  qed
qed

subsection \<open>The demo order\<close>

text \<open>An order of the buyer of \<open>Account\<close> for the items of \<open>Seller_Offer\<close>, and a network without failures.\<close>

definition demo_workflow_input :: order_place_workflow_input where
  "demo_workflow_input = \<lparr>wi_orderId = 1, wi_orderPublicId = ''mine'', wi_userId = 7, wi_totalAmount = fmt_cents 9000,
     wi_items = demo_items\<rparr>"

definition demo_order :: Order where
  "demo_order = \<lparr>or_id = 1, or_publicId = ''mine'', or_userId = 7, or_orderRecipientId = 1, or_idempotencyKey = None,
     or_ownerIdentityPublicId = None, or_status = OS_pending_payment, or_totalAmount = 9000, or_discountAmount = 0,
     or_currency = UAH, or_createdAt = 0, or_updatedAt = 0, or_deletedAt = None\<rparr>"

definition demo_world :: world where
  "demo_world = \<lparr>wl_seller = demo_stock, wl_account = demo_ledger,
     wl_order = \<lparr>odb_orders = [demo_order], odb_lines = [], odb_recipients = [], odb_buyers = [], odb_outbox = [], odb_workflows = []\<rparr>,
     wl_sent = []\<rparr>"

definition demo_attempt :: attempt where
  "demo_attempt = \<lparr>at_redelivered = [], at_outcome = Answered,
     at_message = \<lparr>me_sent = 0, me_now = 5, me_reply = demo_env, me_account = demo_account_env\<rparr>,
     at_order = \<lparr>oe_now = 9, oe_orderId = 0, oe_publicId = '''', oe_recipientId = 0, oe_outboxId = ''e''\<rparr>\<rparr>"

definition demo_script :: script where
  "demo_script = \<lparr>sc_reserve = [demo_attempt], sc_charge = [demo_attempt], sc_refund = [demo_attempt],
     sc_release = [demo_attempt], sc_mark = [demo_attempt]\<rparr>"

lemma demo_run_ctx: "run_ctx (\<lambda>_. True) demo_workflow_input 9000 10000 demo_world"
proof -
  have "valid_workflow_input (\<lambda>_. True) demo_workflow_input 9000"
    by (simp add: valid_workflow_input_def demo_workflow_input_def demo_items_def max_safe_integer_def amount_def int4_def)
  moreover have "unheld ''mine'' demo_stock"
    using demo_stock_inv by (simp add: unheld_def demo_stock_def)
  moreover have "settlement ''mine'' ''mine'' 7 9000 10000 demo_ledger"
    using demo_ledger_inv by (simp add: settlement_def processed_def balance_def customer_def demo_ledger_def numeric12_2_def)
  ultimately show ?thesis
    by (simp add: run_ctx_def demo_world_def demo_workflow_input_def processed_def demo_ledger_def)
qed

lemma demo_recovers:
  "network_recovers demo_workflow_input demo_script demo_world" "only_late False demo_script" "wl_sent demo_world = []"
  by (simp_all add: network_recovers_def demo_script_def demo_attempt_def answered_def commits_def endable_def int4_def
      demo_workflow_input_def demo_world_def demo_order_def only_late_def no_late_reserve_def)

lemma demo_no_redelivery: "redeliver isUUID input demo_attempt w = w"
  by (simp add: redeliver_def demo_attempt_def)

lemma demo_reserve_runs:
  "\<exists>s. run_bounded (\<lambda>_. True) demo_workflow_input (OrderPlaceActivity_reserveStock (\<lambda>_. True) demo_workflow_input) [demo_attempt] demo_world
    = (Inr (), demo_world\<lparr>wl_sent := [RqReserve], wl_seller := s\<rparr>)"
proof -
  have v: "valid_workflow_input (\<lambda>_. True) demo_workflow_input 9000" using demo_run_ctx by (simp add: run_ctx_def)
  have "\<not> list_ex (\<lambda>it. short (item_create ''mine'' it) demo_stock) demo_items"
    by (simp add: short_def demo_stock_defs can_hold_def live_offer_def)
  then obtain s where "SellerOfferStockReserveCommandHandler_execute 5 ''mine'' \<lparr>srd_items = demo_items\<rparr> demo_stock = Inr ((), s)"
    using reserve_execute_outcome [OF demo_stock_inv demo_orderable, of "''mine''" 5] by auto
  then show ?thesis
    using handleStockReserve_accepted [OF reserve_request_accepted [OF v, of 0], of demo_env 5 demo_stock]
    by (auto simp: OrderPlaceActivity_reserveStock_def amqp_request_def handle_reserve_def demo_attempt_def
        demo_workflow_input_def demo_world_def SellerOfferGateway_toResponse_def redeliver_def)
qed

lemma demo_charge_runs:
  assumes "wl_account w = demo_ledger"
  shows "\<exists>a. run_bounded (\<lambda>_. True) demo_workflow_input (OrderPlaceActivity_chargeCustomer (\<lambda>_. True) demo_workflow_input) [demo_attempt] w
    = (Inr (), w\<lparr>wl_sent := RqCharge # wl_sent w, wl_account := a\<rparr>)"
proof -
  have v: "valid_workflow_input (\<lambda>_. True) demo_workflow_input 9000"
    and st: "settlement ''mine'' ''mine'' 7 9000 10000 demo_ledger" and np: "\<not> processed CUSTOMER_CHARGE ''mine'' demo_ledger"
    using demo_run_ctx by (simp_all add: run_ctx_def demo_workflow_input_def demo_world_def)
  note om = payment_requests_accepted [OF v, of 0 0]
  show ?thesis
    using charge_outcome [OF st om [unfolded demo_workflow_input_def, simplified], of demo_account_env] np assms
    by (auto simp: redeliver_def OrderPlaceActivity_chargeCustomer_def amqp_request_def handle_charge_def
        demo_attempt_def demo_workflow_input_def AccountGateway_toResponse_def)
qed

lemma demo_paid:
  "\<exists>w'. orderPlaceWorkflow (\<lambda>_. True) demo_workflow_input demo_script demo_world = Some (Returned OS_paid, w')"
proof -
  obtain res w' where run: "orderPlaceWorkflow (\<lambda>_. True) demo_workflow_input demo_script demo_world = Some (res, w')"
    using workflow_returns [OF demo_run_ctx demo_recovers(3,1)] by auto
  obtain s where 1: "run_bounded (\<lambda>_. True) demo_workflow_input (OrderPlaceActivity_reserveStock (\<lambda>_. True) demo_workflow_input)
      [demo_attempt] demo_world = (Inr (), demo_world\<lparr>wl_sent := [RqReserve], wl_seller := s\<rparr>)"
    using demo_reserve_runs by blast
  let ?w1 = "demo_world\<lparr>wl_sent := [RqReserve], wl_seller := s\<rparr>"
  have "wl_account ?w1 = demo_ledger" by (simp add: demo_world_def)
  from demo_charge_runs [OF this] run 1 have "res = Returned OS_paid"
    by (auto simp: orderPlaceWorkflow_def demo_script_def split: option.splits)
  with run show ?thesis by blast
qed

subsection \<open>The guarantees\<close>

text \<open>
  C1. A paid order was really paid: the balance went down by exactly its total, which it covered,
  its stock is what one successful reservation leaves, and the order is marked paid once. This holds for
  every script of losses, timeouts, retries and redeliveries.
\<close>

theorem order_workflow_paid:
  assumes "run_ctx isUUID input c b w" and "wl_sent w = []"
    and "orderPlaceWorkflow isUUID input sc w = Some (Returned OS_paid, w')"
  shows "balance (wi_userId input) (wl_account w') = Some (b - c) \<and> c \<le> b
    \<and> (\<exists>now. SellerOfferStockReserveCommandHandler_execute now (wi_orderPublicId input) \<lparr>srd_items = wi_items input\<rparr> (wl_seller w)
         = Inr ((), wl_seller w'))
    \<and> (\<exists>env. OrderPlaceActivity_markPaid env (wi_orderId input) (wl_order w) = Inr ((), wl_order w'))"
proof -
  have "fl_status (toFailure ft) \<noteq> OS_paid" for ft by (simp add: toFailure_def)
  moreover have "only_late True sc" by (simp add: only_late_def list_all_iff)
  ultimately have "paid isUUID input c b w w'"
    using workflow_outcome [OF assms(1,2) _ assms(3), of True] by (metis workflow_result.distinct(1) workflow_result.inject)
  then have p: "stock_settled input (wl_seller w) (wl_seller w')" "order_settlement input c b (wl_account w')"
    "\<not> refund_done input (wl_account w')" "charge_done input (wl_account w')"
    "order_end.settled None (wi_orderId input) (wl_order w) (wl_order w')"
    by (auto simp: paid_def paying_def charging_def)
  then have b: "balance (wi_userId input) (wl_account w') = Some (b - c)" "account_inv (wl_account w')"
    by (simp_all add: settlement_def)
  moreover have "c \<le> b" using account_balance_bounds [OF b(2,1)] by simp
  ultimately show ?thesis
    using p(1,5) by (auto simp: stock_hold.settled_def order_end.settled_def workflow_end_simps order_data_def)
qed

theorem order_workflow_paid_witness:
  "\<exists>w'. orderPlaceWorkflow (\<lambda>_. True) demo_workflow_input demo_script demo_world = Some (Returned OS_paid, w')
    \<and> balance 7 (wl_account w') = Some 1000"
proof -
  obtain w' where run: "orderPlaceWorkflow (\<lambda>_. True) demo_workflow_input demo_script demo_world = Some (Returned OS_paid, w')"
    using demo_paid by blast
  from order_workflow_paid [OF demo_run_ctx demo_recovers(3) run] run show ?thesis
    by (auto simp: demo_workflow_input_def)
qed

text \<open>
  C2. A workflow that ends otherwise costs the buyer nothing: the balance is what it was before, and
  the order is marked failed once, canceled or as a failed payment, with the status that is returned.
\<close>

theorem order_workflow_failed:
  assumes "run_ctx isUUID input c b w" and "wl_sent w = []"
    and "orderPlaceWorkflow isUUID input sc w = Some (res, w')" and "res \<noteq> Returned OS_paid"
  shows "balance (wi_userId input) (wl_account w') = Some b
    \<and> (\<exists>ft env. OrderPlaceActivity_markFailed env (wi_orderId input) (toFailure ft) (wl_order w) = Inr ((), wl_order w')
         \<and> res = (if ft = None then Thrown else Returned (fl_status (toFailure ft))))"
proof -
  have "only_late True sc" by (simp add: only_late_def list_all_iff)
  then obtain ft where "failed isUUID input c b True ft w w'"
    "res = (if ft = None then Thrown else Returned (fl_status (toFailure ft)))"
    using workflow_outcome [OF assms(1,2) _ assms(3), of True] assms(4) by auto
  then show ?thesis
    by (auto simp: failed_def failing_def money_back_def settlement_def order_end.settled_def workflow_end_simps)
qed

text \<open>
  C3. A workflow that does not pay gives the stock back: unless a reservation request is handled while
  it compensates, every offer ends with the stock levels it had, and no reservation of the order is active.
\<close>

theorem order_workflow_stock_back:
  assumes "run_ctx isUUID input c b w" and "wl_sent w = []"
    and "orderPlaceWorkflow isUUID input sc w = Some (res, w')" and "res \<noteq> Returned OS_paid"
    and "list_all no_late_reserve (sc_release sc @ sc_mark sc)"
  shows "stock_levels (wl_seller w') = stock_levels (wl_seller w)
    \<and> (\<forall>r\<in>set (sd_reservations (wl_seller w')). sr_orderPublicId r = wi_orderPublicId input \<longrightarrow> \<not> active r)"
proof -
  have "only_late False sc" using assms(5) by (simp add: only_late_def)
  then obtain ft where "failed isUUID input c b False ft w w'"
    using workflow_outcome [OF assms(1,2) _ assms(3), of False] assms(4) by auto
  then show ?thesis
    by (auto simp: failed_def failing_def clear_stock_def releasable_def active_def)
qed

text \<open>
  C4. The workflow returns as soon as the network recovers: whatever is lost, timed out or handled again
  before, late reservations included, one answered refund, one answered release and one committed update
  of the order are enough. (A script holds the messages of this order; other orders do not act in between.)
\<close>

theorem order_workflow_returns:
  assumes "run_ctx isUUID input c b w" and "wl_sent w = []"
    and "network_recovers input sc w"
  shows "\<exists>res w'. orderPlaceWorkflow isUUID input sc w = Some (res, w')"
  using workflow_returns [OF assms] by auto

text \<open>
  A bad network: the reservation and the first release are lost, and the reservation is handled between
  the first and the second release.
\<close>

definition demo_late_script :: script where
  "demo_late_script = demo_script\<lparr>sc_reserve := [demo_attempt\<lparr>at_outcome := TimedOut False\<rparr>],
     sc_release := [demo_attempt\<lparr>at_outcome := TimedOut False\<rparr>,
       demo_attempt\<lparr>at_redelivered := [(RqReserve, at_message demo_attempt)]\<rparr>]\<rparr>"

theorem order_workflow_returns_witness:
  "\<exists>res w'. orderPlaceWorkflow (\<lambda>_. True) demo_workflow_input demo_late_script demo_world = Some (res, w')"
proof (rule order_workflow_returns [OF demo_run_ctx demo_recovers(3)])
  show "network_recovers demo_workflow_input demo_late_script demo_world"
    using demo_recovers(1) by (simp add: network_recovers_def demo_late_script_def answered_def demo_attempt_def)
qed

text \<open>A script in which the charge is lost until the workflow gives up.\<close>

definition demo_lost_charge :: script where
  "demo_lost_charge = demo_script\<lparr>sc_charge := [demo_attempt\<lparr>at_outcome := TimedOut True\<rparr>]\<rparr>"

lemma demo_lost_charge_runs:
  "\<exists>res w'. orderPlaceWorkflow (\<lambda>_. True) demo_workflow_input demo_lost_charge demo_world = Some (res, w') \<and> res = Thrown"
proof -
  have "network_recovers demo_workflow_input demo_lost_charge demo_world"
    using demo_recovers by (simp add: demo_lost_charge_def network_recovers_def)
  then obtain res w' where run: "orderPlaceWorkflow (\<lambda>_. True) demo_workflow_input demo_lost_charge demo_world = Some (res, w')"
    using workflow_returns [OF demo_run_ctx demo_recovers(3), of demo_lost_charge] by auto
  obtain s where "run_bounded (\<lambda>_. True) demo_workflow_input (OrderPlaceActivity_reserveStock (\<lambda>_. True) demo_workflow_input)
      [demo_attempt] demo_world = (Inr (), demo_world\<lparr>wl_sent := [RqReserve], wl_seller := s\<rparr>)"
    using demo_reserve_runs by blast
  moreover have "fst (run_bounded isUUID input (OrderPlaceActivity_chargeCustomer isUUID input)
      [demo_attempt\<lparr>at_outcome := TimedOut True\<rparr>] w) = Inl None" for isUUID input w
    by (simp add: OrderPlaceActivity_chargeCustomer_def amqp_request_def)
  ultimately have "res = Thrown" using run
    by (auto simp: orderPlaceWorkflow_def demo_lost_charge_def demo_script_def compensate_def prod_eq_iff
        split: option.splits if_splits prod.splits sum.splits)
  with run show ?thesis by blast
qed

theorem order_workflow_failed_witness:
  "\<exists>res w'. orderPlaceWorkflow (\<lambda>_. True) demo_workflow_input demo_lost_charge demo_world = Some (res, w')
    \<and> balance 7 (wl_account w') = Some 10000"
proof -
  obtain w' where run: "orderPlaceWorkflow (\<lambda>_. True) demo_workflow_input demo_lost_charge demo_world = Some (Thrown, w')"
    using demo_lost_charge_runs by auto
  from order_workflow_failed [OF demo_run_ctx demo_recovers(3) run] run show ?thesis by (auto simp: demo_workflow_input_def)
qed

theorem order_workflow_stock_back_witness:
  "\<exists>res w'. orderPlaceWorkflow (\<lambda>_. True) demo_workflow_input demo_lost_charge demo_world = Some (res, w')
    \<and> stock_levels (wl_seller w') = stock_levels demo_stock"
proof -
  obtain w' where run: "orderPlaceWorkflow (\<lambda>_. True) demo_workflow_input demo_lost_charge demo_world = Some (Thrown, w')"
    using demo_lost_charge_runs by auto
  have "list_all no_late_reserve (sc_release demo_lost_charge @ sc_mark demo_lost_charge)"
    using demo_recovers(2) by (simp add: only_late_def demo_lost_charge_def)
  from order_workflow_stock_back [OF demo_run_ctx demo_recovers(3) run _ this] run show ?thesis by (auto simp: demo_world_def)
qed

subsection \<open>An order of total zero\<close>

lemma zero_movement_rejected:
  assumes "jstring (jfield data ''amount'') = Some (fmt_cents 0)"
  shows "AccountGateway_isValidMovement data = None"
proof -
  have "js_Number (fmt_cents 0) = Some (to_double (of_int 0 / 100))" by (rule js_Number_fmt_cents)
  then have "amount_number (fmt_cents 0) = 0" by (simp add: amount_number_def)
  then show ?thesis using assms by (simp add: AccountGateway_isValidMovement_def split: option.splits)
qed

lemma zero_payment_nacked:
  assumes "wi_totalAmount input = fmt_cents 0"
  shows "fst (handle_charge isUUID input e w) = RpcNack" and "fst (handle_refund isUUID input e w) = RpcNack"
  by (simp_all add: handle_charge_def handle_refund_def AccountGateway_handleCustomerCharge_def
      AccountGateway_handleCustomerRefund_def charge_guard_def refund_guard_def cloud_event_json_fields assms
      toAccountCustomerChargeRequest_def toAccountCustomerRefundRequest_def zero_movement_rejected
      customer_charge_data_json_def customer_refund_data_json_def)

lemma nacked_request:
  "(\<And>e v. fst (handle e v) = RpcNack) \<Longrightarrow> fst (amqp_request rq a handle w) = None"
  by (auto simp: amqp_request_def Let_def split: rpc_outcome.splits bool.splits prod.splits rpc.splits)
    (metis fst_conv rpc.distinct(1))

lemma zero_charge_gives_up:
  "wi_totalAmount input = fmt_cents 0 \<Longrightarrow>
    fst (run_bounded isUUID input (OrderPlaceActivity_chargeCustomer isUUID input) as w) = Inl None"
proof (induction as arbitrary: w)
  case (Cons a as)
  let ?w = "redeliver isUUID input a w"
  have "fst (amqp_request RqCharge a (handle_charge isUUID input) ?w) = None"
    by (rule nacked_request) (rule zero_payment_nacked(1) [OF Cons.prems])
  then have "OrderPlaceActivity_chargeCustomer isUUID input a ?w
    = (Inl Retryable, snd (amqp_request RqCharge a (handle_charge isUUID input) ?w))"
    by (simp add: OrderPlaceActivity_chargeCustomer_def case_prod_beta)
  then show ?case using Cons by simp
qed simp

lemma zero_refund_never_ends:
  "wi_totalAmount input = fmt_cents 0 \<Longrightarrow>
    run_forever isUUID input (OrderPlaceActivity_refundCustomer isUUID input) as w = None"
proof (induction as arbitrary: w)
  case (Cons a as)
  let ?w = "redeliver isUUID input a w"
  have "fst (amqp_request RqRefund a (handle_refund isUUID input) ?w) = None"
    by (rule nacked_request) (rule zero_payment_nacked(2) [OF Cons.prems])
  then have "OrderPlaceActivity_refundCustomer isUUID input a ?w
    = (Inl Retryable, snd (amqp_request RqRefund a (handle_refund isUUID input) ?w))"
    by (simp add: OrderPlaceActivity_refundCustomer_def case_prod_beta)
  then show ?case using Cons by simp
qed simp

text \<open>
  C25. The workflow of an order whose total is zero never ends once its stock is reserved: the account
  service answers neither the charge nor the refund of an amount of zero, and the refund is retried
  for ever, with the stock held and the order pending.
\<close>

theorem order_workflow_zero_total:
  assumes "wi_totalAmount input = fmt_cents 0"
    and "run_bounded isUUID input (OrderPlaceActivity_reserveStock isUUID input) (sc_reserve sc) w = (Inr u, w1)"
  shows "orderPlaceWorkflow isUUID input sc w = None"
  using assms zero_charge_gives_up [OF assms(1), of isUUID "sc_charge sc" w1]
  by (auto simp: orderPlaceWorkflow_def compensate_def zero_refund_never_ends split: prod.splits)

theorem order_workflow_zero_total_witness:
  "orderPlaceWorkflow (\<lambda>_. True) (demo_workflow_input\<lparr>wi_totalAmount := fmt_cents 0\<rparr>) demo_script demo_world = None"
proof -
  let ?input = "demo_workflow_input\<lparr>wi_totalAmount := fmt_cents 0\<rparr>"
  have "OrderPlaceActivity_reserveStock isUUID ?input = OrderPlaceActivity_reserveStock isUUID demo_workflow_input" for isUUID
    by (intro ext) (simp add: OrderPlaceActivity_reserveStock_def handle_reserve_def [abs_def])
  then have "\<exists>w1. run_bounded (\<lambda>_. True) ?input (OrderPlaceActivity_reserveStock (\<lambda>_. True) ?input) (sc_reserve demo_script) demo_world
    = (Inr (), w1)"
    using demo_reserve_runs by (auto simp: demo_script_def redeliver_def demo_attempt_def split: prod.splits sum.splits activity_error.splits)
  then show ?thesis using order_workflow_zero_total [of ?input] by auto
qed

subsection \<open>A reservation that arrives too late\<close>

text \<open>The reservation is delayed past its timeout and reaches the stock service after the release.\<close>

definition late_script :: "attempt \<Rightarrow> script" where
  "late_script a =
     \<lparr>sc_reserve = [a\<lparr>at_redelivered := [], at_outcome := TimedOut False\<rparr>], sc_charge = [], sc_refund = [],
      sc_release = [a\<lparr>at_redelivered := [], at_outcome := Answered\<rparr>],
      sc_mark = [a\<lparr>at_redelivered := [(RqReserve, at_message a)], at_outcome := Answered\<rparr>]\<rparr>"

text \<open>
  The stock service does not remember a release: when the reservation of an order is handled after
  its release, it succeeds, and the canceled order keeps the stock although its workflow has ended.
\<close>

theorem order_workflow_late_reserve:
  assumes ctx: "run_ctx isUUID input c b w" and sent: "wl_sent w = []"
    and res: "SellerOfferStockReserveCommandHandler_execute (me_now (at_message a)) (wi_orderPublicId input)
        \<lparr>srd_items = wi_items input\<rparr> (wl_seller w) = Inr ((), s)"
    and mark: "endable (wi_orderId input) (wl_order w) (at_order a)"
  shows "\<exists>w'. orderPlaceWorkflow isUUID input (late_script a) w = Some (Thrown, w') \<and> wl_seller w' = s
    \<and> OrderPlaceActivity_markFailed (at_order a) (wi_orderId input) (toFailure None) (wl_order w) = Inr ((), wl_order w')"
proof -
  have uu: "isUUID (wi_orderPublicId input)" and none: "\<forall>r\<in>set (sd_reservations (wl_seller w)). \<not> releasable (wi_orderPublicId input) r"
    using run_ctxD(2,3) [OF ctx] by (auto simp: unheld_def releasable_def)
  obtain db where db: "OrderPlaceActivity_markFailed (at_order a) (wi_orderId input) (toFailure None) (wl_order w) = Inr ((), db)"
    using end_order_succeeds [OF mark, of "Some (toFailure None)"] by (auto simp: end_order_def)
  have rel: "handle_release isUUID input e (w\<lparr>wl_sent := rs\<rparr>) = (RpcReply (SellerOfferGateway_toReleaseResponse (me_reply e)
      (cloud_event_json stock_release_data_json (toStockReleaseRequest (me_sent e) (wi_orderPublicId input))) (StockReleased 0)),
      w\<lparr>wl_sent := rs\<rparr>)" for e rs
    by (simp add: handle_release_def handleStockRelease_accepted [OF release_request_accepted [of isUUID, OF uu]] release_none [OF none])
  have hr: "redeliver_one isUUID input (RqReserve, at_message a) (w\<lparr>wl_sent := rs\<rparr>) = w\<lparr>wl_sent := rs, wl_seller := s\<rparr>" for rs
    using res by (simp add: handle_reserve_def handleStockReserve_accepted [OF reserve_request_accepted [OF run_ctxD(1) [OF ctx]]])
  show ?thesis
    using db by (simp add: orderPlaceWorkflow_def compensate_def late_script_def redeliver_def sent amqp_request_def
        OrderPlaceActivity_reserveStock_def OrderPlaceActivity_releaseStock_def rel hr database_attempt_def Let_def
        del: redeliver_one.simps)
qed

theorem order_workflow_late_reserve_witness:
  "\<exists>w'. orderPlaceWorkflow (\<lambda>_. True) demo_workflow_input (late_script demo_attempt) demo_world = Some (Thrown, w')"
proof -
  have "\<not> list_ex (\<lambda>it. short (item_create ''mine'' it) demo_stock) demo_items"
    by (simp add: short_def demo_stock_defs can_hold_def live_offer_def)
  then obtain s where "SellerOfferStockReserveCommandHandler_execute 5 ''mine'' \<lparr>srd_items = demo_items\<rparr> demo_stock = Inr ((), s)"
    using reserve_execute_outcome [OF demo_stock_inv demo_orderable, of "''mine''" 5] by auto
  then have "SellerOfferStockReserveCommandHandler_execute (me_now (at_message demo_attempt)) (wi_orderPublicId demo_workflow_input)
      \<lparr>srd_items = wi_items demo_workflow_input\<rparr> (wl_seller demo_world) = Inr ((), s)"
    by (simp add: demo_attempt_def demo_workflow_input_def demo_world_def)
  moreover have "endable (wi_orderId demo_workflow_input) (wl_order demo_world) (at_order demo_attempt)"
    by (simp add: endable_def int4_def demo_workflow_input_def demo_world_def demo_order_def demo_attempt_def)
  ultimately show ?thesis using order_workflow_late_reserve [OF demo_run_ctx demo_recovers(3)] by blast
qed

end
