(* ===== verification/Auth.thy ===== *)
theory Auth
  imports Contracts "HOL-Library.Countable"
begin

section \<open>Access tokens, the denylist and abilities\<close>

text \<open>
  The module \<open>generic/auth\<close> with the Redis client it uses: the payload schema of an access token, its
  verification, the denylist of revoked session families, the two guards in front of every route
  and the abilities of a role. \<open>jose\<close>, \<open>zod\<close>'s uuid check and \<open>casl\<close> are third-party: the functions
  \<open>jwtVerify\<close>, \<open>zUuid\<close>, \<open>casl_can\<close> and the key import are arguments, and what the code relies on is
  stated by \<open>jwtVerify_documented\<close> and \<open>casl_documented\<close>.
\<close>

subsection \<open>Redis\<close>

text \<open>
  A Redis database maps a key to its value and to the moment it expires, in milliseconds: a key is
  gone once that moment has passed. A value is a text; one that was written by \<open>JSON.stringify\<close> is
  represented by the JSON value it denotes. A command is answered, or the connection is not ready, or the
  answer is late (or an error), and then the command may have been executed or not.
\<close>

type_synonym redis = "string \<Rightarrow> (json \<times> time) option"

datatype redis_outcome = RedisAnswers | RedisNotReady | RedisLate bool

definition redis_get :: "time \<Rightarrow> string \<Rightarrow> redis \<Rightarrow> json option" where
  "redis_get now k r = (case r k of None \<Rightarrow> None | Some (v, until) \<Rightarrow> if now \<le> until then Some v else None)"

definition redis_set_ex :: "time \<Rightarrow> string \<Rightarrow> json \<Rightarrow> int \<Rightarrow> redis \<Rightarrow> redis" where
  "redis_set_ex now k v seconds r = r(k \<mapsto> (v, now + seconds * 1000))"

definition redis_del :: "string \<Rightarrow> redis \<Rightarrow> redis" where
  "redis_del k r = r(k := None)"

definition withRedisTimeout :: "redis_outcome \<Rightarrow> (redis \<Rightarrow> 'a \<times> redis) \<Rightarrow> redis \<Rightarrow> 'a option \<times> redis" where
  "withRedisTimeout out command r =
     (case out of
        RedisNotReady \<Rightarrow> (None, r)
      | RedisLate executed \<Rightarrow> (None, if executed then snd (command r) else r)
      | RedisAnswers \<Rightarrow> (let (x, r') = command r in (Some x, r')))"

subsection \<open>Claims\<close>

datatype RoleEnum = Role_owner | Role_seller | Role_admin | Role_user

fun role_value :: "RoleEnum \<Rightarrow> string" where
  "role_value Role_owner = ''owner''"
| "role_value Role_seller = ''seller''"
| "role_value Role_admin = ''admin''"
| "role_value Role_user = ''user''"

definition role_of :: "string \<Rightarrow> RoleEnum option" where
  "role_of s = List.find (\<lambda>e. role_value e = s) [Role_owner, Role_seller, Role_admin, Role_user]"

lemma role_of_value [simp]: "role_of (role_value e) = Some e"
  by (cases e) (simp_all add: role_of_def)

record AccessTokenClaims =
  ac_identityPublicId :: uuid
  ac_tokenId :: uuid
  ac_familyId :: uuid
  ac_role :: RoleEnum
  ac_email :: "string option"
  ac_phoneNumber :: "string option"

definition ACCESS_TOKEN_ALGORITHM :: string where "ACCESS_TOKEN_ALGORITHM = ''ES256''"
definition ACCESS_TOKEN_ISSUER :: string where "ACCESS_TOKEN_ISSUER = ''identity-service''"
definition ACCESS_TOKEN_TTL_SECONDS :: int where "ACCESS_TOKEN_TTL_SECONDS = 15 * 60"
definition ACCESS_TOKEN_CLOCK_TOLERANCE_SECONDS :: int where "ACCESS_TOKEN_CLOCK_TOLERANCE_SECONDS = 5"

text \<open>
  The schema of the payload: the three ids are uuids, the role is one of the enumeration, and
  \<open>optional\<close> admits an absent property but no \<open>null\<close>.
\<close>

definition schema_uuid :: "(string \<Rightarrow> bool) \<Rightarrow> json option \<Rightarrow> uuid option" where
  "schema_uuid zUuid v = (case jstring v of None \<Rightarrow> None | Some s \<Rightarrow> if zUuid s then Some s else None)"

definition schema_optional_string :: "json option \<Rightarrow> string option option" where
  "schema_optional_string v = (case v of None \<Rightarrow> Some None | Some j \<Rightarrow> map_option Some (jstring (Some j)))"

definition accessTokenPayloadSchema :: "(string \<Rightarrow> bool) \<Rightarrow> json \<Rightarrow> AccessTokenClaims option" where
  "accessTokenPayloadSchema zUuid payload =
     (case (schema_uuid zUuid (jfield (Some payload) ''sub''),
            schema_uuid zUuid (jfield (Some payload) ''jti''),
            schema_uuid zUuid (jfield (Some payload) ''sid''),
            Option.bind (jstring (jfield (Some payload) ''role'')) role_of,
            schema_optional_string (jfield (Some payload) ''email''),
            schema_optional_string (jfield (Some payload) ''phone_number'')) of
        (Some sub, Some jti, Some sid, Some role, Some email, Some phone) \<Rightarrow>
          Some \<lparr>ac_identityPublicId = sub, ac_tokenId = jti, ac_familyId = sid, ac_role = role,
                ac_email = email, ac_phoneNumber = phone\<rparr>
      | _ \<Rightarrow> None)"

subsection \<open>Signing and verifying\<close>

record jwt_header =
  jh_alg :: string
  jh_kid :: string
  jh_typ :: string

record jwt_verify_options =
  vo_algorithms :: "string list"
  vo_issuer :: string
  vo_clockTolerance :: int
  vo_requiredClaims :: "string list"

type_synonym 'keys jwt_verify = "'keys \<Rightarrow> jwt_verify_options \<Rightarrow> time \<Rightarrow> string \<Rightarrow> json option"
type_synonym 'key jwt_sign = "'key \<Rightarrow> jwt_header \<Rightarrow> json \<Rightarrow> string"

text \<open>
  What \<open>jose\<close> documents of claim validation: the issuer is the expected one, every required claim is
  present, and the token has not expired by more than the tolerance. The clock is
  read in whole seconds.
\<close>

definition claims_valid :: "jwt_verify_options \<Rightarrow> time \<Rightarrow> json \<Rightarrow> bool" where
  "claims_valid opts now p \<longleftrightarrow>
     jfield (Some p) ''iss'' = Some (JStr (vo_issuer opts))
     \<and> list_all (\<lambda>c. jfield (Some p) c \<noteq> None) (vo_requiredClaims opts)
     \<and> (case jfield (Some p) ''exp'' of
          None \<Rightarrow> True
        | Some (JNum e) \<Rightarrow> of_int (now div 1000 - vo_clockTolerance opts) < e
        | Some _ \<Rightarrow> False)"

text \<open>
  \<open>trusts keys kid key\<close>: the key set has the public half of \<open>key\<close> under that id. A verified token
  has valid claims, a signed token verifies to the payload that was signed and to no other, and it
  does verify when the key is trusted and the claims are valid.
\<close>

definition jwtVerify_documented ::
  "'key jwt_sign \<Rightarrow> 'keys jwt_verify \<Rightarrow> ('keys \<Rightarrow> string \<Rightarrow> 'key \<Rightarrow> bool) \<Rightarrow> bool" where
  "jwtVerify_documented sign jwtVerify trusts \<longleftrightarrow>
     (\<forall>keys opts now tok p. jwtVerify keys opts now tok = Some p \<longrightarrow> claims_valid opts now p)
     \<and> (\<forall>keys opts now key h p q. jwtVerify keys opts now (sign key h p) = Some q \<longrightarrow> q = p)
     \<and> (\<forall>keys opts now key h p. trusts keys (jh_kid h) key \<and> jh_alg h \<in> set (vo_algorithms opts)
           \<and> claims_valid opts now p \<longrightarrow> jwtVerify keys opts now (sign key h p) = Some p)
     \<and> (\<forall>key h p. sign key h p \<noteq> [] \<and> CHR '' '' \<notin> set (sign key h p))"

definition AccessTokenVerifierService_options :: jwt_verify_options where
  "AccessTokenVerifierService_options =
     \<lparr>vo_algorithms = [ACCESS_TOKEN_ALGORITHM], vo_issuer = ACCESS_TOKEN_ISSUER,
      vo_clockTolerance = ACCESS_TOKEN_CLOCK_TOLERANCE_SECONDS,
      vo_requiredClaims = [''sub'', ''exp'', ''iat'', ''jti'', ''sid'']\<rparr>"

definition AccessTokenVerifierService_verifySignature ::
  "'keys jwt_verify \<Rightarrow> (string \<Rightarrow> bool) \<Rightarrow> 'keys \<Rightarrow> time \<Rightarrow> string \<Rightarrow> http_error + AccessTokenClaims" where
  "AccessTokenVerifierService_verifySignature jwtVerify zUuid keys now token =
     (case Option.bind (jwtVerify keys AccessTokenVerifierService_options now token)
             (accessTokenPayloadSchema zUuid) of
        None \<Rightarrow> Inl Unauthorized
      | Some claims \<Rightarrow> Inr claims)"

subsection \<open>The denylist\<close>

definition toDeniedFamilyKey :: "uuid \<Rightarrow> string" where
  "toDeniedFamilyKey familyId = ''denied-family:'' @ familyId"

definition deniedTtlSeconds :: int where
  "deniedTtlSeconds = ACCESS_TOKEN_TTL_SECONDS + ACCESS_TOKEN_CLOCK_TOLERANCE_SECONDS"

text \<open>The service has its own copy of the timeout helper, with the same body.\<close>

definition AccessTokenDenylistService_withTimeout ::
  "redis_outcome \<Rightarrow> (redis \<Rightarrow> 'a \<times> redis) \<Rightarrow> redis \<Rightarrow> 'a option \<times> redis" where
  "AccessTokenDenylistService_withTimeout = withRedisTimeout"

definition AccessTokenDenylistService_denyFamily ::
  "bool \<Rightarrow> redis_outcome \<Rightarrow> time \<Rightarrow> uuid \<Rightarrow> redis \<Rightarrow> (http_error + unit) \<times> redis" where
  "AccessTokenDenylistService_denyFamily failOpen out now familyId r =
     (case AccessTokenDenylistService_withTimeout out
             (\<lambda>r. ((), redis_set_ex now (toDeniedFamilyKey familyId) (JStr ''1'') deniedTtlSeconds r)) r of
        (Some u, r') \<Rightarrow> (Inr (), r')
      | (None, r') \<Rightarrow> (if failOpen then Inr () else Inl ServiceUnavailable, r'))"

definition AccessTokenDenylistService_isFamilyDenied ::
  "bool \<Rightarrow> redis_outcome \<Rightarrow> time \<Rightarrow> uuid \<Rightarrow> redis \<Rightarrow> http_error + bool" where
  "AccessTokenDenylistService_isFamilyDenied failOpen out now familyId r =
     (case fst (AccessTokenDenylistService_withTimeout out (\<lambda>r. (redis_get now (toDeniedFamilyKey familyId) r \<noteq> None, r)) r) of
        Some denied \<Rightarrow> Inr denied
      | None \<Rightarrow> (if failOpen then Inr False else Inl ServiceUnavailable))"

text \<open>What a verification reads besides the token: keys, clock, Redis and its answer, the setting.\<close>

record 'keys auth_env =
  ae_keys :: 'keys
  ae_now :: time
  ae_failOpen :: bool
  ae_outcome :: redis_outcome
  ae_redis :: redis

definition AccessTokenVerifierService_verify ::
  "'keys jwt_verify \<Rightarrow> (string \<Rightarrow> bool) \<Rightarrow> 'keys auth_env \<Rightarrow> string \<Rightarrow> http_error + AccessTokenClaims" where
  "AccessTokenVerifierService_verify jwtVerify zUuid env token =
     (case AccessTokenVerifierService_verifySignature jwtVerify zUuid (ae_keys env) (ae_now env) token of
        Inl e \<Rightarrow> Inl e
      | Inr claims \<Rightarrow>
          (case AccessTokenDenylistService_isFamilyDenied (ae_failOpen env) (ae_outcome env) (ae_now env)
                  (ac_familyId claims) (ae_redis env) of
             Inl e \<Rightarrow> Inl e
           | Inr True \<Rightarrow> Inl Unauthorized
           | Inr False \<Rightarrow> Inr claims))"

subsection \<open>The guards\<close>

text \<open>\<open>String.prototype.split\<close> with a one-character separator; the result is never empty.\<close>

fun js_split :: "char \<Rightarrow> string \<Rightarrow> string list" where
  "js_split c [] = [[]]"
| "js_split c (x # xs) =
     (if x = c then [] # js_split c xs
      else (case js_split c xs of [] \<Rightarrow> [[x]] | w # ws \<Rightarrow> (x # w) # ws))"

datatype AppActionType = Action_create | Action_read
datatype subject_type = Subject_Order | Subject_Product

record ability_rule =
  ar_action :: AppActionType
  ar_subject :: subject_type
  ar_owner :: "uuid option"

datatype AppSubject = OfType subject_type | OrderSubject "uuid option"

fun subject_type_of :: "AppSubject \<Rightarrow> subject_type" where
  "subject_type_of (OfType t) = t"
| "subject_type_of (OrderSubject w) = Subject_Order"

text \<open>
  What \<open>casl\<close> documents for rules that only allow: an action is allowed when some rule has the action
  and the type of the subject and its conditions match; asked about a type and not an instance, it ignores the
  conditions.
\<close>

fun rule_allows :: "AppActionType \<Rightarrow> AppSubject \<Rightarrow> ability_rule \<Rightarrow> bool" where
  "rule_allows a (OfType t) r \<longleftrightarrow> ar_action r = a \<and> ar_subject r = t"
| "rule_allows a (OrderSubject w) r \<longleftrightarrow> ar_action r = a \<and> ar_subject r = Subject_Order
     \<and> (case ar_owner r of None \<Rightarrow> True | Some i \<Rightarrow> w = Some i)"

type_synonym casl = "ability_rule list \<Rightarrow> AppActionType \<Rightarrow> AppSubject \<Rightarrow> bool"

definition casl_documented :: "casl \<Rightarrow> bool" where
  "casl_documented can \<longleftrightarrow> (\<forall>rules a s. can rules a s \<longleftrightarrow> list_ex (rule_allows a s) rules)"

definition AbilityFactory_createFor :: "AccessTokenClaims \<Rightarrow> ability_rule list" where
  "AbilityFactory_createFor identity =
     [\<lparr>ar_action = Action_create, ar_subject = Subject_Order, ar_owner = None\<rparr>]
     @ (if ac_role identity = Role_admin \<or> ac_role identity = Role_owner
        then [\<lparr>ar_action = Action_read, ar_subject = Subject_Order, ar_owner = None\<rparr>]
        else [\<lparr>ar_action = Action_read, ar_subject = Subject_Order, ar_owner = Some (ac_identityPublicId identity)\<rparr>])
     @ (if ac_role identity = Role_seller \<or> ac_role identity = Role_admin \<or> ac_role identity = Role_owner
        then [\<lparr>ar_action = Action_create, ar_subject = Subject_Product, ar_owner = None\<rparr>] else [])"

record http_request =
  rq_authorization :: "string option"
  rq_identity :: "AccessTokenClaims option"
  rq_ability :: "ability_rule list option"
  rq_wwwAuthenticate :: "string option"

text \<open>The metadata of a route: its transport, \<open>@Public()\<close> and \<open>@CheckAbility(...)\<close>.\<close>

record route =
  rt_http :: bool
  rt_public :: bool
  rt_required :: "(AppActionType \<times> subject_type) option"

definition bearer_token :: "string option \<Rightarrow> string option" where
  "bearer_token authorization =
     (case js_split (CHR '' '') (case authorization of None \<Rightarrow> '''' | Some s \<Rightarrow> s) of
        [scheme, token] \<Rightarrow> if scheme \<noteq> ''Bearer'' \<or> token = '''' then None else Some token
      | _ \<Rightarrow> None)"

definition AccessTokenGuard_canActivate ::
  "'keys jwt_verify \<Rightarrow> (string \<Rightarrow> bool) \<Rightarrow> 'keys auth_env \<Rightarrow> route \<Rightarrow> http_request
    \<Rightarrow> (http_error + bool) \<times> http_request" where
  "AccessTokenGuard_canActivate jwtVerify zUuid env rt rq =
     (if \<not> rt_http rt \<or> rt_public rt then (Inr True, rq)
      else (case bearer_token (rq_authorization rq) of
              None \<Rightarrow> (Inl Unauthorized, rq\<lparr>rq_wwwAuthenticate := Some ''Bearer''\<rparr>)
            | Some token \<Rightarrow>
                (case AccessTokenVerifierService_verify jwtVerify zUuid env token of
                   Inl e \<Rightarrow> (Inl e, if e = Unauthorized
                                    then rq\<lparr>rq_wwwAuthenticate := Some ''Bearer error=\"invalid_token\"''\<rparr> else rq)
                 | Inr claims \<Rightarrow> (Inr True, rq\<lparr>rq_identity := Some claims\<rparr>))))"

definition AbilityGuard_canActivate :: "casl \<Rightarrow> route \<Rightarrow> http_request \<Rightarrow> (http_error + bool) \<times> http_request" where
  "AbilityGuard_canActivate can rt rq0 =
     (if \<not> rt_http rt then (Inr True, rq0)
      else (let rq = (case rq_identity rq0 of
                        None \<Rightarrow> rq0
                      | Some i \<Rightarrow> rq0\<lparr>rq_ability := Some (AbilityFactory_createFor i)\<rparr>)
            in (case rt_required rt of
                  None \<Rightarrow> (Inr True, rq)
                | Some (action, subject) \<Rightarrow>
                    (case rq_ability rq of
                       Some ability \<Rightarrow>
                         if can ability action (OfType subject) then (Inr True, rq)
                         else (Inl Forbidden, rq\<lparr>rq_wwwAuthenticate := Some ''Bearer error=\"insufficient_scope\"''\<rparr>)
                     | None \<Rightarrow>
                         (Inl Forbidden, rq\<lparr>rq_wwwAuthenticate := Some ''Bearer error=\"insufficient_scope\"''\<rparr>)))))"

definition Identity_decorator :: "http_request \<Rightarrow> http_error + AccessTokenClaims" where
  "Identity_decorator rq = (case rq_identity rq of None \<Rightarrow> Inl InternalError | Some i \<Rightarrow> Inr i)"

definition CurrentAbility :: "http_request \<Rightarrow> http_error + ability_rule list" where
  "CurrentAbility rq = (case rq_ability rq of None \<Rightarrow> Inl InternalError | Some rules \<Rightarrow> Inr rules)"

text \<open>The two global guards, in the order in which the application registers them.\<close>

definition guards ::
  "'keys jwt_verify \<Rightarrow> (string \<Rightarrow> bool) \<Rightarrow> casl \<Rightarrow> 'keys auth_env \<Rightarrow> route \<Rightarrow> http_request
    \<Rightarrow> (http_error + bool) \<times> http_request" where
  "guards jwtVerify zUuid can env rt rq =
     (case AccessTokenGuard_canActivate jwtVerify zUuid env rt rq of
        (Inl e, rq') \<Rightarrow> (Inl e, rq')
      | (Inr b, rq') \<Rightarrow> AbilityGuard_canActivate can rt rq')"

subsection \<open>Verification keys\<close>

fun js_includes :: "string \<Rightarrow> string \<Rightarrow> bool" where
  "js_includes [] p \<longleftrightarrow> p = []"
| "js_includes (c # cs) p \<longleftrightarrow> take (length p) (c # cs) = p \<or> js_includes cs p"

fun index_of :: "string \<Rightarrow> string \<Rightarrow> nat option" where
  "index_of p [] = (if p = [] then Some 0 else None)"
| "index_of p (c # cs) =
     (if take (length p) (c # cs) = p then Some 0 else map_option Suc (index_of p cs))"

definition decodePem :: "(string \<Rightarrow> string) \<Rightarrow> string \<Rightarrow> string" where
  "decodePem base64_utf8 v = (if js_includes v ''-----BEGIN'' then v else base64_utf8 v)"

definition pem_begin :: string where "pem_begin = ''-----BEGIN PUBLIC KEY-----''"
definition pem_end :: string where "pem_end = ''-----END PUBLIC KEY-----''"

text \<open>
  The matches of \<open>/-----BEGIN PUBLIC KEY-----[\s\S]+?-----END PUBLIC KEY-----/g\<close>: from a start marker to
  the first end marker that leaves at least one character between them.
\<close>

function pem_blocks :: "string \<Rightarrow> string list" where
  "pem_blocks [] = []"
| "pem_blocks (c # cs) =
     (if take (length pem_begin) (c # cs) = pem_begin
      then (case index_of pem_end (drop (Suc (length pem_begin)) (c # cs)) of
              None \<Rightarrow> pem_blocks cs
            | Some i \<Rightarrow> (let n = Suc (length pem_begin + i + length pem_end)
                         in take n (c # cs) # pem_blocks (drop n (c # cs))))
      else pem_blocks cs)"
  by pat_completeness auto

termination
  by (relation "measure length") auto

record 'jwk verification_key =
  vk_jwk :: 'jwk
  vk_kid :: string
  vk_alg :: string
  vk_use :: string

record 'jwk verification_keys =
  vks_keySet :: "'jwk verification_key list"
  vks_kids :: "string list"
  vks_publicKeys :: "'jwk verification_key list"

text \<open>
  \<open>import_spki\<close> is \<open>importSPKI\<close> and \<open>exportJWK\<close> (\<open>None\<close> when they throw), \<open>thumbprint\<close> is
  \<open>calculateJwkThumbprint\<close>. The local key set is the list of the keys.
\<close>

fun import_blocks ::
  "(string \<Rightarrow> 'jwk option) \<Rightarrow> ('jwk \<Rightarrow> string) \<Rightarrow> string list \<Rightarrow> 'jwk verification_key list option" where
  "import_blocks import_spki thumbprint [] = Some []"
| "import_blocks import_spki thumbprint (b # bs) =
     (case import_spki b of
        None \<Rightarrow> None
      | Some jwk \<Rightarrow>
          map_option (Cons \<lparr>vk_jwk = jwk, vk_kid = thumbprint jwk, vk_alg = ACCESS_TOKEN_ALGORITHM, vk_use = ''sig''\<rparr>)
            (import_blocks import_spki thumbprint bs))"

fun js_join :: "string list \<Rightarrow> string" where
  "js_join [] = []"
| "js_join [w] = w"
| "js_join (w # v # ws) = w @ CHR '','' # js_join (v # ws)"

definition JwtVerificationKeysService_load ::
  "(string \<Rightarrow> string) \<Rightarrow> (string \<Rightarrow> 'jwk option) \<Rightarrow> ('jwk \<Rightarrow> string) \<Rightarrow> string option
    \<Rightarrow> 'jwk verification_keys \<Rightarrow> 'jwk verification_keys option" where
  "JwtVerificationKeysService_load base64_utf8 import_spki thumbprint secret st =
     (case secret of
        None \<Rightarrow> None
      | Some v \<Rightarrow>
          (let blocks = pem_blocks (decodePem base64_utf8 v)
           in if blocks = [] then None
              else (case import_blocks import_spki thumbprint blocks of
                      None \<Rightarrow> None
                    | Some keys \<Rightarrow>
                        (let kids = map vk_kid keys
                         in Some \<lparr>vks_keySet = keys,
                                  vks_kids = (if js_join kids \<noteq> js_join (vks_kids st) then kids else vks_kids st),
                                  vks_publicKeys = keys\<rparr>))))"

definition JwtVerificationKeysService_refresh ::
  "(string \<Rightarrow> string) \<Rightarrow> (string \<Rightarrow> 'jwk option) \<Rightarrow> ('jwk \<Rightarrow> string) \<Rightarrow> string option
    \<Rightarrow> 'jwk verification_keys \<Rightarrow> 'jwk verification_keys" where
  "JwtVerificationKeysService_refresh base64_utf8 import_spki thumbprint secret st =
     (case JwtVerificationKeysService_load base64_utf8 import_spki thumbprint secret st of
        None \<Rightarrow> st
      | Some st' \<Rightarrow> st')"

subsection \<open>What the guards let through\<close>

lemma js_split_none: "c \<notin> set s \<Longrightarrow> js_split c s = [s]"
  by (induction s) auto

lemma js_split_first: "c \<notin> set a \<Longrightarrow> js_split c (a @ c # b) = a # js_split c b"
  by (induction a) auto

lemma js_split_cases:
  obtains (none) "c \<notin> set s" "js_split c s = [s]"
    | (first) a b where "s = a @ c # b" "c \<notin> set a" "js_split c s = a # js_split c b"
  using js_split_none js_split_first by (metis split_list_first)

lemma js_split_not_Nil [simp]: "js_split c s \<noteq> []"
  by (rule js_split_cases [of c s]) auto

lemma js_split_one: "js_split c s = [a] \<longleftrightarrow> s = a \<and> c \<notin> set s"
  by (rule js_split_cases [of c s]) (auto simp del: js_split.simps)

lemma js_split_two: "js_split c s = [a, b] \<longleftrightarrow> s = a @ c # b \<and> c \<notin> set a \<and> c \<notin> set b"
proof (cases rule: js_split_cases [of c s])
  case (first x y)
  then have "js_split c s = [a, b] \<longleftrightarrow> x = a \<and> y = b \<and> c \<notin> set b"
    by (auto simp: js_split_one)
  with first show ?thesis
    by (metis append_Cons_eq_iff)
qed auto

lemma bearer_token_Some:
  "bearer_token h = Some token \<longleftrightarrow> h = Some (''Bearer '' @ token) \<and> token \<noteq> [] \<and> CHR '' '' \<notin> set token"
proof -
  let ?s = "case h of None \<Rightarrow> '''' | Some s \<Rightarrow> s"
  have "bearer_token h = Some token \<longleftrightarrow> js_split (CHR '' '') ?s = [''Bearer'', token] \<and> token \<noteq> []"
    unfolding bearer_token_def by (auto split: list.splits if_splits)
  also have "\<dots> \<longleftrightarrow> ?s = ''Bearer '' @ token \<and> token \<noteq> [] \<and> CHR '' '' \<notin> set token"
    by (auto simp: js_split_two)
  also have "\<dots> \<longleftrightarrow> h = Some (''Bearer '' @ token) \<and> token \<noteq> [] \<and> CHR '' '' \<notin> set token"
    by (cases h) auto
  finally show ?thesis .
qed

definition family_denied :: "time \<Rightarrow> uuid \<Rightarrow> redis \<Rightarrow> bool" where
  "family_denied now f r \<longleftrightarrow> redis_get now (toDeniedFamilyKey f) r \<noteq> None"

text \<open>Whether the check of the denylist lets a family pass.\<close>

definition denylist_passes :: "'keys auth_env \<Rightarrow> uuid \<Rightarrow> bool" where
  "denylist_passes env f \<longleftrightarrow>
     (if ae_outcome env = RedisAnswers then \<not> family_denied (ae_now env) f (ae_redis env) else ae_failOpen env)"

lemma isFamilyDenied_cases:
  "AccessTokenDenylistService_isFamilyDenied (ae_failOpen env) (ae_outcome env) (ae_now env) f (ae_redis env)
    = (if denylist_passes env f then Inr False
       else if ae_outcome env = RedisAnswers then Inr True else Inl ServiceUnavailable)"
  by (cases "ae_outcome env") (simp_all add: AccessTokenDenylistService_isFamilyDenied_def
      AccessTokenDenylistService_withTimeout_def
      withRedisTimeout_def family_denied_def denylist_passes_def)

lemma verify_Inr:
  "AccessTokenVerifierService_verify jwtVerify zUuid env token = Inr claims \<longleftrightarrow>
     (\<exists>p. jwtVerify (ae_keys env) AccessTokenVerifierService_options (ae_now env) token = Some p
        \<and> accessTokenPayloadSchema zUuid p = Some claims)
     \<and> denylist_passes env (ac_familyId claims)"
  by (auto simp: AccessTokenVerifierService_verify_def AccessTokenVerifierService_verifySignature_def
      isFamilyDenied_cases bind_eq_Some_conv split: option.splits)

text \<open>A family that was denied stays denied for as long as one of its tokens can be valid.\<close>

lemma denyFamily_lasts:
  assumes "AccessTokenDenylistService_denyFamily failOpen RedisAnswers t0 f r = (res, r')"
    and "t \<le> t0 + deniedTtlSeconds * 1000"
  shows "family_denied t f r'"
  using assms
  by (auto simp: AccessTokenDenylistService_denyFamily_def AccessTokenDenylistService_withTimeout_def
      withRedisTimeout_def redis_set_ex_def
      family_denied_def redis_get_def)

text \<open>The permissions of a role, with \<open>casl\<close> as documented.\<close>

definition may :: "RoleEnum \<Rightarrow> AppActionType \<Rightarrow> subject_type \<Rightarrow> bool" where
  "may role action subject \<longleftrightarrow> subject = Subject_Order \<or> (action = Action_create \<and> role \<noteq> Role_user)"

lemma createFor_may:
  assumes "casl_documented can"
  shows "can (AbilityFactory_createFor i) action (OfType subject) \<longleftrightarrow> may (ac_role i) action subject"
  using assms
  by (cases action; cases subject; cases "ac_role i")
    (auto simp: casl_documented_def AbilityFactory_createFor_def may_def)

lemma createFor_reads_order:
  assumes "casl_documented can"
  shows "can (AbilityFactory_createFor i) Action_read (OrderSubject w)
    \<longleftrightarrow> ac_role i \<in> {Role_admin, Role_owner} \<or> w = Some (ac_identityPublicId i)"
  using assms by (auto simp: casl_documented_def AbilityFactory_createFor_def)

text \<open>A concrete \<open>jose\<close> and \<open>casl\<close>, which have the documented behaviour.\<close>

instance json :: countable
  by countable_datatype

definition demo_sign :: "unit jwt_sign" where
  "demo_sign key h p = replicate (Suc (to_nat p)) (CHR ''x'')"

definition demo_jwtVerify :: "unit jwt_verify" where
  "demo_jwtVerify keys opts now token =
     (if claims_valid opts now (from_nat (length token - 1)) then Some (from_nat (length token - 1)) else None)"

definition demo_trusts :: "unit \<Rightarrow> string \<Rightarrow> unit \<Rightarrow> bool" where
  "demo_trusts keys kid key \<longleftrightarrow> True"

definition demo_can :: casl where
  "demo_can rules a s \<longleftrightarrow> list_ex (rule_allows a s) rules"

lemma demo_jose: "jwtVerify_documented demo_sign demo_jwtVerify demo_trusts"
  by (auto simp: jwtVerify_documented_def demo_sign_def demo_jwtVerify_def split: if_splits)

lemma demo_casl: "casl_documented demo_can"
  by (simp add: casl_documented_def demo_can_def)

lemma decorators_Inr:
  "Identity_decorator rq = Inr claims \<longleftrightarrow> rq_identity rq = Some claims"
  "CurrentAbility rq = Inr rules \<longleftrightarrow> rq_ability rq = Some rules"
  by (auto simp: Identity_decorator_def CurrentAbility_def split: option.splits)

text \<open>
  C30. On a protected HTTP route the two guards let a request pass exactly when its Authorization
  header is \<open>Bearer\<close>, one space and a token that verifies, whose payload has the shape of the schema,
  whose family passes the denylist, and whose role may do what the route requires; the handler then
  sees exactly these claims and the abilities of their role.
\<close>

theorem guards_protect:
  assumes "casl_documented can" and "rt_http rt" and "\<not> rt_public rt"
  shows "(\<exists>rq'. guards jwtVerify zUuid can env rt rq = (Inr True, rq')
            \<and> Identity_decorator rq' = Inr claims \<and> CurrentAbility rq' = Inr (AbilityFactory_createFor claims))
    \<longleftrightarrow> (\<exists>token p. rq_authorization rq = Some (''Bearer '' @ token) \<and> token \<noteq> [] \<and> CHR '' '' \<notin> set token
          \<and> jwtVerify (ae_keys env) AccessTokenVerifierService_options (ae_now env) token = Some p
          \<and> accessTokenPayloadSchema zUuid p = Some claims
          \<and> denylist_passes env (ac_familyId claims)
          \<and> (case rt_required rt of None \<Rightarrow> True | Some (action, subject) \<Rightarrow> may (ac_role claims) action subject))"
    (is "?L \<longleftrightarrow> ?R")
proof -
  have "?L \<longleftrightarrow> (\<exists>token. bearer_token (rq_authorization rq) = Some token
          \<and> AccessTokenVerifierService_verify jwtVerify zUuid env token = Inr claims
          \<and> (case rt_required rt of None \<Rightarrow> True | Some (action, subject) \<Rightarrow> may (ac_role claims) action subject))"
    using assms
    by (auto simp: guards_def AccessTokenGuard_canActivate_def AbilityGuard_canActivate_def decorators_Inr
        createFor_may Let_def split: option.splits sum.splits if_splits)
  then show ?thesis
    unfolding bearer_token_Some verify_Inr by blast
qed

definition demo_payload :: json where
  "demo_payload = JObj [(''role'', JStr ''seller''), (''sid'', JStr ''f''), (''sub'', JStr ''i''),
     (''jti'', JStr ''t''), (''iss'', JStr ''identity-service''), (''iat'', JNum 0), (''exp'', JNum 900)]"

definition demo_claims :: AccessTokenClaims where
  "demo_claims = \<lparr>ac_identityPublicId = ''i'', ac_tokenId = ''t'', ac_familyId = ''f'', ac_role = Role_seller,
     ac_email = None, ac_phoneNumber = None\<rparr>"

definition demo_auth_env :: "unit auth_env" where
  "demo_auth_env = \<lparr>ae_keys = (), ae_now = 904999, ae_failOpen = False, ae_outcome = RedisAnswers, ae_redis = Map.empty\<rparr>"

definition demo_token :: string where
  "demo_token = demo_sign () \<lparr>jh_alg = ''ES256'', jh_kid = ''k'', jh_typ = ''JWT''\<rparr> demo_payload"

lemma demo_verify:
  "jwtVerify = demo_jwtVerify \<Longrightarrow>
   jwtVerify (ae_keys demo_auth_env) AccessTokenVerifierService_options (ae_now demo_auth_env) demo_token = Some demo_payload"
  by (simp add: demo_jwtVerify_def demo_token_def demo_sign_def claims_valid_def demo_payload_def demo_auth_env_def
      AccessTokenVerifierService_options_def ACCESS_TOKEN_ISSUER_def ACCESS_TOKEN_CLOCK_TOLERANCE_SECONDS_def)

lemma demo_schema: "accessTokenPayloadSchema (\<lambda>s. s \<noteq> []) demo_payload = Some demo_claims"
  by (simp add: accessTokenPayloadSchema_def demo_payload_def demo_claims_def schema_uuid_def
      schema_optional_string_def role_of_def)

theorem guards_protect_witness:
  "\<exists>rq'. guards demo_jwtVerify (\<lambda>s. s \<noteq> []) demo_can demo_auth_env
      \<lparr>rt_http = True, rt_public = False, rt_required = Some (Action_create, Subject_Product)\<rparr>
      \<lparr>rq_authorization = Some (''Bearer '' @ demo_token), rq_identity = None, rq_ability = None, rq_wwwAuthenticate = None\<rparr>
    = (Inr True, rq') \<and> Identity_decorator rq' = Inr demo_claims
      \<and> CurrentAbility rq' = Inr (AbilityFactory_createFor demo_claims)"
proof (rule guards_protect [THEN iffD2, OF demo_casl])
  have "demo_token \<noteq> []" "CHR '' '' \<notin> set demo_token"
    by (simp_all add: demo_token_def demo_sign_def)
  then show "\<exists>token p. rq_authorization \<lparr>rq_authorization = Some (''Bearer '' @ demo_token), rq_identity = None,
        rq_ability = None, rq_wwwAuthenticate = None\<rparr> = Some (''Bearer '' @ token) \<and> token \<noteq> [] \<and> CHR '' '' \<notin> set token
      \<and> demo_jwtVerify (ae_keys demo_auth_env) AccessTokenVerifierService_options (ae_now demo_auth_env) token = Some p
      \<and> accessTokenPayloadSchema (\<lambda>s. s \<noteq> []) p = Some demo_claims
      \<and> denylist_passes demo_auth_env (ac_familyId demo_claims)
      \<and> (case rt_required \<lparr>rt_http = True, rt_public = False, rt_required = Some (Action_create, Subject_Product)\<rparr> of
           None \<Rightarrow> True | Some (action, subject) \<Rightarrow> may (ac_role demo_claims) action subject)"
    using demo_verify [OF refl] demo_schema
    by (intro exI [of _ demo_token] exI [of _ demo_payload])
      (simp add: denylist_passes_def demo_auth_env_def family_denied_def redis_get_def may_def demo_claims_def)
qed simp_all

subsection \<open>The key set in use\<close>

lemma js_split_join:
  assumes "ws \<noteq> []" and "\<forall>w\<in>set ws. CHR '','' \<notin> set w"
  shows "js_split (CHR '','') (js_join ws) = ws"
  using assms by (induction ws rule: js_join.induct) (auto simp: js_split_none js_split_first)

lemma import_blocks_kids:
  "import_blocks import_spki thumbprint bs = Some keys \<Longrightarrow>
     length keys = length bs \<and> (\<forall>k\<in>set keys. vk_kid k = thumbprint (vk_jwk k))"
  by (induction bs arbitrary: keys) (auto split: option.splits)

definition keys_inv :: "'jwk verification_keys \<Rightarrow> bool" where
  "keys_inv st \<longleftrightarrow> vks_keySet st \<noteq> [] \<and> vks_publicKeys st = vks_keySet st
     \<and> vks_kids st = map vk_kid (vks_keySet st) \<and> (\<forall>w\<in>set (vks_kids st). CHR '','' \<notin> set w \<and> w \<noteq> [])"

lemma load_inv:
  assumes "JwtVerificationKeysService_load b64 import_spki thumbprint secret st = Some st'"
    and "keys_inv st \<or> vks_kids st = []"
    and "\<And>j. thumbprint j \<noteq> [] \<and> CHR '','' \<notin> set (thumbprint j)"
  shows "keys_inv st'"
proof -
  from assms(1) obtain keys bs where imported: "import_blocks import_spki thumbprint bs = Some keys" "bs \<noteq> []"
    and keys: "vks_keySet st' = keys" "vks_publicKeys st' = keys"
    and kids: "vks_kids st' = (if js_join (map vk_kid keys) \<noteq> js_join (vks_kids st) then map vk_kid keys else vks_kids st)"
    by (auto simp: JwtVerificationKeysService_load_def Let_def split: option.splits if_splits)
  from import_blocks_kids [OF imported(1)] imported(2) assms(3)
  have some: "keys \<noteq> []" and plain: "\<forall>w\<in>set (map vk_kid keys). CHR '','' \<notin> set w \<and> w \<noteq> []" by auto
  have "vks_kids st' = map vk_kid keys"
  proof (cases "js_join (map vk_kid keys) = js_join (vks_kids st)")
    case True
    have "vks_kids st \<noteq> []" 
      using True plain some by (cases keys; cases "tl keys") auto
    then have "js_split (CHR '','') (js_join (vks_kids st)) = vks_kids st"
      using assms(2) by (intro js_split_join) (auto simp: keys_inv_def)
    moreover have "js_split (CHR '','') (js_join (map vk_kid keys)) = map vk_kid keys"
      using plain some by (intro js_split_join) auto
    ultimately show ?thesis using True kids by simp
  qed (use kids in simp)
  with keys some plain show ?thesis by (simp add: keys_inv_def)
qed

text \<open>
  Once the verification keys were loaded at start-up, whatever the secret manager returns at each
  later refresh (nothing, text without a key, keys that do not import, other keys), the service keeps
  a non-empty key set, publishes exactly the keys it verifies with, and lists exactly their ids.
  Thumbprints are base64url text, without commas.
\<close>

theorem jwt_keys_never_lost:
  assumes "JwtVerificationKeysService_load b64 import_spki thumbprint secret
      \<lparr>vks_keySet = [], vks_kids = [], vks_publicKeys = []\<rparr> = Some st"
    and "\<And>j. thumbprint j \<noteq> [] \<and> CHR '','' \<notin> set (thumbprint j)"
  shows "let st' = fold (JwtVerificationKeysService_refresh b64 import_spki thumbprint) secrets st
    in vks_keySet st' \<noteq> [] \<and> vks_publicKeys st' = vks_keySet st' \<and> vks_kids st' = map vk_kid (vks_keySet st')"
proof -
  have "keys_inv st" using load_inv [OF assms(1) _ assms(2)] by simp
  then have "keys_inv (fold (JwtVerificationKeysService_refresh b64 import_spki thumbprint) secrets st)"
  proof (induction secrets arbitrary: st)
    case (Cons v secrets)
    have "keys_inv (JwtVerificationKeysService_refresh b64 import_spki thumbprint v st)"
    proof (cases "JwtVerificationKeysService_load b64 import_spki thumbprint v st")
      case (Some st')
      with Cons.prems load_inv [OF Some _ assms(2)] show ?thesis
        by (simp add: JwtVerificationKeysService_refresh_def)
    qed (use Cons.prems in \<open>simp add: JwtVerificationKeysService_refresh_def\<close>)
    then show ?case using Cons.IH by simp
  qed simp
  then show ?thesis by (simp add: Let_def keys_inv_def)
qed

definition demo_pem :: string where
  "demo_pem = pem_begin @ ''A'' @ pem_end @ pem_begin @ ''B'' @ pem_end"

lemma demo_pem_blocks: "pem_blocks demo_pem = [pem_begin @ ''A'' @ pem_end, pem_begin @ ''B'' @ pem_end]"
  by (simp add: demo_pem_def pem_begin_def pem_end_def Let_def)

theorem jwt_keys_never_lost_witness:
  "let st' = fold (JwtVerificationKeysService_refresh id (\<lambda>b. Some (length b)) (\<lambda>j. ''k'')) [None, Some ''''] 
       \<lparr>vks_keySet = [\<lparr>vk_jwk = 51, vk_kid = ''k'', vk_alg = ''ES256'', vk_use = ''sig''\<rparr>,
                     \<lparr>vk_jwk = 51, vk_kid = ''k'', vk_alg = ''ES256'', vk_use = ''sig''\<rparr>],
        vks_kids = [''k'', ''k''],
        vks_publicKeys = [\<lparr>vk_jwk = 51, vk_kid = ''k'', vk_alg = ''ES256'', vk_use = ''sig''\<rparr>,
                     \<lparr>vk_jwk = 51, vk_kid = ''k'', vk_alg = ''ES256'', vk_use = ''sig''\<rparr>]\<rparr>
   in vks_keySet st' \<noteq> [] \<and> vks_publicKeys st' = vks_keySet st' \<and> vks_kids st' = map vk_kid (vks_keySet st')"
proof (rule jwt_keys_never_lost [where secret = "Some demo_pem"])
  have "js_includes demo_pem ''-----BEGIN''"
    by (simp add: demo_pem_def pem_begin_def)
  then show "JwtVerificationKeysService_load id (\<lambda>b. Some (length b)) (\<lambda>j. ''k'') (Some demo_pem)
      \<lparr>vks_keySet = [], vks_kids = [], vks_publicKeys = []\<rparr> = Some
       \<lparr>vks_keySet = [\<lparr>vk_jwk = 51, vk_kid = ''k'', vk_alg = ''ES256'', vk_use = ''sig''\<rparr>,
                     \<lparr>vk_jwk = 51, vk_kid = ''k'', vk_alg = ''ES256'', vk_use = ''sig''\<rparr>],
        vks_kids = [''k'', ''k''],
        vks_publicKeys = [\<lparr>vk_jwk = 51, vk_kid = ''k'', vk_alg = ''ES256'', vk_use = ''sig''\<rparr>,
                     \<lparr>vk_jwk = 51, vk_kid = ''k'', vk_alg = ''ES256'', vk_use = ''sig''\<rparr>]\<rparr>"
    by (simp add: JwtVerificationKeysService_load_def decodePem_def demo_pem_blocks pem_begin_def pem_end_def
        ACCESS_TOKEN_ALGORITHM_def)
qed simp

end
