(* ===== verification/Identity.thy ===== *)
theory Identity
  imports Auth Outbox
begin

section \<open>Identities and sessions\<close>

text \<open>
  The module \<open>identity\<close>: the tables of identities, sessions and external accounts, the token
  service, and the handlers that register, log in, refresh and log out. A session is one refresh
  token; the sessions that come from each other by rotation form a family. Third-party functions are
  arguments: the signature of \<open>jose\<close>, the password hash of \<open>argon2\<close>, and the HMAC that hides the
  refresh tokens; the record \<open>crypto\<close> bundles them with the keys the services hold.
  \<open>lockFamily\<close> takes an advisory lock until the end of the transaction: it serialises the transactions
  on one family, which is how they are composed here.
\<close>

subsection \<open>Tables\<close>

record LoginPhone =
  lp_countryCode :: "CountryCodeEnum option"
  lp_rawNumber :: "string option"
  lp_fullNumber :: "string option"
  lp_nationalNumber :: "string option"

record identity_create =
  id_email :: "string option"
  id_loginPhone :: LoginPhone
  id_passwordHash :: "string option"
  id_role :: RoleEnum

record Identity = identity_create +
  id_id :: int
  id_publicId :: uuid
  id_activatedAt :: "time option"
  id_createdAt :: time
  id_updatedAt :: time
  id_deletedAt :: "time option"

record identity_session_create =
  se_identityId :: int
  se_familyId :: uuid
  se_tokenHash :: string
  se_expiresAt :: time

record IdentitySession = identity_session_create +
  se_id :: int
  se_usedAt :: "time option"
  se_revokedAt :: "time option"
  se_createdAt :: time
  se_updatedAt :: time

datatype IdentityProviderEnum = Provider_google

fun provider_value :: "IdentityProviderEnum \<Rightarrow> string" where
  "provider_value Provider_google = ''google''"

record external_account_create =
  ea_identityId :: int
  ea_provider :: IdentityProviderEnum
  ea_subject :: string

record IdentityExternalAccount = external_account_create +
  ea_id :: int
  ea_createdAt :: time

record identity_db =
  idb_identities :: "Identity list"
  idb_sessions :: "IdentitySession list"
  idb_accounts :: "IdentityExternalAccount list"
  idb_outbox :: "IdentityOutbox list"

text \<open>What the database, the clock and the random generators supply to a request.\<close>

record identity_env =
  ie_now :: time
  ie_identityId :: int
  ie_publicId :: uuid
  ie_sessionId :: int
  ie_accountId :: int
  ie_familyId :: uuid
  ie_tokenId :: uuid
  ie_refreshToken :: string
  ie_salt :: string

subsection \<open>Constraints\<close>

text \<open>
  \<open>citext\<close> compares without regard to case (of ASCII letters); the pattern of an email is
  \<open>^[^@\s]+@[^@\s]+\.[^@\s]+$\<close>.
\<close>

definition lower :: "char \<Rightarrow> char" where
  "lower c = (if (65::nat) \<le> of_char c \<and> of_char c \<le> (90::nat) then char_of (of_char c + (32::nat)) else c)"

definition citext_eq :: "string \<Rightarrow> string \<Rightarrow> bool" where
  "citext_eq s t \<longleftrightarrow> map lower s = map lower t"

definition email_char :: "char \<Rightarrow> bool" where
  "email_char c \<longleftrightarrow> c \<notin> set [CHR ''@'', CHR '' '', CHR 0x09, CHR 0x0A, CHR 0x0B, CHR 0x0C, CHR 0x0D]"

definition email_format :: "string \<Rightarrow> bool" where
  "email_format s =
     (case js_split (CHR ''@'') s of
        [l, d] \<Rightarrow> l \<noteq> [] \<and> list_all email_char l \<and> list_all email_char d
                 \<and> list_ex (\<lambda>i. d ! i = CHR ''.'') [1..<length d - 1]
      | _ \<Rightarrow> False)"

definition nullable :: "('a \<Rightarrow> bool) \<Rightarrow> 'a option \<Rightarrow> bool" where
  "nullable p v = (case v of None \<Rightarrow> True | Some x \<Rightarrow> p x)"

lemma nullable_simps [simp]: "nullable p None" "nullable p (Some x) \<longleftrightarrow> p x"
  by (simp_all add: nullable_def)

definition Identity_fits :: "identity_create \<Rightarrow> bool" where
  "Identity_fits i \<longleftrightarrow>
     nullable (\<lambda>s. length s \<le> 32) (lp_rawNumber (id_loginPhone i))
     \<and> nullable (\<lambda>s. length s \<le> 16) (lp_fullNumber (id_loginPhone i))
     \<and> nullable (\<lambda>s. length s \<le> 15) (lp_nationalNumber (id_loginPhone i))
     \<and> nullable (\<lambda>s. length s \<le> 255) (id_passwordHash i)"

definition Identity_check :: "identity_create \<Rightarrow> bool" where
  "Identity_check i \<longleftrightarrow>
     (id_email i \<noteq> None \<or> lp_fullNumber (id_loginPhone i) \<noteq> None)
     \<and> nullable e164 (lp_fullNumber (id_loginPhone i))
     \<and> nullable national_number (lp_nationalNumber (id_loginPhone i))
     \<and> nullable email_format (id_email i)"

text \<open>Unique columns: NULLs never clash.\<close>

definition both :: "('a \<Rightarrow> 'a \<Rightarrow> bool) \<Rightarrow> 'a option \<Rightarrow> 'a option \<Rightarrow> bool" where
  "both eq x y = (case (x, y) of (Some a, Some b) \<Rightarrow> eq a b | _ \<Rightarrow> False)"

lemma both_simps [simp]: "\<not> both eq None y" "\<not> both eq x None" "both eq (Some a) (Some b) \<longleftrightarrow> eq a b"
  by (auto simp: both_def split: option.splits)

definition identity_clash :: "'a identity_create_scheme \<Rightarrow> 'b identity_create_scheme \<Rightarrow> bool" where
  "identity_clash i j \<longleftrightarrow> both citext_eq (id_email i) (id_email j)
     \<or> both (=) (lp_fullNumber (id_loginPhone i)) (lp_fullNumber (id_loginPhone j))"

subsection \<open>Repositories\<close>

definition new_identity :: "identity_env \<Rightarrow> identity_create \<Rightarrow> Identity" where
  "new_identity env input = identity_create.extend input
     \<lparr>id_id = ie_identityId env, id_publicId = ie_publicId env, id_activatedAt = None,
      id_createdAt = ie_now env, id_updatedAt = ie_now env, id_deletedAt = None\<rparr>"

definition IdentityRepository_create :: "identity_env \<Rightarrow> identity_create \<Rightarrow> (identity_db, db_error, Identity) tx" where
  "IdentityRepository_create env input db =
     (if \<not> Identity_fits input then Inl StringTooLong
      else if \<not> Identity_check input then Inl CheckViolation
      else if list_ex (\<lambda>j. id_publicId j = ie_publicId env \<or> identity_clash input j) (idb_identities db)
      then Inl UniqueViolation
      else Inr (new_identity env input, db\<lparr>idb_identities := idb_identities db @ [new_identity env input]\<rparr>))"

text \<open>Every \<open>find\<close> skips the rows whose \<open>deletedAt\<close> is set.\<close>

definition live_identity :: "Identity \<Rightarrow> bool" where
  "live_identity i \<longleftrightarrow> id_deletedAt i = None"

definition IdentityRepository_findById :: "int \<Rightarrow> identity_db \<Rightarrow> Identity option" where
  "IdentityRepository_findById i db = find_row (\<lambda>r. id_id r = i \<and> live_identity r) (idb_identities db)"

definition IdentityRepository_findByPublicId :: "uuid \<Rightarrow> identity_db \<Rightarrow> Identity option" where
  "IdentityRepository_findByPublicId p db = find_row (\<lambda>r. id_publicId r = p \<and> live_identity r) (idb_identities db)"

definition IdentityRepository_findByEmail :: "string \<Rightarrow> identity_db \<Rightarrow> Identity option" where
  "IdentityRepository_findByEmail email db =
     find_row (\<lambda>r. both citext_eq (id_email r) (Some email) \<and> live_identity r) (idb_identities db)"

definition IdentityRepository_findByPhone :: "string \<Rightarrow> identity_db \<Rightarrow> Identity option" where
  "IdentityRepository_findByPhone fullNumber db =
     find_row (\<lambda>r. lp_fullNumber (id_loginPhone r) = Some fullNumber \<and> live_identity r) (idb_identities db)"

definition new_session :: "identity_env \<Rightarrow> identity_session_create \<Rightarrow> IdentitySession" where
  "new_session env input = identity_session_create.extend input
     \<lparr>se_id = ie_sessionId env, se_usedAt = None, se_revokedAt = None,
      se_createdAt = ie_now env, se_updatedAt = ie_now env\<rparr>"

definition IdentitySessionRepository_create ::
  "identity_env \<Rightarrow> identity_session_create \<Rightarrow> (identity_db, db_error, IdentitySession) tx" where
  "IdentitySessionRepository_create env input db =
     (if length (se_tokenHash input) > 64 then Inl StringTooLong
      else if \<not> ie_now env < se_expiresAt input then Inl CheckViolation
      else if list_ex (\<lambda>s. se_tokenHash s = se_tokenHash input) (idb_sessions db) then Inl UniqueViolation
      else if \<not> list_ex (\<lambda>i. id_id i = se_identityId input) (idb_identities db) then Inl ForeignKeyViolation
      else Inr (new_session env input, db\<lparr>idb_sessions := idb_sessions db @ [new_session env input]\<rparr>))"

definition consumable :: "time \<Rightarrow> string \<Rightarrow> IdentitySession \<Rightarrow> bool" where
  "consumable now tokenHash s \<longleftrightarrow> se_tokenHash s = tokenHash \<and> se_usedAt s = None \<and> se_revokedAt s = None
     \<and> now < se_expiresAt s"

definition mark_used :: "time \<Rightarrow> IdentitySession \<Rightarrow> IdentitySession" where
  "mark_used now s = s\<lparr>se_usedAt := Some now, se_updatedAt := now\<rparr>"

definition mark_revoked :: "time \<Rightarrow> IdentitySession \<Rightarrow> IdentitySession" where
  "mark_revoked now s = s\<lparr>se_revokedAt := Some now, se_updatedAt := now\<rparr>"

text \<open>An update raises when the CHECK on the time it writes fails for one of the rows.\<close>

definition update_sessions ::
  "time \<Rightarrow> (IdentitySession \<Rightarrow> bool) \<Rightarrow> (IdentitySession \<Rightarrow> IdentitySession) \<Rightarrow> identity_db \<Rightarrow> db_error + identity_db" where
  "update_sessions now p f db =
     (if list_ex (\<lambda>s. p s \<and> now < se_createdAt s) (idb_sessions db) then Inl CheckViolation
      else Inr (db\<lparr>idb_sessions := update_where p f (idb_sessions db)\<rparr>))"

definition IdentitySessionRepository_consume :: "time \<Rightarrow> string \<Rightarrow> (identity_db, db_error, (int \<times> uuid) option) tx" where
  "IdentitySessionRepository_consume now tokenHash db =
     (case update_sessions now (consumable now tokenHash) (mark_used now) db of
        Inl e \<Rightarrow> Inl e
      | Inr db' \<Rightarrow> Inr (map_option (\<lambda>s. (se_identityId s, se_familyId s))
                          (find_row (consumable now tokenHash) (idb_sessions db)), db'))"

definition IdentitySessionRepository_findByTokenHash :: "string \<Rightarrow> identity_db \<Rightarrow> IdentitySession option" where
  "IdentitySessionRepository_findByTokenHash tokenHash db = find_row (\<lambda>s. se_tokenHash s = tokenHash) (idb_sessions db)"

definition IdentitySessionRepository_revokeFamily :: "time \<Rightarrow> uuid \<Rightarrow> (identity_db, db_error, unit) tx" where
  "IdentitySessionRepository_revokeFamily now familyId db =
     (case update_sessions now (\<lambda>s. se_familyId s = familyId \<and> se_revokedAt s = None) (mark_revoked now) db of
        Inl e \<Rightarrow> Inl e
      | Inr db' \<Rightarrow> Inr ((), db'))"

definition blank :: "string \<Rightarrow> bool" where
  "blank s \<longleftrightarrow> list_all (\<lambda>c. c = CHR '' '') s"

definition new_account :: "identity_env \<Rightarrow> external_account_create \<Rightarrow> IdentityExternalAccount" where
  "new_account env input = external_account_create.extend input \<lparr>ea_id = ie_accountId env, ea_createdAt = ie_now env\<rparr>"

definition IdentityExternalAccountRepository_create ::
  "identity_env \<Rightarrow> external_account_create \<Rightarrow> (identity_db, db_error, IdentityExternalAccount) tx" where
  "IdentityExternalAccountRepository_create env input db =
     (if 255 < length (ea_subject input) then Inl StringTooLong
      else if blank (ea_subject input) then Inl CheckViolation
      else if list_ex (\<lambda>a. ea_provider a = ea_provider input
                \<and> (ea_subject a = ea_subject input \<or> ea_identityId a = ea_identityId input)) (idb_accounts db)
      then Inl UniqueViolation
      else if \<not> list_ex (\<lambda>i. id_id i = ea_identityId input) (idb_identities db) then Inl ForeignKeyViolation
      else Inr (new_account env input, db\<lparr>idb_accounts := idb_accounts db @ [new_account env input]\<rparr>))"

definition IdentityExternalAccountRepository_findByProviderSubject ::
  "IdentityProviderEnum \<Rightarrow> string \<Rightarrow> identity_db \<Rightarrow> IdentityExternalAccount option" where
  "IdentityExternalAccountRepository_findByProviderSubject provider subject db =
     find_row (\<lambda>a. ea_provider a = provider \<and> ea_subject a = subject) (idb_accounts db)"

subsection \<open>The event\<close>

definition IdentityMessageService_toIdentityRegisteredOutbox :: "Identity \<Rightarrow> event_outbox_create" where
  "IdentityMessageService_toIdentityRegisteredOutbox i =
     \<lparr>ob_id = id_publicId i, ob_topic = mc_topic IdentityRegisteredEvent, ob_aggregateType = ''Identity'',
      ob_aggregateId = id_publicId i, ob_type = mc_type IdentityRegisteredEvent,
      ob_payload = identity_registered_json
        \<lparr>ird_identityId = id_id i, ird_identityPublicId = id_publicId i, ird_email = id_email i,
         ird_phoneNumber = lp_fullNumber (id_loginPhone i), ird_role = role_value (id_role i),
         ird_createdAt = toISOString (id_createdAt i)\<rparr>\<rparr>"

subsection \<open>Passwords and tokens\<close>

text \<open>
  \<open>cr_argon2_verify\<close> is \<open>None\<close> when the library throws, which it does on a malformed hash.
\<close>

record 'key crypto =
  cr_argon2_hash :: "string \<Rightarrow> string \<Rightarrow> string"
  cr_argon2_verify :: "string \<Rightarrow> string \<Rightarrow> bool option"
  cr_dummyHash :: string
  cr_hmac :: "string \<Rightarrow> string \<Rightarrow> string"
  cr_refreshTokenPepper :: string
  cr_sign :: "'key jwt_sign"
  cr_privateKey :: 'key
  cr_keyId :: string

definition PasswordService_hash :: "'key crypto \<Rightarrow> identity_env \<Rightarrow> string \<Rightarrow> string" where
  "PasswordService_hash cr env password = cr_argon2_hash cr (ie_salt env) password"

definition starts_with :: "string \<Rightarrow> string \<Rightarrow> bool" where
  "starts_with s p \<longleftrightarrow> take (length p) s = p"

definition PasswordService_verify :: "'key crypto \<Rightarrow> string option \<Rightarrow> string \<Rightarrow> bool option" where
  "PasswordService_verify cr passwordHash password =
     map_option (\<lambda>matches. passwordHash \<noteq> None \<and> matches)
       (cr_argon2_verify cr
          (case passwordHash of
             Some h \<Rightarrow> if starts_with h ''$argon2'' then h else cr_dummyHash cr
           | None \<Rightarrow> cr_dummyHash cr) password)"

definition TokenService_hashRefreshToken :: "'key crypto \<Rightarrow> string \<Rightarrow> string" where
  "TokenService_hashRefreshToken cr refreshToken = cr_hmac cr (cr_refreshTokenPepper cr) refreshToken"

definition REFRESH_TOKEN_TTL_MS :: int where
  "REFRESH_TOKEN_TTL_MS = 30 * 24 * 60 * 60 * 1000"

record token_response =
  tr_accessToken :: string
  tr_refreshToken :: string
  tr_tokenType :: string
  tr_expiresIn :: int

definition access_payload :: "identity_env \<Rightarrow> Identity \<Rightarrow> uuid \<Rightarrow> json" where
  "access_payload env i familyId = JObj (
     [(''role'', JStr (role_value (id_role i))), (''sid'', JStr familyId)]
     @ (case id_email i of None \<Rightarrow> [] | Some e \<Rightarrow> [(''email'', JStr e)])
     @ (case lp_fullNumber (id_loginPhone i) of None \<Rightarrow> [] | Some n \<Rightarrow> [(''phone_number'', JStr n)])
     @ [(''sub'', JStr (id_publicId i)), (''jti'', JStr (ie_tokenId env)), (''iss'', JStr ACCESS_TOKEN_ISSUER),
        (''iat'', JNum (of_int (ie_now env div 1000))),
        (''exp'', JNum (of_int (ie_now env div 1000 + ACCESS_TOKEN_TTL_SECONDS)))])"

definition access_token :: "'key crypto \<Rightarrow> identity_env \<Rightarrow> Identity \<Rightarrow> uuid \<Rightarrow> string" where
  "access_token cr env i familyId =
     cr_sign cr (cr_privateKey cr) \<lparr>jh_alg = ACCESS_TOKEN_ALGORITHM, jh_kid = cr_keyId cr, jh_typ = ''JWT''\<rparr>
       (access_payload env i familyId)"

definition TokenService_createTokenPair ::
  "'key crypto \<Rightarrow> identity_env \<Rightarrow> Identity \<Rightarrow> uuid \<Rightarrow> (identity_db, db_error, token_response) tx" where
  "TokenService_createTokenPair cr env i familyId db =
     (case IdentitySessionRepository_create env
             \<lparr>se_identityId = id_id i, se_familyId = familyId,
              se_tokenHash = TokenService_hashRefreshToken cr (ie_refreshToken env),
              se_expiresAt = ie_now env + REFRESH_TOKEN_TTL_MS\<rparr> db of
        Inl e \<Rightarrow> Inl e
      | Inr (s, db') \<Rightarrow>
          Inr (\<lparr>tr_accessToken = access_token cr env i familyId, tr_refreshToken = ie_refreshToken env,
                tr_tokenType = ''Bearer'', tr_expiresIn = ACCESS_TOKEN_TTL_SECONDS\<rparr>, db'))"

text \<open>
  The signing key follows its secret: \<open>import_key\<close> is the import of the PEM text with the thumbprint
  of the key, \<open>None\<close> when one of them throws, and then the old key is kept.
\<close>

definition TokenService_loadSigningKey ::
  "(string \<Rightarrow> string) \<Rightarrow> (string \<Rightarrow> ('key \<times> string) option) \<Rightarrow> string option \<Rightarrow> 'key crypto \<Rightarrow> 'key crypto option" where
  "TokenService_loadSigningKey base64_utf8 import_key secret cr =
     map_option (\<lambda>(key, kid). cr\<lparr>cr_privateKey := key, cr_keyId := kid\<rparr>)
       (Option.bind secret (\<lambda>v. import_key (decodePem base64_utf8 v)))"

definition TokenService_refreshSigningKey ::
  "(string \<Rightarrow> string) \<Rightarrow> (string \<Rightarrow> ('key \<times> string) option) \<Rightarrow> string option \<Rightarrow> 'key crypto \<Rightarrow> 'key crypto" where
  "TokenService_refreshSigningKey base64_utf8 import_key secret cr =
     (case TokenService_loadSigningKey base64_utf8 import_key secret cr of None \<Rightarrow> cr | Some cr' \<Rightarrow> cr')"

subsection \<open>Inputs\<close>

text \<open>A property of a request body can be absent, \<open>null\<close> or a value.\<close>

datatype 'a property = Undefined | Null | Value 'a

fun coalesce :: "'a property \<Rightarrow> 'a option" where
  "coalesce (Value x) = Some x"
| "coalesce _ = None"

record register_phone =
  rph_countryCode :: CountryCodeEnum
  rph_rawNumber :: string
  rph_fullNumber :: string
  rph_nationalNumber :: string

record IdentityRegisterInput =
  ri_email :: "string property"
  ri_phone :: "register_phone property"
  ri_password :: string

definition IdentityRegisterPhoneInput_valid :: "register_phone \<Rightarrow> bool" where
  "IdentityRegisterPhoneInput_valid p \<longleftrightarrow>
     length (rph_rawNumber p) \<le> 32
     \<and> length (rph_fullNumber p) \<le> 16 \<and> e164 (rph_fullNumber p)
     \<and> length (rph_nationalNumber p) \<le> 15 \<and> national_number (rph_nationalNumber p)"

text \<open>The check of an email is a parameter: it is \<open>class-validator\<close>'s \<open>isEmail\<close>.\<close>

definition IdentityRegisterInput_valid :: "(string \<Rightarrow> bool) \<Rightarrow> IdentityRegisterInput \<Rightarrow> bool" where
  "IdentityRegisterInput_valid isEmail i \<longleftrightarrow>
     (ri_email i \<noteq> Undefined \<or> ri_phone i = Undefined \<longrightarrow>
        (case ri_email i of Value e \<Rightarrow> isEmail e \<and> length e \<le> 254 | _ \<Rightarrow> False))
     \<and> (case ri_phone i of Value p \<Rightarrow> IdentityRegisterPhoneInput_valid p | _ \<Rightarrow> True)
     \<and> 8 \<le> length (ri_password i) \<and> length (ri_password i) \<le> 128"

record IdentityLoginInput =
  li_login :: string
  li_password :: string

definition IdentityLoginInput_valid :: "IdentityLoginInput \<Rightarrow> bool" where
  "IdentityLoginInput_valid i \<longleftrightarrow> 1 \<le> length (li_login i) \<and> length (li_login i) \<le> 254
     \<and> 1 \<le> length (li_password i) \<and> length (li_password i) \<le> 128"

text \<open>\<open>^[A-Za-z0-9_-]{43}$\<close>\<close>

definition base64url_char :: "char \<Rightarrow> bool" where
  "base64url_char c \<longleftrightarrow> (let n = of_char c :: nat in (65 \<le> n \<and> n \<le> 90) \<or> (97 \<le> n \<and> n \<le> 122)
     \<or> (48 \<le> n \<and> n \<le> 57)) \<or> c = CHR ''_'' \<or> c = CHR ''-''"

definition IdentityRefreshTokenInput_valid :: "string \<Rightarrow> bool" where
  "IdentityRefreshTokenInput_valid t \<longleftrightarrow> list_all base64url_char t \<and> length t = 43"

subsection \<open>Register and log in\<close>

definition register_identity :: "string \<Rightarrow> IdentityRegisterInput \<Rightarrow> identity_create" where
  "register_identity passwordHash input =
     \<lparr>id_email = coalesce (ri_email input),
      id_loginPhone =
        (let phone = coalesce (ri_phone input)
         in \<lparr>lp_countryCode = map_option rph_countryCode phone, lp_rawNumber = map_option rph_rawNumber phone,
             lp_fullNumber = map_option rph_fullNumber phone, lp_nationalNumber = map_option rph_nationalNumber phone\<rparr>),
      id_passwordHash = Some passwordHash, id_role = Role_user\<rparr>"

definition write_registered :: "identity_env \<Rightarrow> Identity \<Rightarrow> (identity_db, db_error, unit) tx" where
  "write_registered env i db =
     (case IdentityOutboxRepository_create (ie_now env) (IdentityMessageService_toIdentityRegisteredOutbox i) (idb_outbox db) of
        Inl e \<Rightarrow> Inl e | Inr out \<Rightarrow> Inr ((), db\<lparr>idb_outbox := out\<rparr>))"

definition IdentityRegisterCommandHandler_register ::
  "'key crypto \<Rightarrow> identity_env \<Rightarrow> IdentityRegisterInput \<Rightarrow> string \<Rightarrow> (identity_db, db_error, token_response) tx" where
  "IdentityRegisterCommandHandler_register cr env input passwordHash db =
     (case IdentityRepository_create env (register_identity passwordHash input) db of
        Inl e \<Rightarrow> Inl e
      | Inr (i, db1) \<Rightarrow>
          (case write_registered env i db1 of
             Inl e \<Rightarrow> Inl e
           | Inr (_, db2) \<Rightarrow> TokenService_createTokenPair cr env i (ie_familyId env) db2))"

text \<open>What the handlers make of an error of the database.\<close>

definition unique_conflict :: "db_error \<Rightarrow> http_error" where
  "unique_conflict e = (if e = UniqueViolation then Conflict else ServerError e)"

definition IdentityRegisterCommandHandler_execute ::
  "'key crypto \<Rightarrow> identity_env \<Rightarrow> IdentityRegisterInput \<Rightarrow> identity_db \<Rightarrow> (http_error + token_response) \<times> identity_db" where
  "IdentityRegisterCommandHandler_execute cr env input db =
     (let passwordHash = PasswordService_hash cr env (ri_password input)
      in case transactional (IdentityRegisterCommandHandler_register cr env input passwordHash) db of
           (Inl e, db') \<Rightarrow> (Inl (unique_conflict e), db')
         | (Inr t, db') \<Rightarrow> (Inr t, db'))"

definition IdentityLoginCommandHandler_execute ::
  "'key crypto \<Rightarrow> identity_env \<Rightarrow> IdentityLoginInput \<Rightarrow> identity_db \<Rightarrow> (http_error + token_response) \<times> identity_db" where
  "IdentityLoginCommandHandler_execute cr env input db =
     (let identity = (if starts_with (li_login input) ''+''
                      then IdentityRepository_findByPhone (li_login input) db
                      else IdentityRepository_findByEmail (li_login input) db)
      in case PasswordService_verify cr (Option.bind identity id_passwordHash) (li_password input) of
           None \<Rightarrow> (Inl InternalError, db)
         | Some matches \<Rightarrow>
             (case identity of
                Some i \<Rightarrow>
                  if matches
                  then (case TokenService_createTokenPair cr env i (ie_familyId env) db of
                          Inl e \<Rightarrow> (Inl (ServerError e), db)
                        | Inr (t, db') \<Rightarrow> (Inr t, db'))
                  else (Inl Unauthorized, db)
              | None \<Rightarrow> (Inl Unauthorized, db)))"

subsection \<open>Refresh and log out\<close>

definition IdentityRefreshCommandHandler_rotate ::
  "'key crypto \<Rightarrow> identity_env \<Rightarrow> string \<Rightarrow> (identity_db, db_error, token_response option) tx" where
  "IdentityRefreshCommandHandler_rotate cr env tokenHash db =
     (case IdentitySessionRepository_findByTokenHash tokenHash db of
        None \<Rightarrow> Inr (None, db)
      | Some presented \<Rightarrow>
          (case IdentitySessionRepository_consume (ie_now env) tokenHash db of
             Inl e \<Rightarrow> Inl e
           | Inr (None, db1) \<Rightarrow> Inr (None, db1)
           | Inr (Some (identityId, familyId), db1) \<Rightarrow>
               (case IdentityRepository_findById identityId db1 of
                  None \<Rightarrow> Inr (None, db1)
                | Some i \<Rightarrow>
                    (case TokenService_createTokenPair cr env i familyId db1 of
                       Inl e \<Rightarrow> Inl e
                     | Inr (t, db2) \<Rightarrow> Inr (Some t, db2)))))"

definition IdentityRefreshCommandHandler_revokeFamily :: "time \<Rightarrow> uuid \<Rightarrow> (identity_db, db_error, unit) tx" where
  "IdentityRefreshCommandHandler_revokeFamily now familyId db = IdentitySessionRepository_revokeFamily now familyId db"

text \<open>The setting of the denylist and how Redis answers, for the handlers that revoke.\<close>

record redis_env =
  re_failOpen :: bool
  re_outcome :: redis_outcome

definition revoke_and_deny ::
  "redis_env \<Rightarrow> time \<Rightarrow> uuid \<Rightarrow> (uuid \<Rightarrow> (identity_db, db_error, unit) tx) \<Rightarrow> identity_db \<times> redis
    \<Rightarrow> (http_error + unit) \<times> identity_db \<times> redis" where
  "revoke_and_deny re now familyId revoke = (\<lambda>(db, r).
     (case transactional (revoke familyId) db of
        (Inl e, db') \<Rightarrow> (Inl (ServerError e), db', r)
      | (Inr u, db') \<Rightarrow>
          (case AccessTokenDenylistService_denyFamily (re_failOpen re) (re_outcome re) now familyId r of
             (res, r') \<Rightarrow> (res, db', r'))))"

definition IdentityRefreshCommandHandler_execute ::
  "'key crypto \<Rightarrow> identity_env \<Rightarrow> redis_env \<Rightarrow> string \<Rightarrow> identity_db \<times> redis
    \<Rightarrow> (http_error + token_response) \<times> identity_db \<times> redis" where
  "IdentityRefreshCommandHandler_execute cr env re refreshToken = (\<lambda>(db, r).
     (let tokenHash = TokenService_hashRefreshToken cr refreshToken
      in case transactional (IdentityRefreshCommandHandler_rotate cr env tokenHash) db of
           (Inl e, db1) \<Rightarrow> (Inl (ServerError e), db1, r)
         | (Inr (Some t), db1) \<Rightarrow> (Inr t, db1, r)
         | (Inr None, db1) \<Rightarrow>
             (case IdentitySessionRepository_findByTokenHash tokenHash db1 of
                Some s \<Rightarrow>
                  if se_usedAt s \<noteq> None
                  then (case revoke_and_deny re (ie_now env) (se_familyId s)
                               (IdentityRefreshCommandHandler_revokeFamily (ie_now env)) (db1, r) of
                          (Inl e, w) \<Rightarrow> (Inl e, w)
                        | (Inr u, w) \<Rightarrow> (Inl Unauthorized, w))
                  else (Inl Unauthorized, db1, r)
              | None \<Rightarrow> (Inl Unauthorized, db1, r))))"

definition IdentityLogoutCommandHandler_revokeFamily :: "time \<Rightarrow> uuid \<Rightarrow> (identity_db, db_error, unit) tx" where
  "IdentityLogoutCommandHandler_revokeFamily now familyId db = IdentitySessionRepository_revokeFamily now familyId db"

definition IdentityLogoutCommandHandler_execute ::
  "'key crypto \<Rightarrow> identity_env \<Rightarrow> redis_env \<Rightarrow> string \<Rightarrow> identity_db \<times> redis
    \<Rightarrow> (http_error + unit) \<times> identity_db \<times> redis" where
  "IdentityLogoutCommandHandler_execute cr env re refreshToken = (\<lambda>(db, r).
     (case IdentitySessionRepository_findByTokenHash (TokenService_hashRefreshToken cr refreshToken) db of
        None \<Rightarrow> (Inr (), db, r)
      | Some s \<Rightarrow> revoke_and_deny re (ie_now env) (se_familyId s)
                    (IdentityLogoutCommandHandler_revokeFamily (ie_now env)) (db, r)))"

end
