(* ===== verification/Identity_Oidc.thy ===== *)
theory Identity_Oidc
  imports Identity
begin

section \<open>Sign-in with an external provider\<close>

text \<open>
  The OpenID Connect part of the module \<open>identity\<close>: the attempt that is kept in Redis between the
  redirect and the callback, the client service, and the handlers that start a sign-in, start the
  linking of an account and finish either. \<open>openid-client\<close> is third-party: discovery, the URL builder, the
  PKCE challenge and the code grant are arguments, bundled in the record \<open>oidc_client\<close>.
\<close>

subsection \<open>The attempt\<close>

record OidcSignInAttempt =
  at_provider :: IdentityProviderEnum
  at_state :: string
  at_nonce :: string
  at_codeVerifier :: string
  at_linkIdentityPublicId :: "uuid option"

definition attempt_json :: "OidcSignInAttempt \<Rightarrow> json" where
  "attempt_json a = JObj
     [(''provider'', JStr (provider_value (at_provider a))), (''state'', JStr (at_state a)),
      (''nonce'', JStr (at_nonce a)), (''codeVerifier'', JStr (at_codeVerifier a)),
      (''linkIdentityPublicId'', jnullable (at_linkIdentityPublicId a))]"

definition attempt_of_json :: "json \<Rightarrow> OidcSignInAttempt option" where
  "attempt_of_json j =
     (case (jstring (jfield (Some j) ''provider''), jstring (jfield (Some j) ''state''),
            jstring (jfield (Some j) ''nonce''), jstring (jfield (Some j) ''codeVerifier'')) of
        (Some p, Some s, Some n, Some v) \<Rightarrow>
          if p = provider_value Provider_google
          then Some \<lparr>at_provider = Provider_google, at_state = s, at_nonce = n, at_codeVerifier = v,
                     at_linkIdentityPublicId = jstring (jfield (Some j) ''linkIdentityPublicId'')\<rparr>
          else None
      | _ \<Rightarrow> None)"

lemma attempt_roundtrip [simp]: "attempt_of_json (attempt_json a) = Some a"
  by (cases a; cases "at_provider a"; cases "at_linkIdentityPublicId a")
    (auto simp: attempt_of_json_def attempt_json_def jnullable_def)

definition OIDC_SIGN_IN_TTL_SECONDS :: int where "OIDC_SIGN_IN_TTL_SECONDS = 600"

definition OidcSignInAttemptService_toKey :: "string \<Rightarrow> string" where
  "OidcSignInAttemptService_toKey state = ''oidc-sign-in:'' @ state"

definition OidcSignInAttemptService_save ::
  "redis_outcome \<Rightarrow> time \<Rightarrow> OidcSignInAttempt \<Rightarrow> redis \<Rightarrow> (http_error + unit) \<times> redis" where
  "OidcSignInAttemptService_save out now a r =
     (case withRedisTimeout out (\<lambda>r. ((), redis_set_ex now (OidcSignInAttemptService_toKey (at_state a))
                                          (attempt_json a) OIDC_SIGN_IN_TTL_SECONDS r)) r of
        (Some u, r') \<Rightarrow> (Inr (), r')
      | (None, r') \<Rightarrow> (Inl ServiceUnavailable, r'))"

text \<open>
  \<open>GETDEL\<close> returns the value and removes the key, in one command. What is stored under such a key
  was written by \<open>save\<close>; a value of another shape would fail the check of the provider, like no value.
\<close>

definition OidcSignInAttemptService_take ::
  "redis_outcome \<Rightarrow> time \<Rightarrow> string \<Rightarrow> redis \<Rightarrow> (http_error + OidcSignInAttempt option) \<times> redis" where
  "OidcSignInAttemptService_take out now state r =
     (case withRedisTimeout out (\<lambda>r. (redis_get now (OidcSignInAttemptService_toKey state) r,
                                       redis_del (OidcSignInAttemptService_toKey state) r)) r of
        (Some stored, r') \<Rightarrow> (Inr (Option.bind stored attempt_of_json), r')
      | (None, r') \<Rightarrow> (Inl ServiceUnavailable, r'))"

subsection \<open>The client\<close>

record OidcProviderConfig =
  pc_issuerVariable :: string
  pc_clientIdVariable :: string
  pc_clientSecretName :: string
  pc_scope :: string

fun OIDC_PROVIDERS :: "IdentityProviderEnum \<Rightarrow> OidcProviderConfig" where
  "OIDC_PROVIDERS Provider_google =
     \<lparr>pc_issuerVariable = ''GOOGLE_ISSUER'', pc_clientIdVariable = ''GOOGLE_CLIENT_ID'',
      pc_clientSecretName = ''GOOGLE_CLIENT_SECRET'', pc_scope = ''openid email profile''\<rparr>"

record authorization_parameters =
  ap_redirect_uri :: string
  ap_scope :: string
  ap_state :: string
  ap_nonce :: string
  ap_code_challenge :: string
  ap_code_challenge_method :: string

record grant_checks =
  gc_pkceCodeVerifier :: string
  gc_expectedState :: string
  gc_expectedNonce :: string
  gc_idTokenExpected :: bool

text \<open>
  The outcome of the code grant: the claims of the id token (its subject and the rest), no claims, an
  error the provider or the checks raise (\<open>ResponseBodyError\<close>, \<open>AuthorizationResponseError\<close>,
  \<open>ClientError\<close>), or any other error.
\<close>

datatype grant_outcome = GrantClaims string json | GrantNoClaims | GrantRejected | GrantFailed

type_synonym callback_query = "(string \<times> string) list"

record ('cfg, 'url) oidc_client =
  oc_discovery :: "string \<Rightarrow> string \<Rightarrow> string \<Rightarrow> bool \<Rightarrow> 'cfg option"
  oc_authorizationUrl :: "'cfg \<Rightarrow> authorization_parameters \<Rightarrow> 'url"
  oc_codeChallenge :: "string \<Rightarrow> string"
  oc_codeGrant :: "'cfg \<Rightarrow> string \<times> callback_query \<Rightarrow> grant_checks \<Rightarrow> grant_outcome"

text \<open>
  The environment and the secrets the service reads, the protocol and the join of URLs (\<open>new URL\<close>).
\<close>

record oidc_settings =
  os_environment :: "string \<Rightarrow> string"
  os_secret :: "string \<Rightarrow> string option"
  os_protocol :: "string \<Rightarrow> string"
  os_resolve :: "string \<Rightarrow> string \<Rightarrow> string"

type_synonym 'cfg configurations = "IdentityProviderEnum \<Rightarrow> 'cfg option"

definition OidcClientService_toCallbackUrl :: "oidc_settings \<Rightarrow> IdentityProviderEnum \<Rightarrow> string" where
  "OidcClientService_toCallbackUrl st provider =
     os_resolve st (''/auth/'' @ provider_value provider @ ''/callback'') (os_environment st ''OIDC_REDIRECT_BASE_URL'')"

definition OidcClientService_isCallbackSecure :: "oidc_settings \<Rightarrow> bool" where
  "OidcClientService_isCallbackSecure st \<longleftrightarrow> os_protocol st (os_environment st ''OIDC_REDIRECT_BASE_URL'') = ''https:''"

definition OidcClientService_discover :: "('cfg, 'url) oidc_client \<Rightarrow> oidc_settings \<Rightarrow> IdentityProviderEnum \<Rightarrow> 'cfg option" where
  "OidcClientService_discover oc st provider =
     (let config = OIDC_PROVIDERS provider; issuer = os_environment st (pc_issuerVariable config)
      in case os_secret st (pc_clientSecretName config) of
           None \<Rightarrow> None
         | Some secret \<Rightarrow> oc_discovery oc issuer (os_environment st (pc_clientIdVariable config)) secret
                            (os_protocol st issuer = ''http:''))"

text \<open>A configuration that was discovered is kept; one that failed is forgotten, so that the next call tries again.\<close>

definition OidcClientService_getConfiguration ::
  "('cfg, 'url) oidc_client \<Rightarrow> oidc_settings \<Rightarrow> IdentityProviderEnum \<Rightarrow> 'cfg configurations
    \<Rightarrow> (http_error + 'cfg) \<times> 'cfg configurations" where
  "OidcClientService_getConfiguration oc st provider cs =
     (case cs provider of
        Some c \<Rightarrow> (Inr c, cs)
      | None \<Rightarrow>
          (case OidcClientService_discover oc st provider of
             None \<Rightarrow> (Inl ServiceUnavailable, cs(provider := None))
           | Some c \<Rightarrow> (Inr c, cs(provider \<mapsto> c))))"

definition OidcClientService_buildAuthorizationUrl ::
  "('cfg, 'url) oidc_client \<Rightarrow> oidc_settings \<Rightarrow> OidcSignInAttempt \<Rightarrow> 'cfg configurations
    \<Rightarrow> (http_error + 'url) \<times> 'cfg configurations" where
  "OidcClientService_buildAuthorizationUrl oc st a cs =
     (case OidcClientService_getConfiguration oc st (at_provider a) cs of
        (Inl e, cs') \<Rightarrow> (Inl e, cs')
      | (Inr c, cs') \<Rightarrow>
          (Inr (oc_authorizationUrl oc c
             \<lparr>ap_redirect_uri = OidcClientService_toCallbackUrl st (at_provider a),
              ap_scope = pc_scope (OIDC_PROVIDERS (at_provider a)), ap_state = at_state a, ap_nonce = at_nonce a,
              ap_code_challenge = oc_codeChallenge oc (at_codeVerifier a), ap_code_challenge_method = ''S256''\<rparr>), cs'))"

record OidcIdentity =
  oi_subject :: string
  oi_email :: "string option"
  oi_emailVerified :: bool

definition OidcClientService_exchange ::
  "('cfg, 'url) oidc_client \<Rightarrow> oidc_settings \<Rightarrow> OidcSignInAttempt \<Rightarrow> callback_query \<Rightarrow> 'cfg configurations
    \<Rightarrow> (http_error + OidcIdentity) \<times> 'cfg configurations" where
  "OidcClientService_exchange oc st a query cs =
     (case OidcClientService_getConfiguration oc st (at_provider a) cs of
        (Inl e, cs') \<Rightarrow> (Inl e, cs')
      | (Inr c, cs') \<Rightarrow>
          ((case oc_codeGrant oc c (OidcClientService_toCallbackUrl st (at_provider a), query)
                   \<lparr>gc_pkceCodeVerifier = at_codeVerifier a, gc_expectedState = at_state a,
                    gc_expectedNonce = at_nonce a, gc_idTokenExpected = True\<rparr> of
              GrantClaims sub claims \<Rightarrow>
                Inr \<lparr>oi_subject = sub, oi_email = jstring (jfield (Some claims) ''email''),
                     oi_emailVerified = (jfield (Some claims) ''email_verified'' = Some (JBool True))\<rparr>
            | GrantNoClaims \<Rightarrow> Inl Unauthorized
            | GrantRejected \<Rightarrow> Inl Unauthorized
            | GrantFailed \<Rightarrow> Inl ServiceUnavailable), cs'))"

subsection \<open>Starting\<close>

record oidc_env = identity_env +
  oe_state :: string
  oe_nonce :: string
  oe_codeVerifier :: string
  oe_outcome :: redis_outcome

record 'cfg oidc_world =
  ow_db :: identity_db
  ow_redis :: redis
  ow_configurations :: "'cfg configurations"

record 'url OidcSignInStart =
  st_url :: 'url
  st_state :: string
  st_secureCookie :: bool

definition new_attempt :: "oidc_env \<Rightarrow> IdentityProviderEnum \<Rightarrow> uuid option \<Rightarrow> OidcSignInAttempt" where
  "new_attempt env provider link =
     \<lparr>at_provider = provider, at_state = oe_state env, at_nonce = oe_nonce env,
      at_codeVerifier = oe_codeVerifier env, at_linkIdentityPublicId = link\<rparr>"

definition IdentityOidcAuthorizeCommandHandler_execute ::
  "('cfg, 'url) oidc_client \<Rightarrow> oidc_settings \<Rightarrow> oidc_env \<Rightarrow> IdentityProviderEnum \<Rightarrow> uuid option \<Rightarrow> 'cfg oidc_world
    \<Rightarrow> (http_error + 'url OidcSignInStart) \<times> 'cfg oidc_world" where
  "IdentityOidcAuthorizeCommandHandler_execute oc st env provider link w =
     (let attempt = new_attempt env provider link
      in case OidcClientService_buildAuthorizationUrl oc st attempt (ow_configurations w) of
           (Inl e, cs) \<Rightarrow> (Inl e, w\<lparr>ow_configurations := cs\<rparr>)
         | (Inr url, cs) \<Rightarrow>
             (case OidcSignInAttemptService_save (oe_outcome env) (ie_now env) attempt (ow_redis w) of
                (Inl e, r) \<Rightarrow> (Inl e, w\<lparr>ow_configurations := cs, ow_redis := r\<rparr>)
              | (Inr u, r) \<Rightarrow>
                  (Inr \<lparr>st_url = url, st_state = at_state attempt, st_secureCookie = OidcClientService_isCallbackSecure st\<rparr>,
                   w\<lparr>ow_configurations := cs, ow_redis := r\<rparr>)))"

definition IdentityOidcLinkCommandHandler_execute ::
  "'key crypto \<Rightarrow> ('cfg, 'url) oidc_client \<Rightarrow> oidc_settings \<Rightarrow> oidc_env \<Rightarrow> IdentityProviderEnum \<Rightarrow> uuid \<Rightarrow> string
    \<Rightarrow> 'cfg oidc_world \<Rightarrow> (http_error + 'url OidcSignInStart) \<times> 'cfg oidc_world" where
  "IdentityOidcLinkCommandHandler_execute cr oc st env provider identityPublicId password w =
     (let identity = IdentityRepository_findByPublicId identityPublicId (ow_db w)
      in case PasswordService_verify cr (Option.bind identity id_passwordHash) password of
           None \<Rightarrow> (Inl InternalError, w)
         | Some matches \<Rightarrow>
             (case identity of
                Some i \<Rightarrow>
                  if matches then IdentityOidcAuthorizeCommandHandler_execute oc st env provider (Some (id_publicId i)) w
                  else (Inl Forbidden, w)
              | None \<Rightarrow> (Inl Forbidden, w)))"

definition IdentityOidcLinkInput_valid :: "string \<Rightarrow> bool" where
  "IdentityOidcLinkInput_valid password \<longleftrightarrow> 1 \<le> length password \<and> length password \<le> 128"

subsection \<open>Finishing\<close>

definition external_identity :: "string \<Rightarrow> identity_create" where
  "external_identity email =
     \<lparr>id_email = Some email,
      id_loginPhone = \<lparr>lp_countryCode = None, lp_rawNumber = None, lp_fullNumber = None, lp_nationalNumber = None\<rparr>,
      id_passwordHash = None, id_role = Role_user\<rparr>"

text \<open>The steps that raise only errors of the database, for a handler that also raises its own.\<close>

definition server :: "db_error + 'a \<Rightarrow> http_error + 'a" where
  "server x = (case x of Inl e \<Rightarrow> Inl (ServerError e) | Inr y \<Rightarrow> Inr y)"

definition issue_tokens ::
  "'key crypto \<Rightarrow> identity_env \<Rightarrow> Identity \<Rightarrow> (identity_db, http_error, token_response) tx" where
  "issue_tokens cr env i db = server (TokenService_createTokenPair cr env i (ie_familyId env) db)"

definition IdentityOidcSignInCommandHandler_signIn ::
  "'key crypto \<Rightarrow> identity_env \<Rightarrow> IdentityProviderEnum \<Rightarrow> string \<Rightarrow> string \<Rightarrow> (identity_db, http_error, token_response) tx" where
  "IdentityOidcSignInCommandHandler_signIn cr env provider subject email db =
     (case IdentityExternalAccountRepository_findByProviderSubject provider subject db of
        Some account \<Rightarrow>
          (case IdentityRepository_findById (ea_identityId account) db of
             None \<Rightarrow> Inl Unauthorized
           | Some i \<Rightarrow> issue_tokens cr env i db)
      | None \<Rightarrow>
          (if IdentityRepository_findByEmail email db \<noteq> None then Inl Conflict
           else (case IdentityRepository_create env (external_identity email) db of
                   Inl e \<Rightarrow> Inl (ServerError e)
                 | Inr (i, db1) \<Rightarrow>
                     (case IdentityExternalAccountRepository_create env
                             \<lparr>ea_identityId = id_id i, ea_provider = provider, ea_subject = subject\<rparr> db1 of
                        Inl e \<Rightarrow> Inl (ServerError e)
                      | Inr (_, db2) \<Rightarrow>
                          (case write_registered env i db2 of
                             Inl e \<Rightarrow> Inl (ServerError e)
                           | Inr (_, db3) \<Rightarrow> issue_tokens cr env i db3)))))"

definition IdentityOidcSignInCommandHandler_link ::
  "'key crypto \<Rightarrow> identity_env \<Rightarrow> IdentityProviderEnum \<Rightarrow> string \<Rightarrow> uuid \<Rightarrow> (identity_db, http_error, token_response) tx" where
  "IdentityOidcSignInCommandHandler_link cr env provider subject identityPublicId db =
     (case IdentityRepository_findByPublicId identityPublicId db of
        None \<Rightarrow> Inl Unauthorized
      | Some i \<Rightarrow>
          (case IdentityExternalAccountRepository_findByProviderSubject provider subject db of
             Some account \<Rightarrow>
               if ea_identityId account \<noteq> id_id i then Inl Conflict else issue_tokens cr env i db
           | None \<Rightarrow>
               (case IdentityExternalAccountRepository_create env
                       \<lparr>ea_identityId = id_id i, ea_provider = provider, ea_subject = subject\<rparr> db of
                  Inl e \<Rightarrow> Inl (ServerError e)
                | Inr (_, db1) \<Rightarrow> issue_tokens cr env i db1)))"

definition truthy :: "string option \<Rightarrow> bool" where
  "truthy v \<longleftrightarrow> v \<noteq> None \<and> v \<noteq> Some ''''"

definition finish_sign_in ::
  "'key crypto \<Rightarrow> identity_env \<Rightarrow> IdentityProviderEnum \<Rightarrow> OidcSignInAttempt \<Rightarrow> string \<Rightarrow> string
    \<Rightarrow> (identity_db, http_error, token_response) tx" where
  "finish_sign_in cr env provider a subject email =
     (case at_linkIdentityPublicId a of
        Some p \<Rightarrow> if p \<noteq> '''' then IdentityOidcSignInCommandHandler_link cr env provider subject p
                  else IdentityOidcSignInCommandHandler_signIn cr env provider subject email
      | None \<Rightarrow> IdentityOidcSignInCommandHandler_signIn cr env provider subject email)"

definition IdentityOidcSignInCommandHandler_execute ::
  "'key crypto \<Rightarrow> ('cfg, 'url) oidc_client \<Rightarrow> oidc_settings \<Rightarrow> oidc_env \<Rightarrow> IdentityProviderEnum \<Rightarrow> callback_query
    \<Rightarrow> string option \<Rightarrow> 'cfg oidc_world \<Rightarrow> (http_error + token_response) \<times> 'cfg oidc_world" where
  "IdentityOidcSignInCommandHandler_execute cr oc st env provider query browserState w =
     (let state = map_of query ''state''
      in if \<not> truthy state \<or> state \<noteq> browserState then (Inl BadRequest, w)
         else (case OidcSignInAttemptService_take (oe_outcome env) (ie_now env) (the state) (ow_redis w) of
                 (Inl e, r) \<Rightarrow> (Inl e, w\<lparr>ow_redis := r\<rparr>)
               | (Inr None, r) \<Rightarrow> (Inl BadRequest, w\<lparr>ow_redis := r\<rparr>)
               | (Inr (Some attempt), r) \<Rightarrow>
                   (if at_provider attempt \<noteq> provider then (Inl BadRequest, w\<lparr>ow_redis := r\<rparr>)
                    else (case OidcClientService_exchange oc st attempt query (ow_configurations w) of
                            (Inl e, cs) \<Rightarrow> (Inl e, w\<lparr>ow_redis := r, ow_configurations := cs\<rparr>)
                          | (Inr external, cs) \<Rightarrow>
                              (let w1 = w\<lparr>ow_redis := r, ow_configurations := cs\<rparr>
                               in if \<not> truthy (oi_email external) \<or> \<not> oi_emailVerified external then (Inl Unauthorized, w1)
                                  else (case transactional (finish_sign_in cr (identity_env.truncate env) provider attempt
                                               (oi_subject external) (the (oi_email external))) (ow_db w) of
                                          (Inl e, db) \<Rightarrow>
                                            (Inl (if e = ServerError UniqueViolation then Conflict else e), w1\<lparr>ow_db := db\<rparr>)
                                        | (Inr t, db) \<Rightarrow> (Inr t, w1\<lparr>ow_db := db\<rparr>)))))))"

end
