(* ===== verification/Identity_Sessions.thy ===== *)
theory Identity_Sessions
  imports Identity_Oidc
begin

section \<open>Sessions as families of refresh tokens\<close>

text \<open>
  What the session table promises. Its specification is an abstract machine: a family is open with
  one current token or closed for good. \<open>family_state\<close> reads this from the table, the invariant
  \<open>sessions_inv\<close> makes it well defined, and every transaction of the handlers is a step of
  the machine (\<open>identity_refines_families\<close>). On it rest the theorems on refresh, reuse and logout.
\<close>

subsection \<open>The abstract machine\<close>

datatype family = Open string | Closed

type_synonym families = "uuid \<Rightarrow> family option"

inductive family_step :: "families \<Rightarrow> families \<Rightarrow> bool" where
  unchanged: "family_step c c"
| started: "c f = None \<Longrightarrow> family_step c (c(f \<mapsto> Open h))"
| rotated: "c f = Some (Open h) \<Longrightarrow> family_step c (c(f \<mapsto> Open h'))"
| closed: "c f = Some x \<Longrightarrow> family_step c (c(f \<mapsto> Closed))"

lemma closed_stays_closed: "family_step\<^sup>*\<^sup>* c c' \<Longrightarrow> c f = Some Closed \<Longrightarrow> c' f = Some Closed"
  by (induction rule: rtranclp_induct) (auto elim!: family_step.cases)

subsection \<open>The invariant\<close>

definition live_session :: "IdentitySession \<Rightarrow> bool" where
  "live_session s \<longleftrightarrow> se_usedAt s = None \<and> se_revokedAt s = None"

definition family_state :: "IdentitySession list \<Rightarrow> families" where
  "family_state ss f =
     (if f \<notin> se_familyId ` set ss then None
      else case find_row (\<lambda>s. se_familyId s = f \<and> live_session s) ss of
             Some s \<Rightarrow> Some (Open (se_tokenHash s)) | None \<Rightarrow> Some Closed)"

definition sessions_inv :: "IdentitySession list \<Rightarrow> bool" where
  "sessions_inv ss \<longleftrightarrow>
     distinct (map se_tokenHash ss)
     \<and> (\<forall>s\<in>set ss. \<forall>t\<in>set ss. se_familyId s = se_familyId t \<longrightarrow> se_identityId s = se_identityId t)
     \<and> (\<forall>s\<in>set ss. \<forall>t\<in>set ss. se_familyId s = se_familyId t \<and> live_session s \<longrightarrow>
          se_revokedAt t = None \<and> (live_session t \<longrightarrow> t = s))"

lemma sessions_invD:
  assumes "sessions_inv ss" and "s \<in> set ss" and "t \<in> set ss" and "se_familyId s = se_familyId t"
  shows "se_identityId s = se_identityId t"
    and "live_session s \<Longrightarrow> se_revokedAt t = None"
    and "live_session s \<Longrightarrow> live_session t \<Longrightarrow> t = s"
  using assms unfolding sessions_inv_def by blast+

lemma family_state_None: "family_state ss f = None \<longleftrightarrow> f \<notin> se_familyId ` set ss"
  by (auto simp: family_state_def split: option.splits)

lemma family_state_Nil [simp]: "family_state [] = (\<lambda>f. None)"
  by (simp add: family_state_def fun_eq_iff)

lemma family_state_Closed:
  "family_state ss f = Some Closed \<longleftrightarrow>
     f \<in> se_familyId ` set ss \<and> (\<forall>s\<in>set ss. se_familyId s = f \<longrightarrow> \<not> live_session s)"
  by (auto simp: family_state_def find_row_None dest: find_row_Some split: option.splits)

lemma family_state_Open:
  assumes "sessions_inv ss"
  shows "family_state ss f = Some (Open h) \<longleftrightarrow>
     (\<exists>s\<in>set ss. se_familyId s = f \<and> live_session s \<and> se_tokenHash s = h)"
proof
  assume "family_state ss f = Some (Open h)"
  then show "\<exists>s\<in>set ss. se_familyId s = f \<and> live_session s \<and> se_tokenHash s = h"
    by (auto simp: family_state_def dest!: find_row_Some split: option.splits if_splits)
next
  assume "\<exists>s\<in>set ss. se_familyId s = f \<and> live_session s \<and> se_tokenHash s = h"
  then obtain s where s: "s \<in> set ss" "se_familyId s = f" "live_session s" "se_tokenHash s = h" by blast
  show "family_state ss f = Some (Open h)"
  proof (cases "find_row (\<lambda>s. se_familyId s = f \<and> live_session s) ss")
    case None
    with s show ?thesis by (auto simp: find_row_None)
  next
    case (Some t)
    from find_row_Some [OF this] s sessions_invD(3) [OF assms, of t s] show ?thesis
      using Some by (auto simp: family_state_def)
  qed
qed

text \<open>Two tables agree on a family when they have the same sessions of it, up to what is not read.\<close>

lemma family_state_cong:
  assumes "\<And>s. se_familyId s = f \<Longrightarrow> s \<in> set ss \<longleftrightarrow> s \<in> set ss'" and "sessions_inv ss" and "sessions_inv ss'"
  shows "family_state ss f = family_state ss' f"
proof -
  have *: "(\<exists>s\<in>set ss. se_familyId s = f \<and> P s) \<longleftrightarrow> (\<exists>s\<in>set ss'. se_familyId s = f \<and> P s)" for P
    using assms(1) by blast
  show ?thesis
  proof (cases "family_state ss' f")
    case None
    then have "f \<notin> se_familyId ` set ss'" by (simp add: family_state_None)
    then have "f \<notin> se_familyId ` set ss" using assms(1) by blast
    then have "family_state ss f = None" by (simp add: family_state_None)
    with None show ?thesis by simp
  next
    case (Some x)
    show ?thesis
    proof (cases x)
      case (Open h)
      with Some have "family_state ss f = Some (Open h)"
        using * [of "\<lambda>s. live_session s \<and> se_tokenHash s = h"]
        by (simp add: family_state_Open assms)
      with Open Some show ?thesis by simp
    next
      case Closed
      with Some have "family_state ss f = Some Closed"
        using assms(1) by (auto simp: family_state_Closed)
      with Closed Some show ?thesis by simp
    qed
  qed
qed

subsection \<open>What the statements do to the families\<close>

lemma live_new_session [simp]: "live_session (new_session env input)"
  by (simp add: live_session_def new_session_def identity_session_create.defs)

lemma new_session_simps [simp]:
  "se_familyId (new_session env input) = se_familyId input"
  "se_tokenHash (new_session env input) = se_tokenHash input"
  "se_identityId (new_session env input) = se_identityId input"
  "se_revokedAt (new_session env input) = None"
  "se_createdAt (new_session env input) = ie_now env"
  by (simp_all add: new_session_def identity_session_create.defs)

lemma mark_used_simps [simp]:
  "se_familyId (mark_used now s) = se_familyId s" "se_tokenHash (mark_used now s) = se_tokenHash s"
  "se_identityId (mark_used now s) = se_identityId s" "se_revokedAt (mark_used now s) = se_revokedAt s"
  "se_createdAt (mark_used now s) = se_createdAt s" "se_usedAt (mark_used now s) = Some now"
  "\<not> live_session (mark_used now s)"
  by (simp_all add: mark_used_def live_session_def)

lemma mark_revoked_simps [simp]:
  "se_familyId (mark_revoked now s) = se_familyId s" "se_tokenHash (mark_revoked now s) = se_tokenHash s"
  "se_identityId (mark_revoked now s) = se_identityId s" "se_revokedAt (mark_revoked now s) = Some now"
  "se_createdAt (mark_revoked now s) = se_createdAt s" "se_usedAt (mark_revoked now s) = se_usedAt s"
  "\<not> live_session (mark_revoked now s)"
  by (simp_all add: mark_revoked_def live_session_def)

text \<open>
  The three ways the table changes: a token is added to a family in which nothing is live or revoked, the
  consumable row is marked as used, a family is revoked.
\<close>

lemma append_session_inv:
  assumes "sessions_inv ss" and "live_session s" and "se_tokenHash s \<notin> se_tokenHash ` set ss"
    and "\<forall>t\<in>set ss. se_familyId t = se_familyId s \<longrightarrow>
      \<not> live_session t \<and> se_revokedAt t = None \<and> se_identityId t = se_identityId s"
  shows "sessions_inv (ss @ [s])"
  unfolding sessions_inv_def
proof (intro conjI ballI impI)
  show "distinct (map se_tokenHash (ss @ [s]))" using assms(1,3) by (simp add: sessions_inv_def)
next
  fix t u assume "t \<in> set (ss @ [s])" "u \<in> set (ss @ [s])" "se_familyId t = se_familyId u"
  then show "se_identityId t = se_identityId u"
    using sessions_invD(1) [OF assms(1), of t u] assms(4) by auto
next
  fix t u assume tu: "t \<in> set (ss @ [s])" "u \<in> set (ss @ [s])" "se_familyId t = se_familyId u \<and> live_session t"
  then consider "t = s" | "t \<in> set ss" "u \<in> set ss" using assms(4) by auto
  then show "se_revokedAt u = None"
    using tu assms(2,4) sessions_invD(2) [OF assms(1), of t u] by cases (auto simp: live_session_def)
  assume "live_session u"
  then show "u = t" using tu assms(4) sessions_invD(3) [OF assms(1), of t u] by auto
qed

lemma append_session_state:
  assumes "sessions_inv ss" and "sessions_inv (ss @ [s])" and "live_session s"
  shows "family_state (ss @ [s]) = (family_state ss)(se_familyId s \<mapsto> Open (se_tokenHash s))"
proof
  fix f
  show "family_state (ss @ [s]) f = ((family_state ss)(se_familyId s \<mapsto> Open (se_tokenHash s))) f"
  proof (cases "f = se_familyId s")
    case True
    then show ?thesis using family_state_Open [OF assms(2), of f "se_tokenHash s"] assms(3) by auto
  next
    case False
    then show ?thesis using family_state_cong [of f "ss @ [s]" ss] assms by auto
  qed
qed

lemma image_if_one: "s \<in> A \<Longrightarrow> (\<lambda>t. if t = s then g t else t) ` A = insert (g s) (A - {s})"
  by (auto simp: image_iff)

lemma use_session:
  assumes inv: "sessions_inv ss" and s: "s \<in> set ss" "consumable now h s"
    and ss': "ss' = update_where (consumable now h) (mark_used now) ss"
  shows "set ss' = insert (mark_used now s) (set ss - {s})" and "sessions_inv ss'"
    and "family_state ss (se_familyId s) = Some (Open h)"
    and "family_state ss' = (family_state ss)(se_familyId s \<mapsto> Closed)"
    and "\<forall>t\<in>set ss'. se_familyId t = se_familyId s \<longrightarrow>
      \<not> live_session t \<and> se_revokedAt t = None \<and> se_identityId t = se_identityId s"
proof -
  have dist: "distinct (map se_tokenHash ss)" using inv by (simp add: sessions_inv_def)
  have only: "consumable now h t \<longleftrightarrow> t = s" if "t \<in> set ss" for t
    using distinct_key_eq [OF dist that s(1)] s(2) that by (auto simp: consumable_def)
  have live: "live_session s" and hash: "se_tokenHash s = h"
    using s(2) by (auto simp: consumable_def live_session_def)
  show set': "set ss' = insert (mark_used now s) (set ss - {s})"
    using only image_if_one [OF s(1), of "mark_used now"]
    by (simp add: ss' update_where_def cong: image_cong)
  have keys: "map se_tokenHash ss' = map se_tokenHash ss"
    by (simp add: ss' map_update_where_key)
  show fam: "\<forall>t\<in>set ss'. se_familyId t = se_familyId s \<longrightarrow>
      \<not> live_session t \<and> se_revokedAt t = None \<and> se_identityId t = se_identityId s"
  proof (intro ballI impI)
    fix t assume t: "t \<in> set ss'" "se_familyId t = se_familyId s"
    show "\<not> live_session t \<and> se_revokedAt t = None \<and> se_identityId t = se_identityId s"
    proof (cases "t = mark_used now s")
      case True
      with live show ?thesis by (simp add: live_session_def)
    next
      case False
      with t set' have "t \<in> set ss" "t \<noteq> s" by auto
      with t(2) live sessions_invD [OF inv s(1), of t] show ?thesis by auto
    qed
  qed
  have others: "t \<in> set ss' \<longleftrightarrow> t \<in> set ss" if "se_familyId t \<noteq> se_familyId s" for t
    using that by (auto simp: set')
  show inv': "sessions_inv ss'"
    unfolding sessions_inv_def
  proof (intro conjI ballI impI)
    show "distinct (map se_tokenHash ss')" using keys dist by simp
  next
    fix t u assume tu: "t \<in> set ss'" "u \<in> set ss'" "se_familyId t = se_familyId u"
    show "se_identityId t = se_identityId u"
      using tu fam others sessions_invD(1) [OF inv, of t u] by (cases "se_familyId t = se_familyId s") auto
  next
    fix t u assume tu: "t \<in> set ss'" "u \<in> set ss'" "se_familyId t = se_familyId u \<and> live_session t"
    then have ne: "se_familyId t \<noteq> se_familyId s" using fam by blast
    with tu others have "t \<in> set ss" "u \<in> set ss" by auto
    then show "se_revokedAt u = None" "live_session u \<Longrightarrow> u = t"
      using sessions_invD(2,3) [OF inv] tu(3) by blast+
  qed
  show "family_state ss (se_familyId s) = Some (Open h)"
    using s(1) live hash by (auto simp: family_state_Open inv)
  show "family_state ss' = (family_state ss)(se_familyId s \<mapsto> Closed)"
  proof
    fix f
    show "family_state ss' f = ((family_state ss)(se_familyId s \<mapsto> Closed)) f"
    proof (cases "f = se_familyId s")
      case True
      then show ?thesis using fam by (auto simp: family_state_Closed set')
    next
      case False
      then show ?thesis using family_state_cong [OF _ inv' inv] others by auto
    qed
  qed
qed

lemma revoke_sessions:
  assumes inv: "sessions_inv ss"
    and ss': "ss' = update_where (\<lambda>s. se_familyId s = f \<and> se_revokedAt s = None) (mark_revoked now) ss"
  shows "sessions_inv ss'" and "\<forall>t\<in>set ss'. se_familyId t = f \<longrightarrow> se_revokedAt t \<noteq> None"
    and "family_state ss' = (if family_state ss f = None then family_state ss else (family_state ss)(f \<mapsto> Closed))"
proof -
  have keys: "map se_tokenHash ss' = map se_tokenHash ss" "se_familyId ` set ss' = se_familyId ` set ss"
    by (simp_all add: ss' map_update_where_key image_update_where_key)
  have others: "t \<in> set ss' \<longleftrightarrow> t \<in> set ss" if "se_familyId t \<noteq> f" for t
    using that by (auto simp: ss' in_update_where)
  show revoked: "\<forall>t\<in>set ss'. se_familyId t = f \<longrightarrow> se_revokedAt t \<noteq> None"
    unfolding ss' by (rule update_where_all) auto
  have ident: "\<exists>q\<in>set ss. se_familyId q = se_familyId t \<and> se_identityId q = se_identityId t" if "t \<in> set ss'" for t
    using that by (force simp: ss' in_update_where)
  show inv': "sessions_inv ss'"
    unfolding sessions_inv_def
  proof (intro conjI ballI impI)
    show "distinct (map se_tokenHash ss')" using keys inv by (simp add: sessions_inv_def)
  next
    fix t u assume "t \<in> set ss'" "u \<in> set ss'" "se_familyId t = se_familyId u"
    then show "se_identityId t = se_identityId u" using ident sessions_invD(1) [OF inv] by metis
  next
    fix t u assume tu: "t \<in> set ss'" "u \<in> set ss'" "se_familyId t = se_familyId u \<and> live_session t"
    then have "se_familyId t \<noteq> f" using revoked by (auto simp: live_session_def)
    with tu others have "t \<in> set ss" "u \<in> set ss" by auto
    then show "se_revokedAt u = None" "live_session u \<Longrightarrow> u = t"
      using sessions_invD(2,3) [OF inv] tu(3) by blast+
  qed
  show "family_state ss' = (if family_state ss f = None then family_state ss else (family_state ss)(f \<mapsto> Closed))"
  proof
    fix g
    show "family_state ss' g = (if family_state ss f = None then family_state ss else (family_state ss)(f \<mapsto> Closed)) g"
    proof (cases "g = f")
      case True
      have "family_state ss' f = (if f \<in> se_familyId ` set ss then Some Closed else None)"
        using revoked keys(2) by (auto simp: family_state_Closed family_state_None live_session_def)
      with True show ?thesis using family_state_None [of ss f] by auto
    next
      case False
      then show ?thesis using family_state_cong [OF _ inv' inv, of g] others by auto
    qed
  qed
qed

subsection \<open>What the transactions do to the tables\<close>

definition issued_session :: "'key crypto \<Rightarrow> identity_env \<Rightarrow> int \<Rightarrow> uuid \<Rightarrow> IdentitySession" where
  "issued_session cr env i f = new_session env
     \<lparr>se_identityId = i, se_familyId = f, se_tokenHash = TokenService_hashRefreshToken cr (ie_refreshToken env),
      se_expiresAt = ie_now env + REFRESH_TOKEN_TTL_MS\<rparr>"

definition token_pair :: "'key crypto \<Rightarrow> identity_env \<Rightarrow> Identity \<Rightarrow> uuid \<Rightarrow> token_response" where
  "token_pair cr env i f =
     \<lparr>tr_accessToken = access_token cr env i f, tr_refreshToken = ie_refreshToken env,
      tr_tokenType = ''Bearer'', tr_expiresIn = ACCESS_TOKEN_TTL_SECONDS\<rparr>"

lemma issued_session_simps [simp]:
  "se_familyId (issued_session cr env i f) = f"
  "se_tokenHash (issued_session cr env i f) = TokenService_hashRefreshToken cr (ie_refreshToken env)"
  "se_identityId (issued_session cr env i f) = i" "se_createdAt (issued_session cr env i f) = ie_now env"
  "live_session (issued_session cr env i f)"
  by (simp_all add: issued_session_def)

definition new_token :: "'key crypto \<Rightarrow> identity_env \<Rightarrow> identity_db \<Rightarrow> bool" where
  "new_token cr env db \<longleftrightarrow> length (TokenService_hashRefreshToken cr (ie_refreshToken env)) \<le> 64
     \<and> TokenService_hashRefreshToken cr (ie_refreshToken env) \<notin> se_tokenHash ` set (idb_sessions db)"

lemma createTokenPair_eq:
  "TokenService_createTokenPair cr env i f db = Inr (t, db') \<longleftrightarrow>
     new_token cr env db \<and> id_id i \<in> id_id ` set (idb_identities db)
     \<and> t = token_pair cr env i f
     \<and> db' = db\<lparr>idb_sessions := idb_sessions db @ [issued_session cr env (id_id i) f]\<rparr>"
  by (auto simp: TokenService_createTokenPair_def IdentitySessionRepository_create_def list_ex_key
      REFRESH_TOKEN_TTL_MS_def issued_session_def token_pair_def new_token_def split: sum.splits prod.splits if_splits)

text \<open>
  \<open>opened\<close>: identities may be added, and at most one session, the first of a new family.
\<close>

definition fresh_identity_env :: "identity_env \<Rightarrow> identity_db \<Rightarrow> bool" where
  "fresh_identity_env env db \<longleftrightarrow> ie_familyId env \<notin> se_familyId ` set (idb_sessions db)
     \<and> ie_identityId env \<notin> id_id ` set (idb_identities db)"

definition opened :: "'key crypto \<Rightarrow> identity_env \<Rightarrow> identity_db \<Rightarrow> identity_db \<Rightarrow> bool" where
  "opened cr env db db' \<longleftrightarrow>
     (idb_identities db' = idb_identities db \<or> (\<exists>x. idb_identities db' = idb_identities db @ [new_identity env x]))
     \<and> (idb_sessions db' = idb_sessions db
        \<or> (\<exists>i \<in> id_id ` set (idb_identities db').
             new_token cr env db \<and> idb_sessions db' = idb_sessions db @ [issued_session cr env i (ie_familyId env)]))"

lemma new_identity_simps [simp]:
  "id_id (new_identity env x) = ie_identityId env" "id_publicId (new_identity env x) = ie_publicId env"
  "id_email (new_identity env x) = id_email x" "id_loginPhone (new_identity env x) = id_loginPhone x"
  "id_passwordHash (new_identity env x) = id_passwordHash x" "id_role (new_identity env x) = id_role x"
  "live_identity (new_identity env x)"
  by (simp_all add: new_identity_def identity_create.defs live_identity_def)

lemma opened_refl: "opened cr env db db"
  by (simp add: opened_def)

lemma IdentityRepository_create_Inr:
  "IdentityRepository_create env x db = Inr (i, db') \<longleftrightarrow>
     Identity_fits x \<and> Identity_check x \<and> i = new_identity env x
     \<and> (\<forall>j\<in>set (idb_identities db). id_publicId j \<noteq> ie_publicId env \<and> \<not> identity_clash x j)
     \<and> db' = db\<lparr>idb_identities := idb_identities db @ [new_identity env x]\<rparr>"
  by (auto simp: IdentityRepository_create_def list_ex_iff split: if_splits)

lemma write_registered_Inr:
  "write_registered env i db = Inr (u, db') \<Longrightarrow>
     \<exists>out. db' = db\<lparr>idb_outbox := out\<rparr>
       \<and> IdentityOutboxRepository_create (ie_now env) (IdentityMessageService_toIdentityRegisteredOutbox i) (idb_outbox db) = Inr out"
  by (auto simp: write_registered_def split: sum.splits)

lemma account_create_Inr:
  "IdentityExternalAccountRepository_create env x db = Inr (a, db') \<Longrightarrow>
     db' = db\<lparr>idb_accounts := idb_accounts db @ [new_account env x]\<rparr>"
  by (auto simp: IdentityExternalAccountRepository_create_def split: if_splits)

lemma register_opened:
  "IdentityRegisterCommandHandler_register cr env input pw db = Inr (t, db') \<Longrightarrow> opened cr env db db'"
  by (auto simp: IdentityRegisterCommandHandler_register_def IdentityRepository_create_Inr createTokenPair_eq
      opened_def new_token_def dest!: write_registered_Inr split: sum.splits prod.splits)

lemma register_execute_opened:
  "IdentityRegisterCommandHandler_execute cr env input db = (res, db') \<Longrightarrow> opened cr env db db'"
  by (auto simp: IdentityRegisterCommandHandler_execute_def Let_def transactional_def opened_refl
      dest: register_opened split: sum.splits prod.splits)

lemma login_opened:
  "IdentityLoginCommandHandler_execute cr env input db = (res, db') \<Longrightarrow> opened cr env db db'"
  by (auto simp: IdentityLoginCommandHandler_execute_def Let_def opened_refl createTokenPair_eq
      split: sum.splits prod.splits option.splits if_splits) (auto simp: opened_def)

lemma server_Inr [simp]: "server x = Inr y \<longleftrightarrow> x = Inr y"
  by (auto simp: server_def split: sum.splits)

lemma signIn_opened:
  "IdentityOidcSignInCommandHandler_signIn cr env provider subject email db = Inr (t, db') \<Longrightarrow> opened cr env db db'"
  by (auto simp: IdentityOidcSignInCommandHandler_signIn_def issue_tokens_def IdentityRepository_create_Inr createTokenPair_eq
      new_token_def dest!: write_registered_Inr account_create_Inr split: sum.splits prod.splits option.splits if_splits)
    (auto simp: opened_def new_token_def)

lemma link_opened:
  "IdentityOidcSignInCommandHandler_link cr env provider subject p db = Inr (t, db') \<Longrightarrow> opened cr env db db'"
  by (auto simp: IdentityOidcSignInCommandHandler_link_def issue_tokens_def createTokenPair_eq
      new_token_def dest!: account_create_Inr split: sum.splits prod.splits option.splits if_splits)
    (auto simp: opened_def new_token_def)

lemma finish_opened:
  "transactional (finish_sign_in cr env provider a subject email) db = (res, db') \<Longrightarrow> opened cr env db db'"
  by (auto simp: finish_sign_in_def transactional_def opened_refl dest: signIn_opened link_opened
      split: sum.splits prod.splits option.splits if_splits)

definition used_up :: "time \<Rightarrow> string \<Rightarrow> identity_db \<Rightarrow> identity_db" where
  "used_up now h db = db\<lparr>idb_sessions := update_where (consumable now h) (mark_used now) (idb_sessions db)\<rparr>"

lemma used_up_simps [simp]:
  "idb_identities (used_up now h db) = idb_identities db" "idb_outbox (used_up now h db) = idb_outbox db"
  "idb_sessions (used_up now h db) = update_where (consumable now h) (mark_used now) (idb_sessions db)"
  by (simp_all add: used_up_def)

lemma consume_Inr:
  "IdentitySessionRepository_consume now h db = Inr (x, db') \<longleftrightarrow>
     (\<forall>s\<in>set (idb_sessions db). consumable now h s \<longrightarrow> se_createdAt s \<le> now)
     \<and> x = map_option (\<lambda>s. (se_identityId s, se_familyId s)) (find_row (consumable now h) (idb_sessions db))
     \<and> db' = used_up now h db"
  by (auto simp: IdentitySessionRepository_consume_def update_sessions_def list_ex_iff not_le used_up_def split: if_splits)

lemma not_consumable_used_up:
  "find_row (consumable now h) (idb_sessions db) = None \<Longrightarrow> used_up now h db = db"
  by (simp add: used_up_def find_row_None update_where_none)

text \<open>A rotation refuses, uses a token up without a successor, or replaces it.\<close>

lemma rotate_cases:
  assumes "IdentityRefreshCommandHandler_rotate cr env h db = Inr (res, db')"
  obtains (refused) "res = None" "db' = db" "find_row (consumable (ie_now env) h) (idb_sessions db) = None"
    | (orphan) s where "s \<in> set (idb_sessions db)" "consumable (ie_now env) h s"
        "IdentityRepository_findById (se_identityId s) db = None" "res = None" "db' = used_up (ie_now env) h db"
    | (replaced) s i where "s \<in> set (idb_sessions db)" "consumable (ie_now env) h s"
        "IdentityRepository_findById (se_identityId s) db = Some i" "new_token cr env (used_up (ie_now env) h db)"
        "res = Some (token_pair cr env i (se_familyId s))"
        "db' = (used_up (ie_now env) h db)\<lparr>idb_sessions := idb_sessions (used_up (ie_now env) h db)
                 @ [issued_session cr env (id_id i) (se_familyId s)]\<rparr>"
proof (cases "find_row (consumable (ie_now env) h) (idb_sessions db)")
  case None
  then have "res = None \<and> db' = db"
    using assms not_consumable_used_up [OF None]
    by (auto simp: IdentityRefreshCommandHandler_rotate_def consume_Inr split: option.splits sum.splits prod.splits)
  then show ?thesis using None by (intro refused) auto
next
  case (Some s)
  note s = find_row_Some [OF Some]
  have find: "IdentityRepository_findById k (used_up now h db) = IdentityRepository_findById k db" for k now
    by (simp add: IdentityRepository_findById_def)
  have "IdentitySessionRepository_findByTokenHash h db \<noteq> None"
    using s by (auto simp: IdentitySessionRepository_findByTokenHash_def find_row_None consumable_def)
  then have run: "(case IdentityRepository_findById (se_identityId s) db of
      None \<Rightarrow> res = None \<and> db' = used_up (ie_now env) h db
    | Some i \<Rightarrow> \<exists>t. TokenService_createTokenPair cr env i (se_familyId s) (used_up (ie_now env) h db) = Inr (t, db')
        \<and> res = Some t)"
    using assms Some
    by (auto simp: IdentityRefreshCommandHandler_rotate_def consume_Inr find split: option.splits sum.splits prod.splits)
  show ?thesis
  proof (cases "IdentityRepository_findById (se_identityId s) db")
    case None
    with run s show ?thesis by (intro orphan [of s]) auto
  next
    case (Some i)
    with run s show ?thesis by (intro replaced [of s i]) (auto simp: createTokenPair_eq)
  qed
qed

lemma findById_Some: "IdentityRepository_findById k db = Some i \<Longrightarrow> i \<in> set (idb_identities db) \<and> id_id i = k \<and> live_identity i"
  by (auto simp: IdentityRepository_findById_def dest: find_row_Some)

subsection \<open>Every history of the tables\<close>

text \<open>
  The steps of the service on its database, each with the clock of its request: the handlers'
  transactions in any order, the soft deletion of an identity and the work of the relay on the outbox.
  A handler made of several transactions contributes several steps, which other steps may separate.
\<close>

definition delete_identity :: "time \<Rightarrow> int \<Rightarrow> identity_db \<Rightarrow> identity_db" where
  "delete_identity now k db = db\<lparr>idb_identities :=
     update_where (\<lambda>i. id_id i = k) (\<lambda>i. i\<lparr>id_deletedAt := Some now\<rparr>) (idb_identities db)\<rparr>"

inductive identity_step :: "'key crypto \<Rightarrow> time \<times> identity_db \<Rightarrow> time \<times> identity_db \<Rightarrow> bool" for cr where
  tick: "now \<le> now' \<Longrightarrow> identity_step cr (now, db) (now', db)"
| register: "ie_now env = now \<Longrightarrow> fresh_identity_env env db \<Longrightarrow>
    IdentityRegisterCommandHandler_execute cr env input db = (res, db') \<Longrightarrow> identity_step cr (now, db) (now, db')"
| login: "ie_now env = now \<Longrightarrow> fresh_identity_env env db \<Longrightarrow>
    IdentityLoginCommandHandler_execute cr env input' db = (res', db') \<Longrightarrow> identity_step cr (now, db) (now, db')"
| external: "ie_now env = now \<Longrightarrow> fresh_identity_env env db \<Longrightarrow>
    transactional (finish_sign_in cr env provider a subject email) db = (res'', db') \<Longrightarrow>
    identity_step cr (now, db) (now, db')"
| rotate: "ie_now env = now \<Longrightarrow>
    transactional (IdentityRefreshCommandHandler_rotate cr env h) db = (rotated, db') \<Longrightarrow>
    identity_step cr (now, db) (now, db')"
| revoke: "transactional (IdentitySessionRepository_revokeFamily now f) db = (u, db') \<Longrightarrow>
    identity_step cr (now, db) (now, db')"
| delete: "identity_step cr (now, db) (now, delete_identity now k db)"
| relay: "identity_step cr (now, db) (now, db\<lparr>idb_outbox := out\<rparr>)"

definition identity_inv :: "time \<times> identity_db \<Rightarrow> bool" where
  "identity_inv = (\<lambda>(now, db).
     sessions_inv (idb_sessions db)
     \<and> (\<forall>s\<in>set (idb_sessions db). se_createdAt s \<le> now \<and> se_identityId s \<in> id_id ` set (idb_identities db))
     \<and> distinct (map id_id (idb_identities db)))"

lemma opened_step:
  assumes "opened cr env db db'" and "identity_inv (ie_now env, db)" and "fresh_identity_env env db"
  shows "identity_inv (ie_now env, db') \<and> family_step (family_state (idb_sessions db)) (family_state (idb_sessions db'))"
proof -
  have ids: "distinct (map id_id (idb_identities db'))" "id_id ` set (idb_identities db) \<subseteq> id_id ` set (idb_identities db')"
    using assms by (auto simp: opened_def identity_inv_def fresh_identity_env_def)
  have inv: "sessions_inv (idb_sessions db)" using assms(2) by (simp add: identity_inv_def)
  from assms(1) consider "idb_sessions db' = idb_sessions db"
    | i where "i \<in> id_id ` set (idb_identities db')" "new_token cr env db"
        "idb_sessions db' = idb_sessions db @ [issued_session cr env i (ie_familyId env)]"
    by (auto simp: opened_def)
  then show ?thesis
  proof cases
    case 1
    then show ?thesis using assms(2) ids by (auto simp: identity_inv_def intro: family_step.unchanged)
  next
    case 2
    have none: "ie_familyId env \<notin> se_familyId ` set (idb_sessions db)" using assms(3) by (simp add: fresh_identity_env_def)
    have inv': "sessions_inv (idb_sessions db')"
      unfolding 2(3) using 2(2) none inv by (intro append_session_inv) (auto simp: new_token_def image_iff)
    moreover have "family_state (idb_sessions db')
        = (family_state (idb_sessions db))(ie_familyId env \<mapsto> Open (TokenService_hashRefreshToken cr (ie_refreshToken env)))"
      using append_session_state [OF inv, of "issued_session cr env i (ie_familyId env)"] 2(3) inv' by simp
    ultimately show ?thesis
      using 2 none ids assms(2) family_step.started [of "family_state (idb_sessions db)" "ie_familyId env"]
      by (auto simp: identity_inv_def family_state_None)
  qed
qed

lemma rotate_step:
  assumes run: "IdentityRefreshCommandHandler_rotate cr env h db = Inr (res, db')" and inv: "identity_inv (ie_now env, db)"
  shows "identity_inv (ie_now env, db') \<and> family_step (family_state (idb_sessions db)) (family_state (idb_sessions db'))"
proof -
  have ss: "sessions_inv (idb_sessions db)" using inv by (simp add: identity_inv_def)
  have same: "\<forall>s\<in>set (idb_sessions (used_up (ie_now env) h db)).
      se_createdAt s \<le> ie_now env \<and> se_identityId s \<in> id_id ` set (idb_identities db)"
    using inv unfolding used_up_simps by (intro update_where_all) (auto simp: identity_inv_def)
  show ?thesis using run
  proof (cases rule: rotate_cases)
    case refused
    with inv show ?thesis by (simp add: family_step.unchanged)
  next
    case (orphan s)
    note used = use_session [OF ss orphan(1,2) refl]
    show ?thesis
      using orphan(5) used(2-4) same inv family_step.closed [of "family_state (idb_sessions db)" "se_familyId s"]
      by (auto simp: identity_inv_def)
  next
    case (replaced s i)
    let ?ss = "update_where (consumable (ie_now env) h) (mark_used (ie_now env)) (idb_sessions db)"
    let ?n = "issued_session cr env (id_id i) (se_familyId s)"
    note used = use_session [OF ss replaced(1,2) refl]
    from findById_Some [OF replaced(3)] have i: "i \<in> set (idb_identities db)" "id_id i = se_identityId s" by auto
    have db': "idb_sessions db' = ?ss @ [?n]" "idb_identities db' = idb_identities db"
      using replaced(6) by simp_all
    have inv': "sessions_inv (?ss @ [?n])"
      using replaced(4) used(2,5) i by (intro append_session_inv) (auto simp: new_token_def)
    moreover have "family_state (?ss @ [?n]) = (family_state (idb_sessions db))
        (se_familyId s \<mapsto> Open (TokenService_hashRefreshToken cr (ie_refreshToken env)))"
      using append_session_state [OF used(2) inv'] used(4) by simp
    moreover have "se_identityId s \<in> id_id ` set (idb_identities db)"
      using inv replaced(1) by (auto simp: identity_inv_def)
    ultimately show ?thesis
      using db' same inv i(2) family_step.rotated [of "family_state (idb_sessions db)" "se_familyId s", OF used(3)]
      by (auto simp: identity_inv_def)
  qed
qed

lemma revoke_Inr:
  assumes "IdentitySessionRepository_revokeFamily now f db = Inr (u, db')"
  shows "db' = db\<lparr>idb_sessions := update_where (\<lambda>s. se_familyId s = f \<and> se_revokedAt s = None) (mark_revoked now) (idb_sessions db)\<rparr>"
  using assms by (auto simp: IdentitySessionRepository_revokeFamily_def update_sessions_def split: if_splits)

lemma revoke_step:
  assumes run: "IdentitySessionRepository_revokeFamily now f db = Inr (u, db')" and inv: "identity_inv (now, db)"
  shows "identity_inv (now, db') \<and> family_step (family_state (idb_sessions db)) (family_state (idb_sessions db'))"
proof -
  let ?ss = "update_where (\<lambda>s. se_familyId s = f \<and> se_revokedAt s = None) (mark_revoked now) (idb_sessions db)"
  have db': "idb_sessions db' = ?ss" "idb_identities db' = idb_identities db" using revoke_Inr [OF run] by simp_all
  note revoked = revoke_sessions [OF _ refl, of "idb_sessions db" f now]
  have "\<forall>s\<in>set ?ss. se_createdAt s \<le> now \<and> se_identityId s \<in> id_id ` set (idb_identities db)"
    using inv by (intro update_where_all) (auto simp: identity_inv_def)
  moreover have "family_step (family_state (idb_sessions db)) (family_state ?ss)"
    using revoked(3) inv family_step.closed [of "family_state (idb_sessions db)" f]
    by (auto simp: identity_inv_def intro: family_step.unchanged)
  ultimately show ?thesis using db' revoked(1) inv by (auto simp: identity_inv_def)
qed

lemma delete_identity_simps [simp]:
  "idb_sessions (delete_identity now k db) = idb_sessions db"
  "map id_id (idb_identities (delete_identity now k db)) = map id_id (idb_identities db)"
  "id_id ` set (idb_identities (delete_identity now k db)) = id_id ` set (idb_identities db)"
  by (simp_all add: delete_identity_def map_update_where_key image_update_where_key)

lemma identity_step_sound:
  assumes "identity_step cr st st'" and "identity_inv st"
  shows "identity_inv st' \<and> family_step (family_state (idb_sessions (snd st))) (family_state (idb_sessions (snd st')))"
  using assms
proof (cases rule: identity_step.cases)
  case (tick now now' db)
  with assms(2) show ?thesis by (fastforce simp: identity_inv_def intro: family_step.unchanged)
next
  case (register env now db input res db')
  with opened_step [OF register_execute_opened, of cr env input db res db'] assms(2) show ?thesis by simp
next
  case (login env now db input' res' db')
  with opened_step [OF login_opened, of cr env input' db res' db'] assms(2) show ?thesis by simp
next
  case (external env now db provider a subject email res'' db')
  with opened_step [OF finish_opened, of cr env provider a subject email db res'' db'] assms(2) show ?thesis by simp
next
  case (rotate env now h db rotated db')
  show ?thesis using rotate(4)
  proof (cases rule: transactional_cases)
    case (commit x)
    with rotate(1-3) assms(2) rotate_step [OF commit(1)] show ?thesis by simp
  qed (use rotate(1-3) assms(2) in \<open>simp add: family_step.unchanged\<close>)
next
  case (revoke now f db u db')
  show ?thesis using revoke(3)
  proof (cases rule: transactional_cases)
    case (commit x)
    with revoke(1-2) assms(2) revoke_step [OF commit(1)] show ?thesis by simp
  qed (use revoke(1-2) assms(2) in \<open>simp add: family_step.unchanged\<close>)
next
  case (delete now db k)
  with assms(2) show ?thesis by (simp add: identity_inv_def family_step.unchanged)
next
  case (relay now db out)
  with assms(2) show ?thesis by (simp add: identity_inv_def family_step.unchanged)
qed

lemma identity_history:
  assumes "(identity_step cr)\<^sup>*\<^sup>* st st'" and "identity_inv st"
  shows "identity_inv st' \<and> family_step\<^sup>*\<^sup>* (family_state (idb_sessions (snd st))) (family_state (idb_sessions (snd st')))"
  using assms(1)
proof (induction rule: rtranclp_induct)
  case (step y z)
  with identity_step_sound [OF step(2)] show ?case by (auto intro: rtranclp.rtrancl_into_rtrancl)
qed (use assms(2) in simp)

definition empty_identity_db :: identity_db where
  "empty_identity_db = \<lparr>idb_identities = [], idb_sessions = [], idb_accounts = [], idb_outbox = []\<rparr>"

lemma empty_identity_inv: "identity_inv (now, empty_identity_db)"
  by (simp add: identity_inv_def empty_identity_db_def sessions_inv_def)

lemma count_live_le_1:
  assumes "sessions_inv ss"
  shows "count_where (\<lambda>s. se_familyId s = f \<and> live_session s) ss \<le> 1"
proof -
  let ?A = "se_tokenHash ` {s \<in> set ss. se_familyId s = f \<and> live_session s}"
  have "x = y" if xy: "x \<in> ?A" "y \<in> ?A" for x y
  proof -
    from xy obtain s t where "s \<in> set ss" "t \<in> set ss" "se_familyId s = f" "se_familyId t = f"
      "live_session s" "live_session t" "x = se_tokenHash s" "y = se_tokenHash t" by auto
    then show ?thesis using sessions_invD(3) [OF assms, of s t] by simp
  qed
  moreover have "finite ?A" by simp
  ultimately have "card ?A \<le> Suc 0" by (simp only: card_le_Suc0_iff_eq) blast
  moreover have "distinct (map se_tokenHash ss)" using assms by (simp add: sessions_inv_def)
  ultimately show ?thesis by (simp add: count_where_card)
qed

subsection \<open>A small history\<close>

definition demo_crypto :: "unit crypto" where
  "demo_crypto =
     \<lparr>cr_argon2_hash = (\<lambda>salt pw. ''$argon2'' @ pw), cr_argon2_verify = (\<lambda>h pw. Some (h = ''$argon2'' @ pw)),
      cr_dummyHash = ''$argon2id$'', cr_hmac = (\<lambda>pepper t. t), cr_refreshTokenPepper = ''p'',
      cr_sign = demo_sign, cr_privateKey = (), cr_keyId = ''k''\<rparr>"

definition demo_identity_env :: "time \<Rightarrow> string \<Rightarrow> identity_env" where
  "demo_identity_env now token =
     \<lparr>ie_now = now, ie_identityId = 1, ie_publicId = ''i1'', ie_sessionId = 1, ie_accountId = 1, ie_familyId = ''f1'',
      ie_tokenId = ''t1'', ie_refreshToken = token, ie_salt = ''s''\<rparr>"

definition demo_register :: IdentityRegisterInput where
  "demo_register = \<lparr>ri_email = Value ''a@b.c'', ri_phone = Undefined, ri_password = ''password''\<rparr>"

definition demo_identity :: Identity where
  "demo_identity = new_identity (demo_identity_env 0 ''r1'') (register_identity ''$argon2password'' demo_register)"

definition demo_registered :: identity_db where
  "demo_registered =
     \<lparr>idb_identities = [demo_identity], idb_sessions = [issued_session demo_crypto (demo_identity_env 0 ''r1'') 1 ''f1''],
      idb_accounts = [],
      idb_outbox = [event_outbox_create.extend (IdentityMessageService_toIdentityRegisteredOutbox demo_identity)
        \<lparr>ob_createdAt = 0, ob_publishedAt = None, ob_attempts = 0, ob_lastError = None\<rparr>]\<rparr>"

lemma demo_email: "email_format ''a@b.c''"
  by (simp add: email_format_def email_char_def)

lemma demo_hash [simp]: "TokenService_hashRefreshToken demo_crypto t = t"
  by (simp add: TokenService_hashRefreshToken_def demo_crypto_def)

lemma demo_identity_env_simps [simp]:
  "ie_now (demo_identity_env now t) = now" "ie_identityId (demo_identity_env now t) = 1"
  "ie_publicId (demo_identity_env now t) = ''i1''" "ie_familyId (demo_identity_env now t) = ''f1''"
  "ie_refreshToken (demo_identity_env now t) = t" "ie_tokenId (demo_identity_env now t) = ''t1''"
  by (simp_all add: demo_identity_env_def)

lemma demo_register_execute:
  "IdentityRegisterCommandHandler_execute demo_crypto (demo_identity_env 0 ''r1'') demo_register empty_identity_db
    = (Inr (token_pair demo_crypto (demo_identity_env 0 ''r1'') demo_identity ''f1''), demo_registered)"
proof -
  have "PasswordService_hash demo_crypto (demo_identity_env 0 ''r1'') (ri_password demo_register) = ''$argon2password''"
    by (simp add: PasswordService_hash_def demo_crypto_def demo_register_def)
  moreover have "IdentityRegisterCommandHandler_register demo_crypto (demo_identity_env 0 ''r1'') demo_register
      ''$argon2password'' empty_identity_db
    = Inr (token_pair demo_crypto (demo_identity_env 0 ''r1'') demo_identity ''f1'', demo_registered)"
    using demo_email
    by (simp add: IdentityRegisterCommandHandler_register_def IdentityRepository_create_def empty_identity_db_def
        register_identity_def demo_register_def Identity_fits_def Identity_check_def write_registered_def
        IdentityOutboxRepository_create_def event_insert_def createTokenPair_eq new_token_def demo_registered_def
        demo_identity_def)
  ultimately show ?thesis by (simp add: IdentityRegisterCommandHandler_execute_def)
qed

lemma demo_history: "(identity_step demo_crypto)\<^sup>*\<^sup>* (0, empty_identity_db) (0, demo_registered)"
  by (rule r_into_rtranclp, rule identity_step.register [OF _ _ demo_register_execute])
    (simp_all add: fresh_identity_env_def empty_identity_db_def)

lemma demo_registered_inv: "identity_inv (0, demo_registered)"
  using identity_history [OF demo_history empty_identity_inv] by simp

end
