(* ===== verification/Identity_Safety.thy ===== *)
theory Identity_Safety
  imports Identity_Sessions
begin

section \<open>What the identity service guarantees\<close>

text \<open>
  The theorems on sessions, tokens, login, registration and external sign-in, over the handlers of
  \<open>Identity\<close> and \<open>Identity_Oidc\<close>, with the history of the tables from \<open>Identity_Sessions\<close>.
\<close>

subsection \<open>Families of refresh tokens\<close>

text \<open>
  C8. In every history of the identity service that starts with empty tables, the session table
  implements the abstract machine in which a family is open with one current token or closed for
  good: its state is reached by steps of that machine, a family has at most one live session, all its sessions
  belong to one identity, and once one of them is revoked none is live.
\<close>

theorem identity_refines_families:
  assumes "(identity_step cr)\<^sup>*\<^sup>* (t0, empty_identity_db) (now, db)"
  shows "family_step\<^sup>*\<^sup>* (\<lambda>f. None) (family_state (idb_sessions db))
    \<and> (\<forall>f. count_where (\<lambda>s. se_familyId s = f \<and> live_session s) (idb_sessions db) \<le> 1)
    \<and> (\<forall>s\<in>set (idb_sessions db). \<forall>t\<in>set (idb_sessions db). se_familyId s = se_familyId t \<longrightarrow>
         se_identityId s = se_identityId t \<and> (se_revokedAt s \<noteq> None \<longrightarrow> \<not> live_session t))"
proof -
  from identity_history [OF assms empty_identity_inv]
  have inv: "sessions_inv (idb_sessions db)"
    and steps: "family_step\<^sup>*\<^sup>* (family_state []) (family_state (idb_sessions db))"
    by (simp_all add: identity_inv_def empty_identity_db_def)
  have steps': "family_step\<^sup>*\<^sup>* (\<lambda>f. None) (family_state (idb_sessions db))"
    using steps by simp
  have pair: "se_identityId s = se_identityId t \<and> (se_revokedAt s \<noteq> None \<longrightarrow> \<not> live_session t)"
    if "s \<in> set (idb_sessions db)" "t \<in> set (idb_sessions db)" "se_familyId s = se_familyId t" for s t
    using sessions_invD(1) [OF inv that] sessions_invD(2) [OF inv that(2,1)] that(3) by auto
  show ?thesis by (intro conjI allI ballI impI steps' count_live_le_1 [OF inv]) (use pair in blast)+
qed

theorem identity_refines_families_witness:
  "family_step\<^sup>*\<^sup>* (\<lambda>f. None) (family_state (idb_sessions demo_registered))
    \<and> family_state (idb_sessions demo_registered) ''f1'' = Some (Open ''r1'')"
proof -
  have "family_step\<^sup>*\<^sup>* (\<lambda>f. None) (family_state (idb_sessions demo_registered))"
    using identity_refines_families [OF demo_history] by blast
  then show ?thesis by (simp add: family_state_def demo_registered_def)
qed

subsection \<open>Refreshing\<close>

lemma consumed_created:
  assumes "identity_inv (now, db)"
  shows "\<forall>s\<in>set (idb_sessions db). consumable now h s \<longrightarrow> se_createdAt s \<le> now"
  using assms by (auto simp: identity_inv_def)

lemma find_by_hash:
  assumes "sessions_inv (idb_sessions db)" and "s \<in> set (idb_sessions db)"
  shows "IdentitySessionRepository_findByTokenHash (se_tokenHash s) db = Some s"
  using assms find_row_unique [of se_tokenHash "idb_sessions db" s]
  by (simp add: IdentitySessionRepository_findByTokenHash_def sessions_inv_def)

lemma rotate_outcome:
  assumes inv: "identity_inv (ie_now env, db)" and new: "new_token cr env db"
  shows "IdentityRefreshCommandHandler_rotate cr env h db = Inr (
    case find_row (consumable (ie_now env) h) (idb_sessions db) of
      None \<Rightarrow> (None, db)
    | Some s \<Rightarrow>
        (case IdentityRepository_findById (se_identityId s) db of
           None \<Rightarrow> (None, used_up (ie_now env) h db)
         | Some i \<Rightarrow> (Some (token_pair cr env i (se_familyId s)),
             (used_up (ie_now env) h db)\<lparr>idb_sessions := idb_sessions (used_up (ie_now env) h db)
                @ [issued_session cr env (id_id i) (se_familyId s)]\<rparr>)))"
proof (cases "IdentitySessionRepository_findByTokenHash h db")
  case None
  then have "find_row (consumable (ie_now env) h) (idb_sessions db) = None"
    by (auto simp: IdentitySessionRepository_findByTokenHash_def find_row_None consumable_def)
  with None show ?thesis by (simp add: IdentityRefreshCommandHandler_rotate_def)
next
  case (Some p)
  let ?x = "find_row (consumable (ie_now env) h) (idb_sessions db)"
  have consume: "IdentitySessionRepository_consume (ie_now env) h db
      = Inr (map_option (\<lambda>s. (se_identityId s, se_familyId s)) ?x, used_up (ie_now env) h db)"
    using consumed_created [OF inv] by (simp add: consume_Inr)
  have find: "IdentityRepository_findById k (used_up (ie_now env) h db) = IdentityRepository_findById k db" for k
    by (simp add: IdentityRepository_findById_def)
  have pair: "TokenService_createTokenPair cr env i f (used_up (ie_now env) h db) =
      Inr (token_pair cr env i f, (used_up (ie_now env) h db)
        \<lparr>idb_sessions := idb_sessions (used_up (ie_now env) h db) @ [issued_session cr env (id_id i) f]\<rparr>)"
    if "i \<in> set (idb_identities db)" for i f
    using new that by (auto simp: createTokenPair_eq new_token_def image_update_where_key)
  show ?thesis
  proof (cases ?x)
    case None
    with Some consume not_consumable_used_up [OF None] show ?thesis
      by (simp add: IdentityRefreshCommandHandler_rotate_def)
  next
    case (Some s)
    with \<open>IdentitySessionRepository_findByTokenHash h db = Some p\<close> consume find show ?thesis
      by (auto simp: IdentityRefreshCommandHandler_rotate_def pair dest: findById_Some split: option.splits)
  qed
qed

lemma revoke_outcome:
  assumes "identity_inv (now, db)"
  shows "IdentitySessionRepository_revokeFamily now f db = Inr ((), db\<lparr>idb_sessions :=
    update_where (\<lambda>s. se_familyId s = f \<and> se_revokedAt s = None) (mark_revoked now) (idb_sessions db)\<rparr>)"
proof -
  have "\<not> list_ex (\<lambda>s. (se_familyId s = f \<and> se_revokedAt s = None) \<and> now < se_createdAt s) (idb_sessions db)"
    using assms by (fastforce simp: identity_inv_def list_ex_iff)
  then show ?thesis by (simp add: IdentitySessionRepository_revokeFamily_def update_sessions_def)
qed

text \<open>Revoking a family closes it and, when Redis answers, denies its access tokens.\<close>

lemma revoke_and_deny_outcome:
  assumes inv: "identity_inv (now, db)"
    and run: "revoke_and_deny re now f (IdentitySessionRepository_revokeFamily now) (db, r) = (res, db', r')"
  shows "identity_inv (now, db')" and "f \<in> se_familyId ` set (idb_sessions db) \<Longrightarrow> family_state (idb_sessions db') f = Some Closed"
    and "re_outcome re = RedisAnswers \<Longrightarrow> res = Inr () \<and> r' = redis_set_ex now (toDeniedFamilyKey f) (JStr ''1'') deniedTtlSeconds r"
    and "res = Inr () \<or> res = Inl ServiceUnavailable"
    and "(\<lambda>s. (se_tokenHash s, se_familyId s)) ` set (idb_sessions db') = (\<lambda>s. (se_tokenHash s, se_familyId s)) ` set (idb_sessions db)"
proof -
  let ?ss = "update_where (\<lambda>s. se_familyId s = f \<and> se_revokedAt s = None) (mark_revoked now) (idb_sessions db)"
  have db': "db' = db\<lparr>idb_sessions := ?ss\<rparr>"
    and deny: "AccessTokenDenylistService_denyFamily (re_failOpen re) (re_outcome re) now f r = (res, r')"
    using run by (auto simp: revoke_and_deny_def revoke_outcome [OF inv] split: prod.splits)
  show "identity_inv (now, db')" using revoke_step [OF revoke_outcome [OF inv, of f] inv] db' by simp
  show "family_state (idb_sessions db') f = Some Closed" if "f \<in> se_familyId ` set (idb_sessions db)"
    using revoke_sessions(3) [OF _ refl, of "idb_sessions db" f now] inv that
    by (auto simp: db' identity_inv_def family_state_None)
  show "re_outcome re = RedisAnswers \<Longrightarrow> res = Inr () \<and> r' = redis_set_ex now (toDeniedFamilyKey f) (JStr ''1'') deniedTtlSeconds r"
    "res = Inr () \<or> res = Inl ServiceUnavailable"
    using deny by (cases "re_outcome re"; auto simp: AccessTokenDenylistService_denyFamily_def
        AccessTokenDenylistService_withTimeout_def withRedisTimeout_def split: if_splits)+
  show "(\<lambda>s. (se_tokenHash s, se_familyId s)) ` set (idb_sessions db') = (\<lambda>s. (se_tokenHash s, se_familyId s)) ` set (idb_sessions db)"
    by (simp add: db' image_update_where_key)
qed

lemma revokers [simp]:
  "IdentityRefreshCommandHandler_revokeFamily now = IdentitySessionRepository_revokeFamily now"
  "IdentityLogoutCommandHandler_revokeFamily now = IdentitySessionRepository_revokeFamily now"
  by (simp_all add: fun_eq_iff IdentityRefreshCommandHandler_revokeFamily_def IdentityLogoutCommandHandler_revokeFamily_def)

lemma refresh_execute_success:
  "IdentityRefreshCommandHandler_rotate cr env (TokenService_hashRefreshToken cr tok) db = Inr (Some t, db') \<Longrightarrow>
    IdentityRefreshCommandHandler_execute cr env re tok (db, r) = (Inr t, db', r)"
  by (simp add: IdentityRefreshCommandHandler_execute_def)

text \<open>Without a replacement, a token that is known as used closes its family; nothing else changes.\<close>

lemma refresh_execute_refused:
  assumes "IdentityRefreshCommandHandler_rotate cr env (TokenService_hashRefreshToken cr tok) db = Inr (None, db1)"
    and inv: "identity_inv (ie_now env, db1)"
    and run: "IdentityRefreshCommandHandler_execute cr env re tok (db, r) = (res, db', r')"
  shows "(res = Inl Unauthorized \<or> res = Inl ServiceUnavailable) \<and> identity_inv (ie_now env, db')
    \<and> (\<forall>s. IdentitySessionRepository_findByTokenHash (TokenService_hashRefreshToken cr tok) db1 = Some s \<and> se_usedAt s \<noteq> None
         \<longrightarrow> family_state (idb_sessions db') (se_familyId s) = Some Closed
           \<and> (re_outcome re = RedisAnswers \<longrightarrow> res = Inl Unauthorized
                \<and> r' = redis_set_ex (ie_now env) (toDeniedFamilyKey (se_familyId s)) (JStr ''1'') deniedTtlSeconds r))"
proof (cases "IdentitySessionRepository_findByTokenHash (TokenService_hashRefreshToken cr tok) db1")
  case None
  with assms(1,2) run show ?thesis by (auto simp: IdentityRefreshCommandHandler_execute_def)
next
  case (Some s)
  show ?thesis
  proof (cases "se_usedAt s")
    case None
    with Some assms(1,2) run show ?thesis by (auto simp: IdentityRefreshCommandHandler_execute_def)
  next
    case used: (Some u)
    obtain res1 where rad: "revoke_and_deny re (ie_now env) (se_familyId s)
        (IdentitySessionRepository_revokeFamily (ie_now env)) (db1, r) = (res1, db', r')"
      and res: "res = (case res1 of Inl e \<Rightarrow> Inl e | Inr _ \<Rightarrow> Inl Unauthorized)"
      using Some used assms(1) run
      by (auto simp: IdentityRefreshCommandHandler_execute_def split: sum.splits prod.splits)
    have "se_familyId s \<in> se_familyId ` set (idb_sessions db1)"
      using Some by (auto simp: IdentitySessionRepository_findByTokenHash_def dest: find_row_Some)
    with revoke_and_deny_outcome [OF inv rad] res Some show ?thesis by auto
  qed
qed

lemma consumable_unique:
  assumes "sessions_inv ss" and "s \<in> set ss" and "consumable now h s"
  shows "find_row (consumable now h) ss = Some s"
proof (cases "find_row (consumable now h) ss")
  case None
  with assms show ?thesis by (auto simp: find_row_None)
next
  case (Some t)
  note t = find_row_Some [OF Some]
  have "distinct (map se_tokenHash ss)" using assms(1) by (simp add: sessions_inv_def)
  then have "t = s"
    by (rule distinct_key_eq) (use t assms(2,3) in \<open>auto simp: consumable_def\<close>)
  with Some show ?thesis by simp
qed

text \<open>
  C26. A refresh with a fresh random token succeeds exactly when the presented token is the current one of
  its family, neither used, revoked nor expired, and its identity is not deleted; it then returns
  tokens of the same family, the presented token is spent and the new one is current. A refusal says
  Unauthorized, or that Redis could not record a revocation.
\<close>

theorem refresh_rotates:
  assumes "identity_inv (ie_now env, db)" and "new_token cr env db"
    and "IdentityRefreshCommandHandler_execute cr env re refreshToken (db, r) = (res, db', r')"
  shows "((\<exists>t. res = Inr t) \<longleftrightarrow>
       (\<exists>s\<in>set (idb_sessions db). consumable (ie_now env) (TokenService_hashRefreshToken cr refreshToken) s
          \<and> IdentityRepository_findById (se_identityId s) db \<noteq> None))
    \<and> (\<forall>t. res = Inr t \<longrightarrow> (\<exists>s i. s \<in> set (idb_sessions db)
          \<and> IdentityRepository_findById (se_identityId s) db = Some i \<and> t = token_pair cr env i (se_familyId s)
          \<and> family_state (idb_sessions db) (se_familyId s) = Some (Open (TokenService_hashRefreshToken cr refreshToken))
          \<and> family_state (idb_sessions db') =
              (family_state (idb_sessions db))(se_familyId s \<mapsto> Open (TokenService_hashRefreshToken cr (tr_refreshToken t)))))
    \<and> (\<forall>e. res = Inl e \<longrightarrow> e = Unauthorized \<or> e = ServiceUnavailable)"
proof -
  let ?h = "TokenService_hashRefreshToken cr refreshToken"
  let ?find = "find_row (consumable (ie_now env) ?h) (idb_sessions db)"
  have ss: "sessions_inv (idb_sessions db)" using assms(1) by (simp add: identity_inv_def)
  note run = rotate_outcome [OF assms(1,2), of ?h]
  show ?thesis
  proof (cases "\<exists>s i. ?find = Some s \<and> IdentityRepository_findById (se_identityId s) db = Some i")
    case True
    then obtain s i where si: "?find = Some s" "IdentityRepository_findById (se_identityId s) db = Some i" by blast
    note s = find_row_Some [OF si(1)]
    let ?db = "(used_up (ie_now env) ?h db)\<lparr>idb_sessions := idb_sessions (used_up (ie_now env) ?h db)
        @ [issued_session cr env (id_id i) (se_familyId s)]\<rparr>"
    have rot: "IdentityRefreshCommandHandler_rotate cr env ?h db = Inr (Some (token_pair cr env i (se_familyId s)), ?db)"
      using run si by simp
    have out: "res = Inr (token_pair cr env i (se_familyId s))" "db' = ?db"
      using refresh_execute_success [OF rot] assms(3) by auto
    note used = use_session [OF ss conjunct1 [OF s] conjunct2 [OF s] refl]
    have "sessions_inv (idb_sessions ?db)" using rotate_step [OF rot assms(1)] by (simp add: identity_inv_def)
    then have "family_state (idb_sessions db') =
        (family_state (idb_sessions db))(se_familyId s \<mapsto> Open (TokenService_hashRefreshToken cr (ie_refreshToken env)))"
      using append_session_state [OF used(2)] used(4) out(2) by simp
    with s si(2) out(1) used(3) show ?thesis by (auto simp: token_pair_def)
  next
    case False
    then obtain db1 where rot: "IdentityRefreshCommandHandler_rotate cr env ?h db = Inr (None, db1)"
      using run by (auto split: option.splits)
    have inv1: "identity_inv (ie_now env, db1)" using rotate_step [OF rot assms(1)] by simp
    have "res = Inl Unauthorized \<or> res = Inl ServiceUnavailable"
      using refresh_execute_refused [OF rot inv1 assms(3)] by blast
    moreover have "\<not> (\<exists>s\<in>set (idb_sessions db). consumable (ie_now env) ?h s \<and> IdentityRepository_findById (se_identityId s) db \<noteq> None)"
      using False consumable_unique [OF ss] by blast
    ultimately show ?thesis by auto
  qed
qed

definition demo_redis_env :: redis_env where
  "demo_redis_env = \<lparr>re_failOpen = False, re_outcome = RedisAnswers\<rparr>"

lemma demo_new_token: "new_token demo_crypto (demo_identity_env 0 ''r2'') demo_registered"
  by (simp add: new_token_def demo_registered_def)

theorem refresh_rotates_witness:
  "\<exists>t. fst (IdentityRefreshCommandHandler_execute demo_crypto (demo_identity_env 0 ''r2'') demo_redis_env ''r1''
      (demo_registered, Map.empty)) = Inr t"
proof -
  obtain res db' r' where run: "IdentityRefreshCommandHandler_execute demo_crypto (demo_identity_env 0 ''r2'') demo_redis_env ''r1''
      (demo_registered, Map.empty) = (res, db', r')" by (cases "IdentityRefreshCommandHandler_execute demo_crypto
      (demo_identity_env 0 ''r2'') demo_redis_env ''r1'' (demo_registered, Map.empty)") auto
  have inv: "identity_inv (ie_now (demo_identity_env 0 ''r2''), demo_registered)"
    using demo_registered_inv by simp
  have "\<exists>s\<in>set (idb_sessions demo_registered). consumable 0 ''r1'' s
      \<and> IdentityRepository_findById (se_identityId s) demo_registered \<noteq> None"
    by (simp add: demo_registered_def consumable_def issued_session_def new_session_def identity_session_create.defs
        REFRESH_TOKEN_TTL_MS_def IdentityRepository_findById_def demo_identity_def)
  with refresh_rotates [OF inv demo_new_token run] run show ?thesis by simp
qed

subsection \<open>Reuse and logout\<close>

lemma rotate_not_consumable:
  assumes "find_row (consumable (ie_now env) h) (idb_sessions db) = None"
  shows "IdentityRefreshCommandHandler_rotate cr env h db = Inr (None, db)"
proof -
  have "IdentitySessionRepository_consume (ie_now env) h db = Inr (None, db)"
    using assms not_consumable_used_up [OF assms] by (simp add: consume_Inr find_row_None)
  then show ?thesis by (simp add: IdentityRefreshCommandHandler_rotate_def split: option.splits)
qed

lemma spent_not_consumable:
  assumes "sessions_inv ss" and "s \<in> set ss" and "\<not> live_session s"
  shows "find_row (consumable now (se_tokenHash s)) ss = None"
proof (rule ccontr)
  assume "find_row (consumable now (se_tokenHash s)) ss \<noteq> None"
  then obtain t where t: "t \<in> set ss" "consumable now (se_tokenHash s) t" by (auto dest: find_row_Some)
  have "distinct (map se_tokenHash ss)" using assms(1) by (simp add: sessions_inv_def)
  then have "t = s" by (rule distinct_key_eq) (use t assms(2) in \<open>auto simp: consumable_def\<close>)
  with t(2) assms(3) show False by (simp add: consumable_def live_session_def)
qed

lemma closed_forever:
  assumes "(identity_step cr)\<^sup>*\<^sup>* (now, db) (now', db')" and "identity_inv (now, db)"
    and "family_state (idb_sessions db) f = Some Closed"
  shows "identity_inv (now', db')" and "family_state (idb_sessions db') f = Some Closed"
  using identity_history [OF assms(1,2)] closed_stays_closed assms(3) by auto

lemma closed_refused:
  assumes inv: "identity_inv (ie_now env, db)" and "family_state (idb_sessions db) f = Some Closed"
    and s: "s \<in> set (idb_sessions db)" "se_familyId s = f" "se_tokenHash s = TokenService_hashRefreshToken cr tok"
  shows "\<exists>e. fst (IdentityRefreshCommandHandler_execute cr env re tok (db, r)) = Inl e"
proof -
  obtain res db' r' where run: "IdentityRefreshCommandHandler_execute cr env re tok (db, r) = (res, db', r')"
    by (metis prod.exhaust)
  have "sessions_inv (idb_sessions db)" "\<not> live_session s"
    using inv s(1,2) assms(2) by (auto simp: identity_inv_def family_state_Closed)
  from spent_not_consumable [OF this(1) s(1) this(2), of "ie_now env"]
  have "IdentityRefreshCommandHandler_rotate cr env (TokenService_hashRefreshToken cr tok) db = Inr (None, db)"
    unfolding s(3) by (rule rotate_not_consumable)
  from refresh_execute_refused [OF this inv run] run show ?thesis by auto
qed

text \<open>
  C27. Presenting a refresh token that was already used is refused, closes its family, and the family
  stays closed in every later state; when Redis answers, the answer is Unauthorized and the access
  tokens of the family are denied from now on for their whole lifetime.
\<close>

theorem refresh_reuse_closes_family:
  assumes "identity_inv (ie_now env, db)" and "s \<in> set (idb_sessions db)"
    and "se_tokenHash s = TokenService_hashRefreshToken cr refreshToken" and "se_usedAt s \<noteq> None"
    and "IdentityRefreshCommandHandler_execute cr env re refreshToken (db, r) = (res, db', r')"
    and "(identity_step cr)\<^sup>*\<^sup>* (ie_now env, db') (now, db'')"
  shows "(res = Inl Unauthorized \<or> res = Inl ServiceUnavailable)
    \<and> family_state (idb_sessions db'') (se_familyId s) = Some Closed
    \<and> (re_outcome re = RedisAnswers \<longrightarrow> res = Inl Unauthorized
         \<and> (\<forall>t \<le> ie_now env + (900 + 5) * 1000. family_denied t (se_familyId s) r'))"
proof -
  have ss: "sessions_inv (idb_sessions db)" using assms(1) by (simp add: identity_inv_def)
  have found: "IdentitySessionRepository_findByTokenHash (TokenService_hashRefreshToken cr refreshToken) db = Some s"
    using find_by_hash [OF ss assms(2)] assms(3) by simp
  have "\<not> live_session s" using assms(4) by (simp add: live_session_def)
  from spent_not_consumable [OF ss assms(2) this, of "ie_now env"]
  have "find_row (consumable (ie_now env) (TokenService_hashRefreshToken cr refreshToken)) (idb_sessions db) = None"
    unfolding assms(3) .
  from refresh_execute_refused [OF rotate_not_consumable [OF this] assms(1,5)]
  have out: "res = Inl Unauthorized \<or> res = Inl ServiceUnavailable" "identity_inv (ie_now env, db')"
    "family_state (idb_sessions db') (se_familyId s) = Some Closed"
    "re_outcome re = RedisAnswers \<longrightarrow> res = Inl Unauthorized
       \<and> r' = redis_set_ex (ie_now env) (toDeniedFamilyKey (se_familyId s)) (JStr ''1'') deniedTtlSeconds r"
    using found assms(4) by auto
  have "re_outcome re = RedisAnswers \<longrightarrow> (\<forall>t \<le> ie_now env + (900 + 5) * 1000. family_denied t (se_familyId s) r')"
    using out(4) by (auto simp: family_denied_def redis_get_def redis_set_ex_def deniedTtlSeconds_def
        ACCESS_TOKEN_TTL_SECONDS_def ACCESS_TOKEN_CLOCK_TOLERANCE_SECONDS_def)
  with out closed_forever(2) [OF assms(6) out(2,3)] show ?thesis by blast
qed

definition demo_spent :: identity_db where
  "demo_spent = demo_registered\<lparr>idb_sessions := [mark_used 0 (issued_session demo_crypto (demo_identity_env 0 ''r1'') 1 ''f1'')]\<rparr>"

lemma demo_spent_inv: "identity_inv (0, demo_spent)"
  by (simp add: identity_inv_def demo_spent_def sessions_inv_def demo_registered_def demo_identity_def)

theorem refresh_reuse_closes_family_witness:
  "\<exists>res db' r'. IdentityRefreshCommandHandler_execute demo_crypto (demo_identity_env 0 ''r2'') demo_redis_env ''r1''
      (demo_spent, Map.empty) = (res, db', r') \<and> res = Inl Unauthorized
    \<and> family_state (idb_sessions db') ''f1'' = Some Closed \<and> family_denied 905000 ''f1'' r'"
proof -
  obtain res db' r' where run: "IdentityRefreshCommandHandler_execute demo_crypto (demo_identity_env 0 ''r2'') demo_redis_env ''r1''
      (demo_spent, Map.empty) = (res, db', r')" by (metis prod.exhaust)
  have inv: "identity_inv (ie_now (demo_identity_env 0 ''r2''), demo_spent)" using demo_spent_inv by simp
  have "res = Inl Unauthorized \<and> family_state (idb_sessions db') ''f1'' = Some Closed \<and> family_denied 905000 ''f1'' r'"
    using refresh_reuse_closes_family [OF inv, of "mark_used 0 (issued_session demo_crypto (demo_identity_env 0 ''r1'') 1 ''f1'')"
        demo_crypto "''r1''", OF _ _ _ run rtranclp.rtrancl_refl]
    by (simp add: demo_spent_def demo_redis_env_def)
  with run show ?thesis by blast
qed

text \<open>No step removes a session or moves it to another family.\<close>

definition session_keys :: "identity_db \<Rightarrow> (string \<times> uuid) set" where
  "session_keys db = (\<lambda>s. (se_tokenHash s, se_familyId s)) ` set (idb_sessions db)"

lemma rotate_keys:
  assumes "IdentityRefreshCommandHandler_rotate cr env h db = Inr (res, db')"
  shows "session_keys db \<subseteq> session_keys db'"
  using assms by (cases rule: rotate_cases) (auto simp: session_keys_def image_update_where_key)

lemma identity_step_keys:
  assumes "identity_step cr st st'"
  shows "session_keys (snd st) \<subseteq> session_keys (snd st')"
  using assms
proof (cases rule: identity_step.cases)
  case (rotate env now h db rotated db')
  show ?thesis using rotate(4)
    by (cases rule: transactional_cases) (use rotate(1,2) in \<open>simp_all add: rotate_keys\<close>)
next
  case (revoke now f db u db')
  show ?thesis using revoke(3)
    by (cases rule: transactional_cases)
      (use revoke(1,2) in \<open>auto simp: session_keys_def image_update_where_key dest!: revoke_Inr\<close>)
qed (auto simp: session_keys_def opened_def dest!: register_execute_opened login_opened finish_opened)

lemma identity_keys_grow: "(identity_step cr)\<^sup>*\<^sup>* st st' \<Longrightarrow> session_keys (snd st) \<subseteq> session_keys (snd st')"
  by (induction rule: rtranclp_induct) (use identity_step_keys in blast)+

text \<open>
  C28. After a logout that was answered without an error, in every later state of the service the
  refresh token it was given is still known as one of its family, and every refresh token of this family is refused.
\<close>

theorem logout_ends_family:
  assumes "identity_inv (ie_now env, db)" and "s \<in> set (idb_sessions db)"
    and "se_tokenHash s = TokenService_hashRefreshToken cr refreshToken"
    and "IdentityLogoutCommandHandler_execute cr env re refreshToken (db, r) = (Inr u, db', r')"
    and "(identity_step cr)\<^sup>*\<^sup>* (ie_now env, db') (ie_now env', db'')"
    and "s' \<in> set (idb_sessions db'')" and "se_familyId s' = se_familyId s"
    and "se_tokenHash s' = TokenService_hashRefreshToken cr other"
  shows "(\<exists>e. fst (IdentityRefreshCommandHandler_execute cr env' re' other (db'', r'')) = Inl e)
    \<and> (TokenService_hashRefreshToken cr refreshToken, se_familyId s) \<in> session_keys db''"
proof
  have "(TokenService_hashRefreshToken cr refreshToken, se_familyId s) \<in> session_keys db"
    using assms(2,3) by (force simp: session_keys_def)
  then have "(TokenService_hashRefreshToken cr refreshToken, se_familyId s) \<in> session_keys db'"
    using assms(4) revoke_and_deny_outcome(5) [OF assms(1), of re "se_familyId s" r]
      find_by_hash [of db s] assms(1-3)
    by (simp add: IdentityLogoutCommandHandler_execute_def session_keys_def identity_inv_def)
  with identity_keys_grow [OF assms(5)] show "(TokenService_hashRefreshToken cr refreshToken, se_familyId s) \<in> session_keys db''"
    by auto
next
  have ss: "sessions_inv (idb_sessions db)" using assms(1) by (simp add: identity_inv_def)
  have "revoke_and_deny re (ie_now env) (se_familyId s) (IdentitySessionRepository_revokeFamily (ie_now env)) (db, r)
      = (Inr u, db', r')"
    using assms(4) find_by_hash [OF ss assms(2)] assms(3) by (simp add: IdentityLogoutCommandHandler_execute_def)
  from revoke_and_deny_outcome [OF assms(1) this] assms(2)
  have "identity_inv (ie_now env, db')" "family_state (idb_sessions db') (se_familyId s) = Some Closed" by auto
  from closed_forever [OF assms(5) this]
  show "\<exists>e. fst (IdentityRefreshCommandHandler_execute cr env' re' other (db'', r'')) = Inl e"
    by (rule closed_refused) (use assms(6-8) in auto)
qed

lemma demo_logout:
  "\<exists>db' r'. IdentityLogoutCommandHandler_execute demo_crypto (demo_identity_env 0 ''r2'') demo_redis_env ''r1''
      (demo_registered, Map.empty) = (Inr (), db', r')
    \<and> idb_sessions db' = [mark_revoked 0 (issued_session demo_crypto (demo_identity_env 0 ''r1'') 1 ''f1'')]"
  by (simp add: IdentityLogoutCommandHandler_execute_def IdentitySessionRepository_findByTokenHash_def demo_registered_def
      revoke_and_deny_def IdentitySessionRepository_revokeFamily_def update_sessions_def demo_redis_env_def
      AccessTokenDenylistService_denyFamily_def AccessTokenDenylistService_withTimeout_def withRedisTimeout_def
      issued_session_def)

theorem logout_ends_family_witness:
  "\<exists>db' r'. IdentityLogoutCommandHandler_execute demo_crypto (demo_identity_env 0 ''r2'') demo_redis_env ''r1''
      (demo_registered, Map.empty) = (Inr (), db', r')
    \<and> (\<exists>e. fst (IdentityRefreshCommandHandler_execute demo_crypto (demo_identity_env 0 ''r2'') demo_redis_env ''r1'' (db', r')) = Inl e)"
proof -
  from demo_logout obtain db' r' where
    run: "IdentityLogoutCommandHandler_execute demo_crypto (demo_identity_env 0 ''r2'') demo_redis_env ''r1''
      (demo_registered, Map.empty) = (Inr (), db', r')"
    and ss: "idb_sessions db' = [mark_revoked 0 (issued_session demo_crypto (demo_identity_env 0 ''r1'') 1 ''f1'')]" by blast
  have inv: "identity_inv (ie_now (demo_identity_env 0 ''r2''), demo_registered)" using demo_registered_inv by simp
  have "\<exists>e. fst (IdentityRefreshCommandHandler_execute demo_crypto (demo_identity_env 0 ''r2'') demo_redis_env ''r1'' (db', r')) = Inl e"
    using logout_ends_family [OF inv _ _ run rtranclp.rtrancl_refl,
          of "issued_session demo_crypto (demo_identity_env 0 ''r1'') 1 ''f1''"
             "mark_revoked 0 (issued_session demo_crypto (demo_identity_env 0 ''r1'') 1 ''f1'')" "''r1''"]
    by (simp add: ss demo_registered_def)
  with run show ?thesis by blast
qed

subsection \<open>Access tokens\<close>

definition identity_claims :: "identity_env \<Rightarrow> Identity \<Rightarrow> uuid \<Rightarrow> AccessTokenClaims" where
  "identity_claims env i f =
     \<lparr>ac_identityPublicId = id_publicId i, ac_tokenId = ie_tokenId env, ac_familyId = f, ac_role = id_role i,
      ac_email = id_email i, ac_phoneNumber = lp_fullNumber (id_loginPhone i)\<rparr>"

lemma access_payload_fields:
  "jfield (Some (access_payload env i f)) ''sub'' = Some (JStr (id_publicId i))"
  "jfield (Some (access_payload env i f)) ''jti'' = Some (JStr (ie_tokenId env))"
  "jfield (Some (access_payload env i f)) ''sid'' = Some (JStr f)"
  "jfield (Some (access_payload env i f)) ''role'' = Some (JStr (role_value (id_role i)))"
  "jfield (Some (access_payload env i f)) ''iss'' = Some (JStr ACCESS_TOKEN_ISSUER)"
  "jfield (Some (access_payload env i f)) ''iat'' = Some (JNum (of_int (ie_now env div 1000)))"
  "jfield (Some (access_payload env i f)) ''exp'' = Some (JNum (of_int (ie_now env div 1000 + ACCESS_TOKEN_TTL_SECONDS)))"
  "jfield (Some (access_payload env i f)) ''email'' = map_option JStr (id_email i)"
  "jfield (Some (access_payload env i f)) ''phone_number'' = map_option JStr (lp_fullNumber (id_loginPhone i))"
  by (cases "id_email i"; cases "lp_fullNumber (id_loginPhone i)"; simp add: access_payload_def)+

lemma access_payload_schema:
  "accessTokenPayloadSchema zUuid (access_payload env i f) =
     (if zUuid (id_publicId i) \<and> zUuid (ie_tokenId env) \<and> zUuid f then Some (identity_claims env i f) else None)"
  by (cases "id_email i"; cases "lp_fullNumber (id_loginPhone i)")
    (simp_all add: accessTokenPayloadSchema_def access_payload_fields schema_uuid_def schema_optional_string_def
      identity_claims_def)

definition unexpired :: "identity_env \<Rightarrow> time \<Rightarrow> bool" where
  "unexpired env now \<longleftrightarrow> now div 1000 < ie_now env div 1000 + (900 + 5)"

lemma access_payload_valid:
  "claims_valid AccessTokenVerifierService_options now (access_payload env i f) \<longleftrightarrow> unexpired env now"
proof -
  have "(of_int (now div 1000 - 5) < (of_int (ie_now env div 1000 + 900) :: rat)) \<longleftrightarrow> unexpired env now"
    unfolding of_int_less_iff unexpired_def by linarith
  then show ?thesis
    by (simp add: claims_valid_def access_payload_fields AccessTokenVerifierService_options_def
        ACCESS_TOKEN_TTL_SECONDS_def ACCESS_TOKEN_CLOCK_TOLERANCE_SECONDS_def)
qed

lemma jwtVerify_access:
  assumes "jwtVerify_documented (cr_sign cr) jwtVerify trusts"
    and "jwtVerify keys AccessTokenVerifierService_options now (access_token cr env i f) = Some p"
  shows "p = access_payload env i f" and "unexpired env now"
proof -
  show p: "p = access_payload env i f"
    using assms unfolding jwtVerify_documented_def access_token_def by blast
  from assms have "claims_valid AccessTokenVerifierService_options now p"
    by (simp add: jwtVerify_documented_def)
  then show "unexpired env now" by (simp add: p access_payload_valid)
qed

text \<open>
  C29. An access token carries its identity to the guards and back: signed with a trusted key, it is
  accepted exactly while it has not expired (fifteen minutes and the tolerance of five seconds) and
  its family passes the denylist, and the claims are then those of the identity it was issued to.
\<close>

theorem access_token_roundtrip:
  assumes "jwtVerify_documented (cr_sign cr) jwtVerify trusts"
    and "trusts (ae_keys ae) (cr_keyId cr) (cr_privateKey cr)"
    and "zUuid (id_publicId i)" and "zUuid (ie_tokenId env)" and "zUuid f"
  shows "AccessTokenVerifierService_verify jwtVerify zUuid ae (tr_accessToken (token_pair cr env i f)) = Inr claims \<longleftrightarrow>
    claims = identity_claims env i f \<and> ae_now ae div 1000 < ie_now env div 1000 + (900 + 5) \<and> denylist_passes ae f"
proof -
  have "jwtVerify (ae_keys ae) AccessTokenVerifierService_options (ae_now ae) (access_token cr env i f)
      = (if unexpired env (ae_now ae) then Some (access_payload env i f) else None)"
  proof (cases "jwtVerify (ae_keys ae) AccessTokenVerifierService_options (ae_now ae) (access_token cr env i f)")
    case None
    have "\<not> unexpired env (ae_now ae)"
    proof
      assume "unexpired env (ae_now ae)"
      then have "claims_valid AccessTokenVerifierService_options (ae_now ae) (access_payload env i f)"
        by (simp add: access_payload_valid)
      moreover have "ACCESS_TOKEN_ALGORITHM \<in> set (vo_algorithms AccessTokenVerifierService_options)"
        by (simp add: AccessTokenVerifierService_options_def)
      ultimately show False
        using assms(1,2) None unfolding jwtVerify_documented_def access_token_def by (metis jwt_header.select_convs(1,2) option.distinct(1))
    qed
    with None show ?thesis by simp
  next
    case (Some p)
    with jwtVerify_access [OF assms(1) Some] show ?thesis by simp
  qed
  then show ?thesis
    using assms(3-5)
    by (auto simp: verify_Inr token_pair_def access_payload_schema unexpired_def identity_claims_def)
qed

theorem access_token_roundtrip_witness:
  "AccessTokenVerifierService_verify demo_jwtVerify (\<lambda>s. s \<noteq> []) demo_auth_env
     (tr_accessToken (token_pair demo_crypto (demo_identity_env 0 ''r1'') demo_identity ''f1''))
   = Inr (identity_claims (demo_identity_env 0 ''r1'') demo_identity ''f1'')"
proof -
  have "jwtVerify_documented (cr_sign demo_crypto) demo_jwtVerify demo_trusts"
    using demo_jose by (simp add: demo_crypto_def)
  from access_token_roundtrip [OF this, where ae = demo_auth_env and i = demo_identity
      and env = "demo_identity_env 0 ''r1''" and f = "''f1''" and zUuid = "\<lambda>s. s \<noteq> []"]
  show ?thesis by (simp add: demo_trusts_def demo_auth_env_def denylist_passes_def family_denied_def redis_get_def
      demo_identity_def)
qed

text \<open>
  Once a family was denied, no access token that was issued for it by then is ever accepted
  again: the entry of the denylist outlives every such token, to the millisecond. If Redis cannot be asked,
  this holds unless the service is configured to fail open.
\<close>

theorem denied_family_never_accepted:
  assumes "jwtVerify_documented (cr_sign cr) jwtVerify trusts"
    and "AccessTokenDenylistService_denyFamily failOpen RedisAnswers now f r = (res, r')"
    and "ie_now env \<le> now" and "ae_redis ae (toDeniedFamilyKey f) = r' (toDeniedFamilyKey f)"
    and "ae_outcome ae = RedisAnswers \<or> \<not> ae_failOpen ae"
  shows "\<exists>e. AccessTokenVerifierService_verify jwtVerify zUuid ae (access_token cr env i f) = Inl e"
proof (rule ccontr)
  assume "\<not> ?thesis"
  then obtain claims where "AccessTokenVerifierService_verify jwtVerify zUuid ae (access_token cr env i f) = Inr claims"
    by (cases "AccessTokenVerifierService_verify jwtVerify zUuid ae (access_token cr env i f)") auto
  then obtain p where p: "jwtVerify (ae_keys ae) AccessTokenVerifierService_options (ae_now ae) (access_token cr env i f) = Some p"
      "accessTokenPayloadSchema zUuid p = Some claims" and passes: "denylist_passes ae (ac_familyId claims)"
    by (auto simp: verify_Inr)
  note payload = jwtVerify_access [OF assms(1) p(1)]
  have "ac_familyId claims = f"
    using p(2) by (auto simp: payload(1) access_payload_schema identity_claims_def split: if_splits)
  with passes assms(5) have "\<not> family_denied (ae_now ae) f (ae_redis ae)"
    by (auto simp: denylist_passes_def split: if_splits)
  moreover
  have "ae_now ae \<le> now + deniedTtlSeconds * 1000"
    using payload(2) assms(3)
    by (simp add: unexpired_def deniedTtlSeconds_def ACCESS_TOKEN_TTL_SECONDS_def ACCESS_TOKEN_CLOCK_TOLERANCE_SECONDS_def)
  then have "family_denied (ae_now ae) f r'" by (rule denyFamily_lasts [OF assms(2)])
  ultimately show False using assms(4) by (simp add: family_denied_def redis_get_def)
qed

theorem denied_family_never_accepted_witness:
  "\<exists>e. AccessTokenVerifierService_verify demo_jwtVerify (\<lambda>s. s \<noteq> [])
     (demo_auth_env\<lparr>ae_redis := redis_set_ex 0 (toDeniedFamilyKey ''f1'') (JStr ''1'') deniedTtlSeconds Map.empty\<rparr>)
     (access_token demo_crypto (demo_identity_env 0 ''r1'') demo_identity ''f1'') = Inl e"
proof (rule denied_family_never_accepted [where now = 0 and failOpen = False and r = Map.empty])
  show "jwtVerify_documented (cr_sign demo_crypto) demo_jwtVerify demo_trusts"
    using demo_jose by (simp add: demo_crypto_def)
  show "AccessTokenDenylistService_denyFamily False RedisAnswers 0 ''f1'' Map.empty =
      (Inr (), redis_set_ex 0 (toDeniedFamilyKey ''f1'') (JStr ''1'') deniedTtlSeconds Map.empty)"
    by (simp add: AccessTokenDenylistService_denyFamily_def AccessTokenDenylistService_withTimeout_def withRedisTimeout_def)
qed (simp_all add: demo_auth_env_def)

end
