(* ===== verification/Identity_Entry.thy ===== *)
theory Identity_Entry
  imports Identity_Safety
begin

section \<open>Ways into an account\<close>

text \<open>
  Login with a password, registration, and sign-in through an external provider: when each succeeds,
  what it writes, and what it can never do.
\<close>

subsection \<open>Login\<close>


lemma createTokenPair_runs:
  "new_token cr env db \<Longrightarrow> id_id i \<in> id_id ` set (idb_identities db) \<Longrightarrow>
   TokenService_createTokenPair cr env i f db =
     Inr (token_pair cr env i f, db\<lparr>idb_sessions := idb_sessions db @ [issued_session cr env (id_id i) f]\<rparr>)"
  by (simp add: createTokenPair_eq)



























subsection \<open>Registration\<close>

definition registration_succeeds :: "'key crypto \<Rightarrow> identity_env \<Rightarrow> IdentityRegisterInput \<Rightarrow> identity_db \<Rightarrow> bool" where
  "registration_succeeds cr env input db \<longleftrightarrow>
     (\<forall>j\<in>set (idb_identities db). \<not> identity_clash (register_identity (PasswordService_hash cr env (ri_password input)) input) j)"

text \<open>
  Which of the rows that the validation lets through the table accepts. Two it does not: a request with neither an
  email nor a phone number, which passes when \<open>phone\<close> is present as \<open>null\<close>, and an email that
  \<open>isEmail\<close> allows and \<open>Identity_email_format\<close> does not, such as one with a quoted local part.
\<close>

definition storable :: "IdentityRegisterInput \<Rightarrow> bool" where
  "storable input \<longleftrightarrow> (coalesce (ri_email input) \<noteq> None \<or> coalesce (ri_phone input) \<noteq> None)
     \<and> nullable email_format (coalesce (ri_email input))"

lemma valid_register_row:
  assumes "IdentityRegisterInput_valid isEmail input" and "length h \<le> 255"
  shows "Identity_fits (register_identity h input)" and "Identity_check (register_identity h input) \<longleftrightarrow> storable input"
  using assms
  by (cases "ri_email input"; cases "ri_phone input"; auto simp: IdentityRegisterInput_valid_def storable_def
      IdentityRegisterPhoneInput_valid_def Identity_fits_def Identity_check_def register_identity_def)+

text \<open>
  C32. Every outcome of a valid registration. A row that the table does not accept, for want of an email and a phone number or
  for an email of another form, ends in a server error; an email or a phone number that another
  identity has, emails compared without regard to case, in a Conflict; both change nothing. Otherwise there is one new identity with
  the role user, one registration event with its data, one session, and tokens for it. The ids are
  fresh, and a password hash fits its column.
\<close>

theorem register_decision:
  assumes "IdentityRegisterInput_valid isEmail input"
    and "length (PasswordService_hash cr env (ri_password input)) \<le> 255"
    and "new_token cr env db" and "ie_publicId env \<notin> id_publicId ` set (idb_identities db)"
    and "ie_publicId env \<notin> ob_id ` set (idb_outbox db)"
    and "i = new_identity env (register_identity (PasswordService_hash cr env (ri_password input)) input)"
  shows "IdentityRegisterCommandHandler_execute cr env input db =
    (if \<not> storable input then (Inl (ServerError CheckViolation), db)
     else if registration_succeeds cr env input db
     then (Inr (token_pair cr env i (ie_familyId env)),
           db\<lparr>idb_identities := idb_identities db @ [i],
              idb_sessions := idb_sessions db @ [issued_session cr env (id_id i) (ie_familyId env)],
              idb_outbox := idb_outbox db @ [event_outbox_create.extend (IdentityMessageService_toIdentityRegisteredOutbox i)
                \<lparr>ob_createdAt = ie_now env, ob_publishedAt = None, ob_attempts = 0, ob_lastError = None\<rparr>]\<rparr>)
     else (Inl Conflict, db))"
proof -
  let ?x = "register_identity (PasswordService_hash cr env (ri_password input)) input"
  note row = valid_register_row [OF assms(1,2)]
  note defs = IdentityRegisterCommandHandler_execute_def IdentityRegisterCommandHandler_register_def Let_def unique_conflict_def
  show ?thesis
  proof (cases "storable input \<and> registration_succeeds cr env input db")
    case True
    then have create: "IdentityRepository_create env ?x db = Inr (i, db\<lparr>idb_identities := idb_identities db @ [i]\<rparr>)"
      using row assms(4,6) by (auto simp: IdentityRepository_create_Inr registration_succeeds_def image_iff)
    have "ob_id (IdentityMessageService_toIdentityRegisteredOutbox i) = ie_publicId env"
      using assms(6) by (simp add: IdentityMessageService_toIdentityRegisteredOutbox_def)
    with True create assms(3,5) show ?thesis
      by (simp add: defs write_registered_def IdentityOutboxRepository_create_def event_insert_def list_ex_key
          createTokenPair_runs new_token_def transactional_def)
  next
    case False
    then have "IdentityRepository_create env ?x db = Inl (if storable input then UniqueViolation else CheckViolation)"
      using row by (auto simp: IdentityRepository_create_def registration_succeeds_def list_ex_iff)
    with False show ?thesis by (auto simp: defs)
  qed
qed

theorem register_decision_witness:
  "fst (IdentityRegisterCommandHandler_execute demo_crypto (demo_identity_env 0 ''r1'') demo_register empty_identity_db)
     = Inr (token_pair demo_crypto (demo_identity_env 0 ''r1'') demo_identity ''f1'')
   \<and> IdentityRegisterCommandHandler_execute demo_crypto (demo_identity_env 0 ''r1'')
       (demo_register\<lparr>ri_email := Value [CHR 0x22, CHR ''a'', CHR '' '', CHR ''b'', CHR 0x22, CHR ''@'', CHR ''c'', CHR ''.'', CHR ''d'']\<rparr>)
       empty_identity_db = (Inl (ServerError CheckViolation), empty_identity_db)"
proof -
  let ?quoted = "demo_register\<lparr>ri_email := Value [CHR 0x22, CHR ''a'', CHR '' '', CHR ''b'', CHR 0x22, CHR ''@'', CHR ''c'', CHR ''.'', CHR ''d'']\<rparr>"
  have hash: "PasswordService_hash demo_crypto (demo_identity_env 0 ''r1'') ''password'' = ''$argon2password''"
    by (simp add: PasswordService_hash_def demo_crypto_def)
  have fresh: "new_token demo_crypto (demo_identity_env 0 ''r1'') empty_identity_db"
    "ie_publicId (demo_identity_env 0 ''r1'') \<notin> id_publicId ` set (idb_identities empty_identity_db)"
    "ie_publicId (demo_identity_env 0 ''r1'') \<notin> ob_id ` set (idb_outbox empty_identity_db)"
    by (simp_all add: new_token_def empty_identity_db_def)
  have "IdentityRegisterInput_valid (\<lambda>e. True) demo_register" "IdentityRegisterInput_valid (\<lambda>e. True) ?quoted"
    "length (PasswordService_hash demo_crypto (demo_identity_env 0 ''r1'') (ri_password demo_register)) \<le> 255"
    "length (PasswordService_hash demo_crypto (demo_identity_env 0 ''r1'') (ri_password ?quoted)) \<le> 255"
    by (simp_all add: IdentityRegisterInput_valid_def demo_register_def hash)
  note register = register_decision [OF this(1,3) fresh refl] register_decision [OF this(2,4) fresh refl]
  have "storable demo_register" "\<not> storable ?quoted"
    using demo_email by (simp_all add: storable_def demo_register_def email_format_def email_char_def)
  moreover have "registration_succeeds demo_crypto (demo_identity_env 0 ''r1'') demo_register empty_identity_db"
    by (simp add: registration_succeeds_def empty_identity_db_def)
  ultimately show ?thesis
    unfolding register using hash by (simp add: demo_identity_def demo_register_def)
qed

text \<open>
  The request with \<open>phone\<close> as \<open>null\<close> and nothing else.
\<close>

lemma register_null_phone:
  assumes "ri_email input = Undefined" and "ri_phone input = Null"
    and "8 \<le> length (ri_password input)" and "length (ri_password input) \<le> 128"
    and "length (PasswordService_hash cr env (ri_password input)) \<le> 255"
  shows "IdentityRegisterInput_valid isEmail input"
    and "IdentityRegisterCommandHandler_execute cr env input db = (Inl (ServerError CheckViolation), db)"
  using assms
  by (simp_all add: IdentityRegisterInput_valid_def IdentityRegisterCommandHandler_execute_def Let_def
      IdentityRegisterCommandHandler_register_def IdentityRepository_create_def register_identity_def
      Identity_fits_def Identity_check_def unique_conflict_def)

subsection \<open>External sign-in\<close>

lemma take_removes:
  "OidcSignInAttemptService_take RedisAnswers now state r = (res, r') \<Longrightarrow> r' (OidcSignInAttemptService_toKey state) = None"
  by (auto simp: OidcSignInAttemptService_take_def withRedisTimeout_def redis_del_def)

lemma take_absent:
  "r (OidcSignInAttemptService_toKey state) = None \<Longrightarrow>
   \<exists>r'. OidcSignInAttemptService_take out now state r = (if out = RedisAnswers then Inr None else Inl ServiceUnavailable, r')"
  by (cases out) (auto simp: OidcSignInAttemptService_take_def withRedisTimeout_def redis_get_def)

lemma sign_in_redis:
  assumes "IdentityOidcSignInCommandHandler_execute cr oc st env provider query browserState w = (res, w')"
    and "map_of query ''state'' = Some state" and "state \<noteq> ''''" and "browserState = Some state"
  shows "ow_redis w' = snd (OidcSignInAttemptService_take (oe_outcome env) (ie_now env) state (ow_redis w))"
  using assms
  by (auto simp: IdentityOidcSignInCommandHandler_execute_def truthy_def Let_def
      split: prod.splits sum.splits option.splits if_splits)

text \<open>
  C34. A state works once: after a callback that Redis answered, whatever became of it, another
  callback with the same state is a bad request as long as no new attempt is saved under that state; if Redis does not answer, it is
  refused too.
\<close>

theorem oidc_state_single_use:
  assumes "IdentityOidcSignInCommandHandler_execute cr oc st env provider query (Some state) w = (res, w')"
    and "oe_outcome env = RedisAnswers" and "map_of query ''state'' = Some state" and "state \<noteq> ''''"
    and "map_of query' ''state'' = Some state"
    and "ow_redis w'' (OidcSignInAttemptService_toKey state) = ow_redis w' (OidcSignInAttemptService_toKey state)"
  shows "fst (IdentityOidcSignInCommandHandler_execute cr oc st env' provider' query' cookie w'')
    = Inl (if cookie \<noteq> Some state \<or> oe_outcome env' = RedisAnswers then BadRequest else ServiceUnavailable)"
proof -
  have "ow_redis w'' (OidcSignInAttemptService_toKey state) = None"
    using sign_in_redis [OF assms(1,3,4) refl] assms(2,6) take_removes
    by (metis prod.collapse)
  from take_absent [of "ow_redis w''" state "oe_outcome env'" "ie_now env'", OF this] show ?thesis
    using assms(4,5) by (auto simp: IdentityOidcSignInCommandHandler_execute_def truthy_def Let_def)
qed

definition linked :: "IdentityProviderEnum \<Rightarrow> string \<Rightarrow> Identity \<Rightarrow> identity_db \<Rightarrow> bool" where
  "linked provider subject i db \<longleftrightarrow> i \<in> set (idb_identities db) \<and> live_identity i
     \<and> (\<exists>a\<in>set (idb_accounts db). ea_provider a = provider \<and> ea_subject a = subject \<and> ea_identityId a = id_id i)"

lemma new_account_simps [simp]:
  "ea_provider (new_account env x) = ea_provider x" "ea_subject (new_account env x) = ea_subject x"
  "ea_identityId (new_account env x) = ea_identityId x"
  by (simp_all add: new_account_def external_account_create.defs)

definition grown :: "identity_db \<Rightarrow> identity_db \<Rightarrow> bool" where
  "grown db db' \<longleftrightarrow> (\<exists>is as. idb_identities db' = idb_identities db @ is \<and> idb_accounts db' = idb_accounts db @ as)"

lemma findByProviderSubject_Some:
  "IdentityExternalAccountRepository_findByProviderSubject provider subject db = Some a \<Longrightarrow>
   a \<in> set (idb_accounts db) \<and> ea_provider a = provider \<and> ea_subject a = subject"
  by (auto simp: IdentityExternalAccountRepository_findByProviderSubject_def dest: find_row_Some)

lemma signIn_outcome:
  assumes "IdentityOidcSignInCommandHandler_signIn cr env provider subject email db = Inr (t, db')"
  shows "\<exists>i. linked provider subject i db' \<and> t = token_pair cr env i (ie_familyId env) \<and> grown db db'
    \<and> (i \<in> set (idb_identities db) \<longrightarrow> linked provider subject i db)"

proof (cases "IdentityExternalAccountRepository_findByProviderSubject provider subject db")
  case (Some a)
  then obtain i where i: "IdentityRepository_findById (ea_identityId a) db = Some i" "issue_tokens cr env i db = Inr (t, db')"
    using assms by (auto simp: IdentityOidcSignInCommandHandler_signIn_def split: option.splits)
  then have "linked provider subject i db" "linked provider subject i db'" "t = token_pair cr env i (ie_familyId env)" "grown db db'"
    using findById_Some [OF i(1)] findByProviderSubject_Some [OF Some]
    by (auto simp: linked_def grown_def issue_tokens_def createTokenPair_eq)
  then show ?thesis by blast
next
  case None
  let ?x = "external_identity email"
  let ?i = "new_identity env ?x"
  from assms None obtain i db1 a db2 u db3 where
    steps: "IdentityRepository_create env ?x db = Inr (i, db1)"
      "IdentityExternalAccountRepository_create env \<lparr>ea_identityId = id_id i, ea_provider = provider, ea_subject = subject\<rparr> db1
        = Inr (a, db2)" "write_registered env i db2 = Inr (u, db3)" "issue_tokens cr env i db3 = Inr (t, db')"
    by (auto simp: IdentityOidcSignInCommandHandler_signIn_def split: sum.splits if_splits)
  from steps(1) have i: "i = ?i" "db1 = db\<lparr>idb_identities := idb_identities db @ [?i]\<rparr>"
    "\<forall>j\<in>set (idb_identities db). id_publicId j \<noteq> ie_publicId env"
    by (auto simp: IdentityRepository_create_Inr)
  obtain out where db3: "db3 = db2\<lparr>idb_outbox := out\<rparr>" using write_registered_Inr [OF steps(3)] by blast
  from steps(4) have db': "db' = db3\<lparr>idb_sessions := idb_sessions db3 @ [issued_session cr env (id_id i) (ie_familyId env)]\<rparr>"
    and t: "t = token_pair cr env ?i (ie_familyId env)"
    by (auto simp: issue_tokens_def createTokenPair_eq i)
  note db' = db' db3 account_create_Inr [OF steps(2)] i
  have "linked provider subject ?i db'" "grown db db'" "?i \<notin> set (idb_identities db)"
    using i(3) by (auto simp: linked_def grown_def db'(1-5))
  with t show ?thesis by blast
qed

lemma link_outcome:
  assumes "IdentityOidcSignInCommandHandler_link cr env provider subject p db = Inr (t, db')"
  shows "\<exists>i. linked provider subject i db' \<and> t = token_pair cr env i (ie_familyId env) \<and> grown db db'
    \<and> i \<in> set (idb_identities db) \<and> id_publicId i = p"
proof -
  from assms obtain i where find: "IdentityRepository_findByPublicId p db = Some i"
    by (auto simp: IdentityOidcSignInCommandHandler_link_def split: option.splits)
  then have i: "i \<in> set (idb_identities db)" "id_publicId i = p" "live_identity i"
    by (auto simp: IdentityRepository_findByPublicId_def dest: find_row_Some)
  show ?thesis
  proof (cases "IdentityExternalAccountRepository_findByProviderSubject provider subject db")
    case (Some a)
    with assms find i findByProviderSubject_Some [OF Some] show ?thesis
      by (intro exI [of _ i]) (auto simp: IdentityOidcSignInCommandHandler_link_def linked_def grown_def issue_tokens_def createTokenPair_eq
          split: if_splits)
  next
    case None
    with assms find i show ?thesis
      by (intro exI [of _ i]) (auto simp: IdentityOidcSignInCommandHandler_link_def linked_def grown_def issue_tokens_def createTokenPair_eq
          dest!: account_create_Inr split: sum.splits prod.splits)
  qed
qed

text \<open>
  C33. Whenever the callback of an external provider issues tokens, the browser presented the state of a
  stored attempt for that provider, the provider vouched for a subject with a verified email, and the
  tokens belong to an identity that is now linked to exactly that subject. Existing identities and links are kept as
  they are: without a link attempt, an identity that existed before was already linked to
  the subject (an equal email never gives access to it), and a link attempt signs in the
  identity that started it.
\<close>

theorem oidc_sign_in_sound:
  assumes "IdentityOidcSignInCommandHandler_execute cr oc st env provider query browserState w = (Inr t, w')"
  shows "\<exists>state attempt r cs external i.
    map_of query ''state'' = Some state \<and> browserState = Some state
    \<and> OidcSignInAttemptService_take (oe_outcome env) (ie_now env) state (ow_redis w) = (Inr (Some attempt), r)
    \<and> at_provider attempt = provider
    \<and> OidcClientService_exchange oc st attempt query (ow_configurations w) = (Inr external, cs)
    \<and> oi_emailVerified external
    \<and> t = token_pair cr (identity_env.truncate env) i (ie_familyId env)
    \<and> linked provider (oi_subject external) i (ow_db w') \<and> grown (ow_db w) (ow_db w')
    \<and> (if truthy (at_linkIdentityPublicId attempt)
       then i \<in> set (idb_identities (ow_db w)) \<and> at_linkIdentityPublicId attempt = Some (id_publicId i)
       else i \<in> set (idb_identities (ow_db w)) \<longrightarrow> linked provider (oi_subject external) i (ow_db w))"
proof -
  have "\<exists>state attempt r cs external. map_of query ''state'' = Some state \<and> browserState = Some state
      \<and> OidcSignInAttemptService_take (oe_outcome env) (ie_now env) state (ow_redis w) = (Inr (Some attempt), r)
      \<and> at_provider attempt = provider
      \<and> OidcClientService_exchange oc st attempt query (ow_configurations w) = (Inr external, cs) \<and> oi_emailVerified external
      \<and> transactional (finish_sign_in cr (identity_env.truncate env) provider attempt (oi_subject external)
           (the (oi_email external))) (ow_db w) = (Inr t, ow_db w')"
    using assms
    by (auto simp: IdentityOidcSignInCommandHandler_execute_def Let_def truthy_def
        split: prod.splits sum.splits option.splits if_splits)
  then obtain state attempt r cs external where
    run: "map_of query ''state'' = Some state" "browserState = Some state"
      "OidcSignInAttemptService_take (oe_outcome env) (ie_now env) state (ow_redis w) = (Inr (Some attempt), r)"
      "at_provider attempt = provider"
      "OidcClientService_exchange oc st attempt query (ow_configurations w) = (Inr external, cs)" "oi_emailVerified external"
    and finish: "transactional (finish_sign_in cr (identity_env.truncate env) provider attempt (oi_subject external)
       (the (oi_email external))) (ow_db w) = (Inr t, ow_db w')"
    by blast
  from finish have tx: "finish_sign_in cr (identity_env.truncate env) provider attempt (oi_subject external)
       (the (oi_email external)) (ow_db w) = Inr (t, ow_db w')"
    by (cases rule: transactional_cases) auto
  have fam: "ie_familyId (identity_env.truncate env) = ie_familyId env" by (simp add: identity_env.defs)
  have "\<exists>i. linked provider (oi_subject external) i (ow_db w')
      \<and> t = token_pair cr (identity_env.truncate env) i (ie_familyId env) \<and> grown (ow_db w) (ow_db w')
      \<and> (if truthy (at_linkIdentityPublicId attempt)
         then i \<in> set (idb_identities (ow_db w)) \<and> at_linkIdentityPublicId attempt = Some (id_publicId i)
         else i \<in> set (idb_identities (ow_db w)) \<longrightarrow> linked provider (oi_subject external) i (ow_db w))"
  proof (cases "truthy (at_linkIdentityPublicId attempt)")
    case True
    then obtain p where p: "at_linkIdentityPublicId attempt = Some p" "p \<noteq> ''''" by (auto simp: truthy_def)
    with tx have "IdentityOidcSignInCommandHandler_link cr (identity_env.truncate env) provider (oi_subject external) p (ow_db w)
        = Inr (t, ow_db w')" by (simp add: finish_sign_in_def)
    from link_outcome [OF this] True p show ?thesis unfolding fam by auto
  next
    case False
    with tx have "IdentityOidcSignInCommandHandler_signIn cr (identity_env.truncate env) provider (oi_subject external)
        (the (oi_email external)) (ow_db w) = Inr (t, ow_db w')"
      by (auto simp: finish_sign_in_def truthy_def split: option.splits)
    from signIn_outcome [OF this] False show ?thesis unfolding fam by auto
  qed
  with run show ?thesis by blast
qed

definition demo_oidc :: "(unit, authorization_parameters) oidc_client" where
  "demo_oidc = \<lparr>oc_discovery = (\<lambda>issuer client secret insecure. Some ()), oc_authorizationUrl = (\<lambda>c p. p), oc_codeChallenge = id,
     oc_codeGrant = (\<lambda>c url checks. GrantClaims ''sub1'' (JObj [(''email'', JStr ''x@y.z''), (''email_verified'', JBool True)]))\<rparr>"

definition demo_settings :: oidc_settings where
  "demo_settings = \<lparr>os_environment = id, os_secret = Some, os_protocol = id, os_resolve = (\<lambda>p b. p)\<rparr>"

definition demo_oidc_env :: "redis_outcome \<Rightarrow> oidc_env" where
  "demo_oidc_env out = identity_env.extend (demo_identity_env 0 ''r1'')
     \<lparr>oe_state = ''s1'', oe_nonce = ''n1'', oe_codeVerifier = ''v1'', oe_outcome = out\<rparr>"

definition demo_oidc_world :: "unit oidc_world" where
  "demo_oidc_world = \<lparr>ow_db = empty_identity_db,
     ow_redis = redis_set_ex 0 (OidcSignInAttemptService_toKey ''s1'')
       (attempt_json (new_attempt (demo_oidc_env RedisAnswers) Provider_google None)) 600 Map.empty,
     ow_configurations = Map.empty\<rparr>"

lemma demo_external_email: "email_format ''x@y.z''"
  by (simp add: email_format_def email_char_def)

lemma demo_truncate [simp]: "identity_env.truncate (demo_oidc_env out) = demo_identity_env 0 ''r1''"
  by (simp add: demo_oidc_env_def demo_identity_env_def identity_env.defs)

lemma demo_oidc_env_simps [simp]:
  "ie_now (demo_oidc_env out) = 0" "oe_outcome (demo_oidc_env out) = out"
  by (simp_all add: demo_oidc_env_def demo_identity_env_def identity_env.defs)

lemma demo_signIn:
  "\<exists>t db. IdentityOidcSignInCommandHandler_signIn demo_crypto (demo_identity_env 0 ''r1'') Provider_google ''sub1'' ''x@y.z''
     empty_identity_db = Inr (t, db)"
  using demo_external_email
  by (simp add: IdentityOidcSignInCommandHandler_signIn_def IdentityExternalAccountRepository_findByProviderSubject_def
      empty_identity_db_def IdentityRepository_findByEmail_def IdentityRepository_create_def external_identity_def
      Identity_fits_def Identity_check_def IdentityExternalAccountRepository_create_def blank_def write_registered_def
      IdentityOutboxRepository_create_def event_insert_def issue_tokens_def createTokenPair_runs new_token_def)

lemma demo_exchange:
  "OidcClientService_exchange demo_oidc demo_settings a q Map.empty =
     (Inr \<lparr>oi_subject = ''sub1'', oi_email = Some ''x@y.z'', oi_emailVerified = True\<rparr>, [at_provider a \<mapsto> ()])"
  by (simp add: OidcClientService_exchange_def OidcClientService_getConfiguration_def OidcClientService_discover_def
      demo_oidc_def demo_settings_def Let_def)

lemma demo_callback:
  "\<exists>t w'. IdentityOidcSignInCommandHandler_execute demo_crypto demo_oidc demo_settings (demo_oidc_env RedisAnswers) Provider_google
     [(''state'', ''s1''), (''code'', ''c'')] (Some ''s1'') demo_oidc_world = (Inr t, w')"
proof -
  have "\<exists>r. OidcSignInAttemptService_take RedisAnswers 0 ''s1'' (ow_redis demo_oidc_world)
      = (Inr (Some (new_attempt (demo_oidc_env RedisAnswers) Provider_google None)), r)"
    by (simp add: OidcSignInAttemptService_take_def withRedisTimeout_def demo_oidc_world_def redis_get_def redis_set_ex_def)
  then obtain r where take: "OidcSignInAttemptService_take RedisAnswers 0 ''s1'' (ow_redis demo_oidc_world)
      = (Inr (Some (new_attempt (demo_oidc_env RedisAnswers) Provider_google None)), r)" ..
  have w: "ow_configurations demo_oidc_world = Map.empty" "ow_db demo_oidc_world = empty_identity_db"
    by (simp_all add: demo_oidc_world_def)
  from demo_signIn obtain t db where "IdentityOidcSignInCommandHandler_signIn demo_crypto (demo_identity_env 0 ''r1'')
      Provider_google ''sub1'' ''x@y.z'' empty_identity_db = Inr (t, db)" by blast
  then have "transactional (finish_sign_in demo_crypto (demo_identity_env 0 ''r1'') Provider_google
      (new_attempt (demo_oidc_env RedisAnswers) Provider_google None) ''sub1'' ''x@y.z'') empty_identity_db = (Inr t, db)"
    by (simp add: finish_sign_in_def new_attempt_def)
  then show ?thesis
    by (simp add: IdentityOidcSignInCommandHandler_execute_def Let_def truthy_def take w demo_exchange)
      (simp add: new_attempt_def)
qed

theorem oidc_sign_in_sound_witness:
  "\<exists>t w' i. IdentityOidcSignInCommandHandler_execute demo_crypto demo_oidc demo_settings (demo_oidc_env RedisAnswers)
      Provider_google [(''state'', ''s1''), (''code'', ''c'')] (Some ''s1'') demo_oidc_world = (Inr t, w')
    \<and> linked Provider_google ''sub1'' i (ow_db w')"
proof -
  from demo_callback obtain t w' where run: "IdentityOidcSignInCommandHandler_execute demo_crypto demo_oidc demo_settings
      (demo_oidc_env RedisAnswers) Provider_google [(''state'', ''s1''), (''code'', ''c'')] (Some ''s1'') demo_oidc_world = (Inr t, w')"
    by blast
  have "ow_configurations demo_oidc_world = Map.empty" by (simp add: demo_oidc_world_def)
  then obtain i where "linked Provider_google ''sub1'' i (ow_db w')"
    using oidc_sign_in_sound [OF run] by (auto simp: demo_exchange)
  with run show ?thesis by blast
qed

theorem oidc_state_single_use_witness:
  "\<exists>w'. fst (IdentityOidcSignInCommandHandler_execute demo_crypto demo_oidc demo_settings (demo_oidc_env RedisAnswers)
      Provider_google [(''state'', ''s1''), (''code'', ''c'')] (Some ''s1'') w') = Inl BadRequest"
proof -
  from demo_callback obtain t w' where run: "IdentityOidcSignInCommandHandler_execute demo_crypto demo_oidc demo_settings
      (demo_oidc_env RedisAnswers) Provider_google [(''state'', ''s1''), (''code'', ''c'')] (Some ''s1'') demo_oidc_world = (Inr t, w')"
    by blast
  from oidc_state_single_use [OF run, of "[(''state'', ''s1''), (''code'', ''c'')]" w' "demo_oidc_env RedisAnswers" Provider_google "Some ''s1''"]
  show ?thesis by auto
qed

end
