(* ===== verification/Order_Notify.thy ===== *)
theory Order_Notify
  imports Order_Core Auth
begin

section \<open>Following and reading an order\<close>

text \<open>
  The status stream of an order and the ways to read it: \<open>OrderNotifyEventsGateway\<close> turns the events of
  Kafka into status events, \<open>OrderNotifyService\<close> keeps the last hundred of an order and pushes each
  to the listeners, \<open>OrdersController\<close> serves them as server-sent events with resumption, and
  \<open>OrderAccessService\<close>, \<open>OrderAccessGuard\<close> and \<open>OrderService\<close> decide who may read. Also the gateway that copies the
  buyers from the events of the user service.
\<close>

subsection \<open>The notify service\<close>

record OrderStatusEvent =
  ev_id :: int
  ev_orderId :: int
  ev_status :: OrderStatusEnum

definition ORDER_EVENT_HISTORY_LIMIT :: nat where "ORDER_EVENT_HISTORY_LIMIT = 100"

text \<open>A listener is the closure of one open stream: the id it sent last, and what it has sent.\<close>

record listener =
  ls_lastSentId :: int
  ls_sent :: "OrderStatusEvent list"

record notify =
  nt_history :: "int \<Rightarrow> OrderStatusEvent list"
  nt_listeners :: "int \<Rightarrow> nat \<Rightarrow> listener option"

definition empty_notify :: notify where
  "empty_notify = \<lparr>nt_history = (\<lambda>i. []), nt_listeners = (\<lambda>i k. None)\<rparr>"

definition OrdersController_writeEvent :: "OrderStatusEvent \<Rightarrow> listener \<Rightarrow> listener" where
  "OrdersController_writeEvent e l =
     (if ev_id e \<le> ls_lastSentId l then l
      else l\<lparr>ls_sent := ls_sent l @ [e], ls_lastSentId := ev_id e\<rparr>)"

definition history_push :: "OrderStatusEvent \<Rightarrow> OrderStatusEvent list \<Rightarrow> OrderStatusEvent list" where
  "history_push e h = (let h' = h @ [e] in if length h' > ORDER_EVENT_HISTORY_LIMIT then tl h' else h')"

definition OrderNotifyService_record :: "OrderStatusEvent \<Rightarrow> notify \<Rightarrow> notify" where
  "OrderNotifyService_record e n =
     (let h = nt_history n (ev_orderId e)
      in if h \<noteq> [] \<and> ev_id (last h) \<ge> ev_id e then n
         else n\<lparr>nt_history := (nt_history n)(ev_orderId e := history_push e h),
                nt_listeners := (nt_listeners n)(ev_orderId e :=
                  (\<lambda>k. map_option (OrdersController_writeEvent e) (nt_listeners n (ev_orderId e) k)))\<rparr>)"

definition OrderNotifyService_getAfter :: "int \<Rightarrow> int \<Rightarrow> notify \<Rightarrow> OrderStatusEvent list" where
  "OrderNotifyService_getAfter orderId lastEventId n = filter (\<lambda>e. lastEventId < ev_id e) (nt_history n orderId)"

text \<open>The listener of a stream is known by a key; unsubscribing removes it.\<close>

definition OrderNotifyService_subscribe :: "int \<Rightarrow> nat \<Rightarrow> listener \<Rightarrow> notify \<Rightarrow> notify" where
  "OrderNotifyService_subscribe orderId k l n =
     n\<lparr>nt_listeners := (nt_listeners n)(orderId := (nt_listeners n orderId)(k \<mapsto> l))\<rparr>"

definition OrderNotifyService_unsubscribe :: "int \<Rightarrow> nat \<Rightarrow> notify \<Rightarrow> notify" where
  "OrderNotifyService_unsubscribe orderId k n =
     n\<lparr>nt_listeners := (nt_listeners n)(orderId := (nt_listeners n orderId)(k := None))\<rparr>"

text \<open>
  Opening a stream: subscribe, then send what the history has after the last event the client saw,
  through the same closure. The code runs without interruption.
\<close>

definition OrdersController_events :: "int \<Rightarrow> int \<Rightarrow> nat \<Rightarrow> notify \<Rightarrow> notify" where
  "OrdersController_events orderId lastEventId k n =
     (let n1 = OrderNotifyService_subscribe orderId k \<lparr>ls_lastSentId = lastEventId, ls_sent = []\<rparr> n;
          emit = (\<lambda>e n. n\<lparr>nt_listeners := (nt_listeners n)(orderId :=
                    (nt_listeners n orderId)(k := map_option (OrdersController_writeEvent e) (nt_listeners n orderId k)))\<rparr>)
      in fold emit (OrderNotifyService_getAfter orderId lastEventId n1) n1)"

subsection \<open>The gateways\<close>

definition schema_positive_int :: "json option \<Rightarrow> int option" where
  "schema_positive_int v = (case safe_integer v of None \<Rightarrow> None | Some n \<Rightarrow> if 0 < n then Some n else None)"

definition orderStatusEventSchema :: "json \<Rightarrow> (int \<times> OrderStatusEnum) option" where
  "orderStatusEventSchema event =
     (case (jstring (jfield (Some event) ''type''), schema_positive_int (jfield (jfield (Some event) ''data'') ''orderId'')) of
        (Some t, Some orderId) \<Rightarrow>
          if t = mc_type OrderCreatedEvent then Some (orderId, OS_pending_payment)
          else if t = mc_type OrderPaidEvent then Some (orderId, OS_paid)
          else if t = mc_type OrderFailedEvent
          then (case Option.bind (jstring (jfield (jfield (Some event) ''data'') ''status'')) order_status_of of
                  Some OS_canceled \<Rightarrow> Some (orderId, OS_canceled)
                | Some OS_failed_payment \<Rightarrow> Some (orderId, OS_failed_payment)
                | _ \<Rightarrow> None)
          else None
      | _ \<Rightarrow> None)"

definition OrderNotifyEventsGateway_handle :: "json \<Rightarrow> nat \<Rightarrow> notify \<Rightarrow> kafka_error + notify" where
  "OrderNotifyEventsGateway_handle event offset n =
     (if jstring (jfield (Some event) ''type'') \<notin>
           set (map (\<lambda>c. Some (mc_type c)) [OrderCreatedEvent, OrderPaidEvent, OrderFailedEvent]) then Inr n
      else (case orderStatusEventSchema event of
              None \<Rightarrow> Inl KafkaRejectedMessage
            | Some (orderId, status) \<Rightarrow>
                Inr (OrderNotifyService_record \<lparr>ev_id = int offset + 1, ev_orderId = orderId, ev_status = status\<rparr> n)))"

definition userCreatedEventSchema :: "(string \<Rightarrow> bool) \<Rightarrow> json \<Rightarrow> (int \<times> uuid option) option" where
  "userCreatedEventSchema zUuid event =
     (let data = jfield (Some event) ''data''
      in if jfield (Some event) ''specversion'' = Some (JStr ''1.0'')
            \<and> schema_uuid zUuid (jfield (Some event) ''id'') \<noteq> None
            \<and> jfield (Some event) ''type'' = Some (JStr (mc_type UserCreatedEvent))
            \<and> schema_uuid zUuid (jfield data ''userPublicId'') \<noteq> None
         then (case schema_positive_int (jfield data ''userId'') of
                 None \<Rightarrow> None
               | Some userId \<Rightarrow>
                   (case jfield data ''identityPublicId'' of
                      None \<Rightarrow> Some (userId, None)
                    | Some v \<Rightarrow> map_option (\<lambda>i. (userId, Some i)) (schema_uuid zUuid (Some v))))
         else None)"

definition OrderUserEventsGateway_handle ::
  "(string \<Rightarrow> bool) \<Rightarrow> time \<Rightarrow> json \<Rightarrow> order_db \<Rightarrow> (kafka_error + unit) \<times> order_db" where
  "OrderUserEventsGateway_handle zUuid now event db =
     (if jfield (Some event) ''type'' \<noteq> Some (JStr (mc_type UserCreatedEvent)) then (Inr (), db)
      else (case userCreatedEventSchema zUuid event of
              None \<Rightarrow> (Inl KafkaRejectedMessage, db)
            | Some (userId, None) \<Rightarrow> (Inr (), db)
            | Some (userId, Some identityPublicId) \<Rightarrow>
                if identityPublicId = '''' then (Inr (), db)
                else (case transactional (OrderBuyerRegisterCommandHandler_execute now identityPublicId userId) db of
                        (Inl e, db') \<Rightarrow> (Inl (KafkaHandlerError e), db')
                      | (Inr registered, db') \<Rightarrow> (Inr (), db'))))"

subsection \<open>Reading an order\<close>

definition OrderService_findById :: "int \<Rightarrow> order_db \<Rightarrow> http_error + (Order \<times> OrderLine list)" where
  "OrderService_findById i db =
     (case OrderRepository_findByIdOrFail i db of
        Inl e \<Rightarrow> Inl (if e = EntityNotFound then NotFound else ServerError e)
      | Inr r \<Rightarrow> Inr r)"

text \<open>\<open>find\<close> stands for \<open>findById\<close> behind the cache: its result for an order id.\<close>

definition OrderService_findReadableById ::
  "casl \<Rightarrow> ability_rule list \<Rightarrow> http_error + (Order \<times> OrderLine list) \<Rightarrow> http_error + (Order \<times> OrderLine list)" where
  "OrderService_findReadableById can ability found =
     (case found of
        Inl e \<Rightarrow> Inl e
      | Inr (r, ls) \<Rightarrow>
          if can ability Action_read (OrderSubject (or_ownerIdentityPublicId r)) then Inr (r, ls) else Inl Forbidden)"

definition OrderAccessService_canAccess :: "int \<Rightarrow> int option \<Rightarrow> order_db \<Rightarrow> http_error + unit" where
  "OrderAccessService_canAccess orderId userId db =
     (case OrderRepository_findByIdOrFail orderId db of
        Inl e \<Rightarrow> Inl (if e = EntityNotFound then NotFound else ServerError e)
      | Inr (r, ls) \<Rightarrow>
          (case userId of
             None \<Rightarrow> Inr ()
           | Some u \<Rightarrow> if or_userId r \<noteq> u then Inl Forbidden else Inr ()))"

text \<open>
  The guard of the stream. \<open>number\<close> is JavaScript's \<open>Number\<close> on a text, \<open>None\<close> for NaN and the infinities.
\<close>

definition guard_integer :: "(string \<Rightarrow> rat option) \<Rightarrow> string \<Rightarrow> int option" where
  "guard_integer number s = safe_integer (map_option JNum (number s))"

definition OrderAccessGuard_canActivate ::
  "(string \<Rightarrow> rat option) \<Rightarrow> string \<Rightarrow> string option \<Rightarrow> string option \<Rightarrow> order_db \<Rightarrow> http_error + bool" where
  "OrderAccessGuard_canActivate number idParam userIdValue lastEventIdValue db =
     (case guard_integer number idParam of
        None \<Rightarrow> Inl BadRequest
      | Some orderId \<Rightarrow>
          if orderId \<le> 0 then Inl BadRequest
          else (let access =
                  (case userIdValue of
                     None \<Rightarrow> OrderAccessService_canAccess orderId None db
                   | Some v \<Rightarrow>
                       (case guard_integer number v of
                          None \<Rightarrow> Inl BadRequest
                        | Some userId \<Rightarrow>
                            if userId \<le> 0 then Inl BadRequest
                            else OrderAccessService_canAccess orderId (Some userId) db))
                in case access of
                     Inl e \<Rightarrow> Inl e
                   | Inr u \<Rightarrow>
                       (case lastEventIdValue of
                          None \<Rightarrow> Inr True
                        | Some v \<Rightarrow>
                            (case guard_integer number v of
                               None \<Rightarrow> Inl BadRequest
                             | Some lastEventId \<Rightarrow> if lastEventId < 0 then Inl BadRequest else Inr True))))"

subsection \<open>A stream misses nothing and repeats nothing\<close>

datatype notify_op = Recorded OrderStatusEvent | Opened int int nat | Dropped int nat

fun run_notify :: "notify_op \<Rightarrow> notify \<Rightarrow> notify" where
  "run_notify (Recorded e) n = OrderNotifyService_record e n"
| "run_notify (Opened i l k) n = OrdersController_events i l k n"
| "run_notify (Dropped i k) n = OrderNotifyService_unsubscribe i k n"

fun touches :: "int \<Rightarrow> nat \<Rightarrow> notify_op \<Rightarrow> bool" where
  "touches i k (Recorded e) \<longleftrightarrow> False"
| "touches i k (Opened j l k') \<longleftrightarrow> j = i \<and> k' = k"
| "touches i k (Dropped j k') \<longleftrightarrow> j = i \<and> k' = k"

text \<open>The events of an order that count: those whose id is above all before them.\<close>

definition accept :: "OrderStatusEvent \<Rightarrow> OrderStatusEvent list \<Rightarrow> OrderStatusEvent list" where
  "accept e acc = (if acc \<noteq> [] \<and> ev_id e \<le> ev_id (last acc) then acc else acc @ [e])"

fun recorded :: "int \<Rightarrow> notify_op list \<Rightarrow> OrderStatusEvent list" where
  "recorded i [] = []"
| "recorded i (Recorded e # ops) = (if ev_orderId e = i then e # recorded i ops else recorded i ops)"
| "recorded i (_ # ops) = recorded i ops"

definition accepted :: "int \<Rightarrow> notify_op list \<Rightarrow> OrderStatusEvent list" where
  "accepted i ops = fold accept (recorded i ops) []"

definition recent :: "'a list \<Rightarrow> 'a list" where
  "recent xs = drop (length xs - ORDER_EVENT_HISTORY_LIMIT) xs"

lemma recorded_append [simp]: "recorded i (xs @ ys) = recorded i xs @ recorded i ys"
  by (induction i xs rule: recorded.induct) auto

lemma tl_drop_Suc: "tl (drop n xs) = drop (Suc n) xs"
  by (simp add: drop_Suc tl_drop)

lemma recent_snoc: "history_push e (recent xs) = recent (xs @ [e])"
proof (cases "length xs < ORDER_EVENT_HISTORY_LIMIT")
  case False
  let ?n = "length xs - ORDER_EVENT_HISTORY_LIMIT"
  have "0 < ORDER_EVENT_HISTORY_LIMIT" by (simp add: ORDER_EVENT_HISTORY_LIMIT_def)
  with False have n: "Suc ?n = Suc (length xs) - ORDER_EVENT_HISTORY_LIMIT" "Suc ?n \<le> length xs"
    "length (recent xs) = ORDER_EVENT_HISTORY_LIMIT" by (auto simp: recent_def)
  then have "history_push e (recent xs) = tl (recent xs) @ [e]"
    using \<open>0 < ORDER_EVENT_HISTORY_LIMIT\<close> by (auto simp: history_push_def Let_def tl_append split: list.splits)
  also have "\<dots> = recent (xs @ [e])"
    using n by (simp add: recent_def tl_drop_Suc)
  finally show ?thesis .
qed (simp add: history_push_def recent_def Let_def)

lemma last_recent: "xs \<noteq> [] \<Longrightarrow> recent xs \<noteq> [] \<and> last (recent xs) = last xs"
proof -
  assume "xs \<noteq> []"
  then have "length xs - ORDER_EVENT_HISTORY_LIMIT < length xs"
    by (cases xs) (auto simp: ORDER_EVENT_HISTORY_LIMIT_def)
  then show ?thesis by (simp add: recent_def)
qed

lemma recent_Nil [simp]: "recent xs = [] \<longleftrightarrow> xs = []" "[] = recent xs \<longleftrightarrow> xs = []" "recent [] = []"
  using last_recent [of xs] by (auto simp: recent_def)

lemma accept_ids: "sorted_wrt (<) (map ev_id acc) \<Longrightarrow> sorted_wrt (<) (map ev_id (accept e acc))"
proof (cases acc rule: rev_cases)
  case (snoc ys y)
  assume "sorted_wrt (<) (map ev_id acc)"
  with snoc show ?thesis by (force simp: accept_def sorted_wrt_append)
qed (simp add: accept_def)

lemma accept_all_ids: "sorted_wrt (<) (map ev_id acc) \<Longrightarrow> sorted_wrt (<) (map ev_id (fold accept es acc))"
  by (induction es arbitrary: acc) (auto intro: accept_ids)

lemma accept_all_prefix: "\<exists>more. fold accept es acc = acc @ more"
proof (induction es arbitrary: acc)
  case (Cons e es)
  obtain more where "fold accept es (accept e acc) = accept e acc @ more" using Cons by blast
  moreover have "\<exists>m. accept e acc = acc @ m" by (simp add: accept_def)
  then obtain m where "accept e acc = acc @ m" ..
  ultimately show ?case by simp
qed simp

lemma events_history [simp]: "nt_history (OrdersController_events i l k n) = nt_history n"
proof -
  let ?emit = "\<lambda>e n. n\<lparr>nt_listeners := (nt_listeners n)(i :=
      (nt_listeners n i)(k := map_option (OrdersController_writeEvent e) (nt_listeners n i k)))\<rparr>"
  have "nt_history (fold ?emit es n) = nt_history n" for es and n :: notify
    by (induction es arbitrary: n) auto
  then show ?thesis by (simp add: OrdersController_events_def OrderNotifyService_subscribe_def Let_def)
qed

lemma run_notify_history:
  assumes "nt_history n i = recent acc"
  shows "nt_history (fold run_notify ops n) i = recent (fold accept (recorded i ops) acc)"
  using assms
proof (induction ops arbitrary: n acc)
  case (Cons op ops)
  show ?case
  proof (cases op)
    case (Recorded e)
    have "nt_history (OrderNotifyService_record e n) i = recent (if ev_orderId e = i then accept e acc else acc)"
      using Cons.prems last_recent [of acc]
      by (cases "acc = []") (auto simp: OrderNotifyService_record_def Let_def accept_def recent_snoc
          recent_snoc [of _ "[]", simplified])
    from Cons.IH [OF this] show ?thesis by (simp add: Recorded)
  qed (use Cons in \<open>auto simp: OrderNotifyService_unsubscribe_def\<close>)
qed simp

lemma emit_all:
  assumes "sorted_wrt (<) (map ev_id es)" and "\<forall>e\<in>set es. l < ev_id e"
  shows "fold OrdersController_writeEvent es \<lparr>ls_lastSentId = l, ls_sent = s\<rparr> =
    \<lparr>ls_lastSentId = (if es = [] then l else ev_id (last es)), ls_sent = s @ es\<rparr>"
  using assms
  by (induction es arbitrary: l s) (auto simp: OrdersController_writeEvent_def)

lemma events_listener:
  "nt_listeners (OrdersController_events i l k n) j k' =
     (if j = i \<and> k' = k
      then Some (fold OrdersController_writeEvent (filter (\<lambda>e. l < ev_id e) (nt_history n i)) \<lparr>ls_lastSentId = l, ls_sent = []\<rparr>)
      else nt_listeners n j k')"
proof -
  let ?emit = "\<lambda>e n. n\<lparr>nt_listeners := (nt_listeners n)(i :=
      (nt_listeners n i)(k := map_option (OrdersController_writeEvent e) (nt_listeners n i k)))\<rparr>"
  have "nt_listeners (fold ?emit es n) j k' = (if j = i \<and> k' = k
      then map_option (fold OrdersController_writeEvent es) (nt_listeners n i k) else nt_listeners n j k')" for es and n :: notify
    by (induction es arbitrary: n) (auto simp: option.map_comp comp_def option.map_id)
  then show ?thesis
    by (simp add: OrdersController_events_def OrderNotifyService_subscribe_def OrderNotifyService_getAfter_def Let_def)
qed

text \<open>What an open stream has sent, when it was opened after \<open>l\<close> and has since seen \<open>all\<close>.\<close>

definition stream_inv :: "int \<Rightarrow> OrderStatusEvent list \<Rightarrow> listener \<Rightarrow> bool" where
  "stream_inv l all ls \<longleftrightarrow> ls_sent ls = filter (\<lambda>e. l < ev_id e) all
     \<and> ls_lastSentId ls = (if ls_sent ls = [] then l else ev_id (last (ls_sent ls)))"

lemma stream_inv_write:
  assumes "stream_inv l all ls" and "sorted_wrt (<) (map ev_id (all @ [e]))"
  shows "stream_inv l (all @ [e]) (OrdersController_writeEvent e ls)"
proof -
  have last: "ev_id x < ev_id e" if "x \<in> set all" for x using assms(2) that by (auto simp: sorted_wrt_append)
  show ?thesis
  proof (cases "ls_sent ls = []")
    case True
    with assms(1) show ?thesis by (auto simp: stream_inv_def OrdersController_writeEvent_def)
  next
    case False
    then have "last (ls_sent ls) \<in> set (filter (\<lambda>e. l < ev_id e) all)"
      using assms(1) last_in_set unfolding stream_inv_def by metis
    with last have "l < ev_id (last (ls_sent ls))" "ev_id (last (ls_sent ls)) < ev_id e" by auto
    with False assms(1) show ?thesis by (auto simp: stream_inv_def OrdersController_writeEvent_def)
  qed
qed

lemma stream_run:
  assumes "\<forall>op\<in>set ops. \<not> touches i k op" and "nt_listeners n i k = Some ls"
    and "nt_history n i = recent acc" and "sorted_wrt (<) (map ev_id acc)" and "stream_inv l (drop d acc) ls" and "d \<le> length acc"
  shows "\<exists>ls'. nt_listeners (fold run_notify ops n) i k = Some ls'
    \<and> stream_inv l (drop d (fold accept (recorded i ops) acc)) ls'"
  using assms
proof (induction ops arbitrary: n acc ls)
  case (Cons op ops)
  show ?case
  proof (cases op)
    case (Recorded e)
    let ?n = "OrderNotifyService_record e n"
    let ?acc = "if ev_orderId e = i then accept e acc else acc"
    have "\<exists>ls'. nt_listeners ?n i k = Some ls' \<and> stream_inv l (drop d ?acc) ls'"
    proof (cases "ev_orderId e = i \<and> accept e acc \<noteq> acc")
      case True
      then have acc: "accept e acc = acc @ [e]" by (auto simp: accept_def split: if_splits)
      have "\<not> (acc \<noteq> [] \<and> ev_id e \<le> ev_id (last acc))" using True by (auto simp: accept_def)
      then have "nt_listeners ?n i k = Some (OrdersController_writeEvent e ls)"
        using True Cons.prems(2,3) last_recent [of acc] by (auto simp: OrderNotifyService_record_def Let_def)
      moreover have "sorted_wrt (<) (map ev_id (drop d acc @ [e]))"
        using sorted_wrt_drop [OF accept_ids [OF Cons.prems(4), of e], of d] acc Cons.prems(6)
        by (simp add: drop_map)
      ultimately show ?thesis
        using True acc stream_inv_write [OF Cons.prems(5)] Cons.prems(6) by simp
    next
      case False
      have "\<exists>ls'. nt_listeners ?n i k = Some ls' \<and> ls' = ls"
        using False Cons.prems(2,3) last_recent [of acc]
        by (auto simp: OrderNotifyService_record_def Let_def accept_def split: if_splits)
      with False Cons.prems(5) show ?thesis by auto
    qed
    then obtain ls' where ls': "nt_listeners ?n i k = Some ls'" "stream_inv l (drop d ?acc) ls'" by blast
    have hist: "nt_history ?n i = recent ?acc"
      using run_notify_history [OF Cons.prems(3), of "[Recorded e]"] by simp
    have ids: "sorted_wrt (<) (map ev_id ?acc)" using accept_ids Cons.prems(4) by simp
    have len: "d \<le> length ?acc" using Cons.prems(6) by (simp add: accept_def)
    have "fold accept (recorded i (op # ops)) acc = fold accept (recorded i ops) ?acc" by (simp add: Recorded)
    moreover have "fold run_notify (op # ops) n = fold run_notify ops ?n" by (simp add: Recorded)
    moreover have "\<forall>op\<in>set ops. \<not> touches i k op" using Cons.prems(1) by simp
    note Cons.IH [OF this ls'(1) hist ids ls'(2) len]
    ultimately show ?thesis by (simp only:)
  next
    case (Opened j l' k')
    have "\<forall>op\<in>set ops. \<not> touches i k op" using Cons.prems(1) by simp
    with Cons.IH [of "OrdersController_events j l' k' n" ls acc] Cons.prems Opened show ?thesis
      by (auto simp: events_listener)
  next
    case (Dropped j k')
    let ?n = "OrderNotifyService_unsubscribe j k' n"
    have "\<forall>op\<in>set ops. \<not> touches i k op" "nt_listeners ?n i k = Some ls" "nt_history ?n = nt_history n"
      using Cons.prems(1,2) Dropped by (auto simp: OrderNotifyService_unsubscribe_def)
    with Cons.IH [of ?n ls acc] Cons.prems Dropped show ?thesis by simp
  qed
qed auto

text \<open>
  C35. A stream misses nothing and repeats nothing: however events, other streams and disconnections
  interleave, a stream opened after event \<open>l\<close> has sent exactly the accepted events of its
  order with a larger id, once each and in order, save those that the history of a hundred had already dropped when it was
  opened.
\<close>

theorem order_stream_complete:
  assumes "\<forall>op\<in>set later. \<not> touches i k op"
  shows "\<exists>ls. nt_listeners (fold run_notify later (OrdersController_events i l k (fold run_notify earlier empty_notify))) i k = Some ls
    \<and> ls_sent ls = filter (\<lambda>e. l < ev_id e) (drop (length (accepted i earlier) - 100) (accepted i (earlier @ later)))
    \<and> sorted_wrt (<) (map ev_id (ls_sent ls))"
proof -
  let ?n = "fold run_notify earlier empty_notify"
  let ?A = "accepted i earlier" and ?all = "accepted i (earlier @ later)"
  have hist: "nt_history ?n i = recent ?A"
    using run_notify_history [of empty_notify i "[]" earlier] by (simp add: accepted_def empty_notify_def)
  have ids: "sorted_wrt (<) (map ev_id ?A)" "sorted_wrt (<) (map ev_id ?all)"
    by (simp_all add: accepted_def accept_all_ids)
  have all: "?all = fold accept (recorded i later) ?A" by (simp add: accepted_def)
  let ?es = "filter (\<lambda>e. l < ev_id e) (recent ?A)"
  have "sorted_wrt (<) (map ev_id ?es)"
    using ids(1) sorted_wrt_drop [OF ids(1), of "length ?A - ORDER_EVENT_HISTORY_LIMIT"]
    by (simp add: recent_def drop_map sorted_wrt_map sorted_wrt_filter)
  from emit_all [OF this, of l "[]"]
  have started: "\<exists>ls. nt_listeners (OrdersController_events i l k ?n) i k = Some ls \<and> stream_inv l (recent ?A) ls"
    by (simp add: events_listener hist stream_inv_def)
  then obtain ls where ls: "nt_listeners (OrdersController_events i l k ?n) i k = Some ls"
      "stream_inv l (drop (length ?A - ORDER_EVENT_HISTORY_LIMIT) ?A) ls" by (auto simp: recent_def)
  from stream_run [OF assms ls(1) _ ids(1) ls(2)] hist all obtain ls' where
    ls': "nt_listeners (fold run_notify later (OrdersController_events i l k ?n)) i k = Some ls'"
      "stream_inv l (drop (length ?A - 100) ?all) ls'" by (auto simp: ORDER_EVENT_HISTORY_LIMIT_def)
  moreover have "sorted_wrt (<) (map ev_id (ls_sent ls'))"
    using ls'(2) sorted_wrt_drop [OF ids(2), of "length ?A - 100"]
    by (simp add: stream_inv_def drop_map sorted_wrt_map sorted_wrt_filter)
  ultimately show ?thesis by (auto simp: stream_inv_def)
qed

theorem order_stream_complete_witness:
  "\<exists>ls. nt_listeners (fold run_notify [Recorded \<lparr>ev_id = 9, ev_orderId = 1, ev_status = OS_paid\<rparr>, Dropped 1 4]
      (OrdersController_events 1 5 3 (fold run_notify [Recorded \<lparr>ev_id = 5, ev_orderId = 1, ev_status = OS_pending_payment\<rparr>]
        empty_notify))) 1 3 = Some ls \<and> ls_sent ls = [\<lparr>ev_id = 9, ev_orderId = 1, ev_status = OS_paid\<rparr>]"
  using order_stream_complete [of "[Recorded \<lparr>ev_id = 9, ev_orderId = 1, ev_status = OS_paid\<rparr>, Dropped 1 4]" 1 3 5
      "[Recorded \<lparr>ev_id = 5, ev_orderId = 1, ev_status = OS_pending_payment\<rparr>]"]
  by (auto simp: accepted_def accept_def)

end
