(* ===== verification/Order_Api.thy ===== *)
theory Order_Api
  imports Order_Notify
begin

section \<open>The order endpoints\<close>

text \<open>
  The routes of \<open>OrderController\<close> behind the two global guards: a request is authenticated, its role
  checked, its body and parameters validated, and only then handled. \<open>parse_int\<close> and \<open>isUUID\<close> are the checks of
  the framework's pipes.
\<close>

definition order_create_route :: route where
  "order_create_route = \<lparr>rt_http = True, rt_public = False, rt_required = Some (Action_create, Subject_Order)\<rparr>"

definition order_read_route :: route where
  "order_read_route = \<lparr>rt_http = True, rt_public = False, rt_required = Some (Action_read, Subject_Order)\<rparr>"

definition IdempotencyKey :: "string list \<Rightarrow> string option" where
  "IdempotencyKey values = (case values of [] \<Rightarrow> None | v # vs \<Rightarrow> Some v)"

definition OrderController_create ::
  "'keys jwt_verify \<Rightarrow> (string \<Rightarrow> bool) \<Rightarrow> casl \<Rightarrow> (string \<Rightarrow> bool) \<Rightarrow> 'keys auth_env \<Rightarrow> http_request \<Rightarrow> string list
    \<Rightarrow> order_create_input \<Rightarrow> order_env \<Rightarrow> seller_db \<Rightarrow> order_db \<Rightarrow> (http_error + Order) \<times> order_db" where
  "OrderController_create jwtVerify zUuid can isUUID aenv rq keyHeader input env sdb db =
     (case guards jwtVerify zUuid can aenv order_create_route rq of
        (Inl e, rq') \<Rightarrow> (Inl e, db)
      | (Inr passed, rq') \<Rightarrow>
          if \<not> passed then (Inl Forbidden, db)
          else if \<not> OrderCreateInput_valid input then (Inl BadRequest, db)
          else (case Identity_decorator rq' of
                  Inl e \<Rightarrow> (Inl e, db)
                | Inr claims \<Rightarrow>
                    if \<not> pred_option isUUID (IdempotencyKey keyHeader) then (Inl BadRequest, db)
                    else OrderPlaceCommandHandler_execute env sdb input (ac_identityPublicId claims) (IdempotencyKey keyHeader) db))"

text \<open>
  \<open>findById\<close> is the method behind the cache: for a current entry, \<open>OrderService_findById\<close> on the tables. (A hit carries the
  dates of the order as texts. The access check reads only the owner, a text, and the response object makes dates of
  the texts again.)
\<close>

definition OrderController_findOne ::
  "'keys jwt_verify \<Rightarrow> (string \<Rightarrow> bool) \<Rightarrow> casl \<Rightarrow> (string \<Rightarrow> int option) \<Rightarrow> 'keys auth_env \<Rightarrow> http_request \<Rightarrow> string
    \<Rightarrow> (int \<Rightarrow> http_error + (Order \<times> OrderLine list)) \<Rightarrow> http_error + (Order \<times> OrderLine list)" where
  "OrderController_findOne jwtVerify zUuid can parse_int aenv rq idText findById =
     (case guards jwtVerify zUuid can aenv order_read_route rq of
        (Inl e, rq') \<Rightarrow> Inl e
      | (Inr passed, rq') \<Rightarrow>
          if \<not> passed then Inl Forbidden
          else (case parse_int idText of
                  None \<Rightarrow> Inl BadRequest
                | Some i \<Rightarrow>
                    (case CurrentAbility rq' of
                       Inl e \<Rightarrow> Inl e
                     | Inr ability \<Rightarrow> OrderService_findReadableById can ability (findById i))))"

subsection \<open>An order belongs to who placed it\<close>

text \<open>The claims of a request whose token is accepted.\<close>

definition request_claims :: "'keys jwt_verify \<Rightarrow> (string \<Rightarrow> bool) \<Rightarrow> 'keys auth_env \<Rightarrow> http_request \<Rightarrow> AccessTokenClaims option" where
  "request_claims jwtVerify zUuid aenv rq =
     (case bearer_token (rq_authorization rq) of
        None \<Rightarrow> None
      | Some token \<Rightarrow>
          (case AccessTokenVerifierService_verify jwtVerify zUuid aenv token of Inl e \<Rightarrow> None | Inr claims \<Rightarrow> Some claims))"

lemma guards_order_route:
  assumes "casl_documented can" and "rt = order_create_route \<or> rt = order_read_route"
  shows "case request_claims jwtVerify zUuid aenv rq of
      None \<Rightarrow> \<exists>e rq'. guards jwtVerify zUuid can aenv rt rq = (Inl e, rq')
    | Some claims \<Rightarrow> \<exists>rq'. guards jwtVerify zUuid can aenv rt rq = (Inr True, rq') \<and> rq_identity rq' = Some claims
        \<and> rq_ability rq' = Some (AbilityFactory_createFor claims)"
  using assms
  by (auto simp: guards_def AccessTokenGuard_canActivate_def AbilityGuard_canActivate_def request_claims_def
      order_create_route_def order_read_route_def createFor_may may_def Let_def split: option.splits sum.splits)

lemma findReadable_decides:
  assumes "casl_documented can" and "OrderService_findById i db = Inr (r, ls)"
  shows "OrderService_findReadableById can (AbilityFactory_createFor claims) (OrderService_findById i db)
    = (if ac_role claims \<in> {Role_admin, Role_owner} \<or> or_ownerIdentityPublicId r = Some (ac_identityPublicId claims)
       then Inr (r, ls) else Inl Forbidden)"
  using assms by (simp add: OrderService_findReadableById_def createFor_reads_order)

lemma place_new_row:
  assumes "place_new env sdb input buyer key db = Inr (r, db')"
  shows "odb_orders db' = odb_orders db @ [r]" and "or_id r = oe_orderId env" and "or_deletedAt r = None"
    and "or_ownerIdentityPublicId r = Some (by_identityPublicId buyer)"
proof -
  from assms show "odb_orders db' = odb_orders db @ [r]" by (elim place_new_Inr) simp
  from assms show "or_id r = oe_orderId env" "or_deletedAt r = None" "or_ownerIdentityPublicId r = Some (by_identityPublicId buyer)"
    by (elim place_new_Inr, auto simp: OrderPlaceCommandHandler_createOrder_def OrderRepository_create_def Let_def
        split: option.splits if_splits)+
qed

text \<open>
  C10. An order is private to who placed it: an order newly placed through the endpoint belongs to the identity of the
  access token, whatever the body says; afterwards a request reads it exactly when its token is accepted and
  carries that identity or the role of an admin or owner; other accepted tokens are refused as Forbidden, and
  requests without one never reach the order.
\<close>

theorem order_private:
  assumes "casl_documented can"
    and "OrderController_create jwtVerify zUuid can isUUID aenv rq keyHeader input env sdb db = (Inr r, db')"
    and "odb_orders db' \<noteq> odb_orders db" and "int4 (oe_orderId env)"
    and "\<forall>q\<in>set (odb_orders db). or_id q \<noteq> oe_orderId env" and "parse_int idText = Some (or_id r)"
  shows "\<exists>claims. request_claims jwtVerify zUuid aenv rq = Some claims
    \<and> or_ownerIdentityPublicId r = Some (ac_identityPublicId claims)
    \<and> (case request_claims jwtVerify zUuid aenv' rq'' of
         None \<Rightarrow> \<exists>e. OrderController_findOne jwtVerify zUuid can parse_int aenv' rq'' idText (\<lambda>i. OrderService_findById i db') = Inl e
       | Some reader \<Rightarrow>
           OrderController_findOne jwtVerify zUuid can parse_int aenv' rq'' idText (\<lambda>i. OrderService_findById i db')
             = (if ac_role reader \<in> {Role_admin, Role_owner} \<or> ac_identityPublicId reader = ac_identityPublicId claims
                then Inr (r, order_lines (or_id r) db') else Inl Forbidden))"
proof -
  from assms(2) guards_order_route [OF assms(1), of order_create_route jwtVerify zUuid aenv rq]
  obtain claims where claims: "request_claims jwtVerify zUuid aenv rq = Some claims"
    and place: "OrderPlaceCommandHandler_execute env sdb input (ac_identityPublicId claims) (IdempotencyKey keyHeader) db = (Inr r, db')"
    by (auto simp: OrderController_create_def Identity_decorator_def split: option.splits if_splits prod.splits sum.splits)
  from place assms(3) obtain buyer where buyer: "OrderBuyerRepository_findByIdentityPublicId (ac_identityPublicId claims) db = Some buyer"
    and new: "place_new env sdb input buyer (IdempotencyKey keyHeader) db = Inr (r, db')"
    by (auto simp: OrderPlaceCommandHandler_execute_def OrderPlaceCommandHandler_createPending_def transactional_def
        split: option.splits sum.splits)
  have "by_identityPublicId buyer = ac_identityPublicId claims"
    using buyer find_row_Some unfolding OrderBuyerRepository_findByIdentityPublicId_def by fastforce
  note row = place_new_row [OF new]
  have owner: "or_ownerIdentityPublicId r = Some (ac_identityPublicId claims)"
    using row(4) \<open>by_identityPublicId buyer = _\<close> by simp
  have "find_row (\<lambda>q. or_id q = oe_orderId env \<and> or_deletedAt q = None) (odb_orders db) = None"
    using assms(5) by (auto simp: find_row_None)
  then have found: "OrderService_findById (or_id r) db' = Inr (r, order_lines (or_id r) db')"
    using row assms(4) by (simp add: OrderService_findById_def OrderRepository_findByIdOrFail_def find_row_append)
  have "case request_claims jwtVerify zUuid aenv' rq'' of
         None \<Rightarrow> \<exists>e. OrderController_findOne jwtVerify zUuid can parse_int aenv' rq'' idText (\<lambda>i. OrderService_findById i db') = Inl e
       | Some reader \<Rightarrow>
           OrderController_findOne jwtVerify zUuid can parse_int aenv' rq'' idText (\<lambda>i. OrderService_findById i db')
             = (if ac_role reader \<in> {Role_admin, Role_owner} \<or> ac_identityPublicId reader = ac_identityPublicId claims
                then Inr (r, order_lines (or_id r) db') else Inl Forbidden)"
    using guards_order_route [OF assms(1), of order_read_route jwtVerify zUuid aenv' rq''] assms(6) owner
      findReadable_decides [OF assms(1) found]
    by (auto simp: OrderController_findOne_def CurrentAbility_def split: option.splits)
  with claims owner show ?thesis by blast
qed

definition demo_request :: http_request where
  "demo_request = \<lparr>rq_authorization = Some (''Bearer '' @ demo_token), rq_identity = None, rq_ability = None, rq_wwwAuthenticate = None\<rparr>"

lemma demo_request_claims: "request_claims demo_jwtVerify (\<lambda>s. s \<noteq> []) demo_auth_env demo_request = Some demo_claims"
proof -
  have "demo_token \<noteq> []" "CHR '' '' \<notin> set demo_token" by (simp_all add: demo_token_def demo_sign_def)
  then have "bearer_token (rq_authorization demo_request) = Some demo_token"
    using bearer_token_Some [of "rq_authorization demo_request" demo_token] by (simp add: demo_request_def)
  moreover have "AccessTokenVerifierService_verify demo_jwtVerify (\<lambda>s. s \<noteq> []) demo_auth_env demo_token = Inr demo_claims"
    using demo_verify [OF refl] demo_schema
    by (auto simp: verify_Inr denylist_passes_def demo_auth_env_def family_denied_def redis_get_def demo_claims_def)
  ultimately show ?thesis by (simp add: request_claims_def)
qed

definition demo_api_orders :: order_db where
  "demo_api_orders = demo_orders\<lparr>odb_buyers := [demo_buyer\<lparr>by_identityPublicId := ''i''\<rparr>]\<rparr>"

lemma demo_create:
  "\<exists>r db'. OrderController_create demo_jwtVerify (\<lambda>s. s \<noteq> []) demo_can (\<lambda>k. True) demo_auth_env demo_request []
      demo_input demo_order_env demo_stock demo_api_orders = (Inr r, db') \<and> odb_orders db' \<noteq> odb_orders demo_api_orders
      \<and> or_id r = 1"
proof -
  have "fresh_env demo_order_env demo_api_orders" "uint (by_userId (demo_buyer\<lparr>by_identityPublicId := ''i''\<rparr>))"
    by (simp_all add: fresh_env_def demo_order_env_def demo_orders_def demo_api_orders_def uint_def demo_buyer_def)
  with place_new_succeeds [OF demo_placeable, of demo_order_env demo_api_orders "demo_buyer\<lparr>by_identityPublicId := ''i''\<rparr>" None]
  obtain r db' where new: "place_new demo_order_env demo_stock demo_input (demo_buyer\<lparr>by_identityPublicId := ''i''\<rparr>) None demo_api_orders
      = Inr (r, db')" by (auto simp: demo_orders_def demo_api_orders_def)
  have "OrderCreateInput_valid demo_input" using demo_placeable by (simp add: placeable_def)
  with new guards_order_route [OF demo_casl, of order_create_route demo_jwtVerify "\<lambda>s. s \<noteq> []" demo_auth_env demo_request]
  have "OrderController_create demo_jwtVerify (\<lambda>s. s \<noteq> []) demo_can (\<lambda>k. True) demo_auth_env demo_request []
      demo_input demo_order_env demo_stock demo_api_orders = (Inr r, db')"
    by (auto simp: demo_request_claims OrderController_create_def Identity_decorator_def demo_claims_def IdempotencyKey_def
        OrderPlaceCommandHandler_execute_def OrderBuyerRepository_findByIdentityPublicId_def demo_api_orders_def demo_buyer_def
        OrderPlaceCommandHandler_createPending_def transactional_def)
  with place_new_row [OF new] show ?thesis by (auto simp: demo_order_env_def)
qed

theorem order_private_witness:
  "\<exists>r db'. OrderController_create demo_jwtVerify (\<lambda>s. s \<noteq> []) demo_can (\<lambda>k. True) demo_auth_env demo_request []
      demo_input demo_order_env demo_stock demo_api_orders = (Inr r, db')
    \<and> OrderController_findOne demo_jwtVerify (\<lambda>s. s \<noteq> []) demo_can (\<lambda>s. Some 1) demo_auth_env demo_request ''1''
        (\<lambda>i. OrderService_findById i db') = Inr (r, order_lines 1 db')"
proof -
  from demo_create obtain r db' where made: "OrderController_create demo_jwtVerify (\<lambda>s. s \<noteq> []) demo_can (\<lambda>k. True) demo_auth_env
      demo_request [] demo_input demo_order_env demo_stock demo_api_orders = (Inr r, db')"
    and new: "odb_orders db' \<noteq> odb_orders demo_api_orders" and i: "or_id r = 1" by blast
  from order_private [OF demo_casl made new, where idText = "''1''" and parse_int = "\<lambda>s. Some 1"
      and aenv' = demo_auth_env and rq'' = demo_request]
  have "OrderController_findOne demo_jwtVerify (\<lambda>s. s \<noteq> []) demo_can (\<lambda>s. Some 1) demo_auth_env demo_request ''1''
        (\<lambda>i. OrderService_findById i db') = Inr (r, order_lines 1 db')"
    using i by (simp add: demo_request_claims demo_order_env_def int4_def demo_api_orders_def demo_orders_def)
  with made show ?thesis by blast
qed

end
