(* ===== verification/Rate_Limit.thy ===== *)
theory Rate_Limit
  imports Auth
begin

section \<open>The sliding window of the rate limiter\<close>

text \<open>
  \<open>RedisThrottlerStorage\<close>: the Lua script that Redis runs atomically on one sorted set per key, and the
  record that the throttler guard reads. The sorted set is kept as the list of its members with their
  scores, in the order of insertion; the clock of Redis does not run backwards, so that this is also the order of the scores.
  The expiry of the set (\<open>PEXPIRE\<close> with the width of the window) removes only members the next
  call would remove itself.
\<close>

subsection \<open>The script\<close>

type_synonym zset = "(time \<times> uuid) list"

definition zset_trim :: "time \<Rightarrow> int \<Rightarrow> zset \<Rightarrow> zset" where
  "zset_trim now window z = filter (\<lambda>(score, member). now - window < score) z"

text \<open>\<open>ZADD\<close> moves a member that is already there.\<close>

definition zset_add :: "time \<Rightarrow> uuid \<Rightarrow> zset \<Rightarrow> zset" where
  "zset_add score member z = filter (\<lambda>(s, m). m \<noteq> member) z @ [(score, member)]"

record script_reply =
  sc_allowed :: bool
  sc_hits :: nat
  sc_windowLeftMs :: int

definition slidingWindowScript :: "time \<Rightarrow> int \<Rightarrow> nat \<Rightarrow> uuid \<Rightarrow> zset \<Rightarrow> script_reply option \<times> zset" where
  "slidingWindowScript now window limit member z0 =
     (let z1 = zset_trim now window z0;
          allowed = length z1 < limit;
          z = (if allowed then zset_add now member z1 else z1)
      in (case z of
            [] \<Rightarrow> None
          | (oldest, m) # ms \<Rightarrow> Some \<lparr>sc_allowed = allowed, sc_hits = length z, sc_windowLeftMs = oldest + window - now\<rparr>, z))"

subsection \<open>The record for the guard\<close>

record ThrottlerStorageRecord =
  ts_totalHits :: nat
  ts_timeToExpire :: int
  ts_isBlocked :: bool
  ts_timeToBlockExpire :: int

definition ceil_seconds :: "int \<Rightarrow> int" where
  "ceil_seconds ms = - ((- ms) div 1000)"

definition RedisThrottlerStorage_increment ::
  "time \<Rightarrow> int \<Rightarrow> nat \<Rightarrow> uuid \<Rightarrow> zset \<Rightarrow> ThrottlerStorageRecord option \<times> zset" where
  "RedisThrottlerStorage_increment now ttl limit member z =
     (case slidingWindowScript now ttl limit member z of
        (None, z') \<Rightarrow> (None, z')
      | (Some reply, z') \<Rightarrow>
          (let windowLeftSeconds = max 1 (ceil_seconds (sc_windowLeftMs reply))
           in (Some \<lparr>ts_totalHits = (if sc_allowed reply then sc_hits reply else sc_hits reply + 1),
                     ts_timeToExpire = windowLeftSeconds, ts_isBlocked = (\<not> sc_allowed reply),
                     ts_timeToBlockExpire = (if \<not> sc_allowed reply then windowLeftSeconds else 0)\<rparr>, z')))"

text \<open>The limits of the login and link routes; the trackers that build the keys are not modelled.\<close>

definition IDENTITY_LOGIN_THROTTLE_LIMIT :: nat where "IDENTITY_LOGIN_THROTTLE_LIMIT = 5"
definition IDENTITY_LOGIN_THROTTLE_TTL_MS :: int where "IDENTITY_LOGIN_THROTTLE_TTL_MS = 60000"

subsection \<open>A run of requests\<close>

text \<open>
  A request is the time of Redis and a fresh member; the history keeps the times of the requests
  that were let through.
\<close>

fun throttle_run :: "int \<Rightarrow> nat \<Rightarrow> (time \<times> uuid) list \<Rightarrow> zset \<Rightarrow> time list" where
  "throttle_run window limit [] z = []"
| "throttle_run window limit ((now, member) # rs) z =
     (case RedisThrottlerStorage_increment now window limit member z of
        (Some record, z') \<Rightarrow> (if ts_isBlocked record then [] else [now]) @ throttle_run window limit rs z'
      | (None, z') \<Rightarrow> throttle_run window limit rs z')"

subsection \<open>The reference\<close>

text \<open>
  What a sliding window should do: let a request pass when fewer than \<open>limit\<close> requests have passed
  in the window that ends with it.
\<close>

fun window_reference :: "int \<Rightarrow> nat \<Rightarrow> time list \<Rightarrow> time list \<Rightarrow> time list" where
  "window_reference window limit [] passed = []"
| "window_reference window limit (now # rs) passed =
     (if length (filter (\<lambda>t. now - window < t) passed) < limit
      then now # window_reference window limit rs (passed @ [now])
      else window_reference window limit rs passed)"

lemma zset_trim_trim: "before \<le> now \<Longrightarrow> zset_trim now window (zset_trim before window h) = zset_trim now window h"
  by (auto simp: zset_trim_def intro!: filter_cong)

lemma length_zset_trim: "length (zset_trim now window h) = length (filter (\<lambda>t. now - window < t) (map fst h))"
  by (induction h) (auto simp: zset_trim_def split: prod.splits)

lemma zset_add_fresh: "member \<notin> snd ` set z \<Longrightarrow> zset_add now member z = z @ [(now, member)]"
  by (force simp: zset_add_def intro!: filter_True)

lemma script_step:
  fixes now :: time
  assumes "0 < limit" and "0 < window" and "member \<notin> snd ` set z"
  defines "z1 \<equiv> zset_trim now window z"
  shows "\<exists>record. RedisThrottlerStorage_increment now window limit member z =
    (Some record, if length z1 < limit then z1 @ [(now, member)] else z1) \<and> ts_isBlocked record = (\<not> length z1 < limit)"
proof -
  have "member \<notin> snd ` set z1" using assms(3) by (auto simp: z1_def zset_trim_def)
  note add = zset_add_fresh [OF this, of now]
  let ?z = "if length z1 < limit then z1 @ [(now, member)] else z1"
  have "?z \<noteq> []" using assms(1) by auto
  then obtain t m ms where z: "?z = (t, m) # ms" by (metis list.exhaust surj_pair)
  have "slidingWindowScript now window limit member z = (Some \<lparr>sc_allowed = (length z1 < limit),
      sc_hits = length ?z, sc_windowLeftMs = t + window - now\<rparr>, ?z)"
    unfolding slidingWindowScript_def Let_def z1_def [symmetric] add z by simp
  then show ?thesis by (simp add: RedisThrottlerStorage_increment_def Let_def)
qed

lemma throttle_run_reference:
  assumes "0 < limit" and "0 < window" and "sorted (map fst rs)" and "\<forall>(now, m)\<in>set rs. before \<le> now"
    and "distinct (map snd rs)" and "snd ` set rs \<inter> snd ` set h = {}"
  shows "throttle_run window limit rs (zset_trim before window h) = window_reference window limit (map fst rs) (map fst h)"
  using assms(3-)
proof (induction rs arbitrary: before h)
  case (Cons r rs)
  obtain now m where r: "r = (now, m)" by (cases r)
  let ?z = "zset_trim before window h"
  have before: "before \<le> now" using Cons.prems r by auto
  have later: "\<forall>(t, m)\<in>set rs. now \<le> t" using Cons.prems r by auto
  have fresh: "m \<notin> snd ` set ?z" using Cons.prems r by (auto simp: zset_trim_def)
  have len: "length (zset_trim now window ?z) = length (filter (\<lambda>t. now - window < t) (map fst h))"
    by (simp add: zset_trim_trim before length_zset_trim)
  have grown: "zset_trim now window (h @ [(now, m)]) = zset_trim now window h @ [(now, m)]"
    using assms(2) by (simp add: zset_trim_def)
  from script_step [OF assms(1,2) fresh, of now] obtain reply where
    step: "RedisThrottlerStorage_increment now window limit m ?z = (Some reply,
      if length (zset_trim now window ?z) < limit then zset_trim now window ?z @ [(now, m)] else zset_trim now window ?z)"
      "ts_isBlocked reply = (\<not> length (zset_trim now window ?z) < limit)" by blast
  have "throttle_run window limit rs (zset_trim now window (h @ [(now, m)]))
      = window_reference window limit (map fst rs) (map fst (h @ [(now, m)]))"
    using Cons.prems r later by (intro Cons.IH) auto
  moreover have "throttle_run window limit rs (zset_trim now window h) = window_reference window limit (map fst rs) (map fst h)"
    using Cons.prems r later by (intro Cons.IH) auto
  ultimately show ?case
    using step len by (simp add: r grown zset_trim_trim before)
qed simp

lemma window_reference_bound:
  assumes "0 < window" and "sorted rs" and "\<forall>p\<in>set passed. \<forall>r\<in>set rs. p \<le> r"
    and "\<And>t. length (filter (\<lambda>p. t - window < p \<and> p \<le> t) passed) \<le> limit"
  shows "length (filter (\<lambda>p. t - window < p \<and> p \<le> t) (passed @ window_reference window limit rs passed)) \<le> limit"
  using assms(2-)
proof (induction rs arbitrary: passed)
  case (Cons now rs)
  show ?case
  proof (cases "length (filter (\<lambda>p. now - window < p) passed) < limit")
    case True
    have "length (filter (\<lambda>p. t - window < p \<and> p \<le> t) (passed @ [now])) \<le> limit" for t
    proof (cases "now \<le> t")
      case True
      have "length (filter (\<lambda>p. t - window < p \<and> p \<le> t) passed) \<le> length (filter (\<lambda>p. now - window < p) passed)"
        using \<open>now \<le> t\<close> by (induction passed) auto
      with \<open>length (filter (\<lambda>p. now - window < p) passed) < limit\<close> show ?thesis by auto
    next
      case False
      with Cons.prems(3) [of t] show ?thesis by simp
    qed
    then have "length (filter (\<lambda>p. t - window < p \<and> p \<le> t) ((passed @ [now]) @ window_reference window limit rs (passed @ [now]))) \<le> limit"
      using Cons.prems by (intro Cons.IH) auto
    with True show ?thesis by simp
  next
    case False
    with Cons show ?thesis by auto
  qed
qed (use assms in simp)

text \<open>
  C36. On a positive limit, the script lets exactly those requests pass that the reference sliding
  window lets pass, whatever the arrival times are, and in no window of the given width, wherever
  it ends, do more than the limit pass.
\<close>

theorem rate_limit_window:
  assumes "0 < limit" and "0 < window" and "sorted (map fst rs)" and "distinct (map snd rs)"
  shows "throttle_run window limit rs [] = window_reference window limit (map fst rs) []
    \<and> length (filter (\<lambda>p. t - window < p \<and> p \<le> t) (throttle_run window limit rs [])) \<le> limit"
proof -
  have "throttle_run window limit rs [] = window_reference window limit (map fst rs) []"
  proof (cases rs)
    case (Cons r rs')
    have "\<forall>(now, m)\<in>set rs. fst r \<le> now" using assms(3) Cons by auto
    from throttle_run_reference [OF assms(1-3) this assms(4), of "[]"] show ?thesis by (simp add: zset_trim_def)
  qed simp
  moreover have "length (filter (\<lambda>p. t - window < p \<and> p \<le> t) ([] @ window_reference window limit (map fst rs) [])) \<le> limit"
    by (rule window_reference_bound) (use assms in auto)
  ultimately show ?thesis by simp
qed

theorem rate_limit_window_witness:
  "throttle_run 10 2 [(0, ''a''), (3, ''b''), (9, ''c''), (10, ''d''), (12, ''e''), (13, ''f'')] [] = [0, 3, 10, 13]"
proof -
  have "throttle_run 10 2 [(0, ''a''), (3, ''b''), (9, ''c''), (10, ''d''), (12, ''e''), (13, ''f'')] []
      = window_reference 10 2 [0, 3, 9, 10, 12, 13] []"
    using rate_limit_window [of 2 10 "[(0, ''a''), (3, ''b''), (9, ''c''), (10, ''d''), (12, ''e''), (13, ''f'')]" 0] by simp
  then show ?thesis by simp
qed

end
