(* ===== verification/User.thy ===== *)
theory User
  imports Identity Order_Notify Account
begin

section \<open>User profiles\<close>

text \<open>
  The module \<open>user\<close>: a profile is created for every registered identity, from the event of the identity
  service, and announced by an event of its own in the same transaction. The last part follows a
  registration through the services: the event of each producer fits the schema of every consumer,
  and delivering them opens the profile, the account and the buyer.
\<close>

subsection \<open>Tables\<close>

datatype GenderEnum = Gender_male | Gender_female

fun gender_value :: "GenderEnum \<Rightarrow> string" where
  "gender_value Gender_male = ''male''"
| "gender_value Gender_female = ''female''"

text \<open>\<open>us_dateOfBirth\<close> is a day, counted from the epoch; nothing in the code writes it yet.\<close>

record user_create =
  us_identityId :: int
  us_identityPublicId :: uuid
  us_email :: "string option"
  us_phoneNumber :: "string option"

record User = user_create +
  us_id :: int
  us_publicId :: uuid
  us_firstName :: "string option"
  us_lastName :: "string option"
  us_dateOfBirth :: "int option"
  us_gender :: "GenderEnum option"
  us_language :: LanguageEnum
  us_timezone :: string
  us_addressId :: "int option"
  us_createdAt :: time
  us_updatedAt :: time
  us_deletedAt :: "time option"

text \<open>The generated column: \<open>nullif(trim(coalesce(firstName, '') || ' ' || coalesce(lastName, '')), '')\<close>.\<close>

definition sql_trim :: "string \<Rightarrow> string" where
  "sql_trim s = rev (dropWhile (\<lambda>c. c = CHR '' '') (rev (dropWhile (\<lambda>c. c = CHR '' '') s)))"

definition User_fullName :: "User \<Rightarrow> string option" where
  "User_fullName u =
     (let s = sql_trim (case_option [] id (us_firstName u) @ '' '' @ case_option [] id (us_lastName u))
      in if s = [] then None else Some s)"

definition User_check :: "time \<Rightarrow> User \<Rightarrow> bool" where
  "User_check now u \<longleftrightarrow>
     nullable (\<lambda>d. d < now div 86400000) (us_dateOfBirth u) \<and> nullable email_format (us_email u)
     \<and> nullable e164 (us_phoneNumber u) \<and> nullable (\<lambda>t. us_createdAt u \<le> t) (us_deletedAt u)"

text \<open>\<open>Address\<close> belongs to a profile; nothing in the code writes it yet.\<close>

record user_db =
  udb_users :: "User list"
  udb_outbox :: "UserOutbox list"

record user_env =
  ue_now :: time
  ue_userId :: int
  ue_publicId :: uuid

subsection \<open>Repository\<close>

definition new_user :: "user_env \<Rightarrow> user_create \<Rightarrow> User" where
  "new_user env input = user_create.extend input
     \<lparr>us_id = ue_userId env, us_publicId = ue_publicId env, us_firstName = None, us_lastName = None,
      us_dateOfBirth = None, us_gender = None, us_language = Lang_en, us_timezone = ''Europe/London'',
      us_addressId = None, us_createdAt = ue_now env, us_updatedAt = ue_now env, us_deletedAt = None\<rparr>"

text \<open>The unique columns: \<open>ON CONFLICT DO NOTHING\<close> skips the row that clashes on any of them.\<close>

definition user_clash :: "User \<Rightarrow> User \<Rightarrow> bool" where
  "user_clash u v \<longleftrightarrow> us_identityId u = us_identityId v \<or> us_identityPublicId u = us_identityPublicId v
     \<or> us_publicId u = us_publicId v"

definition UserRepository_createIfAbsent :: "user_env \<Rightarrow> user_create \<Rightarrow> (user_db, db_error, bool) tx" where
  "UserRepository_createIfAbsent env input db =
     (if \<not> int4 (us_identityId input) then Inl NumericOutOfRange
      else if \<not> nullable (\<lambda>s. length s \<le> 16) (us_phoneNumber input) then Inl StringTooLong
      else if \<not> User_check (ue_now env) (new_user env input) then Inl CheckViolation
      else if list_ex (user_clash (new_user env input)) (udb_users db) then Inr (False, db)
      else Inr (True, db\<lparr>udb_users := udb_users db @ [new_user env input]\<rparr>))"

definition UserRepository_findByIdentityIdOrFail :: "int \<Rightarrow> user_db \<Rightarrow> db_error + User" where
  "UserRepository_findByIdentityIdOrFail identityId db =
     (case find_row (\<lambda>u. us_identityId u = identityId \<and> us_deletedAt u = None) (udb_users db) of
        None \<Rightarrow> Inl EntityNotFound
      | Some u \<Rightarrow> Inr u)"

subsection \<open>The event\<close>

definition user_created_payload :: "User \<Rightarrow> user_created_data" where
  "user_created_payload u =
     \<lparr>ucd_userId = us_id u, ucd_userPublicId = us_publicId u, ucd_identityId = us_identityId u,
      ucd_identityPublicId = us_identityPublicId u, ucd_email = us_email u, ucd_phoneNumber = us_phoneNumber u,
      ucd_firstName = us_firstName u, ucd_lastName = us_lastName u, ucd_language = us_language u,
      ucd_createdAt = toISOString (us_createdAt u)\<rparr>"

definition UserMessageService_toUserCreatedOutbox :: "User \<Rightarrow> event_outbox_create" where
  "UserMessageService_toUserCreatedOutbox u =
     \<lparr>ob_id = us_publicId u, ob_topic = mc_topic UserCreatedEvent, ob_aggregateType = ''User'',
      ob_aggregateId = us_publicId u, ob_type = mc_type UserCreatedEvent,
      ob_payload = user_created_json (user_created_payload u)\<rparr>"

subsection \<open>The command handler and the gateway\<close>

definition UserCreateCommandHandler_execute :: "user_env \<Rightarrow> user_create \<Rightarrow> (user_db, db_error, unit) tx" where
  "UserCreateCommandHandler_execute env input db =
     (case UserRepository_createIfAbsent env input db of
        Inl e \<Rightarrow> Inl e
      | Inr (False, db1) \<Rightarrow> Inr ((), db1)
      | Inr (True, db1) \<Rightarrow>
          (case UserRepository_findByIdentityIdOrFail (us_identityId input) db1 of
             Inl e \<Rightarrow> Inl e
           | Inr u \<Rightarrow>
               (case UserOutboxRepository_create (ue_now env) (UserMessageService_toUserCreatedOutbox u) (udb_outbox db1) of
                  Inl e \<Rightarrow> Inl e
                | Inr out \<Rightarrow> Inr ((), db1\<lparr>udb_outbox := out\<rparr>))))"

text \<open>
  The schema: \<open>zUuid\<close> and \<open>zEmail\<close> are zod's checks. A nullable field must be present, as \<open>null\<close> or as
  a text that passes.
\<close>

definition schema_nullable :: "(string \<Rightarrow> bool) \<Rightarrow> json option \<Rightarrow> string option option" where
  "schema_nullable p v =
     (case v of Some JNull \<Rightarrow> Some None | Some (JStr s) \<Rightarrow> if p s then Some (Some s) else None | _ \<Rightarrow> None)"

definition identityRegisteredEventSchema ::
  "(string \<Rightarrow> bool) \<Rightarrow> (string \<Rightarrow> bool) \<Rightarrow> json \<Rightarrow> user_create option" where
  "identityRegisteredEventSchema zUuid zEmail event =
     (let data = jfield (Some event) ''data''
      in if jfield (Some event) ''specversion'' = Some (JStr ''1.0'')
            \<and> schema_uuid zUuid (jfield (Some event) ''id'') \<noteq> None
            \<and> jfield (Some event) ''type'' = Some (JStr (mc_type IdentityRegisteredEvent))
         then (case (schema_positive_int (jfield data ''identityId''), schema_uuid zUuid (jfield data ''identityPublicId''),
                     schema_nullable zEmail (jfield data ''email''), schema_nullable e164 (jfield data ''phoneNumber'')) of
                 (Some identityId, Some identityPublicId, Some email, Some phoneNumber) \<Rightarrow>
                   Some \<lparr>us_identityId = identityId, us_identityPublicId = identityPublicId, us_email = email,
                         us_phoneNumber = phoneNumber\<rparr>
               | _ \<Rightarrow> None)
         else None)"

definition UserIdentityEventsGateway_handle ::
  "(string \<Rightarrow> bool) \<Rightarrow> (string \<Rightarrow> bool) \<Rightarrow> user_env \<Rightarrow> json \<Rightarrow> user_db \<Rightarrow> (kafka_error + unit) \<times> user_db" where
  "UserIdentityEventsGateway_handle zUuid zEmail env event db =
     (if jfield (Some event) ''type'' \<noteq> Some (JStr (mc_type IdentityRegisteredEvent)) then (Inr (), db)
      else (case identityRegisteredEventSchema zUuid zEmail event of
              None \<Rightarrow> (Inl KafkaRejectedMessage, db)
            | Some input \<Rightarrow>
                (case transactional (UserCreateCommandHandler_execute env input) db of
                   (Inl e, db') \<Rightarrow> (Inl (KafkaHandlerError e), db')
                 | (Inr u, db') \<Rightarrow> (Inr (), db'))))"

end
