(* ===== verification/Provisioning.thy ===== *)
theory Provisioning
  imports User Identity_Entry Order_Workflow
begin

section \<open>From a registration to a buyer with an account\<close>

text \<open>
  What crosses the service boundaries as events: each event a producer writes, in the envelope its
  relay builds, is accepted by the schema of every service that consumes it; and the chain of events
  that a registration sets off creates the profile, the account and the buyer.
\<close>

subsection \<open>Events on the wire\<close>

text \<open>A row as \<open>event_insert\<close> writes it, and the JSON value the relay of each service publishes for it.\<close>

definition written_row :: "time \<Rightarrow> event_outbox_create \<Rightarrow> event_outbox" where
  "written_row now input = event_outbox_create.extend input
     \<lparr>ob_createdAt = now, ob_publishedAt = None, ob_attempts = 0, ob_lastError = None\<rparr>"

definition identity_wire :: "time \<Rightarrow> Identity \<Rightarrow> json" where
  "identity_wire now i = cloud_event_json id (IdentityOutboxRelayService_toCloudEvent
     (written_row now (IdentityMessageService_toIdentityRegisteredOutbox i)))"

definition user_wire :: "time \<Rightarrow> User \<Rightarrow> json" where
  "user_wire now u = cloud_event_json id (UserOutboxRelayService_toCloudEvent
     (written_row now (UserMessageService_toUserCreatedOutbox u)))"

definition order_wire :: "time \<Rightarrow> event_outbox_create \<Rightarrow> json" where
  "order_wire now input = cloud_event_json id (OrderOutboxRelayService_toCloudEvent (written_row now input))"

lemmas wire_defs = identity_wire_def user_wire_def order_wire_def written_row_def event_outbox_create.defs
  event_cloud_event_def IdentityOutboxRelayService_toCloudEvent_def UserOutboxRelayService_toCloudEvent_def
  OrderOutboxRelayService_toCloudEvent_def IdentityMessageService_toIdentityRegisteredOutbox_def
  UserMessageService_toUserCreatedOutbox_def user_created_payload_def toOrderCreatedOutbox_def
  toOrderPaidOutbox_def toOrderFailedOutbox_def

lemma schema_positive_column [simp]:
  "int4 n \<Longrightarrow> 0 < n \<Longrightarrow> schema_positive_int (Some (JNum (of_int n))) = Some n"
  using int4_safe [of n] by (simp add: schema_positive_int_def)

lemma schema_nullable_jnullable [simp]:
  "nullable p v \<Longrightarrow> schema_nullable p (Some (jnullable v)) = Some v"
  by (cases v) (simp_all add: schema_nullable_def jnullable_def)

lemma identity_wire_schema:
  assumes "zUuid (id_publicId i)" and "int4 (id_id i)" and "0 < id_id i" and "nullable zEmail (id_email i)"
    and "nullable e164 (lp_fullNumber (id_loginPhone i))"
  shows "identityRegisteredEventSchema zUuid zEmail (identity_wire now i)
    = Some \<lparr>us_identityId = id_id i, us_identityPublicId = id_publicId i, us_email = id_email i,
            us_phoneNumber = lp_fullNumber (id_loginPhone i)\<rparr>"
    and "jfield (Some (identity_wire now i)) ''type'' = Some (JStr (mc_type IdentityRegisteredEvent))"
  using assms
  by (simp_all add: identityRegisteredEventSchema_def wire_defs message_simps schema_uuid_def Let_def
      del: safe_integer.simps)

lemma user_wire_schemas:
  assumes "zUuid (us_publicId u)" and "zUuid (us_identityPublicId u)" and "int4 (us_id u)" and "0 < us_id u"
  shows "account_userCreatedEventSchema zUuid (user_wire now u) = Some (us_id u, us_publicId u)"
    and "userCreatedEventSchema zUuid (user_wire now u) = Some (us_id u, Some (us_identityPublicId u))"
    and "jfield (Some (user_wire now u)) ''type'' = Some (JStr (mc_type UserCreatedEvent))"
  using assms int4_safe [of "us_id u"]
  by (simp_all add: account_userCreatedEventSchema_def userCreatedEventSchema_def wire_defs message_simps
      schema_uuid_def Let_def schema_positive_int_def del: safe_integer.simps)

lemma order_wire_schemas:
  assumes "int4 (or_id r)" and "0 < or_id r"
  shows "orderStatusEventSchema (order_wire now (toOrderCreatedOutbox i r)) = Some (or_id r, OS_pending_payment)"
    and "orderStatusEventSchema (order_wire now (toOrderPaidOutbox i r ls)) = Some (or_id r, OS_paid)"
    and "orderStatusEventSchema (order_wire now (toOrderFailedOutbox i r (toFailure ft)))
      = Some (or_id r, fl_status (toFailure ft))"
  using assms int4_safe [of "or_id r"]
  by (simp_all add: orderStatusEventSchema_def wire_defs message_simps schema_positive_int_def toFailure_def
      order_status_of_def order_statuses_def del: safe_integer.simps)

text \<open>
  C38. The events fit: an event of a registered identity passes the schema of the user service, the
  event of a profile passes those of the account and the order service, and every event of an order
  passes that of the notifier, each with the data of the row it was written for. The rows
  carry generated ids; the email must be one that zod accepts as well.
\<close>

theorem events_fit_schemas:
  assumes "zUuid (id_publicId i)" and "int4 (id_id i)" and "0 < id_id i"
    and "Identity_check (identity_create.truncate i)" and "nullable zEmail (id_email i)"
    and "zUuid (us_publicId u)" and "zUuid (us_identityPublicId u)" and "int4 (us_id u)" and "0 < us_id u"
    and "int4 (or_id r)" and "0 < or_id r"
  shows "identityRegisteredEventSchema zUuid zEmail (identity_wire t i)
      = Some \<lparr>us_identityId = id_id i, us_identityPublicId = id_publicId i, us_email = id_email i,
              us_phoneNumber = lp_fullNumber (id_loginPhone i)\<rparr>
    \<and> account_userCreatedEventSchema zUuid (user_wire t u) = Some (us_id u, us_publicId u)
    \<and> userCreatedEventSchema zUuid (user_wire t u) = Some (us_id u, Some (us_identityPublicId u))
    \<and> orderStatusEventSchema (order_wire t (toOrderCreatedOutbox m r)) = Some (or_id r, OS_pending_payment)
    \<and> orderStatusEventSchema (order_wire t (toOrderPaidOutbox m r ls)) = Some (or_id r, OS_paid)
    \<and> orderStatusEventSchema (order_wire t (toOrderFailedOutbox m r (toFailure ft))) = Some (or_id r, fl_status (toFailure ft))"
proof -
  have "nullable e164 (lp_fullNumber (id_loginPhone i))"
    using assms(4) by (simp add: Identity_check_def identity_create.truncate_def)
  with assms show ?thesis by (simp add: identity_wire_schema user_wire_schemas order_wire_schemas)
qed

definition demo_user_env :: user_env where
  "demo_user_env = \<lparr>ue_now = 0, ue_userId = 7, ue_publicId = ''u7''\<rparr>"

definition demo_user :: User where
  "demo_user = new_user demo_user_env
     \<lparr>us_identityId = 1, us_identityPublicId = ''i1'', us_email = Some ''a@b.c'', us_phoneNumber = None\<rparr>"

definition demo_wire_order :: Order where
  "demo_wire_order = \<lparr>or_id = 5, or_publicId = ''o5'', or_userId = 7, or_orderRecipientId = 1,
     or_idempotencyKey = None, or_ownerIdentityPublicId = None, or_status = OS_pending_payment,
     or_totalAmount = 100, or_discountAmount = 0, or_currency = UAH, or_createdAt = 0, or_updatedAt = 0,
     or_deletedAt = None\<rparr>"

lemmas demo_user_defs = demo_user_def demo_user_env_def new_user_def user_create.defs

lemma demo_identity_fields [simp]:
  "id_publicId demo_identity = ''i1''" "id_id demo_identity = 1" "id_email demo_identity = Some ''a@b.c''"
  "lp_fullNumber (id_loginPhone demo_identity) = None" "lp_nationalNumber (id_loginPhone demo_identity) = None"
  by (simp_all add: demo_identity_def new_identity_def identity_create.defs register_identity_def demo_register_def)

theorem events_fit_schemas_witness:
  "userCreatedEventSchema (\<lambda>s. s \<noteq> []) (user_wire 0 demo_user) = Some (7, Some ''i1'')
   \<and> orderStatusEventSchema (order_wire 0 (toOrderFailedOutbox ''e'' demo_wire_order (toFailure (Some PAYMENT_REJECTED))))
     = Some (5, OS_failed_payment)"
proof -
  have "Identity_check (identity_create.truncate demo_identity)"
    using demo_email by (simp add: Identity_check_def identity_create.truncate_def)
  from events_fit_schemas [of "\<lambda>s. s \<noteq> []" demo_identity, OF _ _ _ this, where zEmail = "\<lambda>s. True" and t = 0
      and u = demo_user and r = demo_wire_order and m = "''e''" and ft = "Some PAYMENT_REJECTED"]
  show ?thesis by (simp add: demo_user_defs demo_wire_order_def int4_def toFailure_def)
qed

subsection \<open>The chain of events\<close>

text \<open>A row that can be written for these values, and what is not there yet.\<close>

definition user_values :: "user_create \<Rightarrow> bool" where
  "user_values x \<longleftrightarrow> int4 (us_identityId x) \<and> nullable email_format (us_email x) \<and> nullable e164 (us_phoneNumber x)"

definition user_absent :: "user_env \<Rightarrow> user_create \<Rightarrow> user_db \<Rightarrow> bool" where
  "user_absent env x db \<longleftrightarrow> (\<forall>v\<in>set (udb_users db). \<not> user_clash (new_user env x) v)
     \<and> ue_publicId env \<notin> ob_id ` set (udb_outbox db)"

lemma new_user_fields [simp]:
  "us_identityId (new_user env x) = us_identityId x" "us_identityPublicId (new_user env x) = us_identityPublicId x"
  "us_email (new_user env x) = us_email x" "us_phoneNumber (new_user env x) = us_phoneNumber x"
  "us_publicId (new_user env x) = ue_publicId env" "us_id (new_user env x) = ue_userId env"
  "us_dateOfBirth (new_user env x) = None" "us_deletedAt (new_user env x) = None"
  "us_createdAt (new_user env x) = ue_now env"
  by (simp_all add: new_user_def user_create.defs)

lemma e164_length: "e164 s \<Longrightarrow> length s \<le> 16"
  by (auto simp: e164_def split: list.splits)

lemma user_values_column: "user_values x \<Longrightarrow> nullable (\<lambda>s. length s \<le> 16) (us_phoneNumber x)"
  by (cases "us_phoneNumber x") (simp_all add: user_values_def e164_length)

lemma user_created:
  assumes "user_values x" and "user_absent env x db"
  shows "UserCreateCommandHandler_execute env x db
    = Inr ((), \<lparr>udb_users = udb_users db @ [new_user env x],
                udb_outbox = udb_outbox db @ [written_row (ue_now env) (UserMessageService_toUserCreatedOutbox (new_user env x))]\<rparr>)"
proof -
  let ?db = "db\<lparr>udb_users := udb_users db @ [new_user env x]\<rparr>"
  have "UserRepository_createIfAbsent env x db = Inr (True, ?db)"
    using assms user_values_column [OF assms(1)]
    by (auto simp: UserRepository_createIfAbsent_def user_values_def user_absent_def User_check_def list_ex_iff)
  moreover have "find_row (\<lambda>u. us_identityId u = us_identityId x \<and> us_deletedAt u = None) (udb_users db) = None"
    using assms(2) by (auto simp: find_row_None user_absent_def user_clash_def)
  then have "UserRepository_findByIdentityIdOrFail (us_identityId x) ?db = Inr (new_user env x)"
    by (simp add: UserRepository_findByIdentityIdOrFail_def find_row_append)
  moreover have "UserOutboxRepository_create (ue_now env) (UserMessageService_toUserCreatedOutbox (new_user env x)) (udb_outbox ?db)
      = Inr (udb_outbox db @ [written_row (ue_now env) (UserMessageService_toUserCreatedOutbox (new_user env x))])"
    using assms(2) by (simp add: UserOutboxRepository_create_def event_insert_def list_ex_key user_absent_def
        UserMessageService_toUserCreatedOutbox_def written_row_def)
  ultimately show ?thesis by (simp add: UserCreateCommandHandler_execute_def)
qed

text \<open>A second delivery finds the profile, whatever ids the database would have generated.\<close>

lemma user_again:
  assumes "user_values x" and "\<exists>v\<in>set (udb_users db). us_identityId v = us_identityId x"
  shows "UserCreateCommandHandler_execute env x db = Inr ((), db)"
  using assms user_values_column [OF assms(1)]
  by (auto simp: UserCreateCommandHandler_execute_def UserRepository_createIfAbsent_def user_values_def User_check_def
      list_ex_iff user_clash_def)

lemma user_handle:
  assumes "identityRegisteredEventSchema zUuid zEmail event = Some x"
    and "jfield (Some event) ''type'' = Some (JStr (mc_type IdentityRegisteredEvent))"
    and "UserCreateCommandHandler_execute env x db = Inr ((), db')"
  shows "UserIdentityEventsGateway_handle zUuid zEmail env event db = (Inr (), db')"
  using assms by (simp add: UserIdentityEventsGateway_handle_def)

lemma account_handle:
  assumes "zUuid (us_publicId u)" and "zUuid (us_identityPublicId u)" and "int4 (us_id u)" and "0 < us_id u"
  shows "AccountUserEventsGateway_handle zUuid env (user_wire now u) db
    = (if list_ex (customer (us_id u)) (ad_accounts db) then Inr ((), db)
       else Inr ((), db\<lparr>ad_accounts := ad_accounts db @
         [\<lparr>ac_customerId = us_id u, ac_balance = 0, ac_createdAt = ae_now env, ac_updatedAt = ae_now env\<rparr>]\<rparr>))"
  using assms user_wire_schemas [OF assms, of now]
  by (simp add: AccountUserEventsGateway_handle_def AccountCreateCommandHandler_execute_def
      AccountRepository_createIfAbsent_def)

lemma buyer_handle:
  assumes "zUuid (us_publicId u)" and "zUuid (us_identityPublicId u)" and "us_identityPublicId u \<noteq> ''''"
    and "int4 (us_id u)" and "0 < us_id u"
  shows "OrderUserEventsGateway_handle zUuid t (user_wire now u) db
    = (Inr (), if list_ex (\<lambda>b. by_identityPublicId b = us_identityPublicId u \<or> by_userId b = us_id u) (odb_buyers db) then db
       else db\<lparr>odb_buyers := odb_buyers db @
         [\<lparr>by_identityPublicId = us_identityPublicId u, by_userId = us_id u, by_createdAt = t\<rparr>]\<rparr>)"
  using assms user_wire_schemas [of zUuid u now]
  by (simp add: OrderUserEventsGateway_handle_def OrderBuyerRegisterCommandHandler_execute_def
      OrderBuyerRepository_createIfAbsent_def transactional_def)

lemma register_writes:
  assumes "IdentityRegisterCommandHandler_execute cr env input db = (Inr tokens, db')"
    and "i = new_identity env (register_identity (PasswordService_hash cr env (ri_password input)) input)"
  shows "written_row (ie_now env) (IdentityMessageService_toIdentityRegisteredOutbox i) \<in> set (idb_outbox db')"
    and "nullable email_format (id_email i)" and "nullable e164 (lp_fullNumber (id_loginPhone i))"
proof -
  let ?x = "register_identity (PasswordService_hash cr env (ri_password input)) input"
  from assms obtain db1 db2 where created: "IdentityRepository_create env ?x db = Inr (i, db1)"
    and written: "write_registered env i db1 = Inr ((), db2)"
    and pair: "TokenService_createTokenPair cr env i (ie_familyId env) db2 = Inr (tokens, db')"
    by (auto simp: IdentityRegisterCommandHandler_execute_def IdentityRegisterCommandHandler_register_def Let_def
        transactional_def IdentityRepository_create_def split: sum.splits prod.splits if_splits)
  from created have "Identity_check ?x" by (auto simp: IdentityRepository_create_def split: if_splits)
  then show "nullable email_format (id_email i)" "nullable e164 (lp_fullNumber (id_loginPhone i))"
    unfolding assms(2) by (simp_all add: Identity_check_def new_identity_def identity_create.defs)
  have "idb_outbox db' = idb_outbox db2"
    using pair by (auto simp: TokenService_createTokenPair_def IdentitySessionRepository_create_def
        split: sum.splits prod.splits if_splits)
  with written show "written_row (ie_now env) (IdentityMessageService_toIdentityRegisteredOutbox i) \<in> set (idb_outbox db')"
    by (auto simp: write_registered_def IdentityOutboxRepository_create_def event_insert_def written_row_def
        split: sum.splits if_splits)
qed

lemma account_opened:
  assumes "zUuid (us_publicId u)" and "zUuid (us_identityPublicId u)" and "int4 (us_id u)" and "0 < us_id u"
    and "us_id u \<notin> ac_customerId ` set (ad_accounts db)"
  shows "\<exists>db'. AccountUserEventsGateway_handle zUuid env (user_wire now u) db = Inr ((), db')
    \<and> AccountRepository_findBalance (us_id u) db' = Some 0
    \<and> AccountUserEventsGateway_handle zUuid env' (user_wire now u) db' = Inr ((), db')"
proof -
  have new: "\<forall>a\<in>set (ad_accounts db). \<not> customer (us_id u) a" using assms(5) by (auto simp: customer_def image_iff)
  then have "find_row (customer (us_id u)) (ad_accounts db) = None" by (simp add: find_row_None)
  with new show ?thesis
    by (simp add: account_handle [OF assms(1-4)] AccountRepository_findBalance_def find_row_append list_ex_iff customer_def)
qed

lemma buyer_registered:
  assumes "zUuid (us_publicId u)" and "zUuid (us_identityPublicId u)" and "us_identityPublicId u \<noteq> ''''"
    and "int4 (us_id u)" and "0 < us_id u"
    and "us_identityPublicId u \<notin> by_identityPublicId ` set (odb_buyers db)" and "us_id u \<notin> by_userId ` set (odb_buyers db)"
  shows "\<exists>db'. OrderUserEventsGateway_handle zUuid t (user_wire now u) db = (Inr (), db')
    \<and> map_option by_userId (OrderBuyerRepository_findByIdentityPublicId (us_identityPublicId u) db') = Some (us_id u)
    \<and> OrderUserEventsGateway_handle zUuid t' (user_wire now u) db' = (Inr (), db')"
proof -
  have new: "\<forall>b\<in>set (odb_buyers db). by_identityPublicId b \<noteq> us_identityPublicId u \<and> by_userId b \<noteq> us_id u"
    using assms(6,7) by (auto simp: image_iff)
  then have "find_row (\<lambda>b. by_identityPublicId b = us_identityPublicId u) (odb_buyers db) = None"
    by (simp add: find_row_None)
  with new show ?thesis
    by (simp add: buyer_handle [OF assms(1-5)] OrderBuyerRepository_findByIdentityPublicId_def find_row_append list_ex_iff)
qed

text \<open>
  C37. A registration provisions its buyer: its event lies in the outbox; delivered to the user service
  it creates one profile with the same login data and one event, and that event, delivered to the
  account and the order service, opens an account with balance zero and the buyer through which
  the new identity places orders. Delivering any of them again changes nothing. The ids are fresh in the
  tables they go into, and the email is one that zod accepts as well.
\<close>

theorem registration_provisions:
  assumes "IdentityRegisterCommandHandler_execute cr env input db = (Inr tokens, db')"
    and "i = new_identity env (register_identity (PasswordService_hash cr env (ri_password input)) input)"
    and "u = new_user uenv \<lparr>us_identityId = id_id i, us_identityPublicId = id_publicId i, us_email = id_email i,
                            us_phoneNumber = lp_fullNumber (id_loginPhone i)\<rparr>"
    and "zUuid (id_publicId i)" and "id_publicId i \<noteq> ''''" and "int4 (id_id i)" and "0 < id_id i" and "nullable zEmail (id_email i)"
    and "\<forall>v\<in>set (udb_users udb). \<not> user_clash u v" and "us_publicId u \<notin> ob_id ` set (udb_outbox udb)"
    and "zUuid (us_publicId u)" and "int4 (us_id u)" and "0 < us_id u"
    and "us_id u \<notin> ac_customerId ` set (ad_accounts adb)"
    and "id_publicId i \<notin> by_identityPublicId ` set (odb_buyers odb)" and "us_id u \<notin> by_userId ` set (odb_buyers odb)"
  shows "written_row (ie_now env) (IdentityMessageService_toIdentityRegisteredOutbox i) \<in> set (idb_outbox db')
    \<and> (\<exists>udb' adb' odb'.
        UserIdentityEventsGateway_handle zUuid zEmail uenv (identity_wire (ie_now env) i) udb = (Inr (), udb')
        \<and> udb_users udb' = udb_users udb @ [u]
        \<and> udb_outbox udb' = udb_outbox udb @ [written_row (ue_now uenv) (UserMessageService_toUserCreatedOutbox u)]
        \<and> UserIdentityEventsGateway_handle zUuid zEmail uenv' (identity_wire (ie_now env) i) udb' = (Inr (), udb')
        \<and> AccountUserEventsGateway_handle zUuid aenv (user_wire (ue_now uenv) u) adb = Inr ((), adb')
        \<and> AccountRepository_findBalance (us_id u) adb' = Some 0
        \<and> AccountUserEventsGateway_handle zUuid aenv' (user_wire (ue_now uenv) u) adb' = Inr ((), adb')
        \<and> OrderUserEventsGateway_handle zUuid t (user_wire (ue_now uenv) u) odb = (Inr (), odb')
        \<and> map_option by_userId (OrderBuyerRepository_findByIdentityPublicId (id_publicId i) odb') = Some (us_id u)
        \<and> OrderUserEventsGateway_handle zUuid t' (user_wire (ue_now uenv) u) odb' = (Inr (), odb'))"
proof -
  let ?x = "\<lparr>us_identityId = id_id i, us_identityPublicId = id_publicId i, us_email = id_email i,
             us_phoneNumber = lp_fullNumber (id_loginPhone i)\<rparr>"
  note checks = register_writes(2,3) [OF assms(1,2)]
  have x: "user_values ?x" using assms(6) checks by (simp add: user_values_def)
  have "user_absent uenv ?x udb" using assms(3,9,10) by (simp add: user_absent_def)
  note create = user_created [OF x this]
  note accept = identity_wire_schema [where i = i and zUuid = zUuid and zEmail = zEmail and now = "ie_now env", OF assms(4,6,7,8) checks(2)]
  note first = user_handle [where zUuid = zUuid and zEmail = zEmail, OF accept create]
  let ?udb = "\<lparr>udb_users = udb_users udb @ [u],
    udb_outbox = udb_outbox udb @ [written_row (ue_now uenv) (UserMessageService_toUserCreatedOutbox u)]\<rparr>"
  have "UserCreateCommandHandler_execute uenv' ?x ?udb = Inr ((), ?udb)"
    using user_again [OF x, of ?udb uenv'] assms(3) by simp
  note again = user_handle [where zUuid = zUuid and zEmail = zEmail, OF accept this]
  have u: "zUuid (us_identityPublicId u)" "us_identityPublicId u = id_publicId i" using assms(3,4) by simp_all
  from account_opened [where zUuid = zUuid and u = u and now = "ue_now uenv", OF assms(11) u(1) assms(12,13,14)]
  obtain adb' where account: "AccountUserEventsGateway_handle zUuid aenv (user_wire (ue_now uenv) u) adb = Inr ((), adb')"
    "AccountRepository_findBalance (us_id u) adb' = Some 0"
    "AccountUserEventsGateway_handle zUuid aenv' (user_wire (ue_now uenv) u) adb' = Inr ((), adb')" by blast
  have "us_identityPublicId u \<noteq> ''''" "us_identityPublicId u \<notin> by_identityPublicId ` set (odb_buyers odb)"
    using assms(5,15) u(2) by simp_all
  from buyer_registered [where zUuid = zUuid and u = u and now = "ue_now uenv",
      OF assms(11) u(1) this(1) assms(12,13) this(2) assms(16)]
  obtain odb' where buyer: "OrderUserEventsGateway_handle zUuid t (user_wire (ue_now uenv) u) odb = (Inr (), odb')"
    "map_option by_userId (OrderBuyerRepository_findByIdentityPublicId (us_identityPublicId u) odb') = Some (us_id u)"
    "OrderUserEventsGateway_handle zUuid t' (user_wire (ue_now uenv) u) odb' = (Inr (), odb')" by blast
  show ?thesis
    using first again account buyer u(2) register_writes(1) [OF assms(1,2)]
    by (intro conjI exI [of _ ?udb] exI [of _ adb'] exI [of _ odb']) (simp_all add: assms(3))
qed

theorem registration_provisions_witness:
  "\<exists>udb' odb'. UserIdentityEventsGateway_handle (\<lambda>s. s \<noteq> []) (\<lambda>s. True) demo_user_env (identity_wire 0 demo_identity)
       \<lparr>udb_users = [], udb_outbox = []\<rparr> = (Inr (), udb') \<and> udb_users udb' = [demo_user]
     \<and> OrderUserEventsGateway_handle (\<lambda>s. s \<noteq> []) 0 (user_wire 0 demo_user)
         \<lparr>odb_orders = [], odb_lines = [], odb_recipients = [], odb_buyers = [], odb_outbox = [], odb_workflows = []\<rparr> = (Inr (), odb')
     \<and> map_option by_userId (OrderBuyerRepository_findByIdentityPublicId ''i1'' odb') = Some 7"
proof -
  have hash: "PasswordService_hash demo_crypto (demo_identity_env 0 ''r1'') (ri_password demo_register) = ''$argon2password''"
    by (simp add: PasswordService_hash_def demo_crypto_def demo_register_def)
  have i: "demo_identity = new_identity (demo_identity_env 0 ''r1'') (register_identity
      (PasswordService_hash demo_crypto (demo_identity_env 0 ''r1'') (ri_password demo_register)) demo_register)"
    by (simp add: hash demo_identity_def)
  have u: "demo_user = new_user demo_user_env \<lparr>us_identityId = id_id demo_identity, us_identityPublicId = id_publicId demo_identity,
      us_email = id_email demo_identity, us_phoneNumber = lp_fullNumber (id_loginPhone demo_identity)\<rparr>"
    by (simp add: demo_user_def)
  have fields: "us_id demo_user = 7" "us_publicId demo_user = ''u7''" "ue_now demo_user_env = 0"
    by (simp_all add: demo_user_def demo_user_env_def)
  from registration_provisions [OF demo_register_execute i u, where zUuid = "\<lambda>s. s \<noteq> []" and zEmail = "\<lambda>s. True"
      and udb = "\<lparr>udb_users = [], udb_outbox = []\<rparr>" and adb = "\<lparr>ad_accounts = [], ad_transactions = [], ad_inbox = []\<rparr>"
      and odb = "\<lparr>odb_orders = [], odb_lines = [], odb_recipients = [], odb_buyers = [], odb_outbox = [], odb_workflows = []\<rparr>"
      and aenv = "\<lparr>ae_now = 0, ae_txId = 1, ae_txPublicId = ''tx''\<rparr>" and aenv' = "\<lparr>ae_now = 1, ae_txId = 1, ae_txPublicId = ''tx''\<rparr>" and t = 0 and t' = 1 and uenv' = demo_user_env]
  show ?thesis unfolding fields by (auto simp: int4_def nullable_def)
qed

end
