(* ===== verification/Kafka_Consumer.thy ===== *)
theory Kafka_Consumer
  imports Outbox
begin

section \<open>Consuming events\<close>

text \<open>
  \<open>KafkaConsumerService\<close>: which subscriptions are started and how, and what becomes of a message: it
  is handled, or refused for good and copied to the dead-letter topic of its group, or an error escapes
  and the message comes again. A consumer resumes from the offset its group committed last. The
  locale \<open>event_effect\<close> states what a handler must promise so that no event is lost; the
  gateways are its interpretations.
\<close>

subsection \<open>Subscriptions\<close>

record subscription =
  sb_groupId :: string
  sb_topic :: TopicEnum
  sb_broadcast :: bool

record started_consumer =
  st_groupId :: string
  st_topic :: string
  st_deadLetterTopic :: "string option"
  st_fromBeginning :: bool
  st_autoCommit :: bool

definition KafkaConsumerService_start :: "uuid \<Rightarrow> subscription \<Rightarrow> started_consumer" where
  "KafkaConsumerService_start newId sb =
     \<lparr>st_groupId = (if sb_broadcast sb then sb_groupId sb @ ''.'' @ newId else sb_groupId sb),
      st_topic = topic_value (sb_topic sb),
      st_deadLetterTopic = (if sb_broadcast sb then None else Some (sb_groupId sb @ ''.dlt'')),
      st_fromBeginning = (\<not> sb_broadcast sb), st_autoCommit = (\<not> sb_broadcast sb)\<rparr>"

definition KafkaConsumerService_onApplicationBootstrap :: "bool \<Rightarrow> uuid list \<Rightarrow> subscription list \<Rightarrow> started_consumer list" where
  "KafkaConsumerService_onApplicationBootstrap consumersEnabled newIds subscriptions =
     map2 KafkaConsumerService_start newIds (filter (\<lambda>sb. sb_broadcast sb \<or> consumersEnabled) subscriptions)"

subsection \<open>One message\<close>

record consumed_message =
  cm_key :: "string option"
  cm_value :: "string option"
  cm_headers :: "(string \<times> string) list"

record dead_letter = consumed_message +
  dl_topic :: string

text \<open>
  A handler takes the event, its offset and what the database supplies (\<open>'env\<close>) to a result and the
  next state. \<open>parse\<close> is \<open>JSON.parse\<close>, \<open>None\<close> where it throws a \<open>SyntaxError\<close>; \<open>why\<close> gives the
  text of the error. \<open>True\<close> says that the callback resolved, \<open>False\<close> that an error escaped.
\<close>

type_synonym ('env, 's) event_handler = "'env \<Rightarrow> json \<Rightarrow> nat \<Rightarrow> 's \<Rightarrow> (kafka_error + unit) \<times> 's"

definition message_position :: "string \<Rightarrow> nat \<Rightarrow> nat \<Rightarrow> string" where
  "message_position topic part offset = topic @ ''/'' @ show_nat part @ ''@'' @ show_nat offset"

definition to_dead_letter :: "string \<Rightarrow> string \<Rightarrow> string \<Rightarrow> consumed_message \<Rightarrow> dead_letter" where
  "to_dead_letter topic reason position m =
     \<lparr>cm_key = cm_key m, cm_value = cm_value m,
      cm_headers = [(''dlt_reason'', reason), (''dlt_source'', position)] @ cm_headers m, dl_topic = topic\<rparr>"

definition reject_message ::
  "started_consumer \<Rightarrow> string \<Rightarrow> string \<Rightarrow> consumed_message \<Rightarrow> dead_letter kafka \<Rightarrow> bool \<times> dead_letter kafka" where
  "reject_message c reason position m b =
     (case st_deadLetterTopic c of
        None \<Rightarrow> (True, b)
      | Some topic \<Rightarrow>
          (case kafka_send (to_dead_letter topic reason position m) b of
             (None, b') \<Rightarrow> (True, b')
           | (Some e, b') \<Rightarrow> (False, b')))"

definition KafkaConsumerService_eachMessage ::
  "(string \<Rightarrow> json option) \<Rightarrow> (json option \<Rightarrow> string) \<Rightarrow> ('env, 's) event_handler \<Rightarrow> started_consumer \<Rightarrow> nat \<Rightarrow> 'env \<Rightarrow> nat
    \<Rightarrow> consumed_message \<Rightarrow> 's \<times> dead_letter kafka \<Rightarrow> bool \<times> 's \<times> dead_letter kafka" where
  "KafkaConsumerService_eachMessage parse why handle c part env offset m w =
     (case w of (s, b) \<Rightarrow>
       (let position = message_position (st_topic c) part offset;
            event = parse (case cm_value m of None \<Rightarrow> '''' | Some v \<Rightarrow> v)
        in case event of
             None \<Rightarrow> (case reject_message c (why event) position m b of (ok, b') \<Rightarrow> (ok, s, b'))
           | Some j \<Rightarrow>
               (case handle env j offset s of
                  (Inr u, s') \<Rightarrow> (True, s', b)
                | (Inl KafkaRejectedMessage, s') \<Rightarrow>
                    (case reject_message c (why event) position m b of (ok, b') \<Rightarrow> (ok, s', b'))
                | (Inl (KafkaHandlerError e), s') \<Rightarrow> (False, s', b))))"

subsection \<open>One partition\<close>

text \<open>
  The life of a consumer on one partition: the log grows, a message is delivered and the position moves
  past it when the callback resolves, the position is committed now and then, and the process may die at any
  point, which loses the position but not what the handler committed. Between deliveries other
  operations of the service may change its state (\<open>others\<close>). What the database supplies to a handler is
  \<open>fresh\<close>: a generated uuid is not in use.
\<close>

record 's part_state =
  ps_log :: "consumed_message list"
  ps_state :: 's
  ps_dlt :: "dead_letter kafka"
  ps_position :: nat
  ps_committed :: nat

inductive part_step ::
  "(string \<Rightarrow> json option) \<Rightarrow> (json option \<Rightarrow> string) \<Rightarrow> ('env, 's) event_handler \<Rightarrow> ('env \<Rightarrow> 's \<Rightarrow> bool) \<Rightarrow> ('s \<Rightarrow> 's \<Rightarrow> bool)
    \<Rightarrow> started_consumer \<Rightarrow> nat \<Rightarrow> 's part_state \<Rightarrow> 's part_state \<Rightarrow> bool" for parse why handle fresh others c part where
  produced: "part_step parse why handle fresh others c part p (p\<lparr>ps_log := ps_log p @ [m]\<rparr>)"
| delivered: "ps_position p < length (ps_log p) \<Longrightarrow> fresh env (ps_state p) \<Longrightarrow>
    KafkaConsumerService_eachMessage parse why handle c part env (ps_position p) (ps_log p ! ps_position p) (ps_state p, ps_dlt p)
      = (ok, s, b) \<Longrightarrow>
    part_step parse why handle fresh others c part p
      (p\<lparr>ps_state := s, ps_dlt := b, ps_position := (if ok then Suc (ps_position p) else ps_position p)\<rparr>)"
| committed: "part_step parse why handle fresh others c part p (p\<lparr>ps_committed := ps_position p\<rparr>)"
| restarted: "part_step parse why handle fresh others c part p (p\<lparr>ps_position := ps_committed p\<rparr>)"
| other: "others (ps_state p) s \<Longrightarrow> part_step parse why handle fresh others c part p (p\<lparr>ps_state := s\<rparr>)"

text \<open>
  What has become of message \<open>i\<close>: its event has taken effect in the state, or the message lies under the
  dead-letter topic with its key, its value and the offset it came from.
\<close>

definition message_dead :: "started_consumer \<Rightarrow> nat \<Rightarrow> nat \<Rightarrow> 's part_state \<Rightarrow> bool" where
  "message_dead c part i p \<longleftrightarrow> (\<exists>d\<in>set (kf_log (ps_dlt p)). st_deadLetterTopic c = Some (dl_topic d)
     \<and> cm_key d = cm_key (ps_log p ! i) \<and> cm_value d = cm_value (ps_log p ! i)
     \<and> map_of (cm_headers d) ''dlt_source'' = Some (message_position (st_topic c) part i))"

definition message_event :: "(string \<Rightarrow> json option) \<Rightarrow> nat \<Rightarrow> 's part_state \<Rightarrow> json option" where
  "message_event parse i p = parse (case cm_value (ps_log p ! i) of None \<Rightarrow> '''' | Some v \<Rightarrow> v)"

text \<open>The events of a log.\<close>

definition log_events :: "(string \<Rightarrow> json option) \<Rightarrow> consumed_message list \<Rightarrow> json set" where
  "log_events parse ms = {j. \<exists>m\<in>set ms. parse (case cm_value m of None \<Rightarrow> '''' | Some v \<Rightarrow> v) = Some j}"

definition message_settled ::
  "(string \<Rightarrow> json option) \<Rightarrow> (json \<Rightarrow> 's \<Rightarrow> bool) \<Rightarrow> started_consumer \<Rightarrow> nat \<Rightarrow> nat \<Rightarrow> 's part_state \<Rightarrow> bool" where
  "message_settled parse effect c part i p \<longleftrightarrow>
     (\<exists>j. message_event parse i p = Some j \<and> effect j (ps_state p)) \<or> message_dead c part i p"

subsection \<open>What a handler promises\<close>

lemma kafka_send_log:
  "kafka_send m b = (r, b') \<Longrightarrow> set (kf_log b) \<subseteq> set (kf_log b') \<and> (r = None \<longrightarrow> m \<in> set (kf_log b'))"
  by (auto simp: kafka_send_def split: list.splits send_outcome.splits)

lemma reject_message_log:
  assumes "reject_message c reason position m b = (ok, b')"
  shows "set (kf_log b) \<subseteq> set (kf_log b')"
    and "ok \<Longrightarrow> st_deadLetterTopic c = Some t \<Longrightarrow> to_dead_letter t reason position m \<in> set (kf_log b')"
  using assms kafka_send_log [of "to_dead_letter t reason position m" b] kafka_send_log
  by (fastforce simp: reject_message_def split: option.splits prod.splits)+

text \<open>
  \<open>wf\<close> is an invariant of the tables the handler writes, \<open>genuine\<close> what the producer promises of its events:
  under both, an event that was handled has taken effect.
\<close>

locale event_effect =
  fixes handle :: "('env, 's) event_handler" and fresh :: "'env \<Rightarrow> 's \<Rightarrow> bool" and others :: "'s \<Rightarrow> 's \<Rightarrow> bool"
    and effect :: "json \<Rightarrow> 's \<Rightarrow> bool" and wf :: "'s \<Rightarrow> bool" and genuine :: "json \<Rightarrow> bool"
  assumes takes_effect: "wf s \<Longrightarrow> genuine j \<Longrightarrow> fresh env s \<Longrightarrow> handle env j i s = (Inr u, s') \<Longrightarrow> effect j s'"
    and keeps_wf: "wf s \<Longrightarrow> genuine j \<Longrightarrow> handle env j i s = (r, s') \<Longrightarrow> wf s'"
    and others_wf: "others s s' \<Longrightarrow> wf s \<Longrightarrow> wf s'"
    and keeps_effects: "handle env j i s = (r, s') \<Longrightarrow> effect k s \<Longrightarrow> effect k s'"
    and others_keep: "others s s' \<Longrightarrow> effect k s \<Longrightarrow> effect k s'"
begin

lemma each_message:
  assumes "KafkaConsumerService_eachMessage parse why handle c part env i m (s, b) = (ok, s', b')"
    and "st_deadLetterTopic c = Some t" and "fresh env s" and "wf s" and "\<forall>j\<in>log_events parse [m]. genuine j"
  shows "effect k s \<Longrightarrow> effect k s'" and "set (kf_log b) \<subseteq> set (kf_log b')" and "wf s'"
    and "ok \<Longrightarrow> (\<exists>j. parse (case cm_value m of None \<Rightarrow> '''' | Some v \<Rightarrow> v) = Some j \<and> effect j s')
      \<or> (\<exists>reason. to_dead_letter t reason (message_position (st_topic c) part i) m \<in> set (kf_log b'))"
proof -
  note run = assms(1) [unfolded KafkaConsumerService_eachMessage_def Let_def, simplified]
  show "effect k s'" if "effect k s"
    using run that keeps_effects by (auto split: option.splits prod.splits sum.splits kafka_error.splits)
  show "set (kf_log b) \<subseteq> set (kf_log b')"
    using run reject_message_log(1) by (force split: option.splits prod.splits sum.splits kafka_error.splits)
  show "wf s'"
    using run assms(4,5) keeps_wf
    by (fastforce simp: log_events_def split: option.splits prod.splits sum.splits kafka_error.splits)
  show "(\<exists>j. parse (case cm_value m of None \<Rightarrow> '''' | Some v \<Rightarrow> v) = Some j \<and> effect j s')
      \<or> (\<exists>reason. to_dead_letter t reason (message_position (st_topic c) part i) m \<in> set (kf_log b'))" if ok
  proof (cases "parse (case cm_value m of None \<Rightarrow> '''' | Some v \<Rightarrow> v)")
    case None
    with run that have "reject_message c (why None) (message_position (st_topic c) part i) m b = (True, b')"
      by (simp split: prod.splits)
    from reject_message_log(2) [OF this _ assms(2)] show ?thesis by auto
  next
    case (Some j)
    show ?thesis
    proof (cases "handle env j i s")
      case (Pair r s1)
      show ?thesis
      proof (cases r)
        case (Inr u)
        with run Some Pair have "handle env j i s = (Inr u, s')" by simp
        from takes_effect [OF assms(4) _ assms(3) this] assms(5) Some show ?thesis by (auto simp: log_events_def)
      next
        case (Inl e)
        with run Some Pair that have "reject_message c (why (Some j)) (message_position (st_topic c) part i) m b = (True, b')"
          by (cases e) (simp_all split: prod.splits)
        from reject_message_log(2) [OF this _ assms(2)] show ?thesis by auto
      qed
    qed
  qed
qed

text \<open>Whatever happens to the partition, what was settled stays settled.\<close>

definition part_inv :: "(string \<Rightarrow> json option) \<Rightarrow> started_consumer \<Rightarrow> nat \<Rightarrow> 's part_state \<Rightarrow> bool" where
  "part_inv parse c part p \<longleftrightarrow> wf (ps_state p) \<and> ps_committed p \<le> ps_position p \<and> ps_position p \<le> length (ps_log p)
     \<and> (\<forall>i < ps_position p. message_settled parse effect c part i p)"

lemma settled_mono:
  assumes "message_settled parse effect c part i p" and "i < length (ps_log p)"
    and "\<And>k. effect k (ps_state p) \<Longrightarrow> effect k (ps_state q)" and "set (kf_log (ps_dlt p)) \<subseteq> set (kf_log (ps_dlt q))"
    and "\<exists>ms. ps_log q = ps_log p @ ms"
  shows "message_settled parse effect c part i q"
proof -
  have log: "ps_log q ! i = ps_log p ! i" using assms(2,5) by (auto simp: nth_append)
  show ?thesis
    using assms(1,3,4) unfolding message_settled_def message_dead_def message_event_def log by blast
qed

lemma part_inv_step:
  assumes "part_step parse why handle fresh others c part p q" and "part_inv parse c part p"
    and "st_deadLetterTopic c = Some t" and "\<forall>j\<in>log_events parse (ps_log p). genuine j"
  shows "part_inv parse c part q"
  using assms(1)
proof cases
  case (produced m)
  with assms(2) settled_mono [of parse c part _ p q] show ?thesis by (auto simp: part_inv_def)
next
  case (delivered env ok s b)
  have "\<forall>j\<in>log_events parse [ps_log p ! ps_position p]. genuine j" "wf (ps_state p)"
    using assms(2,4) nth_mem [OF delivered(2)] by (auto simp: log_events_def part_inv_def)
  note each = each_message [OF delivered(4) assms(3) delivered(3) this(2,1)]
  have mono: "message_settled parse effect c part i q" if "i < ps_position p" for i
    using that assms(2) delivered(1) each(1,2) settled_mono [of parse c part i p q] by (auto simp: part_inv_def)
  have dead: "message_dead c part (ps_position p) q"
    if "to_dead_letter t reason (message_position (st_topic c) part (ps_position p)) (ps_log p ! ps_position p) \<in> set (kf_log b)" for reason
    unfolding message_dead_def
    by (rule bexI [of _ "to_dead_letter t reason (message_position (st_topic c) part (ps_position p)) (ps_log p ! ps_position p)"])
      (use that delivered(1) assms(3) in \<open>simp_all add: to_dead_letter_def\<close>)
  have "message_settled parse effect c part (ps_position p) q" if ok
    using each(4) [OF that]
  proof
    assume "\<exists>reason. to_dead_letter t reason (message_position (st_topic c) part (ps_position p)) (ps_log p ! ps_position p)
      \<in> set (kf_log b)"
    with dead show ?thesis unfolding message_settled_def by blast
  qed (use delivered(1) in \<open>auto simp: message_settled_def message_event_def\<close>)
  with mono assms(2) delivered(1,2) each(3) show ?thesis by (auto simp: part_inv_def less_Suc_eq)
next
  case committed
  with assms(2) settled_mono [of parse c part _ p q] show ?thesis by (auto simp: part_inv_def)
next
  case restarted
  with assms(2) settled_mono [of parse c part _ p q] show ?thesis by (auto simp: part_inv_def)
next
  case (other s)
  with assms(2) others_keep others_wf settled_mono [of parse c part _ p q] show ?thesis by (auto simp: part_inv_def)
qed

lemma consumed_settled:
  assumes "(part_step parse why handle fresh others c part)\<^sup>*\<^sup>* p q" and "ps_position p = 0" and "ps_committed p = 0"
    and "st_deadLetterTopic c = Some t" and "i < ps_position q"
    and "wf (ps_state p)" and "\<forall>j\<in>log_events parse (ps_log q). genuine j"
  shows "message_settled parse effect c part i q"
proof -
  have "part_inv parse c part p" using assms(2,3,6) by (simp add: part_inv_def)
  have "(\<forall>j\<in>log_events parse (ps_log q). genuine j) \<longrightarrow> part_inv parse c part q"
    using assms(1)
  proof (induction rule: rtranclp_induct)
    case (step y z)
    from step(2) have "\<exists>ms. ps_log z = ps_log y @ ms" by (cases rule: part_step.cases) auto
    then have "log_events parse (ps_log y) \<subseteq> log_events parse (ps_log z)" by (auto simp: log_events_def)
    with step show ?case using part_inv_step [OF step(2) _ assms(4)] by blast
  qed (use \<open>part_inv parse c part p\<close> in simp)
  with assms(5,7) show ?thesis by (simp add: part_inv_def)
qed

end

end
