(* ===== verification/Event_Consumers.thy ===== *)
theory Event_Consumers
  imports Provisioning Kafka_Consumer
begin

section \<open>The gateways as event handlers\<close>

text \<open>
  The three gateways that copy data from event to event, as handlers of the consumer: what the effect of
  an event is in their tables, and that no other operation of the service undoes it. The theorem is that no
  registration and no profile is lost between the services, whatever crashes and redeliveries happen.
  The tables skip a row that clashes with another one on either key. What rules out that an event is
  swallowed by somebody else's row is that the producers number one to one: every event and every row pairs
  the two keys of one identity (or user), as the unique columns of the producer's table do.
\<close>

definition one_to_one :: "(int \<times> uuid) set \<Rightarrow> bool" where
  "one_to_one I \<longleftrightarrow> inj_on fst I \<and> inj_on snd I"

lemma one_to_oneD:
  "one_to_one I \<Longrightarrow> (i, p) \<in> I \<Longrightarrow> (k, q) \<in> I \<Longrightarrow> i = k \<or> p = q \<Longrightarrow> i = k \<and> p = q"
  unfolding one_to_one_def inj_on_def by fastforce

definition addressed :: "string \<Rightarrow> json \<Rightarrow> bool" where
  "addressed ty j \<longleftrightarrow> jfield (Some j) ''type'' = Some (JStr ty)"

lemma addressed_jstring: "jstring (jfield (Some j) ''type'') = Some ty \<longleftrightarrow> addressed ty j"
  by (auto simp: addressed_def elim!: jstring.elims)

subsection \<open>Profiles\<close>

definition user_events :: "(string \<Rightarrow> bool) \<Rightarrow> (string \<Rightarrow> bool) \<Rightarrow> (user_env, user_db) event_handler" where
  "user_events zUuid zEmail env j i s = UserIdentityEventsGateway_handle zUuid zEmail env j s"

definition fresh_user_env :: "user_env \<Rightarrow> user_db \<Rightarrow> bool" where
  "fresh_user_env env s \<longleftrightarrow> ue_publicId env \<notin> us_publicId ` set (udb_users s)"

definition profile_keys :: "user_db \<Rightarrow> (int \<times> uuid) set" where
  "profile_keys s = (\<lambda>u. (us_identityId u, us_identityPublicId u)) ` set (udb_users s)"

definition identity_event :: "(string \<Rightarrow> bool) \<Rightarrow> (string \<Rightarrow> bool) \<Rightarrow> (int \<times> uuid) set \<Rightarrow> json \<Rightarrow> bool" where
  "identity_event zUuid zEmail I j \<longleftrightarrow> (case identityRegisteredEventSchema zUuid zEmail j of
     None \<Rightarrow> True | Some x \<Rightarrow> (us_identityId x, us_identityPublicId x) \<in> I)"

text \<open>The profile of the registered identity: the row that carries both of its ids.\<close>

definition profile_exists :: "(string \<Rightarrow> bool) \<Rightarrow> (string \<Rightarrow> bool) \<Rightarrow> json \<Rightarrow> user_db \<Rightarrow> bool" where
  "profile_exists zUuid zEmail j s \<longleftrightarrow> (case identityRegisteredEventSchema zUuid zEmail j of
     None \<Rightarrow> False | Some x \<Rightarrow> (us_identityId x, us_identityPublicId x) \<in> profile_keys s)"

text \<open>The other operations of the user service, the relay and the retention job of its outbox, leave the profiles alone.\<close>

definition user_operation :: "user_db \<Rightarrow> user_db \<Rightarrow> bool" where
  "user_operation s s' \<longleftrightarrow> udb_users s' = udb_users s"

lemma user_create_keeps:
  assumes "UserCreateCommandHandler_execute env x s = Inr (r, s')"
  shows "profile_keys s \<subseteq> profile_keys s'" and "profile_keys s' \<subseteq> insert (us_identityId x, us_identityPublicId x) (profile_keys s)"
    and "fresh_user_env env s \<Longrightarrow> \<exists>(i, p)\<in>profile_keys s'. i = us_identityId x \<or> p = us_identityPublicId x"
  using assms
  by (auto simp: UserCreateCommandHandler_execute_def UserRepository_createIfAbsent_def user_clash_def list_ex_iff
      fresh_user_env_def profile_keys_def split: sum.splits prod.splits bool.splits if_splits)

lemma user_events_cases:
  assumes "user_events zUuid zEmail env j i s = (r, s')"
  shows "(s' = s \<and> (r = Inr () \<longrightarrow> jfield (Some j) ''type'' \<noteq> Some (JStr (mc_type IdentityRegisteredEvent))))
    \<or> (\<exists>x. identityRegisteredEventSchema zUuid zEmail j = Some x \<and> UserCreateCommandHandler_execute env x s = Inr ((), s'))"
  using assms
  by (auto simp: user_events_def UserIdentityEventsGateway_handle_def transactional_def
      split: if_splits option.splits sum.splits)

interpretation profiles: event_effect "user_events zUuid zEmail" fresh_user_env user_operation
  "\<lambda>j s. \<not> addressed (mc_type IdentityRegisteredEvent) j \<or> profile_exists zUuid zEmail j s"
  "\<lambda>s. one_to_one I \<and> profile_keys s \<subseteq> I" "identity_event zUuid zEmail I" for zUuid zEmail I
proof unfold_locales
  fix env s j i u s'
  assume wf: "one_to_one I \<and> profile_keys s \<subseteq> I" and gen: "identity_event zUuid zEmail I j"
    and fresh: "fresh_user_env env s" and run: "user_events zUuid zEmail env j i s = (Inr u, s')"
  from user_events_cases [OF run] show "\<not> addressed (mc_type IdentityRegisteredEvent) j \<or> profile_exists zUuid zEmail j s'"
  proof
    assume "\<exists>x. identityRegisteredEventSchema zUuid zEmail j = Some x \<and> UserCreateCommandHandler_execute env x s = Inr ((), s')"
    then obtain x where x: "identityRegisteredEventSchema zUuid zEmail j = Some x"
      "UserCreateCommandHandler_execute env x s = Inr ((), s')" by blast
    from gen x(1) have mine: "(us_identityId x, us_identityPublicId x) \<in> I" by (simp add: identity_event_def)
    from user_create_keeps(3) [OF x(2) fresh] obtain k p where
      row: "(k, p) \<in> profile_keys s'" "k = us_identityId x \<or> p = us_identityPublicId x" by blast
    with user_create_keeps(2) [OF x(2)] wf mine have "(k, p) \<in> I" by blast
    with mine row(2) wf have "k = us_identityId x \<and> p = us_identityPublicId x" using one_to_oneD by blast
    with row(1) x(1) show ?thesis by (simp add: profile_exists_def)
  qed (simp add: addressed_def)
next
  fix env j i s r s' k
  assume "user_events zUuid zEmail env j i s = (r, s')"
    and eff: "\<not> addressed (mc_type IdentityRegisteredEvent) k \<or> profile_exists zUuid zEmail k s"
  from user_events_cases [OF this(1)] have "profile_keys s \<subseteq> profile_keys s'" using user_create_keeps(1) by blast
  with eff show "\<not> addressed (mc_type IdentityRegisteredEvent) k \<or> profile_exists zUuid zEmail k s'"
    by (auto simp: profile_exists_def split: option.splits)
next
  fix env j i s r s'
  assume "one_to_one I \<and> profile_keys s \<subseteq> I" and gen: "identity_event zUuid zEmail I j"
    and "user_events zUuid zEmail env j i s = (r, s')"
  with user_events_cases [OF this(3)] show "one_to_one I \<and> profile_keys s' \<subseteq> I"
    using user_create_keeps(2) by (fastforce simp: identity_event_def)
qed (auto simp: user_operation_def profile_exists_def profile_keys_def split: option.splits)

subsection \<open>Accounts\<close>

definition account_events :: "(string \<Rightarrow> bool) \<Rightarrow> (account_env, account_db) event_handler" where
  "account_events zUuid env j i s = transactional (AccountUserEventsGateway_handle zUuid env j) s"

definition account_ids :: "account_db \<Rightarrow> int set" where
  "account_ids db = ac_customerId ` set (ad_accounts db)"

definition account_exists :: "(string \<Rightarrow> bool) \<Rightarrow> json \<Rightarrow> account_db \<Rightarrow> bool" where
  "account_exists zUuid j s \<longleftrightarrow> (case account_userCreatedEventSchema zUuid j of
     None \<Rightarrow> False | Some (userId, p) \<Rightarrow> userId \<in> account_ids s)"

lemma ids_update_where: "ac_customerId ` set (update_where p (set_balance now f) as) = ac_customerId ` set as"
  by (rule image_update_where_key) simp

lemma debit_ids:
  assumes "AccountRepository_debit env k amt db = Inr (b, db')"
  shows "account_ids db' = account_ids db"
proof -
  from assms obtain p f where "db' = db\<lparr>ad_accounts := update_where p (set_balance (ae_now env) f) (ad_accounts db)\<rparr>"
    by (auto simp: AccountRepository_debit_def split: option.splits if_splits)
  then show ?thesis by (simp add: account_ids_def ids_update_where)
qed

lemma credit_ids:
  assumes "AccountRepository_credit env k amt db = Inr (b, db')"
  shows "account_ids db \<subseteq> account_ids db'"
proof -
  from assms have "(\<exists>p f. db' = db\<lparr>ad_accounts := update_where p (set_balance (ae_now env) f) (ad_accounts db)\<rparr>)
      \<or> (\<exists>a. db' = db\<lparr>ad_accounts := ad_accounts db @ [a]\<rparr>)"
    by (auto simp: AccountRepository_credit_def split: option.splits if_splits)
  then show ?thesis by (auto simp: account_ids_def ids_update_where)
qed

lemma create_ids: "AccountRepository_create env input db = Inr (t, db') \<Longrightarrow> account_ids db' = account_ids db"
  by (auto simp: AccountRepository_create_def account_ids_def Let_def split: option.splits if_splits)

lemma charge_ids:
  assumes "AccountCustomerChargeCommandHandler_execute env data db = Inr (u, db')"
  shows "account_ids db \<subseteq> account_ids db'"
  using assms
  by (auto simp: AccountCustomerChargeCommandHandler_execute_def dest!: debit_ids create_ids
      split: sum.splits prod.splits bool.splits option.splits)

lemma refund_ids:
  assumes "AccountCustomerRefundCommandHandler_execute env data db = Inr (u, db')"
  shows "account_ids db \<subseteq> account_ids db'"
proof -
  have inbox: "account_ids d = account_ids db" if "AccountInboxService_markProcessed env c mid db = (b, d)" for c mid b d
    using that by (auto simp: AccountInboxService_markProcessed_def AccountInboxRepository_createIfAbsent_def account_ids_def
        split: if_splits)
  show ?thesis
    using assms
    by (auto simp: AccountCustomerRefundCommandHandler_execute_def dest!: inbox create_ids credit_ids
        split: sum.splits prod.splits bool.splits)
qed

lemma remember_ids: "account_ids (remember env c mid db) = account_ids db"
  by (simp add: remember_def account_ids_def)

lemma charge_message_ids: "account_ids db \<subseteq> account_ids (snd (AccountGateway_handleCustomerCharge isUUID env msg db))"
proof (cases "charge_guard isUUID msg")
  case None
  then show ?thesis by (simp add: AccountGateway_handleCustomerCharge_def)
next
  case (Some q)
  then obtain mid data where g: "charge_guard isUUID msg = Some (mid, data)" by (cases q) simp
  have "account_ids db \<subseteq> account_ids d" if "AccountCustomerChargeCommandHandler_execute e data (remember e' c mid db) = Inr (u, d)" for e e' c u d
    using charge_ids [OF that] by (simp add: remember_ids)
  then show ?thesis by (simp add: handleCustomerCharge_eq [OF g] split: sum.split charge_error.split prod.split)
qed

lemma refund_message_ids: "account_ids db \<subseteq> account_ids (snd (AccountGateway_handleCustomerRefund isUUID env msg db))"
proof (cases "refund_guard isUUID msg")
  case None
  then show ?thesis by (simp add: AccountGateway_handleCustomerRefund_def)
next
  case (Some q)
  then obtain mid data where g: "refund_guard isUUID msg = Some (mid, data)" by (cases q) simp
  have "account_ids db \<subseteq> account_ids d" if "AccountCustomerRefundCommandHandler_execute e data (remember e' c mid db) = Inr (u, d)" for e e' c u d
    using refund_ids [OF that] by (simp add: remember_ids)
  then show ?thesis by (simp add: handleCustomerRefund_eq [OF g] split: sum.split prod.split)
qed

lemma user_message_ids:
  assumes "AccountUserEventsGateway_handle zUuid env event db = Inr (u, db')"
  shows "account_ids db \<subseteq> account_ids db'" and "addressed (mc_type UserCreatedEvent) event \<Longrightarrow> account_exists zUuid event db'"
proof -
  have opened: "account_ids db \<subseteq> account_ids d \<and> k \<in> account_ids d"
    if "AccountCreateCommandHandler_execute env k db = Inr (b, d)" for k b d
    using that by (auto simp: AccountCreateCommandHandler_execute_def AccountRepository_createIfAbsent_def account_ids_def
        split: if_splits)
  from assms have "db' = db \<and> jstring (jfield (Some event) ''type'') \<noteq> Some (mc_type UserCreatedEvent)
      \<or> (\<exists>k p b. account_userCreatedEventSchema zUuid event = Some (k, p)
           \<and> AccountCreateCommandHandler_execute env k db = Inr (b, db'))"
    by (auto simp: AccountUserEventsGateway_handle_def split: if_splits option.splits sum.splits)
  then show "account_ids db \<subseteq> account_ids db'" "addressed (mc_type UserCreatedEvent) event \<Longrightarrow> account_exists zUuid event db'"
    using opened by (auto simp: account_exists_def addressed_jstring)
qed

lemma account_step_ids: "account_step isUUID db db' \<Longrightarrow> account_ids db \<subseteq> account_ids db'"
proof (induction rule: account_step.induct)
  case (user_created zUuid uenv event db r db')
  then show ?case using user_message_ids(1) [of zUuid uenv event db "()" db']
    by (auto simp: transactional_def split: sum.splits)
qed (metis charge_message_ids refund_message_ids snd_conv)+

lemma account_exists_mono: "account_exists zUuid k s \<Longrightarrow> account_ids s \<subseteq> account_ids s' \<Longrightarrow> account_exists zUuid k s'"
  by (auto simp: account_exists_def split: option.splits)

interpretation accounts: event_effect "account_events zUuid" "\<lambda>env s. True" "account_step isUUID"
  "\<lambda>j s. \<not> addressed (mc_type UserCreatedEvent) j \<or> account_exists zUuid j s" "\<lambda>s. True" "\<lambda>j. True" for zUuid isUUID
proof unfold_locales
  fix env s j i u s'
  assume "account_events zUuid env j i s = (Inr u, s')"
  then have "AccountUserEventsGateway_handle zUuid env j s = Inr (u, s')"
    by (auto simp: account_events_def transactional_def split: sum.splits)
  then show "\<not> addressed (mc_type UserCreatedEvent) j \<or> account_exists zUuid j s'" using user_message_ids(2) by blast
next
  fix env j i s r s' k
  assume "account_events zUuid env j i s = (r, s')" and "\<not> addressed (mc_type UserCreatedEvent) k \<or> account_exists zUuid k s"
  then show "\<not> addressed (mc_type UserCreatedEvent) k \<or> account_exists zUuid k s'"
    using user_message_ids(1) [of zUuid env j s "()" s'] account_exists_mono
    by (auto simp: account_events_def transactional_def split: sum.splits)
next
  fix s s' k
  assume "account_step isUUID s s'" and "\<not> addressed (mc_type UserCreatedEvent) k \<or> account_exists zUuid k s"
  with account_step_ids [OF this(1)] show "\<not> addressed (mc_type UserCreatedEvent) k \<or> account_exists zUuid k s'"
    using account_exists_mono by blast
qed simp_all

subsection \<open>Buyers\<close>

definition buyer_events :: "(string \<Rightarrow> bool) \<Rightarrow> (time, order_db) event_handler" where
  "buyer_events zUuid now j i s = OrderUserEventsGateway_handle zUuid now j s"

definition buyer_keys :: "order_db \<Rightarrow> (int \<times> uuid) set" where
  "buyer_keys s = (\<lambda>b. (by_userId b, by_identityPublicId b)) ` set (odb_buyers s)"

definition user_event :: "(string \<Rightarrow> bool) \<Rightarrow> (int \<times> uuid) set \<Rightarrow> json \<Rightarrow> bool" where
  "user_event zUuid U j \<longleftrightarrow> (case userCreatedEventSchema zUuid j of
     Some (userId, Some p) \<Rightarrow> p \<noteq> '''' \<longrightarrow> (userId, p) \<in> U | _ \<Rightarrow> True)"

text \<open>
  The buyer of the created user: the row that carries the user and its identity. An event that
  \<open>predates\<close> the identity's id names no identity: the gateway skips it, because a migration has written its buyer.
\<close>

definition buyer_exists :: "(string \<Rightarrow> bool) \<Rightarrow> json \<Rightarrow> order_db \<Rightarrow> bool" where
  "buyer_exists zUuid j s \<longleftrightarrow> (case userCreatedEventSchema zUuid j of
     Some (userId, Some p) \<Rightarrow> (userId, p) \<in> buyer_keys s | _ \<Rightarrow> False)"

definition predates :: "(string \<Rightarrow> bool) \<Rightarrow> json \<Rightarrow> bool" where
  "predates zUuid j \<longleftrightarrow> (case userCreatedEventSchema zUuid j of
     Some (userId, p) \<Rightarrow> p = None \<or> p = Some '''' | None \<Rightarrow> False)"

text \<open>No event that the user service writes predates it.\<close>

lemma user_wire_not_predating:
  assumes "zUuid (us_publicId u)" and "zUuid (us_identityPublicId u)" and "us_identityPublicId u \<noteq> ''''"
    and "int4 (us_id u)" and "0 < us_id u"
  shows "\<not> predates zUuid (user_wire now u)"
  using assms user_wire_schemas(2) [of zUuid u now] by (simp add: predates_def)

text \<open>
  The other operations of the order service: placing and ending an order, and what the relays and the
  retention jobs do to the outboxes. They leave the buyers alone.
\<close>

inductive order_operation :: "order_db \<Rightarrow> order_db \<Rightarrow> bool" where
  place: "OrderPlaceCommandHandler_execute env sdb input i key db = (r, db') \<Longrightarrow> order_operation db db'"
| finish: "transactional (end_order env i res) db = (r', db') \<Longrightarrow> order_operation db db'"
| outboxes: "order_operation db (db\<lparr>odb_outbox := out, odb_workflows := wfs\<rparr>)"

lemma place_new_buyers: "place_new env sdb input buyer key db = Inr (r, db') \<Longrightarrow> odb_buyers db' = odb_buyers db"
  by (auto simp: place_new_def OrderPlaceCommandHandler_createRecipient_def OrderRecipientRepository_create_def
      OrderPlaceCommandHandler_createOrder_def OrderRepository_create_def OrderPlaceCommandHandler_createItems_def
      OrderLineRepository_create_def write_outboxes_def Let_def split: sum.splits prod.splits if_splits option.splits)

lemma end_order_buyers: "end_order env i res db = Inr (u, db') \<Longrightarrow> odb_buyers db' = odb_buyers db"
  by (auto simp: end_order_def OrderPlaceActivity_markPaid_def OrderPlaceActivity_markFailed_def
      OrderRepository_updatePendingStatusById_def record_event_def Let_def
      split: sum.splits prod.splits if_splits option.splits)

lemma order_operation_buyers: "order_operation db db' \<Longrightarrow> odb_buyers db' = odb_buyers db"
proof (induction rule: order_operation.induct)
  case (place env sdb input i key db r db')
  then show ?case
    by (auto simp: OrderPlaceCommandHandler_execute_def OrderPlaceCommandHandler_createPending_def transactional_def
        dest!: place_new_buyers split: option.splits sum.splits prod.splits)
next
  case (finish env i res db r' db')
  then show ?case by (auto simp: transactional_def dest!: end_order_buyers split: sum.splits prod.splits)
qed simp

lemma buyer_events_run:
  assumes "buyer_events zUuid now j i s = (r, s')"
  shows "buyer_keys s \<subseteq> buyer_keys s'" and "user_event zUuid U j \<Longrightarrow> buyer_keys s' \<subseteq> buyer_keys s \<union> U"
    and "r = Inr () \<Longrightarrow> addressed (mc_type UserCreatedEvent) j \<Longrightarrow> \<not> predates zUuid j \<Longrightarrow>
      \<exists>userId p. userCreatedEventSchema zUuid j = Some (userId, Some p) \<and> p \<noteq> '''' \<and> (\<exists>(k, q)\<in>buyer_keys s'. k = userId \<or> q = p)"
  using assms
  by (auto simp: buyer_events_def OrderUserEventsGateway_handle_def OrderBuyerRegisterCommandHandler_execute_def
      OrderBuyerRepository_createIfAbsent_def transactional_def buyer_keys_def user_event_def predates_def addressed_def list_ex_iff
      split: if_splits option.splits sum.splits prod.splits)

lemma buyer_exists_mono: "buyer_exists zUuid k s \<Longrightarrow> buyer_keys s \<subseteq> buyer_keys s' \<Longrightarrow> buyer_exists zUuid k s'"
  by (auto simp: buyer_exists_def split: option.splits)

interpretation buyers: event_effect "buyer_events zUuid" "\<lambda>env s. True" order_operation
  "\<lambda>j s. \<not> addressed (mc_type UserCreatedEvent) j \<or> predates zUuid j \<or> buyer_exists zUuid j s"
  "\<lambda>s. one_to_one U \<and> buyer_keys s \<subseteq> U" "user_event zUuid U" for zUuid U
proof unfold_locales
  fix now s j i u s'
  assume wf: "one_to_one U \<and> buyer_keys s \<subseteq> U" and gen: "user_event zUuid U j"
    and run: "buyer_events zUuid now j i s = (Inr u, s')"
  have "buyer_exists zUuid j s'" if asked: "addressed (mc_type UserCreatedEvent) j" "\<not> predates zUuid j"
  proof -
    obtain userId p k q where ev: "userCreatedEventSchema zUuid j = Some (userId, Some p)" "p \<noteq> ''''"
      and row: "(k, q) \<in> buyer_keys s'" "k = userId \<or> q = p"
      using buyer_events_run(3) [OF run _ asked] by auto
    have "(userId, p) \<in> U" using gen ev by (simp add: user_event_def)
    moreover have "(k, q) \<in> U" using buyer_events_run(2) [OF run gen] wf row(1) by blast
    ultimately have "k = userId \<and> q = p" using row(2) wf one_to_oneD by blast
    with row(1) ev show ?thesis by (simp add: buyer_exists_def)
  qed
  then show "\<not> addressed (mc_type UserCreatedEvent) j \<or> predates zUuid j \<or> buyer_exists zUuid j s'" by blast
next
  fix now j i s r s' k
  assume "buyer_events zUuid now j i s = (r, s')"
    and "\<not> addressed (mc_type UserCreatedEvent) k \<or> predates zUuid k \<or> buyer_exists zUuid k s"
  with buyer_events_run(1) [OF this(1)] buyer_exists_mono
  show "\<not> addressed (mc_type UserCreatedEvent) k \<or> predates zUuid k \<or> buyer_exists zUuid k s'" by blast
next
  fix s s' k
  assume "order_operation s s'" and eff: "\<not> addressed (mc_type UserCreatedEvent) k \<or> predates zUuid k \<or> buyer_exists zUuid k s"
  from order_operation_buyers [OF this(1)] have "buyer_keys s \<subseteq> buyer_keys s'" by (simp add: buyer_keys_def)
  with eff buyer_exists_mono show "\<not> addressed (mc_type UserCreatedEvent) k \<or> predates zUuid k \<or> buyer_exists zUuid k s'"
    by blast
next
  fix now j i s r s'
  assume "one_to_one U \<and> buyer_keys s \<subseteq> U" and "user_event zUuid U j" and "buyer_events zUuid now j i s = (r, s')"
  then show "one_to_one U \<and> buyer_keys s' \<subseteq> U" using buyer_events_run(2) [of zUuid now j i s r s' U] by blast
next
  fix s s'
  assume "order_operation s s'" and "one_to_one U \<and> buyer_keys s \<subseteq> U"
  with order_operation_buyers [OF this(1)] show "one_to_one U \<and> buyer_keys s' \<subseteq> U" by (simp add: buyer_keys_def)
qed

subsection \<open>Nothing is lost between the services\<close>

text \<open>A consumer that starts at the beginning of a log, under the group id of the gateway.\<close>

definition fresh_part :: "consumed_message list \<Rightarrow> 's \<Rightarrow> dead_letter kafka \<Rightarrow> 's part_state" where
  "fresh_part ms s b = \<lparr>ps_log = ms, ps_state = s, ps_dlt = b, ps_position = 0, ps_committed = 0\<rparr>"

definition profile_consumer :: started_consumer where
  "profile_consumer = KafkaConsumerService_start [] \<lparr>sb_groupId = ''user.profile'', sb_topic = Topic_IDENTITY_EVENTS, sb_broadcast = False\<rparr>"

definition account_consumer :: started_consumer where
  "account_consumer = KafkaConsumerService_start [] \<lparr>sb_groupId = ''account.provisioning'', sb_topic = Topic_USER_EVENTS, sb_broadcast = False\<rparr>"

definition buyer_consumer :: started_consumer where
  "buyer_consumer = KafkaConsumerService_start [] \<lparr>sb_groupId = ''order.buyers'', sb_topic = Topic_USER_EVENTS, sb_broadcast = False\<rparr>"

lemmas consumer_defs = profile_consumer_def account_consumer_def buyer_consumer_def KafkaConsumerService_start_def

text \<open>
  C9. No event is lost between the services: however deliveries, failures, commits, crashes and the
  other operations interleave, every message a consumer has moved past is settled. Its event is not one of those
  the consumer asked for; or it took effect and still has: the profile that carries both ids of the
  registered identity exists, the account of the created user exists, and so does the buyer that
  carries both its ids, except for an event that predates the identity's id and names none; or the message lies
  under the dead-letter topic, with its key, its value and where it came from. The producers pair the
  ids they send one to one, and the tables agree with them at the start.
\<close>

theorem events_not_lost:
  assumes "one_to_one I" and "one_to_one U"
  shows "(\<forall>p i ms s b. (part_step parse why (user_events zUuid zEmail) fresh_user_env user_operation profile_consumer part)\<^sup>*\<^sup>*
        (fresh_part ms s b) p \<and> i < ps_position p \<and> profile_keys s \<subseteq> I
        \<and> (\<forall>j\<in>log_events parse (ps_log p). identity_event zUuid zEmail I j) \<longrightarrow>
      message_settled parse (\<lambda>j s. \<not> addressed (mc_type IdentityRegisteredEvent) j \<or> profile_exists zUuid zEmail j s)
        profile_consumer part i p)
   \<and> (\<forall>p i ms s b. (part_step parse why (account_events zUuid) (\<lambda>env s. True) (account_step isUUID) account_consumer part)\<^sup>*\<^sup>*
        (fresh_part ms s b) p \<and> i < ps_position p \<longrightarrow>
      message_settled parse (\<lambda>j s. \<not> addressed (mc_type UserCreatedEvent) j \<or> account_exists zUuid j s)
        account_consumer part i p)
   \<and> (\<forall>p i ms s b. (part_step parse why (buyer_events zUuid) (\<lambda>env s. True) order_operation buyer_consumer part)\<^sup>*\<^sup>*
        (fresh_part ms s b) p \<and> i < ps_position p \<and> buyer_keys s \<subseteq> U
        \<and> (\<forall>j\<in>log_events parse (ps_log p). user_event zUuid U j) \<longrightarrow>
      message_settled parse (\<lambda>j s. \<not> addressed (mc_type UserCreatedEvent) j \<or> predates zUuid j \<or> buyer_exists zUuid j s)
        buyer_consumer part i p)"
proof (intro conjI allI impI; elim conjE)
  fix p i ms s b
  assume run: "(part_step parse why (user_events zUuid zEmail) fresh_user_env user_operation profile_consumer part)\<^sup>*\<^sup>* (fresh_part ms s b) p"
    and "i < ps_position p" "profile_keys s \<subseteq> I" "\<forall>j\<in>log_events parse (ps_log p). identity_event zUuid zEmail I j"
  with assms(1) show "message_settled parse (\<lambda>j s. \<not> addressed (mc_type IdentityRegisteredEvent) j \<or> profile_exists zUuid zEmail j s)
      profile_consumer part i p"
    by (intro profiles.consumed_settled [OF run, where I = I]) (simp_all add: fresh_part_def consumer_defs)
next
  fix p i ms s b
  assume run: "(part_step parse why (account_events zUuid) (\<lambda>env s. True) (account_step isUUID) account_consumer part)\<^sup>*\<^sup>* (fresh_part ms s b) p"
    and "i < ps_position p"
  then show "message_settled parse (\<lambda>j s. \<not> addressed (mc_type UserCreatedEvent) j \<or> account_exists zUuid j s)
      account_consumer part i p"
    by (intro accounts.consumed_settled [OF run]) (simp_all add: fresh_part_def consumer_defs)
next
  fix p i ms s b
  assume run: "(part_step parse why (buyer_events zUuid) (\<lambda>env s. True) order_operation buyer_consumer part)\<^sup>*\<^sup>* (fresh_part ms s b) p"
    and "i < ps_position p" "buyer_keys s \<subseteq> U" "\<forall>j\<in>log_events parse (ps_log p). user_event zUuid U j"
  with assms(2) show "message_settled parse (\<lambda>j s. \<not> addressed (mc_type UserCreatedEvent) j \<or> predates zUuid j \<or> buyer_exists zUuid j s)
      buyer_consumer part i p"
    by (intro buyers.consumed_settled [OF run, where U = U]) (simp_all add: fresh_part_def consumer_defs)
qed

text \<open>One message that is handled: the registration of the demo identity, and the profile made from it.\<close>

definition demo_message :: consumed_message where
  "demo_message = \<lparr>cm_key = None, cm_value = Some ''m'', cm_headers = []\<rparr>"

definition no_letters :: "dead_letter kafka" where
  "no_letters = \<lparr>kf_log = [], kf_outcomes = []\<rparr>"

lemma deliver_one:
  assumes "handle env j 0 s = (Inr u, s')" and "fresh env s"
  shows "(part_step (\<lambda>v. Some j) why handle fresh others c part)\<^sup>*\<^sup>* (fresh_part [demo_message] s no_letters)
    ((fresh_part [demo_message] s' no_letters)\<lparr>ps_position := 1\<rparr>)"
proof -
  let ?p = "fresh_part [demo_message] s no_letters"
  have "KafkaConsumerService_eachMessage (\<lambda>v. Some j) why handle c part env (ps_position ?p) (ps_log ?p ! ps_position ?p)
      (ps_state ?p, ps_dlt ?p) = (True, s', no_letters)"
    using assms(1) by (simp add: KafkaConsumerService_eachMessage_def fresh_part_def)
  from part_step.delivered [OF _ _ this, where fresh = fresh and others = others] assms(2) show ?thesis
    by (intro r_into_rtranclp) (simp add: fresh_part_def)
qed

abbreviation empty_order_db :: order_db where
  "empty_order_db \<equiv> \<lparr>odb_orders = [], odb_lines = [], odb_recipients = [], odb_buyers = [], odb_outbox = [], odb_workflows = []\<rparr>"

lemma demo_profile_made:
  "\<exists>s. user_events (\<lambda>s. s \<noteq> []) (\<lambda>s. True) demo_user_env (identity_wire 0 demo_identity) 0 \<lparr>udb_users = [], udb_outbox = []\<rparr> = (Inr (), s)"
proof -
  note accept = identity_wire_schema [of "\<lambda>s. s \<noteq> []" demo_identity "\<lambda>s. True" 0]
  have "user_values \<lparr>us_identityId = 1, us_identityPublicId = ''i1'', us_email = Some ''a@b.c'', us_phoneNumber = None\<rparr>"
    using demo_email by (simp add: user_values_def int4_def nullable_def)
  from user_created [OF this, of demo_user_env "\<lparr>udb_users = [], udb_outbox = []\<rparr>"] accept
  show ?thesis by (simp add: user_events_def UserIdentityEventsGateway_handle_def transactional_def user_absent_def int4_def nullable_def)
qed

lemma demo_buyer_made:
  "\<exists>s. buyer_events (\<lambda>s. s \<noteq> []) 0 (user_wire 0 demo_user) 0 empty_order_db = (Inr (), s)"
  using buyer_handle [of "\<lambda>s. s \<noteq> []" demo_user 0 0 empty_order_db]
  by (simp add: buyer_events_def demo_user_defs int4_def)

lemma one_message_log:
  "j' \<in> log_events (\<lambda>v. Some j) (ps_log (fresh_part ms r b)) \<Longrightarrow> j' = j"
  "\<not> message_dead c part 0 ((fresh_part [demo_message] r no_letters)\<lparr>ps_position := n\<rparr>)"
  by (auto simp: log_events_def message_dead_def fresh_part_def no_letters_def)

theorem events_not_lost_witness:
  "\<exists>(p :: user_db part_state) (q :: order_db part_state). profile_exists (\<lambda>s. s \<noteq> []) (\<lambda>s. True) (identity_wire 0 demo_identity) (ps_state p)
     \<and> buyer_exists (\<lambda>s. s \<noteq> []) (user_wire 0 demo_user) (ps_state q) \<and> ps_position p = 1 \<and> ps_position q = 1"
proof -
  let ?u = "\<lambda>s::string. s \<noteq> []" and ?e = "\<lambda>s::string. True"
  let ?j = "identity_wire 0 demo_identity" and ?k = "user_wire 0 demo_user"
  obtain s where made: "user_events ?u ?e demo_user_env ?j 0 \<lparr>udb_users = [], udb_outbox = []\<rparr> = (Inr (), s)"
    using demo_profile_made by blast
  obtain t where bought: "buyer_events ?u 0 ?k 0 empty_order_db = (Inr (), t)" using demo_buyer_made by blast
  let ?p = "(fresh_part [demo_message] s no_letters)\<lparr>ps_position := 1\<rparr>"
  let ?q = "(fresh_part [demo_message] t no_letters)\<lparr>ps_position := 1\<rparr>"
  have one: "one_to_one {(1, ''i1'')}" "one_to_one {(7, ''i1'')}" by (simp_all add: one_to_one_def)
  note wires = identity_wire_schema [of ?u demo_identity ?e 0] user_wire_schemas [of ?u demo_user 0]
  have facts: "identity_event ?u ?e {(1, ''i1'')} ?j" "addressed (mc_type IdentityRegisteredEvent) ?j"
    "user_event ?u {(7, ''i1'')} ?k" "addressed (mc_type UserCreatedEvent) ?k" "\<not> predates ?u ?k"
    using wires by (simp_all add: identity_event_def user_event_def predates_def addressed_def demo_user_defs int4_def nullable_def)
  note kept = events_not_lost [OF one, where why = "\<lambda>j. ''SyntaxError''" and isUUID = ?u and zUuid = ?u and zEmail = ?e and part = 0]
  have "message_settled (\<lambda>v. Some ?j) (\<lambda>j s. \<not> addressed (mc_type IdentityRegisteredEvent) j \<or> profile_exists ?u ?e j s) profile_consumer 0 0 ?p"
  proof (rule kept [where parse = "\<lambda>v. Some ?j", THEN conjunct1, rule_format], intro conjI)
    show "(part_step (\<lambda>v. Some ?j) (\<lambda>j. ''SyntaxError'') (user_events ?u ?e) fresh_user_env user_operation profile_consumer 0)\<^sup>*\<^sup>*
      (fresh_part [demo_message] \<lparr>udb_users = [], udb_outbox = []\<rparr> no_letters) ?p"
      by (rule deliver_one [where handle = "user_events ?u ?e", OF made]) (simp add: fresh_user_env_def)
  qed (use facts(1) in \<open>auto simp: profile_keys_def dest!: one_message_log(1)\<close>)
  moreover have "message_settled (\<lambda>v. Some ?k) (\<lambda>j s. \<not> addressed (mc_type UserCreatedEvent) j \<or> predates ?u j \<or> buyer_exists ?u j s)
      buyer_consumer 0 0 ?q"
  proof (rule kept [where parse = "\<lambda>v. Some ?k", THEN conjunct2, THEN conjunct2, rule_format], intro conjI)
    show "(part_step (\<lambda>v. Some ?k) (\<lambda>j. ''SyntaxError'') (buyer_events ?u) (\<lambda>env s. True) order_operation buyer_consumer 0)\<^sup>*\<^sup>*
      (fresh_part [demo_message] empty_order_db no_letters) ?q"
      by (rule deliver_one [where handle = "buyer_events ?u", OF bought]) simp
  qed (use facts(3) in \<open>auto simp: buyer_keys_def dest!: one_message_log(1)\<close>)
  ultimately have "profile_exists ?u ?e ?j (ps_state ?p)" "buyer_exists ?u ?k (ps_state ?q)"
    using facts(2,4,5) one_message_log(2) [where n = 1] by (auto simp: message_settled_def message_event_def one_message_log(2))
  then show ?thesis by (intro exI [of _ ?p] exI [of _ ?q]) simp
qed

end
