(* ===== verification/Db_Retry.thy ===== *)
theory Db_Retry
  imports Prelude
begin

section \<open>Transactions with retries\<close>

text \<open>
  \<open>TransactionalAdapterTypeOrmWithRetry\<close>: what every method marked \<open>@Transactional()\<close> runs in. The
  database may abort a transaction at any statement or at its commit; an abort for a deadlock or a
  serialization failure is retried, with a growing and randomised delay. The rest of the development
  treats such a method as \<open>transactional\<close> on one state; the theorem of this theory says when that is
  what the adapter delivers.
\<close>

subsection \<open>The database\<close>

text \<open>
  TypeORM's \<open>dataSource.transaction\<close>: begin, run, commit, and roll back when the body throws. What
  Postgres does with a transaction is a script: it completes, or is aborted with an
  SQLSTATE, which rolls back everything it wrote. Between two transactions of this session the others
  may change the data: the functions of \<open>dw_others\<close>, one before each transaction.
\<close>

datatype 'e thrown = QueryFailedError "string option" | OtherError 'e

datatype transaction_fate = Completes | Aborted "string option"

record 's db_world =
  dw_state :: 's
  dw_others :: "('s \<Rightarrow> 's) list"
  dw_fates :: "transaction_fate list"

definition interfere :: "'s db_world \<Rightarrow> 's db_world" where
  "interfere w = (case dw_others w of [] \<Rightarrow> w | f # fs \<Rightarrow> w\<lparr>dw_state := f (dw_state w), dw_others := fs\<rparr>)"

definition next_fate :: "'s db_world \<Rightarrow> transaction_fate" where
  "next_fate w = (case dw_fates w of [] \<Rightarrow> Completes | x # xs \<Rightarrow> x)"

definition dataSource_transaction ::
  "('s, 'e thrown, 'a) tx \<Rightarrow> 's db_world \<Rightarrow> ('e thrown + 'a) \<times> 's db_world" where
  "dataSource_transaction run w =
     (let w1 = (interfere w)\<lparr>dw_fates := tl (dw_fates w)\<rparr>
      in case next_fate w of
           Completes \<Rightarrow> (case transactional run (dw_state w1) of (r, s) \<Rightarrow> (r, w1\<lparr>dw_state := s\<rparr>))
         | Aborted code \<Rightarrow> (Inl (QueryFailedError code), w1))"

subsection \<open>The adapter\<close>

definition DEADLOCK_ERROR_CODES :: "string list" where
  "DEADLOCK_ERROR_CODES = [''40P01'', ''40001'']"

fun deadlockErrorCode :: "'e thrown \<Rightarrow> string option" where
  "deadlockErrorCode (OtherError e) = None"
| "deadlockErrorCode (QueryFailedError code) =
     (case code of None \<Rightarrow> None | Some c \<Rightarrow> if c \<in> set DEADLOCK_ERROR_CODES then Some c else None)"

text \<open>\<open>Math.round(baseDelayMs * 2 ** (attempt - 1) + Math.random() * baseDelayMs)\<close>, for a random \<open>r\<close>.\<close>

definition retry_delay :: "int \<Rightarrow> nat \<Rightarrow> rat \<Rightarrow> int" where
  "retry_delay baseDelayMs attempt r = \<lfloor>of_int baseDelayMs * 2 ^ (attempt - 1) + r * of_int baseDelayMs + 1 / 2\<rfloor>"

text \<open>
  The loop, with the delays it slept. \<open>random\<close> gives the value of \<open>Math.random()\<close> in each attempt.
\<close>

function retry_loop ::
  "nat \<Rightarrow> int \<Rightarrow> (nat \<Rightarrow> rat) \<Rightarrow> ('w \<Rightarrow> ('e thrown + 'a) \<times> 'w) \<Rightarrow> nat \<Rightarrow> 'w \<Rightarrow> ('e thrown + 'a) \<times> int list \<times> 'w" where
  "retry_loop maxAttempts baseDelayMs random fn attempt w =
     (case fn w of
        (Inr x, w') \<Rightarrow> (Inr x, [], w')
      | (Inl e, w') \<Rightarrow>
          (if deadlockErrorCode e = None \<or> attempt \<ge> maxAttempts then (Inl e, [], w')
           else (case retry_loop maxAttempts baseDelayMs random fn (Suc attempt) w' of
                   (r, delays, w'') \<Rightarrow> (r, retry_delay baseDelayMs attempt (random attempt) # delays, w''))))"
  by pat_completeness auto

termination retry_loop
  by (relation "measure (\<lambda>(maxAttempts, _, _, _, attempt, _). maxAttempts - attempt)") auto

declare retry_loop.simps [simp del]

definition retryTransactionOnDeadlock ::
  "nat \<Rightarrow> int \<Rightarrow> (nat \<Rightarrow> rat) \<Rightarrow> ('w \<Rightarrow> ('e thrown + 'a) \<times> 'w) \<Rightarrow> 'w \<Rightarrow> ('e thrown + 'a) \<times> int list \<times> 'w" where
  "retryTransactionOnDeadlock maxAttempts baseDelayMs random fn w = retry_loop maxAttempts baseDelayMs random fn 1 w"

definition wrapWithTransaction ::
  "nat \<Rightarrow> int \<Rightarrow> (nat \<Rightarrow> rat) \<Rightarrow> ('s, 'e thrown, 'a) tx \<Rightarrow> 's db_world \<Rightarrow> ('e thrown + 'a) \<times> int list \<times> 's db_world" where
  "wrapWithTransaction maxAttempts baseDelayMs random run w =
     retryTransactionOnDeadlock maxAttempts baseDelayMs random (dataSource_transaction run) w"

text \<open>The options of \<open>DbModule\<close>.\<close>

definition DB_MAX_ATTEMPTS :: nat where "DB_MAX_ATTEMPTS = 10"
definition DB_BASE_DELAY_MS :: int where "DB_BASE_DELAY_MS = 20"

subsection \<open>What a transaction with retries does\<close>

text \<open>The data the attempt with index \<open>j\<close> finds when the earlier ones left nothing, and its result.\<close>

definition seen :: "nat \<Rightarrow> 's db_world \<Rightarrow> 's" where
  "seen j w = dw_state ((interfere ^^ Suc j) w)"

definition attempt_result :: "('s, 'e thrown, 'a) tx \<Rightarrow> 's db_world \<Rightarrow> nat \<Rightarrow> ('e thrown + 'a) \<times> 's" where
  "attempt_result run w j =
     (case if j < length (dw_fates w) then dw_fates w ! j else Completes of
        Completes \<Rightarrow> transactional run (seen j w)
      | Aborted code \<Rightarrow> (Inl (QueryFailedError code), seen j w))"

fun retryable :: "'e thrown + 'a \<Rightarrow> bool" where
  "retryable (Inl e) = (deadlockErrorCode e \<noteq> None)"
| "retryable (Inr x) = False"

definition after_failure :: "'s db_world \<Rightarrow> 's db_world" where
  "after_failure w = (interfere w)\<lparr>dw_fates := tl (dw_fates w)\<rparr>"

lemma interfere_fates: "(interfere ^^ k) (w\<lparr>dw_fates := x\<rparr>) = ((interfere ^^ k) w)\<lparr>dw_fates := x\<rparr>"
  by (induction k) (auto simp: interfere_def split: list.splits)

lemma seen_after_failure: "seen j (after_failure w) = seen (Suc j) w"
  by (simp add: seen_def after_failure_def interfere_fates funpow_swap1 del: funpow.simps)
    (simp add: funpow_swap1)

lemma fates_after_failure: "dw_fates (after_failure w) = tl (dw_fates w)"
  by (simp add: after_failure_def)

lemma attempt_after_failure: "attempt_result run (after_failure w) j = attempt_result run w (Suc j)"
  unfolding attempt_result_def seen_after_failure fates_after_failure by (cases "dw_fates w") simp_all

lemma dataSource_transaction_attempt:
  "dataSource_transaction run w = (r, w') \<Longrightarrow> (r, dw_state w') = attempt_result run w 0"
  by (cases "dw_fates w")
    (auto simp: dataSource_transaction_def attempt_result_def next_fate_def seen_def Let_def
      split: transaction_fate.splits prod.splits)

lemma dataSource_transaction_failure:
  "dataSource_transaction run w = (Inl e, w') \<Longrightarrow> w' = after_failure w"
  by (auto simp: dataSource_transaction_def after_failure_def Let_def transactional_def
      split: transaction_fate.splits prod.splits sum.splits)

lemma retry_delay_le:
  assumes "0 \<le> random" and "random < 1" and "0 \<le> base"
  shows "retry_delay base a random \<le> base * 2 ^ (a - 1) + base"
proof -
  have "random * of_int base \<le> of_int base" using assms by (simp add: mult_left_le_one_le)
  then have "of_int base * 2 ^ (a - 1) + random * of_int base + 1 / 2 < of_int (base * 2 ^ (a - 1) + base) + 1" by simp
  then show ?thesis unfolding retry_delay_def floor_le_iff .
qed

lemma retry_loop_stop:
  "fn w = (q, v) \<Longrightarrow> \<not> retryable q \<Longrightarrow> retry_loop maxAttempts base random fn a w = (q, [], v)"
  by (subst retry_loop.simps) (auto split: sum.splits)

text \<open>The loop from attempt \<open>a\<close> on.\<close>

lemma retry_loop_attempts:
  assumes "retry_loop maxAttempts base random (dataSource_transaction run) a w = (r, delays, w')"
    and "1 \<le> a" and "a \<le> maxAttempts" and "\<forall>k. 0 \<le> random k \<and> random k < 1" and "0 \<le> base"
  shows "a + length delays \<le> maxAttempts
    \<and> (\<forall>j < length delays. retryable (fst (attempt_result run w j)))
    \<and> (r, dw_state w') = attempt_result run w (length delays)
    \<and> (retryable r \<longrightarrow> a + length delays = maxAttempts)
    \<and> sum_list delays \<le> base * 2 ^ (a - 1) * (2 ^ length delays - 1) + int (length delays) * base"
  using assms
proof (induction "maxAttempts - a" arbitrary: a w r delays w')
  case 0
  then have a: "a = maxAttempts" by simp
  show ?case
    using 0(2) dataSource_transaction_attempt [of run w]
    by (subst (asm) retry_loop.simps) (auto simp: a split: prod.splits sum.splits if_splits)
next
  case (Suc m)
  obtain q v where first: "dataSource_transaction run w = (q, v)" by fastforce
  note result = dataSource_transaction_attempt [OF first]
  show ?case
  proof (cases "retryable q")
    case False
    from Suc.prems(1) retry_loop_stop [of "dataSource_transaction run" w q v, OF first False] have "r = q" "delays = []" "w' = v" by simp_all
    with False result Suc.prems show ?thesis by simp
  next
    case True
    then obtain e where e: "q = Inl e" "deadlockErrorCode e \<noteq> None" by (cases q) auto
    from e(1) first have v: "v = after_failure w" by (simp add: dataSource_transaction_failure)
    have "a < maxAttempts" using Suc.hyps(2) by simp
    then obtain ds where rest: "retry_loop maxAttempts base random (dataSource_transaction run) (Suc a) v = (r, ds, w')"
      and delays: "delays = retry_delay base a (random a) # ds"
      using Suc.prems(1) first e by (subst (asm) (1) retry_loop.simps) (auto split: prod.splits)
    have "m = maxAttempts - Suc a" using Suc.hyps(2) by simp
    note IH = Suc.hyps(1) [OF this rest _ _ Suc.prems(4,5)]
    have IH': "Suc a + length ds \<le> maxAttempts"
      "\<forall>j < length ds. retryable (fst (attempt_result run w (Suc j)))"
      "(r, dw_state w') = attempt_result run w (Suc (length ds))"
      "retryable r \<longrightarrow> Suc a + length ds = maxAttempts"
      "sum_list ds \<le> base * 2 ^ a * (2 ^ length ds - 1) + int (length ds) * base"
      using IH \<open>a < maxAttempts\<close> by (simp_all add: v attempt_after_failure)
    have first_ok: "retryable (fst (attempt_result run w 0))" using result True by (metis fst_conv)
    define c where "c = base * 2 ^ (a - 1)"
    have double: "base * 2 ^ a = c * 2" using Suc.prems(2) by (cases a) (simp_all add: c_def)
    have "retry_delay base a (random a) \<le> c + base"
      unfolding c_def using Suc.prems(4,5) by (intro retry_delay_le) auto
    moreover have "sum_list ds \<le> c * 2 * (2 ^ length ds - 1) + int (length ds) * base"
      using IH'(5) by (simp only: double)
    ultimately have "sum_list delays \<le> c * (2 ^ length delays - 1) + int (length delays) * base"
      by (simp add: delays algebra_simps)
    then have "sum_list delays \<le> base * 2 ^ (a - 1) * (2 ^ length delays - 1) + int (length delays) * base"
      unfolding c_def .
    moreover have "\<forall>j < length delays. retryable (fst (attempt_result run w j))"
      using IH'(2) first_ok by (auto simp: delays less_Suc_eq_0_disj)
    ultimately show ?thesis using IH'(1,3,4) by (simp add: delays)
  qed
qed

text \<open>
  C39. A transactional method ends after at most \<open>maxAttempts\<close> attempts. Only aborts for a deadlock or a serialization
  failure are retried; they leave nothing behind, so that the result is that of its last attempt alone: the body
  committed once on the data it then found, or an error with nothing written. An error of
  the retried kind is only reported when the attempts are used up. The waiting is bounded: ten
  attempts from twenty milliseconds wait at most 10.4 seconds.
\<close>

theorem retried_transaction:
  assumes "wrapWithTransaction maxAttempts base random run w = (r, delays, w')"
    and "1 \<le> maxAttempts" and "\<forall>k. 0 \<le> random k \<and> random k < 1" and "0 \<le> base"
  shows "length delays < maxAttempts
    \<and> (\<forall>j < length delays. retryable (fst (attempt_result run w j)))
    \<and> (r, dw_state w') = attempt_result run w (length delays)
    \<and> ((r, dw_state w') = transactional run (seen (length delays) w)
        \<or> (\<exists>code. r = Inl (QueryFailedError code) \<and> dw_state w' = seen (length delays) w))
    \<and> (retryable r \<longrightarrow> Suc (length delays) = maxAttempts)
    \<and> sum_list delays \<le> base * (2 ^ length delays - 1) + int (length delays) * base"
proof -
  from assms(1) have "retry_loop maxAttempts base random (dataSource_transaction run) 1 w = (r, delays, w')"
    by (simp add: wrapWithTransaction_def retryTransactionOnDeadlock_def)
  note all = retry_loop_attempts [OF this order_refl assms(2,3,4)]
  then have "(r, dw_state w') = attempt_result run w (length delays)" by simp
  then have "(r, dw_state w') = transactional run (seen (length delays) w)
      \<or> (\<exists>code. r = Inl (QueryFailedError code) \<and> dw_state w' = seen (length delays) w)"
    by (auto simp: attempt_result_def split: transaction_fate.splits if_splits)
  with all show ?thesis by simp
qed

theorem retried_transaction_witness:
  "\<exists>delays w'. wrapWithTransaction DB_MAX_ATTEMPTS DB_BASE_DELAY_MS (\<lambda>k. 1 / 2) (\<lambda>s. Inr (s, s + (1::int)))
      \<lparr>dw_state = 5, dw_others = [\<lambda>s. s + 10, \<lambda>s. s * 2], dw_fates = [Aborted (Some ''40P01'')]\<rparr>
      = ((Inr 30 :: unit thrown + int), delays, w') \<and> delays = [30] \<and> dw_state w' = 31 \<and> length delays < 10"
proof -
  let ?w = "\<lparr>dw_state = 5, dw_others = [\<lambda>s. s + 10, \<lambda>s. s * 2], dw_fates = [Aborted (Some ''40P01'')]\<rparr>"
  let ?run = "\<lambda>s. Inr (s, s + (1::int)) :: unit thrown + int \<times> int"
  have run: "wrapWithTransaction DB_MAX_ATTEMPTS DB_BASE_DELAY_MS (\<lambda>k. 1 / 2) ?run ?w
      = (Inr 30, [30], \<lparr>dw_state = 31, dw_others = [], dw_fates = []\<rparr>)"
    by (simp add: wrapWithTransaction_def retryTransactionOnDeadlock_def retry_loop.simps dataSource_transaction_def
        interfere_def next_fate_def transactional_def DEADLOCK_ERROR_CODES_def DB_MAX_ATTEMPTS_def DB_BASE_DELAY_MS_def
        retry_delay_def floor_eq_iff)
  from retried_transaction [OF run] have "length [30 :: int] < 10"
    by (simp add: DB_MAX_ATTEMPTS_def DB_BASE_DELAY_MS_def)
  with run show ?thesis by auto
qed

end
