(* ===== verification/Cache.thy ===== *)
theory Cache
  imports Js_Number
begin

section \<open>The cache\<close>

text \<open>
  \<open>CacheService\<close> and the wrappers of \<open>CacheExplorer\<close>, for one key: a reader that misses takes a lock,
  loads and stores; the others poll, and load themselves when they have waited too long. A method that
  evicts deletes the key after it has run. Every await is a step, because requests and processes interleave there.
  The entry is a text: what a hit answers is \<open>JSON.parse\<close> of what \<open>JSON.stringify\<close> made of the loaded value, and
  the two functions are arguments of the definitions. Redis answers every command.
\<close>

subsection \<open>Constants and keys\<close>

definition CACHE_lockTtlMs :: int where "CACHE_lockTtlMs = 5000"
definition CACHE_waitTimeoutMs :: int where "CACHE_waitTimeoutMs = 5000"
definition CACHE_pollIntervalMs :: int where "CACHE_pollIntervalMs = 50"
definition ORDER_CACHE_TTL_SECONDS :: int where "ORDER_CACHE_TTL_SECONDS = 300"
definition ORDER_CACHE_JITTER_SECONDS :: int where "ORDER_CACHE_JITTER_SECONDS = 60"

definition orderCacheKey :: "nat \<Rightarrow> string" where
  "orderCacheKey i = ''order:'' @ show_nat i"

definition CacheService_toLockKey :: "string \<Rightarrow> string" where
  "CacheService_toLockKey key = ''lock:'' @ key"

text \<open>\<open>randomInt(0, n)\<close> gives a number below \<open>n\<close>: \<open>r\<close> is any natural number, reduced to that range.\<close>

record cache_options =
  co_ttlSeconds :: int
  co_jitterSeconds :: int

definition CacheService_toTtlSeconds :: "cache_options \<Rightarrow> nat \<Rightarrow> int" where
  "CacheService_toTtlSeconds options r = co_ttlSeconds options + int r mod (co_jitterSeconds options + 1)"

lemma toTtlSeconds_bounds:
  assumes "0 \<le> co_jitterSeconds options"
  shows "co_ttlSeconds options \<le> CacheService_toTtlSeconds options r"
    and "CacheService_toTtlSeconds options r \<le> co_ttlSeconds options + co_jitterSeconds options"
proof -
  have "0 \<le> int r mod (co_jitterSeconds options + 1) \<and> int r mod (co_jitterSeconds options + 1) < co_jitterSeconds options + 1"
    using assms pos_mod_bound [of "co_jitterSeconds options + 1" "int r"] pos_mod_sign [of "co_jitterSeconds options + 1" "int r"]
    by linarith
  then show "co_ttlSeconds options \<le> CacheService_toTtlSeconds options r"
    "CacheService_toTtlSeconds options r \<le> co_ttlSeconds options + co_jitterSeconds options"
    by (simp_all add: CacheService_toTtlSeconds_def)
qed

subsection \<open>Redis\<close>

text \<open>A key holds a value until it expires, in milliseconds.\<close>

type_synonym 'v redis_key = "('v \<times> time) option"

definition redis_live :: "time \<Rightarrow> 'v redis_key \<Rightarrow> 'v option" where
  "redis_live now k = (case k of None \<Rightarrow> None | Some (v, expiry) \<Rightarrow> if now < expiry then Some v else None)"

definition CacheService_acquireLock :: "time \<Rightarrow> uuid \<Rightarrow> uuid redis_key \<Rightarrow> bool \<times> uuid redis_key" where
  "CacheService_acquireLock now token lock =
     (if redis_live now lock = None then (True, Some (token, now + CACHE_lockTtlMs)) else (False, lock))"

definition CacheService_releaseLock :: "time \<Rightarrow> uuid \<Rightarrow> uuid redis_key \<Rightarrow> uuid redis_key" where
  "CacheService_releaseLock now token lock = (if redis_live now lock = Some token then None else lock)"

text \<open>
  \<open>JSON.stringify\<close> and \<open>JSON.parse\<close> on the cached values, \<open>None\<close> when they throw. Nothing is assumed of them: a
  \<open>Date\<close> becomes a text and an entity a plain object, so a value need not come back as it was.
\<close>

record 'v json_codec =
  js_stringify :: "'v \<Rightarrow> string option"
  js_parse :: "string \<Rightarrow> 'v option"

text \<open>\<open>None\<close> is \<open>undefined\<close>, a miss; \<open>Some None\<close> an entry that \<open>JSON.parse\<close> refuses.\<close>

definition CacheService_read :: "'v json_codec \<Rightarrow> time \<Rightarrow> string redis_key \<Rightarrow> 'v option option" where
  "CacheService_read js now entry = map_option (js_parse js) (redis_live now entry)"

text \<open>\<open>None\<close> when \<open>JSON.stringify\<close> throws.\<close>

definition CacheService_store :: "'v json_codec \<Rightarrow> time \<Rightarrow> cache_options \<Rightarrow> nat \<Rightarrow> 'v \<Rightarrow> string redis_key option" where
  "CacheService_store js now options r v =
     map_option (\<lambda>text. Some (text, now + 1000 * CacheService_toTtlSeconds options r)) (js_stringify js v)"

definition CacheService_delete :: "string redis_key \<Rightarrow> string redis_key" where
  "CacheService_delete entry = None"

subsection \<open>Reading through the cache\<close>

text \<open>
  Where a call of \<open>getOrLoad\<close> stands: before its loop or between two rounds (with the deadline), asleep
  after a refused lock, loading (with its lock token, or without one after the deadline), having loaded, having to give
  back the lock, and returned with a value or with an error.
\<close>

datatype 'v reader =
    Started
  | Trying time
  | Sleeping time time
  | Loading "uuid option"
  | Loaded "uuid option" 'v
  | Leaving "uuid option" "'v option"
  | Returned_with "'v option"

record 'v cache_world =
  cw_now :: time
  cw_source :: "'v option"
  cw_entry :: "string redis_key"
  cw_lock :: "uuid redis_key"

text \<open>
  One step of a call. \<open>cw_source\<close> is what the load would give, \<open>None\<close> when it throws. \<open>token\<close> is a fresh
  uuid, \<open>r\<close> the random number of the expiry.
\<close>

fun CacheService_getOrLoad_step ::
  "'v json_codec \<Rightarrow> cache_options \<Rightarrow> uuid \<Rightarrow> nat \<Rightarrow> 'v reader \<Rightarrow> 'v cache_world \<Rightarrow> 'v reader \<times> 'v cache_world" where
  "CacheService_getOrLoad_step js options token r Started w =
     (case CacheService_read js (cw_now w) (cw_entry w) of
        Some res \<Rightarrow> (Returned_with res, w)
      | None \<Rightarrow> (Trying (cw_now w + CACHE_waitTimeoutMs), w))"
| "CacheService_getOrLoad_step js options token r (Trying deadline) w =
     (if cw_now w < deadline
      then (case CacheService_acquireLock (cw_now w) token (cw_lock w) of
              (True, lock) \<Rightarrow> (Loading (Some token), w\<lparr>cw_lock := lock\<rparr>)
            | (False, lock) \<Rightarrow> (Sleeping deadline (cw_now w + CACHE_pollIntervalMs), w))
      else (Loading None, w))"
| "CacheService_getOrLoad_step js options token r (Sleeping deadline wake) w =
     (if cw_now w < wake then (Sleeping deadline wake, w)
      else (case CacheService_read js (cw_now w) (cw_entry w) of
              Some res \<Rightarrow> (Returned_with res, w)
            | None \<Rightarrow> (Trying deadline, w)))"
| "CacheService_getOrLoad_step js options token r (Loading held) w =
     (case cw_source w of Some v \<Rightarrow> (Loaded held v, w) | None \<Rightarrow> (Leaving held None, w))"
| "CacheService_getOrLoad_step js options token r (Loaded held v) w =
     (case CacheService_store js (cw_now w) options r v of
        Some entry \<Rightarrow> (Leaving held (Some v), w\<lparr>cw_entry := entry\<rparr>)
      | None \<Rightarrow> (Leaving held None, w))"
| "CacheService_getOrLoad_step js options token r (Leaving held res) w =
     (Returned_with res,
      case held of None \<Rightarrow> w | Some t \<Rightarrow> w\<lparr>cw_lock := CacheService_releaseLock (cw_now w) t (cw_lock w)\<rparr>)"
| "CacheService_getOrLoad_step js options token r (Returned_with res) w = (Returned_with res, w)"

subsection \<open>Calls, writes and evictions\<close>

text \<open>
  All calls of one key, the clock, the writes to the source and the evictions that follow them.
  \<open>CacheExplorer.wrap\<close> makes a method evict after it has run: \<open>written\<close> and \<open>evicted\<close> are separate
  steps, because the delete is a command of its own after the commit.
\<close>

inductive cache_step ::
  "'v json_codec \<Rightarrow> cache_options \<Rightarrow> (nat \<Rightarrow> 'v reader) \<times> 'v cache_world \<Rightarrow> (nat \<Rightarrow> 'v reader) \<times> 'v cache_world \<Rightarrow> bool" for js options where
  called: "cache_step js options (cs, w) (cs(c := Started), w)"
| moved: "CacheService_getOrLoad_step js options token r (cs c) w = (x, w') \<Longrightarrow> cache_step js options (cs, w) (cs(c := x), w')"
| ticked: "cw_now w \<le> t \<Longrightarrow> cache_step js options (cs, w) (cs, w\<lparr>cw_now := t\<rparr>)"
| evicted: "cache_step js options (cs, w) (cs, w\<lparr>cw_entry := CacheService_delete (cw_entry w)\<rparr>)"

definition source_written :: "'v option \<Rightarrow> 'v cache_world \<Rightarrow> 'v cache_world" where
  "source_written v w = w\<lparr>cw_source := v\<rparr>"

fun loaded_value :: "'v reader \<Rightarrow> 'v option" where
  "loaded_value (Loaded held v) = Some v"
| "loaded_value x = None"

fun result_value :: "'v reader \<Rightarrow> 'v option" where
  "result_value (Leaving held res) = res"
| "result_value (Returned_with res) = res"
| "result_value x = None"

text \<open>What a call may answer of the value \<open>v\<close>: \<open>v\<close> itself when it loaded it, \<open>v\<close> through JSON when it hit.\<close>

definition answers :: "'v json_codec \<Rightarrow> 'v \<Rightarrow> 'v \<Rightarrow> bool" where
  "answers js v u \<longleftrightarrow> u = v \<or> Option.bind (js_stringify js v) (js_parse js) = Some u"

text \<open>The entry is the text of the present value of the source, and loads and results are of it.\<close>

definition entry_current :: "'v json_codec \<Rightarrow> 'v cache_world \<Rightarrow> bool" where
  "entry_current js w \<longleftrightarrow> (\<forall>t e. cw_entry w = Some (t, e) \<longrightarrow> (\<exists>v. cw_source w = Some v \<and> js_stringify js v = Some t))"

definition load_current :: "'v cache_world \<Rightarrow> 'v reader \<Rightarrow> bool" where
  "load_current w x \<longleftrightarrow> (\<forall>v. loaded_value x = Some v \<longrightarrow> cw_source w = Some v)"

definition result_current :: "'v json_codec \<Rightarrow> 'v cache_world \<Rightarrow> 'v reader \<Rightarrow> bool" where
  "result_current js w x \<longleftrightarrow> (\<forall>u. result_value x = Some u \<longrightarrow> (\<exists>v. cw_source w = Some v \<and> answers js v u))"

definition coherent :: "'v json_codec \<Rightarrow> nat set \<Rightarrow> (nat \<Rightarrow> 'v reader) \<times> 'v cache_world \<Rightarrow> bool" where
  "coherent js C s \<longleftrightarrow> (case s of (cs, w) \<Rightarrow>
     entry_current js w \<and> (\<forall>c. load_current w (cs c)) \<and> (\<forall>c\<in>C. result_current js w (cs c)))"

lemmas current_defs = entry_current_def load_current_def result_current_def

lemma getOrLoad_step_coherent:
  assumes "CacheService_getOrLoad_step js options token r x w = (x', w')"
    and "entry_current js w" and "load_current w x"
  shows "cw_source w' = cw_source w" and "entry_current js w'" and "load_current w' x'"
    and "result_current js w x \<Longrightarrow> result_current js w' x'"
  using assms
  by (cases x; auto simp: CacheService_read_def redis_live_def CacheService_store_def current_defs answers_def
      split: option.splits if_splits prod.splits bool.splits)+

lemma current_same_source:
  assumes "cw_source w' = cw_source w"
  shows "load_current w' x = load_current w x" and "result_current js w' x = result_current js w x"
  using assms by (simp_all add: current_defs)

lemma cache_step_coherent:
  assumes "cache_step js options s s'" and "coherent js C s"
  shows "coherent js C s' \<and> cw_source (snd s') = cw_source (snd s)"
  using assms(1)
proof cases
  case (moved token r cs c w x w')
  with assms(2) have pre: "entry_current js w" "\<forall>c. load_current w (cs c)" "\<forall>c\<in>C. result_current js w (cs c)"
    by (simp_all add: coherent_def)
  note step = getOrLoad_step_coherent [OF moved(3) pre(1) pre(2) [rule_format]]
  with pre show ?thesis
    unfolding moved(1,2) by (simp add: coherent_def fun_upd_def current_same_source [OF step(1)])
qed (use assms(2) in \<open>auto simp: coherent_def CacheService_delete_def fun_upd_def current_defs\<close>)

text \<open>
  C40. After an eviction the cache serves the new value: if no load that started before the write is still in
  flight when the key is deleted, then until the next write every call that has not yet got a value, and every
  later call, answers with the value \<open>v\<close> written: with \<open>v\<close> itself when it loaded it, with \<open>JSON.parse\<close> of the text
  \<open>JSON.stringify\<close> gives for \<open>v\<close> when it hit; and an entry holds exactly that text. Whatever the two
  functions do to a value, nothing older than the write is answered.
\<close>

theorem cache_fresh_after_evict:
  assumes "(cache_step js options)\<^sup>*\<^sup>* (cs, (source_written (Some v) w)\<lparr>cw_entry := CacheService_delete (cw_entry w)\<rparr>) (cs', w')"
    and "\<forall>c. loaded_value (cs c) = None"
    and "result_value (cs c) = None" and "result_value (cs' c) = Some u"
  shows "(u = v \<or> (\<exists>text. js_stringify js v = Some text \<and> js_parse js text = Some u))
    \<and> cw_source w' = Some v \<and> (\<forall>text e. cw_entry w' = Some (text, e) \<longrightarrow> js_stringify js v = Some text)"
proof -
  let ?s = "(cs, (source_written (Some v) w)\<lparr>cw_entry := CacheService_delete (cw_entry w)\<rparr>)"
  have start: "coherent js {c} ?s" using assms(2,3) by (simp add: coherent_def CacheService_delete_def current_defs)
  from assms(1) have "coherent js {c} (cs', w') \<and> cw_source w' = Some v"
  proof (induction "(cs', w')" arbitrary: cs' w' rule: rtranclp_induct)
    case base
    then show ?case using start by (auto simp: source_written_def)
  next
    case (step y)
    then show ?case using cache_step_coherent [of js options y "(cs', w')" "{c}"] by (cases y) fastforce
  qed
  with assms(4) show ?thesis by (auto simp: coherent_def current_defs answers_def bind_eq_Some_conv)
qed

definition order_cache_options :: cache_options where
  "order_cache_options = \<lparr>co_ttlSeconds = ORDER_CACHE_TTL_SECONDS, co_jitterSeconds = ORDER_CACHE_JITTER_SECONDS\<rparr>"

lemmas cache_run_simps = CacheService_read_def redis_live_def CacheService_acquireLock_def CacheService_store_def
  CacheService_releaseLock_def CacheService_toTtlSeconds_def order_cache_options_def ORDER_CACHE_TTL_SECONDS_def
  ORDER_CACHE_JITTER_SECONDS_def CACHE_waitTimeoutMs_def CACHE_lockTtlMs_def CACHE_pollIntervalMs_def

lemma move_to:
  assumes "CacheService_getOrLoad_step js options token r (cs c) w = (x, w')" and "cs' = cs(c := x)"
  shows "(cache_step js options)\<^sup>*\<^sup>* (cs, w) (cs', w')"
  using cache_step.moved [of js options token r cs c w x w', OF assms(1)] assms(2) by (simp add: r_into_rtranclp)

text \<open>A call on an empty cache loads the value of the source.\<close>

definition empty_cache :: "'v \<Rightarrow> 'v cache_world" where
  "empty_cache v = \<lparr>cw_now = 0, cw_source = Some v, cw_entry = None, cw_lock = None\<rparr>"

lemma miss_loads:
  "(cache_step js order_cache_options)\<^sup>*\<^sup>* (\<lambda>c. Started, empty_cache v)
     ((\<lambda>c. Started)(0 := Loaded (Some t) v), (empty_cache v)\<lparr>cw_lock := Some (t, 5000)\<rparr>)"
proof -
  have 1: "(cache_step js order_cache_options)\<^sup>*\<^sup>* (\<lambda>c. Started, empty_cache v) ((\<lambda>c. Started)(0 := Trying 5000), empty_cache v)"
    by (rule move_to [where c = 0 and token = t and r = 0]) (simp_all add: empty_cache_def cache_run_simps)
  have 2: "(cache_step js order_cache_options)\<^sup>*\<^sup>* ((\<lambda>c. Started)(0 := Trying 5000), empty_cache v)
      ((\<lambda>c. Started)(0 := Loading (Some t)), (empty_cache v)\<lparr>cw_lock := Some (t, 5000)\<rparr>)"
    by (rule move_to [where c = 0 and token = t and r = 0]) (simp_all add: empty_cache_def cache_run_simps)
  have 3: "(cache_step js order_cache_options)\<^sup>*\<^sup>* ((\<lambda>c. Started)(0 := Loading (Some t)), (empty_cache v)\<lparr>cw_lock := Some (t, 5000)\<rparr>)
      ((\<lambda>c. Started)(0 := Loaded (Some t) v), (empty_cache v)\<lparr>cw_lock := Some (t, 5000)\<rparr>)"
    by (rule move_to [where c = 0 and token = t and r = 0]) (simp_all add: empty_cache_def cache_run_simps)
  from 1 2 3 show ?thesis by (meson rtranclp_trans)
qed

text \<open>
  A run in which JSON is not the identity: the value is a \<open>Date\<close>, here its ISO text, and comes back from the cache
  as a text. One call loads it, a second call hits.
\<close>

datatype demo_value = Demo_date string | Demo_text string

definition demo_json :: "demo_value json_codec" where
  "demo_json = \<lparr>js_stringify = (\<lambda>v. Some (CHR 0x22 # (case v of Demo_date d \<Rightarrow> d | Demo_text t \<Rightarrow> t) @ [CHR 0x22])),
     js_parse = (\<lambda>text. Some (Demo_text (butlast (tl text))))\<rparr>"

lemma first_store:
  assumes "js_stringify js v = Some text"
  shows "(cache_step js order_cache_options)\<^sup>*\<^sup>*
      ((\<lambda>c. Started)(0 := Loaded (Some t) v), w)
      ((\<lambda>c. Started)(0 := Leaving (Some t) (Some v)), w\<lparr>cw_entry := Some (text, cw_now w + 300000)\<rparr>)"
  by (rule move_to [where c = 0 and token = t and r = 0]) (simp_all add: cache_run_simps assms)

lemma second_hits:
  assumes "cw_entry w = Some (doc, e)" and "cw_now w < e" and "cs (1::nat) = Started" and "js_parse js doc = Some u"
  shows "(cache_step js order_cache_options)\<^sup>*\<^sup>* (cs, w) (cs(1 := Returned_with (Some u)), w)"
  by (rule move_to [where c = 1 and token = "[]" and r = 0]) (use assms in \<open>simp_all add: cache_run_simps\<close>)

theorem cache_fresh_after_evict_witness:
  "\<exists>cs w. (cache_step demo_json order_cache_options)\<^sup>*\<^sup>* (\<lambda>c. Started, empty_cache (Demo_date ''2026-01-01T00:00:00.000Z'')) (cs, w)
     \<and> result_value (cs (0::nat)) = Some (Demo_date ''2026-01-01T00:00:00.000Z'')
     \<and> result_value (cs 1) = Some (Demo_text ''2026-01-01T00:00:00.000Z'')
     \<and> cw_source w = Some (Demo_date ''2026-01-01T00:00:00.000Z'')"
proof -
  let ?v = "Demo_date ''2026-01-01T00:00:00.000Z''" and ?u = "Demo_text ''2026-01-01T00:00:00.000Z''"
  let ?doc = "CHR 0x22 # ''2026-01-01T00:00:00.000Z'' @ [CHR 0x22]"
  let ?w1 = "(empty_cache ?v)\<lparr>cw_lock := Some (''t'', 5000)\<rparr>"
  let ?w = "?w1\<lparr>cw_entry := Some (?doc, cw_now ?w1 + 300000)\<rparr>"
  let ?cs1 = "(\<lambda>c. Started)(0 := Leaving (Some ''t'') (Some ?v))"
  let ?cs = "?cs1(1 := Returned_with (Some ?u))"
  have stored: "js_stringify demo_json ?v = Some ?doc"
    by (simp_all add: demo_json_def)
  have "(cache_step demo_json order_cache_options)\<^sup>*\<^sup>* (?cs1, ?w) (?cs, ?w)"
    by (rule second_hits [where doc = ?doc and e = 300000]) (simp_all add: empty_cache_def demo_json_def)
  with miss_loads [of demo_json ?v "''t''"] first_store [OF stored, of "''t''" ?w1]
  have run: "(cache_step demo_json order_cache_options)\<^sup>*\<^sup>* (\<lambda>c. Started, empty_cache ?v) (?cs, ?w)"
    by (meson rtranclp_trans)
  have start: "(source_written (Some ?v) (empty_cache (Demo_text [])))
      \<lparr>cw_entry := CacheService_delete (cw_entry (empty_cache (Demo_text [])))\<rparr> = empty_cache ?v"
    by (simp add: source_written_def CacheService_delete_def empty_cache_def)
  from cache_fresh_after_evict [where js = demo_json and options = order_cache_options and cs = "\<lambda>c. Started" and v = ?v
      and w = "empty_cache (Demo_text [])" and cs' = ?cs and w' = ?w and c = 1 and u = ?u]
  have "cw_source ?w = Some ?v" using run by (simp add: start)
  with run show ?thesis by (intro exI [of _ ?cs] exI [of _ ?w]) simp
qed

text \<open>
  The premise on loads in flight is needed: a load that read before the write stores after the eviction,
  and every later read answers with the old value until the entry expires.
\<close>

theorem cache_stale_after_evict:
  assumes "0 \<le> t" and "t < 300000"
    and "js_stringify js old = Some doc" and "js_parse js doc = Some u"
  shows "\<exists>cs1 w1 cs2 w2.
     (cache_step js order_cache_options)\<^sup>*\<^sup>* (\<lambda>c. Started, empty_cache old) (cs1, w1) \<and> cs1 (1::nat) = Started
     \<and> (cache_step js order_cache_options)\<^sup>*\<^sup>*
         (cs1, (source_written (Some new) w1)\<lparr>cw_entry := CacheService_delete (cw_entry w1)\<rparr>) (cs2, w2)
     \<and> cw_now w2 = t \<and> cw_source w2 = Some new \<and> result_value (cs2 1) = Some u"
proof -
  let ?cs1 = "(\<lambda>c. Started)(0 := Loaded (Some ''t'') old)"
  let ?w1 = "(empty_cache old)\<lparr>cw_lock := Some (''t'', 5000)\<rparr>"
  let ?w = "?w1\<lparr>cw_source := Some new\<rparr>"
  let ?w2 = "?w\<lparr>cw_entry := Some (doc, cw_now ?w + 300000)\<rparr>"
  let ?w3 = "?w2\<lparr>cw_now := t\<rparr>"
  let ?cs2 = "(\<lambda>c. Started)(0 := Leaving (Some ''t'') (Some old))"
  have tick: "cache_step js order_cache_options (?cs2, ?w2) (?cs2, ?w3)"
    using assms(1) by (intro cache_step.ticked) (simp add: empty_cache_def)
  have hit: "(cache_step js order_cache_options)\<^sup>*\<^sup>* (?cs2, ?w3) (?cs2(1 := Returned_with (Some u)), ?w3)"
    by (rule second_hits [where doc = doc and e = 300000]) (simp_all add: assms empty_cache_def)
  have start: "(source_written (Some new) ?w1)\<lparr>cw_entry := CacheService_delete (cw_entry ?w1)\<rparr> = ?w"
    by (simp add: source_written_def CacheService_delete_def empty_cache_def)
  from first_store [OF assms(3), of "''t''" ?w] tick hit
  have "(cache_step js order_cache_options)\<^sup>*\<^sup>* (?cs1, ?w) (?cs2(1 := Returned_with (Some u)), ?w3)"
    by (meson rtranclp_trans r_into_rtranclp)
  note rest = this [folded start]
  show ?thesis
    by (intro exI conjI, rule miss_loads, simp, rule rest) (simp_all add: empty_cache_def source_written_def)
qed

end
