(* ===== verification/Platform.thy ===== *)
theory Platform
  imports Prelude
begin

section \<open>Secrets and maintenance jobs\<close>

text \<open>
  Two services every module rests on: \<open>SecretManagerService\<close>, which reads a secret from Infisical and signs in
  again once when a read fails, and the registry of the maintenance jobs with its processor. The vault is
  a script of outcomes: whether the next sign-in works, and what the next read gives.
\<close>

subsection \<open>Secrets\<close>

text \<open>
  \<open>sm_session\<close> is the promise the service keeps: none, one that resolved (\<open>True\<close>) or one that rejected
  (\<open>False\<close>). Calls run one after the other.
\<close>

record secret_manager =
  sm_session :: "bool option"
  sm_sign_ins :: "bool list"
  sm_reads :: "string option list"

datatype secret_error = NotSet | SignInFailed | ReadFailed

definition SecretManagerService_authenticate :: "secret_manager \<Rightarrow> bool \<times> secret_manager" where
  "SecretManagerService_authenticate st =
     (case sm_sign_ins st of [] \<Rightarrow> (True, st) | ok # oks \<Rightarrow> (ok, st\<lparr>sm_sign_ins := oks\<rparr>))"

definition SecretManagerService_ready :: "secret_manager \<Rightarrow> bool \<times> secret_manager" where
  "SecretManagerService_ready st =
     (case sm_session st of
        Some ok \<Rightarrow> (ok, st)
      | None \<Rightarrow> (case SecretManagerService_authenticate st of (ok, st') \<Rightarrow> (ok, st'\<lparr>sm_session := Some ok\<rparr>)))"

text \<open>\<open>vault\<close> gives the value of a secret once the script is exhausted.\<close>

definition SecretManagerService_readSecret ::
  "(string \<Rightarrow> string) \<Rightarrow> string \<Rightarrow> secret_manager \<Rightarrow> string option \<times> secret_manager" where
  "SecretManagerService_readSecret vault name st =
     (case sm_reads st of [] \<Rightarrow> (Some (vault name), st) | v # vs \<Rightarrow> (v, st\<lparr>sm_reads := vs\<rparr>))"

definition SecretManagerService_fromEnvironmentOrFail :: "(string \<Rightarrow> string option) \<Rightarrow> string \<Rightarrow> secret_error + string" where
  "SecretManagerService_fromEnvironmentOrFail env name =
     (case env name of None \<Rightarrow> Inl NotSet | Some v \<Rightarrow> if v = [] then Inl NotSet else Inr v)"

definition read_after_sign_in ::
  "(string \<Rightarrow> string) \<Rightarrow> string \<Rightarrow> secret_manager \<Rightarrow> (secret_error + string) \<times> secret_manager" where
  "read_after_sign_in vault name st =
     (case SecretManagerService_ready st of
        (False, st') \<Rightarrow> (Inl SignInFailed, st')
      | (True, st') \<Rightarrow>
          (case SecretManagerService_readSecret vault name st' of
             (Some v, st'') \<Rightarrow> (Inr v, st'') | (None, st'') \<Rightarrow> (Inl ReadFailed, st'')))"

definition SecretManagerService_get ::
  "bool \<Rightarrow> (string \<Rightarrow> string option) \<Rightarrow> (string \<Rightarrow> string) \<Rightarrow> string \<Rightarrow> secret_manager \<Rightarrow> (secret_error + string) \<times> secret_manager" where
  "SecretManagerService_get skipVault env vault name st =
     (if skipVault then (SecretManagerService_fromEnvironmentOrFail env name, st)
      else (case read_after_sign_in vault name st of
              (Inl ReadFailed, st1) \<Rightarrow> read_after_sign_in vault name (st1\<lparr>sm_session := None\<rparr>)
            | r \<Rightarrow> r))"

definition SecretManagerService_onModuleInit :: "bool \<Rightarrow> secret_manager \<Rightarrow> bool \<times> secret_manager" where
  "SecretManagerService_onModuleInit skipVault st = (if skipVault then (True, st) else SecretManagerService_ready st)"

text \<open>A working service gets over a lost session: a failed read is repeated after a new sign-in.\<close>

lemma secret_get_again:
  assumes "sm_session st = Some True" and "sm_reads st = None # vs" and "sm_sign_ins st = True # oks"
  shows "SecretManagerService_get False env vault name st
    = (case vs of
         [] \<Rightarrow> (Inr (vault name), st\<lparr>sm_reads := [], sm_sign_ins := oks\<rparr>)
       | Some v # ws \<Rightarrow> (Inr v, st\<lparr>sm_reads := ws, sm_sign_ins := oks\<rparr>)
       | None # ws \<Rightarrow> (Inl ReadFailed, st\<lparr>sm_reads := ws, sm_sign_ins := oks\<rparr>))"
  using assms
  by (cases st) (auto simp: SecretManagerService_get_def read_after_sign_in_def SecretManagerService_ready_def
      SecretManagerService_readSecret_def SecretManagerService_authenticate_def split: list.splits option.splits)

text \<open>A run of reads, with their results.\<close>

fun get_all ::
  "(string \<Rightarrow> string) \<Rightarrow> string list \<Rightarrow> secret_manager \<Rightarrow> (secret_error + string) list \<times> secret_manager" where
  "get_all vault [] st = ([], st)"
| "get_all vault (n # ns) st =
     (case SecretManagerService_get False (\<lambda>n. None) vault n st of
        (r, st1) \<Rightarrow> (case get_all vault ns st1 of (rs, st2) \<Rightarrow> (r # rs, st2)))"

lemma get_rejected:
  assumes "sm_session st = Some False"
  shows "SecretManagerService_get False env vault name st = (Inl SignInFailed, st)"
  using assms by (simp add: SecretManagerService_get_def read_after_sign_in_def SecretManagerService_ready_def)

lemma get_all_rejected:
  "sm_session st = Some False \<Longrightarrow> get_all vault ns st = (replicate (length ns) (Inl SignInFailed), st)"
  by (induction ns) (simp_all add: get_rejected)

text \<open>
  A sign-in that fails once is never tried again: when a read and the sign-in that follows it fail, the rejected
  promise is kept, and every later read of any secret fails without reaching the vault, however long it has been
  back.
\<close>

theorem secret_outage_stays:
  assumes "sm_session st = Some True" and "sm_reads st = None # vs" and "sm_sign_ins st = False # oks"
    and "SecretManagerService_get False env vault name st = (r, st')"
  shows "r = Inl SignInFailed
    \<and> get_all vault names st' = (replicate (length names) (Inl SignInFailed), st')
    \<and> sm_reads st' = vs \<and> sm_sign_ins st' = oks"
proof -
  have st': "r = Inl SignInFailed \<and> sm_session st' = Some False \<and> sm_reads st' = vs \<and> sm_sign_ins st' = oks"
    using assms by (auto simp: SecretManagerService_get_def read_after_sign_in_def SecretManagerService_ready_def
        SecretManagerService_readSecret_def SecretManagerService_authenticate_def)
  then show ?thesis using get_all_rejected by blast
qed

theorem secret_outage_stays_witness:
  "fst (get_all (\<lambda>n. ''secret'') [''DBPASSWORD'', ''DBPASSWORD'']
     \<lparr>sm_session = Some True, sm_sign_ins = [False], sm_reads = [None]\<rparr>) = [Inl SignInFailed, Inl SignInFailed]"
proof -
  let ?st = "\<lparr>sm_session = Some True, sm_sign_ins = [False], sm_reads = [None]\<rparr>"
  have run: "SecretManagerService_get False (\<lambda>n. None) (\<lambda>n. ''secret'') ''DBPASSWORD'' ?st
      = (Inl SignInFailed, \<lparr>sm_session = Some False, sm_sign_ins = [], sm_reads = []\<rparr>)"
    by (simp add: SecretManagerService_get_def read_after_sign_in_def SecretManagerService_ready_def
        SecretManagerService_readSecret_def SecretManagerService_authenticate_def)
  from secret_outage_stays [OF _ _ _ run, where names = "[''DBPASSWORD'']"] run show ?thesis by simp
qed

subsection \<open>Maintenance jobs\<close>

text \<open>
  A JavaScript \<open>Map\<close> keeps the place of a key that is set again; a registered job is its name, its repetition
  and its handler.
\<close>

record ('repeat, 'handler) maintenance_job =
  mj_name :: string
  mj_repeat :: 'repeat
  mj_handle :: 'handler

fun MaintenanceJobRegistryService_register ::
  "('r, 'h) maintenance_job \<Rightarrow> ('r, 'h) maintenance_job list \<Rightarrow> ('r, 'h) maintenance_job list" where
  "MaintenanceJobRegistryService_register job [] = [job]"
| "MaintenanceJobRegistryService_register job (j # js) =
     (if mj_name j = mj_name job then job # js else j # MaintenanceJobRegistryService_register job js)"

definition MaintenanceJobRegistryService_get :: "string \<Rightarrow> ('r, 'h) maintenance_job list \<Rightarrow> ('r, 'h) maintenance_job option" where
  "MaintenanceJobRegistryService_get name jobs = find_row (\<lambda>j. mj_name j = name) jobs"

definition MaintenanceQueueService_onApplicationBootstrap :: "('r, 'h) maintenance_job list \<Rightarrow> (string \<times> 'r) list" where
  "MaintenanceQueueService_onApplicationBootstrap jobs = map (\<lambda>j. (mj_name j, mj_repeat j)) jobs"

datatype 'e process_result = Processed | Unrecoverable | Failed 'e

definition MaintenanceProcessor_process ::
  "string \<Rightarrow> ('r, 's \<Rightarrow> 'e option \<times> 's) maintenance_job list \<Rightarrow> 's \<Rightarrow> 'e process_result \<times> 's" where
  "MaintenanceProcessor_process name jobs s =
     (case MaintenanceJobRegistryService_get name jobs of
        None \<Rightarrow> (Unrecoverable, s)
      | Some j \<Rightarrow> (case mj_handle j s of (None, s') \<Rightarrow> (Processed, s') | (Some e, s') \<Rightarrow> (Failed e, s')))"

lemma register_get:
  "MaintenanceJobRegistryService_get n (MaintenanceJobRegistryService_register job jobs)
    = (if n = mj_name job then Some job else MaintenanceJobRegistryService_get n jobs)"
  by (induction jobs) (auto simp: MaintenanceJobRegistryService_get_def)

text \<open>The scheduler is keyed by the name: the names registered stay distinct.\<close>

lemma register_names:
  "mj_name ` set (MaintenanceJobRegistryService_register job jobs) = insert (mj_name job) (mj_name ` set jobs)"
  by (induction jobs) auto

lemma register_distinct:
  "distinct (map mj_name jobs) \<Longrightarrow> distinct (map mj_name (MaintenanceJobRegistryService_register job jobs))"
proof (induction jobs)
  case (Cons j js)
  then show ?case using register_names [of job js] by (auto simp: image_iff)
qed simp

text \<open>Every job that is scheduled has its handler: it never ends as unrecoverable.\<close>

lemma scheduled_job_handled:
  assumes "(n, rep) \<in> set (MaintenanceQueueService_onApplicationBootstrap jobs)"
  shows "fst (MaintenanceProcessor_process n jobs s) \<noteq> Unrecoverable"
proof -
  from assms have "MaintenanceJobRegistryService_get n jobs \<noteq> None"
    by (auto simp: MaintenanceQueueService_onApplicationBootstrap_def MaintenanceJobRegistryService_get_def find_row_None)
  then show ?thesis by (auto simp: MaintenanceProcessor_process_def split: option.splits prod.splits)
qed

end
