(* ===== verification/Catalog.thy ===== *)
theory Catalog
  imports Contracts
begin

section \<open>Creating a product\<close>

text \<open>
  The module \<open>product\<close>: a product and its translations are written in one transaction; a category or brand
  that does not exist is reported as not found. The tables of categories and brands only
  matter through their ids.
\<close>

record Product =
  pr_id :: int
  pr_publicId :: uuid
  pr_categoryId :: int
  pr_brandId :: int
  pr_createdAt :: time
  pr_updatedAt :: time
  pr_deletedAt :: "time option"

record product_translation_create =
  pt_productId :: int
  pt_language :: LanguageEnum
  pt_title :: string
  pt_description :: "string option"

record ProductTranslation = product_translation_create +
  pt_id :: int
  pt_createdAt :: time
  pt_updatedAt :: time
  pt_deletedAt :: "time option"

record catalog_db =
  cdb_categories :: "int list"
  cdb_brands :: "int list"
  cdb_products :: "Product list"
  cdb_translations :: "ProductTranslation list"

record catalog_env =
  ce_now :: time
  ce_productId :: int
  ce_publicId :: uuid
  ce_translationIds :: "nat \<Rightarrow> int"

subsection \<open>Input\<close>

record ProductCreateTranslationInput =
  ti_language :: LanguageEnum
  ti_title :: string
  ti_description :: "string option"

record ProductCreateInput =
  pi_categoryId :: int
  pi_brandId :: int
  pi_translations :: "ProductCreateTranslationInput list"

definition ProductCreateTranslationInput_valid :: "ProductCreateTranslationInput \<Rightarrow> bool" where
  "ProductCreateTranslationInput_valid t \<longleftrightarrow> length (ti_title t) \<le> 255 \<and> has_nonspace (ti_title t)"

definition ProductCreateInput_valid :: "ProductCreateInput \<Rightarrow> bool" where
  "ProductCreateInput_valid i \<longleftrightarrow> 0 < pi_categoryId i \<and> 0 < pi_brandId i \<and> pi_translations i \<noteq> []
     \<and> distinct (map ti_language (pi_translations i)) \<and> list_all ProductCreateTranslationInput_valid (pi_translations i)"

subsection \<open>Repositories\<close>

definition ProductRepository_create :: "catalog_env \<Rightarrow> int \<Rightarrow> int \<Rightarrow> (catalog_db, db_error, Product) tx" where
  "ProductRepository_create env categoryId brandId db =
     (if \<not> int4 categoryId \<or> \<not> int4 brandId then Inl NumericOutOfRange
      else if list_ex (\<lambda>p. pr_publicId p = ce_publicId env) (cdb_products db) then Inl UniqueViolation
      else if categoryId \<notin> set (cdb_categories db) \<or> brandId \<notin> set (cdb_brands db) then Inl ForeignKeyViolation
      else (let p = \<lparr>pr_id = ce_productId env, pr_publicId = ce_publicId env, pr_categoryId = categoryId, pr_brandId = brandId,
                     pr_createdAt = ce_now env, pr_updatedAt = ce_now env, pr_deletedAt = None\<rparr>
            in Inr (p, db\<lparr>cdb_products := cdb_products db @ [p]\<rparr>)))"

text \<open>\<open>btrim(title) <> ''\<close>, which trims spaces only, and the unique pair of product and language.\<close>

definition ProductTranslation_check :: "product_translation_create \<Rightarrow> bool" where
  "ProductTranslation_check t \<longleftrightarrow> list_ex (\<lambda>c. c \<noteq> CHR '' '') (pt_title t)"

definition translation_key :: "'a product_translation_create_scheme \<Rightarrow> int \<times> LanguageEnum" where
  "translation_key t = (pt_productId t, pt_language t)"

definition new_translation :: "catalog_env \<Rightarrow> nat \<times> product_translation_create \<Rightarrow> ProductTranslation" where
  "new_translation env t = product_translation_create.extend (snd t)
     \<lparr>pt_id = ce_translationIds env (fst t), pt_createdAt = ce_now env, pt_updatedAt = ce_now env, pt_deletedAt = None\<rparr>"

definition ProductTranslationRepository_create ::
  "catalog_env \<Rightarrow> product_translation_create list \<Rightarrow> (catalog_db, db_error, unit) tx" where
  "ProductTranslationRepository_create env ts db =
     (if list_ex (\<lambda>t. 255 < length (pt_title t)) ts then Inl StringTooLong
      else if list_ex (\<lambda>t. \<not> ProductTranslation_check t) ts then Inl CheckViolation
      else if \<not> distinct (map translation_key ts)
          \<or> list_ex (\<lambda>t. list_ex (\<lambda>r. translation_key r = translation_key t) (cdb_translations db)) ts
      then Inl UniqueViolation
      else if list_ex (\<lambda>t. pt_productId t \<notin> pr_id ` set (cdb_products db)) ts then Inl ForeignKeyViolation
      else Inr ((), db\<lparr>cdb_translations := cdb_translations db @ map (new_translation env) (enumerate 0 ts)\<rparr>))"

subsection \<open>The command handler\<close>

definition to_translations :: "int \<Rightarrow> ProductCreateTranslationInput list \<Rightarrow> product_translation_create list" where
  "to_translations productId ts = map (\<lambda>t. \<lparr>pt_productId = productId, pt_language = ti_language t,
     pt_title = ti_title t, pt_description = ti_description t\<rparr>) ts"

definition ProductCreateCommandHandler_create :: "catalog_env \<Rightarrow> ProductCreateInput \<Rightarrow> (catalog_db, db_error, Product) tx" where
  "ProductCreateCommandHandler_create env input db =
     (case ProductRepository_create env (pi_categoryId input) (pi_brandId input) db of
        Inl e \<Rightarrow> Inl e
      | Inr (p, db1) \<Rightarrow>
          (case ProductTranslationRepository_create env (to_translations (pr_id p) (pi_translations input)) db1 of
             Inl e \<Rightarrow> Inl e
           | Inr (u, db2) \<Rightarrow> Inr (p, db2)))"

definition ProductCreateCommandHandler_execute ::
  "catalog_env \<Rightarrow> ProductCreateInput \<Rightarrow> catalog_db \<Rightarrow> (http_error + Product) \<times> catalog_db" where
  "ProductCreateCommandHandler_execute env input db =
     (case transactional (ProductCreateCommandHandler_create env input) db of
        (Inl e, db') \<Rightarrow> (Inl (if e = ForeignKeyViolation then NotFound else ServerError e), db')
      | (Inr p, db') \<Rightarrow> (Inr p, db'))"

subsection \<open>What a valid request does\<close>

lemma valid_title:
  "ProductCreateTranslationInput_valid t \<Longrightarrow> length (ti_title t) \<le> 255 \<and> list_ex (\<lambda>c. c \<noteq> CHR '' '') (ti_title t)"
  by (auto simp: ProductCreateTranslationInput_valid_def has_nonspace_def list_ex_iff)

text \<open>
  A valid request with ids that fit the columns creates the product with all of its translations, or
  answers NotFound and writes nothing when the category or the brand does not exist: the validation of the input
  leaves no constraint of the tables to violate.
\<close>

theorem product_create_decision:
  assumes "ProductCreateInput_valid input" and "int4 (pi_categoryId input)" and "int4 (pi_brandId input)"
    and "ce_publicId env \<notin> pr_publicId ` set (cdb_products db)"
    and "ce_productId env \<notin> pt_productId ` set (cdb_translations db)"
  shows "ProductCreateCommandHandler_execute env input db =
    (if pi_categoryId input \<in> set (cdb_categories db) \<and> pi_brandId input \<in> set (cdb_brands db)
     then (let p = \<lparr>pr_id = ce_productId env, pr_publicId = ce_publicId env, pr_categoryId = pi_categoryId input,
                    pr_brandId = pi_brandId input, pr_createdAt = ce_now env, pr_updatedAt = ce_now env, pr_deletedAt = None\<rparr>
           in (Inr p, db\<lparr>cdb_products := cdb_products db @ [p],
                 cdb_translations := cdb_translations db
                   @ map (new_translation env) (enumerate 0 (to_translations (ce_productId env) (pi_translations input)))\<rparr>))
     else (Inl NotFound, db))"
proof -
  let ?ts = "to_translations (ce_productId env) (pi_translations input)"
  have titles: "\<not> list_ex (\<lambda>t. 255 < length (pt_title t)) ?ts" "\<not> list_ex (\<lambda>t. \<not> ProductTranslation_check t) ?ts"
    using assms(1) valid_title
    by (auto simp: ProductCreateInput_valid_def to_translations_def list_ex_iff list_all_iff ProductTranslation_check_def
        dest!: leD)
  have "map translation_key ?ts = map (Pair (ce_productId env)) (map ti_language (pi_translations input))"
    by (simp add: to_translations_def translation_key_def)
  then have keys: "distinct (map translation_key ?ts)"
    using assms(1) by (simp add: ProductCreateInput_valid_def distinct_map inj_on_def)
  have free: "\<not> list_ex (\<lambda>t. list_ex (\<lambda>r. translation_key r = translation_key t) (cdb_translations db)) ?ts"
    using assms(5) by (auto simp: to_translations_def translation_key_def list_ex_iff image_iff)
  show ?thesis
    using assms(2,3,4) titles keys free
    by (auto simp: ProductCreateCommandHandler_execute_def ProductCreateCommandHandler_create_def ProductRepository_create_def
        ProductTranslationRepository_create_def transactional_def Let_def list_ex_iff image_iff to_translations_def)
qed

end
