(* ===== verification/Ddl.thy ===== *)
theory Ddl
  imports Prelude
begin

section \<open>Schemas of Postgres and the statements of the migrations\<close>

text \<open>
  What the migrations rely on of Postgres, as documented: enumerations, domains, tables with their
  columns, constraints, indexes and triggers, and the checks a statement has to pass. Rows are not part of this
  model: a statement that moves data (\<open>Data\<close>) is checked for the names it uses, and
  \<open>Migration_Data\<close> models what the important ones do to rows. Tables and indexes share
  one namespace, constraints are named per table, and the constraints \<open>PRIMARY KEY\<close> and \<open>UNIQUE\<close> own an index of their name.
\<close>

text \<open>
  A name of the database is a number; \<open>Names\<close> gives every identifier of the migrations its own (\<open>n_Order\<close> is \<open>"Order"\<close>). The sequence of an identity column is named by
  the pair of table and column its name is made of (\<open>"Order_id_seq"\<close> is \<open>(n_Order, n_id)\<close>), a trigger by the table in its name (\<open>"Order_setUpdatedAt"\<close> is
  \<open>n_Order\<close>). Labels of enumerations and literals are strings.
\<close>

subsection \<open>Columns, constraints, tables\<close>

type_synonym name = nat

datatype sql_type =
    Integer | Numeric nat nat | Varchar nat | Character nat | Text | Citext | Uuid | Jsonb | Timestamptz | Date
  | Named name

datatype sql_expr =
    Col name | Lit string | Num int | DomainValue | CurrentDate
  | IsNull sql_expr | IsNotNull sql_expr | Or sql_expr sql_expr | And sql_expr sql_expr
  | Ge sql_expr sql_expr | Gt sql_expr sql_expr | Le sql_expr sql_expr | Lt sql_expr sql_expr | Ne sql_expr sql_expr
  | Eq sql_expr sql_expr | Matches sql_expr string | InList sql_expr "string list" | DistinctFrom sql_expr sql_expr
  | Btrim sql_expr | Trim sql_expr | Coalesce sql_expr sql_expr | Nullif sql_expr sql_expr | Concat sql_expr sql_expr

datatype sql_default = NoDefault | DefaultNow | DefaultUuid | DefaultNum int | DefaultLit string

record column =
  cl_type :: sql_type
  cl_notnull :: bool
  cl_default :: sql_default
  cl_sequence :: "(name \<times> name) option"
  cl_stored :: "sql_expr option"

datatype on_delete = Restrict | Cascade

datatype table_constraint =
    PrimaryKey "name list"
  | Unique "name list"
  | Check sql_expr
  | ForeignKey "name list" name "name list" on_delete

record table =
  tb_columns :: "(name \<times> column) list"
  tb_constraints :: "(name \<times> table_constraint) list"
  tb_indexes :: "(name \<times> (name list \<times> sql_expr option)) list"
  tb_triggers :: "(name \<times> (name \<times> bool)) list"

text \<open>\<open>sc_fresh\<close> holds the labels \<open>ALTER TYPE ... ADD VALUE\<close> added in the running transaction: they cannot be
  used before it commits.\<close>

record schema =
  sc_extensions :: "string list"
  sc_domains :: "(name \<times> (sql_type \<times> sql_expr)) list"
  sc_enums :: "(name \<times> string list) list"
  sc_fresh :: "(name \<times> string) list"
  sc_functions :: "name list"
  sc_tables :: "(name \<times> table) list"

datatype ddl_error = UndefinedName name | Duplicate name | DependentObjects name | InvalidStatement name | DuplicateLabel string

subsection \<open>Statements\<close>

datatype column_spec = ColumnSpec (spec_type: sql_type) (spec_notnull: bool) (spec_default: sql_default)
    (spec_identity: bool) (spec_stored: "sql_expr option")

datatype alteration =
    AddColumn name column_spec
  | DropColumn name
  | AddConstraint name table_constraint
  | DropConstraint name
  | RenameTable name
  | RenameColumn name name
  | RenameConstraint name name
  | SetNotNull name
  | DropNotNull name
  | SetDefault name sql_default
  | DropDefault name
  | SetType name sql_type
  | EnableTrigger name
  | DisableTrigger name
  | RenameTrigger name name

text \<open>
  \<open>Data\<close> stands for \<open>INSERT\<close>, \<open>UPDATE\<close>, \<open>DELETE\<close> and the guard in \<open>DO\<close>: the table written with the columns set (of an inserted
  row, all columns given), the columns read of every table, and the literals of enumerations.
\<close>

datatype data_kind = Insert | Update | Delete | Guard

datatype statement =
    CreateExtension string
  | CreateDomain name sql_type sql_expr
  | DropDomain name
  | CreateEnum name "string list"
  | DropEnum name
  | RenameEnum name name
  | AddEnumValue name string
  | CreateFunction name
  | DropFunction name
  | CreateTable name "(name \<times> column_spec) list" "(name \<times> table_constraint) list"
  | DropTable name
  | AlterTable name alteration
  | CreateIndex name name "name list" "sql_expr option"
  | DropIndex name
  | CreateTrigger name name name
  | DropTrigger name name
  | RenameSequence "name \<times> name" "name \<times> name"
  | Data data_kind name "name list" "(name \<times> name list) list" "(name \<times> string) list"

text \<open>The spellings of columns the migrations use.\<close>

abbreviation required :: "sql_type \<Rightarrow> column_spec" where
  "required t \<equiv> ColumnSpec t True NoDefault False None"

abbreviation optional :: "sql_type \<Rightarrow> column_spec" where
  "optional t \<equiv> ColumnSpec t False NoDefault False None"

abbreviation defaulted :: "sql_type \<Rightarrow> sql_default \<Rightarrow> column_spec" where
  "defaulted t d \<equiv> ColumnSpec t True d False None"

abbreviation identity_always :: column_spec where
  "identity_always \<equiv> ColumnSpec Integer True NoDefault True None"

abbreviation stored :: "sql_type \<Rightarrow> sql_expr \<Rightarrow> column_spec" where
  "stored t e \<equiv> ColumnSpec t False NoDefault False (Some e)"

subsection \<open>Named things\<close>

fun rebind :: "name \<Rightarrow> 'a \<Rightarrow> (name \<times> 'a) list \<Rightarrow> (name \<times> 'a) list" where
  "rebind k v [] = []"
| "rebind k v ((k', v') # xs) = (if k' = k then (k, v) # xs else (k', v') # rebind k v xs)"

fun unbind :: "name \<Rightarrow> (name \<times> 'a) list \<Rightarrow> (name \<times> 'a) list" where
  "unbind k [] = []"
| "unbind k ((k', v) # xs) = (if k' = k then xs else (k', v) # unbind k xs)"

definition renamed :: "name \<Rightarrow> name \<Rightarrow> name \<Rightarrow> name" where
  "renamed k k' n = (if n = k then k' else n)"

definition rename_key :: "name \<Rightarrow> name \<Rightarrow> (name \<times> 'a) list \<Rightarrow> (name \<times> 'a) list" where
  "rename_key k k' xs = map (\<lambda>(n, v). (renamed k k' n, v)) xs"

fun bound :: "name \<Rightarrow> (name \<times> 'a) list \<Rightarrow> bool" where
  "bound k [] = False"
| "bound k ((k', v) # xs) = (k' = k \<or> bound k xs)"

fun lookup :: "name \<Rightarrow> (name \<times> 'a) list \<Rightarrow> 'a option" where
  "lookup k [] = None"
| "lookup k ((k', v) # xs) = (if k' = k then Some v else lookup k xs)"

fun mem :: "'a \<Rightarrow> 'a list \<Rightarrow> bool" where
  "mem x [] = False"
| "mem x (y # ys) = (y = x \<or> mem x ys)"

text \<open>Every condition of a statement stands before its effect.\<close>

definition demand :: "bool \<Rightarrow> ddl_error \<Rightarrow> (ddl_error + 'a) \<Rightarrow> ddl_error + 'a" where
  "demand c e r = (if c then r else Inl e)"

definition with_found :: "'a option \<Rightarrow> ddl_error \<Rightarrow> ('a \<Rightarrow> ddl_error + 'b) \<Rightarrow> ddl_error + 'b" where
  "with_found r e f = (case r of None \<Rightarrow> Inl e | Some x \<Rightarrow> f x)"

fun run_all :: "('a \<Rightarrow> 's \<Rightarrow> ddl_error + 's) \<Rightarrow> 'a list \<Rightarrow> 's \<Rightarrow> ddl_error + 's" where
  "run_all f [] s = Inr s"
| "run_all f (x # xs) s = (case f x s of Inl e \<Rightarrow> Inl e | Inr s' \<Rightarrow> run_all f xs s')"

subsection \<open>Expressions and dependencies\<close>

fun expr_columns :: "sql_expr \<Rightarrow> name list" where
  "expr_columns (Col c) = [c]"
| "expr_columns (Lit s) = []"
| "expr_columns (Num n) = []"
| "expr_columns DomainValue = []"
| "expr_columns CurrentDate = []"
| "expr_columns (IsNull a) = expr_columns a"
| "expr_columns (IsNotNull a) = expr_columns a"
| "expr_columns (Or a b) = expr_columns a @ expr_columns b"
| "expr_columns (And a b) = expr_columns a @ expr_columns b"
| "expr_columns (Ge a b) = expr_columns a @ expr_columns b"
| "expr_columns (Gt a b) = expr_columns a @ expr_columns b"
| "expr_columns (Le a b) = expr_columns a @ expr_columns b"
| "expr_columns (Lt a b) = expr_columns a @ expr_columns b"
| "expr_columns (Ne a b) = expr_columns a @ expr_columns b"
| "expr_columns (Eq a b) = expr_columns a @ expr_columns b"
| "expr_columns (Matches a r) = expr_columns a"
| "expr_columns (InList a xs) = expr_columns a"
| "expr_columns (DistinctFrom a b) = expr_columns a @ expr_columns b"
| "expr_columns (Btrim a) = expr_columns a"
| "expr_columns (Trim a) = expr_columns a"
| "expr_columns (Coalesce a b) = expr_columns a @ expr_columns b"
| "expr_columns (Nullif a b) = expr_columns a @ expr_columns b"
| "expr_columns (Concat a b) = expr_columns a @ expr_columns b"

fun rename_expr :: "(name \<Rightarrow> name) \<Rightarrow> sql_expr \<Rightarrow> sql_expr" where
  "rename_expr f (Col c) = Col (f c)"
| "rename_expr f (IsNull a) = IsNull (rename_expr f a)"
| "rename_expr f (IsNotNull a) = IsNotNull (rename_expr f a)"
| "rename_expr f (Or a b) = Or (rename_expr f a) (rename_expr f b)"
| "rename_expr f (And a b) = And (rename_expr f a) (rename_expr f b)"
| "rename_expr f (Ge a b) = Ge (rename_expr f a) (rename_expr f b)"
| "rename_expr f (Gt a b) = Gt (rename_expr f a) (rename_expr f b)"
| "rename_expr f (Le a b) = Le (rename_expr f a) (rename_expr f b)"
| "rename_expr f (Lt a b) = Lt (rename_expr f a) (rename_expr f b)"
| "rename_expr f (Ne a b) = Ne (rename_expr f a) (rename_expr f b)"
| "rename_expr f (Eq a b) = Eq (rename_expr f a) (rename_expr f b)"
| "rename_expr f (Matches a r) = Matches (rename_expr f a) r"
| "rename_expr f (InList a xs) = InList (rename_expr f a) xs"
| "rename_expr f (DistinctFrom a b) = DistinctFrom (rename_expr f a) (rename_expr f b)"
| "rename_expr f (Btrim a) = Btrim (rename_expr f a)"
| "rename_expr f (Trim a) = Trim (rename_expr f a)"
| "rename_expr f (Coalesce a b) = Coalesce (rename_expr f a) (rename_expr f b)"
| "rename_expr f (Nullif a b) = Nullif (rename_expr f a) (rename_expr f b)"
| "rename_expr f (Concat a b) = Concat (rename_expr f a) (rename_expr f b)"
| "rename_expr f e = e"

fun constraint_columns :: "table_constraint \<Rightarrow> name list" where
  "constraint_columns (PrimaryKey cs) = cs"
| "constraint_columns (Unique cs) = cs"
| "constraint_columns (Check e) = expr_columns e"
| "constraint_columns (ForeignKey cs t rcs d) = cs"

fun rename_constraint_columns :: "(name \<Rightarrow> name) \<Rightarrow> table_constraint \<Rightarrow> table_constraint" where
  "rename_constraint_columns f (PrimaryKey cs) = PrimaryKey (map f cs)"
| "rename_constraint_columns f (Unique cs) = Unique (map f cs)"
| "rename_constraint_columns f (Check e) = Check (rename_expr f e)"
| "rename_constraint_columns f (ForeignKey cs t rcs d) = ForeignKey (map f cs) t rcs d"

text \<open>A key is what a foreign key can reference.\<close>

fun key_columns :: "table_constraint \<Rightarrow> name list option" where
  "key_columns (PrimaryKey cs) = Some cs"
| "key_columns (Unique cs) = Some cs"
| "key_columns c = None"

fun is_primary :: "table_constraint \<Rightarrow> bool" where
  "is_primary (PrimaryKey cs) = True"
| "is_primary c = False"

fun references :: "name \<Rightarrow> (name list \<Rightarrow> bool) \<Rightarrow> table_constraint \<Rightarrow> bool" where
  "references t p (ForeignKey cs t' rcs d) = (t' = t \<and> p rcs)"
| "references t p c = False"

text \<open>The names in the namespace of relations: the tables, their indexes and those of their keys; sequences have theirs.\<close>

fun key_named :: "name \<Rightarrow> (name \<times> table_constraint) list \<Rightarrow> bool" where
  "key_named n [] = False"
| "key_named n ((c, k) # ks) = ((c = n \<and> key_columns k \<noteq> None) \<or> key_named n ks)"

definition table_relation :: "name \<Rightarrow> table \<Rightarrow> bool" where
  "table_relation n tb = (bound n (tb_indexes tb) \<or> key_named n (tb_constraints tb))"

fun relation_in :: "name \<Rightarrow> (name \<times> table) list \<Rightarrow> bool" where
  "relation_in n [] = False"
| "relation_in n ((t, tb) # tbs) = (t = n \<or> table_relation n tb \<or> relation_in n tbs)"

fun sequence_named :: "name \<times> name \<Rightarrow> (name \<times> column) list \<Rightarrow> bool" where
  "sequence_named q [] = False"
| "sequence_named q ((c, col) # cols) = (cl_sequence col = Some q \<or> sequence_named q cols)"

fun sequence_in :: "name \<times> name \<Rightarrow> (name \<times> table) list \<Rightarrow> bool" where
  "sequence_in q [] = False"
| "sequence_in q ((t, tb) # tbs) = (sequence_named q (tb_columns tb) \<or> sequence_in q tbs)"

definition sequence_exists :: "name \<times> name \<Rightarrow> schema \<Rightarrow> bool" where
  "sequence_exists q s = sequence_in q (sc_tables s)"

definition relation_used :: "name \<Rightarrow> schema \<Rightarrow> bool" where
  "relation_used n s = relation_in n (sc_tables s)"

text \<open>A table has a row type of its name, so that types and tables share their names too.\<close>

definition type_used :: "name \<Rightarrow> schema \<Rightarrow> bool" where
  "type_used n s = (bound n (sc_domains s) \<or> bound n (sc_enums s) \<or> bound n (sc_tables s))"

fun type_in_columns :: "sql_type \<Rightarrow> (name \<times> column) list \<Rightarrow> bool" where
  "type_in_columns ty [] = False"
| "type_in_columns ty ((c, col) # cols) = (cl_type col = ty \<or> type_in_columns ty cols)"

fun type_in_tables :: "sql_type \<Rightarrow> (name \<times> table) list \<Rightarrow> bool" where
  "type_in_tables ty [] = False"
| "type_in_tables ty ((t, tb) # tbs) = (type_in_columns ty (tb_columns tb) \<or> type_in_tables ty tbs)"

definition column_type_used :: "name \<Rightarrow> schema \<Rightarrow> bool" where
  "column_type_used n s = type_in_tables (Named n) (sc_tables s)"

text \<open>Some foreign key of these tables references the table \<open>t\<close>, with columns as \<open>p\<close> says.\<close>

fun key_references :: "name \<Rightarrow> (name list \<Rightarrow> bool) \<Rightarrow> (name \<times> table_constraint) list \<Rightarrow> bool" where
  "key_references t p [] = False"
| "key_references t p ((c, k) # ks) = (references t p k \<or> key_references t p ks)"

fun referenced_in :: "name \<Rightarrow> (name list \<Rightarrow> bool) \<Rightarrow> (name \<times> table) list \<Rightarrow> bool" where
  "referenced_in t p [] = False"
| "referenced_in t p ((n, tb) # tbs) = (key_references t p (tb_constraints tb) \<or> referenced_in t p tbs)"

fun referenced_by_others :: "name \<Rightarrow> (name list \<Rightarrow> bool) \<Rightarrow> (name \<times> table) list \<Rightarrow> bool" where
  "referenced_by_others t p [] = False"
| "referenced_by_others t p ((n, tb) # tbs) =
     ((n \<noteq> t \<and> key_references t p (tb_constraints tb)) \<or> referenced_by_others t p tbs)"

definition referenced :: "name \<Rightarrow> (name list \<Rightarrow> bool) \<Rightarrow> schema \<Rightarrow> bool" where
  "referenced t p s = referenced_in t p (sc_tables s)"

definition referenced_elsewhere :: "name \<Rightarrow> (name list \<Rightarrow> bool) \<Rightarrow> schema \<Rightarrow> bool" where
  "referenced_elsewhere t p s = referenced_by_others t p (sc_tables s)"

fun table_in :: "name \<Rightarrow> (name \<times> table) list \<Rightarrow> table option" where
  "table_in t [] = None"
| "table_in t ((t', tb) # tbs) = (if t' = t then Some tb else table_in t tbs)"

fun put_in :: "name \<Rightarrow> table \<Rightarrow> (name \<times> table) list \<Rightarrow> (name \<times> table) list" where
  "put_in t tb [] = []"
| "put_in t tb ((t', tb') # tbs) = (if t' = t then (t, tb) # tbs else (t', tb') # put_in t tb tbs)"

definition find_table :: "name \<Rightarrow> schema \<Rightarrow> table option" where
  "find_table t s = table_in t (sc_tables s)"

definition put_table :: "name \<Rightarrow> table \<Rightarrow> schema \<Rightarrow> schema" where
  "put_table t tb s = s\<lparr>sc_tables := put_in t tb (sc_tables s)\<rparr>"

subsection \<open>Conditions on columns and constraints\<close>

definition has_columns :: "table \<Rightarrow> name list \<Rightarrow> bool" where
  "has_columns tb cs = list_all (\<lambda>c. bound c (tb_columns tb)) cs"

definition label_ok :: "schema \<Rightarrow> name \<times> string \<Rightarrow> bool" where
  "label_ok s l = ((case lookup (fst l) (sc_enums s) of None \<Rightarrow> False | Some ls \<Rightarrow> mem (snd l) ls)
     \<and> \<not> list_ex (\<lambda>f. f = l) (sc_fresh s))"

fun type_ok :: "schema \<Rightarrow> sql_type \<Rightarrow> bool" where
  "type_ok s (Named n) = (bound n (sc_domains s) \<or> bound n (sc_enums s))"
| "type_ok s Citext = mem ''citext'' (sc_extensions s)"
| "type_ok s t = True"

fun base_type :: "schema \<Rightarrow> sql_type \<Rightarrow> sql_type" where
  "base_type s (Named n) = (case lookup n (sc_domains s) of None \<Rightarrow> Named n | Some (t, e) \<Rightarrow> t)"
| "base_type s t = t"

fun default_ok :: "schema \<Rightarrow> sql_type \<Rightarrow> sql_default \<Rightarrow> bool" where
  "default_ok s (Named n) (DefaultLit l) = (bound n (sc_domains s) \<or> label_ok s (n, l))"
| "default_ok s t d = True"

definition column_base :: "schema \<Rightarrow> table \<Rightarrow> name \<Rightarrow> sql_type option" where
  "column_base s tb c = map_option (\<lambda>col. base_type s (cl_type col)) (lookup c (tb_columns tb))"

text \<open>Keys match foreign keys up to the order of their columns; the program only has foreign keys of one column.\<close>

definition has_key :: "table \<Rightarrow> name list \<Rightarrow> bool" where
  "has_key tb cs = list_ex (\<lambda>(n, k). key_columns k = Some cs) (tb_constraints tb)"

fun constraint_ok :: "schema \<Rightarrow> name \<Rightarrow> table \<Rightarrow> name \<Rightarrow> table_constraint \<Rightarrow> bool" where
  "constraint_ok s t tb n (PrimaryKey cs) = (cs \<noteq> [] \<and> has_columns tb cs \<and> \<not> relation_used n s \<and> \<not> table_relation n tb
     \<and> \<not> list_ex (\<lambda>(c, k). is_primary k) (tb_constraints tb))"
| "constraint_ok s t tb n (Unique cs) = (cs \<noteq> [] \<and> has_columns tb cs \<and> \<not> relation_used n s \<and> \<not> table_relation n tb)"
| "constraint_ok s t tb n (Check e) = has_columns tb (expr_columns e)"
| "constraint_ok s t tb n (ForeignKey cs t' rcs d) =
     (has_columns tb cs \<and>
      (case find_table t' s of None \<Rightarrow> False
       | Some tb' \<Rightarrow> has_key tb' rcs \<and> map (column_base s tb) cs = map (column_base s tb') rcs))"

fun set_notnull :: "bool \<Rightarrow> column \<Rightarrow> column" where
  "set_notnull b col = col\<lparr>cl_notnull := b\<rparr>"

definition map_column :: "name \<Rightarrow> (column \<Rightarrow> column) \<Rightarrow> table \<Rightarrow> table" where
  "map_column c f tb = tb\<lparr>tb_columns := map (\<lambda>(n, col). (n, if n = c then f col else col)) (tb_columns tb)\<rparr>"

fun add_constraint :: "name \<Rightarrow> table_constraint \<Rightarrow> table \<Rightarrow> table" where
  "add_constraint n (PrimaryKey cs) tb =
     tb\<lparr>tb_constraints := (n, PrimaryKey cs) # tb_constraints tb,
        tb_columns := map (\<lambda>(m, col). (m, if mem m cs then set_notnull True col else col)) (tb_columns tb)\<rparr>"
| "add_constraint n k tb = tb\<lparr>tb_constraints := (n, k) # tb_constraints tb\<rparr>"

text \<open>The column of a specification; an identity column owns a sequence.\<close>

fun column_of :: "name \<Rightarrow> name \<Rightarrow> column_spec \<Rightarrow> column" where
  "column_of t c (ColumnSpec ty nn d True e) =
     \<lparr>cl_type = ty, cl_notnull = nn, cl_default = d, cl_sequence = Some (t, c), cl_stored = e\<rparr>"
| "column_of t c (ColumnSpec ty nn d False e) =
     \<lparr>cl_type = ty, cl_notnull = nn, cl_default = d, cl_sequence = None, cl_stored = e\<rparr>"

definition column_ok :: "schema \<Rightarrow> name \<Rightarrow> table \<Rightarrow> name \<Rightarrow> column_spec \<Rightarrow> bool" where
  "column_ok s t tb c sp = (\<not> bound c (tb_columns tb) \<and> type_ok s (spec_type sp) \<and> default_ok s (spec_type sp) (spec_default sp)
     \<and> (spec_identity sp \<longrightarrow> \<not> sequence_exists (t, c) s)
     \<and> (case spec_stored sp of None \<Rightarrow> True | Some e \<Rightarrow> has_columns tb (expr_columns e)))"

definition stored_uses :: "name \<Rightarrow> table \<Rightarrow> bool" where
  "stored_uses c tb = list_ex (\<lambda>(n, col). case cl_stored col of None \<Rightarrow> False | Some e \<Rightarrow> mem c (expr_columns e)) (tb_columns tb)"

definition index_columns :: "name list \<times> sql_expr option \<Rightarrow> name list" where
  "index_columns i = fst i @ (case snd i of None \<Rightarrow> [] | Some e \<Rightarrow> expr_columns e)"

definition drop_column :: "name \<Rightarrow> table \<Rightarrow> table" where
  "drop_column c tb = tb\<lparr>tb_columns := unbind c (tb_columns tb),
     tb_constraints := filter (\<lambda>(n, k). \<not> mem c (constraint_columns k)) (tb_constraints tb),
     tb_indexes := filter (\<lambda>(n, i). \<not> mem c (index_columns i)) (tb_indexes tb)\<rparr>"

definition rename_table_column :: "name \<Rightarrow> name \<Rightarrow> table \<Rightarrow> table" where
  "rename_table_column c c' tb =
     tb\<lparr>tb_columns := map (\<lambda>(n, col). (renamed c c' n, col\<lparr>cl_stored := map_option (rename_expr (renamed c c')) (cl_stored col)\<rparr>)) (tb_columns tb),
        tb_constraints := map (\<lambda>(n, k). (n, rename_constraint_columns (renamed c c') k)) (tb_constraints tb),
        tb_indexes := map (\<lambda>(n, (cs, w)). (n, (map (renamed c c') cs, map_option (rename_expr (renamed c c')) w))) (tb_indexes tb)\<rparr>"

fun rename_reference :: "name \<Rightarrow> (name \<Rightarrow> name) \<Rightarrow> name \<Rightarrow> table_constraint \<Rightarrow> table_constraint" where
  "rename_reference t f t' (ForeignKey cs r rcs d) =
     (if r = t then ForeignKey cs t' (map f rcs) d else ForeignKey cs r rcs d)"
| "rename_reference t f t' k = k"

definition rename_references :: "name \<Rightarrow> (name \<Rightarrow> name) \<Rightarrow> name \<Rightarrow> (name \<times> table) list \<Rightarrow> (name \<times> table) list" where
  "rename_references t f t' tbs =
     map (\<lambda>(n, tb). (n, tb\<lparr>tb_constraints := map (\<lambda>(c, k). (c, rename_reference t f t' k)) (tb_constraints tb)\<rparr>)) tbs"

definition redirect_references :: "name \<Rightarrow> (name \<Rightarrow> name) \<Rightarrow> name \<Rightarrow> schema \<Rightarrow> schema" where
  "redirect_references t f t' s = s\<lparr>sc_tables := rename_references t f t' (sc_tables s)\<rparr>"

fun add_table_column :: "schema \<Rightarrow> name \<Rightarrow> name \<times> column_spec \<Rightarrow> table \<Rightarrow> ddl_error + table" where
  "add_table_column s t (c, sp) tb =
     demand (column_ok s t tb c sp) (InvalidStatement c) (Inr (tb\<lparr>tb_columns := (c, column_of t c sp) # tb_columns tb\<rparr>))"

fun add_table_constraint :: "schema \<Rightarrow> name \<Rightarrow> name \<times> table_constraint \<Rightarrow> table \<Rightarrow> ddl_error + table" where
  "add_table_constraint s t (n, k) tb =
     demand (\<not> bound n (tb_constraints tb)) (Duplicate n)
       (demand (constraint_ok s t tb n k) (InvalidStatement n) (Inr (add_constraint n k tb)))"

subsection \<open>Execution\<close>

fun alter_table :: "name \<Rightarrow> table \<Rightarrow> alteration \<Rightarrow> schema \<Rightarrow> ddl_error + schema" where
  "alter_table t tb (AddColumn c sp) s =
     (case add_table_column s t (c, sp) tb of Inl e \<Rightarrow> Inl e | Inr tb' \<Rightarrow> Inr (put_table t tb' s))"
| "alter_table t tb (DropColumn c) s =
     demand (bound c (tb_columns tb)) (UndefinedName c)
       (demand (\<not> stored_uses c tb \<and> \<not> referenced_elsewhere t (\<lambda>rcs. mem c rcs) s) (DependentObjects c)
         (Inr (put_table t (drop_column c tb) s)))"
| "alter_table t tb (AddConstraint n k) s =
     (case add_table_constraint s t (n, k) tb of Inl e \<Rightarrow> Inl e | Inr tb' \<Rightarrow> Inr (put_table t tb' s))"
| "alter_table t tb (DropConstraint n) s =
     with_found (lookup n (tb_constraints tb)) (UndefinedName n) (\<lambda>k.
       demand (case key_columns k of None \<Rightarrow> True | Some cs \<Rightarrow> \<not> referenced t (\<lambda>rcs. rcs = cs) s) (DependentObjects n)
         (Inr (put_table t (tb\<lparr>tb_constraints := unbind n (tb_constraints tb)\<rparr>) s)))"
| "alter_table t tb (RenameTable t') s =
     demand (\<not> relation_used t' s \<and> \<not> type_used t' s) (Duplicate t')
       (Inr (redirect_references t id t' (s\<lparr>sc_tables := rename_key t t' (sc_tables s)\<rparr>)))"
| "alter_table t tb (RenameColumn c c') s =
     demand (bound c (tb_columns tb)) (UndefinedName c)
       (demand (\<not> bound c' (tb_columns tb)) (Duplicate c')
         (Inr (redirect_references t (renamed c c') t (put_table t (rename_table_column c c' tb) s))))"
| "alter_table t tb (RenameConstraint n n') s =
     with_found (lookup n (tb_constraints tb)) (UndefinedName n) (\<lambda>k.
       demand (\<not> bound n' (tb_constraints tb) \<and> (key_columns k \<noteq> None \<longrightarrow> \<not> relation_used n' s)) (Duplicate n')
         (Inr (put_table t (tb\<lparr>tb_constraints := rename_key n n' (tb_constraints tb)\<rparr>) s)))"
| "alter_table t tb (SetNotNull c) s =
     demand (bound c (tb_columns tb)) (UndefinedName c) (Inr (put_table t (map_column c (set_notnull True) tb) s))"
| "alter_table t tb (DropNotNull c) s =
     with_found (lookup c (tb_columns tb)) (UndefinedName c) (\<lambda>col.
       demand (cl_sequence col = None \<and> \<not> list_ex (\<lambda>(n, k). is_primary k \<and> mem c (constraint_columns k)) (tb_constraints tb))
         (InvalidStatement c) (Inr (put_table t (map_column c (set_notnull False) tb) s)))"
| "alter_table t tb (SetDefault c d) s =
     with_found (lookup c (tb_columns tb)) (UndefinedName c) (\<lambda>col.
       demand (default_ok s (cl_type col) d \<and> cl_sequence col = None \<and> cl_stored col = None) (InvalidStatement c)
         (Inr (put_table t (map_column c (\<lambda>col. col\<lparr>cl_default := d\<rparr>) tb) s)))"
| "alter_table t tb (DropDefault c) s =
     demand (bound c (tb_columns tb)) (UndefinedName c)
       (Inr (put_table t (map_column c (\<lambda>col. col\<lparr>cl_default := NoDefault\<rparr>) tb) s))"
| "alter_table t tb (SetType c ty) s =
     with_found (lookup c (tb_columns tb)) (UndefinedName c) (\<lambda>col.
       demand (type_ok s ty \<and> cl_default col = NoDefault \<and> \<not> stored_uses c tb) (InvalidStatement c)
         (Inr (put_table t (map_column c (\<lambda>col. col\<lparr>cl_type := ty\<rparr>) tb) s)))"
| "alter_table t tb (EnableTrigger g) s =
     with_found (lookup g (tb_triggers tb)) (UndefinedName g) (\<lambda>(f, b).
       Inr (put_table t (tb\<lparr>tb_triggers := rebind g (f, True) (tb_triggers tb)\<rparr>) s))"
| "alter_table t tb (DisableTrigger g) s =
     with_found (lookup g (tb_triggers tb)) (UndefinedName g) (\<lambda>(f, b).
       Inr (put_table t (tb\<lparr>tb_triggers := rebind g (f, False) (tb_triggers tb)\<rparr>) s))"
| "alter_table t tb (RenameTrigger g g') s =
     demand (bound g (tb_triggers tb)) (UndefinedName g)
       (demand (\<not> bound g' (tb_triggers tb)) (Duplicate g')
         (Inr (put_table t (tb\<lparr>tb_triggers := rename_key g g' (tb_triggers tb)\<rparr>) s)))"

definition alter :: "name \<Rightarrow> alteration \<Rightarrow> schema \<Rightarrow> ddl_error + schema" where
  "alter t a s = with_found (find_table t s) (UndefinedName t) (\<lambda>tb. alter_table t tb a s)"

text \<open>A column the database fills may be left out of an \<open>INSERT\<close>, and one it computes may not be written.\<close>

definition fills_itself :: "column \<Rightarrow> bool" where
  "fills_itself col = (\<not> cl_notnull col \<or> cl_default col \<noteq> NoDefault \<or> cl_sequence col \<noteq> None \<or> cl_stored col \<noteq> None)"

definition writable :: "table \<Rightarrow> name list \<Rightarrow> bool" where
  "writable tb cs = list_all (\<lambda>c. case lookup c (tb_columns tb) of None \<Rightarrow> False
     | Some col \<Rightarrow> cl_sequence col = None \<and> cl_stored col = None) cs"

fun data_ok :: "data_kind \<Rightarrow> table \<Rightarrow> name list \<Rightarrow> bool" where
  "data_ok Insert tb cs = (writable tb cs \<and> list_all (\<lambda>(n, col). fills_itself col \<or> mem n cs) (tb_columns tb))"
| "data_ok k tb cs = writable tb cs"

definition reads_ok :: "schema \<Rightarrow> (name \<times> name list) list \<Rightarrow> bool" where
  "reads_ok s rs = list_all (\<lambda>(t, cs). case find_table t s of None \<Rightarrow> False | Some tb \<Rightarrow> has_columns tb cs) rs"

definition empty_table :: table where
  "empty_table = \<lparr>tb_columns = [], tb_constraints = [], tb_indexes = [], tb_triggers = []\<rparr>"

definition map_types :: "(sql_type \<Rightarrow> sql_type) \<Rightarrow> (name \<times> table) list \<Rightarrow> (name \<times> table) list" where
  "map_types f tbs = map (\<lambda>(t, tb). (t, tb\<lparr>tb_columns := map (\<lambda>(c, col). (c, col\<lparr>cl_type := f (cl_type col)\<rparr>)) (tb_columns tb)\<rparr>)) tbs"

definition rename_sequence :: "name \<times> name \<Rightarrow> name \<times> name \<Rightarrow> (name \<times> table) list \<Rightarrow> (name \<times> table) list" where
  "rename_sequence q q' tbs = map (\<lambda>(t, tb). (t, tb\<lparr>tb_columns := map (\<lambda>(c, col). (c, col\<lparr>cl_sequence := if cl_sequence col = Some q then Some q' else cl_sequence col\<rparr>)) (tb_columns tb)\<rparr>)) tbs"

fun exec :: "statement \<Rightarrow> schema \<Rightarrow> ddl_error + schema" where
  "exec (CreateExtension x) s =
     Inr (if mem x (sc_extensions s) then s else s\<lparr>sc_extensions := x # sc_extensions s\<rparr>)"
| "exec (CreateDomain d t e) s =
     demand (\<not> type_used d s) (Duplicate d)
       (demand (type_ok s t \<and> expr_columns e = []) (InvalidStatement d) (Inr (s\<lparr>sc_domains := (d, (t, e)) # sc_domains s\<rparr>)))"
| "exec (DropDomain d) s =
     demand (bound d (sc_domains s)) (UndefinedName d)
       (demand (\<not> column_type_used d s) (DependentObjects d) (Inr (s\<lparr>sc_domains := unbind d (sc_domains s)\<rparr>)))"
| "exec (CreateEnum n ls) s =
     demand (\<not> type_used n s \<and> distinct ls) (Duplicate n) (Inr (s\<lparr>sc_enums := (n, ls) # sc_enums s\<rparr>))"
| "exec (DropEnum n) s =
     demand (bound n (sc_enums s)) (UndefinedName n)
       (demand (\<not> column_type_used n s) (DependentObjects n) (Inr (s\<lparr>sc_enums := unbind n (sc_enums s)\<rparr>)))"
| "exec (RenameEnum n n') s =
     demand (bound n (sc_enums s)) (UndefinedName n)
       (demand (\<not> type_used n' s) (Duplicate n')
         (Inr (s\<lparr>sc_enums := rename_key n n' (sc_enums s),
                 sc_tables := map_types (\<lambda>t. if t = Named n then Named n' else t) (sc_tables s)\<rparr>)))"
| "exec (AddEnumValue n l) s =
     with_found (lookup n (sc_enums s)) (UndefinedName n) (\<lambda>ls.
       demand (\<not> mem l ls) (DuplicateLabel l)
         (Inr (s\<lparr>sc_enums := rebind n (ls @ [l]) (sc_enums s), sc_fresh := (n, l) # sc_fresh s\<rparr>)))"
| "exec (CreateFunction f) s =
     demand (\<not> mem f (sc_functions s)) (Duplicate f) (Inr (s\<lparr>sc_functions := f # sc_functions s\<rparr>))"
| "exec (DropFunction f) s =
     demand (mem f (sc_functions s)) (UndefinedName f)
       (demand (\<not> list_ex (\<lambda>(t, tb). list_ex (\<lambda>(g, (f', b)). f' = f) (tb_triggers tb)) (sc_tables s)) (DependentObjects f)
         (Inr (s\<lparr>sc_functions := filter (\<lambda>g. g \<noteq> f) (sc_functions s)\<rparr>)))"
| "exec (CreateTable t cs ks) s =
     demand (\<not> relation_used t s \<and> \<not> type_used t s) (Duplicate t)
       (case run_all (add_table_column s t) cs empty_table of
          Inl e \<Rightarrow> Inl e
        | Inr tb \<Rightarrow> (case run_all (add_table_constraint s t) ks tb of
            Inl e \<Rightarrow> Inl e
          | Inr tb' \<Rightarrow> Inr (s\<lparr>sc_tables := (t, tb') # sc_tables s\<rparr>)))"
| "exec (DropTable t) s =
     demand (bound t (sc_tables s)) (UndefinedName t)
       (demand (\<not> referenced_elsewhere t (\<lambda>rcs. True) s) (DependentObjects t)
         (Inr (s\<lparr>sc_tables := unbind t (sc_tables s)\<rparr>)))"
| "exec (AlterTable t a) s = alter t a s"
| "exec (CreateIndex n t cs w) s =
     with_found (find_table t s) (UndefinedName t) (\<lambda>tb.
       demand (\<not> relation_used n s) (Duplicate n)
         (demand (has_columns tb (index_columns (cs, w))) (InvalidStatement n)
           (Inr (put_table t (tb\<lparr>tb_indexes := (n, (cs, w)) # tb_indexes tb\<rparr>) s))))"
| "exec (DropIndex n) s =
     demand (list_ex (\<lambda>(t, tb). bound n (tb_indexes tb)) (sc_tables s)) (UndefinedName n)
       (Inr (s\<lparr>sc_tables := map (\<lambda>(t, tb). (t, tb\<lparr>tb_indexes := unbind n (tb_indexes tb)\<rparr>)) (sc_tables s)\<rparr>))"
| "exec (CreateTrigger g t f) s =
     with_found (find_table t s) (UndefinedName t) (\<lambda>tb.
       demand (\<not> bound g (tb_triggers tb)) (Duplicate g)
         (demand (mem f (sc_functions s)) (UndefinedName f)
           (Inr (put_table t (tb\<lparr>tb_triggers := (g, (f, True)) # tb_triggers tb\<rparr>) s))))"
| "exec (DropTrigger g t) s =
     with_found (find_table t s) (UndefinedName t) (\<lambda>tb.
       demand (bound g (tb_triggers tb)) (UndefinedName g)
         (Inr (put_table t (tb\<lparr>tb_triggers := unbind g (tb_triggers tb)\<rparr>) s)))"
| "exec (RenameSequence q q') s =
     demand (sequence_exists q s) (UndefinedName (fst q))
       (demand (\<not> sequence_exists q' s) (Duplicate (fst q'))
         (Inr (s\<lparr>sc_tables := rename_sequence q q' (sc_tables s)\<rparr>)))"
| "exec (Data k t cs rs ls) s =
     with_found (find_table t s) (UndefinedName t) (\<lambda>tb.
       demand (data_ok k tb cs \<and> reads_ok s rs \<and> list_all (label_ok s) ls) (InvalidStatement t) (Inr s))"

text \<open>One transaction: all statements or none; at its end the new labels of enumerations become usable.\<close>

definition in_transaction :: "statement list \<Rightarrow> schema \<Rightarrow> ddl_error + schema" where
  "in_transaction stmts s = (case run_all exec stmts s of Inl e \<Rightarrow> Inl e | Inr s' \<Rightarrow> Inr (s'\<lparr>sc_fresh := []\<rparr>))"

subsection \<open>Equal schemas\<close>

text \<open>
  The order of columns and of the other parts is not compared: every statement names its columns. Extensions are not compared either,
  since a migration leaves them behind on purpose.
\<close>

definition same_items :: "'a list \<Rightarrow> 'a list \<Rightarrow> bool" where
  "same_items xs ys = (length xs = length ys \<and> list_all (\<lambda>x. list_ex (\<lambda>y. x = y) ys) xs)"

definition same_table :: "table \<Rightarrow> table \<Rightarrow> bool" where
  "same_table a b = (same_items (tb_columns a) (tb_columns b) \<and> same_items (tb_constraints a) (tb_constraints b)
     \<and> same_items (tb_indexes a) (tb_indexes b) \<and> same_items (tb_triggers a) (tb_triggers b))"

fun same_tables :: "(name \<times> table) list \<Rightarrow> (name \<times> table) list \<Rightarrow> bool" where
  "same_tables [] tbs = True"
| "same_tables ((t, a) # as) tbs =
     ((case table_in t tbs of None \<Rightarrow> False | Some b \<Rightarrow> same_table a b) \<and> same_tables as tbs)"

definition same_schema :: "schema \<Rightarrow> schema \<Rightarrow> bool" where
  "same_schema r s = (same_items (sc_domains r) (sc_domains s) \<and> same_items (sc_enums r) (sc_enums s)
     \<and> same_items (sc_functions r) (sc_functions s) \<and> length (sc_tables r) = length (sc_tables s)
     \<and> same_tables (sc_tables r) (sc_tables s))"

end
