(* ===== verification/Names.thy ===== *)
theory Names
  imports Ddl
begin

section \<open>The identifiers of the database\<close>

text \<open>Every identifier of the migrations and the entities, in alphabetical order; \<open>n_x\<close> is spelled \<open>"x"\<close>.\<close>

abbreviation n_Account :: name where "n_Account \<equiv> 1001"
abbreviation n_AccountInbox :: name where "n_AccountInbox \<equiv> 1002"
abbreviation n_AccountInbox_pkey :: name where "n_AccountInbox_pkey \<equiv> 1003"
abbreviation n_Account_pkey :: name where "n_Account_pkey \<equiv> 1004"
abbreviation n_Address :: name where "n_Address \<equiv> 1005"
abbreviation n_Address_deletedAt_order :: name where "n_Address_deletedAt_order \<equiv> 1006"
abbreviation n_Address_pkey :: name where "n_Address_pkey \<equiv> 1007"
abbreviation n_Address_publicId_key :: name where "n_Address_publicId_key \<equiv> 1008"
abbreviation n_BackgroundJob :: name where "n_BackgroundJob \<equiv> 1009"
abbreviation n_BackgroundJobStatusEnum :: name where "n_BackgroundJobStatusEnum \<equiv> 1010"
abbreviation n_BackgroundJobTypeEnum :: name where "n_BackgroundJobTypeEnum \<equiv> 1011"
abbreviation n_BackgroundJob_attempts_nonneg :: name where "n_BackgroundJob_attempts_nonneg \<equiv> 1012"
abbreviation n_BackgroundJob_dedupeKey_key :: name where "n_BackgroundJob_dedupeKey_key \<equiv> 1013"
abbreviation n_BackgroundJob_dedupeKey_notBlank :: name where "n_BackgroundJob_dedupeKey_notBlank \<equiv> 1014"
abbreviation n_BackgroundJob_deletedAt_order :: name where "n_BackgroundJob_deletedAt_order \<equiv> 1015"
abbreviation n_BackgroundJob_orderId_fkey :: name where "n_BackgroundJob_orderId_fkey \<equiv> 1016"
abbreviation n_BackgroundJob_pkey :: name where "n_BackgroundJob_pkey \<equiv> 1017"
abbreviation n_BackgroundJob_processedCount_nonneg :: name where "n_BackgroundJob_processedCount_nonneg \<equiv> 1018"
abbreviation n_BackgroundJob_queue_idx :: name where "n_BackgroundJob_queue_idx \<equiv> 1019"
abbreviation n_Brand :: name where "n_Brand \<equiv> 1020"
abbreviation n_BrandTranslation :: name where "n_BrandTranslation \<equiv> 1021"
abbreviation n_BrandTranslation_brandId_fkey :: name where "n_BrandTranslation_brandId_fkey \<equiv> 1022"
abbreviation n_BrandTranslation_brandId_language :: name where "n_BrandTranslation_brandId_language \<equiv> 1023"
abbreviation n_BrandTranslation_name_notBlank :: name where "n_BrandTranslation_name_notBlank \<equiv> 1024"
abbreviation n_BrandTranslation_pkey :: name where "n_BrandTranslation_pkey \<equiv> 1025"
abbreviation n_Brand_deletedAt_order :: name where "n_Brand_deletedAt_order \<equiv> 1026"
abbreviation n_Brand_pkey :: name where "n_Brand_pkey \<equiv> 1027"
abbreviation n_Brand_publicId_key :: name where "n_Brand_publicId_key \<equiv> 1028"
abbreviation n_Brand_slug_format :: name where "n_Brand_slug_format \<equiv> 1029"
abbreviation n_Brand_slug_key :: name where "n_Brand_slug_key \<equiv> 1030"
abbreviation n_Category :: name where "n_Category \<equiv> 1031"
abbreviation n_CategoryTranslation :: name where "n_CategoryTranslation \<equiv> 1032"
abbreviation n_CategoryTranslation_categoryId_fkey :: name where "n_CategoryTranslation_categoryId_fkey \<equiv> 1033"
abbreviation n_CategoryTranslation_categoryId_language :: name where "n_CategoryTranslation_categoryId_language \<equiv> 1034"
abbreviation n_CategoryTranslation_name_notBlank :: name where "n_CategoryTranslation_name_notBlank \<equiv> 1035"
abbreviation n_CategoryTranslation_pkey :: name where "n_CategoryTranslation_pkey \<equiv> 1036"
abbreviation n_Category_deletedAt_order :: name where "n_Category_deletedAt_order \<equiv> 1037"
abbreviation n_Category_no_self_parent :: name where "n_Category_no_self_parent \<equiv> 1038"
abbreviation n_Category_parentCategoryId_fkey :: name where "n_Category_parentCategoryId_fkey \<equiv> 1039"
abbreviation n_Category_pkey :: name where "n_Category_pkey \<equiv> 1040"
abbreviation n_Category_publicId_key :: name where "n_Category_publicId_key \<equiv> 1041"
abbreviation n_Category_slug_format :: name where "n_Category_slug_format \<equiv> 1042"
abbreviation n_Category_slug_key :: name where "n_Category_slug_key \<equiv> 1043"
abbreviation n_CountryCodeEnum :: name where "n_CountryCodeEnum \<equiv> 1044"
abbreviation n_CurrencyEnum :: name where "n_CurrencyEnum \<equiv> 1045"
abbreviation n_DeliveryAddress :: name where "n_DeliveryAddress \<equiv> 1046"
abbreviation n_DeliveryAddress_deletedAt_order :: name where "n_DeliveryAddress_deletedAt_order \<equiv> 1047"
abbreviation n_DeliveryAddress_pkey :: name where "n_DeliveryAddress_pkey \<equiv> 1048"
abbreviation n_EmailInbox :: name where "n_EmailInbox \<equiv> 1049"
abbreviation n_GenderEnum :: name where "n_GenderEnum \<equiv> 1050"
abbreviation n_Identity :: name where "n_Identity \<equiv> 1051"
abbreviation n_IdentityExternalAccount :: name where "n_IdentityExternalAccount \<equiv> 1052"
abbreviation n_IdentityExternalAccount_identityId_fkey :: name where "n_IdentityExternalAccount_identityId_fkey \<equiv> 1053"
abbreviation n_IdentityExternalAccount_identityId_provider_key :: name where "n_IdentityExternalAccount_identityId_provider_key \<equiv> 1054"
abbreviation n_IdentityExternalAccount_pkey :: name where "n_IdentityExternalAccount_pkey \<equiv> 1055"
abbreviation n_IdentityExternalAccount_provider_subject_key :: name where "n_IdentityExternalAccount_provider_subject_key \<equiv> 1056"
abbreviation n_IdentityExternalAccount_subject_not_blank :: name where "n_IdentityExternalAccount_subject_not_blank \<equiv> 1057"
abbreviation n_IdentityOutbox :: name where "n_IdentityOutbox \<equiv> 1058"
abbreviation n_IdentityOutbox_attempts_nonneg :: name where "n_IdentityOutbox_attempts_nonneg \<equiv> 1059"
abbreviation n_IdentityOutbox_pkey :: name where "n_IdentityOutbox_pkey \<equiv> 1060"
abbreviation n_IdentityOutbox_publishedAt_order :: name where "n_IdentityOutbox_publishedAt_order \<equiv> 1061"
abbreviation n_IdentityOutbox_unpublished_idx :: name where "n_IdentityOutbox_unpublished_idx \<equiv> 1062"
abbreviation n_IdentityProviderEnum :: name where "n_IdentityProviderEnum \<equiv> 1063"
abbreviation n_IdentitySession :: name where "n_IdentitySession \<equiv> 1064"
abbreviation n_IdentitySession_expiresAt_order :: name where "n_IdentitySession_expiresAt_order \<equiv> 1065"
abbreviation n_IdentitySession_familyId_idx :: name where "n_IdentitySession_familyId_idx \<equiv> 1066"
abbreviation n_IdentitySession_identityId_fkey :: name where "n_IdentitySession_identityId_fkey \<equiv> 1067"
abbreviation n_IdentitySession_identityId_idx :: name where "n_IdentitySession_identityId_idx \<equiv> 1068"
abbreviation n_IdentitySession_pkey :: name where "n_IdentitySession_pkey \<equiv> 1069"
abbreviation n_IdentitySession_revokedAt_order :: name where "n_IdentitySession_revokedAt_order \<equiv> 1070"
abbreviation n_IdentitySession_tokenHash_key :: name where "n_IdentitySession_tokenHash_key \<equiv> 1071"
abbreviation n_IdentitySession_usedAt_order :: name where "n_IdentitySession_usedAt_order \<equiv> 1072"
abbreviation n_Identity_activatedAt_ord :: name where "n_Identity_activatedAt_ord \<equiv> 1073"
abbreviation n_Identity_deletedAt_order :: name where "n_Identity_deletedAt_order \<equiv> 1074"
abbreviation n_Identity_email_format :: name where "n_Identity_email_format \<equiv> 1075"
abbreviation n_Identity_email_key :: name where "n_Identity_email_key \<equiv> 1076"
abbreviation n_Identity_loginPhoneFullNumber_e164 :: name where "n_Identity_loginPhoneFullNumber_e164 \<equiv> 1077"
abbreviation n_Identity_loginPhoneFullNumber_key :: name where "n_Identity_loginPhoneFullNumber_key \<equiv> 1078"
abbreviation n_Identity_loginPhoneNationalNumber_fmt :: name where "n_Identity_loginPhoneNationalNumber_fmt \<equiv> 1079"
abbreviation n_Identity_login_present :: name where "n_Identity_login_present \<equiv> 1080"
abbreviation n_Identity_phoneId_fkey :: name where "n_Identity_phoneId_fkey \<equiv> 1081"
abbreviation n_Identity_phoneId_key :: name where "n_Identity_phoneId_key \<equiv> 1082"
abbreviation n_Identity_pkey :: name where "n_Identity_pkey \<equiv> 1083"
abbreviation n_Identity_publicId_key :: name where "n_Identity_publicId_key \<equiv> 1084"
abbreviation n_Inbox :: name where "n_Inbox \<equiv> 1085"
abbreviation n_Inbox_pkey :: name where "n_Inbox_pkey \<equiv> 1086"
abbreviation n_LanguageEnum :: name where "n_LanguageEnum \<equiv> 1087"
abbreviation n_Order :: name where "n_Order \<equiv> 1088"
abbreviation n_OrderBuyer :: name where "n_OrderBuyer \<equiv> 1089"
abbreviation n_OrderBuyer_pkey :: name where "n_OrderBuyer_pkey \<equiv> 1090"
abbreviation n_OrderBuyer_userId_key :: name where "n_OrderBuyer_userId_key \<equiv> 1091"
abbreviation n_OrderConfirmation :: name where "n_OrderConfirmation \<equiv> 1092"
abbreviation n_OrderConfirmation_orderPublicId_key :: name where "n_OrderConfirmation_orderPublicId_key \<equiv> 1093"
abbreviation n_OrderConfirmation_pkey :: name where "n_OrderConfirmation_pkey \<equiv> 1094"
abbreviation n_OrderInbox :: name where "n_OrderInbox \<equiv> 1095"
abbreviation n_OrderInbox_pkey :: name where "n_OrderInbox_pkey \<equiv> 1096"
abbreviation n_OrderLine :: name where "n_OrderLine \<equiv> 1097"
abbreviation n_OrderLine_deletedAt_ord :: name where "n_OrderLine_deletedAt_ord \<equiv> 1098"
abbreviation n_OrderLine_discount_le :: name where "n_OrderLine_discount_le \<equiv> 1099"
abbreviation n_OrderLine_orderId_fkey :: name where "n_OrderLine_orderId_fkey \<equiv> 1100"
abbreviation n_OrderLine_pkey :: name where "n_OrderLine_pkey \<equiv> 1101"
abbreviation n_OrderOutbox :: name where "n_OrderOutbox \<equiv> 1102"
abbreviation n_OrderOutbox_attempts_nonneg :: name where "n_OrderOutbox_attempts_nonneg \<equiv> 1103"
abbreviation n_OrderOutbox_broker_known :: name where "n_OrderOutbox_broker_known \<equiv> 1104"
abbreviation n_OrderOutbox_pkey :: name where "n_OrderOutbox_pkey \<equiv> 1105"
abbreviation n_OrderOutbox_publishedAt_order :: name where "n_OrderOutbox_publishedAt_order \<equiv> 1106"
abbreviation n_OrderOutbox_unpublished_idx :: name where "n_OrderOutbox_unpublished_idx \<equiv> 1107"
abbreviation n_OrderProduct :: name where "n_OrderProduct \<equiv> 1108"
abbreviation n_OrderProduct_deletedAt_ord :: name where "n_OrderProduct_deletedAt_ord \<equiv> 1109"
abbreviation n_OrderProduct_discount_le :: name where "n_OrderProduct_discount_le \<equiv> 1110"
abbreviation n_OrderProduct_offerId_fkey :: name where "n_OrderProduct_offerId_fkey \<equiv> 1111"
abbreviation n_OrderProduct_orderId_fkey :: name where "n_OrderProduct_orderId_fkey \<equiv> 1112"
abbreviation n_OrderProduct_pkey :: name where "n_OrderProduct_pkey \<equiv> 1113"
abbreviation n_OrderProduct_productOfferId_fkey :: name where "n_OrderProduct_productOfferId_fkey \<equiv> 1114"
abbreviation n_OrderRecipient :: name where "n_OrderRecipient \<equiv> 1115"
abbreviation n_OrderRecipient_buyerId_fkey :: name where "n_OrderRecipient_buyerId_fkey \<equiv> 1116"
abbreviation n_OrderRecipient_deletedAt_order :: name where "n_OrderRecipient_deletedAt_order \<equiv> 1117"
abbreviation n_OrderRecipient_deliveryAddressId_fkey :: name where "n_OrderRecipient_deliveryAddressId_fkey \<equiv> 1118"
abbreviation n_OrderRecipient_deliveryAddressId_key :: name where "n_OrderRecipient_deliveryAddressId_key \<equiv> 1119"
abbreviation n_OrderRecipient_fullName_notBlank :: name where "n_OrderRecipient_fullName_notBlank \<equiv> 1120"
abbreviation n_OrderRecipient_phoneFullNumber_e164 :: name where "n_OrderRecipient_phoneFullNumber_e164 \<equiv> 1121"
abbreviation n_OrderRecipient_phoneId_fkey :: name where "n_OrderRecipient_phoneId_fkey \<equiv> 1122"
abbreviation n_OrderRecipient_phoneId_key :: name where "n_OrderRecipient_phoneId_key \<equiv> 1123"
abbreviation n_OrderRecipient_phoneNationalNumber_fmt :: name where "n_OrderRecipient_phoneNationalNumber_fmt \<equiv> 1124"
abbreviation n_OrderRecipient_pkey :: name where "n_OrderRecipient_pkey \<equiv> 1125"
abbreviation n_OrderWorkflowOutbox :: name where "n_OrderWorkflowOutbox \<equiv> 1126"
abbreviation n_OrderWorkflowOutbox_attempts_nonneg :: name where "n_OrderWorkflowOutbox_attempts_nonneg \<equiv> 1127"
abbreviation n_OrderWorkflowOutbox_pkey :: name where "n_OrderWorkflowOutbox_pkey \<equiv> 1128"
abbreviation n_OrderWorkflowOutbox_startedAt_order :: name where "n_OrderWorkflowOutbox_startedAt_order \<equiv> 1129"
abbreviation n_OrderWorkflowOutbox_unstarted_idx :: name where "n_OrderWorkflowOutbox_unstarted_idx \<equiv> 1130"
abbreviation n_Order_deletedAt_order :: name where "n_Order_deletedAt_order \<equiv> 1131"
abbreviation n_Order_orderRecipientId_fkey :: name where "n_Order_orderRecipientId_fkey \<equiv> 1132"
abbreviation n_Order_orderRecipientId_key :: name where "n_Order_orderRecipientId_key \<equiv> 1133"
abbreviation n_Order_ownerIdentityPublicId_idx :: name where "n_Order_ownerIdentityPublicId_idx \<equiv> 1134"
abbreviation n_Order_pkey :: name where "n_Order_pkey \<equiv> 1135"
abbreviation n_Order_publicId_key :: name where "n_Order_publicId_key \<equiv> 1136"
abbreviation n_Order_userId_idempotencyKey_key :: name where "n_Order_userId_idempotencyKey_key \<equiv> 1137"
abbreviation n_PK_7fb82f4ad6f26db8dc040c629de :: name where "n_PK_7fb82f4ad6f26db8dc040c629de \<equiv> 1138"
abbreviation n_Phone :: name where "n_Phone \<equiv> 1139"
abbreviation n_Phone_deletedAt_order :: name where "n_Phone_deletedAt_order \<equiv> 1140"
abbreviation n_Phone_fullNumber_e164 :: name where "n_Phone_fullNumber_e164 \<equiv> 1141"
abbreviation n_Phone_nationalNumber_fmt :: name where "n_Phone_nationalNumber_fmt \<equiv> 1142"
abbreviation n_Phone_pkey :: name where "n_Phone_pkey \<equiv> 1143"
abbreviation n_Product :: name where "n_Product \<equiv> 1144"
abbreviation n_ProductOffer :: name where "n_ProductOffer \<equiv> 1145"
abbreviation n_ProductOffer_deletedAt_ord :: name where "n_ProductOffer_deletedAt_ord \<equiv> 1146"
abbreviation n_ProductOffer_discount_le :: name where "n_ProductOffer_discount_le \<equiv> 1147"
abbreviation n_ProductOffer_pkey :: name where "n_ProductOffer_pkey \<equiv> 1148"
abbreviation n_ProductOffer_productId_fkey :: name where "n_ProductOffer_productId_fkey \<equiv> 1149"
abbreviation n_ProductOffer_quantity_nonneg :: name where "n_ProductOffer_quantity_nonneg \<equiv> 1150"
abbreviation n_ProductOffer_sellerId_fkey :: name where "n_ProductOffer_sellerId_fkey \<equiv> 1151"
abbreviation n_ProductOffer_sellerId_sku :: name where "n_ProductOffer_sellerId_sku \<equiv> 1152"
abbreviation n_ProductOffer_sku_notBlank :: name where "n_ProductOffer_sku_notBlank \<equiv> 1153"
abbreviation n_ProductTranslation :: name where "n_ProductTranslation \<equiv> 1154"
abbreviation n_ProductTranslation_pkey :: name where "n_ProductTranslation_pkey \<equiv> 1155"
abbreviation n_ProductTranslation_productId_fkey :: name where "n_ProductTranslation_productId_fkey \<equiv> 1156"
abbreviation n_ProductTranslation_productId_language :: name where "n_ProductTranslation_productId_language \<equiv> 1157"
abbreviation n_ProductTranslation_title_notBlank :: name where "n_ProductTranslation_title_notBlank \<equiv> 1158"
abbreviation n_ProductVariant :: name where "n_ProductVariant \<equiv> 1159"
abbreviation n_ProductVariant_barcode_format :: name where "n_ProductVariant_barcode_format \<equiv> 1160"
abbreviation n_ProductVariant_barcode_key :: name where "n_ProductVariant_barcode_key \<equiv> 1161"
abbreviation n_ProductVariant_deletedAt_order :: name where "n_ProductVariant_deletedAt_order \<equiv> 1162"
abbreviation n_ProductVariant_pkey :: name where "n_ProductVariant_pkey \<equiv> 1163"
abbreviation n_ProductVariant_productId_fkey :: name where "n_ProductVariant_productId_fkey \<equiv> 1164"
abbreviation n_ProductVariant_productId_idx :: name where "n_ProductVariant_productId_idx \<equiv> 1165"
abbreviation n_ProductVariant_publicId_key :: name where "n_ProductVariant_publicId_key \<equiv> 1166"
abbreviation n_ProductVariant_sku_key :: name where "n_ProductVariant_sku_key \<equiv> 1167"
abbreviation n_ProductVariant_sku_notBlank :: name where "n_ProductVariant_sku_notBlank \<equiv> 1168"
abbreviation n_ProductVariant_slug_format :: name where "n_ProductVariant_slug_format \<equiv> 1169"
abbreviation n_ProductVariant_slug_key :: name where "n_ProductVariant_slug_key \<equiv> 1170"
abbreviation n_Product_brandId_fkey :: name where "n_Product_brandId_fkey \<equiv> 1171"
abbreviation n_Product_categoryId_fkey :: name where "n_Product_categoryId_fkey \<equiv> 1172"
abbreviation n_Product_deletedAt_order :: name where "n_Product_deletedAt_order \<equiv> 1173"
abbreviation n_Product_pkey :: name where "n_Product_pkey \<equiv> 1174"
abbreviation n_Product_publicId_key :: name where "n_Product_publicId_key \<equiv> 1175"
abbreviation n_Product_slug_format :: name where "n_Product_slug_format \<equiv> 1176"
abbreviation n_Product_slug_key :: name where "n_Product_slug_key \<equiv> 1177"
abbreviation n_RoleEnum :: name where "n_RoleEnum \<equiv> 1178"
abbreviation n_Seller :: name where "n_Seller \<equiv> 1179"
abbreviation n_SellerOffer :: name where "n_SellerOffer \<equiv> 1180"
abbreviation n_SellerOffer_deletedAt_ord :: name where "n_SellerOffer_deletedAt_ord \<equiv> 1181"
abbreviation n_SellerOffer_discount_le :: name where "n_SellerOffer_discount_le \<equiv> 1182"
abbreviation n_SellerOffer_onHandQuantity_nonneg :: name where "n_SellerOffer_onHandQuantity_nonneg \<equiv> 1183"
abbreviation n_SellerOffer_pkey :: name where "n_SellerOffer_pkey \<equiv> 1184"
abbreviation n_SellerOffer_publicId_key :: name where "n_SellerOffer_publicId_key \<equiv> 1185"
abbreviation n_SellerOffer_quantity_nonneg :: name where "n_SellerOffer_quantity_nonneg \<equiv> 1186"
abbreviation n_SellerOffer_reserved_range :: name where "n_SellerOffer_reserved_range \<equiv> 1187"
abbreviation n_SellerOffer_sellerId_fkey :: name where "n_SellerOffer_sellerId_fkey \<equiv> 1188"
abbreviation n_SellerOffer_sellerId_sellerSku :: name where "n_SellerOffer_sellerId_sellerSku \<equiv> 1189"
abbreviation n_SellerOffer_sellerId_variantId :: name where "n_SellerOffer_sellerId_variantId \<equiv> 1190"
abbreviation n_SellerOffer_sellerSku_notBlank :: name where "n_SellerOffer_sellerSku_notBlank \<equiv> 1191"
abbreviation n_SellerOffer_variantId_fkey :: name where "n_SellerOffer_variantId_fkey \<equiv> 1192"
abbreviation n_Seller_deletedAt_order :: name where "n_Seller_deletedAt_order \<equiv> 1193"
abbreviation n_Seller_pkey :: name where "n_Seller_pkey \<equiv> 1194"
abbreviation n_Seller_publicId_key :: name where "n_Seller_publicId_key \<equiv> 1195"
abbreviation n_Seller_userId_fkey :: name where "n_Seller_userId_fkey \<equiv> 1196"
abbreviation n_Seller_userId_key :: name where "n_Seller_userId_key \<equiv> 1197"
abbreviation n_StatusEnum :: name where "n_StatusEnum \<equiv> 1198"
abbreviation n_StockReservation :: name where "n_StockReservation \<equiv> 1199"
abbreviation n_StockReservationStatusEnum :: name where "n_StockReservationStatusEnum \<equiv> 1200"
abbreviation n_StockReservation_offerId_fkey :: name where "n_StockReservation_offerId_fkey \<equiv> 1201"
abbreviation n_StockReservation_pkey :: name where "n_StockReservation_pkey \<equiv> 1202"
abbreviation n_StockReservation_quantity_positive :: name where "n_StockReservation_quantity_positive \<equiv> 1203"
abbreviation n_Transaction :: name where "n_Transaction \<equiv> 1204"
abbreviation n_TransactionStatusEnum :: name where "n_TransactionStatusEnum \<equiv> 1205"
abbreviation n_TransactionTypeEnum :: name where "n_TransactionTypeEnum \<equiv> 1206"
abbreviation n_TransactionTypeEnum_old :: name where "n_TransactionTypeEnum_old \<equiv> 1207"
abbreviation n_Transaction_customerId_fkey :: name where "n_Transaction_customerId_fkey \<equiv> 1208"
abbreviation n_Transaction_customerId_idx :: name where "n_Transaction_customerId_idx \<equiv> 1209"
abbreviation n_Transaction_deletedAt_order :: name where "n_Transaction_deletedAt_order \<equiv> 1210"
abbreviation n_Transaction_pkey :: name where "n_Transaction_pkey \<equiv> 1211"
abbreviation n_Transaction_publicId_key :: name where "n_Transaction_publicId_key \<equiv> 1212"
abbreviation n_Transaction_userId_fkey :: name where "n_Transaction_userId_fkey \<equiv> 1213"
abbreviation n_User :: name where "n_User \<equiv> 1214"
abbreviation n_UserOutbox :: name where "n_UserOutbox \<equiv> 1215"
abbreviation n_UserOutbox_attempts_nonneg :: name where "n_UserOutbox_attempts_nonneg \<equiv> 1216"
abbreviation n_UserOutbox_pkey :: name where "n_UserOutbox_pkey \<equiv> 1217"
abbreviation n_UserOutbox_publishedAt_order :: name where "n_UserOutbox_publishedAt_order \<equiv> 1218"
abbreviation n_UserOutbox_unpublished_idx :: name where "n_UserOutbox_unpublished_idx \<equiv> 1219"
abbreviation n_User_addressId_fkey :: name where "n_User_addressId_fkey \<equiv> 1220"
abbreviation n_User_addressId_key :: name where "n_User_addressId_key \<equiv> 1221"
abbreviation n_User_dateOfBirth_past :: name where "n_User_dateOfBirth_past \<equiv> 1222"
abbreviation n_User_deletedAt_order :: name where "n_User_deletedAt_order \<equiv> 1223"
abbreviation n_User_deliveryAddressId_fkey :: name where "n_User_deliveryAddressId_fkey \<equiv> 1224"
abbreviation n_User_deliveryAddressId_key :: name where "n_User_deliveryAddressId_key \<equiv> 1225"
abbreviation n_User_email_format :: name where "n_User_email_format \<equiv> 1226"
abbreviation n_User_identityId_fkey :: name where "n_User_identityId_fkey \<equiv> 1227"
abbreviation n_User_identityId_key :: name where "n_User_identityId_key \<equiv> 1228"
abbreviation n_User_identityPublicId_key :: name where "n_User_identityPublicId_key \<equiv> 1229"
abbreviation n_User_phoneNumber_e164 :: name where "n_User_phoneNumber_e164 \<equiv> 1230"
abbreviation n_User_pkey :: name where "n_User_pkey \<equiv> 1231"
abbreviation n_User_publicId_key :: name where "n_User_publicId_key \<equiv> 1232"
abbreviation n_activatedAt :: name where "n_activatedAt \<equiv> 1233"
abbreviation n_addressBuilding :: name where "n_addressBuilding \<equiv> 1234"
abbreviation n_addressCity :: name where "n_addressCity \<equiv> 1235"
abbreviation n_addressId :: name where "n_addressId \<equiv> 1236"
abbreviation n_addressLine :: name where "n_addressLine \<equiv> 1237"
abbreviation n_aggregateId :: name where "n_aggregateId \<equiv> 1238"
abbreviation n_aggregateType :: name where "n_aggregateType \<equiv> 1239"
abbreviation n_amount :: name where "n_amount \<equiv> 1240"
abbreviation n_attempts :: name where "n_attempts \<equiv> 1241"
abbreviation n_balance :: name where "n_balance \<equiv> 1242"
abbreviation n_barcode :: name where "n_barcode \<equiv> 1243"
abbreviation n_brandId :: name where "n_brandId \<equiv> 1244"
abbreviation n_broker :: name where "n_broker \<equiv> 1245"
abbreviation n_building :: name where "n_building \<equiv> 1246"
abbreviation n_buyerId :: name where "n_buyerId \<equiv> 1247"
abbreviation n_categoryId :: name where "n_categoryId \<equiv> 1248"
abbreviation n_city :: name where "n_city \<equiv> 1249"
abbreviation n_consumer :: name where "n_consumer \<equiv> 1250"
abbreviation n_countryCode :: name where "n_countryCode \<equiv> 1251"
abbreviation n_createdAt :: name where "n_createdAt \<equiv> 1252"
abbreviation n_currency :: name where "n_currency \<equiv> 1253"
abbreviation n_customerId :: name where "n_customerId \<equiv> 1254"
abbreviation n_database :: name where "n_database \<equiv> 1255"
abbreviation n_dateOfBirth :: name where "n_dateOfBirth \<equiv> 1256"
abbreviation n_dedupeKey :: name where "n_dedupeKey \<equiv> 1257"
abbreviation n_deletedAt :: name where "n_deletedAt \<equiv> 1258"
abbreviation n_deliveryAddressId :: name where "n_deliveryAddressId \<equiv> 1259"
abbreviation n_description :: name where "n_description \<equiv> 1260"
abbreviation n_discountAmount :: name where "n_discountAmount \<equiv> 1261"
abbreviation n_discountPrice :: name where "n_discountPrice \<equiv> 1262"
abbreviation n_email :: name where "n_email \<equiv> 1263"
abbreviation n_errorMessage :: name where "n_errorMessage \<equiv> 1264"
abbreviation n_expiresAt :: name where "n_expiresAt \<equiv> 1265"
abbreviation n_familyId :: name where "n_familyId \<equiv> 1266"
abbreviation n_finishedAt :: name where "n_finishedAt \<equiv> 1267"
abbreviation n_firstName :: name where "n_firstName \<equiv> 1268"
abbreviation n_fullName :: name where "n_fullName \<equiv> 1269"
abbreviation n_fullNumber :: name where "n_fullNumber \<equiv> 1270"
abbreviation n_gender :: name where "n_gender \<equiv> 1271"
abbreviation n_id :: name where "n_id \<equiv> 1272"
abbreviation n_idempotencyKey :: name where "n_idempotencyKey \<equiv> 1273"
abbreviation n_identityId :: name where "n_identityId \<equiv> 1274"
abbreviation n_identityPublicId :: name where "n_identityPublicId \<equiv> 1275"
abbreviation n_input :: name where "n_input \<equiv> 1276"
abbreviation n_language :: name where "n_language \<equiv> 1277"
abbreviation n_lastError :: name where "n_lastError \<equiv> 1278"
abbreviation n_lastName :: name where "n_lastName \<equiv> 1279"
abbreviation n_loginPhoneCountryCode :: name where "n_loginPhoneCountryCode \<equiv> 1280"
abbreviation n_loginPhoneFullNumber :: name where "n_loginPhoneFullNumber \<equiv> 1281"
abbreviation n_loginPhoneNationalNumber :: name where "n_loginPhoneNationalNumber \<equiv> 1282"
abbreviation n_loginPhoneRawNumber :: name where "n_loginPhoneRawNumber \<equiv> 1283"
abbreviation n_messageId :: name where "n_messageId \<equiv> 1284"
abbreviation n_name :: name where "n_name \<equiv> 1285"
abbreviation n_nationalNumber :: name where "n_nationalNumber \<equiv> 1286"
abbreviation n_offerId :: name where "n_offerId \<equiv> 1287"
abbreviation n_onHandQuantity :: name where "n_onHandQuantity \<equiv> 1288"
abbreviation n_orderId :: name where "n_orderId \<equiv> 1289"
abbreviation n_orderPublicId :: name where "n_orderPublicId \<equiv> 1290"
abbreviation n_orderRecipientId :: name where "n_orderRecipientId \<equiv> 1291"
abbreviation n_ownerIdentityPublicId :: name where "n_ownerIdentityPublicId \<equiv> 1292"
abbreviation n_parentCategoryId :: name where "n_parentCategoryId \<equiv> 1293"
abbreviation n_passwordHash :: name where "n_passwordHash \<equiv> 1294"
abbreviation n_payload :: name where "n_payload \<equiv> 1295"
abbreviation n_phoneCountryCode :: name where "n_phoneCountryCode \<equiv> 1296"
abbreviation n_phoneFullNumber :: name where "n_phoneFullNumber \<equiv> 1297"
abbreviation n_phoneId :: name where "n_phoneId \<equiv> 1298"
abbreviation n_phoneNationalNumber :: name where "n_phoneNationalNumber \<equiv> 1299"
abbreviation n_phoneNumber :: name where "n_phoneNumber \<equiv> 1300"
abbreviation n_phoneRawNumber :: name where "n_phoneRawNumber \<equiv> 1301"
abbreviation n_price :: name where "n_price \<equiv> 1302"
abbreviation n_processedBy :: name where "n_processedBy \<equiv> 1303"
abbreviation n_processedCount :: name where "n_processedCount \<equiv> 1304"
abbreviation n_productId :: name where "n_productId \<equiv> 1305"
abbreviation n_productOfferId :: name where "n_productOfferId \<equiv> 1306"
abbreviation n_provider :: name where "n_provider \<equiv> 1307"
abbreviation n_publicId :: name where "n_publicId \<equiv> 1308"
abbreviation n_publishedAt :: name where "n_publishedAt \<equiv> 1309"
abbreviation n_quantity :: name where "n_quantity \<equiv> 1310"
abbreviation n_rawNumber :: name where "n_rawNumber \<equiv> 1311"
abbreviation n_recipientId :: name where "n_recipientId \<equiv> 1312"
abbreviation n_reservedQuantity :: name where "n_reservedQuantity \<equiv> 1313"
abbreviation n_revokedAt :: name where "n_revokedAt \<equiv> 1314"
abbreviation n_role :: name where "n_role \<equiv> 1315"
abbreviation n_schema :: name where "n_schema \<equiv> 1316"
abbreviation n_sellerId :: name where "n_sellerId \<equiv> 1317"
abbreviation n_sellerSku :: name where "n_sellerSku \<equiv> 1318"
abbreviation n_setUpdatedAt :: name where "n_setUpdatedAt \<equiv> 1319"
abbreviation n_sku :: name where "n_sku \<equiv> 1320"
abbreviation n_slug :: name where "n_slug \<equiv> 1321"
abbreviation n_startedAt :: name where "n_startedAt \<equiv> 1322"
abbreviation n_status :: name where "n_status \<equiv> 1323"
abbreviation n_subject :: name where "n_subject \<equiv> 1324"
abbreviation n_table :: name where "n_table \<equiv> 1325"
abbreviation n_taskQueue :: name where "n_taskQueue \<equiv> 1326"
abbreviation n_timezone :: name where "n_timezone \<equiv> 1327"
abbreviation n_title :: name where "n_title \<equiv> 1328"
abbreviation n_tokenHash :: name where "n_tokenHash \<equiv> 1329"
abbreviation n_topic :: name where "n_topic \<equiv> 1330"
abbreviation n_totalAmount :: name where "n_totalAmount \<equiv> 1331"
abbreviation n_type :: name where "n_type \<equiv> 1332"
abbreviation n_typeorm_metadata :: name where "n_typeorm_metadata \<equiv> 1333"
abbreviation n_uint :: name where "n_uint \<equiv> 1334"
abbreviation n_unitDiscountPrice :: name where "n_unitDiscountPrice \<equiv> 1335"
abbreviation n_unitPrice :: name where "n_unitPrice \<equiv> 1336"
abbreviation n_updatedAt :: name where "n_updatedAt \<equiv> 1337"
abbreviation n_usedAt :: name where "n_usedAt \<equiv> 1338"
abbreviation n_userId :: name where "n_userId \<equiv> 1339"
abbreviation n_value :: name where "n_value \<equiv> 1340"
abbreviation n_variantId :: name where "n_variantId \<equiv> 1341"
abbreviation n_workflowId :: name where "n_workflowId \<equiv> 1342"
abbreviation n_workflowType :: name where "n_workflowType \<equiv> 1343"

subsection \<open>Regular expressions\<close>

definition backslash :: char where
  "backslash = CHR 0x5C"

definition re_e164 :: string where
  "re_e164 = ''^'' @ [backslash] @ ''+[1-9][0-9]{7,14}$''"

definition re_national :: string where
  "re_national = ''^[0-9]{4,15}$''"

definition re_email :: string where
  "re_email = ''^[^@'' @ [backslash] @ ''s]+@[^@'' @ [backslash] @ ''s]+'' @ [backslash] @ ''.[^@'' @ [backslash] @ ''s]+$''"

definition re_slug :: string where
  "re_slug = ''^[a-z0-9]+(-[a-z0-9]+)*$''"

definition re_barcode :: string where
  "re_barcode = ''^[0-9]{8,14}$''"

end
