(* ===== verification/Migrations.thy ===== *)
theory Migrations
  imports Names
begin

section \<open>The migrations of the database\<close>

text \<open>
  \<open>src/migrations\<close>: the statements of \<open>up\<close> and \<open>down\<close> of every migration, in the order of the files, and the order in which
  TypeORM runs them. The expressions of checks and generated columns are kept as syntax, the regular expressions by name (\<open>Names\<close>).
\<close>

subsection \<open>InitSchema\<close>

definition InitSchema_up :: "statement list" where
  "InitSchema_up = [
    CreateExtension ''citext'',
    CreateDomain n_uint Integer (Gt DomainValue (Num 0)),
    CreateDomain n_amount (Numeric 12 2) (Ge DomainValue (Num 0)),
    CreateEnum n_LanguageEnum [''en'', ''ua''],
    CreateEnum n_RoleEnum [''owner'', ''seller'', ''admin'', ''user''],
    CreateEnum n_GenderEnum [''male'', ''female''],
    CreateEnum n_CountryCodeEnum [''UA'', ''US'', ''PL'', ''DE'', ''GB''],
    CreateEnum n_CurrencyEnum [''UAH'', ''EUR'', ''USD''],
    CreateEnum n_StatusEnum [''created'', ''pending_payment'', ''failed_payment'', ''paid'', ''confirmed'', ''preparing'', ''shipped'',
        ''delivered'', ''completed'', ''canceled'', ''refunded''],
    CreateFunction n_setUpdatedAt,
    CreateTable n_Phone
      [(n_id, identity_always),
       (n_countryCode, required (Named n_CountryCodeEnum)),
       (n_rawNumber, required (Varchar 32)),
       (n_fullNumber, required (Varchar 16)),
       (n_nationalNumber, required (Varchar 15)),
       (n_createdAt, defaulted Timestamptz DefaultNow),
       (n_updatedAt, defaulted Timestamptz DefaultNow),
       (n_deletedAt, optional Timestamptz)]
      [(n_Phone_fullNumber_e164, Check (Matches (Col n_fullNumber) re_e164)),
       (n_Phone_nationalNumber_fmt, Check (Matches (Col n_nationalNumber) re_national)),
       (n_Phone_deletedAt_order, Check (Or (IsNull (Col n_deletedAt)) (Ge (Col n_deletedAt) (Col n_createdAt)))),
       (n_Phone_pkey, PrimaryKey [n_id])],
    CreateTable n_DeliveryAddress
      [(n_id, identity_always),
       (n_addressLine, required (Varchar 255)),
       (n_city, required (Varchar 100)),
       (n_building, optional (Varchar 32)),
       (n_createdAt, defaulted Timestamptz DefaultNow),
       (n_updatedAt, defaulted Timestamptz DefaultNow),
       (n_deletedAt, optional Timestamptz)]
      [(n_DeliveryAddress_deletedAt_order, Check (Or (IsNull (Col n_deletedAt)) (Ge (Col n_deletedAt) (Col n_createdAt)))),
       (n_DeliveryAddress_pkey, PrimaryKey [n_id])],
    CreateTable n_Identity
      [(n_id, identity_always),
       (n_email, optional Citext),
       (n_phoneId, optional (Named n_uint)),
       (n_passwordHash, required (Varchar 255)),
       (n_role, defaulted (Named n_RoleEnum) (DefaultLit ''user'')),
       (n_activatedAt, optional Timestamptz),
       (n_createdAt, defaulted Timestamptz DefaultNow),
       (n_updatedAt, defaulted Timestamptz DefaultNow),
       (n_deletedAt, optional Timestamptz)]
      [(n_Identity_email_key, Unique [n_email]),
       (n_Identity_phoneId_key, Unique [n_phoneId]),
       (n_Identity_login_present, Check (Or (IsNotNull (Col n_email)) (IsNotNull (Col n_phoneId)))),
       (n_Identity_email_format, Check (Or (IsNull (Col n_email)) (Matches (Col n_email) re_email))),
       (n_Identity_activatedAt_ord, Check (Or (IsNull (Col n_activatedAt)) (Ge (Col n_activatedAt) (Col n_createdAt)))),
       (n_Identity_deletedAt_order, Check (Or (IsNull (Col n_deletedAt)) (Ge (Col n_deletedAt) (Col n_createdAt)))),
       (n_Identity_pkey, PrimaryKey [n_id])],
    Data Insert n_typeorm_metadata [n_database, n_schema, n_table, n_type, n_name, n_value] [] [],
    CreateTable n_User
      [(n_id, identity_always),
       (n_identityId, required (Named n_uint)),
       (n_firstName, optional (Varchar 100)),
       (n_lastName, optional (Varchar 100)),
       (n_fullName, stored (Varchar 201) (Nullif (Trim (Concat (Coalesce (Col n_firstName) (Lit '''')) (Concat (Lit '' '') (Coalesce
           (Col n_lastName) (Lit ''''))))) (Lit ''''))),
       (n_dateOfBirth, optional Date),
       (n_gender, optional (Named n_GenderEnum)),
       (n_language, defaulted (Named n_LanguageEnum) (DefaultLit ''en'')),
       (n_timezone, defaulted (Varchar 64) (DefaultLit ''Europe/London'')),
       (n_deliveryAddressId, optional (Named n_uint)),
       (n_createdAt, defaulted Timestamptz DefaultNow),
       (n_updatedAt, defaulted Timestamptz DefaultNow),
       (n_deletedAt, optional Timestamptz)]
      [(n_User_identityId_key, Unique [n_identityId]),
       (n_User_deliveryAddressId_key, Unique [n_deliveryAddressId]),
       (n_User_dateOfBirth_past, Check (Or (IsNull (Col n_dateOfBirth)) (Lt (Col n_dateOfBirth) CurrentDate))),
       (n_User_deletedAt_order, Check (Or (IsNull (Col n_deletedAt)) (Ge (Col n_deletedAt) (Col n_createdAt)))),
       (n_User_pkey, PrimaryKey [n_id])],
    CreateTable n_Brand
      [(n_id, identity_always),
       (n_slug, required (Varchar 120)),
       (n_createdAt, defaulted Timestamptz DefaultNow),
       (n_updatedAt, defaulted Timestamptz DefaultNow),
       (n_deletedAt, optional Timestamptz)]
      [(n_Brand_slug_key, Unique [n_slug]),
       (n_Brand_slug_format, Check (Matches (Col n_slug) re_slug)),
       (n_Brand_deletedAt_order, Check (Or (IsNull (Col n_deletedAt)) (Ge (Col n_deletedAt) (Col n_createdAt)))),
       (n_Brand_pkey, PrimaryKey [n_id])],
    CreateTable n_BrandTranslation
      [(n_id, identity_always),
       (n_brandId, required (Named n_uint)),
       (n_name, required (Varchar 255)),
       (n_language, required (Named n_LanguageEnum)),
       (n_createdAt, defaulted Timestamptz DefaultNow),
       (n_updatedAt, defaulted Timestamptz DefaultNow),
       (n_deletedAt, optional Timestamptz)]
      [(n_BrandTranslation_brandId_language, Unique [n_brandId, n_language]),
       (n_BrandTranslation_name_notBlank, Check (Ne (Btrim (Col n_name)) (Lit ''''))),
       (n_BrandTranslation_pkey, PrimaryKey [n_id])],
    CreateTable n_Category
      [(n_id, identity_always),
       (n_slug, required (Varchar 120)),
       (n_parentCategoryId, optional (Named n_uint)),
       (n_createdAt, defaulted Timestamptz DefaultNow),
       (n_updatedAt, defaulted Timestamptz DefaultNow),
       (n_deletedAt, optional Timestamptz)]
      [(n_Category_slug_key, Unique [n_slug]),
       (n_Category_slug_format, Check (Matches (Col n_slug) re_slug)),
       (n_Category_no_self_parent, Check (DistinctFrom (Col n_parentCategoryId) (Col n_id))),
       (n_Category_deletedAt_order, Check (Or (IsNull (Col n_deletedAt)) (Ge (Col n_deletedAt) (Col n_createdAt)))),
       (n_Category_pkey, PrimaryKey [n_id])],
    CreateTable n_CategoryTranslation
      [(n_id, identity_always),
       (n_categoryId, required (Named n_uint)),
       (n_name, required (Varchar 255)),
       (n_language, required (Named n_LanguageEnum)),
       (n_createdAt, defaulted Timestamptz DefaultNow),
       (n_updatedAt, defaulted Timestamptz DefaultNow),
       (n_deletedAt, optional Timestamptz)]
      [(n_CategoryTranslation_categoryId_language, Unique [n_categoryId, n_language]),
       (n_CategoryTranslation_name_notBlank, Check (Ne (Btrim (Col n_name)) (Lit ''''))),
       (n_CategoryTranslation_pkey, PrimaryKey [n_id])],
    CreateTable n_Product
      [(n_id, identity_always),
       (n_categoryId, required (Named n_uint)),
       (n_brandId, required (Named n_uint)),
       (n_slug, required (Varchar 120)),
       (n_createdAt, defaulted Timestamptz DefaultNow),
       (n_updatedAt, defaulted Timestamptz DefaultNow),
       (n_deletedAt, optional Timestamptz)]
      [(n_Product_slug_key, Unique [n_slug]),
       (n_Product_slug_format, Check (Matches (Col n_slug) re_slug)),
       (n_Product_deletedAt_order, Check (Or (IsNull (Col n_deletedAt)) (Ge (Col n_deletedAt) (Col n_createdAt)))),
       (n_Product_pkey, PrimaryKey [n_id])],
    CreateTable n_ProductTranslation
      [(n_id, identity_always),
       (n_productId, required (Named n_uint)),
       (n_title, required (Varchar 255)),
       (n_description, optional Text),
       (n_language, required (Named n_LanguageEnum)),
       (n_createdAt, defaulted Timestamptz DefaultNow),
       (n_updatedAt, defaulted Timestamptz DefaultNow),
       (n_deletedAt, optional Timestamptz)]
      [(n_ProductTranslation_productId_language, Unique [n_productId, n_language]),
       (n_ProductTranslation_title_notBlank, Check (Ne (Btrim (Col n_title)) (Lit ''''))),
       (n_ProductTranslation_pkey, PrimaryKey [n_id])],
    CreateTable n_ProductOffer
      [(n_id, identity_always),
       (n_productId, required (Named n_uint)),
       (n_sellerId, required (Named n_uint)),
       (n_sku, required (Varchar 64)),
       (n_price, required (Named n_amount)),
       (n_currency, required (Named n_CurrencyEnum)),
       (n_discountPrice, optional (Named n_amount)),
       (n_createdAt, defaulted Timestamptz DefaultNow),
       (n_updatedAt, defaulted Timestamptz DefaultNow),
       (n_deletedAt, optional Timestamptz)]
      [(n_ProductOffer_sellerId_sku, Unique [n_sellerId, n_sku]),
       (n_ProductOffer_sku_notBlank, Check (Ne (Btrim (Col n_sku)) (Lit ''''))),
       (n_ProductOffer_discount_le, Check (Or (IsNull (Col n_discountPrice)) (Le (Col n_discountPrice) (Col n_price)))),
       (n_ProductOffer_deletedAt_ord, Check (Or (IsNull (Col n_deletedAt)) (Ge (Col n_deletedAt) (Col n_createdAt)))),
       (n_ProductOffer_pkey, PrimaryKey [n_id])],
    CreateTable n_OrderRecipient
      [(n_id, identity_always),
       (n_buyerId, required (Named n_uint)),
       (n_fullName, required (Varchar 201)),
       (n_phoneId, required (Named n_uint)),
       (n_deliveryAddressId, required (Named n_uint)),
       (n_createdAt, defaulted Timestamptz DefaultNow),
       (n_updatedAt, defaulted Timestamptz DefaultNow),
       (n_deletedAt, optional Timestamptz)]
      [(n_OrderRecipient_phoneId_key, Unique [n_phoneId]),
       (n_OrderRecipient_deliveryAddressId_key, Unique [n_deliveryAddressId]),
       (n_OrderRecipient_fullName_notBlank, Check (Ne (Btrim (Col n_fullName)) (Lit ''''))),
       (n_OrderRecipient_deletedAt_order, Check (Or (IsNull (Col n_deletedAt)) (Ge (Col n_deletedAt) (Col n_createdAt)))),
       (n_OrderRecipient_pkey, PrimaryKey [n_id])],
    CreateTable n_Order
      [(n_id, identity_always),
       (n_publicId, defaulted Uuid DefaultUuid),
       (n_orderRecipientId, required (Named n_uint)),
       (n_status, defaulted (Named n_StatusEnum) (DefaultLit ''created'')),
       (n_totalAmount, required (Named n_amount)),
       (n_discountAmount, defaulted (Named n_amount) (DefaultNum 0)),
       (n_currency, required (Named n_CurrencyEnum)),
       (n_createdAt, defaulted Timestamptz DefaultNow),
       (n_updatedAt, defaulted Timestamptz DefaultNow),
       (n_deletedAt, optional Timestamptz)]
      [(n_Order_publicId_key, Unique [n_publicId]),
       (n_Order_orderRecipientId_key, Unique [n_orderRecipientId]),
       (n_Order_deletedAt_order, Check (Or (IsNull (Col n_deletedAt)) (Ge (Col n_deletedAt) (Col n_createdAt)))),
       (n_Order_pkey, PrimaryKey [n_id])],
    CreateTable n_OrderProduct
      [(n_orderId, required (Named n_uint)),
       (n_productOfferId, required (Named n_uint)),
       (n_quantity, required (Named n_uint)),
       (n_price, required (Named n_amount)),
       (n_discountPrice, optional (Named n_amount)),
       (n_createdAt, defaulted Timestamptz DefaultNow),
       (n_updatedAt, defaulted Timestamptz DefaultNow),
       (n_deletedAt, optional Timestamptz)]
      [(n_OrderProduct_discount_le, Check (Or (IsNull (Col n_discountPrice)) (Le (Col n_discountPrice) (Col n_price)))),
       (n_OrderProduct_deletedAt_ord, Check (Or (IsNull (Col n_deletedAt)) (Ge (Col n_deletedAt) (Col n_createdAt)))),
       (n_OrderProduct_pkey, PrimaryKey [n_orderId, n_productOfferId])],
    AlterTable n_Identity (AddConstraint n_Identity_phoneId_fkey (ForeignKey [n_phoneId] n_Phone [n_id] Restrict)),
    AlterTable n_User (AddConstraint n_User_identityId_fkey (ForeignKey [n_identityId] n_Identity [n_id] Restrict)),
    AlterTable n_User (AddConstraint n_User_deliveryAddressId_fkey (ForeignKey [n_deliveryAddressId] n_DeliveryAddress [n_id] Restrict)),
    AlterTable n_BrandTranslation (AddConstraint n_BrandTranslation_brandId_fkey (ForeignKey [n_brandId] n_Brand [n_id] Cascade)),
    AlterTable n_Category (AddConstraint n_Category_parentCategoryId_fkey (ForeignKey [n_parentCategoryId] n_Category [n_id] Restrict)),
    AlterTable n_CategoryTranslation (AddConstraint n_CategoryTranslation_categoryId_fkey (ForeignKey [n_categoryId] n_Category [n_id] Cascade)),
    AlterTable n_Product (AddConstraint n_Product_categoryId_fkey (ForeignKey [n_categoryId] n_Category [n_id] Restrict)),
    AlterTable n_Product (AddConstraint n_Product_brandId_fkey (ForeignKey [n_brandId] n_Brand [n_id] Restrict)),
    AlterTable n_ProductTranslation (AddConstraint n_ProductTranslation_productId_fkey (ForeignKey [n_productId] n_Product [n_id] Cascade)),
    AlterTable n_ProductOffer (AddConstraint n_ProductOffer_productId_fkey (ForeignKey [n_productId] n_Product [n_id] Restrict)),
    AlterTable n_ProductOffer (AddConstraint n_ProductOffer_sellerId_fkey (ForeignKey [n_sellerId] n_User [n_id] Restrict)),
    AlterTable n_OrderRecipient (AddConstraint n_OrderRecipient_buyerId_fkey (ForeignKey [n_buyerId] n_User [n_id] Restrict)),
    AlterTable n_OrderRecipient (AddConstraint n_OrderRecipient_phoneId_fkey (ForeignKey [n_phoneId] n_Phone [n_id] Restrict)),
    AlterTable n_OrderRecipient (AddConstraint n_OrderRecipient_deliveryAddressId_fkey
        (ForeignKey [n_deliveryAddressId] n_DeliveryAddress [n_id] Restrict)),
    AlterTable n_Order (AddConstraint n_Order_orderRecipientId_fkey (ForeignKey [n_orderRecipientId] n_OrderRecipient [n_id] Restrict)),
    AlterTable n_OrderProduct (AddConstraint n_OrderProduct_orderId_fkey (ForeignKey [n_orderId] n_Order [n_id] Cascade)),
    AlterTable n_OrderProduct (AddConstraint n_OrderProduct_productOfferId_fkey (ForeignKey [n_productOfferId] n_ProductOffer [n_id] Restrict))]
  @ map (\<lambda>table. CreateTrigger table table n_setUpdatedAt) [n_Phone, n_DeliveryAddress, n_Identity, n_User, n_Brand, n_BrandTranslation,
      n_Category, n_CategoryTranslation, n_Product, n_ProductTranslation, n_ProductOffer, n_OrderRecipient, n_Order, n_OrderProduct]"

definition InitSchema_down :: "statement list" where
  "InitSchema_down = map (\<lambda>table. DropTable table) [n_OrderProduct, n_Order, n_OrderRecipient, n_ProductOffer, n_ProductTranslation, n_Product,
    n_CategoryTranslation, n_Category, n_BrandTranslation, n_Brand, n_User, n_Identity, n_DeliveryAddress, n_Phone]
  @ [
    Data Delete n_typeorm_metadata [] [(n_typeorm_metadata, [n_type, n_name, n_schema, n_table])] [],
    DropFunction n_setUpdatedAt,
    DropEnum n_StatusEnum,
    DropEnum n_CurrencyEnum,
    DropEnum n_CountryCodeEnum,
    DropEnum n_GenderEnum,
    DropEnum n_RoleEnum,
    DropEnum n_LanguageEnum,
    DropDomain n_amount,
    DropDomain n_uint]"

subsection \<open>AddQuantityTransactionsBackgroundJobs\<close>

definition AddQuantityTransactionsBackgroundJobs_up :: "statement list" where
  "AddQuantityTransactionsBackgroundJobs_up = [
    AlterTable n_ProductOffer (AddColumn n_quantity (defaulted Integer (DefaultNum 0))),
    AlterTable n_ProductOffer (AddConstraint n_ProductOffer_quantity_nonneg (Check (Ge (Col n_quantity) (Num 0)))),
    CreateEnum n_TransactionTypeEnum [''DEPOSIT'', ''PAYMENT'', ''WITHDRAWAL''],
    CreateEnum n_TransactionStatusEnum [''PENDING'', ''FAILED'', ''SUCCESS''],
    CreateTable n_Transaction
      [(n_id, identity_always),
       (n_userId, required (Named n_uint)),
       (n_amount, required (Named n_amount)),
       (n_status, defaulted (Named n_TransactionStatusEnum) (DefaultLit ''PENDING'')),
       (n_type, defaulted (Named n_TransactionTypeEnum) (DefaultLit ''PAYMENT'')),
       (n_createdAt, defaulted Timestamptz DefaultNow),
       (n_updatedAt, defaulted Timestamptz DefaultNow),
       (n_deletedAt, optional Timestamptz)]
      [(n_Transaction_deletedAt_order, Check (Or (IsNull (Col n_deletedAt)) (Ge (Col n_deletedAt) (Col n_createdAt)))),
       (n_Transaction_pkey, PrimaryKey [n_id])],
    AlterTable n_Transaction (AddConstraint n_Transaction_userId_fkey (ForeignKey [n_userId] n_User [n_id] Restrict)),
    CreateEnum n_BackgroundJobTypeEnum [''ORDER''],
    CreateEnum n_BackgroundJobStatusEnum [''QUEUED'', ''PROCESSING'', ''READY'', ''FAILED'', ''INTERRUPTED''],
    CreateTable n_BackgroundJob
      [(n_id, identity_always),
       (n_type, required (Named n_BackgroundJobTypeEnum)),
       (n_status, defaulted (Named n_BackgroundJobStatusEnum) (DefaultLit ''QUEUED'')),
       (n_payload, required Jsonb),
       (n_dedupeKey, required (Varchar 255)),
       (n_startedAt, optional Timestamptz),
       (n_finishedAt, optional Timestamptz),
       (n_errorMessage, optional Text),
       (n_attempts, defaulted Integer (DefaultNum 0)),
       (n_orderId, optional (Named n_uint)),
       (n_createdAt, defaulted Timestamptz DefaultNow),
       (n_updatedAt, defaulted Timestamptz DefaultNow),
       (n_deletedAt, optional Timestamptz)]
      [(n_BackgroundJob_dedupeKey_key, Unique [n_dedupeKey]),
       (n_BackgroundJob_dedupeKey_notBlank, Check (Ne (Btrim (Col n_dedupeKey)) (Lit ''''))),
       (n_BackgroundJob_attempts_nonneg, Check (Ge (Col n_attempts) (Num 0))),
       (n_BackgroundJob_deletedAt_order, Check (Or (IsNull (Col n_deletedAt)) (Ge (Col n_deletedAt) (Col n_createdAt)))),
       (n_BackgroundJob_pkey, PrimaryKey [n_id])],
    AlterTable n_BackgroundJob (AddConstraint n_BackgroundJob_orderId_fkey (ForeignKey [n_orderId] n_Order [n_id] Restrict))]
  @ map (\<lambda>table. CreateTrigger table table n_setUpdatedAt) [n_Transaction, n_BackgroundJob]"

definition AddQuantityTransactionsBackgroundJobs_down :: "statement list" where
  "AddQuantityTransactionsBackgroundJobs_down = [
    DropTable n_BackgroundJob,
    DropEnum n_BackgroundJobStatusEnum,
    DropEnum n_BackgroundJobTypeEnum,
    DropTable n_Transaction,
    DropEnum n_TransactionStatusEnum,
    DropEnum n_TransactionTypeEnum,
    AlterTable n_ProductOffer (DropConstraint n_ProductOffer_quantity_nonneg),
    AlterTable n_ProductOffer (DropColumn n_quantity)]"

subsection \<open>AddJobQueueProcessing\<close>

definition AddJobQueueProcessing_up :: "statement list" where
  "AddJobQueueProcessing_up = [
    AlterTable n_BackgroundJob (AddColumn n_processedCount (defaulted Integer (DefaultNum 0))),
    AlterTable n_BackgroundJob (AddConstraint n_BackgroundJob_processedCount_nonneg (Check (Ge (Col n_processedCount) (Num 0)))),
    AlterTable n_BackgroundJob (AddColumn n_processedBy (optional (Varchar 64))),
    CreateIndex n_BackgroundJob_queue_idx n_BackgroundJob [n_type, n_createdAt] (Some (Eq (Col n_status) (Lit ''QUEUED'')))]"

definition AddJobQueueProcessing_down :: "statement list" where
  "AddJobQueueProcessing_down = [
    DropIndex n_BackgroundJob_queue_idx,
    AlterTable n_BackgroundJob (DropColumn n_processedBy),
    AlterTable n_BackgroundJob (DropConstraint n_BackgroundJob_processedCount_nonneg),
    AlterTable n_BackgroundJob (DropColumn n_processedCount)]"

subsection \<open>SplitProductVariantSellerOffer\<close>

definition SplitProductVariantSellerOffer_up :: "statement list" where
  "SplitProductVariantSellerOffer_up = [
    CreateTable n_Seller
      [(n_id, identity_always),
       (n_userId, required (Named n_uint)),
       (n_createdAt, defaulted Timestamptz DefaultNow),
       (n_updatedAt, defaulted Timestamptz DefaultNow),
       (n_deletedAt, optional Timestamptz)]
      [(n_Seller_userId_key, Unique [n_userId]),
       (n_Seller_deletedAt_order, Check (Or (IsNull (Col n_deletedAt)) (Ge (Col n_deletedAt) (Col n_createdAt)))),
       (n_Seller_pkey, PrimaryKey [n_id])],
    AlterTable n_Seller (AddConstraint n_Seller_userId_fkey (ForeignKey [n_userId] n_User [n_id] Restrict)),
    CreateTrigger n_Seller n_Seller n_setUpdatedAt,
    Data Insert n_Seller [n_userId] [(n_ProductOffer, [n_sellerId])] [],
    CreateTable n_ProductVariant
      [(n_id, identity_always),
       (n_productId, required (Named n_uint)),
       (n_sku, required (Varchar 64)),
       (n_barcode, optional (Varchar 14)),
       (n_slug, required (Varchar 120)),
       (n_createdAt, defaulted Timestamptz DefaultNow),
       (n_updatedAt, defaulted Timestamptz DefaultNow),
       (n_deletedAt, optional Timestamptz)]
      [(n_ProductVariant_sku_key, Unique [n_sku]),
       (n_ProductVariant_barcode_key, Unique [n_barcode]),
       (n_ProductVariant_slug_key, Unique [n_slug]),
       (n_ProductVariant_sku_notBlank, Check (Ne (Btrim (Col n_sku)) (Lit ''''))),
       (n_ProductVariant_slug_format, Check (Matches (Col n_slug) re_slug)),
       (n_ProductVariant_barcode_format, Check (Or (IsNull (Col n_barcode)) (Matches (Col n_barcode) re_barcode))),
       (n_ProductVariant_deletedAt_order, Check (Or (IsNull (Col n_deletedAt)) (Ge (Col n_deletedAt) (Col n_createdAt)))),
       (n_ProductVariant_pkey, PrimaryKey [n_id])],
    AlterTable n_ProductVariant (AddConstraint n_ProductVariant_productId_fkey (ForeignKey [n_productId] n_Product [n_id] Cascade)),
    CreateIndex n_ProductVariant_productId_idx n_ProductVariant [n_productId] None,
    CreateTrigger n_ProductVariant n_ProductVariant n_setUpdatedAt,
    Data Insert n_ProductVariant [n_productId, n_sku, n_slug] [(n_ProductOffer, [n_productId, n_id]), (n_Product, [n_slug, n_id])] [],
    AlterTable n_ProductOffer (RenameTable n_SellerOffer),
    AlterTable n_SellerOffer (RenameColumn n_sku n_sellerSku),
    AlterTable n_SellerOffer (RenameTrigger n_ProductOffer n_SellerOffer),
    AlterTable n_SellerOffer (RenameConstraint n_ProductOffer_pkey n_SellerOffer_pkey),
    AlterTable n_SellerOffer (RenameConstraint n_ProductOffer_sellerId_sku n_SellerOffer_sellerId_sellerSku),
    AlterTable n_SellerOffer (RenameConstraint n_ProductOffer_sku_notBlank n_SellerOffer_sellerSku_notBlank),
    AlterTable n_SellerOffer (RenameConstraint n_ProductOffer_discount_le n_SellerOffer_discount_le),
    AlterTable n_SellerOffer (RenameConstraint n_ProductOffer_quantity_nonneg n_SellerOffer_quantity_nonneg),
    AlterTable n_SellerOffer (RenameConstraint n_ProductOffer_deletedAt_ord n_SellerOffer_deletedAt_ord),
    AlterTable n_SellerOffer (AddColumn n_variantId (optional (Named n_uint))),
    Data Update n_SellerOffer [n_variantId] [(n_ProductVariant, [n_id, n_sku]), (n_SellerOffer, [n_id])] [],
    AlterTable n_SellerOffer (SetNotNull n_variantId),
    AlterTable n_SellerOffer (AddConstraint n_SellerOffer_variantId_fkey (ForeignKey [n_variantId] n_ProductVariant [n_id] Restrict)),
    AlterTable n_SellerOffer (DropConstraint n_ProductOffer_sellerId_fkey),
    Data Update n_SellerOffer [n_sellerId] [(n_Seller, [n_id, n_userId]), (n_SellerOffer, [n_sellerId])] [],
    AlterTable n_SellerOffer (AddConstraint n_SellerOffer_sellerId_fkey (ForeignKey [n_sellerId] n_Seller [n_id] Restrict)),
    AlterTable n_SellerOffer (AddConstraint n_SellerOffer_sellerId_variantId (Unique [n_sellerId, n_variantId])),
    AlterTable n_SellerOffer (DropConstraint n_ProductOffer_productId_fkey),
    AlterTable n_SellerOffer (DropColumn n_productId),
    AlterTable n_OrderProduct (DropConstraint n_OrderProduct_productOfferId_fkey),
    AlterTable n_OrderProduct (RenameColumn n_productOfferId n_offerId),
    AlterTable n_OrderProduct (AddConstraint n_OrderProduct_offerId_fkey (ForeignKey [n_offerId] n_SellerOffer [n_id] Restrict)),
    AlterTable n_Product (DropConstraint n_Product_slug_format),
    AlterTable n_Product (DropConstraint n_Product_slug_key),
    AlterTable n_Product (DropColumn n_slug)]"

definition SplitProductVariantSellerOffer_down :: "statement list" where
  "SplitProductVariantSellerOffer_down = [
    AlterTable n_Product (AddColumn n_slug (optional (Varchar 120))),
    Data Update n_Product [n_slug] [(n_ProductVariant, [n_productId, n_slug]), (n_Product, [n_id])] [],
    Data Update n_Product [n_slug] [(n_Product, [n_id, n_slug])] [],
    AlterTable n_Product (SetNotNull n_slug),
    AlterTable n_Product (AddConstraint n_Product_slug_key (Unique [n_slug])),
    AlterTable n_Product (AddConstraint n_Product_slug_format (Check (Matches (Col n_slug) re_slug))),
    AlterTable n_OrderProduct (DropConstraint n_OrderProduct_offerId_fkey),
    AlterTable n_OrderProduct (RenameColumn n_offerId n_productOfferId),
    AlterTable n_SellerOffer (AddColumn n_productId (optional (Named n_uint))),
    Data Update n_SellerOffer [n_productId] [(n_ProductVariant, [n_productId, n_id]), (n_SellerOffer, [n_variantId])] [],
    AlterTable n_SellerOffer (SetNotNull n_productId),
    AlterTable n_SellerOffer (DropConstraint n_SellerOffer_sellerId_variantId),
    AlterTable n_SellerOffer (DropConstraint n_SellerOffer_variantId_fkey),
    AlterTable n_SellerOffer (DropColumn n_variantId),
    AlterTable n_SellerOffer (DropConstraint n_SellerOffer_sellerId_fkey),
    Data Update n_SellerOffer [n_sellerId] [(n_Seller, [n_id, n_userId]), (n_SellerOffer, [n_sellerId])] [],
    AlterTable n_SellerOffer (RenameConstraint n_SellerOffer_deletedAt_ord n_ProductOffer_deletedAt_ord),
    AlterTable n_SellerOffer (RenameConstraint n_SellerOffer_quantity_nonneg n_ProductOffer_quantity_nonneg),
    AlterTable n_SellerOffer (RenameConstraint n_SellerOffer_discount_le n_ProductOffer_discount_le),
    AlterTable n_SellerOffer (RenameConstraint n_SellerOffer_sellerSku_notBlank n_ProductOffer_sku_notBlank),
    AlterTable n_SellerOffer (RenameConstraint n_SellerOffer_sellerId_sellerSku n_ProductOffer_sellerId_sku),
    AlterTable n_SellerOffer (RenameConstraint n_SellerOffer_pkey n_ProductOffer_pkey),
    AlterTable n_SellerOffer (RenameTrigger n_SellerOffer n_ProductOffer),
    AlterTable n_SellerOffer (RenameColumn n_sellerSku n_sku),
    AlterTable n_SellerOffer (RenameTable n_ProductOffer),
    AlterTable n_ProductOffer (AddConstraint n_ProductOffer_productId_fkey (ForeignKey [n_productId] n_Product [n_id] Restrict)),
    AlterTable n_ProductOffer (AddConstraint n_ProductOffer_sellerId_fkey (ForeignKey [n_sellerId] n_User [n_id] Restrict)),
    AlterTable n_OrderProduct (AddConstraint n_OrderProduct_productOfferId_fkey (ForeignKey [n_productOfferId] n_ProductOffer [n_id] Restrict)),
    DropTable n_ProductVariant,
    DropTable n_Seller]"

subsection \<open>AddEmailInbox\<close>

definition AddEmailInbox_up :: "statement list" where
  "AddEmailInbox_up = [
    CreateTable n_EmailInbox
      [(n_messageId, required Uuid),
       (n_createdAt, defaulted Timestamptz DefaultNow),
       (n_updatedAt, defaulted Timestamptz DefaultNow),
       (n_deletedAt, optional Timestamptz)]
      [(n_PK_7fb82f4ad6f26db8dc040c629de, PrimaryKey [n_messageId])]]"

definition AddEmailInbox_down :: "statement list" where
  "AddEmailInbox_down = [
    DropTable n_EmailInbox]"

subsection \<open>RenameEmailInboxToInbox\<close>

definition RenameEmailInboxToInbox_up :: "statement list" where
  "RenameEmailInboxToInbox_up = [
    AlterTable n_EmailInbox (RenameTable n_Inbox),
    AlterTable n_Inbox (AddColumn n_consumer (defaulted (Varchar 100) (DefaultLit ''order-email''))),
    AlterTable n_Inbox (DropDefault n_consumer),
    AlterTable n_Inbox (DropConstraint n_PK_7fb82f4ad6f26db8dc040c629de),
    AlterTable n_Inbox (AddConstraint n_Inbox_pkey (PrimaryKey [n_consumer, n_messageId]))]"

definition RenameEmailInboxToInbox_down :: "statement list" where
  "RenameEmailInboxToInbox_down = [
    Data Delete n_Inbox [] [(n_Inbox, [n_consumer])] [],
    AlterTable n_Inbox (DropConstraint n_Inbox_pkey),
    AlterTable n_Inbox (DropColumn n_consumer),
    AlterTable n_Inbox (AddConstraint n_PK_7fb82f4ad6f26db8dc040c629de (PrimaryKey [n_messageId])),
    AlterTable n_Inbox (RenameTable n_EmailInbox)]"

subsection \<open>AddStockReservation\<close>

definition AddStockReservation_up :: "statement list" where
  "AddStockReservation_up = [
    CreateTable n_StockReservation
      [(n_orderPublicId, required Uuid),
       (n_offerId, required Integer),
       (n_quantity, required Integer),
       (n_createdAt, defaulted Timestamptz DefaultNow),
       (n_updatedAt, defaulted Timestamptz DefaultNow)]
      [(n_StockReservation_quantity_positive, Check (Gt (Col n_quantity) (Num 0))),
       (n_StockReservation_pkey, PrimaryKey [n_orderPublicId, n_offerId])],
    AlterTable n_StockReservation (AddConstraint n_StockReservation_offerId_fkey (ForeignKey [n_offerId] n_SellerOffer [n_id] Restrict)),
    CreateTrigger n_StockReservation n_StockReservation n_setUpdatedAt]"

definition AddStockReservation_down :: "statement list" where
  "AddStockReservation_down = [
    DropTrigger n_StockReservation n_StockReservation,
    AlterTable n_StockReservation (DropConstraint n_StockReservation_offerId_fkey),
    DropTable n_StockReservation]"

subsection \<open>AddReservedStock\<close>

definition AddReservedStock_up :: "statement list" where
  "AddReservedStock_up = [
    CreateEnum n_StockReservationStatusEnum [''reserved'', ''confirmed'', ''fulfilled'', ''released''],
    AlterTable n_StockReservation (AddColumn n_status (defaulted (Named n_StockReservationStatusEnum) (DefaultLit ''reserved''))),
    Data Update n_StockReservation [n_status] [] [(n_StockReservationStatusEnum, ''confirmed'')],
    AlterTable n_SellerOffer (AddColumn n_reservedQuantity (defaulted Integer (DefaultNum 0))),
    Data Update n_SellerOffer [n_quantity, n_reservedQuantity] [(n_SellerOffer, [n_quantity, n_id]), (n_StockReservation, [n_offerId,
        n_quantity, n_status])] [(n_StockReservationStatusEnum, ''reserved''), (n_StockReservationStatusEnum, ''confirmed'')],
    AlterTable n_SellerOffer (AddConstraint n_SellerOffer_reserved_range (Check (And (Ge (Col n_reservedQuantity) (Num 0)) (Le
        (Col n_reservedQuantity) (Col n_quantity)))))]"

definition AddReservedStock_down :: "statement list" where
  "AddReservedStock_down = [
    AlterTable n_SellerOffer (DropConstraint n_SellerOffer_reserved_range),
    Data Update n_SellerOffer [n_quantity] [(n_SellerOffer, [n_quantity, n_reservedQuantity])] [],
    AlterTable n_SellerOffer (DropColumn n_reservedQuantity),
    AlterTable n_StockReservation (DropColumn n_status),
    DropEnum n_StockReservationStatusEnum]"

subsection \<open>AddRefundTransactionType\<close>

definition AddRefundTransactionType_up :: "statement list" where
  "AddRefundTransactionType_up = [
    AddEnumValue n_TransactionTypeEnum ''REFUND'']"

definition AddRefundTransactionType_down :: "statement list" where
  "AddRefundTransactionType_down = [
    RenameEnum n_TransactionTypeEnum n_TransactionTypeEnum_old,
    CreateEnum n_TransactionTypeEnum [''DEPOSIT'', ''PAYMENT'', ''WITHDRAWAL''],
    AlterTable n_Transaction (DropDefault n_type),
    AlterTable n_Transaction (SetType n_type (Named n_TransactionTypeEnum)),
    AlterTable n_Transaction (SetDefault n_type (DefaultLit ''PAYMENT'')),
    DropEnum n_TransactionTypeEnum_old]"

subsection \<open>AddAccountInbox\<close>

definition AddAccountInbox_up :: "statement list" where
  "AddAccountInbox_up = [
    CreateTable n_AccountInbox
      [(n_consumer, required (Varchar 100)),
       (n_messageId, required Uuid),
       (n_createdAt, defaulted Timestamptz DefaultNow),
       (n_updatedAt, defaulted Timestamptz DefaultNow),
       (n_deletedAt, optional Timestamptz)]
      [(n_AccountInbox_pkey, PrimaryKey [n_consumer, n_messageId])]]"

definition AddAccountInbox_down :: "statement list" where
  "AddAccountInbox_down = [
    DropTable n_AccountInbox]"

subsection \<open>AddAccountBalance\<close>

definition AddAccountBalance_up :: "statement list" where
  "AddAccountBalance_up = [
    CreateTable n_Account
      [(n_customerId, required Integer),
       (n_balance, defaulted (Numeric 12 2) (DefaultLit ''0'')),
       (n_createdAt, defaulted Timestamptz DefaultNow),
       (n_updatedAt, defaulted Timestamptz DefaultNow)]
      [(n_Account_pkey, PrimaryKey [n_customerId])],
    CreateTrigger n_Account n_Account n_setUpdatedAt,
    Data Insert n_Account [n_customerId, n_balance] [(n_Transaction, [n_userId, n_type, n_amount, n_status,
        n_deletedAt])] [(n_TransactionStatusEnum, ''SUCCESS'')]]"

definition AddAccountBalance_down :: "statement list" where
  "AddAccountBalance_down = [
    DropTrigger n_Account n_Account,
    DropTable n_Account]"

subsection \<open>LinkTransactionToAccount\<close>

definition LinkTransactionToAccount_up :: "statement list" where
  "LinkTransactionToAccount_up = [
    AlterTable n_Transaction (DropConstraint n_Transaction_userId_fkey),
    AlterTable n_Transaction (RenameColumn n_userId n_customerId),
    CreateIndex n_Transaction_customerId_idx n_Transaction [n_customerId] None,
    AlterTable n_Transaction (AddConstraint n_Transaction_customerId_fkey (ForeignKey [n_customerId] n_Account [n_customerId] Restrict))]"

definition LinkTransactionToAccount_down :: "statement list" where
  "LinkTransactionToAccount_down = [
    AlterTable n_Transaction (DropConstraint n_Transaction_customerId_fkey),
    DropIndex n_Transaction_customerId_idx,
    AlterTable n_Transaction (RenameColumn n_customerId n_userId),
    AlterTable n_Transaction (AddConstraint n_Transaction_userId_fkey (ForeignKey [n_userId] n_User [n_id] Restrict))]"

subsection \<open>DropInboxAndBackgroundJob\<close>

definition DropInboxAndBackgroundJob_up :: "statement list" where
  "DropInboxAndBackgroundJob_up = [
    DropTable n_Inbox,
    DropTable n_BackgroundJob,
    DropEnum n_BackgroundJobStatusEnum,
    DropEnum n_BackgroundJobTypeEnum]"

definition DropInboxAndBackgroundJob_down :: "statement list" where
  "DropInboxAndBackgroundJob_down = [
    CreateEnum n_BackgroundJobTypeEnum [''ORDER''],
    CreateEnum n_BackgroundJobStatusEnum [''QUEUED'', ''PROCESSING'', ''READY'', ''FAILED'', ''INTERRUPTED''],
    CreateTable n_BackgroundJob
      [(n_id, identity_always),
       (n_type, required (Named n_BackgroundJobTypeEnum)),
       (n_status, defaulted (Named n_BackgroundJobStatusEnum) (DefaultLit ''QUEUED'')),
       (n_payload, required Jsonb),
       (n_dedupeKey, required (Varchar 255)),
       (n_startedAt, optional Timestamptz),
       (n_finishedAt, optional Timestamptz),
       (n_errorMessage, optional Text),
       (n_attempts, defaulted Integer (DefaultNum 0)),
       (n_orderId, optional (Named n_uint)),
       (n_createdAt, defaulted Timestamptz DefaultNow),
       (n_updatedAt, defaulted Timestamptz DefaultNow),
       (n_deletedAt, optional Timestamptz),
       (n_processedCount, defaulted Integer (DefaultNum 0)),
       (n_processedBy, optional (Varchar 64))]
      [(n_BackgroundJob_dedupeKey_key, Unique [n_dedupeKey]),
       (n_BackgroundJob_dedupeKey_notBlank, Check (Ne (Btrim (Col n_dedupeKey)) (Lit ''''))),
       (n_BackgroundJob_attempts_nonneg, Check (Ge (Col n_attempts) (Num 0))),
       (n_BackgroundJob_processedCount_nonneg, Check (Ge (Col n_processedCount) (Num 0))),
       (n_BackgroundJob_deletedAt_order, Check (Or (IsNull (Col n_deletedAt)) (Ge (Col n_deletedAt) (Col n_createdAt)))),
       (n_BackgroundJob_pkey, PrimaryKey [n_id])],
    CreateIndex n_BackgroundJob_queue_idx n_BackgroundJob [n_type, n_createdAt] (Some (Eq (Col n_status) (Lit ''QUEUED''))),
    CreateTrigger n_BackgroundJob n_BackgroundJob n_setUpdatedAt,
    AlterTable n_BackgroundJob (AddConstraint n_BackgroundJob_orderId_fkey (ForeignKey [n_orderId] n_Order [n_id] Restrict)),
    CreateTable n_Inbox
      [(n_consumer, required (Varchar 100)),
       (n_messageId, required Uuid),
       (n_createdAt, defaulted Timestamptz DefaultNow),
       (n_updatedAt, defaulted Timestamptz DefaultNow),
       (n_deletedAt, optional Timestamptz)]
      [(n_Inbox_pkey, PrimaryKey [n_consumer, n_messageId])]]"

subsection \<open>OrderOwnsUserAndContact\<close>

definition OrderOwnsUserAndContact_up :: "statement list" where
  "OrderOwnsUserAndContact_up = [
    Data Guard n_OrderRecipient [] [(n_OrderRecipient, [n_id]), (n_Order, [n_orderRecipientId])] [],
    AlterTable n_Order (AddColumn n_userId (optional (Named n_uint))),
    AlterTable n_Order (DisableTrigger n_Order),
    Data Update n_Order [n_userId] [(n_OrderRecipient, [n_buyerId, n_id]), (n_Order, [n_orderRecipientId])] [],
    AlterTable n_Order (EnableTrigger n_Order),
    AlterTable n_Order (SetNotNull n_userId),
    AlterTable n_OrderRecipient (AddColumn n_phoneCountryCode (optional (Named n_CountryCodeEnum))),
    AlterTable n_OrderRecipient (AddColumn n_phoneRawNumber (optional (Varchar 32))),
    AlterTable n_OrderRecipient (AddColumn n_phoneFullNumber (optional (Varchar 16))),
    AlterTable n_OrderRecipient (AddColumn n_phoneNationalNumber (optional (Varchar 15))),
    AlterTable n_OrderRecipient (AddColumn n_addressLine (optional (Varchar 255))),
    AlterTable n_OrderRecipient (AddColumn n_addressCity (optional (Varchar 100))),
    AlterTable n_OrderRecipient (AddColumn n_addressBuilding (optional (Varchar 32))),
    AlterTable n_OrderRecipient (DisableTrigger n_OrderRecipient),
    Data Update n_OrderRecipient [n_phoneCountryCode, n_phoneRawNumber, n_phoneFullNumber, n_phoneNationalNumber, n_addressLine, n_addressCity,
        n_addressBuilding] [(n_Phone, [n_countryCode, n_rawNumber, n_fullNumber, n_nationalNumber, n_id]), (n_DeliveryAddress, [n_addressLine,
            n_city, n_building, n_id]), (n_OrderRecipient, [n_phoneId, n_deliveryAddressId])] [],
    AlterTable n_OrderRecipient (EnableTrigger n_OrderRecipient),
    AlterTable n_OrderRecipient (SetNotNull n_phoneCountryCode),
    AlterTable n_OrderRecipient (SetNotNull n_phoneRawNumber),
    AlterTable n_OrderRecipient (SetNotNull n_phoneFullNumber),
    AlterTable n_OrderRecipient (SetNotNull n_phoneNationalNumber),
    AlterTable n_OrderRecipient (SetNotNull n_addressLine),
    AlterTable n_OrderRecipient (SetNotNull n_addressCity),
    AlterTable n_OrderRecipient (AddConstraint n_OrderRecipient_phoneFullNumber_e164 (Check (Matches (Col n_phoneFullNumber) re_e164))),
    AlterTable n_OrderRecipient (AddConstraint n_OrderRecipient_phoneNationalNumber_fmt (Check (Matches (Col n_phoneNationalNumber) re_national))),
    AlterTable n_OrderRecipient (DropConstraint n_OrderRecipient_buyerId_fkey),
    AlterTable n_OrderRecipient (DropConstraint n_OrderRecipient_phoneId_fkey),
    AlterTable n_OrderRecipient (DropConstraint n_OrderRecipient_deliveryAddressId_fkey),
    AlterTable n_OrderRecipient (DropConstraint n_OrderRecipient_phoneId_key),
    AlterTable n_OrderRecipient (DropConstraint n_OrderRecipient_deliveryAddressId_key),
    Data Delete n_Phone [] [(n_Phone, [n_id]), (n_OrderRecipient, [n_phoneId]), (n_Identity, [n_phoneId])] [],
    Data Delete n_DeliveryAddress [] [(n_DeliveryAddress, [n_id]), (n_OrderRecipient, [n_deliveryAddressId]), (n_User, [n_deliveryAddressId])] [],
    AlterTable n_OrderRecipient (DropColumn n_buyerId),
    AlterTable n_OrderRecipient (DropColumn n_phoneId),
    AlterTable n_OrderRecipient (DropColumn n_deliveryAddressId)]"

definition OrderOwnsUserAndContact_down :: "statement list" where
  "OrderOwnsUserAndContact_down = [
    AlterTable n_Phone (AddColumn n_recipientId (optional Integer)),
    AlterTable n_DeliveryAddress (AddColumn n_recipientId (optional Integer)),
    Data Insert n_Phone [n_countryCode, n_rawNumber, n_fullNumber, n_nationalNumber, n_createdAt, n_updatedAt,
        n_recipientId] [(n_OrderRecipient, [n_phoneCountryCode, n_phoneRawNumber, n_phoneFullNumber, n_phoneNationalNumber, n_createdAt, n_id])] [],
    Data Insert n_DeliveryAddress [n_addressLine, n_city, n_building, n_createdAt, n_updatedAt, n_recipientId] [(n_OrderRecipient,
        [n_addressLine, n_addressCity, n_addressBuilding, n_createdAt, n_id])] [],
    AlterTable n_OrderRecipient (AddColumn n_buyerId (optional (Named n_uint))),
    AlterTable n_OrderRecipient (AddColumn n_phoneId (optional (Named n_uint))),
    AlterTable n_OrderRecipient (AddColumn n_deliveryAddressId (optional (Named n_uint))),
    AlterTable n_OrderRecipient (DisableTrigger n_OrderRecipient),
    Data Update n_OrderRecipient [n_buyerId, n_phoneId, n_deliveryAddressId] [(n_Order, [n_userId, n_orderRecipientId]), (n_Phone, [n_id,
        n_recipientId]), (n_DeliveryAddress, [n_id, n_recipientId]), (n_OrderRecipient, [n_id])] [],
    AlterTable n_OrderRecipient (EnableTrigger n_OrderRecipient),
    AlterTable n_OrderRecipient (SetNotNull n_buyerId),
    AlterTable n_OrderRecipient (SetNotNull n_phoneId),
    AlterTable n_OrderRecipient (SetNotNull n_deliveryAddressId),
    AlterTable n_OrderRecipient (AddConstraint n_OrderRecipient_phoneId_key (Unique [n_phoneId])),
    AlterTable n_OrderRecipient (AddConstraint n_OrderRecipient_deliveryAddressId_key (Unique [n_deliveryAddressId])),
    AlterTable n_OrderRecipient (AddConstraint n_OrderRecipient_buyerId_fkey (ForeignKey [n_buyerId] n_User [n_id] Restrict)),
    AlterTable n_OrderRecipient (AddConstraint n_OrderRecipient_phoneId_fkey (ForeignKey [n_phoneId] n_Phone [n_id] Restrict)),
    AlterTable n_OrderRecipient (AddConstraint n_OrderRecipient_deliveryAddressId_fkey
        (ForeignKey [n_deliveryAddressId] n_DeliveryAddress [n_id] Restrict)),
    AlterTable n_Phone (DropColumn n_recipientId),
    AlterTable n_DeliveryAddress (DropColumn n_recipientId),
    AlterTable n_OrderRecipient (DropConstraint n_OrderRecipient_phoneNationalNumber_fmt),
    AlterTable n_OrderRecipient (DropConstraint n_OrderRecipient_phoneFullNumber_e164),
    AlterTable n_OrderRecipient (DropColumn n_addressBuilding),
    AlterTable n_OrderRecipient (DropColumn n_addressCity),
    AlterTable n_OrderRecipient (DropColumn n_addressLine),
    AlterTable n_OrderRecipient (DropColumn n_phoneNationalNumber),
    AlterTable n_OrderRecipient (DropColumn n_phoneFullNumber),
    AlterTable n_OrderRecipient (DropColumn n_phoneRawNumber),
    AlterTable n_OrderRecipient (DropColumn n_phoneCountryCode),
    AlterTable n_Order (DropColumn n_userId)]"

subsection \<open>IdentityOwnsLoginPhone\<close>

definition IdentityOwnsLoginPhone_up :: "statement list" where
  "IdentityOwnsLoginPhone_up = [
    AlterTable n_Identity (AddColumn n_loginPhoneCountryCode (optional (Named n_CountryCodeEnum))),
    AlterTable n_Identity (AddColumn n_loginPhoneRawNumber (optional (Varchar 32))),
    AlterTable n_Identity (AddColumn n_loginPhoneFullNumber (optional (Varchar 16))),
    AlterTable n_Identity (AddColumn n_loginPhoneNationalNumber (optional (Varchar 15))),
    AlterTable n_Identity (DisableTrigger n_Identity),
    Data Update n_Identity [n_loginPhoneCountryCode, n_loginPhoneRawNumber, n_loginPhoneFullNumber, n_loginPhoneNationalNumber] [(n_Phone,
        [n_countryCode, n_rawNumber, n_fullNumber, n_nationalNumber, n_id]), (n_Identity, [n_phoneId])] [],
    AlterTable n_Identity (EnableTrigger n_Identity),
    AlterTable n_Identity (AddConstraint n_Identity_loginPhoneFullNumber_e164 (Check (Matches (Col n_loginPhoneFullNumber) re_e164))),
    AlterTable n_Identity (AddConstraint n_Identity_loginPhoneNationalNumber_fmt (Check (Matches (Col n_loginPhoneNationalNumber) re_national))),
    AlterTable n_Identity (DropConstraint n_Identity_login_present),
    AlterTable n_Identity (AddConstraint n_Identity_login_present (Check (Or (IsNotNull (Col n_email)) (IsNotNull (Col n_loginPhoneFullNumber))))),
    AlterTable n_Identity (DropConstraint n_Identity_phoneId_fkey),
    AlterTable n_Identity (DropConstraint n_Identity_phoneId_key),
    AlterTable n_Identity (DropColumn n_phoneId),
    DropTable n_Phone]"

definition IdentityOwnsLoginPhone_down :: "statement list" where
  "IdentityOwnsLoginPhone_down = [
    CreateTable n_Phone
      [(n_id, identity_always),
       (n_countryCode, required (Named n_CountryCodeEnum)),
       (n_rawNumber, required (Varchar 32)),
       (n_fullNumber, required (Varchar 16)),
       (n_nationalNumber, required (Varchar 15)),
       (n_createdAt, defaulted Timestamptz DefaultNow),
       (n_updatedAt, defaulted Timestamptz DefaultNow),
       (n_deletedAt, optional Timestamptz)]
      [(n_Phone_fullNumber_e164, Check (Matches (Col n_fullNumber) re_e164)),
       (n_Phone_nationalNumber_fmt, Check (Matches (Col n_nationalNumber) re_national)),
       (n_Phone_deletedAt_order, Check (Or (IsNull (Col n_deletedAt)) (Ge (Col n_deletedAt) (Col n_createdAt)))),
       (n_Phone_pkey, PrimaryKey [n_id])],
    CreateTrigger n_Phone n_Phone n_setUpdatedAt,
    AlterTable n_Phone (AddColumn n_identityId (optional Integer)),
    Data Insert n_Phone [n_countryCode, n_rawNumber, n_fullNumber, n_nationalNumber, n_createdAt, n_updatedAt, n_identityId] [(n_Identity,
        [n_loginPhoneCountryCode, n_loginPhoneRawNumber, n_loginPhoneFullNumber, n_loginPhoneNationalNumber, n_createdAt, n_id])] [],
    AlterTable n_Identity (AddColumn n_phoneId (optional (Named n_uint))),
    AlterTable n_Identity (DisableTrigger n_Identity),
    Data Update n_Identity [n_phoneId] [(n_Phone, [n_id, n_identityId]), (n_Identity, [n_id])] [],
    AlterTable n_Identity (EnableTrigger n_Identity),
    AlterTable n_Phone (DropColumn n_identityId),
    AlterTable n_Identity (AddConstraint n_Identity_phoneId_key (Unique [n_phoneId])),
    AlterTable n_Identity (AddConstraint n_Identity_phoneId_fkey (ForeignKey [n_phoneId] n_Phone [n_id] Restrict)),
    AlterTable n_Identity (DropConstraint n_Identity_login_present),
    AlterTable n_Identity (AddConstraint n_Identity_login_present (Check (Or (IsNotNull (Col n_email)) (IsNotNull (Col n_phoneId))))),
    AlterTable n_Identity (DropConstraint n_Identity_loginPhoneNationalNumber_fmt),
    AlterTable n_Identity (DropConstraint n_Identity_loginPhoneFullNumber_e164),
    AlterTable n_Identity (DropColumn n_loginPhoneNationalNumber),
    AlterTable n_Identity (DropColumn n_loginPhoneFullNumber),
    AlterTable n_Identity (DropColumn n_loginPhoneRawNumber),
    AlterTable n_Identity (DropColumn n_loginPhoneCountryCode)]"

subsection \<open>RenameDeliveryAddressToAddress\<close>

definition RenameDeliveryAddressToAddress_up :: "statement list" where
  "RenameDeliveryAddressToAddress_up = [
    AlterTable n_User (DropConstraint n_User_identityId_fkey),
    AlterTable n_DeliveryAddress (RenameTable n_Address),
    AlterTable n_Address (RenameConstraint n_DeliveryAddress_pkey n_Address_pkey),
    AlterTable n_Address (RenameConstraint n_DeliveryAddress_deletedAt_order n_Address_deletedAt_order),
    AlterTable n_Address (RenameTrigger n_DeliveryAddress n_Address),
    RenameSequence (n_DeliveryAddress, n_id) (n_Address, n_id),
    AlterTable n_User (RenameColumn n_deliveryAddressId n_addressId),
    AlterTable n_User (RenameConstraint n_User_deliveryAddressId_fkey n_User_addressId_fkey),
    AlterTable n_User (RenameConstraint n_User_deliveryAddressId_key n_User_addressId_key)]"

definition RenameDeliveryAddressToAddress_down :: "statement list" where
  "RenameDeliveryAddressToAddress_down = [
    AlterTable n_User (RenameConstraint n_User_addressId_key n_User_deliveryAddressId_key),
    AlterTable n_User (RenameConstraint n_User_addressId_fkey n_User_deliveryAddressId_fkey),
    AlterTable n_User (RenameColumn n_addressId n_deliveryAddressId),
    RenameSequence (n_Address, n_id) (n_DeliveryAddress, n_id),
    AlterTable n_Address (RenameTrigger n_Address n_DeliveryAddress),
    AlterTable n_Address (RenameConstraint n_Address_deletedAt_order n_DeliveryAddress_deletedAt_order),
    AlterTable n_Address (RenameConstraint n_Address_pkey n_DeliveryAddress_pkey),
    AlterTable n_Address (RenameTable n_DeliveryAddress),
    AlterTable n_User (AddConstraint n_User_identityId_fkey (ForeignKey [n_identityId] n_Identity [n_id] Restrict))]"

subsection \<open>RenameOrderProductToOrderLine\<close>

definition RenameOrderProductToOrderLine_up :: "statement list" where
  "RenameOrderProductToOrderLine_up = [
    AlterTable n_OrderProduct (DropConstraint n_OrderProduct_offerId_fkey),
    AlterTable n_OrderProduct (RenameTable n_OrderLine),
    AlterTable n_OrderLine (RenameConstraint n_OrderProduct_pkey n_OrderLine_pkey),
    AlterTable n_OrderLine (RenameConstraint n_OrderProduct_discount_le n_OrderLine_discount_le),
    AlterTable n_OrderLine (RenameConstraint n_OrderProduct_deletedAt_ord n_OrderLine_deletedAt_ord),
    AlterTable n_OrderLine (RenameConstraint n_OrderProduct_orderId_fkey n_OrderLine_orderId_fkey),
    AlterTable n_OrderLine (RenameTrigger n_OrderProduct n_OrderLine),
    AlterTable n_OrderLine (RenameColumn n_price n_unitPrice),
    AlterTable n_OrderLine (RenameColumn n_discountPrice n_unitDiscountPrice)]"

definition RenameOrderProductToOrderLine_down :: "statement list" where
  "RenameOrderProductToOrderLine_down = [
    AlterTable n_OrderLine (RenameColumn n_unitDiscountPrice n_discountPrice),
    AlterTable n_OrderLine (RenameColumn n_unitPrice n_price),
    AlterTable n_OrderLine (RenameTrigger n_OrderLine n_OrderProduct),
    AlterTable n_OrderLine (RenameConstraint n_OrderLine_orderId_fkey n_OrderProduct_orderId_fkey),
    AlterTable n_OrderLine (RenameConstraint n_OrderLine_deletedAt_ord n_OrderProduct_deletedAt_ord),
    AlterTable n_OrderLine (RenameConstraint n_OrderLine_discount_le n_OrderProduct_discount_le),
    AlterTable n_OrderLine (RenameConstraint n_OrderLine_pkey n_OrderProduct_pkey),
    AlterTable n_OrderLine (RenameTable n_OrderProduct),
    AlterTable n_OrderProduct (AddConstraint n_OrderProduct_offerId_fkey (ForeignKey [n_offerId] n_SellerOffer [n_id] Restrict))]"

subsection \<open>RenameOnHandQuantity\<close>

definition RenameOnHandQuantity_up :: "statement list" where
  "RenameOnHandQuantity_up = [
    AlterTable n_SellerOffer (RenameColumn n_quantity n_onHandQuantity),
    AlterTable n_SellerOffer (RenameConstraint n_SellerOffer_quantity_nonneg n_SellerOffer_onHandQuantity_nonneg),
    AlterTable n_SellerOffer (DropConstraint n_SellerOffer_variantId_fkey),
    AlterTable n_Seller (DropConstraint n_Seller_userId_fkey)]"

definition RenameOnHandQuantity_down :: "statement list" where
  "RenameOnHandQuantity_down = [
    AlterTable n_Seller (AddConstraint n_Seller_userId_fkey (ForeignKey [n_userId] n_User [n_id] Restrict)),
    AlterTable n_SellerOffer (AddConstraint n_SellerOffer_variantId_fkey (ForeignKey [n_variantId] n_ProductVariant [n_id] Restrict)),
    AlterTable n_SellerOffer (RenameConstraint n_SellerOffer_onHandQuantity_nonneg n_SellerOffer_quantity_nonneg),
    AlterTable n_SellerOffer (RenameColumn n_onHandQuantity n_quantity)]"

subsection \<open>AddIdentitySession\<close>

definition AddIdentitySession_up :: "statement list" where
  "AddIdentitySession_up = [
    AlterTable n_Identity (AddConstraint n_Identity_loginPhoneFullNumber_key (Unique [n_loginPhoneFullNumber])),
    CreateTable n_IdentitySession
      [(n_id, identity_always),
       (n_identityId, required (Named n_uint)),
       (n_familyId, required Uuid),
       (n_tokenHash, required (Character 64)),
       (n_expiresAt, required Timestamptz),
       (n_usedAt, optional Timestamptz),
       (n_revokedAt, optional Timestamptz),
       (n_createdAt, defaulted Timestamptz DefaultNow),
       (n_updatedAt, defaulted Timestamptz DefaultNow)]
      [(n_IdentitySession_tokenHash_key, Unique [n_tokenHash]),
       (n_IdentitySession_expiresAt_order, Check (Gt (Col n_expiresAt) (Col n_createdAt))),
       (n_IdentitySession_usedAt_order, Check (Or (IsNull (Col n_usedAt)) (Ge (Col n_usedAt) (Col n_createdAt)))),
       (n_IdentitySession_revokedAt_order, Check (Or (IsNull (Col n_revokedAt)) (Ge (Col n_revokedAt) (Col n_createdAt)))),
       (n_IdentitySession_pkey, PrimaryKey [n_id])],
    CreateIndex n_IdentitySession_identityId_idx n_IdentitySession [n_identityId] None,
    CreateIndex n_IdentitySession_familyId_idx n_IdentitySession [n_familyId] None,
    AlterTable n_IdentitySession (AddConstraint n_IdentitySession_identityId_fkey (ForeignKey [n_identityId] n_Identity [n_id] Cascade)),
    CreateTrigger n_IdentitySession n_IdentitySession n_setUpdatedAt]"

definition AddIdentitySession_down :: "statement list" where
  "AddIdentitySession_down = [
    DropTable n_IdentitySession,
    AlterTable n_Identity (DropConstraint n_Identity_loginPhoneFullNumber_key)]"

subsection \<open>AddIdentityPublicId\<close>

definition AddIdentityPublicId_up :: "statement list" where
  "AddIdentityPublicId_up = [
    AlterTable n_Identity (DisableTrigger n_Identity),
    AlterTable n_Identity (AddColumn n_publicId (defaulted Uuid DefaultUuid)),
    AlterTable n_Identity (EnableTrigger n_Identity),
    AlterTable n_Identity (AddConstraint n_Identity_publicId_key (Unique [n_publicId]))]"

definition AddIdentityPublicId_down :: "statement list" where
  "AddIdentityPublicId_down = [
    AlterTable n_Identity (DropConstraint n_Identity_publicId_key),
    AlterTable n_Identity (DropColumn n_publicId)]"

subsection \<open>AddPublicIds\<close>

definition AddPublicIds_up :: "statement list" where
  "AddPublicIds_up = [
    AlterTable n_User (AddColumn n_publicId (defaulted Uuid DefaultUuid)),
    AlterTable n_User (AddConstraint n_User_publicId_key (Unique [n_publicId])),
    AlterTable n_Address (AddColumn n_publicId (defaulted Uuid DefaultUuid)),
    AlterTable n_Address (AddConstraint n_Address_publicId_key (Unique [n_publicId])),
    AlterTable n_Seller (AddColumn n_publicId (defaulted Uuid DefaultUuid)),
    AlterTable n_Seller (AddConstraint n_Seller_publicId_key (Unique [n_publicId])),
    AlterTable n_SellerOffer (AddColumn n_publicId (defaulted Uuid DefaultUuid)),
    AlterTable n_SellerOffer (AddConstraint n_SellerOffer_publicId_key (Unique [n_publicId])),
    AlterTable n_Product (AddColumn n_publicId (defaulted Uuid DefaultUuid)),
    AlterTable n_Product (AddConstraint n_Product_publicId_key (Unique [n_publicId])),
    AlterTable n_ProductVariant (AddColumn n_publicId (defaulted Uuid DefaultUuid)),
    AlterTable n_ProductVariant (AddConstraint n_ProductVariant_publicId_key (Unique [n_publicId])),
    AlterTable n_Category (AddColumn n_publicId (defaulted Uuid DefaultUuid)),
    AlterTable n_Category (AddConstraint n_Category_publicId_key (Unique [n_publicId])),
    AlterTable n_Brand (AddColumn n_publicId (defaulted Uuid DefaultUuid)),
    AlterTable n_Brand (AddConstraint n_Brand_publicId_key (Unique [n_publicId])),
    AlterTable n_Transaction (AddColumn n_publicId (defaulted Uuid DefaultUuid)),
    AlterTable n_Transaction (AddConstraint n_Transaction_publicId_key (Unique [n_publicId]))]"

definition AddPublicIds_down :: "statement list" where
  "AddPublicIds_down = [
    AlterTable n_Transaction (DropConstraint n_Transaction_publicId_key),
    AlterTable n_Transaction (DropColumn n_publicId),
    AlterTable n_Brand (DropConstraint n_Brand_publicId_key),
    AlterTable n_Brand (DropColumn n_publicId),
    AlterTable n_Category (DropConstraint n_Category_publicId_key),
    AlterTable n_Category (DropColumn n_publicId),
    AlterTable n_ProductVariant (DropConstraint n_ProductVariant_publicId_key),
    AlterTable n_ProductVariant (DropColumn n_publicId),
    AlterTable n_Product (DropConstraint n_Product_publicId_key),
    AlterTable n_Product (DropColumn n_publicId),
    AlterTable n_SellerOffer (DropConstraint n_SellerOffer_publicId_key),
    AlterTable n_SellerOffer (DropColumn n_publicId),
    AlterTable n_Seller (DropConstraint n_Seller_publicId_key),
    AlterTable n_Seller (DropColumn n_publicId),
    AlterTable n_Address (DropConstraint n_Address_publicId_key),
    AlterTable n_Address (DropColumn n_publicId),
    AlterTable n_User (DropConstraint n_User_publicId_key),
    AlterTable n_User (DropColumn n_publicId)]"

subsection \<open>AddUserContact\<close>

definition AddUserContact_up :: "statement list" where
  "AddUserContact_up = [
    AlterTable n_User (AddColumn n_email (optional Citext)),
    AlterTable n_User (AddColumn n_phoneNumber (optional (Varchar 16))),
    AlterTable n_User (DisableTrigger n_User),
    Data Update n_User [n_email, n_phoneNumber] [(n_Identity, [n_email, n_loginPhoneFullNumber, n_id]), (n_User, [n_identityId])] [],
    AlterTable n_User (EnableTrigger n_User),
    AlterTable n_User (AddConstraint n_User_email_format (Check (Or (IsNull (Col n_email)) (Matches (Col n_email) re_email)))),
    AlterTable n_User (AddConstraint n_User_phoneNumber_e164 (Check (Or (IsNull (Col n_phoneNumber)) (Matches (Col n_phoneNumber) re_e164))))]"

definition AddUserContact_down :: "statement list" where
  "AddUserContact_down = [
    AlterTable n_User (DropConstraint n_User_phoneNumber_e164),
    AlterTable n_User (DropConstraint n_User_email_format),
    AlterTable n_User (DropColumn n_phoneNumber),
    AlterTable n_User (DropColumn n_email)]"

subsection \<open>AddIdentityOutbox\<close>

definition AddIdentityOutbox_up :: "statement list" where
  "AddIdentityOutbox_up = [
    CreateTable n_IdentityOutbox
      [(n_id, required Uuid),
       (n_topic, required (Varchar 249)),
       (n_aggregateType, required (Varchar 64)),
       (n_aggregateId, required (Varchar 64)),
       (n_type, required (Varchar 128)),
       (n_payload, required Jsonb),
       (n_createdAt, defaulted Timestamptz DefaultNow),
       (n_publishedAt, optional Timestamptz),
       (n_attempts, defaulted Integer (DefaultNum 0)),
       (n_lastError, optional Text)]
      [(n_IdentityOutbox_attempts_nonneg, Check (Ge (Col n_attempts) (Num 0))),
       (n_IdentityOutbox_publishedAt_order, Check (Or (IsNull (Col n_publishedAt)) (Ge (Col n_publishedAt) (Col n_createdAt)))),
       (n_IdentityOutbox_pkey, PrimaryKey [n_id])],
    CreateIndex n_IdentityOutbox_unpublished_idx n_IdentityOutbox [n_createdAt] (Some (IsNull (Col n_publishedAt)))]"

definition AddIdentityOutbox_down :: "statement list" where
  "AddIdentityOutbox_down = [
    DropTable n_IdentityOutbox]"

subsection \<open>AddUserOutbox\<close>

definition AddUserOutbox_up :: "statement list" where
  "AddUserOutbox_up = [
    CreateTable n_UserOutbox
      [(n_id, required Uuid),
       (n_topic, required (Varchar 249)),
       (n_aggregateType, required (Varchar 64)),
       (n_aggregateId, required (Varchar 64)),
       (n_type, required (Varchar 128)),
       (n_payload, required Jsonb),
       (n_createdAt, defaulted Timestamptz DefaultNow),
       (n_publishedAt, optional Timestamptz),
       (n_attempts, defaulted Integer (DefaultNum 0)),
       (n_lastError, optional Text)]
      [(n_UserOutbox_attempts_nonneg, Check (Ge (Col n_attempts) (Num 0))),
       (n_UserOutbox_publishedAt_order, Check (Or (IsNull (Col n_publishedAt)) (Ge (Col n_publishedAt) (Col n_createdAt)))),
       (n_UserOutbox_pkey, PrimaryKey [n_id])],
    CreateIndex n_UserOutbox_unpublished_idx n_UserOutbox [n_createdAt] (Some (IsNull (Col n_publishedAt)))]"

definition AddUserOutbox_down :: "statement list" where
  "AddUserOutbox_down = [
    DropTable n_UserOutbox]"

subsection \<open>AddOrderOutbox\<close>

definition AddOrderOutbox_up :: "statement list" where
  "AddOrderOutbox_up = [
    CreateTable n_OrderOutbox
      [(n_id, required Uuid),
       (n_broker, required (Varchar 16)),
       (n_topic, required (Varchar 249)),
       (n_aggregateType, required (Varchar 64)),
       (n_aggregateId, required (Varchar 64)),
       (n_type, required (Varchar 128)),
       (n_payload, required Jsonb),
       (n_createdAt, defaulted Timestamptz DefaultNow),
       (n_publishedAt, optional Timestamptz),
       (n_attempts, defaulted Integer (DefaultNum 0)),
       (n_lastError, optional Text)]
      [(n_OrderOutbox_broker_known, Check (InList (Col n_broker) [''rabbitmq'', ''kafka''])),
       (n_OrderOutbox_attempts_nonneg, Check (Ge (Col n_attempts) (Num 0))),
       (n_OrderOutbox_publishedAt_order, Check (Or (IsNull (Col n_publishedAt)) (Ge (Col n_publishedAt) (Col n_createdAt)))),
       (n_OrderOutbox_pkey, PrimaryKey [n_id])],
    CreateIndex n_OrderOutbox_unpublished_idx n_OrderOutbox [n_createdAt] (Some (IsNull (Col n_publishedAt)))]"

definition AddOrderOutbox_down :: "statement list" where
  "AddOrderOutbox_down = [
    DropTable n_OrderOutbox]"

subsection \<open>AddOrderWorkflowOutbox\<close>

definition AddOrderWorkflowOutbox_up :: "statement list" where
  "AddOrderWorkflowOutbox_up = [
    CreateTable n_OrderWorkflowOutbox
      [(n_workflowId, required (Varchar 255)),
       (n_workflowType, required (Varchar 128)),
       (n_taskQueue, required (Varchar 128)),
       (n_input, required Jsonb),
       (n_createdAt, defaulted Timestamptz DefaultNow),
       (n_startedAt, optional Timestamptz),
       (n_attempts, defaulted Integer (DefaultNum 0)),
       (n_lastError, optional Text)]
      [(n_OrderWorkflowOutbox_attempts_nonneg, Check (Ge (Col n_attempts) (Num 0))),
       (n_OrderWorkflowOutbox_startedAt_order, Check (Or (IsNull (Col n_startedAt)) (Ge (Col n_startedAt) (Col n_createdAt)))),
       (n_OrderWorkflowOutbox_pkey, PrimaryKey [n_workflowId])],
    CreateIndex n_OrderWorkflowOutbox_unstarted_idx n_OrderWorkflowOutbox [n_createdAt] (Some (IsNull (Col n_startedAt)))]"

definition AddOrderWorkflowOutbox_down :: "statement list" where
  "AddOrderWorkflowOutbox_down = [
    DropTable n_OrderWorkflowOutbox]"

subsection \<open>DropOrderOutboxBroker\<close>

definition DropOrderOutboxBroker_up :: "statement list" where
  "DropOrderOutboxBroker_up = [
    AlterTable n_OrderOutbox (DropConstraint n_OrderOutbox_broker_known),
    AlterTable n_OrderOutbox (DropColumn n_broker)]"

definition DropOrderOutboxBroker_down :: "statement list" where
  "DropOrderOutboxBroker_down = [
    AlterTable n_OrderOutbox (AddColumn n_broker (defaulted (Varchar 16) (DefaultLit ''kafka''))),
    AlterTable n_OrderOutbox (DropDefault n_broker),
    AlterTable n_OrderOutbox (AddConstraint n_OrderOutbox_broker_known (Check (InList (Col n_broker) [''rabbitmq'', ''kafka''])))]"

subsection \<open>AddOrderIdempotencyKey\<close>

definition AddOrderIdempotencyKey_up :: "statement list" where
  "AddOrderIdempotencyKey_up = [
    AlterTable n_Order (AddColumn n_idempotencyKey (optional Uuid)),
    AlterTable n_Order (AddConstraint n_Order_userId_idempotencyKey_key (Unique [n_userId, n_idempotencyKey]))]"

definition AddOrderIdempotencyKey_down :: "statement list" where
  "AddOrderIdempotencyKey_down = [
    AlterTable n_Order (DropConstraint n_Order_userId_idempotencyKey_key),
    AlterTable n_Order (DropColumn n_idempotencyKey)]"

subsection \<open>AddOrderConfirmation\<close>

definition AddOrderConfirmation_up :: "statement list" where
  "AddOrderConfirmation_up = [
    CreateTable n_OrderInbox
      [(n_consumer, required (Varchar 100)),
       (n_messageId, required Uuid),
       (n_createdAt, defaulted Timestamptz DefaultNow)]
      [(n_OrderInbox_pkey, PrimaryKey [n_consumer, n_messageId])],
    CreateTable n_OrderConfirmation
      [(n_id, identity_always),
       (n_orderPublicId, required Uuid),
       (n_userId, required Integer),
       (n_createdAt, defaulted Timestamptz DefaultNow)]
      [(n_OrderConfirmation_orderPublicId_key, Unique [n_orderPublicId]),
       (n_OrderConfirmation_pkey, PrimaryKey [n_id])]]"

definition AddOrderConfirmation_down :: "statement list" where
  "AddOrderConfirmation_down = [
    DropTable n_OrderConfirmation,
    DropTable n_OrderInbox]"

subsection \<open>DropOrderConfirmation\<close>

definition DropOrderConfirmation_up :: "statement list" where
  "DropOrderConfirmation_up = [
    DropTable n_OrderConfirmation,
    DropTable n_OrderInbox]"

definition DropOrderConfirmation_down :: "statement list" where
  "DropOrderConfirmation_down = [
    CreateTable n_OrderInbox
      [(n_consumer, required (Varchar 100)),
       (n_messageId, required Uuid),
       (n_createdAt, defaulted Timestamptz DefaultNow)]
      [(n_OrderInbox_pkey, PrimaryKey [n_consumer, n_messageId])],
    CreateTable n_OrderConfirmation
      [(n_id, identity_always),
       (n_orderPublicId, required Uuid),
       (n_userId, required Integer),
       (n_createdAt, defaulted Timestamptz DefaultNow)]
      [(n_OrderConfirmation_orderPublicId_key, Unique [n_orderPublicId]),
       (n_OrderConfirmation_pkey, PrimaryKey [n_id])]]"

subsection \<open>AddUserIdentityPublicId\<close>

definition AddUserIdentityPublicId_up :: "statement list" where
  "AddUserIdentityPublicId_up = [
    AlterTable n_User (AddColumn n_identityPublicId (optional Uuid)),
    Data Update n_User [n_identityPublicId] [(n_Identity, [n_publicId, n_id]), (n_User, [n_identityId])] [],
    AlterTable n_User (SetNotNull n_identityPublicId),
    AlterTable n_User (AddConstraint n_User_identityPublicId_key (Unique [n_identityPublicId]))]"

definition AddUserIdentityPublicId_down :: "statement list" where
  "AddUserIdentityPublicId_down = [
    AlterTable n_User (DropConstraint n_User_identityPublicId_key),
    AlterTable n_User (DropColumn n_identityPublicId)]"

subsection \<open>AddOrderBuyer\<close>

definition AddOrderBuyer_up :: "statement list" where
  "AddOrderBuyer_up = [
    CreateTable n_OrderBuyer
      [(n_identityPublicId, required Uuid),
       (n_userId, required Integer),
       (n_createdAt, defaulted Timestamptz DefaultNow)]
      [(n_OrderBuyer_userId_key, Unique [n_userId]),
       (n_OrderBuyer_pkey, PrimaryKey [n_identityPublicId])],
    Data Insert n_OrderBuyer [n_identityPublicId, n_userId] [(n_User, [n_identityPublicId, n_id])] []]"

definition AddOrderBuyer_down :: "statement list" where
  "AddOrderBuyer_down = [
    DropTable n_OrderBuyer]"

subsection \<open>AddOrderOwner\<close>

definition AddOrderOwner_up :: "statement list" where
  "AddOrderOwner_up = [
    AlterTable n_Order (AddColumn n_ownerIdentityPublicId (optional Uuid)),
    Data Update n_Order [n_ownerIdentityPublicId] [(n_OrderBuyer, [n_identityPublicId, n_userId]), (n_Order, [n_userId])] [],
    CreateIndex n_Order_ownerIdentityPublicId_idx n_Order [n_ownerIdentityPublicId] None]"

definition AddOrderOwner_down :: "statement list" where
  "AddOrderOwner_down = [
    DropIndex n_Order_ownerIdentityPublicId_idx,
    AlterTable n_Order (DropColumn n_ownerIdentityPublicId)]"

subsection \<open>AddIdentityExternalAccount\<close>

definition AddIdentityExternalAccount_up :: "statement list" where
  "AddIdentityExternalAccount_up = [
    AlterTable n_Identity (DropNotNull n_passwordHash),
    CreateEnum n_IdentityProviderEnum [''google''],
    CreateTable n_IdentityExternalAccount
      [(n_id, identity_always),
       (n_identityId, required Integer),
       (n_provider, required (Named n_IdentityProviderEnum)),
       (n_subject, required (Varchar 255)),
       (n_createdAt, defaulted Timestamptz DefaultNow)]
      [(n_IdentityExternalAccount_provider_subject_key, Unique [n_provider, n_subject]),
       (n_IdentityExternalAccount_identityId_provider_key, Unique [n_identityId, n_provider]),
       (n_IdentityExternalAccount_subject_not_blank, Check (Ne (Btrim (Col n_subject)) (Lit ''''))),
       (n_IdentityExternalAccount_pkey, PrimaryKey [n_id])],
    AlterTable n_IdentityExternalAccount (AddConstraint n_IdentityExternalAccount_identityId_fkey
        (ForeignKey [n_identityId] n_Identity [n_id] Cascade))]"

definition AddIdentityExternalAccount_down :: "statement list" where
  "AddIdentityExternalAccount_down = [
    DropTable n_IdentityExternalAccount,
    DropEnum n_IdentityProviderEnum,
    AlterTable n_Identity (SetNotNull n_passwordHash)]"

subsection \<open>The chain\<close>

record migration =
  mg_name :: string
  mg_up :: "statement list"
  mg_down :: "statement list"

definition migrations :: "migration list" where
  "migrations = [
    \<lparr>mg_name = ''InitSchema'', mg_up = InitSchema_up, mg_down = InitSchema_down\<rparr>,
    \<lparr>mg_name = ''AddQuantityTransactionsBackgroundJobs'', mg_up = AddQuantityTransactionsBackgroundJobs_up, mg_down = AddQuantityTransactionsBackgroundJobs_down\<rparr>,
    \<lparr>mg_name = ''AddJobQueueProcessing'', mg_up = AddJobQueueProcessing_up, mg_down = AddJobQueueProcessing_down\<rparr>,
    \<lparr>mg_name = ''SplitProductVariantSellerOffer'', mg_up = SplitProductVariantSellerOffer_up, mg_down = SplitProductVariantSellerOffer_down\<rparr>,
    \<lparr>mg_name = ''AddEmailInbox'', mg_up = AddEmailInbox_up, mg_down = AddEmailInbox_down\<rparr>,
    \<lparr>mg_name = ''RenameEmailInboxToInbox'', mg_up = RenameEmailInboxToInbox_up, mg_down = RenameEmailInboxToInbox_down\<rparr>,
    \<lparr>mg_name = ''AddStockReservation'', mg_up = AddStockReservation_up, mg_down = AddStockReservation_down\<rparr>,
    \<lparr>mg_name = ''AddReservedStock'', mg_up = AddReservedStock_up, mg_down = AddReservedStock_down\<rparr>,
    \<lparr>mg_name = ''AddRefundTransactionType'', mg_up = AddRefundTransactionType_up, mg_down = AddRefundTransactionType_down\<rparr>,
    \<lparr>mg_name = ''AddAccountInbox'', mg_up = AddAccountInbox_up, mg_down = AddAccountInbox_down\<rparr>,
    \<lparr>mg_name = ''AddAccountBalance'', mg_up = AddAccountBalance_up, mg_down = AddAccountBalance_down\<rparr>,
    \<lparr>mg_name = ''LinkTransactionToAccount'', mg_up = LinkTransactionToAccount_up, mg_down = LinkTransactionToAccount_down\<rparr>,
    \<lparr>mg_name = ''DropInboxAndBackgroundJob'', mg_up = DropInboxAndBackgroundJob_up, mg_down = DropInboxAndBackgroundJob_down\<rparr>,
    \<lparr>mg_name = ''OrderOwnsUserAndContact'', mg_up = OrderOwnsUserAndContact_up, mg_down = OrderOwnsUserAndContact_down\<rparr>,
    \<lparr>mg_name = ''IdentityOwnsLoginPhone'', mg_up = IdentityOwnsLoginPhone_up, mg_down = IdentityOwnsLoginPhone_down\<rparr>,
    \<lparr>mg_name = ''RenameDeliveryAddressToAddress'', mg_up = RenameDeliveryAddressToAddress_up, mg_down = RenameDeliveryAddressToAddress_down\<rparr>,
    \<lparr>mg_name = ''RenameOrderProductToOrderLine'', mg_up = RenameOrderProductToOrderLine_up, mg_down = RenameOrderProductToOrderLine_down\<rparr>,
    \<lparr>mg_name = ''RenameOnHandQuantity'', mg_up = RenameOnHandQuantity_up, mg_down = RenameOnHandQuantity_down\<rparr>,
    \<lparr>mg_name = ''AddIdentitySession'', mg_up = AddIdentitySession_up, mg_down = AddIdentitySession_down\<rparr>,
    \<lparr>mg_name = ''AddIdentityPublicId'', mg_up = AddIdentityPublicId_up, mg_down = AddIdentityPublicId_down\<rparr>,
    \<lparr>mg_name = ''AddPublicIds'', mg_up = AddPublicIds_up, mg_down = AddPublicIds_down\<rparr>,
    \<lparr>mg_name = ''AddUserContact'', mg_up = AddUserContact_up, mg_down = AddUserContact_down\<rparr>,
    \<lparr>mg_name = ''AddIdentityOutbox'', mg_up = AddIdentityOutbox_up, mg_down = AddIdentityOutbox_down\<rparr>,
    \<lparr>mg_name = ''AddUserOutbox'', mg_up = AddUserOutbox_up, mg_down = AddUserOutbox_down\<rparr>,
    \<lparr>mg_name = ''AddOrderOutbox'', mg_up = AddOrderOutbox_up, mg_down = AddOrderOutbox_down\<rparr>,
    \<lparr>mg_name = ''AddOrderWorkflowOutbox'', mg_up = AddOrderWorkflowOutbox_up, mg_down = AddOrderWorkflowOutbox_down\<rparr>,
    \<lparr>mg_name = ''DropOrderOutboxBroker'', mg_up = DropOrderOutboxBroker_up, mg_down = DropOrderOutboxBroker_down\<rparr>,
    \<lparr>mg_name = ''AddOrderIdempotencyKey'', mg_up = AddOrderIdempotencyKey_up, mg_down = AddOrderIdempotencyKey_down\<rparr>,
    \<lparr>mg_name = ''AddOrderConfirmation'', mg_up = AddOrderConfirmation_up, mg_down = AddOrderConfirmation_down\<rparr>,
    \<lparr>mg_name = ''DropOrderConfirmation'', mg_up = DropOrderConfirmation_up, mg_down = DropOrderConfirmation_down\<rparr>,
    \<lparr>mg_name = ''AddUserIdentityPublicId'', mg_up = AddUserIdentityPublicId_up, mg_down = AddUserIdentityPublicId_down\<rparr>,
    \<lparr>mg_name = ''AddOrderBuyer'', mg_up = AddOrderBuyer_up, mg_down = AddOrderBuyer_down\<rparr>,
    \<lparr>mg_name = ''AddOrderOwner'', mg_up = AddOrderOwner_up, mg_down = AddOrderOwner_down\<rparr>,
    \<lparr>mg_name = ''AddIdentityExternalAccount'', mg_up = AddIdentityExternalAccount_up, mg_down = AddIdentityExternalAccount_down\<rparr>]"

end
