(* ===== verification/Entities.thy ===== *)
theory Entities
  imports Names Identity User Account Seller_Offer
begin

section \<open>The entities of TypeORM\<close>

text \<open>
  What the entity classes declare: columns with their types, nullability and defaults, the key, unique
  columns, checks, indexes, and relations with what happens on deletion. A \<open>@OneToOne\<close> with a join column makes it unique. The classes under
  \<open>value-object\<close> are embedded columns. \<open>entity_fits\<close> compares a declaration with a table of the database.
\<close>

record entity =
  en_table :: name
  en_columns :: "(name \<times> column_spec) list"
  en_key :: "name list"
  en_uniques :: "name list list"
  en_checks :: "(name \<times> sql_expr) list"
  en_indexes :: "(name \<times> (name list \<times> sql_expr option)) list"
  en_relations :: "(name \<times> name \<times> on_delete) list"

definition LoginPhone_columns :: "(name \<times> column_spec) list" where
  "LoginPhone_columns = [
    (n_loginPhoneCountryCode, optional (Named n_CountryCodeEnum)),
    (n_loginPhoneRawNumber, optional (Varchar 32)),
    (n_loginPhoneFullNumber, optional (Varchar 16)),
    (n_loginPhoneNationalNumber, optional (Varchar 15))]"

definition RecipientAddress_columns :: "(name \<times> column_spec) list" where
  "RecipientAddress_columns = [
    (n_addressLine, required (Varchar 255)),
    (n_addressCity, required (Varchar 100)),
    (n_addressBuilding, optional (Varchar 32))]"

definition RecipientPhone_columns :: "(name \<times> column_spec) list" where
  "RecipientPhone_columns = [
    (n_phoneCountryCode, required (Named n_CountryCodeEnum)),
    (n_phoneRawNumber, required (Varchar 32)),
    (n_phoneFullNumber, required (Varchar 16)),
    (n_phoneNationalNumber, required (Varchar 15))]"

definition AccountInbox_entity :: entity where
  "AccountInbox_entity = \<lparr>
    en_table = n_AccountInbox,
    en_columns = [
      (n_consumer, required (Varchar 100)),
      (n_messageId, required Uuid),
      (n_createdAt, defaulted Timestamptz DefaultNow),
      (n_updatedAt, defaulted Timestamptz DefaultNow),
      (n_deletedAt, optional Timestamptz)],
    en_key = [n_consumer, n_messageId],
    en_uniques = [],
    en_checks = [],
    en_indexes = [],
    en_relations = []\<rparr>"

definition Account_entity :: entity where
  "Account_entity = \<lparr>
    en_table = n_Account,
    en_columns = [
      (n_customerId, required Integer),
      (n_balance, defaulted (Numeric 12 2) (DefaultNum 0)),
      (n_createdAt, defaulted Timestamptz DefaultNow),
      (n_updatedAt, defaulted Timestamptz DefaultNow)],
    en_key = [n_customerId],
    en_uniques = [],
    en_checks = [],
    en_indexes = [],
    en_relations = []\<rparr>"

definition Transaction_entity :: entity where
  "Transaction_entity = \<lparr>
    en_table = n_Transaction,
    en_columns = [
      (n_id, identity_always),
      (n_publicId, defaulted Uuid DefaultUuid),
      (n_customerId, required Integer),
      (n_amount, required (Numeric 12 2)),
      (n_status, defaulted (Named n_TransactionStatusEnum) (DefaultLit ''PENDING'')),
      (n_type, defaulted (Named n_TransactionTypeEnum) (DefaultLit ''PAYMENT'')),
      (n_createdAt, defaulted Timestamptz DefaultNow),
      (n_updatedAt, defaulted Timestamptz DefaultNow),
      (n_deletedAt, optional Timestamptz)],
    en_key = [n_id],
    en_uniques = [[n_publicId]],
    en_checks = [(n_Transaction_deletedAt_order, Or (IsNull (Col n_deletedAt)) (Ge (Col n_deletedAt) (Col n_createdAt)))],
    en_indexes = [(n_Transaction_customerId_idx, ([n_customerId], None))],
    en_relations = [(n_customerId, n_Account, Restrict)]\<rparr>"

definition BrandTranslation_entity :: entity where
  "BrandTranslation_entity = \<lparr>
    en_table = n_BrandTranslation,
    en_columns = [
      (n_id, identity_always),
      (n_brandId, required Integer),
      (n_name, required (Varchar 255)),
      (n_language, required (Named n_LanguageEnum)),
      (n_createdAt, defaulted Timestamptz DefaultNow),
      (n_updatedAt, defaulted Timestamptz DefaultNow),
      (n_deletedAt, optional Timestamptz)],
    en_key = [n_id],
    en_uniques = [[n_brandId, n_language]],
    en_checks = [(n_BrandTranslation_name_notBlank, Ne (Btrim (Col n_name)) (Lit ''''))],
    en_indexes = [],
    en_relations = [(n_brandId, n_Brand, Cascade)]\<rparr>"

definition Brand_entity :: entity where
  "Brand_entity = \<lparr>
    en_table = n_Brand,
    en_columns = [
      (n_id, identity_always),
      (n_publicId, defaulted Uuid DefaultUuid),
      (n_slug, required (Varchar 120)),
      (n_createdAt, defaulted Timestamptz DefaultNow),
      (n_updatedAt, defaulted Timestamptz DefaultNow),
      (n_deletedAt, optional Timestamptz)],
    en_key = [n_id],
    en_uniques = [[n_publicId], [n_slug]],
    en_checks = [(n_Brand_slug_format, Matches (Col n_slug) re_slug),
      (n_Brand_deletedAt_order, Or (IsNull (Col n_deletedAt)) (Ge (Col n_deletedAt) (Col n_createdAt)))],
    en_indexes = [],
    en_relations = []\<rparr>"

definition CategoryTranslation_entity :: entity where
  "CategoryTranslation_entity = \<lparr>
    en_table = n_CategoryTranslation,
    en_columns = [
      (n_id, identity_always),
      (n_categoryId, required Integer),
      (n_name, required (Varchar 255)),
      (n_language, required (Named n_LanguageEnum)),
      (n_createdAt, defaulted Timestamptz DefaultNow),
      (n_updatedAt, defaulted Timestamptz DefaultNow),
      (n_deletedAt, optional Timestamptz)],
    en_key = [n_id],
    en_uniques = [[n_categoryId, n_language]],
    en_checks = [(n_CategoryTranslation_name_notBlank, Ne (Btrim (Col n_name)) (Lit ''''))],
    en_indexes = [],
    en_relations = [(n_categoryId, n_Category, Cascade)]\<rparr>"

definition Category_entity :: entity where
  "Category_entity = \<lparr>
    en_table = n_Category,
    en_columns = [
      (n_id, identity_always),
      (n_publicId, defaulted Uuid DefaultUuid),
      (n_slug, required (Varchar 120)),
      (n_parentCategoryId, optional Integer),
      (n_createdAt, defaulted Timestamptz DefaultNow),
      (n_updatedAt, defaulted Timestamptz DefaultNow),
      (n_deletedAt, optional Timestamptz)],
    en_key = [n_id],
    en_uniques = [[n_publicId], [n_slug]],
    en_checks = [(n_Category_slug_format, Matches (Col n_slug) re_slug),
      (n_Category_no_self_parent, DistinctFrom (Col n_parentCategoryId) (Col n_id)),
      (n_Category_deletedAt_order, Or (IsNull (Col n_deletedAt)) (Ge (Col n_deletedAt) (Col n_createdAt)))],
    en_indexes = [],
    en_relations = [(n_parentCategoryId, n_Category, Restrict)]\<rparr>"

definition IdentityExternalAccount_entity :: entity where
  "IdentityExternalAccount_entity = \<lparr>
    en_table = n_IdentityExternalAccount,
    en_columns = [
      (n_id, identity_always),
      (n_identityId, required Integer),
      (n_provider, required (Named n_IdentityProviderEnum)),
      (n_subject, required (Varchar 255)),
      (n_createdAt, defaulted Timestamptz DefaultNow)],
    en_key = [n_id],
    en_uniques = [[n_provider, n_subject], [n_identityId, n_provider]],
    en_checks = [(n_IdentityExternalAccount_subject_not_blank, Ne (Btrim (Col n_subject)) (Lit ''''))],
    en_indexes = [],
    en_relations = [(n_identityId, n_Identity, Cascade)]\<rparr>"

definition IdentityOutbox_entity :: entity where
  "IdentityOutbox_entity = \<lparr>
    en_table = n_IdentityOutbox,
    en_columns = [
      (n_id, required Uuid),
      (n_topic, required (Varchar 249)),
      (n_aggregateType, required (Varchar 64)),
      (n_aggregateId, required (Varchar 64)),
      (n_type, required (Varchar 128)),
      (n_payload, required Jsonb),
      (n_createdAt, defaulted Timestamptz DefaultNow),
      (n_publishedAt, optional Timestamptz),
      (n_attempts, defaulted Integer (DefaultNum 0)),
      (n_lastError, optional Text)],
    en_key = [n_id],
    en_uniques = [],
    en_checks = [(n_IdentityOutbox_attempts_nonneg, Ge (Col n_attempts) (Num 0)),
      (n_IdentityOutbox_publishedAt_order, Or (IsNull (Col n_publishedAt)) (Ge (Col n_publishedAt) (Col n_createdAt)))],
    en_indexes = [(n_IdentityOutbox_unpublished_idx, ([n_createdAt], Some (IsNull (Col n_publishedAt))))],
    en_relations = []\<rparr>"

definition IdentitySession_entity :: entity where
  "IdentitySession_entity = \<lparr>
    en_table = n_IdentitySession,
    en_columns = [
      (n_id, identity_always),
      (n_identityId, required Integer),
      (n_familyId, required Uuid),
      (n_tokenHash, required (Character 64)),
      (n_expiresAt, required Timestamptz),
      (n_usedAt, optional Timestamptz),
      (n_revokedAt, optional Timestamptz),
      (n_createdAt, defaulted Timestamptz DefaultNow),
      (n_updatedAt, defaulted Timestamptz DefaultNow)],
    en_key = [n_id],
    en_uniques = [[n_tokenHash]],
    en_checks = [(n_IdentitySession_expiresAt_order, Gt (Col n_expiresAt) (Col n_createdAt)),
      (n_IdentitySession_usedAt_order, Or (IsNull (Col n_usedAt)) (Ge (Col n_usedAt) (Col n_createdAt))),
      (n_IdentitySession_revokedAt_order, Or (IsNull (Col n_revokedAt)) (Ge (Col n_revokedAt) (Col n_createdAt)))],
    en_indexes = [(n_IdentitySession_identityId_idx, ([n_identityId], None)), (n_IdentitySession_familyId_idx, ([n_familyId], None))],
    en_relations = [(n_identityId, n_Identity, Cascade)]\<rparr>"

definition Identity_entity :: entity where
  "Identity_entity = \<lparr>
    en_table = n_Identity,
    en_columns = [
      (n_id, identity_always),
      (n_publicId, defaulted Uuid DefaultUuid),
      (n_email, optional Citext)]
      @ LoginPhone_columns
      @ [
      (n_passwordHash, optional (Varchar 255)),
      (n_role, defaulted (Named n_RoleEnum) (DefaultLit ''user'')),
      (n_activatedAt, optional Timestamptz),
      (n_createdAt, defaulted Timestamptz DefaultNow),
      (n_updatedAt, defaulted Timestamptz DefaultNow),
      (n_deletedAt, optional Timestamptz)],
    en_key = [n_id],
    en_uniques = [[n_publicId], [n_email], [n_loginPhoneFullNumber]],
    en_checks = [(n_Identity_login_present, Or (IsNotNull (Col n_email)) (IsNotNull (Col n_loginPhoneFullNumber))),
      (n_Identity_loginPhoneFullNumber_e164, Matches (Col n_loginPhoneFullNumber) re_e164),
      (n_Identity_loginPhoneNationalNumber_fmt, Matches (Col n_loginPhoneNationalNumber) re_national),
      (n_Identity_email_format, Or (IsNull (Col n_email)) (Matches (Col n_email) re_email)),
      (n_Identity_activatedAt_ord, Or (IsNull (Col n_activatedAt)) (Ge (Col n_activatedAt) (Col n_createdAt))),
      (n_Identity_deletedAt_order, Or (IsNull (Col n_deletedAt)) (Ge (Col n_deletedAt) (Col n_createdAt)))],
    en_indexes = [],
    en_relations = []\<rparr>"

definition OrderBuyer_entity :: entity where
  "OrderBuyer_entity = \<lparr>
    en_table = n_OrderBuyer,
    en_columns = [
      (n_identityPublicId, required Uuid),
      (n_userId, required Integer),
      (n_createdAt, defaulted Timestamptz DefaultNow)],
    en_key = [n_identityPublicId],
    en_uniques = [[n_userId]],
    en_checks = [],
    en_indexes = [],
    en_relations = []\<rparr>"

definition OrderLine_entity :: entity where
  "OrderLine_entity = \<lparr>
    en_table = n_OrderLine,
    en_columns = [
      (n_orderId, required Integer),
      (n_offerId, required Integer),
      (n_quantity, required Integer),
      (n_unitPrice, required (Numeric 12 2)),
      (n_unitDiscountPrice, optional (Numeric 12 2)),
      (n_createdAt, defaulted Timestamptz DefaultNow),
      (n_updatedAt, defaulted Timestamptz DefaultNow),
      (n_deletedAt, optional Timestamptz)],
    en_key = [n_orderId, n_offerId],
    en_uniques = [],
    en_checks = [(n_OrderLine_discount_le, Or (IsNull (Col n_unitDiscountPrice)) (Le (Col n_unitDiscountPrice) (Col n_unitPrice))),
      (n_OrderLine_deletedAt_ord, Or (IsNull (Col n_deletedAt)) (Ge (Col n_deletedAt) (Col n_createdAt)))],
    en_indexes = [],
    en_relations = [(n_orderId, n_Order, Cascade)]\<rparr>"

definition OrderOutbox_entity :: entity where
  "OrderOutbox_entity = \<lparr>
    en_table = n_OrderOutbox,
    en_columns = [
      (n_id, required Uuid),
      (n_topic, required (Varchar 249)),
      (n_aggregateType, required (Varchar 64)),
      (n_aggregateId, required (Varchar 64)),
      (n_type, required (Varchar 128)),
      (n_payload, required Jsonb),
      (n_createdAt, defaulted Timestamptz DefaultNow),
      (n_publishedAt, optional Timestamptz),
      (n_attempts, defaulted Integer (DefaultNum 0)),
      (n_lastError, optional Text)],
    en_key = [n_id],
    en_uniques = [],
    en_checks = [(n_OrderOutbox_attempts_nonneg, Ge (Col n_attempts) (Num 0)),
      (n_OrderOutbox_publishedAt_order, Or (IsNull (Col n_publishedAt)) (Ge (Col n_publishedAt) (Col n_createdAt)))],
    en_indexes = [(n_OrderOutbox_unpublished_idx, ([n_createdAt], Some (IsNull (Col n_publishedAt))))],
    en_relations = []\<rparr>"

definition OrderRecipient_entity :: entity where
  "OrderRecipient_entity = \<lparr>
    en_table = n_OrderRecipient,
    en_columns = [
      (n_id, identity_always),
      (n_fullName, required (Varchar 201))]
      @ RecipientPhone_columns
      @ RecipientAddress_columns
      @ [
      (n_createdAt, defaulted Timestamptz DefaultNow),
      (n_updatedAt, defaulted Timestamptz DefaultNow),
      (n_deletedAt, optional Timestamptz)],
    en_key = [n_id],
    en_uniques = [],
    en_checks = [(n_OrderRecipient_fullName_notBlank, Ne (Btrim (Col n_fullName)) (Lit '''')),
      (n_OrderRecipient_phoneFullNumber_e164, Matches (Col n_phoneFullNumber) re_e164),
      (n_OrderRecipient_phoneNationalNumber_fmt, Matches (Col n_phoneNationalNumber) re_national),
      (n_OrderRecipient_deletedAt_order, Or (IsNull (Col n_deletedAt)) (Ge (Col n_deletedAt) (Col n_createdAt)))],
    en_indexes = [],
    en_relations = []\<rparr>"

definition OrderWorkflowOutbox_entity :: entity where
  "OrderWorkflowOutbox_entity = \<lparr>
    en_table = n_OrderWorkflowOutbox,
    en_columns = [
      (n_workflowId, required (Varchar 255)),
      (n_workflowType, required (Varchar 128)),
      (n_taskQueue, required (Varchar 128)),
      (n_input, required Jsonb),
      (n_createdAt, defaulted Timestamptz DefaultNow),
      (n_startedAt, optional Timestamptz),
      (n_attempts, defaulted Integer (DefaultNum 0)),
      (n_lastError, optional Text)],
    en_key = [n_workflowId],
    en_uniques = [],
    en_checks = [(n_OrderWorkflowOutbox_attempts_nonneg, Ge (Col n_attempts) (Num 0)),
      (n_OrderWorkflowOutbox_startedAt_order, Or (IsNull (Col n_startedAt)) (Ge (Col n_startedAt) (Col n_createdAt)))],
    en_indexes = [(n_OrderWorkflowOutbox_unstarted_idx, ([n_createdAt], Some (IsNull (Col n_startedAt))))],
    en_relations = []\<rparr>"

definition Order_entity :: entity where
  "Order_entity = \<lparr>
    en_table = n_Order,
    en_columns = [
      (n_id, identity_always),
      (n_publicId, defaulted Uuid DefaultUuid),
      (n_userId, required Integer),
      (n_orderRecipientId, required Integer),
      (n_idempotencyKey, optional Uuid),
      (n_ownerIdentityPublicId, optional Uuid),
      (n_status, defaulted (Named n_StatusEnum) (DefaultLit ''created'')),
      (n_totalAmount, required (Numeric 12 2)),
      (n_discountAmount, defaulted (Numeric 12 2) (DefaultNum 0)),
      (n_currency, required (Named n_CurrencyEnum)),
      (n_createdAt, defaulted Timestamptz DefaultNow),
      (n_updatedAt, defaulted Timestamptz DefaultNow),
      (n_deletedAt, optional Timestamptz)],
    en_key = [n_id],
    en_uniques = [[n_publicId], [n_orderRecipientId], [n_userId, n_idempotencyKey]],
    en_checks = [(n_Order_deletedAt_order, Or (IsNull (Col n_deletedAt)) (Ge (Col n_deletedAt) (Col n_createdAt)))],
    en_indexes = [(n_Order_ownerIdentityPublicId_idx, ([n_ownerIdentityPublicId], None))],
    en_relations = [(n_orderRecipientId, n_OrderRecipient, Restrict)]\<rparr>"

definition ProductVariant_entity :: entity where
  "ProductVariant_entity = \<lparr>
    en_table = n_ProductVariant,
    en_columns = [
      (n_id, identity_always),
      (n_publicId, defaulted Uuid DefaultUuid),
      (n_productId, required Integer),
      (n_sku, required (Varchar 64)),
      (n_barcode, optional (Varchar 14)),
      (n_slug, required (Varchar 120)),
      (n_createdAt, defaulted Timestamptz DefaultNow),
      (n_updatedAt, defaulted Timestamptz DefaultNow),
      (n_deletedAt, optional Timestamptz)],
    en_key = [n_id],
    en_uniques = [[n_publicId], [n_sku], [n_barcode], [n_slug]],
    en_checks = [(n_ProductVariant_slug_format, Matches (Col n_slug) re_slug),
      (n_ProductVariant_sku_notBlank, Ne (Btrim (Col n_sku)) (Lit '''')),
      (n_ProductVariant_barcode_format, Or (IsNull (Col n_barcode)) (Matches (Col n_barcode) re_barcode)),
      (n_ProductVariant_deletedAt_order, Or (IsNull (Col n_deletedAt)) (Ge (Col n_deletedAt) (Col n_createdAt)))],
    en_indexes = [(n_ProductVariant_productId_idx, ([n_productId], None))],
    en_relations = [(n_productId, n_Product, Cascade)]\<rparr>"

definition ProductTranslation_entity :: entity where
  "ProductTranslation_entity = \<lparr>
    en_table = n_ProductTranslation,
    en_columns = [
      (n_id, identity_always),
      (n_productId, required Integer),
      (n_title, required (Varchar 255)),
      (n_description, optional Text),
      (n_language, required (Named n_LanguageEnum)),
      (n_createdAt, defaulted Timestamptz DefaultNow),
      (n_updatedAt, defaulted Timestamptz DefaultNow),
      (n_deletedAt, optional Timestamptz)],
    en_key = [n_id],
    en_uniques = [[n_productId, n_language]],
    en_checks = [(n_ProductTranslation_title_notBlank, Ne (Btrim (Col n_title)) (Lit ''''))],
    en_indexes = [],
    en_relations = [(n_productId, n_Product, Cascade)]\<rparr>"

definition Product_entity :: entity where
  "Product_entity = \<lparr>
    en_table = n_Product,
    en_columns = [
      (n_id, identity_always),
      (n_publicId, defaulted Uuid DefaultUuid),
      (n_categoryId, required Integer),
      (n_brandId, required Integer),
      (n_createdAt, defaulted Timestamptz DefaultNow),
      (n_updatedAt, defaulted Timestamptz DefaultNow),
      (n_deletedAt, optional Timestamptz)],
    en_key = [n_id],
    en_uniques = [[n_publicId]],
    en_checks = [(n_Product_deletedAt_order, Or (IsNull (Col n_deletedAt)) (Ge (Col n_deletedAt) (Col n_createdAt)))],
    en_indexes = [],
    en_relations = [(n_categoryId, n_Category, Restrict), (n_brandId, n_Brand, Restrict)]\<rparr>"

definition SellerOffer_entity :: entity where
  "SellerOffer_entity = \<lparr>
    en_table = n_SellerOffer,
    en_columns = [
      (n_id, identity_always),
      (n_publicId, defaulted Uuid DefaultUuid),
      (n_sellerId, required Integer),
      (n_variantId, required Integer),
      (n_sellerSku, required (Varchar 64)),
      (n_price, required (Numeric 12 2)),
      (n_currency, required (Named n_CurrencyEnum)),
      (n_discountPrice, optional (Numeric 12 2)),
      (n_onHandQuantity, defaulted Integer (DefaultNum 0)),
      (n_reservedQuantity, defaulted Integer (DefaultNum 0)),
      (n_createdAt, defaulted Timestamptz DefaultNow),
      (n_updatedAt, defaulted Timestamptz DefaultNow),
      (n_deletedAt, optional Timestamptz)],
    en_key = [n_id],
    en_uniques = [[n_publicId], [n_sellerId, n_sellerSku], [n_sellerId, n_variantId]],
    en_checks = [(n_SellerOffer_sellerSku_notBlank, Ne (Btrim (Col n_sellerSku)) (Lit '''')),
      (n_SellerOffer_discount_le, Or (IsNull (Col n_discountPrice)) (Le (Col n_discountPrice) (Col n_price))),
      (n_SellerOffer_onHandQuantity_nonneg, Ge (Col n_onHandQuantity) (Num 0)),
      (n_SellerOffer_reserved_range, And (Ge (Col n_reservedQuantity) (Num 0)) (Le (Col n_reservedQuantity) (Col n_onHandQuantity))),
      (n_SellerOffer_deletedAt_ord, Or (IsNull (Col n_deletedAt)) (Ge (Col n_deletedAt) (Col n_createdAt)))],
    en_indexes = [],
    en_relations = [(n_sellerId, n_Seller, Restrict)]\<rparr>"

definition StockReservation_entity :: entity where
  "StockReservation_entity = \<lparr>
    en_table = n_StockReservation,
    en_columns = [
      (n_orderPublicId, required Uuid),
      (n_offerId, required Integer),
      (n_quantity, required Integer),
      (n_status, defaulted (Named n_StockReservationStatusEnum) (DefaultLit ''reserved'')),
      (n_createdAt, defaulted Timestamptz DefaultNow),
      (n_updatedAt, defaulted Timestamptz DefaultNow)],
    en_key = [n_orderPublicId, n_offerId],
    en_uniques = [],
    en_checks = [(n_StockReservation_quantity_positive, Gt (Col n_quantity) (Num 0))],
    en_indexes = [],
    en_relations = [(n_offerId, n_SellerOffer, Restrict)]\<rparr>"

definition Seller_entity :: entity where
  "Seller_entity = \<lparr>
    en_table = n_Seller,
    en_columns = [
      (n_id, identity_always),
      (n_publicId, defaulted Uuid DefaultUuid),
      (n_userId, required Integer),
      (n_createdAt, defaulted Timestamptz DefaultNow),
      (n_updatedAt, defaulted Timestamptz DefaultNow),
      (n_deletedAt, optional Timestamptz)],
    en_key = [n_id],
    en_uniques = [[n_publicId], [n_userId]],
    en_checks = [(n_Seller_deletedAt_order, Or (IsNull (Col n_deletedAt)) (Ge (Col n_deletedAt) (Col n_createdAt)))],
    en_indexes = [],
    en_relations = []\<rparr>"

definition Address_entity :: entity where
  "Address_entity = \<lparr>
    en_table = n_Address,
    en_columns = [
      (n_id, identity_always),
      (n_publicId, defaulted Uuid DefaultUuid),
      (n_addressLine, required (Varchar 255)),
      (n_city, required (Varchar 100)),
      (n_building, optional (Varchar 32)),
      (n_createdAt, defaulted Timestamptz DefaultNow),
      (n_updatedAt, defaulted Timestamptz DefaultNow),
      (n_deletedAt, optional Timestamptz)],
    en_key = [n_id],
    en_uniques = [[n_publicId]],
    en_checks = [(n_Address_deletedAt_order, Or (IsNull (Col n_deletedAt)) (Ge (Col n_deletedAt) (Col n_createdAt)))],
    en_indexes = [],
    en_relations = []\<rparr>"

definition UserOutbox_entity :: entity where
  "UserOutbox_entity = \<lparr>
    en_table = n_UserOutbox,
    en_columns = [
      (n_id, required Uuid),
      (n_topic, required (Varchar 249)),
      (n_aggregateType, required (Varchar 64)),
      (n_aggregateId, required (Varchar 64)),
      (n_type, required (Varchar 128)),
      (n_payload, required Jsonb),
      (n_createdAt, defaulted Timestamptz DefaultNow),
      (n_publishedAt, optional Timestamptz),
      (n_attempts, defaulted Integer (DefaultNum 0)),
      (n_lastError, optional Text)],
    en_key = [n_id],
    en_uniques = [],
    en_checks = [(n_UserOutbox_attempts_nonneg, Ge (Col n_attempts) (Num 0)),
      (n_UserOutbox_publishedAt_order, Or (IsNull (Col n_publishedAt)) (Ge (Col n_publishedAt) (Col n_createdAt)))],
    en_indexes = [(n_UserOutbox_unpublished_idx, ([n_createdAt], Some (IsNull (Col n_publishedAt))))],
    en_relations = []\<rparr>"

definition User_entity :: entity where
  "User_entity = \<lparr>
    en_table = n_User,
    en_columns = [
      (n_id, identity_always),
      (n_publicId, defaulted Uuid DefaultUuid),
      (n_identityId, required Integer),
      (n_identityPublicId, required Uuid),
      (n_email, optional Citext),
      (n_phoneNumber, optional (Varchar 16)),
      (n_firstName, optional (Varchar 100)),
      (n_lastName, optional (Varchar 100)),
      (n_fullName, stored (Varchar 201) (Nullif (Trim (Concat (Coalesce (Col n_firstName) (Lit '''')) (Concat (Lit '' '') (Coalesce (Col n_lastName) (Lit ''''))))) (Lit ''''))),
      (n_dateOfBirth, optional Date),
      (n_gender, optional (Named n_GenderEnum)),
      (n_language, defaulted (Named n_LanguageEnum) (DefaultLit ''en'')),
      (n_timezone, defaulted (Varchar 64) (DefaultLit ''Europe/London'')),
      (n_addressId, optional Integer),
      (n_createdAt, defaulted Timestamptz DefaultNow),
      (n_updatedAt, defaulted Timestamptz DefaultNow),
      (n_deletedAt, optional Timestamptz)],
    en_key = [n_id],
    en_uniques = [[n_publicId], [n_addressId], [n_identityId], [n_identityPublicId]],
    en_checks = [(n_User_dateOfBirth_past, Or (IsNull (Col n_dateOfBirth)) (Lt (Col n_dateOfBirth) CurrentDate)),
      (n_User_email_format, Or (IsNull (Col n_email)) (Matches (Col n_email) re_email)),
      (n_User_phoneNumber_e164, Or (IsNull (Col n_phoneNumber)) (Matches (Col n_phoneNumber) re_e164)),
      (n_User_deletedAt_order, Or (IsNull (Col n_deletedAt)) (Ge (Col n_deletedAt) (Col n_createdAt)))],
    en_indexes = [],
    en_relations = [(n_addressId, n_Address, Restrict)]\<rparr>"

definition entities :: "entity list" where
  "entities = [
    AccountInbox_entity,
    Account_entity,
    Transaction_entity,
    BrandTranslation_entity,
    Brand_entity,
    CategoryTranslation_entity,
    Category_entity,
    IdentityExternalAccount_entity,
    IdentityOutbox_entity,
    IdentitySession_entity,
    Identity_entity,
    OrderBuyer_entity,
    OrderLine_entity,
    OrderOutbox_entity,
    OrderRecipient_entity,
    OrderWorkflowOutbox_entity,
    Order_entity,
    ProductVariant_entity,
    ProductTranslation_entity,
    Product_entity,
    SellerOffer_entity,
    StockReservation_entity,
    Seller_entity,
    Address_entity,
    UserOutbox_entity,
    User_entity]"

subsection \<open>Entity and table\<close>

text \<open>A default may be written as a literal or as a number; a domain stands for its base type.\<close>

fun same_default :: "sql_default \<Rightarrow> sql_default \<Rightarrow> bool" where
  "same_default (DefaultLit l) (DefaultNum n) = (l = ''0'' \<and> n = 0)"
| "same_default d d' = (d = d')"

fun column_fits :: "schema \<Rightarrow> column \<Rightarrow> column_spec \<Rightarrow> bool" where
  "column_fits s col (ColumnSpec ty nn d idn e) =
     (base_type s (cl_type col) = ty \<and> cl_notnull col = nn \<and> same_default (cl_default col) d
      \<and> (cl_sequence col \<noteq> None) = idn \<and> cl_stored col = e)"

fun columns_fit :: "schema \<Rightarrow> (name \<times> column) list \<Rightarrow> (name \<times> column_spec) list \<Rightarrow> bool" where
  "columns_fit s cols [] = True"
| "columns_fit s cols ((c, sp) # sps) =
     ((case lookup c cols of None \<Rightarrow> False | Some col \<Rightarrow> column_fits s col sp) \<and> columns_fit s cols sps)"

definition has_primary_key :: "table \<Rightarrow> name list \<Rightarrow> bool" where
  "has_primary_key tb cs = list_ex (\<lambda>(n, k). k = PrimaryKey cs) (tb_constraints tb)"

definition has_check :: "table \<Rightarrow> name \<Rightarrow> sql_expr \<Rightarrow> bool" where
  "has_check tb n e = (case lookup n (tb_constraints tb) of None \<Rightarrow> False | Some k \<Rightarrow> k = Check e)"

definition has_index :: "table \<Rightarrow> name \<Rightarrow> name list \<times> sql_expr option \<Rightarrow> bool" where
  "has_index tb n i = (case lookup n (tb_indexes tb) of None \<Rightarrow> False | Some j \<Rightarrow> j = i)"

fun primary_key :: "(name \<times> table_constraint) list \<Rightarrow> name list" where
  "primary_key [] = []"
| "primary_key ((n, k) # ks) = (if is_primary k then constraint_columns k else primary_key ks)"

definition has_reference :: "schema \<Rightarrow> table \<Rightarrow> name \<Rightarrow> name \<Rightarrow> on_delete \<Rightarrow> bool" where
  "has_reference s tb c t d = (case find_table t s of None \<Rightarrow> False
     | Some tb' \<Rightarrow> list_ex (\<lambda>(n, k). k = ForeignKey [c] t (primary_key (tb_constraints tb')) d) (tb_constraints tb))"

definition table_fits :: "schema \<Rightarrow> table \<Rightarrow> entity \<Rightarrow> bool" where
  "table_fits s tb e =
     (length (tb_columns tb) = length (en_columns e) \<and> columns_fit s (tb_columns tb) (en_columns e)
      \<and> has_primary_key tb (en_key e)
      \<and> list_all (has_key tb) (en_uniques e)
      \<and> list_all (\<lambda>(n, x). has_check tb n x) (en_checks e)
      \<and> list_all (\<lambda>(n, i). has_index tb n i) (en_indexes e)
      \<and> list_all (\<lambda>(c, t, d). has_reference s tb c t d) (en_relations e))"

definition entity_fits :: "schema \<Rightarrow> entity \<Rightarrow> bool" where
  "entity_fits s e = (case find_table (en_table e) s of None \<Rightarrow> False | Some tb \<Rightarrow> table_fits s tb e)"

subsection \<open>Enumerations\<close>

fun transaction_status_value :: "TransactionStatusEnum \<Rightarrow> string" where
  "transaction_status_value TS_PENDING = ''PENDING''"
| "transaction_status_value TS_FAILED = ''FAILED''"
| "transaction_status_value TS_SUCCESS = ''SUCCESS''"

fun transaction_type_value :: "TransactionTypeEnum \<Rightarrow> string" where
  "transaction_type_value TT_DEPOSIT = ''DEPOSIT''"
| "transaction_type_value TT_PAYMENT = ''PAYMENT''"
| "transaction_type_value TT_WITHDRAWAL = ''WITHDRAWAL''"
| "transaction_type_value TT_REFUND = ''REFUND''"

fun stock_status_value :: "StockReservationStatusEnum \<Rightarrow> string" where
  "stock_status_value RESERVED = ''reserved''"
| "stock_status_value CONFIRMED = ''confirmed''"
| "stock_status_value FULFILLED = ''fulfilled''"
| "stock_status_value RELEASED = ''released''"

definition entity_enums :: "(name \<times> string list) list" where
  "entity_enums = [
    (n_LanguageEnum, map language_value [Lang_en, Lang_ua]),
    (n_CountryCodeEnum, map country_code_value [UA, US, PL, DE, GB]),
    (n_CurrencyEnum, map currency_value [UAH, EUR, USD]),
    (n_StatusEnum, map order_status_value [OS_created, OS_pending_payment, OS_failed_payment, OS_paid, OS_confirmed,
       OS_preparing, OS_shipped, OS_delivered, OS_completed, OS_canceled, OS_refunded]),
    (n_RoleEnum, map role_value [Role_owner, Role_seller, Role_admin, Role_user]),
    (n_GenderEnum, map gender_value [Gender_male, Gender_female]),
    (n_TransactionStatusEnum, map transaction_status_value [TS_PENDING, TS_FAILED, TS_SUCCESS]),
    (n_TransactionTypeEnum, map transaction_type_value [TT_DEPOSIT, TT_PAYMENT, TT_WITHDRAWAL, TT_REFUND]),
    (n_StockReservationStatusEnum, map stock_status_value [RESERVED, CONFIRMED, FULFILLED, RELEASED]),
    (n_IdentityProviderEnum, map provider_value [Provider_google])]"

definition enum_fits :: "schema \<Rightarrow> name \<times> string list \<Rightarrow> bool" where
  "enum_fits s = (\<lambda>(n, vs). case lookup n (sc_enums s) of None \<Rightarrow> False | Some ls \<Rightarrow> vs = ls)"

end
