(* ===== verification/Migration_Chain.thy ===== *)
theory Migration_Chain
  imports Migrations Entities
begin

section \<open>Running and reverting the migrations\<close>

text \<open>
  \<open>migration:run\<close> on an empty database, \<open>migration:revert\<close>, and the tables that result against the entities. The
  whole chain is evaluated once in the kernel (\<open>chain_checked\<close>); the facts below tell the simplifier how to evaluate statements without going through the
  schema again at every step. The theorems follow from the one evaluation by the soundness of the check.
\<close>

subsection \<open>Running\<close>

text \<open>What TypeORM creates before the first migration: the table for generated columns.\<close>

definition metadata_column :: "sql_type \<Rightarrow> bool \<Rightarrow> column" where
  "metadata_column t n = \<lparr>cl_type = t, cl_notnull = n, cl_default = NoDefault, cl_sequence = None, cl_stored = None\<rparr>"

definition typeorm_schema :: schema where
  "typeorm_schema = \<lparr>sc_extensions = [], sc_domains = [], sc_enums = [], sc_fresh = [], sc_functions = [],
     sc_tables = [(n_typeorm_metadata,
       \<lparr>tb_columns = [(n_type, metadata_column (Varchar 255) True), (n_database, metadata_column (Varchar 255) False),
          (n_schema, metadata_column (Varchar 255) False), (n_table, metadata_column (Varchar 255) False),
          (n_name, metadata_column (Varchar 255) False), (n_value, metadata_column Text False)],
        tb_constraints = [], tb_indexes = [], tb_triggers = []\<rparr>)]\<rparr>"

text \<open>All migrations run in one transaction, the default of TypeORM; a later one is reverted in a transaction of its own.\<close>

definition migrate :: "migration list \<Rightarrow> schema \<Rightarrow> ddl_error + schema" where
  "migrate ms s = run_all exec (concat (map mg_up ms)) s"

definition commit :: "schema \<Rightarrow> schema" where
  "commit s = s\<lparr>sc_fresh := []\<rparr>"

definition revert :: "migration \<Rightarrow> schema \<Rightarrow> ddl_error + schema" where
  "revert m s = run_all exec (mg_down m) (commit s)"

text \<open>Reverting the migration after the first \<open>k\<close> restores what these \<open>k\<close> built.\<close>

definition reverts_at :: "migration list \<Rightarrow> schema \<Rightarrow> nat \<Rightarrow> bool" where
  "reverts_at ms s0 k = (case migrate (take k ms) s0 of Inl e \<Rightarrow> False
     | Inr s \<Rightarrow> (case migrate (take (Suc k) ms) s0 of Inl e \<Rightarrow> False
         | Inr s' \<Rightarrow> (case revert (ms ! k) s' of Inl e \<Rightarrow> False | Inr s'' \<Rightarrow> same_schema s'' s)))"

fun check_chain :: "migration list \<Rightarrow> schema \<Rightarrow> ddl_error + schema" where
  "check_chain [] s = Inr s"
| "check_chain (m # ms) s = (case run_all exec (mg_up m) s of Inl e \<Rightarrow> Inl e
     | Inr s' \<Rightarrow> (case run_all exec (mg_down m) (commit s') of Inl e \<Rightarrow> Inl e
         | Inr s'' \<Rightarrow> demand (same_schema s'' s) (InvalidStatement n_id) (check_chain ms s')))"

subsection \<open>Soundness of the check\<close>

lemma run_all_append:
  "run_all f (xs @ ys) s = (case run_all f xs s of Inl e \<Rightarrow> Inl e | Inr s' \<Rightarrow> run_all f ys s')"
  by (induction xs arbitrary: s) (auto split: sum.splits)

lemma migrate_Cons:
  "migrate (m # ms) s = (case run_all exec (mg_up m) s of Inl e \<Rightarrow> Inl e | Inr s' \<Rightarrow> migrate ms s')"
  by (simp add: migrate_def run_all_append split: sum.split)

lemma check_chain_Cons_Inr:
  assumes "check_chain (m # ms) s = Inr t"
  obtains s' s'' where "run_all exec (mg_up m) s = Inr s'" "revert m s' = Inr s''" "same_schema s'' s" "check_chain ms s' = Inr t"
  using assms by (auto simp: demand_def revert_def split: sum.splits if_splits)

lemma check_chain_migrates: "check_chain ms s = Inr t \<Longrightarrow> migrate ms s = Inr t"
proof (induction ms arbitrary: s)
  case Nil
  then show ?case by (simp add: migrate_def)
next
  case (Cons m ms)
  from Cons.prems obtain s' where "run_all exec (mg_up m) s = Inr s'" "check_chain ms s' = Inr t"
    by (rule check_chain_Cons_Inr)
  with Cons.IH show ?case by (simp add: migrate_Cons)
qed

lemma check_chain_reverts: "check_chain ms s = Inr t \<Longrightarrow> k < length ms \<Longrightarrow> reverts_at ms s k"
proof (induction ms arbitrary: s k)
  case Nil
  then show ?case by simp
next
  case (Cons m ms)
  from Cons.prems(1) obtain s' s'' where step: "run_all exec (mg_up m) s = Inr s'" "revert m s' = Inr s''" "same_schema s'' s"
    and rest: "check_chain ms s' = Inr t" by (rule check_chain_Cons_Inr)
  show ?case
  proof (cases k)
    case 0
    with step show ?thesis by (simp add: reverts_at_def migrate_Cons) (simp add: migrate_def)
  next
    case (Suc j)
    with Cons.prems(2) Cons.IH[OF rest, of j] step show ?thesis
      by (auto simp: reverts_at_def migrate_Cons split: sum.splits)
  qed
qed

subsection \<open>Evaluation\<close>

text \<open>Tables, columns and schemas that are written out are values: the simplifier need not look inside.\<close>

lemma value_char: "Char b0 b1 b2 b3 b4 b5 b6 b7 = Char b0 b1 b2 b3 b4 b5 b6 b7" ..
lemma value_table: "table_ext a b c d u = table_ext a b c d u" ..
lemma value_column: "column_ext a b c d e u = column_ext a b c d e u" ..
lemma value_schema: "schema_ext a b c d e f u = schema_ext a b c d e f u" ..
lemma value_run: "run_all f xs s = run_all f xs s" ..
lemma value_exec: "exec x s = exec x s" ..
lemma value_alter: "alter t x s = alter t x s" ..
lemma value_alter_table: "alter_table t tb x s = alter_table t tb x s" ..
lemma value_add_column: "add_table_column s t x tb = add_table_column s t x tb" ..
lemma value_add_constraint: "add_table_constraint s t x tb = add_table_constraint s t x tb" ..
lemma value_find: "find_table t s = find_table t s" ..
lemma value_table_in: "table_in t tbs = table_in t tbs" ..
lemma value_put_in: "put_in t tb tbs = put_in t tb tbs" ..
lemma value_sequence_in: "sequence_in q tbs = sequence_in q tbs" ..
lemma value_relation_in: "relation_in n tbs = relation_in n tbs" ..
lemma value_relation_used: "relation_used n s = relation_used n s" ..
lemma value_referenced_in: "referenced_in t p tbs = referenced_in t p tbs" ..
lemma value_referenced_by_others: "referenced_by_others t p tbs = referenced_by_others t p tbs" ..
lemma value_referenced: "referenced t p s = referenced t p s" ..
lemma value_referenced_elsewhere: "referenced_elsewhere t p s = referenced_elsewhere t p s" ..
lemma value_type_in_tables: "type_in_tables t tbs = type_in_tables t tbs" ..
lemma value_same_tables: "same_tables xs ys = same_tables xs ys" ..
lemma value_same_schema: "same_schema r s = same_schema r s" ..
lemma value_chain: "check_chain ms s = check_chain ms s" ..
lemma value_entity: "entity_fits s e = entity_fits s e" ..
lemma value_enum: "enum_fits s e = enum_fits s e" ..

text \<open>Conditions are decided from the left, before anything that depends on them.\<close>

lemma first_conj: "P = P' \<Longrightarrow> (P \<and> Q) = (P' \<and> Q)"
  by simp

lemma first_disj: "P = P' \<Longrightarrow> (P \<or> Q) = (P' \<or> Q)"
  by simp

lemma first_imp: "P = P' \<Longrightarrow> (P \<longrightarrow> Q) = (P' \<longrightarrow> Q)"
  by simp

lemma first_demand: "c = c' \<Longrightarrow> demand c e r = demand c' e r"
  by simp

lemma first_found: "x = x' \<Longrightarrow> with_found x e f = with_found x' e f"
  by simp

lemmas ddl_congs = value_char value_table value_column value_schema value_run value_exec value_alter value_alter_table
  value_add_column value_add_constraint value_find value_table_in value_put_in value_sequence_in value_relation_in value_relation_used
  value_referenced_in value_referenced_by_others value_referenced value_referenced_elsewhere value_type_in_tables value_same_tables
  value_same_schema value_chain value_entity value_enum first_conj first_disj first_imp first_demand first_found

lemma demand_simps: "demand True e r = r" "demand False e r = Inl e"
  by (simp_all add: demand_def)

lemma with_found_simps: "with_found None e f = Inl e" "with_found (Some x) e f = f x"
  by (simp_all add: with_found_def)

text \<open>The functions on a schema that is written out.\<close>

lemma schema_simps:
  "find_table t \<lparr>sc_extensions = a, sc_domains = b, sc_enums = c, sc_fresh = d, sc_functions = e, sc_tables = f\<rparr> = table_in t f"
  "put_table t tb \<lparr>sc_extensions = a, sc_domains = b, sc_enums = c, sc_fresh = d, sc_functions = e, sc_tables = f\<rparr> = (\<lparr>sc_extensions = a, sc_domains = b, sc_enums = c, sc_fresh = d, sc_functions = e, sc_tables = f\<rparr>)\<lparr>sc_tables := put_in t tb f\<rparr>"
  "relation_used n \<lparr>sc_extensions = a, sc_domains = b, sc_enums = c, sc_fresh = d, sc_functions = e, sc_tables = f\<rparr> = relation_in n f"
  "referenced t p \<lparr>sc_extensions = a, sc_domains = b, sc_enums = c, sc_fresh = d, sc_functions = e, sc_tables = f\<rparr> = referenced_in t p f"
  "referenced_elsewhere t p \<lparr>sc_extensions = a, sc_domains = b, sc_enums = c, sc_fresh = d, sc_functions = e, sc_tables = f\<rparr> = referenced_by_others t p f"
  "column_type_used m \<lparr>sc_extensions = a, sc_domains = b, sc_enums = c, sc_fresh = d, sc_functions = e, sc_tables = f\<rparr> = type_in_tables (Named m) f"
  "sequence_exists q \<lparr>sc_extensions = a, sc_domains = b, sc_enums = c, sc_fresh = d, sc_functions = e, sc_tables = f\<rparr> = sequence_in q f"
  by (simp_all add: find_table_def put_table_def relation_used_def referenced_def referenced_elsewhere_def
      column_type_used_def sequence_exists_def)

lemma same_schema_simps:
  "same_schema \<lparr>sc_extensions = a, sc_domains = b, sc_enums = c, sc_fresh = d, sc_functions = e, sc_tables = f\<rparr>
     \<lparr>sc_extensions = a', sc_domains = b', sc_enums = c', sc_fresh = d', sc_functions = e', sc_tables = f'\<rparr> \<longleftrightarrow>
   same_items b b' \<and> same_items c c' \<and> same_items e e' \<and> length f = length f' \<and> same_tables f f'"
  by (simp add: same_schema_def)

lemma same_items_refl: "same_items xs xs"
  by (simp add: same_items_def list_all_iff list_ex_iff)

lemma same_table_refl: "same_table tb tb"
  by (simp add: same_table_def same_items_refl)

lemma check_chain_step:
  "check_chain (\<lparr>mg_name = n, mg_up = u, mg_down = d\<rparr> # ms) s = (case run_all exec u s of Inl e \<Rightarrow> Inl e
     | Inr s' \<Rightarrow> with_found (Some (s'\<lparr>sc_fresh := []\<rparr>)) (InvalidStatement n_id)
         (\<lambda>s1. case run_all exec d s1 of Inl e \<Rightarrow> Inl e
           | Inr s'' \<Rightarrow> demand (same_schema s'' s) (InvalidStatement n_id) (check_chain ms s')))"
  by (simp only: check_chain.simps migration.select_convs commit_def with_found_simps)

lemmas ddl_eval = demand_simps with_found_simps schema_simps same_schema_simps same_items_refl same_table_refl same_table_def same_items_def
  check_chain_step renamed_def rename_key_def type_used_def table_relation_def has_columns_def label_ok_def column_base_def has_key_def
  map_column_def column_ok_def stored_uses_def index_columns_def drop_column_def rename_table_column_def rename_references_def
  redirect_references_def alter_def fills_itself_def writable_def reads_ok_def empty_table_def map_types_def rename_sequence_def

lemmas fit_eval = entity_fits_def table_fits_def has_primary_key_def has_check_def has_index_def has_reference_def enum_fits_def

lemmas migration_statements =
  InitSchema_up_def InitSchema_down_def AddQuantityTransactionsBackgroundJobs_up_def AddQuantityTransactionsBackgroundJobs_down_def
  AddJobQueueProcessing_up_def AddJobQueueProcessing_down_def SplitProductVariantSellerOffer_up_def SplitProductVariantSellerOffer_down_def
  AddEmailInbox_up_def AddEmailInbox_down_def RenameEmailInboxToInbox_up_def RenameEmailInboxToInbox_down_def AddStockReservation_up_def
  AddStockReservation_down_def AddReservedStock_up_def AddReservedStock_down_def AddRefundTransactionType_up_def
  AddRefundTransactionType_down_def AddAccountInbox_up_def AddAccountInbox_down_def AddAccountBalance_up_def AddAccountBalance_down_def
  LinkTransactionToAccount_up_def LinkTransactionToAccount_down_def DropInboxAndBackgroundJob_up_def DropInboxAndBackgroundJob_down_def
  OrderOwnsUserAndContact_up_def OrderOwnsUserAndContact_down_def IdentityOwnsLoginPhone_up_def IdentityOwnsLoginPhone_down_def
  RenameDeliveryAddressToAddress_up_def RenameDeliveryAddressToAddress_down_def RenameOrderProductToOrderLine_up_def
  RenameOrderProductToOrderLine_down_def RenameOnHandQuantity_up_def RenameOnHandQuantity_down_def AddIdentitySession_up_def
  AddIdentitySession_down_def AddIdentityPublicId_up_def AddIdentityPublicId_down_def AddPublicIds_up_def AddPublicIds_down_def
  AddUserContact_up_def AddUserContact_down_def AddIdentityOutbox_up_def AddIdentityOutbox_down_def AddUserOutbox_up_def
  AddUserOutbox_down_def AddOrderOutbox_up_def AddOrderOutbox_down_def AddOrderWorkflowOutbox_up_def AddOrderWorkflowOutbox_down_def
  DropOrderOutboxBroker_up_def DropOrderOutboxBroker_down_def AddOrderIdempotencyKey_up_def AddOrderIdempotencyKey_down_def
  AddOrderConfirmation_up_def AddOrderConfirmation_down_def DropOrderConfirmation_up_def DropOrderConfirmation_down_def
  AddUserIdentityPublicId_up_def AddUserIdentityPublicId_down_def AddOrderBuyer_up_def AddOrderBuyer_down_def AddOrderOwner_up_def
  AddOrderOwner_down_def AddIdentityExternalAccount_up_def AddIdentityExternalAccount_down_def

lemmas entity_declarations =
  LoginPhone_columns_def RecipientAddress_columns_def RecipientPhone_columns_def AccountInbox_entity_def Account_entity_def
  Transaction_entity_def BrandTranslation_entity_def Brand_entity_def CategoryTranslation_entity_def Category_entity_def
  IdentityExternalAccount_entity_def IdentityOutbox_entity_def IdentitySession_entity_def Identity_entity_def OrderBuyer_entity_def
  OrderLine_entity_def OrderOutbox_entity_def OrderRecipient_entity_def OrderWorkflowOutbox_entity_def Order_entity_def
  ProductVariant_entity_def ProductTranslation_entity_def Product_entity_def SellerOffer_entity_def StockReservation_entity_def
  Seller_entity_def Address_entity_def UserOutbox_entity_def User_entity_def

lemma chain_checked:
  "\<exists>s. check_chain migrations typeorm_schema = Inr s \<and> list_all (entity_fits s) entities \<and> list_all (enum_fits s) entity_enums
     \<and> length (sc_tables s) = Suc (length entities)"
  unfolding migrations_def migration_statements typeorm_schema_def metadata_column_def entities_def entity_declarations entity_enums_def
  apply (simp only: append.simps list.map)
  apply (simp add: ddl_eval fit_eval del: check_chain.simps(2) cong: ddl_congs)
  done

subsection \<open>The theorems\<close>

text \<open>C13. Every migration runs on what its predecessors built, and reverting it restores exactly that, but for the order of columns and
  the extension \<open>citext\<close>, which it keeps on purpose.\<close>

theorem migrations_revert:
  "list_all (reverts_at migrations typeorm_schema) [0..<length migrations]"
  using chain_checked check_chain_reverts by (auto simp: list_all_iff)

text \<open>C14. The tables that all migrations build are those of the entities: each has exactly the declared columns with their types,
  nullability and defaults, the key, the unique columns, checks, indexes and foreign keys, the enumerations have the values of the code, and there is
  no other table.\<close>

theorem entities_fit_database:
  "\<exists>s. migrate migrations typeorm_schema = Inr s \<and> list_all (entity_fits s) entities
     \<and> list_all (enum_fits s) entity_enums \<and> length (sc_tables s) = Suc (length entities)"
  using chain_checked check_chain_migrates by blast

end
