(* ===== verification/Migration_Data.thy ===== *)
theory Migration_Data
  imports Identity User Account Seller_Offer Order_Core
begin

section \<open>What the migrations do to rows\<close>

text \<open>
  The statements that fill new columns from old ones: the stock reserved by orders (\<open>AddReservedStock\<close>), the balances
  (\<open>AddAccountBalance\<close>, \<open>LinkTransactionToAccount\<close>) and the owners of orders (\<open>AddUserIdentityPublicId\<close>, \<open>AddOrderBuyer\<close>,
  \<open>AddOrderOwner\<close>). Rows are those of the services; columns a migration adds are overwritten, columns of later migrations play no part.
  The theorems say that the invariants the services rely on hold from the start.
\<close>

subsection \<open>AddReservedStock\<close>

text \<open>Every reservation becomes \<open>confirmed\<close>; the joined subquery has a row for an offer with active reservations only.\<close>

definition confirm :: "time \<Rightarrow> StockReservation \<Rightarrow> StockReservation" where
  "confirm now r = r\<lparr>sr_status := CONFIRMED, sr_updatedAt := now\<rparr>"

definition has_held :: "StockReservation list \<Rightarrow> SellerOffer \<Rightarrow> bool" where
  "has_held rs ofr = list_ex (\<lambda>r. sr_offerId r = so_id ofr \<and> active r) rs"

definition with_held :: "time \<Rightarrow> StockReservation list \<Rightarrow> SellerOffer \<Rightarrow> SellerOffer" where
  "with_held now rs ofr =
     (let held = active_quantity (so_id ofr) rs
      in ofr\<lparr>so_onHandQuantity := so_onHandQuantity ofr + held, so_reservedQuantity := held, so_updatedAt := now\<rparr>)"

definition AddReservedStock_fill :: "time \<Rightarrow> seller_db \<Rightarrow> db_error + seller_db" where
  "AddReservedStock_fill now db =
     (let rs = map (confirm now) (sd_reservations db);
          os = map (\<lambda>ofr. ofr\<lparr>so_reservedQuantity := 0\<rparr>) (sd_offers db);
          os' = update_where (has_held rs) (with_held now rs) os
      in if list_ex (\<lambda>ofr. has_held rs ofr \<and> \<not> (int4 (active_quantity (so_id ofr) rs)
             \<and> int4 (so_onHandQuantity ofr + active_quantity (so_id ofr) rs))) os
         then Inl NumericOutOfRange
         else if list_ex (\<lambda>ofr. \<not> (0 \<le> so_reservedQuantity ofr \<and> so_reservedQuantity ofr \<le> so_onHandQuantity ofr)) os'
         then Inl CheckViolation
         else Inr (db\<lparr>sd_offers := os', sd_reservations := rs\<rparr>))"

text \<open>\<open>down\<close>: the reserved stock leaves the stock on hand again, then both columns are dropped.\<close>

definition AddReservedStock_unfill :: "time \<Rightarrow> seller_db \<Rightarrow> seller_db" where
  "AddReservedStock_unfill now db =
     db\<lparr>sd_offers := map (\<lambda>ofr. ofr\<lparr>so_reservedQuantity := 0\<rparr>)
          (update_where (\<lambda>ofr. 0 < so_reservedQuantity ofr)
             (\<lambda>ofr. ofr\<lparr>so_onHandQuantity := so_onHandQuantity ofr - so_reservedQuantity ofr, so_updatedAt := now\<rparr>)
             (sd_offers db))\<rparr>"

text \<open>The tables before: the constraints of the older schema, with the stock on hand already reduced by every reservation.\<close>

definition stock_before :: "seller_db \<Rightarrow> bool" where
  "stock_before db \<longleftrightarrow>
     distinct (map so_id (sd_offers db)) \<and> distinct (map reservation_pk (sd_reservations db))
     \<and> (\<forall>r\<in>set (sd_reservations db). 0 < sr_quantity r \<and> sr_offerId r \<in> so_id ` set (sd_offers db))
     \<and> (\<forall>ofr\<in>set (sd_offers db). SellerOffer_check (ofr\<lparr>so_reservedQuantity := 0\<rparr>))"

definition stock_left :: "SellerOffer \<Rightarrow> int \<times> int" where
  "stock_left ofr = (so_id ofr, so_onHandQuantity ofr - so_reservedQuantity ofr)"

definition stock_on_hand :: "SellerOffer \<Rightarrow> int \<times> int" where
  "stock_on_hand ofr = (so_id ofr, so_onHandQuantity ofr)"

lemma active_confirm [simp]: "active (confirm now r)"
  by (simp add: active_def confirm_def)

lemma confirm_columns [simp]:
  "sr_offerId (confirm now r) = sr_offerId r" "sr_quantity (confirm now r) = sr_quantity r"
  "reservation_pk (confirm now r) = reservation_pk r"
  by (simp_all add: confirm_def reservation_pk_def)

lemma active_quantity_positive_rows: "\<forall>r\<in>set rs. 0 < sr_quantity r \<Longrightarrow> 0 \<le> active_quantity i rs"
  by (induction rs) auto

lemma active_quantity_none: "\<not> has_held rs ofr \<Longrightarrow> active_quantity (so_id ofr) rs = 0"
  by (induction rs) (auto simp: has_held_def)

lemma with_held_columns [simp]:
  "so_id (with_held now rs ofr) = so_id ofr"
  "so_reservedQuantity (with_held now rs ofr) = active_quantity (so_id ofr) rs"
  "so_onHandQuantity (with_held now rs ofr) = so_onHandQuantity ofr + active_quantity (so_id ofr) rs"
  by (simp_all add: with_held_def Let_def)

lemma SellerOffer_check_with_held:
  "SellerOffer_check ofr \<Longrightarrow> so_reservedQuantity ofr = 0 \<Longrightarrow> 0 \<le> active_quantity (so_id ofr) rs
     \<Longrightarrow> SellerOffer_check (with_held now rs ofr)"
  by (auto simp: SellerOffer_check_def with_held_def Let_def split: option.splits)

text \<open>One offer after the migration, whether it had reservations or not.\<close>

definition filled :: "time \<Rightarrow> StockReservation list \<Rightarrow> SellerOffer \<Rightarrow> SellerOffer" where
  "filled now rs ofr = (if has_held rs (ofr\<lparr>so_reservedQuantity := 0\<rparr>)
     then with_held now rs (ofr\<lparr>so_reservedQuantity := 0\<rparr>) else ofr\<lparr>so_reservedQuantity := 0\<rparr>)"

lemma filled_columns [simp]:
  "so_id (filled now rs ofr) = so_id ofr"
  "so_reservedQuantity (filled now rs ofr) = active_quantity (so_id ofr) rs"
  "so_onHandQuantity (filled now rs ofr) = so_onHandQuantity ofr + active_quantity (so_id ofr) rs"
  using active_quantity_none[of rs "ofr\<lparr>so_reservedQuantity := 0\<rparr>"] by (auto simp: filled_def)

lemma filled_check:
  assumes "SellerOffer_check (ofr\<lparr>so_reservedQuantity := 0\<rparr>)" and "0 \<le> active_quantity (so_id ofr) rs"
  shows "SellerOffer_check (filled now rs ofr)"
  using assms SellerOffer_check_with_held[of "ofr\<lparr>so_reservedQuantity := 0\<rparr>" rs now] by (simp add: filled_def)

lemma AddReservedStock_fill_rows:
  assumes "AddReservedStock_fill now db = Inr db'"
  shows "sd_reservations db' = map (confirm now) (sd_reservations db)"
    and "sd_offers db' = map (filled now (sd_reservations db')) (sd_offers db)"
  using assms
  by (auto simp: AddReservedStock_fill_def Let_def filled_def update_where_def split: if_splits)

text \<open>C15. Every stock level the migration leaves satisfies the invariant of the service, nobody can buy more or less than
  before, and reverting restores the stock on hand.\<close>

theorem reserved_stock_backfilled:
  assumes "stock_before db" and "AddReservedStock_fill now db = Inr db'"
  shows "stock_inv db'
    \<and> map stock_left (sd_offers db') = map stock_on_hand (sd_offers db)
    \<and> map stock_on_hand (sd_offers (AddReservedStock_unfill now' db')) = map stock_on_hand (sd_offers db)"
proof -
  note rows = AddReservedStock_fill_rows[OF assms(2)]
  have pos: "\<forall>r\<in>set (sd_reservations db'). 0 < sr_quantity r" using assms(1) rows(1) by (auto simp: stock_before_def)
  note held = active_quantity_positive_rows[OF pos]
  have "stock_inv db'"
    using assms(1) filled_check held
    by (auto simp: stock_inv_def stock_before_def rows(2)[symmetric] comp_def) (auto simp: rows comp_def image_iff)
  moreover have "map stock_left (sd_offers db') = map stock_on_hand (sd_offers db)"
    by (simp add: rows(2) stock_left_def stock_on_hand_def)
  moreover have "map stock_on_hand (sd_offers (AddReservedStock_unfill now' db')) = map stock_on_hand (sd_offers db)"
    using held by (auto simp: AddReservedStock_unfill_def update_where_def rows(2) stock_on_hand_def not_less dest: antisym)
  ultimately show ?thesis by simp
qed

definition example_stock :: seller_db where
  "example_stock = \<lparr>sd_offers = [\<lparr>so_id = 7, so_publicId = ''p'', so_sellerId = 1, so_variantId = 1, so_sellerSku = ''s'', so_price = 500,
       so_currency = UAH, so_discountPrice = None, so_onHandQuantity = 3, so_reservedQuantity = 0, so_createdAt = 0, so_updatedAt = 0, so_deletedAt = None\<rparr>],
     sd_reservations = [\<lparr>sr_orderPublicId = ''o'', sr_offerId = 7, sr_quantity = 2, sr_status = RESERVED, sr_createdAt = 0, sr_updatedAt = 0\<rparr>]\<rparr>"

lemma example_stock_before: "stock_before example_stock"
  by (simp add: stock_before_def example_stock_def SellerOffer_check_def)

lemma example_stock_filled: "\<exists>db'. AddReservedStock_fill 1 example_stock = Inr db'"
  by (simp add: AddReservedStock_fill_def example_stock_def Let_def confirm_def active_def has_held_def with_held_def int4_def)

theorem reserved_stock_backfilled_witness:
  "\<exists>db'. AddReservedStock_fill 1 example_stock = Inr db' \<and> stock_inv db' \<and> map stock_left (sd_offers db') = [(7, 3)]"
proof -
  obtain db' where filled: "AddReservedStock_fill 1 example_stock = Inr db'" using example_stock_filled by blast
  from reserved_stock_backfilled[OF example_stock_before filled, of 2]
  have "stock_inv db' \<and> map stock_left (sd_offers db') = [(7, 3)]"
    by (simp add: example_stock_def stock_on_hand_def)
  with filled show ?thesis by (intro exI[of _ db']) simp
qed

subsection \<open>AddAccountBalance and LinkTransactionToAccount\<close>

text \<open>One account for every customer with a transaction that is not deleted; the new foreign key wants one for every transaction.\<close>

definition customers_of :: "Transaction list \<Rightarrow> int list" where
  "customers_of ts = remdups (map tr_customerId (filter (\<lambda>t. tr_deletedAt t = None) ts))"

definition AddAccountBalance_fill :: "time \<Rightarrow> Transaction list \<Rightarrow> db_error + Account list" where
  "AddAccountBalance_fill now ts =
     (if list_ex (\<lambda>k. \<not> numeric12_2 (ledger_sum k ts)) (customers_of ts) then Inl NumericOutOfRange
      else Inr (map (\<lambda>k. \<lparr>ac_customerId = k, ac_balance = ledger_sum k ts, ac_createdAt = now, ac_updatedAt = now\<rparr>) (customers_of ts)))"

definition LinkTransactionToAccount_check :: "Account list \<Rightarrow> Transaction list \<Rightarrow> db_error + unit" where
  "LinkTransactionToAccount_check as ts =
     (if list_ex (\<lambda>t. \<not> list_ex (\<lambda>a. ac_customerId a = tr_customerId t) as) ts then Inl ForeignKeyViolation else Inr ())"

text \<open>C16. After both migrations the account service starts in a state that satisfies its invariant exactly when no customer
  has spent more than was deposited.\<close>

theorem balances_backfilled:
  assumes "\<forall>t\<in>set ts. amount (tr_amount t)"
    and "AddAccountBalance_fill now ts = Inr as" and "LinkTransactionToAccount_check as ts = Inr ()"
  shows "account_inv \<lparr>ad_accounts = as, ad_transactions = ts, ad_inbox = []\<rparr> \<longleftrightarrow> (\<forall>k. 0 \<le> ledger_sum k ts)"
proof -
  have accounts: "as = map (\<lambda>k. \<lparr>ac_customerId = k, ac_balance = ledger_sum k ts, ac_createdAt = now, ac_updatedAt = now\<rparr>) (customers_of ts)"
    and range: "\<forall>k\<in>set (customers_of ts). numeric12_2 (ledger_sum k ts)"
    using assms(2) by (auto simp: AddAccountBalance_fill_def list_ex_iff split: if_splits)
  have linked: "\<forall>t\<in>set ts. tr_customerId t \<in> ac_customerId ` set as"
    using assms(3) by (force simp: LinkTransactionToAccount_check_def list_ex_iff image_iff split: if_splits)
  have others: "ledger_sum k ts = 0" if "k \<notin> set (customers_of ts)" for k
    using that by (induction ts) (auto simp: customers_of_def ledger_sum_def split: if_splits)
  have "(\<forall>k. 0 \<le> ledger_sum k ts) \<longleftrightarrow> (\<forall>k\<in>set (customers_of ts). 0 \<le> ledger_sum k ts)"
    using others by force
  then show ?thesis
    using assms(1) range linked by (auto simp: account_inv_def accounts comp_def customers_of_def)
qed

theorem balances_backfilled_witness:
  "account_inv \<lparr>ad_accounts = [\<lparr>ac_customerId = 4, ac_balance = 60, ac_createdAt = 9, ac_updatedAt = 9\<rparr>],
     ad_transactions = [\<lparr>tr_id = 1, tr_publicId = ''a'', tr_customerId = 4, tr_amount = 60, tr_status = TS_SUCCESS, tr_type = TT_DEPOSIT,
       tr_createdAt = 0, tr_updatedAt = 0, tr_deletedAt = None\<rparr>], ad_inbox = []\<rparr>"
proof -
  let ?t = "\<lparr>tr_id = 1, tr_publicId = ''a'', tr_customerId = 4, tr_amount = 60, tr_status = TS_SUCCESS, tr_type = TT_DEPOSIT,
       tr_createdAt = 0, tr_updatedAt = 0, tr_deletedAt = None\<rparr>"
  let ?a = "\<lparr>ac_customerId = 4, ac_balance = 60, ac_createdAt = 9, ac_updatedAt = 9\<rparr>"
  have "AddAccountBalance_fill 9 [?t] = Inr [?a]"
    by (simp add: AddAccountBalance_fill_def customers_of_def ledger_sum_def signed_amount_def numeric12_2_def)
  moreover have "LinkTransactionToAccount_check [?a] [?t] = Inr ()"
    by (simp add: LinkTransactionToAccount_check_def)
  moreover have "\<forall>k. 0 \<le> ledger_sum k [?t]" by (simp add: ledger_sum_def signed_amount_def)
  ultimately show ?thesis
    using balances_backfilled[of "[?t]" 9 "[?a]"] by (simp add: amount_def numeric12_2_def)
qed

text \<open>A customer whose only transactions are soft-deleted stops the second migration.\<close>

lemma deleted_history_blocks_link:
  assumes "t \<in> set ts" and "tr_customerId t \<notin> set (customers_of ts)" and "AddAccountBalance_fill now ts = Inr as"
  shows "LinkTransactionToAccount_check as ts = Inl ForeignKeyViolation"
  using assms by (auto simp: AddAccountBalance_fill_def LinkTransactionToAccount_check_def list_ex_iff split: if_splits)

subsection \<open>AddUserIdentityPublicId, AddOrderBuyer, AddOrderOwner\<close>

text \<open>A column that cannot be filled stops the migration at \<open>SET NOT NULL\<close>, a doubled value at \<open>UNIQUE\<close>: \<open>None\<close>.\<close>

definition identity_of :: "Identity list \<Rightarrow> User \<Rightarrow> Identity option" where
  "identity_of ids u = find_row (\<lambda>i. id_id i = us_identityId u) ids"

definition AddUserIdentityPublicId_fill :: "time \<Rightarrow> Identity list \<Rightarrow> User list \<Rightarrow> User list option" where
  "AddUserIdentityPublicId_fill now ids us =
     (let us' = List.map_filter (\<lambda>u. map_option (\<lambda>i. u\<lparr>us_identityPublicId := id_publicId i, us_updatedAt := now\<rparr>) (identity_of ids u)) us
      in if length us' \<noteq> length us \<or> \<not> distinct (map us_identityPublicId us') then None else Some us')"

definition AddOrderBuyer_fill :: "time \<Rightarrow> User list \<Rightarrow> OrderBuyer list" where
  "AddOrderBuyer_fill now us =
     fold (\<lambda>u bs. if list_ex (\<lambda>b. by_identityPublicId b = us_identityPublicId u \<or> by_userId b = us_id u) bs then bs
                  else bs @ [\<lparr>by_identityPublicId = us_identityPublicId u, by_userId = us_id u, by_createdAt = now\<rparr>]) us []"

definition AddOrderOwner_fill :: "time \<Rightarrow> OrderBuyer list \<Rightarrow> Order list \<Rightarrow> Order list" where
  "AddOrderOwner_fill now bs os =
     map (\<lambda>o'. case find_row (\<lambda>b. by_userId b = or_userId o') bs of
         None \<Rightarrow> o'\<lparr>or_ownerIdentityPublicId := None\<rparr>
       | Some b \<Rightarrow> o'\<lparr>or_ownerIdentityPublicId := Some (by_identityPublicId b), or_updatedAt := now\<rparr>) os"

text \<open>The three in a row.\<close>

definition owners_filled :: "time \<Rightarrow> Identity list \<Rightarrow> User list \<Rightarrow> Order list \<Rightarrow> Order list option" where
  "owners_filled now ids us os =
     map_option (\<lambda>us'. AddOrderOwner_fill now (AddOrderBuyer_fill now us') os) (AddUserIdentityPublicId_fill now ids us)"

lemma buyers_of_distinct:
  assumes "distinct (map us_id us)" and "distinct (map us_identityPublicId us)"
  shows "AddOrderBuyer_fill now us = map (\<lambda>u. \<lparr>by_identityPublicId = us_identityPublicId u, by_userId = us_id u, by_createdAt = now\<rparr>) us"
  using assms
proof (induction us rule: rev_induct)
  case Nil
  then show ?case by (simp add: AddOrderBuyer_fill_def)
next
  case (snoc u us)
  then show ?case
    by (auto simp: AddOrderBuyer_fill_def list_ex_iff image_iff)
qed

lemma map_filter_full:
  "length (List.map_filter f xs) = length xs \<Longrightarrow> List.map_filter f xs = map (the \<circ> f) xs \<and> (\<forall>x\<in>set xs. f x \<noteq> None)"
proof (induction xs)
  case Nil
  then show ?case by (simp add: map_filter_simps)
next
  case (Cons x xs)
  have "length (List.map_filter f xs) \<le> length xs" by (induction xs) (auto simp: map_filter_simps split: option.split)
  with Cons show ?case by (cases "f x") (auto simp: map_filter_simps)
qed

text \<open>C17. Every order then belongs to the identity whose user placed it, the one \<open>order_private\<close> lets read it.\<close>

theorem owners_backfilled:
  assumes "distinct (map us_id us)" and "owners_filled now ids us os = Some os'"
    and "o' \<in> set os'" and "u \<in> set us" and "us_id u = or_userId o'"
  shows "\<exists>i\<in>set ids. id_id i = us_identityId u \<and> or_ownerIdentityPublicId o' = Some (id_publicId i)"
proof -
  let ?f = "\<lambda>u. map_option (\<lambda>i. u\<lparr>us_identityPublicId := id_publicId i, us_updatedAt := now\<rparr>) (identity_of ids u)"
  from assms(2) obtain us' where fill: "AddUserIdentityPublicId_fill now ids us = Some us'"
    and os': "os' = AddOrderOwner_fill now (AddOrderBuyer_fill now us') os"
    by (auto simp: owners_filled_def)
  from fill have "length (List.map_filter ?f us) = length us" and us': "us' = List.map_filter ?f us"
    and pub: "distinct (map us_identityPublicId us')"
    by (auto simp: AddUserIdentityPublicId_fill_def Let_def split: if_splits)
  with map_filter_full[of ?f us] have us'_map: "us' = map (the \<circ> ?f) us" and found: "\<forall>u\<in>set us. identity_of ids u \<noteq> None"
    by auto
  have ids_kept: "map us_id us' = map us_id us" using found by (auto simp: us'_map)
  from found assms(4) obtain i where i: "identity_of ids u = Some i" by blast
  let ?u = "u\<lparr>us_identityPublicId := id_publicId i, us_updatedAt := now\<rparr>"
  have u': "?u \<in> set us'" using assms(4) i by (force simp: us'_map)
  let ?b = "\<lparr>by_identityPublicId = id_publicId i, by_userId = us_id u, by_createdAt = now\<rparr>"
  have buyers: "AddOrderBuyer_fill now us' = map (\<lambda>u. \<lparr>by_identityPublicId = us_identityPublicId u, by_userId = us_id u, by_createdAt = now\<rparr>) us'"
    using assms(1) pub ids_kept by (simp add: buyers_of_distinct)
  have "distinct (map by_userId (AddOrderBuyer_fill now us'))"
    using assms(1) ids_kept by (simp add: buyers comp_def)
  moreover have "?b \<in> set (AddOrderBuyer_fill now us')"
    using imageI[OF u', of "\<lambda>u. \<lparr>by_identityPublicId = us_identityPublicId u, by_userId = us_id u, by_createdAt = now\<rparr>"]
    by (simp add: buyers)
  ultimately have "find_row (\<lambda>b. by_userId b = us_id u) (AddOrderBuyer_fill now us') = Some ?b"
    using find_row_unique[of by_userId "AddOrderBuyer_fill now us'" ?b] by simp
  with assms(3,5) have "or_ownerIdentityPublicId o' = Some (id_publicId i)"
    by (auto simp: os' AddOrderOwner_fill_def split: option.splits)
  moreover have "i \<in> set ids" "id_id i = us_identityId u" using i find_row_Some[of _ ids i] by (auto simp: identity_of_def)
  ultimately show ?thesis by blast
qed

definition example_order :: Order where
  "example_order = \<lparr>or_id = 1, or_publicId = ''o'', or_userId = 5, or_orderRecipientId = 1, or_idempotencyKey = None,
     or_ownerIdentityPublicId = None, or_status = OS_paid, or_totalAmount = 100, or_discountAmount = 0, or_currency = UAH,
     or_createdAt = 0, or_updatedAt = 0, or_deletedAt = None\<rparr>"

definition example_user :: User where
  "example_user = \<lparr>us_identityId = 3, us_identityPublicId = [], us_email = None, us_phoneNumber = None, us_id = 5, us_publicId = ''u'',
     us_firstName = None, us_lastName = None, us_dateOfBirth = None, us_gender = None, us_language = Lang_en, us_timezone = ''z'',
     us_addressId = None, us_createdAt = 0, us_updatedAt = 0, us_deletedAt = None\<rparr>"

definition example_identity :: Identity where
  "example_identity = \<lparr>id_email = Some ''e'', id_loginPhone = \<lparr>lp_countryCode = None, lp_rawNumber = None, lp_fullNumber = None, lp_nationalNumber = None\<rparr>,
     id_passwordHash = None, id_role = Role_user, id_id = 3, id_publicId = ''i'', id_activatedAt = None, id_createdAt = 0, id_updatedAt = 0, id_deletedAt = None\<rparr>"

lemma example_owners_filled:
  "owners_filled 9 [example_identity] [example_user] [example_order]
     = Some [example_order\<lparr>or_ownerIdentityPublicId := Some ''i'', or_updatedAt := 9\<rparr>]"
  by (simp add: owners_filled_def AddUserIdentityPublicId_fill_def AddOrderBuyer_fill_def AddOrderOwner_fill_def identity_of_def
      example_order_def example_user_def example_identity_def map_filter_simps)

theorem owners_backfilled_witness:
  "\<exists>i\<in>set [example_identity]. id_id i = us_identityId example_user
     \<and> or_ownerIdentityPublicId (example_order\<lparr>or_ownerIdentityPublicId := Some ''i'', or_updatedAt := 9\<rparr>) = Some (id_publicId i)"
  by (rule owners_backfilled[OF _ example_owners_filled]) (simp_all add: example_user_def example_order_def)

end
