(* ===== verification/Seed.thy ===== *)
theory Seed
  imports Catalog Migration_Data "HOL-Library.Sublist"
begin

section \<open>The seed\<close>

text \<open>
  \<open>src/seed.ts\<close>: demo data written row by row, each row looked up by a natural key and created only when it is missing. A
  step takes the environment and the database to an error or to a value and the database; each statement commits on its own. The theorem is the
  promise of its comment and of the README, that a second run changes nothing, and shows what it does change: \<open>Account.updatedAt\<close>.
  It is proved by composition: a step is \<open>settled\<close> when after a success, whatever later steps add, running it again finds what it found.
\<close>

subsection \<open>Tables\<close>

text \<open>The tables that only the seed writes; the others come from their services.\<close>

record seed_row =
  rw_id :: int
  rw_createdAt :: time
  rw_updatedAt :: time
  rw_deletedAt :: "time option"

record Category = seed_row +
  ct_publicId :: uuid
  ct_slug :: string
  ct_parentCategoryId :: "int option"

record CategoryTranslation = seed_row +
  cx_categoryId :: int
  cx_language :: LanguageEnum
  cx_name :: string

record Brand = seed_row +
  bd_publicId :: uuid
  bd_slug :: string

record BrandTranslation = seed_row +
  bx_brandId :: int
  bx_language :: LanguageEnum
  bx_name :: string

record ProductVariant = seed_row +
  pv_publicId :: uuid
  pv_productId :: int
  pv_sku :: string
  pv_barcode :: "string option"
  pv_slug :: string

record Seller = seed_row +
  sl_publicId :: uuid
  sl_userId :: int

record Address = seed_row +
  aa_publicId :: uuid
  aa_addressLine :: string
  aa_city :: string
  aa_building :: "string option"

text \<open>\<open>sb_tick\<close> counts the inserts; it picks what the environment supplies to the next one.\<close>

record seed_db =
  sb_categories :: "Category list"
  sb_categoryTranslations :: "CategoryTranslation list"
  sb_brands :: "Brand list"
  sb_brandTranslations :: "BrandTranslation list"
  sb_identities :: "Identity list"
  sb_addresses :: "Address list"
  sb_users :: "User list"
  sb_sellers :: "Seller list"
  sb_products :: "Product list"
  sb_productTranslations :: "ProductTranslation list"
  sb_variants :: "ProductVariant list"
  sb_offers :: "SellerOffer list"
  sb_recipients :: "OrderRecipient list"
  sb_orders :: "Order list"
  sb_lines :: "OrderLine list"
  sb_accounts :: "Account list"
  sb_transactions :: "Transaction list"
  sb_tick :: nat

text \<open>The sequences, \<open>gen_random_uuid()\<close> and \<open>now()\<close> of the database, and \<open>hash\<close> of argon2 with the salt of this run.\<close>

record seed_env =
  sv_id :: "nat \<Rightarrow> int"
  sv_uuid :: "nat \<Rightarrow> uuid"
  sv_now :: "nat \<Rightarrow> time"
  sv_hash :: "string \<Rightarrow> string"

subsection \<open>Steps\<close>

type_synonym 'a seed_step = "seed_env \<Rightarrow> seed_db \<Rightarrow> db_error + ('a \<times> seed_db)"

definition return_step :: "'a \<Rightarrow> 'a seed_step" where
  "return_step x env s = Inr (x, s)"

definition and_then :: "'a seed_step \<Rightarrow> ('a \<Rightarrow> 'b seed_step) \<Rightarrow> 'b seed_step" where
  "and_then f g env s = (case f env s of Inl e \<Rightarrow> Inl e | Inr (x, s') \<Rightarrow> g x env s')"

text \<open>A loop, and a loop that pushes onto an array it also reads.\<close>

fun for_each :: "'a list \<Rightarrow> ('a \<Rightarrow> unit seed_step) \<Rightarrow> unit seed_step" where
  "for_each [] f = return_step ()"
| "for_each (x # xs) f = and_then (f x) (\<lambda>_. for_each xs f)"

fun collect :: "'b list \<Rightarrow> 'a list \<Rightarrow> ('b list \<Rightarrow> 'a \<Rightarrow> 'b seed_step) \<Rightarrow> 'b list seed_step" where
  "collect rows [] f = return_step rows"
| "collect rows (x # xs) f = and_then (f rows x) (\<lambda>r. collect (rows @ [r]) xs f)"

text \<open>A repository: its rows, which of them are not soft-deleted, and what the constraints of the table say of a new row.\<close>

record 'r seed_table =
  st_rows :: "seed_db \<Rightarrow> 'r list"
  st_put :: "'r list \<Rightarrow> seed_db \<Rightarrow> seed_db"
  st_live :: "'r \<Rightarrow> bool"
  st_fault :: "'r \<Rightarrow> seed_db \<Rightarrow> db_error option"

definition findOne :: "'r seed_table \<Rightarrow> ('r \<Rightarrow> bool) \<Rightarrow> 'r option seed_step" where
  "findOne t wh env s = Inr (find_row (\<lambda>r. st_live t r \<and> wh r) (st_rows t s), s)"

definition insert_row :: "'r seed_table \<Rightarrow> 'r \<Rightarrow> seed_db \<Rightarrow> seed_db" where
  "insert_row t r s = (st_put t (st_rows t s @ [r]) s)\<lparr>sb_tick := sb_tick s + 1\<rparr>"

definition save :: "'r seed_table \<Rightarrow> (int \<Rightarrow> uuid \<Rightarrow> time \<Rightarrow> 'r) \<Rightarrow> 'r seed_step" where
  "save t mk env s =
     (let n = sb_tick s; r = mk (sv_id env n) (sv_uuid env n) (sv_now env n)
      in case st_fault t r s of Some e \<Rightarrow> Inl e | None \<Rightarrow> Inr (r, insert_row t r s))"

definition ensure :: "'r seed_table \<Rightarrow> ('r \<Rightarrow> bool) \<Rightarrow> (int \<Rightarrow> uuid \<Rightarrow> time \<Rightarrow> 'r) \<Rightarrow> 'r seed_step" where
  "ensure t wh mk = and_then (findOne t wh) (\<lambda>existing. case existing of Some r \<Rightarrow> return_step r | None \<Rightarrow> save t mk)"

subsection \<open>Constraints\<close>

text \<open>The first constraint that the new row violates, each given with whether it is violated.\<close>

fun first_fault :: "(bool \<times> db_error) list \<Rightarrow> db_error option" where
  "first_fault [] = None"
| "first_fault ((b, e) # xs) = (if b then Some e else first_fault xs)"

text \<open>\<open>^[a-z0-9]+(-[a-z0-9]+)*$\<close>, and \<open>btrim(x) <> ''\<close>.\<close>

definition slug_char :: "char \<Rightarrow> bool" where
  "slug_char c \<longleftrightarrow> digit c \<or> 97 \<le> (of_char c :: nat) \<and> of_char c \<le> (122 :: nat)"

definition slug_format :: "string \<Rightarrow> bool" where
  "slug_format s \<longleftrightarrow> list_all (\<lambda>w. w \<noteq> [] \<and> list_all slug_char w) (js_split (CHR ''-'') s)"

definition not_blank :: "string \<Rightarrow> bool" where
  "not_blank s \<longleftrightarrow> list_ex (\<lambda>c. c \<noteq> CHR '' '') s"

definition live_row :: "'a seed_row_scheme \<Rightarrow> bool" where
  "live_row r \<longleftrightarrow> rw_deletedAt r = None"

definition categories_table :: "Category seed_table" where
  "categories_table = \<lparr>st_rows = sb_categories, st_put = (\<lambda>rs s. s\<lparr>sb_categories := rs\<rparr>), st_live = live_row,
     st_fault = (\<lambda>r s. first_fault
       [(120 < length (ct_slug r), StringTooLong),
        (\<not> slug_format (ct_slug r) \<or> ct_parentCategoryId r = Some (rw_id r), CheckViolation),
        (list_ex (\<lambda>q. rw_id q = rw_id r \<or> ct_publicId q = ct_publicId r \<or> ct_slug q = ct_slug r) (sb_categories s), UniqueViolation),
        (\<not> nullable (\<lambda>p. p \<in> rw_id ` set (sb_categories s)) (ct_parentCategoryId r), ForeignKeyViolation)])\<rparr>"

definition categoryTranslations_table :: "CategoryTranslation seed_table" where
  "categoryTranslations_table = \<lparr>st_rows = sb_categoryTranslations, st_put = (\<lambda>rs s. s\<lparr>sb_categoryTranslations := rs\<rparr>),
     st_live = live_row,
     st_fault = (\<lambda>r s. first_fault
       [(255 < length (cx_name r), StringTooLong), (\<not> not_blank (cx_name r), CheckViolation),
        (list_ex (\<lambda>q. rw_id q = rw_id r \<or> cx_categoryId q = cx_categoryId r \<and> cx_language q = cx_language r)
           (sb_categoryTranslations s), UniqueViolation),
        (cx_categoryId r \<notin> rw_id ` set (sb_categories s), ForeignKeyViolation)])\<rparr>"

definition brands_table :: "Brand seed_table" where
  "brands_table = \<lparr>st_rows = sb_brands, st_put = (\<lambda>rs s. s\<lparr>sb_brands := rs\<rparr>), st_live = live_row,
     st_fault = (\<lambda>r s. first_fault
       [(120 < length (bd_slug r), StringTooLong), (\<not> slug_format (bd_slug r), CheckViolation),
        (list_ex (\<lambda>q. rw_id q = rw_id r \<or> bd_publicId q = bd_publicId r \<or> bd_slug q = bd_slug r) (sb_brands s), UniqueViolation)])\<rparr>"

definition brandTranslations_table :: "BrandTranslation seed_table" where
  "brandTranslations_table = \<lparr>st_rows = sb_brandTranslations, st_put = (\<lambda>rs s. s\<lparr>sb_brandTranslations := rs\<rparr>), st_live = live_row,
     st_fault = (\<lambda>r s. first_fault
       [(255 < length (bx_name r), StringTooLong), (\<not> not_blank (bx_name r), CheckViolation),
        (list_ex (\<lambda>q. rw_id q = rw_id r \<or> bx_brandId q = bx_brandId r \<and> bx_language q = bx_language r)
           (sb_brandTranslations s), UniqueViolation),
        (bx_brandId r \<notin> rw_id ` set (sb_brands s), ForeignKeyViolation)])\<rparr>"

definition identities_table :: "Identity seed_table" where
  "identities_table = \<lparr>st_rows = sb_identities, st_put = (\<lambda>rs s. s\<lparr>sb_identities := rs\<rparr>), st_live = live_identity,
     st_fault = (\<lambda>r s. first_fault
       [(\<not> Identity_fits (identity_create.truncate r), StringTooLong), (\<not> Identity_check (identity_create.truncate r), CheckViolation),
        (list_ex (\<lambda>q. id_id q = id_id r \<or> id_publicId q = id_publicId r \<or> identity_clash r q) (sb_identities s), UniqueViolation)])\<rparr>"

definition addresses_table :: "Address seed_table" where
  "addresses_table = \<lparr>st_rows = sb_addresses, st_put = (\<lambda>rs s. s\<lparr>sb_addresses := rs\<rparr>), st_live = live_row,
     st_fault = (\<lambda>r s. first_fault
       [(255 < length (aa_addressLine r) \<or> 100 < length (aa_city r) \<or> \<not> nullable (\<lambda>b. length b \<le> 32) (aa_building r), StringTooLong),
        (list_ex (\<lambda>q. rw_id q = rw_id r \<or> aa_publicId q = aa_publicId r) (sb_addresses s), UniqueViolation)])\<rparr>"

definition users_table :: "User seed_table" where
  "users_table = \<lparr>st_rows = sb_users, st_put = (\<lambda>rs s. s\<lparr>sb_users := rs\<rparr>), st_live = (\<lambda>u. us_deletedAt u = None),
     st_fault = (\<lambda>r s. first_fault
       [(\<not> nullable (\<lambda>n. length n \<le> 16) (us_phoneNumber r) \<or> \<not> nullable (\<lambda>n. length n \<le> 100) (us_firstName r)
          \<or> \<not> nullable (\<lambda>n. length n \<le> 100) (us_lastName r) \<or> 64 < length (us_timezone r), StringTooLong),
        (\<not> uint (us_identityId r) \<or> \<not> User_check (us_createdAt r) r, CheckViolation),
        (list_ex (\<lambda>q. us_id q = us_id r \<or> user_clash r q) (sb_users s), UniqueViolation),
        (\<not> nullable (\<lambda>a. a \<in> rw_id ` set (sb_addresses s)) (us_addressId r), ForeignKeyViolation)])\<rparr>"

definition sellers_table :: "Seller seed_table" where
  "sellers_table = \<lparr>st_rows = sb_sellers, st_put = (\<lambda>rs s. s\<lparr>sb_sellers := rs\<rparr>), st_live = live_row,
     st_fault = (\<lambda>r s. first_fault
       [(\<not> uint (sl_userId r), CheckViolation),
        (list_ex (\<lambda>q. rw_id q = rw_id r \<or> sl_publicId q = sl_publicId r \<or> sl_userId q = sl_userId r) (sb_sellers s), UniqueViolation)])\<rparr>"

definition products_table :: "Product seed_table" where
  "products_table = \<lparr>st_rows = sb_products, st_put = (\<lambda>rs s. s\<lparr>sb_products := rs\<rparr>), st_live = (\<lambda>p. pr_deletedAt p = None),
     st_fault = (\<lambda>r s. first_fault
       [(list_ex (\<lambda>q. pr_id q = pr_id r \<or> pr_publicId q = pr_publicId r) (sb_products s), UniqueViolation),
        (pr_categoryId r \<notin> rw_id ` set (sb_categories s) \<or> pr_brandId r \<notin> rw_id ` set (sb_brands s), ForeignKeyViolation)])\<rparr>"

definition productTranslations_table :: "ProductTranslation seed_table" where
  "productTranslations_table = \<lparr>st_rows = sb_productTranslations, st_put = (\<lambda>rs s. s\<lparr>sb_productTranslations := rs\<rparr>),
     st_live = (\<lambda>t. pt_deletedAt t = None),
     st_fault = (\<lambda>r s. first_fault
       [(255 < length (pt_title r), StringTooLong), (\<not> not_blank (pt_title r), CheckViolation),
        (list_ex (\<lambda>q. pt_id q = pt_id r \<or> translation_key q = translation_key r) (sb_productTranslations s), UniqueViolation),
        (pt_productId r \<notin> pr_id ` set (sb_products s), ForeignKeyViolation)])\<rparr>"

definition variants_table :: "ProductVariant seed_table" where
  "variants_table = \<lparr>st_rows = sb_variants, st_put = (\<lambda>rs s. s\<lparr>sb_variants := rs\<rparr>), st_live = live_row,
     st_fault = (\<lambda>r s. first_fault
       [(64 < length (pv_sku r) \<or> 120 < length (pv_slug r) \<or> \<not> nullable (\<lambda>b. length b \<le> 14) (pv_barcode r), StringTooLong),
        (\<not> slug_format (pv_slug r) \<or> \<not> not_blank (pv_sku r)
          \<or> \<not> nullable (\<lambda>b. list_all digit b \<and> 8 \<le> length b \<and> length b \<le> 14) (pv_barcode r), CheckViolation),
        (list_ex (\<lambda>q. rw_id q = rw_id r \<or> pv_publicId q = pv_publicId r \<or> pv_sku q = pv_sku r \<or> pv_slug q = pv_slug r
           \<or> both (=) (pv_barcode q) (pv_barcode r)) (sb_variants s), UniqueViolation),
        (pv_productId r \<notin> pr_id ` set (sb_products s), ForeignKeyViolation)])\<rparr>"

definition offers_table :: "SellerOffer seed_table" where
  "offers_table = \<lparr>st_rows = sb_offers, st_put = (\<lambda>rs s. s\<lparr>sb_offers := rs\<rparr>), st_live = (\<lambda>o'. so_deletedAt o' = None),
     st_fault = (\<lambda>r s. first_fault
       [(64 < length (so_sellerSku r), StringTooLong),
        (\<not> numeric12_2 (so_price r) \<or> \<not> nullable numeric12_2 (so_discountPrice r), NumericOutOfRange),
        (\<not> uint (so_variantId r) \<or> \<not> amount (so_price r) \<or> \<not> nullable amount (so_discountPrice r) \<or> \<not> SellerOffer_check r, CheckViolation),
        (list_ex (\<lambda>q. so_id q = so_id r \<or> so_publicId q = so_publicId r
           \<or> so_sellerId q = so_sellerId r \<and> (so_sellerSku q = so_sellerSku r \<or> so_variantId q = so_variantId r)) (sb_offers s), UniqueViolation),
        (so_sellerId r \<notin> rw_id ` set (sb_sellers s), ForeignKeyViolation)])\<rparr>"

definition recipients_table :: "OrderRecipient seed_table" where
  "recipients_table = \<lparr>st_rows = sb_recipients, st_put = (\<lambda>rs s. s\<lparr>sb_recipients := rs\<rparr>), st_live = (\<lambda>r. rp_deletedAt r = None),
     st_fault = (\<lambda>r s. first_fault
       [(\<not> OrderRecipient_fits (order_recipient_create.truncate r), StringTooLong),
        (\<not> OrderRecipient_check (order_recipient_create.truncate r), CheckViolation),
        (list_ex (\<lambda>q. rp_id q = rp_id r) (sb_recipients s), UniqueViolation)])\<rparr>"

definition orders_table :: "Order seed_table" where
  "orders_table = \<lparr>st_rows = sb_orders, st_put = (\<lambda>rs s. s\<lparr>sb_orders := rs\<rparr>), st_live = (\<lambda>o'. or_deletedAt o' = None),
     st_fault = (\<lambda>r s. first_fault
       [(\<not> numeric12_2 (or_totalAmount r) \<or> \<not> numeric12_2 (or_discountAmount r), NumericOutOfRange),
        (\<not> uint (or_userId r) \<or> \<not> amount (or_totalAmount r) \<or> \<not> amount (or_discountAmount r), CheckViolation),
        (list_ex (\<lambda>q. or_id q = or_id r \<or> or_publicId q = or_publicId r
           \<or> or_userId q = or_userId r \<and> both (=) (or_idempotencyKey q) (or_idempotencyKey r)) (sb_orders s), UniqueViolation),
        (or_orderRecipientId r \<notin> rp_id ` set (sb_recipients s), ForeignKeyViolation)])\<rparr>"

definition lines_table :: "OrderLine seed_table" where
  "lines_table = \<lparr>st_rows = sb_lines, st_put = (\<lambda>rs s. s\<lparr>sb_lines := rs\<rparr>), st_live = (\<lambda>l. ol_deletedAt l = None),
     st_fault = (\<lambda>r s. first_fault
       [(\<not> uint (ol_offerId r) \<or> \<not> uint (ol_quantity r) \<or> \<not> amount (ol_unitPrice r) \<or> \<not> nullable amount (ol_unitDiscountPrice r)
          \<or> \<not> nullable (\<lambda>d. d \<le> ol_unitPrice r) (ol_unitDiscountPrice r), CheckViolation),
        (list_ex (\<lambda>q. ol_orderId q = ol_orderId r \<and> ol_offerId q = ol_offerId r) (sb_lines s), UniqueViolation),
        (ol_orderId r \<notin> or_id ` set (sb_orders s), ForeignKeyViolation)])\<rparr>"

definition transactions_table :: "Transaction seed_table" where
  "transactions_table = \<lparr>st_rows = sb_transactions, st_put = (\<lambda>rs s. s\<lparr>sb_transactions := rs\<rparr>), st_live = (\<lambda>t. tr_deletedAt t = None),
     st_fault = (\<lambda>r s. first_fault
       [(\<not> uint (tr_customerId r) \<or> \<not> amount (tr_amount r), CheckViolation),
        (list_ex (\<lambda>q. tr_id q = tr_id r \<or> tr_publicId q = tr_publicId r) (sb_transactions s), UniqueViolation),
        (tr_customerId r \<notin> ac_customerId ` set (sb_accounts s), ForeignKeyViolation)])\<rparr>"

subsection \<open>The steps of the seed\<close>

definition SELLERS :: nat where "SELLERS = 2"
definition BUYERS :: nat where "BUYERS = 4"
definition ORDERS :: nat where "ORDERS = 10"
definition SEED_PASSWORD :: string where "SEED_PASSWORD = ''marketplace-dev''"

definition cities :: "string list" where
  "cities = [''Kyiv'', ''Lviv'', ''Odesa'', ''Kharkiv'', ''Dnipro'']"

text \<open>\<open>phoneFor\<close>, as the login of an identity and as the phone of a recipient.\<close>

definition phoneFor :: "nat \<Rightarrow> RecipientPhone" where
  "phoneFor index = (let national = show_nat (100000000 + index)
     in \<lparr>ph_countryCode = UA, ph_rawNumber = ''0'' @ national, ph_fullNumber = ''+380'' @ national, ph_nationalNumber = national\<rparr>)"

definition login_phone :: "RecipientPhone \<Rightarrow> LoginPhone" where
  "login_phone p = \<lparr>lp_countryCode = Some (ph_countryCode p), lp_rawNumber = Some (ph_rawNumber p),
     lp_fullNumber = Some (ph_fullNumber p), lp_nationalNumber = Some (ph_nationalNumber p)\<rparr>"

text \<open>The texts.\<close>

definition category_slug :: "nat \<Rightarrow> string" where "category_slug i = ''category-'' @ show_nat (i + 1)"
definition category_name :: "nat \<Rightarrow> LanguageEnum \<Rightarrow> string" where
  "category_name i language = ''Category '' @ show_nat (i + 1) @ '' ('' @ language_value language @ '')''"
definition brand_slug :: "nat \<Rightarrow> string" where "brand_slug i = ''brand-'' @ show_nat (i + 1)"
definition brand_name :: "nat \<Rightarrow> LanguageEnum \<Rightarrow> string" where
  "brand_name i language = ''Brand '' @ show_nat (i + 1) @ '' ('' @ language_value language @ '')''"
definition seed_email :: "nat \<Rightarrow> string" where
  "seed_email i = (if i < SELLERS then ''seller'' else ''buyer'') @ show_nat ((if i < SELLERS then i else i - SELLERS) + 1) @ ''@example.com''"
definition seed_firstName :: "nat \<Rightarrow> string" where
  "seed_firstName i = (if i < SELLERS then ''Seller'' @ show_nat (i + 1) else ''Buyer'' @ show_nat (i - SELLERS + 1))"
definition seed_street :: "nat \<Rightarrow> string" where "seed_street i = ''Seed street '' @ show_nat (i + 1)"
definition seed_delivery :: "nat \<Rightarrow> string" where "seed_delivery i = ''Seed delivery '' @ show_nat (i + 1)"
definition seed_city :: "nat \<Rightarrow> string" where "seed_city i = cities ! (i mod length cities)"
definition product_slug :: "nat \<Rightarrow> string" where "product_slug i = ''product-'' @ show_nat (i + 1)"
definition product_title :: "nat \<Rightarrow> string" where "product_title i = ''Seeded product '' @ show_nat (i + 1)"
definition product_description :: "nat \<Rightarrow> string" where
  "product_description i = ''Description of seeded product '' @ show_nat (i + 1)"
definition seller_sku :: "nat \<Rightarrow> string" where "seller_sku i = ''SEED-SKU-'' @ show_nat (i + 1)"

text \<open>The Ukrainian title is Cyrillic; it stands here as the bytes of its UTF-8 text.\<close>

definition product_title_ua :: "nat \<Rightarrow> string" where
  "product_title_ua i = [CHR 0xD0, CHR 0xA2, CHR 0xD0, CHR 0xBE, CHR 0xD0, CHR 0xB2, CHR 0xD0, CHR 0xB0, CHR 0xD1, CHR 0x80, CHR '' '']
     @ show_nat (i + 1)"

text \<open>Categories: two roots and four children, with a name in each language.\<close>

definition seed_categoryTranslations :: "Category \<Rightarrow> nat \<Rightarrow> unit seed_step" where
  "seed_categoryTranslations category i = for_each [Lang_en, Lang_ua] (\<lambda>language. and_then
     (ensure categoryTranslations_table (\<lambda>t. cx_categoryId t = rw_id category \<and> cx_language t = language)
       (\<lambda>n u now. \<lparr>rw_id = n, rw_createdAt = now, rw_updatedAt = now, rw_deletedAt = None, cx_categoryId = rw_id category,
          cx_language = language, cx_name = category_name i language\<rparr>))
     (\<lambda>_. return_step ()))"

definition seed_category :: "Category list \<Rightarrow> nat \<Rightarrow> Category seed_step" where
  "seed_category categoryRows i =
     (let slug = category_slug i;
          parent = (if i < 2 then None else Some (categoryRows ! (i mod 2)))
      in and_then (ensure categories_table (\<lambda>c. ct_slug c = slug)
           (\<lambda>n u now. \<lparr>rw_id = n, rw_createdAt = now, rw_updatedAt = now, rw_deletedAt = None, ct_publicId = u, ct_slug = slug,
              ct_parentCategoryId = map_option rw_id parent\<rparr>))
         (\<lambda>category. and_then (seed_categoryTranslations category i) (\<lambda>_. return_step category)))"

definition seed_categories :: "Category list seed_step" where
  "seed_categories = collect [] [0..<6] seed_category"

definition seed_brandTranslations :: "Brand \<Rightarrow> nat \<Rightarrow> unit seed_step" where
  "seed_brandTranslations brand i = for_each [Lang_en, Lang_ua] (\<lambda>language. and_then
     (ensure brandTranslations_table (\<lambda>t. bx_brandId t = rw_id brand \<and> bx_language t = language)
       (\<lambda>n u now. \<lparr>rw_id = n, rw_createdAt = now, rw_updatedAt = now, rw_deletedAt = None, bx_brandId = rw_id brand,
          bx_language = language, bx_name = brand_name i language\<rparr>))
     (\<lambda>_. return_step ()))"

definition seed_brand :: "Brand list \<Rightarrow> nat \<Rightarrow> Brand seed_step" where
  "seed_brand brandRows i =
     (let slug = brand_slug i
      in and_then (ensure brands_table (\<lambda>b. bd_slug b = slug)
           (\<lambda>n u now. \<lparr>rw_id = n, rw_createdAt = now, rw_updatedAt = now, rw_deletedAt = None, bd_publicId = u, bd_slug = slug\<rparr>))
         (\<lambda>brand. and_then (seed_brandTranslations brand i) (\<lambda>_. return_step brand)))"

definition seed_brands :: "Brand list seed_step" where
  "seed_brands = collect [] [0..<5] seed_brand"

text \<open>
  Users. \<open>identities.update\<close> also writes \<open>updatedAt\<close>; the identity that goes on is the one that was read.
\<close>

definition argon2id :: "Identity \<Rightarrow> bool" where
  "argon2id i \<longleftrightarrow> (case id_passwordHash i of None \<Rightarrow> False | Some h \<Rightarrow> starts_with h ''$argon2id$'')"

definition update_password :: "int \<Rightarrow> string \<Rightarrow> unit seed_step" where
  "update_password i passwordHash env s = Inr ((), s\<lparr>sb_identities := update_where (\<lambda>r. id_id r = i)
     (\<lambda>r. r\<lparr>id_passwordHash := Some passwordHash, id_updatedAt := sv_now env (sb_tick s)\<rparr>) (sb_identities s)\<rparr>)"

definition seed_identity :: "string \<Rightarrow> nat \<Rightarrow> Identity seed_step" where
  "seed_identity seedPasswordHash i =
     (let isSeller = i < SELLERS; email = seed_email i
      in and_then (findOne identities_table (\<lambda>r. both citext_eq (id_email r) (Some email))) (\<lambda>found. case found of
           None \<Rightarrow> save identities_table (\<lambda>n u now. \<lparr>id_email = Some email, id_loginPhone = login_phone (phoneFor i),
             id_passwordHash = Some seedPasswordHash, id_role = (if isSeller then Role_seller else Role_user), id_id = n, id_publicId = u,
             id_activatedAt = None, id_createdAt = now, id_updatedAt = now, id_deletedAt = None\<rparr>)
         | Some identity \<Rightarrow> if argon2id identity then return_step identity
             else and_then (update_password (id_id identity) seedPasswordHash) (\<lambda>_. return_step identity)))"

definition seed_profile :: "nat \<Rightarrow> Identity \<Rightarrow> User seed_step" where
  "seed_profile i identity =
     and_then (findOne users_table (\<lambda>u. us_identityId u = id_id identity)) (\<lambda>found. case found of
        Some user \<Rightarrow> return_step user
      | None \<Rightarrow> and_then (save addresses_table (\<lambda>n u now. \<lparr>rw_id = n, rw_createdAt = now, rw_updatedAt = now, rw_deletedAt = None,
              aa_publicId = u, aa_addressLine = seed_street i, aa_city = seed_city i,
              aa_building = Some (show_nat (i + 1))\<rparr>))
            (\<lambda>address. save users_table (\<lambda>n u now. \<lparr>us_identityId = id_id identity, us_identityPublicId = id_publicId identity,
              us_email = id_email identity, us_phoneNumber = lp_fullNumber (id_loginPhone identity), us_id = n, us_publicId = u,
              us_firstName = Some (seed_firstName i),
              us_lastName = Some ''Seeded'', us_dateOfBirth = Some 7305,
              us_gender = Some (if i mod 2 = 0 then Gender_male else Gender_female), us_language = Lang_ua, us_timezone = ''Europe/Kyiv'',
              us_addressId = Some (rw_id address), us_createdAt = now, us_updatedAt = now, us_deletedAt = None\<rparr>)))"

definition seed_users :: "User list seed_step" where
  "seed_users env = collect [] [0..<SELLERS + BUYERS]
     (\<lambda>_ i. and_then (seed_identity (sv_hash env SEED_PASSWORD) i) (seed_profile i)) env"

text \<open>\<open>UPDATE "Identity" SET "activatedAt" = "createdAt" WHERE "activatedAt" IS NULL\<close>, with the trigger on \<open>updatedAt\<close>.\<close>

definition activate_identities :: "unit seed_step" where
  "activate_identities env s = Inr ((), s\<lparr>sb_identities := update_where (\<lambda>r. id_activatedAt r = None)
     (\<lambda>r. r\<lparr>id_activatedAt := Some (id_createdAt r), id_updatedAt := sv_now env (sb_tick s)\<rparr>) (sb_identities s)\<rparr>)"

definition seed_sellers :: "User list \<Rightarrow> Seller list seed_step" where
  "seed_sellers sellers = collect [] sellers (\<lambda>_ sellerUser. ensure sellers_table (\<lambda>r. sl_userId r = us_id sellerUser)
     (\<lambda>n u now. \<lparr>rw_id = n, rw_createdAt = now, rw_updatedAt = now, rw_deletedAt = None, sl_publicId = u, sl_userId = us_id sellerUser\<rparr>))"

text \<open>Products, found by their English title.\<close>

definition findOneByOrFail :: "'r seed_table \<Rightarrow> ('r \<Rightarrow> bool) \<Rightarrow> 'r seed_step" where
  "findOneByOrFail t wh = and_then (findOne t wh) (\<lambda>found. case found of Some r \<Rightarrow> return_step r | None \<Rightarrow> (\<lambda>env s. Inl EntityNotFound))"

definition ensure_title :: "int \<Rightarrow> LanguageEnum \<Rightarrow> string \<Rightarrow> string option \<Rightarrow> ProductTranslation seed_step" where
  "ensure_title productId language title description =
     ensure productTranslations_table (\<lambda>t. pt_productId t = productId \<and> pt_language t = language)
       (\<lambda>n u now. \<lparr>pt_productId = productId, pt_language = language, pt_title = title, pt_description = description,
          pt_id = n, pt_createdAt = now, pt_updatedAt = now, pt_deletedAt = None\<rparr>)"

definition seed_title :: "Category list \<Rightarrow> Brand list \<Rightarrow> nat \<Rightarrow> Product seed_step" where
  "seed_title categoryRows brandRows i =
     (let title = product_title i
      in and_then (findOne productTranslations_table (\<lambda>t. pt_title t = title \<and> pt_language t = Lang_en)) (\<lambda>existingTranslation.
         and_then (case existingTranslation of
             Some t \<Rightarrow> findOneByOrFail products_table (\<lambda>p. pr_id p = pt_productId t)
           | None \<Rightarrow> save products_table (\<lambda>n u now. \<lparr>pr_id = n, pr_publicId = u, pr_categoryId = rw_id (categoryRows ! (2 + i mod 4)),
               pr_brandId = rw_id (brandRows ! (i mod length brandRows)), pr_createdAt = now, pr_updatedAt = now, pr_deletedAt = None\<rparr>))
         (\<lambda>product. and_then (ensure_title (pr_id product) Lang_en title (Some (product_description i)))
         (\<lambda>_. return_step product))))"

definition seed_product :: "Category list \<Rightarrow> Brand list \<Rightarrow> nat \<Rightarrow> ProductVariant seed_step" where
  "seed_product categoryRows brandRows i =
     (let slug = product_slug i
      in and_then (seed_title categoryRows brandRows i) (\<lambda>product.
         and_then (ensure_title (pr_id product) Lang_ua (product_title_ua i) None) (\<lambda>_.
         ensure variants_table (\<lambda>v. pv_sku v = slug) (\<lambda>n u now. \<lparr>rw_id = n, rw_createdAt = now, rw_updatedAt = now, rw_deletedAt = None,
           pv_publicId = u, pv_productId = pr_id product, pv_sku = slug, pv_barcode = None, pv_slug = slug\<rparr>))))"

definition seed_products :: "Category list \<Rightarrow> Brand list \<Rightarrow> ProductVariant list seed_step" where
  "seed_products categoryRows brandRows = collect [] [0..<8] (\<lambda>_. seed_product categoryRows brandRows)"

text \<open>Offers. \<open>stored\<close> is the value of the column for a price text the code prints.\<close>

definition stored :: "string \<Rightarrow> int" where
  "stored price = (case pg_cents price of None \<Rightarrow> 0 | Some c \<Rightarrow> c)"

definition offer_price :: "nat \<Rightarrow> int" where "offer_price i = stored (toFixed2 (of_nat (100 + i * 25)))"
definition offer_discountPrice :: "nat \<Rightarrow> int option" where
  "offer_discountPrice i = (if i mod 3 = 0 then Some (stored (toFixed2 (of_nat (90 + i * 25)))) else None)"

definition seed_offer :: "Seller list \<Rightarrow> ProductVariant list \<Rightarrow> nat \<Rightarrow> SellerOffer seed_step" where
  "seed_offer sellerRows variantRows i =
     (let seller = sellerRows ! (i mod SELLERS); variant = variantRows ! (i div SELLERS mod length variantRows);
          sellerSku = seller_sku i
      in ensure offers_table (\<lambda>r. so_sellerId r = rw_id seller \<and> so_sellerSku r = sellerSku)
           (\<lambda>n u now. \<lparr>so_id = n, so_publicId = u, so_sellerId = rw_id seller, so_variantId = rw_id variant, so_sellerSku = sellerSku,
              so_price = offer_price i, so_currency = UAH,
              so_discountPrice = offer_discountPrice i,
              so_onHandQuantity = (if i mod 4 = 0 then 0 else (int i + 1) * 5), so_reservedQuantity = 0,
              so_createdAt = now, so_updatedAt = now, so_deletedAt = None\<rparr>))"

definition seed_offers :: "Seller list \<Rightarrow> ProductVariant list \<Rightarrow> SellerOffer list seed_step" where
  "seed_offers sellerRows variantRows = collect [] [0..<10] (\<lambda>_. seed_offer sellerRows variantRows)"

text \<open>Orders. A template literal prints \<open>null\<close> as a word.\<close>

definition js_text :: "string option \<Rightarrow> string" where
  "js_text v = (case v of None \<Rightarrow> ''null'' | Some s \<Rightarrow> s)"

definition statuses :: "OrderStatusEnum list" where
  "statuses = [OS_completed, OS_delivered, OS_paid, OS_shipped, OS_canceled]"

definition paidStatuses :: "OrderStatusEnum list" where
  "paidStatuses = [OS_paid, OS_shipped, OS_delivered, OS_completed]"

definition order_publicId :: "nat \<Rightarrow> uuid" where
  "order_publicId i = (let n = show_nat (i + 1) in ''00000000-0000-4000-8000-'' @ replicate (12 - length n) (CHR ''0'') @ n)"

definition seed_recipient :: "User \<Rightarrow> nat \<Rightarrow> OrderRecipient seed_step" where
  "seed_recipient buyer i = save recipients_table (\<lambda>n u now.
     \<lparr>rp_fullName = js_text (us_firstName buyer) @ '' '' @ js_text (us_lastName buyer), rp_phone = phoneFor (100 + i),
      rp_address = \<lparr>ad_addressLine = seed_delivery i, ad_city = seed_city i,
        ad_building = Some (show_nat (i + 1))\<rparr>,
      rp_id = n, rp_createdAt = now, rp_updatedAt = now, rp_deletedAt = None\<rparr>)"

definition seed_line :: "Order \<Rightarrow> nat \<times> SellerOffer \<Rightarrow> unit seed_step" where
  "seed_line order = (\<lambda>(position, offer). and_then
     (ensure lines_table (\<lambda>l. ol_orderId l = or_id order \<and> ol_offerId l = so_id offer)
       (\<lambda>n u now. \<lparr>ol_orderId = or_id order, ol_offerId = so_id offer, ol_quantity = int position + 1, ol_unitPrice = so_price offer,
          ol_unitDiscountPrice = so_discountPrice offer, ol_createdAt = now, ol_updatedAt = now, ol_deletedAt = None\<rparr>))
     (\<lambda>_. return_step ()))"

text \<open>\<open>INSERT INTO "Account" ... ON CONFLICT DO NOTHING\<close>.\<close>

definition open_account_row :: "int \<Rightarrow> unit seed_step" where
  "open_account_row customerId env s =
     (if list_ex (customer customerId) (sb_accounts s) then Inr ((), s)
      else (let now = sv_now env (sb_tick s) in Inr ((), s\<lparr>sb_accounts := sb_accounts s @
        [\<lparr>ac_customerId = customerId, ac_balance = 0, ac_createdAt = now, ac_updatedAt = now\<rparr>], sb_tick := sb_tick s + 1\<rparr>)))"

definition seed_payment :: "User \<Rightarrow> rat \<Rightarrow> OrderStatusEnum \<Rightarrow> Transaction seed_step" where
  "seed_payment buyer orderTotal status =
     ensure transactions_table (\<lambda>t. tr_customerId t = us_id buyer \<and> tr_amount t = stored (toFixed2 orderTotal) \<and> tr_type t = TT_PAYMENT)
       (\<lambda>n u now. \<lparr>tr_id = n, tr_publicId = u, tr_customerId = us_id buyer, tr_amount = stored (toFixed2 orderTotal),
          tr_status = (if status \<in> set paidStatuses then TS_SUCCESS else TS_PENDING), tr_type = TT_PAYMENT,
          tr_createdAt = now, tr_updatedAt = now, tr_deletedAt = None\<rparr>)"

definition seed_order_details :: "Order \<Rightarrow> User \<Rightarrow> SellerOffer list \<Rightarrow> rat \<Rightarrow> unit seed_step" where
  "seed_order_details order buyer items orderTotal =
     and_then (for_each (enumerate 0 items) (seed_line order)) (\<lambda>_.
     and_then (open_account_row (us_id buyer)) (\<lambda>_.
     and_then (seed_payment buyer orderTotal (or_status order)) (\<lambda>_. return_step ())))"

definition seed_new_order :: "User list \<Rightarrow> SellerOffer list \<Rightarrow> nat \<Rightarrow> unit seed_step" where
  "seed_new_order buyers offerRows i =
     (let buyer = buyers ! (i mod length buyers);
          items = [offerRows ! (i mod length offerRows), offerRows ! ((i + 3) mod length offerRows)];
          orderTotal = foldl js_add 0 (map (\<lambda>offer. money_number (so_price offer)) items)
      in and_then (seed_recipient buyer i) (\<lambda>recipient.
         and_then (save orders_table (\<lambda>n u now. \<lparr>or_id = n, or_publicId = order_publicId i, or_userId = us_id buyer,
            or_orderRecipientId = rp_id recipient, or_idempotencyKey = None, or_ownerIdentityPublicId = None,
            or_status = statuses ! (i mod length statuses), or_totalAmount = stored (toFixed2 orderTotal), or_discountAmount = stored ''0.00'',
            or_currency = UAH, or_createdAt = now, or_updatedAt = now, or_deletedAt = None\<rparr>)) (\<lambda>order.
         seed_order_details order buyer items orderTotal)))"

definition seed_order :: "User list \<Rightarrow> SellerOffer list \<Rightarrow> nat \<Rightarrow> unit seed_step" where
  "seed_order buyers offerRows i =
     and_then (findOne orders_table (\<lambda>r. or_publicId r = order_publicId i)) (\<lambda>existingOrder. case existingOrder of
        Some r \<Rightarrow> return_step ()
      | None \<Rightarrow> seed_new_order buyers offerRows i)"

text \<open>
  The last statement: the balance of every customer with a transaction that is not deleted becomes the sum of his ledger, inserted or, \<open>ON CONFLICT\<close>,
  updated.
\<close>

definition recompute_balances :: "unit seed_step" where
  "recompute_balances env s =
     (let ts = sb_transactions s; ks = customers_of ts; now = sv_now env (sb_tick s)
      in if list_ex (\<lambda>k. \<not> numeric12_2 (ledger_sum k ts)) ks then Inl NumericOutOfRange
         else Inr ((), s\<lparr>sb_accounts :=
           update_where (\<lambda>a. ac_customerId a \<in> set ks) (\<lambda>a. a\<lparr>ac_balance := ledger_sum (ac_customerId a) ts, ac_updatedAt := now\<rparr>) (sb_accounts s)
           @ map (\<lambda>k. \<lparr>ac_customerId = k, ac_balance = ledger_sum k ts, ac_createdAt = now, ac_updatedAt = now\<rparr>)
               (filter (\<lambda>k. \<not> list_ex (customer k) (sb_accounts s)) ks)\<rparr>))"

definition seed :: "unit seed_step" where
  "seed = and_then seed_categories (\<lambda>categoryRows. and_then seed_brands (\<lambda>brandRows. and_then seed_users (\<lambda>userRows.
     and_then activate_identities (\<lambda>_.
     and_then (seed_sellers (take SELLERS userRows)) (\<lambda>sellerRows.
     and_then (seed_products categoryRows brandRows) (\<lambda>variantRows.
     and_then (seed_offers sellerRows variantRows) (\<lambda>offerRows.
     and_then (for_each [0..<ORDERS] (seed_order (drop SELLERS userRows) offerRows)) (\<lambda>_.
     recompute_balances))))))))"

subsection \<open>Steps that stay done\<close>

text \<open>The documented form of an argon2id hash, which the code tests for.\<close>

definition hashes :: "seed_env \<Rightarrow> bool" where
  "hashes env \<longleftrightarrow> (\<forall>p. starts_with (sv_hash env p) ''$argon2id$'')"

text \<open>
  \<open>R\<close> says how the database may have grown, \<open>I\<close> what holds of it throughout. A \<open>growing\<close> step only grows it; a \<open>settled\<close> one, run again on
  whatever its result has grown into, finds the same value and writes nothing.
\<close>

definition growing :: "(seed_db \<Rightarrow> seed_db \<Rightarrow> bool) \<Rightarrow> (seed_db \<Rightarrow> bool) \<Rightarrow> 'a seed_step \<Rightarrow> bool" where
  "growing R I f \<longleftrightarrow> (\<forall>env s v s1. hashes env \<longrightarrow> I s \<longrightarrow> f env s = Inr (v, s1) \<longrightarrow> R s s1)"

definition settled :: "(seed_db \<Rightarrow> seed_db \<Rightarrow> bool) \<Rightarrow> (seed_db \<Rightarrow> bool) \<Rightarrow> 'a seed_step \<Rightarrow> bool" where
  "settled R I f \<longleftrightarrow> (\<forall>env s v s1. hashes env \<longrightarrow> I s \<longrightarrow> f env s = Inr (v, s1) \<longrightarrow>
     R s s1 \<and> (\<forall>env' s2. R s1 s2 \<longrightarrow> f env' s2 = Inr (v, s2)))"

definition append_only :: "(seed_db \<Rightarrow> seed_db \<Rightarrow> bool) \<Rightarrow> (seed_db \<Rightarrow> bool) \<Rightarrow> 'r seed_table \<Rightarrow> bool" where
  "append_only R I t \<longleftrightarrow> (\<forall>s s'. R s s' \<longrightarrow> prefix (st_rows t s) (st_rows t s'))
     \<and> (\<forall>s r. st_rows t (insert_row t r s) = st_rows t s @ [r])
     \<and> (\<forall>s r. I s \<longrightarrow> st_fault t r s = None \<longrightarrow> R s (insert_row t r s))"

lemma and_then_Inr:
  "and_then f g env s = Inr (v, s2) \<longleftrightarrow> (\<exists>x s1. f env s = Inr (x, s1) \<and> g x env s1 = Inr (v, s2))"
  by (auto simp: and_then_def split: sum.split)

lemma and_then_assoc: "and_then (and_then f g) h = and_then f (\<lambda>x. and_then (g x) h)"
  by (auto simp: and_then_def fun_eq_iff split: sum.split)

lemma and_then_return: "and_then (return_step x) f = f x"
  by (simp add: and_then_def return_step_def fun_eq_iff)

lemma find_row_prefix: "find_row p xs = Some r \<Longrightarrow> prefix xs ys \<Longrightarrow> find_row p ys = Some r"
  by (auto simp: prefix_def find_row_append)

lemma save_Inr:
  "save t mk env s = Inr (v, s1) \<longleftrightarrow>
     v = mk (sv_id env (sb_tick s)) (sv_uuid env (sb_tick s)) (sv_now env (sb_tick s)) \<and> st_fault t v s = None \<and> s1 = insert_row t v s"
  by (auto simp: save_def Let_def split: option.split)

locale growth =
  fixes R :: "seed_db \<Rightarrow> seed_db \<Rightarrow> bool" and I :: "seed_db \<Rightarrow> bool"
  assumes refl: "R s s" and trans: "R s t \<Longrightarrow> R t u \<Longrightarrow> R s u" and keeps: "R s t \<Longrightarrow> I s \<Longrightarrow> I t"
begin

lemma settled_growing: "settled R I f \<Longrightarrow> growing R I f"
  by (auto simp: settled_def growing_def)

lemma growing_bind:
  assumes "growing R I f" and "\<And>x. growing R I (g x)"
  shows "growing R I (and_then f g)"
  using assms unfolding growing_def and_then_Inr by (meson trans keeps)

lemma settled_bind:
  assumes "settled R I f" and "\<And>x. settled R I (g x)"
  shows "settled R I (and_then f g)"
  unfolding settled_def
proof (intro allI impI)
  fix env s v s2 assume h: "hashes env" "I s" and "and_then f g env s = Inr (v, s2)"
  then obtain x s1 where f: "f env s = Inr (x, s1)" and g: "g x env s1 = Inr (v, s2)" by (auto simp: and_then_Inr)
  from assms(1) h f have f1: "R s s1" and f2: "\<And>env' t. R s1 t \<Longrightarrow> f env' t = Inr (x, t)" unfolding settled_def by blast+
  from assms(2)[of x] h(1) keeps[OF f1 h(2)] g have g1: "R s1 s2" and g2: "\<And>env' t. R s2 t \<Longrightarrow> g x env' t = Inr (v, t)"
    unfolding settled_def by blast+
  have "and_then f g env' t = Inr (v, t)" if "R s2 t" for env' t
    using f2[OF trans[OF g1 that]] g2[OF that] by (auto simp: and_then_Inr)
  with trans[OF f1 g1] show "R s s2 \<and> (\<forall>env' t. R s2 t \<longrightarrow> and_then f g env' t = Inr (v, t))" by blast
qed

lemma settled_return: "settled R I (return_step x)"
  by (simp add: settled_def return_step_def refl)

lemma growing_return: "growing R I (return_step x)"
  by (rule settled_growing[OF settled_return])

lemma growing_for_each: "(\<And>x. growing R I (f x)) \<Longrightarrow> growing R I (for_each xs f)"
  by (induction xs) (auto intro: growing_return growing_bind)

lemma settled_for_each: "(\<And>x. settled R I (f x)) \<Longrightarrow> settled R I (for_each xs f)"
  by (induction xs) (auto intro: settled_return settled_bind)

lemma settled_collect: "(\<And>rs x. settled R I (f rs x)) \<Longrightarrow> settled R I (collect rows xs f)"
  by (induction xs arbitrary: rows) (auto intro: settled_return settled_bind)

lemma growing_save: "append_only R I t \<Longrightarrow> growing R I (save t mk)"
  by (auto simp: growing_def save_Inr append_only_def)

lemma settled_ensure:
  assumes t: "append_only R I t" and own: "\<And>n u now. st_live t (mk n u now) \<and> wh (mk n u now)"
  shows "settled R I (ensure t wh mk)"
  unfolding settled_def
proof (intro allI impI)
  let ?p = "\<lambda>r. st_live t r \<and> wh r"
  fix env s v s1 assume h: "hashes env" "I s" and run: "ensure t wh mk env s = Inr (v, s1)"
  have "R s s1 \<and> find_row ?p (st_rows t s1) = Some v"
  proof (cases "find_row ?p (st_rows t s)")
    case None
    with run have saved: "v = mk (sv_id env (sb_tick s)) (sv_uuid env (sb_tick s)) (sv_now env (sb_tick s))"
      "st_fault t v s = None" "s1 = insert_row t v s"
      by (auto simp: ensure_def and_then_Inr findOne_def save_Inr)
    with t h None own show ?thesis by (auto simp: append_only_def find_row_append)
  next
    case (Some r)
    with run show ?thesis by (auto simp: ensure_def and_then_Inr findOne_def return_step_def refl)
  qed
  moreover have "ensure t wh mk env' s2 = Inr (v, s2)" if "R s1 s2" "find_row ?p (st_rows t s1) = Some v" for env' s2
    using find_row_prefix[OF that(2)] t that(1)
    by (auto simp: append_only_def ensure_def and_then_Inr findOne_def return_step_def)
  ultimately show "R s s1 \<and> (\<forall>env' s2. R s1 s2 \<longrightarrow> ensure t wh mk env' s2 = Inr (v, s2))" by blast
qed

text \<open>A step guarded by the row it ends up writing.\<close>

lemma settled_guarded:
  assumes t: "append_only R I t" and body: "growing R I f"
    and writes: "\<And>env s s1. hashes env \<Longrightarrow> I s \<Longrightarrow> f env s = Inr ((), s1) \<Longrightarrow> \<exists>r\<in>set (st_rows t s1). st_live t r \<and> wh r"
  shows "settled R I (and_then (findOne t wh) (\<lambda>found. case found of Some r \<Rightarrow> return_step () | None \<Rightarrow> f))"
    (is "settled R I ?g")
  unfolding settled_def
proof (intro allI impI)
  let ?p = "\<lambda>r. st_live t r \<and> wh r"
  fix env s v s1 assume h: "hashes env" "I s" and run: "?g env s = Inr (v, s1)"
  have "R s s1 \<and> find_row ?p (st_rows t s1) \<noteq> None"
  proof (cases "find_row ?p (st_rows t s)")
    case None
    with run have f: "f env s = Inr ((), s1)" by (auto simp: and_then_Inr findOne_def)
    with body h have "R s s1" by (auto simp: growing_def)
    with writes[OF h f] show ?thesis by (auto simp: find_row_None)
  next
    case (Some r)
    with run show ?thesis by (auto simp: and_then_Inr findOne_def return_step_def refl)
  qed
  moreover have "?g env' s2 = Inr (v, s2)" if "R s1 s2" "find_row ?p (st_rows t s1) \<noteq> None" for env' s2
    using that t find_row_prefix[of ?p "st_rows t s1" _ "st_rows t s2"]
    by (auto simp: append_only_def and_then_Inr findOne_def return_step_def)
  ultimately show "R s s1 \<and> (\<forall>env' s2. R s1 s2 \<longrightarrow> ?g env' s2 = Inr (v, s2))" by blast
qed

end

subsection \<open>How the seed grows the database\<close>

text \<open>Rows are appended and stay as they are, but for the passwords and activations of identities and the balances of accounts.\<close>

definition same_login :: "Identity \<Rightarrow> Identity \<Rightarrow> bool" where
  "same_login i j \<longleftrightarrow> id_id i = id_id j \<and> id_email i = id_email j \<and> id_deletedAt i = id_deletedAt j \<and> (argon2id i \<longrightarrow> argon2id j)"

definition extends :: "('r \<Rightarrow> 'r \<Rightarrow> bool) \<Rightarrow> 'r list \<Rightarrow> 'r list \<Rightarrow> bool" where
  "extends P xs ys \<longleftrightarrow> list_all2 P xs (take (length xs) ys)"

definition linked :: "seed_db \<Rightarrow> bool" where
  "linked s \<longleftrightarrow> pt_productId ` set (sb_productTranslations s) \<subseteq> pr_id ` set (sb_products s)"

definition grows :: "seed_db \<Rightarrow> seed_db \<Rightarrow> bool" where
  "grows s t \<longleftrightarrow> prefix (sb_categories s) (sb_categories t) \<and> prefix (sb_categoryTranslations s) (sb_categoryTranslations t)
     \<and> prefix (sb_brands s) (sb_brands t) \<and> prefix (sb_brandTranslations s) (sb_brandTranslations t)
     \<and> extends same_login (sb_identities s) (sb_identities t) \<and> prefix (sb_addresses s) (sb_addresses t)
     \<and> prefix (sb_users s) (sb_users t) \<and> prefix (sb_sellers s) (sb_sellers t) \<and> prefix (sb_products s) (sb_products t)
     \<and> prefix (sb_productTranslations s) (sb_productTranslations t) \<and> prefix (sb_variants s) (sb_variants t)
     \<and> prefix (sb_offers s) (sb_offers t) \<and> prefix (sb_recipients s) (sb_recipients t) \<and> prefix (sb_orders s) (sb_orders t)
     \<and> prefix (sb_lines s) (sb_lines t) \<and> prefix (sb_transactions s) (sb_transactions t) \<and> (linked s \<longrightarrow> linked t)"

definition rests :: "seed_db \<Rightarrow> seed_db \<Rightarrow> bool" where
  "rests s t \<longleftrightarrow> grows s t \<and> sb_identities t = sb_identities s"

lemma same_login_refl [simp]: "same_login i i"
  by (simp add: same_login_def)

lemma same_login_trans: "same_login i j \<Longrightarrow> same_login j k \<Longrightarrow> same_login i k"
  by (auto simp: same_login_def)

lemma extends_refl [simp]: "extends same_login xs xs"
  by (simp add: extends_def list_all2_same)

lemma extends_append [simp]: "extends same_login xs (xs @ ys)"
  by (simp add: extends_def list_all2_same)

lemma extends_update: "(\<And>r. same_login r (f r)) \<Longrightarrow> extends same_login xs (update_where p f xs)"
  by (simp add: extends_def update_where_def list_all2_conv_all_nth)

lemma extends_nth: "extends P xs ys \<longleftrightarrow> length xs \<le> length ys \<and> (\<forall>i<length xs. P (xs ! i) (ys ! i))"
  by (auto simp: extends_def list_all2_conv_all_nth)

lemma extends_trans:
  assumes "extends same_login xs ys" and "extends same_login ys zs"
  shows "extends same_login xs zs"
  unfolding extends_nth
proof (intro conjI allI impI)
  show "length xs \<le> length zs" using assms by (simp add: extends_nth)
next
  fix i assume "i < length xs"
  with assms have "same_login (xs ! i) (ys ! i)" "same_login (ys ! i) (zs ! i)" by (simp_all add: extends_nth)
  then show "same_login (xs ! i) (zs ! i)" by (rule same_login_trans)
qed

lemma extends_find:
  assumes "extends P xs ys" and "\<And>x y. P x y \<Longrightarrow> p x = p y" and "find_row p xs = Some x"
  shows "\<exists>y. find_row p ys = Some y \<and> P x y"
proof -
  have found: "find_row p xs = Some x \<Longrightarrow> list_all2 P xs zs \<Longrightarrow> \<exists>y. find_row p zs = Some y \<and> P x y" for zs
  proof (induction xs arbitrary: zs)
    case (Cons a xs)
    then obtain b zs' where zs: "zs = b # zs'" "P a b" "list_all2 P xs zs'" by (auto simp: list_all2_Cons1)
    show ?case
    proof (cases "p a")
      case True
      with Cons.prems(1) assms(2)[OF zs(2)] zs(1,2) show ?thesis by simp
    next
      case False
      with Cons.IH[of zs'] Cons.prems(1) assms(2)[OF zs(2)] zs(1,3) show ?thesis by simp
    qed
  qed simp
  from found[OF assms(3) assms(1)[unfolded extends_def]] obtain y where "find_row p (take (length xs) ys) = Some y" "P x y"
    by (elim exE conjE)
  with find_row_prefix[OF this(1) take_is_prefix] show ?thesis by (intro exI conjI)
qed

lemma linked_keys: "linked s \<Longrightarrow> t \<in> set (sb_productTranslations s) \<Longrightarrow> pt_productId t \<in> pr_id ` set (sb_products s)"
  by (auto simp: linked_def)

lemma grows_trans: "grows s t \<Longrightarrow> grows t u \<Longrightarrow> grows s u"
  unfolding grows_def
  by (elim conjE, intro conjI; (erule (1) prefix_order.trans | erule (1) extends_trans | simp))

lemma grows_linked: "grows s t \<Longrightarrow> linked s \<Longrightarrow> linked t"
  by (simp add: grows_def)

interpretation gr: growth grows linked
  by unfold_locales (simp add: grows_def, erule (1) grows_trans, erule (1) grows_linked)

lemma rests_refl: "rests s s" by (simp add: rests_def gr.refl)

lemma rests_trans: "rests s t \<Longrightarrow> rests t u \<Longrightarrow> rests s u"
  by (auto simp: rests_def intro: grows_trans)

lemma rests_linked: "rests s t \<Longrightarrow> linked s \<Longrightarrow> linked t"
  by (auto simp: rests_def intro: grows_linked)

interpretation re: growth rests linked
  by unfold_locales (rule rests_refl, erule (1) rests_trans, erule (1) rests_linked)

subsection \<open>Every step is settled\<close>

named_theorems seed_tables \<open>the tables of the seed\<close>

declare categories_table_def [seed_tables] categoryTranslations_table_def [seed_tables] brands_table_def [seed_tables]
  brandTranslations_table_def [seed_tables] identities_table_def [seed_tables] addresses_table_def [seed_tables] users_table_def [seed_tables]
  sellers_table_def [seed_tables] products_table_def [seed_tables] productTranslations_table_def [seed_tables] variants_table_def [seed_tables]
  offers_table_def [seed_tables] recipients_table_def [seed_tables] orders_table_def [seed_tables] lines_table_def [seed_tables]
  transactions_table_def [seed_tables]

lemma linked_append:
  "linked (insert_row products_table r s) \<longleftrightarrow> pt_productId ` set (sb_productTranslations s) \<subseteq> insert (pr_id r) (pr_id ` set (sb_products s))"
  by (simp add: linked_def insert_row_def products_table_def)

lemma append_only_grows:
  "append_only grows linked categories_table" "append_only grows linked categoryTranslations_table"
  "append_only grows linked brands_table" "append_only grows linked brandTranslations_table"
  "append_only grows linked addresses_table" "append_only grows linked users_table"
  by (simp_all add: append_only_def seed_tables insert_row_def grows_def linked_def)

lemma append_only_rests:
  "append_only rests linked sellers_table" "append_only rests linked variants_table" "append_only rests linked offers_table"
  "append_only rests linked recipients_table" "append_only rests linked orders_table" "append_only rests linked lines_table"
  "append_only rests linked transactions_table"
  by (simp_all add: append_only_def seed_tables insert_row_def rests_def grows_def linked_def)

lemma append_only_products: "append_only rests linked products_table"
  by (auto simp: append_only_def products_table_def insert_row_def rests_def grows_def linked_def)

lemma append_only_productTranslations: "append_only rests linked productTranslations_table"
  by (simp add: append_only_def productTranslations_table_def insert_row_def rests_def grows_def linked_def)

lemma settled_seed_categories: "settled grows linked seed_categories"
  unfolding seed_categories_def seed_category_def seed_categoryTranslations_def Let_def
  by (intro gr.settled_collect gr.settled_bind gr.settled_for_each gr.settled_return gr.settled_ensure append_only_grows)
    (simp_all add: seed_tables live_row_def)

lemma settled_seed_brands: "settled grows linked seed_brands"
  unfolding seed_brands_def seed_brand_def seed_brandTranslations_def Let_def
  by (intro gr.settled_collect gr.settled_bind gr.settled_for_each gr.settled_return gr.settled_ensure append_only_grows)
    (simp_all add: seed_tables live_row_def)

lemma settled_seed_sellers: "settled rests linked (seed_sellers us)"
  unfolding seed_sellers_def
  by (intro re.settled_collect re.settled_ensure append_only_rests) (simp_all add: seed_tables live_row_def)

lemma settled_seed_offers: "settled rests linked (seed_offers ss vs)"
  unfolding seed_offers_def seed_offer_def Let_def
  by (intro re.settled_collect re.settled_ensure append_only_rests) (simp_all add: seed_tables live_row_def)

text \<open>
  A product is found by its English title, but the title is ensured by the id of the product: only because no title can belong to a product that
  does not exist yet (\<open>linked\<close>, the foreign key) does a new product get the title it is found by.
\<close>

lemma settled_ensure_title: "settled rests linked (ensure_title p l t d)"
  unfolding ensure_title_def
  by (intro re.settled_ensure append_only_productTranslations) (simp_all add: seed_tables)

lemma rests_tables:
  assumes "rests s t"
  shows "prefix (sb_productTranslations s) (sb_productTranslations t)" and "prefix (sb_products s) (sb_products t)"
  using assms by (simp_all add: rests_def grows_def)

lemma settled_seed_title: "settled rests linked (seed_title cats brands i)"
  unfolding settled_def
proof (intro allI impI)
  let ?title = "product_title i"
  let ?p = "\<lambda>t. pt_deletedAt t = None \<and> pt_title t = ?title \<and> pt_language t = Lang_en"
  let ?ensure = "\<lambda>p. ensure_title (pr_id p) Lang_en ?title (Some (product_description i))"
  fix env s p s1 assume h: "hashes env" "linked s" and run: "seed_title cats brands i env s = Inr (p, s1)"
  have "\<exists>t title. rests s s1 \<and> find_row ?p (sb_productTranslations s1) = Some t
      \<and> find_row (\<lambda>q. pr_deletedAt q = None \<and> pr_id q = pt_productId t) (sb_products s1) = Some p
      \<and> (\<forall>env' s2. rests s1 s2 \<longrightarrow> ?ensure p env' s2 = Inr (title, s2))"
  proof (cases "find_row ?p (sb_productTranslations s)")
    case (Some t)
    then obtain title where p: "find_row (\<lambda>q. pr_deletedAt q = None \<and> pr_id q = pt_productId t) (sb_products s) = Some p"
      and en: "?ensure p env s = Inr (title, s1)"
      using run by (auto simp: seed_title_def Let_def and_then_Inr findOne_def findOneByOrFail_def return_step_def seed_tables
          split: option.splits)
    from settled_ensure_title h en have "rests s s1" and again: "\<forall>env' s2. rests s1 s2 \<longrightarrow> ?ensure p env' s2 = Inr (title, s2)"
      unfolding settled_def by blast+
    with find_row_prefix[OF Some rests_tables(1)] find_row_prefix[OF p rests_tables(2)] show ?thesis
      by (intro exI[of _ t] exI[of _ title] conjI)
  next
    case None
    then obtain s' title where p: "pr_deletedAt p = None" "st_fault products_table p s = None" "s' = insert_row products_table p s"
      and en: "?ensure p env s' = Inr (title, s1)"
      using run by (auto simp: seed_title_def Let_def and_then_Inr findOne_def save_Inr return_step_def seed_tables)
    have new: "pr_id p \<notin> pr_id ` set (sb_products s)" using p(2) by (auto simp: seed_tables list_ex_iff split: if_splits)
    with linked_keys[OF h(2)] have "find_row (\<lambda>t. pt_deletedAt t = None \<and> pt_productId t = pr_id p \<and> pt_language t = Lang_en)
        (sb_productTranslations s) = None" unfolding find_row_None by metis
    with en p(3) have title: "pt_productId title = pr_id p" "?p title" "s1 = insert_row productTranslations_table title s'"
      by (auto simp: ensure_title_def ensure_def and_then_Inr findOne_def save_Inr seed_tables insert_row_def)
    from append_only_products h p(2,3) have s': "rests s s'" by (auto simp: append_only_def)
    from settled_ensure_title h(1) rests_linked[OF s' h(2)] en have "rests s' s1"
      and again: "\<forall>env' s2. rests s1 s2 \<longrightarrow> ?ensure p env' s2 = Inr (title, s2)" unfolding settled_def by blast+
    moreover have "find_row ?p (sb_productTranslations s1) = Some title"
      using None title p(3) by (simp add: find_row_append insert_row_def seed_tables)
    moreover have "find_row (\<lambda>q. pr_deletedAt q = None \<and> pr_id q = pt_productId title) (sb_products s1) = Some p"
    proof -
      have "find_row (\<lambda>q. pr_deletedAt q = None \<and> pr_id q = pr_id p) (sb_products s) = None" using new
        unfolding find_row_None by (metis image_eqI)
      with title p(1,3) show ?thesis by (simp add: find_row_append insert_row_def seed_tables)
    qed
    ultimately show ?thesis using rests_trans[OF s'] by blast
  qed
  then obtain t title where "rests s s1" and t: "find_row ?p (sb_productTranslations s1) = Some t"
    and p: "find_row (\<lambda>q. pr_deletedAt q = None \<and> pr_id q = pt_productId t) (sb_products s1) = Some p"
    and again: "\<forall>env' s2. rests s1 s2 \<longrightarrow> ?ensure p env' s2 = Inr (title, s2)" by blast
  moreover have "seed_title cats brands i env' s2 = Inr (p, s2)" if "rests s1 s2" for env' s2
    using find_row_prefix[OF t rests_tables(1)[OF that]] find_row_prefix[OF p rests_tables(2)[OF that]] again that
    by (simp add: seed_title_def Let_def and_then_Inr findOne_def findOneByOrFail_def return_step_def seed_tables)
  ultimately show "rests s s1 \<and> (\<forall>env' s2. rests s1 s2 \<longrightarrow> seed_title cats brands i env' s2 = Inr (p, s2))" by blast
qed

lemma settled_seed_products: "settled rests linked (seed_products cs bs)"
  unfolding seed_products_def seed_product_def Let_def
  by (intro re.settled_collect re.settled_bind settled_seed_title settled_ensure_title re.settled_ensure append_only_rests)
    (simp_all add: seed_tables live_row_def)

text \<open>An order is written only when there is none with its id, which is the first thing written of it that is looked up.\<close>

lemma growing_open_account_row: "growing rests linked (open_account_row k)"
  by (auto simp: growing_def open_account_row_def Let_def rests_def grows_def linked_def split: if_splits)

lemma growing_seed_order_details: "growing rests linked (seed_order_details r u os x)"
  unfolding seed_order_details_def seed_line_def seed_payment_def case_prod_beta
  by (intro re.growing_bind re.growing_for_each re.growing_return growing_open_account_row append_only_rests
      re.settled_growing[OF re.settled_ensure]) (simp_all add: seed_tables)

lemma growing_seed_new_order: "growing rests linked (seed_new_order us os i)"
  unfolding seed_new_order_def seed_recipient_def Let_def
  by (intro re.growing_bind re.growing_save growing_seed_order_details append_only_rests)

lemma settled_seed_order: "settled rests linked (seed_order us os i)"
  unfolding seed_order_def
proof (rule re.settled_guarded[OF append_only_rests(5) growing_seed_new_order])
  fix env s s1 assume h: "hashes env" "linked s" and "seed_new_order us os i env s = Inr ((), s1)"
  then obtain recipient s2 r x where rec: "seed_recipient (us ! (i mod length us)) i env s = Inr (recipient, s2)"
    and r: "st_fault orders_table r s2 = None" "or_deletedAt r = None" "or_publicId r = order_publicId i"
    and rest: "seed_order_details r (us ! (i mod length us)) [os ! (i mod length os), os ! ((i + 3) mod length os)] x
      env (insert_row orders_table r s2) = Inr ((), s1)"
    by (auto simp: seed_new_order_def Let_def and_then_Inr save_Inr)
  from rec append_only_rests(4) h have s2: "rests s s2" by (auto simp: seed_recipient_def save_Inr append_only_def)
  with append_only_rests(5) h r(1) have "rests s2 (insert_row orders_table r s2)" "linked s2"
    by (auto simp: append_only_def intro: rests_linked)
  with growing_seed_order_details h(1) rest have "rests (insert_row orders_table r s2) s1"
    unfolding growing_def by (blast intro: rests_linked)
  then have "prefix (sb_orders (insert_row orders_table r s2)) (sb_orders s1)" by (simp add: rests_def grows_def)
  then show "\<exists>r\<in>set (st_rows orders_table s1). st_live orders_table r \<and> or_publicId r = order_publicId i"
    using r by (intro bexI[of _ r]) (auto simp: insert_row_def orders_table_def prefix_def)
qed

text \<open>A user: the identity found or written, then its profile. A later run finds the identity with the same id.\<close>

lemma same_login_live: "same_login i j \<Longrightarrow> live_identity i = live_identity j \<and> id_email i = id_email j \<and> id_id i = id_id j"
  by (auto simp: same_login_def live_identity_def)

lemma seed_identity_leaves:
  assumes "hashes env" and "linked s" and "seed_identity (sv_hash env p) i env s = Inr (identity, s1)"
  shows "grows s s1 \<and> (\<forall>pw env' s2. grows s1 s2 \<longrightarrow> (\<exists>k. id_id k = id_id identity \<and> seed_identity pw i env' s2 = Inr (k, s2)))"
proof -
  let ?email = "seed_email i"
  let ?p = "\<lambda>r. live_identity r \<and> both citext_eq (id_email r) (Some ?email)"
  have "grows s s1 \<and> (\<exists>j. find_row ?p (sb_identities s1) = Some j \<and> id_id j = id_id identity \<and> argon2id j)"
  proof (cases "find_row ?p (sb_identities s)")
    case None
    with assms(3) have new: "s1 = insert_row identities_table identity s" "?p identity" "id_passwordHash identity = Some (sv_hash env p)"
      by (auto simp: seed_identity_def Let_def and_then_Inr findOne_def save_Inr identities_table_def live_identity_def citext_eq_def)
    with None assms(1) show ?thesis
      by (auto simp: find_row_append insert_row_def identities_table_def grows_def linked_def argon2id_def hashes_def)
  next
    case (Some j)
    show ?thesis
    proof (cases "argon2id j")
      case True
      with Some assms(3) show ?thesis
        by (auto simp: seed_identity_def Let_def and_then_Inr findOne_def return_step_def identities_table_def gr.refl)
    next
      case False
      let ?f = "\<lambda>r. r\<lparr>id_passwordHash := Some (sv_hash env p), id_updatedAt := sv_now env (sb_tick s)\<rparr>"
      have f: "\<And>r. same_login r (?f r) \<and> ?p (?f r) = ?p r"
        using assms(1) by (auto simp: same_login_def argon2id_def hashes_def live_identity_def)
      from False Some assms(3) have "identity = j"
        and s1: "s1 = s\<lparr>sb_identities := update_where (\<lambda>r. id_id r = id_id j) ?f (sb_identities s)\<rparr>"
        by (auto simp: seed_identity_def Let_def and_then_Inr findOne_def return_step_def identities_table_def update_password_def)
      moreover have "grows s s1" using f by (auto simp: s1 grows_def linked_def intro: extends_update)
      moreover have "find_row ?p (sb_identities s1) = Some (?f j)"
        using find_row_update_where[of ?p ?f] f Some by (simp add: s1)
      moreover have "argon2id (?f j)" using assms(1) by (simp add: argon2id_def hashes_def)
      ultimately show ?thesis by auto
    qed
  qed
  then obtain j where "grows s s1" and j: "find_row ?p (sb_identities s1) = Some j" "id_id j = id_id identity" "argon2id j" by blast
  moreover have "\<exists>k. id_id k = id_id identity \<and> seed_identity pw i env' s2 = Inr (k, s2)" if "grows s1 s2" for pw env' s2
  proof -
    from that have ext: "extends same_login (sb_identities s1) (sb_identities s2)" by (simp add: grows_def)
    have "\<And>x y. same_login x y \<Longrightarrow> ?p x = ?p y" by (simp add: same_login_live)
    from extends_find[OF ext this j(1)] obtain k where "find_row ?p (sb_identities s2) = Some k" "same_login j k" by blast
    with j(2,3) show ?thesis
      by (intro exI[of _ k])
        (auto simp: seed_identity_def Let_def and_then_Inr findOne_def return_step_def identities_table_def same_login_def)
  qed
  ultimately show ?thesis by blast
qed

lemma settled_seed_profile:
  assumes "hashes env" and "linked s" and "seed_profile i identity env s = Inr (u, s1)"
  shows "grows s s1 \<and> (\<forall>k env' s2. id_id k = id_id identity \<longrightarrow> grows s1 s2 \<longrightarrow> seed_profile i k env' s2 = Inr (u, s2))"
proof -
  let ?p = "\<lambda>u. us_deletedAt u = None \<and> us_identityId u = id_id identity"
  have "grows s s1 \<and> find_row ?p (sb_users s1) = Some u"
  proof (cases "find_row ?p (sb_users s)")
    case None
    with assms(3) obtain address s2 where a: "st_fault addresses_table address s = None" "s2 = insert_row addresses_table address s"
      and u: "st_fault users_table u s2 = None" "s1 = insert_row users_table u s2" "?p u"
      by (auto simp: seed_profile_def and_then_Inr findOne_def save_Inr users_table_def)
    have "grows s s2" using a append_only_grows(5) assms(2) by (auto simp: append_only_def)
    moreover from this have "grows s2 s1" using u append_only_grows(6) assms(2) grows_linked by (auto simp: append_only_def)
    ultimately have "grows s s1" by (rule grows_trans)
    with None a u show ?thesis by (simp add: find_row_append insert_row_def users_table_def addresses_table_def)
  next
    case (Some r)
    with assms(3) show ?thesis by (auto simp: seed_profile_def and_then_Inr findOne_def return_step_def users_table_def gr.refl)
  qed
  then have "grows s s1" and found: "find_row ?p (sb_users s1) = Some u" by blast+
  moreover have "seed_profile i k env' s2 = Inr (u, s2)" if "id_id k = id_id identity" "grows s1 s2" for k env' s2
  proof -
    from that(2) have "prefix (sb_users s1) (sb_users s2)" by (simp add: grows_def)
    from find_row_prefix[OF found this] that(1) show ?thesis
      by (simp add: seed_profile_def and_then_Inr findOne_def return_step_def users_table_def)
  qed
  ultimately show ?thesis by blast
qed

lemma settled_seed_user: "settled grows linked (\<lambda>env. and_then (seed_identity (sv_hash env p) i) (seed_profile i) env)"
  unfolding settled_def
proof (intro allI impI)
  fix env s u s1 assume h: "hashes env" "linked s" and "and_then (seed_identity (sv_hash env p) i) (seed_profile i) env s = Inr (u, s1)"
  then obtain identity s' where one: "seed_identity (sv_hash env p) i env s = Inr (identity, s')"
    and two: "seed_profile i identity env s' = Inr (u, s1)" by (auto simp: and_then_Inr)
  note first = seed_identity_leaves[OF h one]
  with h(2) grows_linked have "linked s'" by blast
  note second = settled_seed_profile[OF h(1) this two]
  have "and_then (seed_identity (sv_hash env' p) i) (seed_profile i) env' s2 = Inr (u, s2)" if "grows s1 s2" for env' s2
  proof -
    from second that have "grows s' s2" using grows_trans by blast
    with first obtain k where "id_id k = id_id identity" "seed_identity (sv_hash env' p) i env' s2 = Inr (k, s2)" by blast
    with second that show ?thesis by (auto simp: and_then_Inr)
  qed
  with first second show "grows s s1 \<and> (\<forall>env' s2. grows s1 s2 \<longrightarrow>
      and_then (seed_identity (sv_hash env' p) i) (seed_profile i) env' s2 = Inr (u, s2))" using grows_trans by blast
qed

lemma collect_env: "collect rows xs (\<lambda>rs x. f env rs x) env s = collect rows xs (\<lambda>rs x env. f env rs x env) env s"
proof (induction xs arbitrary: rows s)
  case (Cons x xs)
  then show ?case by (cases "f env rows x env s") (auto simp: and_then_def split: sum.split)
qed simp

lemma settled_seed_users: "settled grows linked seed_users"
proof -
  have users: "seed_users = collect [] [0..<SELLERS + BUYERS]
      (\<lambda>_ i env. and_then (seed_identity (sv_hash env SEED_PASSWORD) i) (seed_profile i) env)"
    by (intro ext) (simp add: seed_users_def collect_env[of _ _ "\<lambda>env _ i. and_then (seed_identity (sv_hash env SEED_PASSWORD) i) (seed_profile i)"])
  show ?thesis unfolding users by (intro gr.settled_collect settled_seed_user)
qed

subsection \<open>The second run\<close>

text \<open>The part before the identities are activated, and the part after it up to the balances.\<close>

definition seed_people :: "(Category list \<times> Brand list \<times> User list) seed_step" where
  "seed_people = and_then seed_categories (\<lambda>cs. and_then seed_brands (\<lambda>bs. and_then seed_users (\<lambda>us. return_step (cs, bs, us))))"

definition seed_goods :: "Category list \<times> Brand list \<times> User list \<Rightarrow> unit seed_step" where
  "seed_goods = (\<lambda>(cs, bs, us). and_then (seed_sellers (take SELLERS us)) (\<lambda>ss. and_then (seed_products cs bs) (\<lambda>vs.
     and_then (seed_offers ss vs) (\<lambda>os. for_each [0..<ORDERS] (seed_order (drop SELLERS us) os)))))"

lemma seed_parts:
  "seed = and_then seed_people (\<lambda>x. and_then activate_identities (\<lambda>_. and_then (seed_goods x) (\<lambda>_. recompute_balances)))"
  by (simp add: seed_def seed_people_def seed_goods_def and_then_assoc and_then_return)

lemma settled_seed_people: "settled grows linked seed_people"
  unfolding seed_people_def
  by (intro gr.settled_bind gr.settled_return settled_seed_categories settled_seed_brands settled_seed_users)

lemma settled_seed_goods: "settled rests linked (seed_goods x)"
  unfolding seed_goods_def case_prod_beta
  by (intro re.settled_bind re.settled_for_each settled_seed_sellers settled_seed_products settled_seed_offers settled_seed_order)

definition activate :: "time \<Rightarrow> Identity list \<Rightarrow> Identity list" where
  "activate now = update_where (\<lambda>r. id_activatedAt r = None) (\<lambda>r. r\<lparr>id_activatedAt := Some (id_createdAt r), id_updatedAt := now\<rparr>)"

lemma activate_identities_rows:
  "activate_identities env s = Inr ((), s\<lparr>sb_identities := activate (sv_now env (sb_tick s)) (sb_identities s)\<rparr>)"
  by (simp add: activate_identities_def activate_def)

lemma activate_extends: "extends same_login xs (activate now xs)"
  unfolding activate_def by (rule extends_update) (simp add: same_login_def argon2id_def)

lemma activate_twice: "activate now' (activate now xs) = activate now xs"
  unfolding activate_def by (induction xs) auto

lemma activate_grows: "activate_identities env s = Inr ((), s') \<Longrightarrow> grows s s'"
  by (clarsimp simp: activate_identities_rows grows_def activate_extends linked_def)

lemma activate_activated:
  assumes "activate_identities env s = Inr ((), s')" and "sb_identities t = sb_identities s'"
  shows "activate_identities env' t = Inr ((), t)"
proof -
  have "activate now (sb_identities t) = sb_identities t" for now
    using assms by (auto simp: activate_identities_rows activate_twice)
  then show ?thesis by (simp add: activate_identities_rows)
qed

lemma recompute_again:
  assumes "recompute_balances env s = Inr ((), s')"
  shows "recompute_balances env' s' = Inr ((), s'\<lparr>sb_accounts := update_where (\<lambda>a. ac_customerId a \<in> set (customers_of (sb_transactions s')))
      (\<lambda>a. a\<lparr>ac_updatedAt := sv_now env' (sb_tick s')\<rparr>) (sb_accounts s')\<rparr>)"
    and "rests s s'"
    and "\<forall>k\<in>set (customers_of (sb_transactions s')). k \<in> ac_customerId ` set (sb_accounts s')"
    and "\<forall>a\<in>set (sb_accounts s'). ac_customerId a \<in> set (customers_of (sb_transactions s')) \<longrightarrow>
      ac_balance a = ledger_sum (ac_customerId a) (sb_transactions s')"
proof -
  let ?ts = "sb_transactions s" and ?old = "sb_accounts s"
  let ?ks = "customers_of ?ts" and ?now = "sv_now env (sb_tick s)"
  from assms have range: "\<not> list_ex (\<lambda>k. \<not> numeric12_2 (ledger_sum k ?ts)) ?ks"
    and s': "s' = s\<lparr>sb_accounts :=
      update_where (\<lambda>a. ac_customerId a \<in> set ?ks) (\<lambda>a. a\<lparr>ac_balance := ledger_sum (ac_customerId a) ?ts, ac_updatedAt := ?now\<rparr>) ?old
      @ map (\<lambda>k. \<lparr>ac_customerId = k, ac_balance = ledger_sum k ?ts, ac_createdAt = ?now, ac_updatedAt = ?now\<rparr>)
          (filter (\<lambda>k. \<not> list_ex (customer k) ?old) ?ks)\<rparr>"
    by (auto simp: recompute_balances_def Let_def split: if_splits)
  show ids: "\<forall>k\<in>set (customers_of (sb_transactions s')). k \<in> ac_customerId ` set (sb_accounts s')"
    by (auto simp: s' image_Un image_image image_update_where_key)
  show balances: "\<forall>a\<in>set (sb_accounts s'). ac_customerId a \<in> set (customers_of (sb_transactions s')) \<longrightarrow>
      ac_balance a = ledger_sum (ac_customerId a) (sb_transactions s')"
  proof -
    let ?P = "\<lambda>a. ac_customerId a \<in> set ?ks \<longrightarrow> ac_balance a = ledger_sum (ac_customerId a) ?ts"
    have "\<forall>a\<in>set (update_where (\<lambda>a. ac_customerId a \<in> set ?ks)
        (\<lambda>a. a\<lparr>ac_balance := ledger_sum (ac_customerId a) ?ts, ac_updatedAt := ?now\<rparr>) ?old). ?P a"
      by (rule update_where_all) simp
    then show ?thesis by (auto simp: s')
  qed
  show "rests s s'" by (simp add: s' rests_def grows_def linked_def)
  have "update_where (\<lambda>a. ac_customerId a \<in> set (customers_of (sb_transactions s')))
      (\<lambda>a. a\<lparr>ac_balance := ledger_sum (ac_customerId a) (sb_transactions s'), ac_updatedAt := sv_now env' (sb_tick s')\<rparr>) (sb_accounts s')
    = update_where (\<lambda>a. ac_customerId a \<in> set (customers_of (sb_transactions s')))
      (\<lambda>a. a\<lparr>ac_updatedAt := sv_now env' (sb_tick s')\<rparr>) (sb_accounts s')"
    using balances unfolding update_where_def by (intro map_cong) auto
  moreover have "filter (\<lambda>k. \<not> list_ex (customer k) (sb_accounts s')) (customers_of (sb_transactions s')) = []"
    using ids by (simp add: filter_empty_conv)
  moreover have "sb_transactions s' = ?ts" by (simp add: s')
  ultimately show "recompute_balances env' s' = Inr ((), s'\<lparr>sb_accounts := update_where (\<lambda>a. ac_customerId a \<in> set (customers_of (sb_transactions s')))
      (\<lambda>a. a\<lparr>ac_updatedAt := sv_now env' (sb_tick s')\<rparr>) (sb_accounts s')\<rparr>)"
    using range by (simp add: recompute_balances_def Let_def)
qed

text \<open>
  C18. Run again after a success, with other clocks, sequences and salts, the seed changes nothing but \<open>updatedAt\<close> of the accounts it
  recomputes; the balance of every customer with transactions is then the sum of his ledger. It needs only that every product
  title belonged to a product before, which a foreign key ensures.
\<close>

theorem seed_idempotent:
  assumes "hashes env" and "linked s" and "seed env s = Inr ((), s1)"
  shows "seed env' s1 = Inr ((), s1\<lparr>sb_accounts := update_where (\<lambda>a. ac_customerId a \<in> set (customers_of (sb_transactions s1)))
        (\<lambda>a. a\<lparr>ac_updatedAt := sv_now env' (sb_tick s1)\<rparr>) (sb_accounts s1)\<rparr>)
    \<and> (\<forall>k\<in>set (customers_of (sb_transactions s1)). k \<in> ac_customerId ` set (sb_accounts s1))
    \<and> (\<forall>a\<in>set (sb_accounts s1). ac_customerId a \<in> set (customers_of (sb_transactions s1)) \<longrightarrow>
        ac_balance a = ledger_sum (ac_customerId a) (sb_transactions s1))"
proof -
  from assms(3) obtain x sa sb sc where people: "seed_people env s = Inr (x, sa)" and act: "activate_identities env sa = Inr ((), sb)"
    and goods: "seed_goods x env sb = Inr ((), sc)" and last: "recompute_balances env sc = Inr ((), s1)"
    unfolding seed_parts and_then_Inr by (metis old.unit.exhaust)
  from settled_seed_people assms(1,2) people have "grows s sa" and again1: "\<And>t. grows sa t \<Longrightarrow> seed_people env' t = Inr (x, t)"
    unfolding settled_def by blast+
  from activate_grows[OF act] have "grows sa sb" .
  with \<open>grows s sa\<close> assms(2) have "linked sb" using grows_linked by blast
  from settled_seed_goods assms(1) this goods have "rests sb sc" and again2: "\<And>t. rests sc t \<Longrightarrow> seed_goods x env' t = Inr ((), t)"
    unfolding settled_def by blast+
  note again3 = recompute_again(1)[OF last] and balances = recompute_again(2-4)[OF last]
  have "rests sb s1" using \<open>rests sb sc\<close> balances(1) by (rule rests_trans)
  then have "grows sa s1" and "sb_identities s1 = sb_identities sb"
    using \<open>grows sa sb\<close> grows_trans by (auto simp: rests_def)
  then have "seed env' s1 = recompute_balances env' s1"
    unfolding seed_parts by (simp add: and_then_def again1 activate_activated[OF act] again2[OF balances(1)])
  with again3 balances(2,3) show ?thesis by (intro conjI; simp only:)
qed

end
