(* ===== verification/Seed_Run.thy ===== *)
theory Seed_Run
  imports Seed
begin

section \<open>The seed on a fresh database\<close>

text \<open>
  The whole seed, evaluated on the empty tables that the migrations leave: the witness that \<open>seed_idempotent\<close> is not vacuous, and what the
  seeded data look like to the services. Each phase is evaluated on its own, on a database of which only the tables it reads are known.
\<close>

subsection \<open>A fresh database\<close>

definition empty_seed_db :: seed_db where
  "empty_seed_db = \<lparr>sb_categories = [], sb_categoryTranslations = [], sb_brands = [], sb_brandTranslations = [], sb_identities = [],
     sb_addresses = [], sb_users = [], sb_sellers = [], sb_products = [], sb_productTranslations = [], sb_variants = [], sb_offers = [],
     sb_recipients = [], sb_orders = [], sb_lines = [], sb_accounts = [], sb_transactions = [], sb_tick = 0\<rparr>"

definition demo_seed_env :: seed_env where
  "demo_seed_env = \<lparr>sv_id = (\<lambda>n. int n + 1), sv_uuid = show_nat, sv_now = (\<lambda>n. 1700000000000 + int n),
     sv_hash = (\<lambda>p. ''$argon2id$'' @ p)\<rparr>"

definition seed_counts :: "seed_db \<Rightarrow> nat list" where
  "seed_counts s = [length (sb_categories s), length (sb_categoryTranslations s), length (sb_brands s), length (sb_brandTranslations s),
     length (sb_identities s), length (sb_users s), length (sb_sellers s), length (sb_products s), length (sb_productTranslations s),
     length (sb_variants s), length (sb_offers s), length (sb_orders s), length (sb_lines s), length (sb_transactions s)]"


subsection \<open>Facts about the texts and amounts\<close>

lemma offer_price_eval: "offer_price i = 10000 + 2500 * int i"
proof -
  have "(of_nat (100 + i * 25) :: rat) = of_int (10000 + 2500 * int i) / 100" by simp
  then show ?thesis by (simp only: offer_price_def stored_def pg_cents_toFixed2 option.case cents_exact)
qed

lemma offer_discountPrice_eval: "offer_discountPrice i = (if i mod 3 = 0 then Some (9000 + 2500 * int i) else None)"
proof -
  have "(of_nat (90 + i * 25) :: rat) = of_int (9000 + 2500 * int i) / 100" by simp
  then show ?thesis by (simp only: offer_discountPrice_def stored_def pg_cents_toFixed2 option.case cents_exact)
qed

lemma money_number_error: "0 \<le> c \<Longrightarrow> c \<le> 10 ^ 12 \<Longrightarrow> \<bar>money_number c - of_int c / 100\<bar> \<le> 1 / 800000"
proof -
  assume "0 \<le> c" "c \<le> 10 ^ 12"
  then have "\<bar>(of_int c :: rat) / 100\<bar> \<le> 10 ^ 10 + 1"
    using of_int_le_iff[of c "10 ^ 12", where 'a = rat] by simp
  from to_double_money[OF this] show ?thesis by (simp add: money_number_def)
qed

lemma two_prices:
  assumes "0 \<le> a" "0 \<le> b" "a + b \<le> 10 ^ 12"
  shows "stored (toFixed2 (js_add (js_add 0 (money_number a)) (money_number b))) = a + b"
proof -
  let ?as = "[money_number a, money_number b]" and ?bs = "[of_int a / 100, of_int b / 100] :: rat list"
  have "list_all2 (\<lambda>a b. 0 \<le> b \<and> \<bar>a - b\<bar> \<le> 1 / 140000) ?as ?bs"
    using assms money_number_error[of a] money_number_error[of b] by simp
  moreover have "(0::rat) + sum_list ?bs \<le> 10 ^ 10"
    using assms(3) of_int_le_iff[of "a + b" "10 ^ 12", where 'a = rat] by simp
  ultimately have "\<bar>foldl js_add 0 ?as - (0 + sum_list ?bs)\<bar> \<le> of_nat (0 + length ?as) / 115000"
    by (intro js_sum_error) simp_all
  then have "cents (js_add (js_add 0 (money_number a)) (money_number b)) = a + b"
    by (intro cents_near) (simp add: add_divide_distrib)
  then show ?thesis by (simp add: stored_def)
qed

lemma stored_zero: "stored ''0.00'' = 0"
  by code_simp

lemma texts_inject:
  "category_slug i = category_slug j \<longleftrightarrow> i = j" "brand_slug i = brand_slug j \<longleftrightarrow> i = j" "product_slug i = product_slug j \<longleftrightarrow> i = j"
  "product_title i = product_title j \<longleftrightarrow> i = j" "seller_sku i = seller_sku j \<longleftrightarrow> i = j"
  "product_title i \<noteq> product_title_ua j" "product_title_ua i \<noteq> product_title j" "show_nat i = show_nat j \<longleftrightarrow> i = j"
  "ph_fullNumber (phoneFor i) = ph_fullNumber (phoneFor j) \<longleftrightarrow> i = j"
  by (simp_all add: category_slug_def brand_slug_def product_slug_def product_title_def seller_sku_def product_title_ua_def
      show_nat_inject phoneFor_def Let_def)

lemma all_below: "list_all P [0..<n] \<Longrightarrow> i < n \<Longrightarrow> P i"
  by (simp add: list_all_iff)

lemma catalog_texts:
  "i < 6 \<Longrightarrow> slug_format (category_slug i) \<and> length (category_slug i) \<le> 120
    \<and> list_all (\<lambda>l. not_blank (category_name i l) \<and> length (category_name i l) \<le> 255) [Lang_en, Lang_ua]"
  "i < 5 \<Longrightarrow> slug_format (brand_slug i) \<and> length (brand_slug i) \<le> 120
    \<and> list_all (\<lambda>l. not_blank (brand_name i l) \<and> length (brand_name i l) \<le> 255) [Lang_en, Lang_ua]"
  "i < 8 \<Longrightarrow> length (product_title i) \<le> 255 \<and> not_blank (product_title i) \<and> length (product_title_ua i) \<le> 255
    \<and> not_blank (product_title_ua i) \<and> length (product_slug i) \<le> 64 \<and> length (product_slug i) \<le> 120 \<and> slug_format (product_slug i) \<and> not_blank (product_slug i)"
  "i < 10 \<Longrightarrow> length (seller_sku i) \<le> 64 \<and> list_ex (\<lambda>c. c \<noteq> CHR '' '') (seller_sku i) \<and> length (seed_delivery i) \<le> 255
    \<and> length (seed_city i) \<le> 100"
  "i < 6 \<Longrightarrow> email_format (seed_email i) \<and> length (seed_street i) \<le> 255 \<and> length (seed_firstName i) = (if i < 2 then 7 else 6)"
  by (erule all_below[rotated], code_simp)+

lemmas text_facts = catalog_texts[simplified] catalog_texts[simplified, unfolded not_less[symmetric]]

lemma seed_email_inject: "i < 6 \<Longrightarrow> j < 6 \<Longrightarrow> citext_eq (seed_email i) (seed_email j) \<longleftrightarrow> i = j"
  and order_publicId_inject: "i' < 10 \<Longrightarrow> j' < 10 \<Longrightarrow> order_publicId i' = order_publicId j' \<longleftrightarrow> i' = j'"
proof -
  have "list_all (\<lambda>i. list_all (\<lambda>j. citext_eq (seed_email i) (seed_email j) = (i = j)) [0..<6]) [0..<6]" by code_simp
  then show "i < 6 \<Longrightarrow> j < 6 \<Longrightarrow> citext_eq (seed_email i) (seed_email j) \<longleftrightarrow> i = j" by (simp add: list_all_iff)
  have "list_all (\<lambda>i. list_all (\<lambda>j. (order_publicId i = order_publicId j) = (i = j)) [0..<10]) [0..<10]" by code_simp
  then show "i' < 10 \<Longrightarrow> j' < 10 \<Longrightarrow> order_publicId i' = order_publicId j' \<longleftrightarrow> i' = j'" by (simp add: list_all_iff)
qed

lemma digit_literals: "digit CHR ''3''" "digit CHR ''8''" "digit CHR ''0''"
  by code_simp+

lemma show_national: "list_all (\<lambda>i. length (show_nat (100000000 + i)) = 9) [0, 1, 2, 3, 4, 5, 100, 101, 102, 103, 104, 105, 106, 107, 108, 109]"
  by (simp add: show_nat.simps)

lemma phone_texts:
  "list_all (\<lambda>i. length (ph_rawNumber (phoneFor i)) \<le> 32 \<and> length (ph_fullNumber (phoneFor i)) \<le> 16 \<and> length (ph_nationalNumber (phoneFor i)) \<le> 15
     \<and> e164 (ph_fullNumber (phoneFor i)) \<and> national_number (ph_nationalNumber (phoneFor i)))
    [0, 1, 2, 3, 4, 5, 100, 101, 102, 103, 104, 105, 106, 107, 108, 109]"
  using show_national by (simp add: phoneFor_def Let_def e164_def national_number_def digit_literals)

lemma short_number: "n < 100 \<Longrightarrow> length (show_nat n) \<le> 32"
  using length_show_nat[of 2 n] by simp

subsection \<open>Evaluating the steps\<close>

definition run_on :: "(db_error + ('a \<times> seed_db)) \<Rightarrow> ('a \<Rightarrow> 'b seed_step) \<Rightarrow> seed_env \<Rightarrow> db_error + ('b \<times> seed_db)" where
  "run_on r g env = (case r of Inl e \<Rightarrow> Inl e | Inr (x, s) \<Rightarrow> g x env s)"

lemma run_on_simps: "run_on (Inr (x, s)) g env = g x env s" "run_on (Inl e) g env = Inl e"
  by (simp_all add: run_on_def)

lemma and_then_eval: "and_then f g env s = run_on (f env s) g env"
  by (simp add: and_then_def run_on_def)

lemma loop_eval:
  "collect rows [] f env s = Inr (rows, s)"
  "collect rows (x # xs) f env s = run_on (f rows x env s) (\<lambda>r. collect (rows @ [r]) xs f) env"
  "for_each [] g env s = Inr ((), s)"
  "for_each (x # xs) g env s = run_on (g x env s) (\<lambda>_. for_each xs g) env"
  by (simp_all add: return_step_def and_then_eval)

lemma ensure_eval: "ensure t wh mk env s =
  (case find_row (\<lambda>r. st_live t r \<and> wh r) (st_rows t s) of Some r \<Rightarrow> Inr (r, s) | None \<Rightarrow> save t mk env s)"
  by (simp add: ensure_def and_then_def findOne_def return_step_def split: option.split)

text \<open>What follows a step is not touched before the step has its result.\<close>

lemma step_congs:
  "r = r' \<Longrightarrow> run_on r g env = run_on r' g env" "and_then f h env s = and_then f h env s" "collect rows xs k env s = collect rows xs k env s"
  "xs = ys \<Longrightarrow> for_each xs l env s = for_each ys l env s" "save t mk env s = save t mk env s" "ensure t wh mk env s = ensure t wh mk env s"
  by simp_all

lemmas step_eval = run_on_simps loop_eval ensure_eval and_then_eval save_def Let_def return_step_def insert_row_def findOne_def

lemma demo_env_simps: "sv_id demo_seed_env n = int n + 1" "sv_uuid demo_seed_env n = show_nat n"
  "sv_now demo_seed_env n = 1700000000000 + int n" "length (sv_hash demo_seed_env SEED_PASSWORD) \<le> 255"
  by (simp_all add: demo_seed_env_def SEED_PASSWORD_def)

lemma upt_literals: "[0..<5] = [0, 1, 2, 3, 4::nat]" "[0..<6] = [0, 1, 2, 3, 4, 5::nat]" "[0..<8] = [0, 1, 2, 3, 4, 5, 6, 7::nat]"
  "[0..<10] = [0, 1, 2, 3, 4, 5, 6, 7, 8, 9::nat]"
  by (simp_all add: upt_rec)


definition holds :: "('a \<Rightarrow> seed_db \<Rightarrow> bool) \<Rightarrow> db_error + ('a \<times> seed_db) \<Rightarrow> bool" where
  "holds P r = (case r of Inl e \<Rightarrow> False | Inr (x, s) \<Rightarrow> P x s)"

lemma holds_simps: "holds P (Inr (x, s)) = P x s" "\<not> holds P (Inl e)"
  by (simp_all add: holds_def)

lemma holds_cong: "r = r' \<Longrightarrow> holds P r = holds P r'"
  by simp

lemma holds_then: "holds P (f env s) \<Longrightarrow> (\<And>x t. P x t \<Longrightarrow> holds Q (g x env t)) \<Longrightarrow> holds Q (and_then f g env s)"
  by (cases "f env s") (auto simp: holds_def and_then_def)

lemmas seed_constraints = live_row_def SELLERS_def BUYERS_def ORDERS_def Identity_fits_def Identity_check_def identity_clash_def
  login_phone_def user_clash_def User_check_def uint_def live_identity_def identity_create.truncate_def order_recipient_create.truncate_def
  translation_key_def numeric12_2_def amount_def SellerOffer_check_def OrderRecipient_fits_def OrderRecipient_check_def js_text_def

lemmas seed_facts = upt_literals texts_inject text_facts demo_env_simps seed_email_inject order_publicId_inject phone_texts[simplified]
  short_number offer_price_eval offer_discountPrice_eval two_prices stored_zero statuses_def paidStatuses_def customer_def

lemma run_categories:
  assumes "sb_categories s = []" "sb_categoryTranslations s = []" "sb_tick s = 0"
  shows "holds (\<lambda>cs t. t = s\<lparr>sb_categories := cs, sb_categoryTranslations := sb_categoryTranslations t, sb_tick := 18\<rparr>
    \<and> map rw_id cs = [1, 4, 7, 10, 13, 16] \<and> length (sb_categoryTranslations t) = 12) (seed_categories demo_seed_env s)"
  by (simp add: seed_categories_def seed_category_def seed_categoryTranslations_def categories_table_def categoryTranslations_table_def
      step_eval seed_constraints seed_facts holds_simps assms cong: step_congs holds_cong)

lemma run_brands:
  assumes "sb_brands s = []" "sb_brandTranslations s = []" "sb_tick s = 18"
  shows "holds (\<lambda>bs t. t = s\<lparr>sb_brands := bs, sb_brandTranslations := sb_brandTranslations t, sb_tick := 33\<rparr>
    \<and> map rw_id bs = [19, 22, 25, 28, 31] \<and> length (sb_brandTranslations t) = 10) (seed_brands demo_seed_env s)"
  by (simp add: seed_brands_def seed_brand_def seed_brandTranslations_def brands_table_def brandTranslations_table_def
      step_eval seed_constraints seed_facts holds_simps assms cong: step_congs holds_cong)

lemma run_users:
  assumes "sb_identities s = []" "sb_users s = []" "sb_addresses s = []" "sb_tick s = 33"
  shows "holds (\<lambda>us t. t = s\<lparr>sb_identities := sb_identities t, sb_addresses := sb_addresses t, sb_users := us, sb_tick := 51\<rparr>
    \<and> map us_id us = [36, 39, 42, 45, 48, 51] \<and> length (sb_identities t) = 6
    \<and> map us_firstName us = map (\<lambda>i. Some (seed_firstName i)) [0, 1, 2, 3, 4, 5] \<and> list_all (\<lambda>u. us_lastName u = Some ''Seeded'') us)
    (seed_users demo_seed_env s)"
  by (simp add: seed_users_def seed_identity_def seed_profile_def identities_table_def addresses_table_def users_table_def
      step_eval seed_constraints seed_facts holds_simps assms cong: step_congs holds_cong)

lemma run_sellers:
  assumes "us_id u = 36" "us_id v = 39" "sb_sellers s = []" "sb_tick s = 51"
  shows "holds (\<lambda>ss t. t = s\<lparr>sb_sellers := ss, sb_tick := 53\<rparr> \<and> map rw_id ss = [52, 53]) (seed_sellers [u, v] demo_seed_env s)"
  by (simp add: seed_sellers_def sellers_table_def step_eval seed_constraints seed_facts holds_simps assms cong: step_congs holds_cong)

lemma run_products:
  assumes "sb_products s = []" "sb_productTranslations s = []" "sb_variants s = []" "sb_tick s = 53"
    and "cs = [c0, c1, c2, c3, c4, c5]" "bs = [b0, b1, b2, b3, b4]" "sb_categories s = cs" "sb_brands s = bs"
  shows "holds (\<lambda>vs t. t = s\<lparr>sb_products := sb_products t, sb_productTranslations := sb_productTranslations t, sb_variants := vs, sb_tick := 85\<rparr>
    \<and> map rw_id vs = [57, 61, 65, 69, 73, 77, 81, 85] \<and> length (sb_products t) = 8 \<and> length (sb_productTranslations t) = 16)
    (seed_products cs bs demo_seed_env s)"
  by (simp add: seed_products_def seed_product_def seed_title_def ensure_title_def findOneByOrFail_def products_table_def
      productTranslations_table_def variants_table_def step_eval seed_constraints seed_facts holds_simps assms cong: step_congs holds_cong)

lemma run_offers:
  assumes "sb_offers s = []" "sb_tick s = 85" "sb_sellers s = [x, y]" "rw_id x = 52" "rw_id y = 53"
    and "vs = [v0, v1, v2, v3, v4, v5, v6, v7]" "map rw_id vs = [57, 61, 65, 69, 73, 77, 81, 85]"
  shows "holds (\<lambda>os t. t = s\<lparr>sb_offers := os, sb_tick := 95\<rparr>
    \<and> map so_id os = [86, 87, 88, 89, 90, 91, 92, 93, 94, 95]
    \<and> map so_price os = [10000, 12500, 15000, 17500, 20000, 22500, 25000, 27500, 30000, 32500]
    \<and> map so_discountPrice os = [Some 9000, None, None, Some 16500, None, None, Some 24000, None, None, Some 31500])
    (seed_offers [x, y] vs demo_seed_env s)"
  using assms(7) unfolding assms(6)
  by (simp add: seed_offers_def seed_offer_def offers_table_def step_eval seed_constraints seed_facts holds_simps assms(1-5)
      cong: step_congs holds_cong)

lemma run_orders:
  assumes "sb_recipients s = []" "sb_orders s = []" "sb_lines s = []" "sb_accounts s = []" "sb_transactions s = []" "sb_tick s = 95"
    and "us = [u0, u1, u2, u3]" "map us_id us = [42, 45, 48, 51]" "list_all (\<lambda>u. us_lastName u = Some ''Seeded'') us"
    and "map us_firstName us = map (\<lambda>i. Some (seed_firstName i)) [2, 3, 4, 5]"
    and "os = [o0, o1, o2, o3, o4, o5, o6, o7, o8, o9]" "map so_id os = [86, 87, 88, 89, 90, 91, 92, 93, 94, 95]"
    and "map so_price os = [10000, 12500, 15000, 17500, 20000, 22500, 25000, 27500, 30000, 32500]"
    and "map so_discountPrice os = [Some 9000, None, None, Some 16500, None, None, Some 24000, None, None, Some 31500]"
  shows "holds (\<lambda>_ t. t = s\<lparr>sb_recipients := sb_recipients t, sb_orders := sb_orders t, sb_lines := sb_lines t,
        sb_accounts := sb_accounts t, sb_transactions := sb_transactions t, sb_tick := 149\<rparr>
    \<and> map or_totalAmount (sb_orders t) = [27500, 32500, 37500, 42500, 47500, 52500, 57500, 37500, 42500, 47500]
    \<and> map or_userId (sb_orders t) = [42, 45, 48, 51, 42, 45, 48, 51, 42, 45]
    \<and> list_all (\<lambda>r. or_ownerIdentityPublicId r = None) (sb_orders t) \<and> length (sb_lines t) = 20 \<and> length (sb_transactions t) = 10
    \<and> map (\<lambda>a. (ac_customerId a, ac_balance a)) (sb_accounts t) = [(42, - 70000), (45, - 85000), (48, - 95000), (51, - 80000)])
    (and_then (for_each [0..<ORDERS] (seed_order us os)) (\<lambda>_. recompute_balances) demo_seed_env s)"
  using assms(8-10) assms(12-14) unfolding assms(7,11)
  by (simp add: seed_order_def seed_new_order_def seed_recipient_def seed_order_details_def seed_line_def open_account_row_def
      seed_payment_def recompute_balances_def customers_of_def ledger_sum_def signed_amount_def recipients_table_def orders_table_def lines_table_def
      transactions_table_def step_eval seed_constraints seed_facts holds_simps assms(1-6) cong: step_congs holds_cong)

subsection \<open>The first run\<close>

lemma holds_Inr: "holds P r \<Longrightarrow> \<exists>x s. r = Inr (x, s) \<and> P x s"
  by (cases r) (auto simp: holds_def)

lemma seed_first_result:
  "\<exists>t. seed demo_seed_env empty_seed_db = Inr ((), t) \<and> seed_counts t = [6, 12, 5, 10, 6, 6, 2, 8, 16, 8, 10, 10, 20, 10]
    \<and> map or_totalAmount (sb_orders t) = [27500, 32500, 37500, 42500, 47500, 52500, 57500, 37500, 42500, 47500]
    \<and> list_all (\<lambda>r. or_ownerIdentityPublicId r = None) (sb_orders t)
    \<and> map (\<lambda>a. (ac_customerId a, ac_balance a)) (sb_accounts t) = [(42, - 70000), (45, - 85000), (48, - 95000), (51, - 80000)]"
proof -
  note empty = empty_seed_db_def
  obtain cs cts c0 c1 c2 c3 c4 c5 t1 where categories: "seed_categories demo_seed_env empty_seed_db = Inr (cs, t1)"
    and t1: "t1 = empty_seed_db\<lparr>sb_categories := cs, sb_categoryTranslations := cts, sb_tick := 18\<rparr>" "length cts = 12"
    and cs: "cs = [c0, c1, c2, c3, c4, c5]"
    using holds_Inr[OF run_categories[of empty_seed_db]] by (force simp: empty map_eq_Cons_conv)
  obtain bs bts b0 b1 b2 b3 b4 t2 where brands: "seed_brands demo_seed_env t1 = Inr (bs, t2)"
    and t2: "t2 = t1\<lparr>sb_brands := bs, sb_brandTranslations := bts, sb_tick := 33\<rparr>" "length bts = 10"
    and bs: "bs = [b0, b1, b2, b3, b4]"
    using holds_Inr[OF run_brands[of t1]] by (force simp: t1 empty map_eq_Cons_conv)
  obtain us ids ads u0 u1 u2 u3 u4 u5 t3 where users: "seed_users demo_seed_env t2 = Inr (us, t3)"
    and t3: "t3 = t2\<lparr>sb_identities := ids, sb_addresses := ads, sb_users := us, sb_tick := 51\<rparr>" "length ids = 6"
    and us: "us = [u0, u1, u2, u3, u4, u5]" and u: "us_id u0 = 36" "us_id u1 = 39" "map us_id [u2, u3, u4, u5] = [42, 45, 48, 51]"
      "map us_firstName [u2, u3, u4, u5] = map (\<lambda>i. Some (seed_firstName i)) [2, 3, 4, 5]"
      "list_all (\<lambda>u. us_lastName u = Some ''Seeded'') [u2, u3, u4, u5]"
    using holds_Inr[OF run_users[of t2]] by (force simp: t2 t1 empty map_eq_Cons_conv)
  obtain t4 where active: "activate_identities demo_seed_env t3 = Inr ((), t4)"
    and t4: "t4 = t3\<lparr>sb_identities := activate (sv_now demo_seed_env 51) ids\<rparr>"
    by (simp add: activate_identities_rows t3)
  obtain ss x y t5 where sellers: "seed_sellers [u0, u1] demo_seed_env t4 = Inr (ss, t5)"
    and t5: "t5 = t4\<lparr>sb_sellers := ss, sb_tick := 53\<rparr>" and ss: "ss = [x, y]" "rw_id x = 52" "rw_id y = 53"
    using holds_Inr[OF run_sellers[of u0 u1 t4]] u by (force simp: t4 t3 t2 t1 empty map_eq_Cons_conv)
  obtain vs ps pts v0 v1 v2 v3 v4 v5 v6 v7 t6 where products: "seed_products cs bs demo_seed_env t5 = Inr (vs, t6)"
    and t6: "t6 = t5\<lparr>sb_products := ps, sb_productTranslations := pts, sb_variants := vs, sb_tick := 85\<rparr>" "length ps = 8" "length pts = 16"
    and vs: "vs = [v0, v1, v2, v3, v4, v5, v6, v7]" "map rw_id vs = [57, 61, 65, 69, 73, 77, 81, 85]"
    using holds_Inr[OF run_products[of t5, OF _ _ _ _ cs bs]] by (force simp: t5 t4 t3 t2 t1 empty map_eq_Cons_conv)
  obtain os t7 where offers: "seed_offers ss vs demo_seed_env t6 = Inr (os, t7)" and t7: "t7 = t6\<lparr>sb_offers := os, sb_tick := 95\<rparr>"
    and os: "map so_id os = [86, 87, 88, 89, 90, 91, 92, 93, 94, 95]"
      "map so_price os = [10000, 12500, 15000, 17500, 20000, 22500, 25000, 27500, 30000, 32500]"
      "map so_discountPrice os = [Some 9000, None, None, Some 16500, None, None, Some 24000, None, None, Some 31500]"
    using holds_Inr[OF run_offers[of t6 x y, OF _ _ _ ss(2,3) vs]] by (force simp: ss(1) t6 t5 t4 t3 t2 t1 empty)
  obtain o0 o1 o2 o3 o4 o5 o6 o7 o8 o9 where os': "os = [o0, o1, o2, o3, o4, o5, o6, o7, o8, o9]"
    using os(1) by (auto simp: map_eq_Cons_conv)
  obtain rs rows ls accs trs t8 where
      orders: "and_then (for_each [0..<ORDERS] (seed_order [u2, u3, u4, u5] os)) (\<lambda>_. recompute_balances) demo_seed_env t7 = Inr ((), t8)"
    and t8: "t8 = t7\<lparr>sb_recipients := rs, sb_orders := rows, sb_lines := ls, sb_accounts := accs, sb_transactions := trs, sb_tick := 149\<rparr>"
      "length ls = 20" "length trs = 10"
      "map or_totalAmount rows = [27500, 32500, 37500, 42500, 47500, 52500, 57500, 37500, 42500, 47500]"
      "list_all (\<lambda>r. or_ownerIdentityPublicId r = None) rows"
      "map (\<lambda>a. (ac_customerId a, ac_balance a)) accs = [(42, - 70000), (45, - 85000), (48, - 95000), (51, - 80000)]"
    using holds_Inr[OF run_orders[of t7, OF _ _ _ _ _ _ refl u(3,5,4) os' os]] by (force simp: t7 t6 t5 t4 t3 t2 t1 empty)
  have "take SELLERS us = [u0, u1]" "drop SELLERS us = [u2, u3, u4, u5]" by (simp_all add: us SELLERS_def)
  with categories brands users active sellers products offers orders have "seed demo_seed_env empty_seed_db = Inr ((), t8)"
    by (simp add: seed_def and_then_def)
  moreover have "length rows = 10" using arg_cong[OF t8(4), of length] by simp
  moreover have "length os = 10" "length ss = 2" "length vs = 8" "length us = 6" "length bs = 5" "length cs = 6"
    by (simp_all add: os' ss(1) vs(1) us bs cs)
  ultimately show ?thesis
    using t8(2-) t6(2-) t3(2-) t2(2-) t1(2-)
    by (intro exI[of _ t8])
      (simp add: t8(1) t7 t6(1) t5 t4 t3(1) t2(1) t1(1) seed_counts_def activate_def empty)
qed

text \<open>Every buyer starts below zero: the invariant of the account service fails for the seeded accounts.\<close>

lemma overdrawn_account:
  "map (\<lambda>a. (ac_customerId a, ac_balance a)) accs = (k, b) # xs \<Longrightarrow> b < 0
    \<Longrightarrow> \<not> account_inv \<lparr>ad_accounts = accs, ad_transactions = ts, ad_inbox = inbox\<rparr>"
  by (cases accs) (simp_all add: account_inv_def)

lemma seeded_accounts_overdrawn:
  "\<exists>t. seed demo_seed_env empty_seed_db = Inr ((), t)
    \<and> \<not> account_inv \<lparr>ad_accounts = sb_accounts t, ad_transactions = sb_transactions t, ad_inbox = []\<rparr>"
proof -
  from seed_first_result obtain t where run: "seed demo_seed_env empty_seed_db = Inr ((), t)"
    and balances: "map (\<lambda>a. (ac_customerId a, ac_balance a)) (sb_accounts t) = [(42, - 70000), (45, - 85000), (48, - 95000), (51, - 80000)]"
    by (elim exE conjE) (rule that)
  from overdrawn_account[OF balances] run show ?thesis by (intro exI[of _ t]) simp
qed

theorem seed_idempotent_witness:
  "\<exists>t. seed demo_seed_env empty_seed_db = Inr ((), t)
    \<and> seed (demo_seed_env\<lparr>sv_now := \<lambda>n. 1800000000000\<rparr>) t = Inr ((), t\<lparr>sb_accounts :=
        update_where (\<lambda>a. ac_customerId a \<in> set (customers_of (sb_transactions t))) (\<lambda>a. a\<lparr>ac_updatedAt := 1800000000000\<rparr>) (sb_accounts t)\<rparr>)"
proof -
  have "hashes demo_seed_env" by (simp add: hashes_def starts_with_def demo_seed_env_def)
  moreover have "linked empty_seed_db" by (simp add: linked_def empty_seed_db_def)
  moreover from seed_first_result obtain t where "seed demo_seed_env empty_seed_db = Inr ((), t)" by (elim exE conjE) (rule that)
  ultimately show ?thesis
    using seed_idempotent[of demo_seed_env empty_seed_db t "demo_seed_env\<lparr>sv_now := \<lambda>n. 1800000000000\<rparr>"]
    by (intro exI[of _ t]) simp
qed

end
