(* ===== verification/Spec2Isabelle.thy ===== *)
theory Spec2Isabelle
  imports Order_Saga Identity_Entry Order_Api Rate_Limit Event_Consumers Db_Retry Cache Platform Catalog
    Migration_Chain Migration_Data Seed_Run
begin

text \<open>
  \<^bold>\<open>Verification of the marketplace API\<close>

  The program is a NestJS application of several contexts that talk only by messages: identity, user,
  account, seller-offer and order, on Postgres, Redis, RabbitMQ, Kafka and Temporal. A registration writes
  an event that travels over Kafka to the user service, whose own event opens the account and the buyer. An
  order is written together with an event and a request for a workflow; the workflow reserves stock and
  charges the customer by request and reply over RabbitMQ, and compensates when one of them fails. Relays move
  outbox rows to Kafka and Temporal; an in-memory service streams the status of an order to its clients.

  \<^bold>\<open>Theories and sources\<close> (paths below \<open>src/src\<close> unless they start with \<open>packages\<close>)

  \<^item> \<open>Prelude\<close>: errors of the database, transactions (\<open>transactional\<close>), column types, tables as lists of rows
    with the statements the repositories issue, JSON values, replies. \<open>Js_Number\<close>: decimal texts, doubles as the
    rationals they stand for with rounding of sums and products, \<open>Number\<close>, \<open>toFixed\<close>, \<open>toISOString\<close>.
  \<^item> \<open>Contracts\<close>: \<open>packages/contracts-core\<close> and \<open>packages/messaging-contracts\<close>, enumerations, the
    CloudEvents envelope, message contracts and their data.
  \<^item> \<open>Seller_Offer\<close>: \<open>seller-offer\<close>; reserving and releasing stock, the RabbitMQ gateway.
  \<^item> \<open>Account\<close>: \<open>account\<close>; balances, transactions, the inbox, charges and refunds, both gateways.
  \<^item> \<open>Outbox\<close>: the four outbox tables of identity, user and order, their repositories and relays, and
    \<open>generic/kafka/kafka-producer.service.ts\<close>.
  \<^item> \<open>Order_Core\<close>: \<open>order/command-handler\<close>, \<open>order/repository\<close>, \<open>order/service/order-place-message.service.ts\<close> and the
    two activities that end an order. \<open>Order_Workflow\<close>: \<open>order/workflow\<close> and \<open>order/activity\<close> with the retries of
    Temporal, in a world that holds the tables of the three services. \<open>Order_Saga\<close>: what a whole workflow does to them.
  \<^item> \<open>Order_Notify\<close>: the status stream, the order gateways of Kafka and the access checks. \<open>Order_Api\<close>: the routes of
    \<open>order/controller/order.controller.ts\<close> behind the guards.
  \<^item> \<open>Auth\<close>: \<open>generic/auth\<close>; verification of access tokens, denylist, guards, abilities, verification keys.
  \<^item> \<open>Identity\<close>, \<open>Identity_Oidc\<close>: \<open>identity\<close>; tables, tokens, the handlers for passwords and for external
    sign-in. \<open>Identity_Sessions\<close>: the abstract machine of token families and the histories of the service.
    \<open>Identity_Safety\<close>, \<open>Identity_Entry\<close>: the properties of sessions and of the ways in.
  \<^item> \<open>User\<close>: \<open>user\<close>. \<open>Provisioning\<close>: the events of all producers against the schemas of all consumers, and the chain from a
    registration to the buyer.
  \<^item> \<open>Kafka_Consumer\<close>: \<open>generic/kafka/kafka-consumer.service.ts\<close>. \<open>Event_Consumers\<close>: the gateways as its handlers.
  \<^item> \<open>Db_Retry\<close>: \<open>generic/db\<close>. \<open>Cache\<close>: \<open>generic/cache\<close>. \<open>Rate_Limit\<close>: \<open>generic/rate-limit\<close>. \<open>Platform\<close>:
    \<open>generic/secret-manager\<close> and \<open>generic/queue\<close>. \<open>Catalog\<close>: \<open>product\<close>.
  \<^item> \<open>Ddl\<close>: database schemas and the statements of the migrations, executed on them. \<open>Names\<close>: the identifiers, as numbers.
    \<open>Migrations\<close>: \<open>migrations\<close>, the statements of every \<open>up\<close> and \<open>down\<close>. \<open>Entities\<close>: all \<open>*.entity.ts\<close> as their decorators declare
    them. \<open>Migration_Chain\<close>: all migrations run and reverted, and the tables against the entities. \<open>Migration_Data\<close>: the
    rows that the migrations with data compute.
  \<^item> \<open>Seed\<close>, \<open>Seed_Run\<close>: \<open>seed.ts\<close> and its run on a fresh database.

  Definitions keep the names of the code, \<open>Class_method\<close>. A row is a record, a table a list of rows, a handler a
  function from the tables to an error or to a result and new tables. Each request takes from an environment record what
  the clock, the database and the random generators supply.

  \<^bold>\<open>What is proved\<close>

  \<^item> Stock and money: \<open>reservedQuantity\<close> is the sum of the active reservations, a balance is the sum of its transactions,
    whatever messages arrive; every message is decided exactly; errors change nothing; redeliveries of an order's charge and
    refund settle to the same balance.
  \<^item> Orders: what placing one writes, that its totals are exact although computed in doubles, that a key places it once, that it
    ends once, that only its owner and staff read it.
  \<^item> The workflow, over every script of losses, timeouts and redeliveries: paid means charged once and reserved once; failed
    means the money and (unless a reservation is handled during the compensation) the stock are back; it returns once the services
    answer, such reservations included. Two theorems show its limits, a total of zero and a reservation that arrives after its
    release. A script interleaves the messages of its own order; other orders and operators do not act in between.
  \<^item> Events: an outbox row is in Kafka or still waiting; a batch is a prefix in order; a workflow starts with the request of its row, once
    unless Temporal forgot its closed execution while the row was still waiting; events fit the schemas of their consumers; an event a
    consumer moved past has its row, with both ids, or lies under the dead-letter topic, where the producers pair the ids one to one;
    a registration provisions its buyer; a stream of an order shows every event once.
  \<^item> Sessions: every history refines a machine in which a family of refresh tokens is open with one current token or closed for good;
    rotation, reuse, logout, denylist; a login opens exactly the live identity whose registered password it brings; every outcome of a
    registration, the rows that the table refuses included; external sign-in; the guards.
  \<^item> Infrastructure: retried transactions are atomic and end; the rate limit is an exact sliding window; the cache serves the
    new value, on a hit through JSON, after an eviction with no load in flight, and may serve the old one otherwise; a failed sign-in to the vault is
    never repeated; a product is created with all its translations or not at all.
  \<^item> Database: every migration runs on what its predecessors built and its \<open>down\<close> restores that; the tables that result are those the
    entities declare; the stock levels, balances and owners that migrations compute satisfy the invariants of the services that take
    them over. A second run of the seed changes nothing but \<open>Account.updatedAt\<close>; the accounts it leaves are overdrawn.

  Interfaces are locales: \<open>growth\<close> (how the steps of the seed may change the database),
  \<open>outbox_repository\<close> (claimed rows) and \<open>outbox_relay\<close> on top of it (rows and a broker),
  \<open>repeatable\<close> operations and \<open>retried\<close> activities, \<open>event_effect\<close> (what a consumer needs of a handler). Each is interpreted on the definitions of the model that provide it.

  \<^bold>\<open>Bounds, fuel and outcomes\<close>

  No function needs fuel. The migrations are evaluated by the simplifier in the kernel, once (\<open>chain_checked\<close>, some minutes), with
  congruences that evaluate each statement before the next; so is the seed, phase by phase. A broker, Temporal, Redis or the vault is a finite script of outcomes, after which it works: a retry loop without
  bound (\<open>run_forever\<close>) is \<open>None\<close> when the script never lets it end, and liveness is proved from the script. A loop of the code with a
  counter (\<open>retry_loop\<close>) terminates by a measure. Integers of Postgres are integers with the range
  check of the column; doubles are rationals rounded after each operation.

  \<^bold>\<open>Assumptions\<close>

  \<^item> Third-party code is a parameter: the uuid checks of class-validator and zod, email checks, \<open>argon2\<close> (\<open>argon2_documented\<close>: a hash it
    made verifies exactly its password; on other texts it may throw), the signatures of \<open>jose\<close> (\<open>jwtVerify_documented\<close>, on the
    payloads the service signs), the HMAC, \<open>openid-client\<close>, \<open>casl\<close> (\<open>casl_documented\<close>), the framework's pipes.
  \<^item> \<open>JSON.stringify\<close> and \<open>JSON.parse\<close> are parameters of the cache, with nothing assumed, and \<open>JSON.parse\<close> of the consumer;
    elsewhere messages are JSON values.
  \<^item> Temporal is what its documentation says of a start request: conflict and reuse policy, open and closed executions, retention
    (\<open>temporal_execute\<close>); calls can fail before or after the server acted.
  \<^item> A uuid column keeps the text it was given: the texts are taken to be in lower-case canonical form, as the program generates them.
  \<^item> Transactions on the same rows run one after the other, which row locks, unique indexes and the advisory locks of the code
    provide; \<open>Db_Retry\<close> shows what the adapter adds. Interleavings between transactions, messages and processes are explicit.
  \<^item> Characters are bytes: the blank characters of \<open>\S\<close> are those of Latin-1.

  \<^bold>\<open>Not modelled\<close>

  Scripts for operators (files and the vault); connections, topology declarations and workers (calls into client libraries);
  environment parsing and start-up; response objects and their validation (class-transformer); the routes of identity beyond
  their handlers (cookies, redirects); the bodies of checks, triggers and generated columns in the migrations, which are compared but
  not evaluated; logging.
\<close>

end
